(* ===== verification/Prelude.thy ===== *)
theory Prelude
  imports Main "HOL-Library.AList" "HOL-Library.Sublist" "HOL-Library.Word"
    "HOL-Library.Char_ord" "HOL-Library.List_Lexorder" "HOL-Library.Product_Lexorder"
begin

text \<open>
  What the components share: the parts of Go's language and standard library that
  \<^verbatim>\<open>src/internal/store\<close> uses (strings as byte strings, \<^verbatim>\<open>strings.TrimSpace\<close>,
  \<^verbatim>\<open>strings.ToLower\<close>, \<^verbatim>\<open>strings.EqualFold\<close>, \<^verbatim>\<open>time.Time\<close>, maps, optional
  pointers), the error values of the package, the result type of its methods, the interface
  locales that the components instantiate, and the lemma collections their proofs use.

  \<^item> A Go string is a \<^typ>\<open>string\<close>, one \<^typ>\<open>char\<close> per byte.
  \<^item> A \<^verbatim>\<open>time.Time\<close> is its instant, a number of nanoseconds since Go's zero time, so
    \<^verbatim>\<open>IsZero\<close> is equality with 0, \<^verbatim>\<open>Equal\<close>/\<^verbatim>\<open>Before\<close>/\<^verbatim>\<open>After\<close> are the
    comparisons of integers and \<^verbatim>\<open>UTC\<close> is the identity.
  \<^item> A \<^verbatim>\<open>*T\<close> that may be nil is an option.
  \<^item> A Go map is an association list with distinct keys. Go leaves the order of \<^verbatim>\<open>range\<close>
    open; the model visits the entries in list order and the theorems hold for every list, so
    for every order. A nil map that is only read behaves like the empty one.
  \<^item> A method on a store is a function to its result (an error or a value) and the new store.
    Readings of the clock and fresh identifiers are arguments.
\<close>

named_theorems gomap_simps \<open>equations of the map operations\<close>
named_theorems op_defs \<open>definitions of the operations of the stores\<close>
named_theorems wf_intros \<open>preservation of well-formedness\<close>
named_theorems ensures_rules \<open>decomposition of a successful operation along its guards\<close>
named_theorems settled_rules \<open>decomposition of an operation that refuses without a trace\<close>
named_theorems outcome_rules \<open>decomposition of an operation along its guards\<close>

subsection \<open>Strings\<close>

text \<open>The UTF-8 encodings of the code points for which \<^verbatim>\<open>unicode.IsSpace\<close> holds.\<close>

definition space_runes :: "string list" where
  "space_runes =
     [[CHR 0x20], [CHR 0x09], [CHR 0x0A], [CHR 0x0B], [CHR 0x0C], [CHR 0x0D],
      [CHR 0xC2, CHR 0x85], [CHR 0xC2, CHR 0xA0],
      [CHR 0xE1, CHR 0x9A, CHR 0x80],
      [CHR 0xE2, CHR 0x80, CHR 0x80], [CHR 0xE2, CHR 0x80, CHR 0x81],
      [CHR 0xE2, CHR 0x80, CHR 0x82], [CHR 0xE2, CHR 0x80, CHR 0x83],
      [CHR 0xE2, CHR 0x80, CHR 0x84], [CHR 0xE2, CHR 0x80, CHR 0x85],
      [CHR 0xE2, CHR 0x80, CHR 0x86], [CHR 0xE2, CHR 0x80, CHR 0x87],
      [CHR 0xE2, CHR 0x80, CHR 0x88], [CHR 0xE2, CHR 0x80, CHR 0x89],
      [CHR 0xE2, CHR 0x80, CHR 0x8A], [CHR 0xE2, CHR 0x80, CHR 0xA8],
      [CHR 0xE2, CHR 0x80, CHR 0xA9], [CHR 0xE2, CHR 0x80, CHR 0xAF],
      [CHR 0xE2, CHR 0x81, CHR 0x9F], [CHR 0xE3, CHR 0x80, CHR 0x80]]"

text \<open>Remove leading occurrences of the patterns as long as one of them is a prefix.\<close>

function strip :: "string list \<Rightarrow> string \<Rightarrow> string" where
  "strip ps s =
     (case find (\<lambda>p. p \<noteq> [] \<and> prefix p s) ps of
        None \<Rightarrow> s
      | Some p \<Rightarrow> strip ps (drop (length p) s))"
  by pat_completeness auto
termination
proof (relation "measure (\<lambda>(ps, s). length s)")
  fix ps s p
  assume "find (\<lambda>p. p \<noteq> [] \<and> prefix p s) ps = Some p"
  then have "p \<noteq> [] \<and> prefix p s"
    by (auto simp: find_Some_iff)
  then show "((ps, drop (length p) s), ps, s) \<in> measure (\<lambda>(ps, s). length s)"
    by (auto simp: prefix_def)
qed simp

declare strip.simps [simp del]

definition trimSpace :: "string \<Rightarrow> string" where
  "trimSpace s = rev (strip (map rev space_runes) (rev (strip space_runes s)))"

lemma strip_fixpoint: "\<forall>p \<in> set ps. p \<noteq> [] \<longrightarrow> \<not> prefix p (strip ps s)"
proof (induction ps s rule: strip.induct)
  case (1 ps s)
  show ?case
  proof (cases "find (\<lambda>p. p \<noteq> [] \<and> prefix p s) ps")
    case None
    then have "strip ps s = s" by (subst strip.simps) simp
    with None show ?thesis by (auto simp: find_None_iff)
  next
    case (Some p)
    then have "strip ps s = strip ps (drop (length p) s)" by (subst strip.simps) simp
    with "1" [OF Some] show ?thesis by simp
  qed
qed

lemma strip_stops: "(\<And>p. p \<in> set ps \<Longrightarrow> p \<noteq> [] \<Longrightarrow> \<not> prefix p s) \<Longrightarrow> strip ps s = s"
  by (subst strip.simps) (auto split: option.split simp: find_Some_iff)

lemma strip_idem: "strip ps (strip ps s) = strip ps s"
  using strip_fixpoint by (intro strip_stops) blast

lemma suffix_strip: "suffix (strip ps s) s"
proof (induction ps s rule: strip.induct)
  case (1 ps s)
  show ?case
  proof (cases "find (\<lambda>p. p \<noteq> [] \<and> prefix p s) ps")
    case None
    then show ?thesis by (subst strip.simps) simp
  next
    case (Some p)
    with "1" [OF Some] have "suffix (strip ps (drop (length p) s)) s"
      using suffix_drop suffix_order.trans by blast
    with Some show ?thesis by (subst strip.simps) simp
  qed
qed

lemma trimSpace_idem [simp]: "trimSpace (trimSpace s) = trimSpace s"
proof -
  let ?l = "strip space_runes s" and ?r = "\<lambda>u. rev (strip (map rev space_runes) (rev u))"
  have "prefix (?r ?l) ?l"
    using suffix_strip [of "map rev space_runes" "rev ?l"] by (simp add: suffix_to_prefix)
  then have "strip space_runes (?r ?l) = ?r ?l"
    using strip_fixpoint [of space_runes s] prefix_order.trans
    by (intro strip_stops) blast
  then show ?thesis by (simp add: trimSpace_def strip_idem)
qed

lemma trimSpace_Nil [simp]: "trimSpace [] = []"
  by (simp add: trimSpace_def strip.simps space_runes_def)

text \<open>Printable ASCII has nothing to trim.\<close>

definition plain :: "char \<Rightarrow> bool" where
  "plain c \<longleftrightarrow> (32::nat) < of_char c \<and> of_char c < (128::nat)"

lemma runes_not_plain:
  "p \<in> set space_runes \<Longrightarrow> p \<noteq> [] \<and> \<not> plain (hd p) \<and> \<not> plain (last p)"
  unfolding space_runes_def plain_def by (auto simp: of_char_Char)

lemma strip_plain: "\<forall>p \<in> set ps. \<not> plain (hd p) \<Longrightarrow> list_all plain s \<Longrightarrow> strip ps s = s"
  by (intro strip_stops) (auto simp: prefix_def list_all_iff dest!: bspec split: list.splits)

lemma trimSpace_plain: "list_all plain s \<Longrightarrow> trimSpace s = s"
  using runes_not_plain by (simp add: trimSpace_def strip_plain hd_rev)

lemma trimSpace_ends:
  assumes "s \<noteq> []" and "plain (hd s)" and "plain (last s)"
  shows "trimSpace s = s"
proof -
  have "strip ps t = t" if "\<forall>p \<in> set ps. \<not> plain (hd p)" "t \<noteq> []" "plain (hd t)" for ps t
    using that by (intro strip_stops) (auto simp: prefix_def)
  then show ?thesis using runes_not_plain assms by (simp add: trimSpace_def hd_rev)
qed

lemma plain_ranges:
  "CHR ''a'' \<le> c \<Longrightarrow> c \<le> CHR ''z'' \<Longrightarrow> plain c" "CHR ''A'' \<le> c \<Longrightarrow> c \<le> CHR ''Z'' \<Longrightarrow> plain c"
  "CHR ''0'' \<le> c \<Longrightarrow> c \<le> CHR ''9'' \<Longrightarrow> plain c" "plain CHR ''-''" "plain CHR ''_''"
  by (auto simp: plain_def less_eq_char_def of_char_Char)

text \<open>
  \<^verbatim>\<open>strings.ToLower\<close> and \<^verbatim>\<open>strings.EqualFold\<close>: ASCII letters, and the code points
  outside ASCII whose image is an ASCII letter (the Kelvin sign, the dotted capital I, the long
  s). Other bytes outside ASCII stay as they are. They never turn into ASCII, so every comparison
  with a literal of the program has the source's outcome.
\<close>

definition ascii_lower :: "char \<Rightarrow> char" where
  "ascii_lower c =
     (let n = of_char c :: nat in if 65 \<le> n \<and> n \<le> 90 then char_of (n + 32) else c)"

function fold_case :: "(string \<times> char) list \<Rightarrow> string \<Rightarrow> string" where
  "fold_case sp [] = []"
| "fold_case sp (c # cs) =
     (case find (\<lambda>(p, _). p \<noteq> [] \<and> prefix p (c # cs)) sp of
        None \<Rightarrow> ascii_lower c # fold_case sp cs
      | Some (p, d) \<Rightarrow> d # fold_case sp (drop (length p) (c # cs)))"
  by pat_completeness auto
termination
proof (relation "measure (\<lambda>(sp, s). length s)")
  fix sp c cs x p d
  assume "find (\<lambda>(p, _). p \<noteq> [] \<and> prefix p (c # cs)) sp = Some x" and "(p, d) = x"
  then have "p \<noteq> []"
    by (auto simp: find_Some_iff)
  then show "((sp, drop (length p) (c # cs)), sp, c # cs) \<in> measure (\<lambda>(sp, s). length s)"
    by (cases p) auto
qed auto

definition toLower :: "string \<Rightarrow> string" where
  "toLower = fold_case
     [([CHR 0xE2, CHR 0x84, CHR 0xAA], CHR ''k''), ([CHR 0xC4, CHR 0xB0], CHR ''i'')]"

definition equalFold :: "string \<Rightarrow> string \<Rightarrow> bool" where
  "equalFold s t \<longleftrightarrow>
     (let f = fold_case
        [([CHR 0xE2, CHR 0x84, CHR 0xAA], CHR ''k''), ([CHR 0xC5, CHR 0xBF], CHR ''s'')]
      in f s = f t)"

lemma equalFold_refl [simp]: "equalFold s s"
  by (simp add: equalFold_def)

lemma equalFold_sym: "equalFold s t \<longleftrightarrow> equalFold t s"
  by (auto simp: equalFold_def Let_def)

lemma equalFold_trans: "equalFold s t \<Longrightarrow> equalFold t u \<Longrightarrow> equalFold s u"
  by (simp add: equalFold_def Let_def)

text \<open>\<^verbatim>\<open>strings.HasPrefix\<close>, \<^verbatim>\<open>strings.Contains\<close>, \<^verbatim>\<open>strings.ContainsAny\<close> on ASCII sets.\<close>

definition contains :: "string \<Rightarrow> string \<Rightarrow> bool" where
  "contains s sub \<longleftrightarrow> list_ex (prefix sub) (suffixes s)"

definition containsAny :: "string \<Rightarrow> string \<Rightarrow> bool" where
  "containsAny s cs \<longleftrightarrow> list_ex (\<lambda>c. c \<in> set cs) s"

text \<open>\<^verbatim>\<open>strings.Split\<close> at a one-byte separator.\<close>

fun splitOn :: "char \<Rightarrow> string \<Rightarrow> string list" where
  "splitOn c [] = [[]]"
| "splitOn c (x # xs) =
     (if x = c then [] # splitOn c xs
      else case splitOn c xs of [] \<Rightarrow> [[x]] | p # ps \<Rightarrow> (x # p) # ps)"

lemma splitOn_not_Nil [simp]: "splitOn c s \<noteq> []"
  by (cases s) (auto split: list.split)

lemma splitOn_no_sep: "c \<notin> set s \<Longrightarrow> splitOn c s = [s]"
  by (induction s) auto

lemma splitOn_append_sep:
  "c \<notin> set s \<Longrightarrow> splitOn c (s @ c # t) = s # splitOn c t"
  by (induction s) auto

lemma splitOn_hd: "c \<notin> set s \<Longrightarrow> hd (splitOn c (s @ c # t)) = s"
  by (simp add: splitOn_append_sep)

definition NUL :: char where
  "NUL = CHR 0x00"

subsection \<open>Time\<close>

type_synonym time = int

abbreviation isZero :: "time \<Rightarrow> bool" where
  "isZero t \<equiv> t = 0"

definition microsecond :: time where
  "microsecond = 1000"

definition second :: time where
  "second = 1000000000"

text \<open>\<^verbatim>\<open>t.Truncate(time.Microsecond)\<close>.\<close>

definition truncate_us :: "time \<Rightarrow> time" where
  "truncate_us t = t - t mod microsecond"

lemma truncate_us_le: "truncate_us t \<le> t"
  by (simp add: truncate_us_def microsecond_def)

text \<open>\<^verbatim>\<open>cloneTimePtr\<close>: nil for nil and for the zero time.\<close>

definition cloneTimePtr :: "time option \<Rightarrow> time option" where
  "cloneTimePtr v = (case v of None \<Rightarrow> None | Some t \<Rightarrow> if isZero t then None else Some t)"

lemma cloneTimePtr_Some: "cloneTimePtr v = Some t \<longleftrightarrow> v = Some t \<and> t \<noteq> 0"
  by (auto simp: cloneTimePtr_def split: option.splits)

definition timePtrUTC :: "time \<Rightarrow> time option" where
  "timePtrUTC t = (if isZero t then None else Some t)"

subsection \<open>Values of type any\<close>

text \<open>
  The dynamic values the stores keep in \<^verbatim>\<open>map[string]any\<close>: what a JSON body decodes to. A
  \<^verbatim>\<open>float64\<close> is kept as its 64-bit pattern: the stores copy such numbers and never compute
  with them. An \<^verbatim>\<open>int\<close> put into such a map is kept as its 64-bit pattern too.
\<close>

type_synonym float64 = "64 word"

datatype any = ANil | ABool bool | AStr string | ANum float64 | AArr "any list" | AObj "(string \<times> any) list"

lemma size_any_entry: "x \<in> set m \<Longrightarrow> size (snd x) < size (AObj m)"
  by (induction m) auto

lemma size_any_item: "x \<in> set xs \<Longrightarrow> size x < size (AArr xs)"
  by (induction xs) auto

subsection \<open>Errors and results\<close>

text \<open>
  One constructor per error variable of the package; \<open>ErrOther\<close> carries the text of an error
  made in place by \<^verbatim>\<open>errors.New\<close>, \<open>ErrContext\<close> is what \<^verbatim>\<open>ctx.Err()\<close> returned.
\<close>

datatype store_error =
    ErrContext
  | ErrNotFound
  | ErrForbidden
  | ErrUnauthorized
  | ErrConflict
  | ErrAlreadyExists
  | ErrInvalidStreamArtifact
  | ErrInvalidServiceRegistration
  | ErrInvalidServiceScope
  | ErrInvalidServiceStreamEvent
  | ErrInvalidServiceAssignment
  | ErrTwoPhaseConfigureRequired
  | ErrServiceAssignmentConflict
  | ErrServiceAssignmentProtectedStream
  | ErrServiceUnassignProtectedStream
  | ErrServiceAssignmentGuardUnavailable
  | ErrInvalidYouTubeRelayBindingClaim
  | ErrYouTubeRelayBindingClaimConflict
  | ErrYouTubeRelayBindingClaimProfileRevisionConflict
  | ErrYouTubeRelayBindingClaimStreamOutputConflict
  | ErrYouTubeRelayBindingClaimState
  | ErrYouTubeRelayBindingClaimActive
  | ErrInvalidDiscordYouTubeLiveNotification
  | ErrDiscordYouTubeLiveNotificationClaimLost
  | ErrDiscordYouTubeLiveNotificationRecoveryGone
  | ErrDiscordYouTubeLiveNotificationRecoveryUsed
  | ErrRuntimeSecretLeaseActive
  | ErrInvalidRuntimeSecretLease
  | ErrInvalidRemediationExecution
  | ErrProfileRawSecretConfig
  | ErrLastSuperAdmin
  | ErrInvalidSettings
  | ErrUnknownPermission
  | ErrNodeTokenSealerRequired
  | ErrSystemUpdateRuntimeTokenRotationSharedToken
  | ErrOther string

type_synonym 'a result = "store_error + 'a"
type_synonym ('a, 's) outcome = "'a result \<times> 's"

text \<open>The context argument: what \<^verbatim>\<open>ctx.Err()\<close> returns, nil or an error.\<close>

type_synonym ctx = "store_error option"

definition with_ctx :: "ctx \<Rightarrow> ('s \<Rightarrow> ('a, 's) outcome) \<Rightarrow> 's \<Rightarrow> ('a, 's) outcome" where
  "with_ctx c k s = (case c of Some e \<Rightarrow> (Inl e, s) | None \<Rightarrow> k s)"

lemma with_ctx_simps [simp]:
  "with_ctx None k s = k s"
  "with_ctx (Some e) k s = (Inl e, s)"
  by (simp_all add: with_ctx_def)

lemma with_ctx_Inr:
  "with_ctx c k s = (Inr a, t) \<longleftrightarrow> c = None \<and> k s = (Inr a, t)"
  by (cases c) auto

lemma snd_with_ctx: "snd (with_ctx c k s) = (if c = None then snd (k s) else s)"
  by (cases c) simp_all

text \<open>
  The methods check their guards one after the other and return early. To show that every outcome
  leaves the state alone or satisfies a predicate, the rules below walk down the guards and leave
  one goal per outcome that writes, with the guards passed on the way as its hypotheses.
\<close>

definition unless_kept :: "'s \<Rightarrow> (('a, 's) outcome \<Rightarrow> bool) \<Rightarrow> ('a, 's) outcome \<Rightarrow> bool" where
  "unless_kept s Q out \<longleftrightarrow> snd out = s \<or> Q out"

lemma unless_kept_same [outcome_rules]: "unless_kept s Q (r, s)"
  by (simp add: unless_kept_def)

lemma unless_kept_if [outcome_rules]:
  "(b \<Longrightarrow> unless_kept s Q x) \<Longrightarrow> (\<not> b \<Longrightarrow> unless_kept s Q y) \<Longrightarrow> unless_kept s Q (if b then x else y)"
  by simp

lemma unless_kept_option [outcome_rules]:
  "(v = None \<Longrightarrow> unless_kept s Q x) \<Longrightarrow> (\<And>w. v = Some w \<Longrightarrow> unless_kept s Q (f w)) \<Longrightarrow>
   unless_kept s Q (case v of None \<Rightarrow> x | Some w \<Rightarrow> f w)"
  by (cases v) simp_all

lemma unless_kept_sum [outcome_rules]:
  "(\<And>w. v = Inl w \<Longrightarrow> unless_kept s Q (f w)) \<Longrightarrow> (\<And>w. v = Inr w \<Longrightarrow> unless_kept s Q (g w)) \<Longrightarrow>
   unless_kept s Q (case v of Inl w \<Rightarrow> f w | Inr w \<Rightarrow> g w)"
  by (cases v) simp_all

lemma unless_kept_prod [outcome_rules]:
  "(\<And>w u. v = (w, u) \<Longrightarrow> unless_kept s Q (f w u)) \<Longrightarrow> unless_kept s Q (case v of (w, u) \<Rightarrow> f w u)"
  by (cases v) simp

lemma unless_kept_ctx [outcome_rules]:
  "(c = None \<Longrightarrow> unless_kept s Q (k s)) \<Longrightarrow> unless_kept s Q (with_ctx c k s)"
  by (cases c) (simp_all add: unless_kept_def)

lemma unless_keptI: "Q out \<Longrightarrow> unless_kept s Q out"
  by (simp add: unless_kept_def)

lemma unless_kept_error:
  "unless_kept s (\<lambda>out. \<exists>r. fst out = Inr r) out \<Longrightarrow> fst out = Inl e \<Longrightarrow> snd out = s"
  by (auto simp: unless_kept_def)

lemma unless_kept_conv: "unless_kept s Q out \<Longrightarrow> snd out \<noteq> s \<Longrightarrow> Q out"
  by (simp add: unless_kept_def)

text \<open>The same walk for what holds of the value and the state when an operation succeeds.\<close>

definition ensures :: "('a \<Rightarrow> 's \<Rightarrow> bool) \<Rightarrow> ('a, 's) outcome \<Rightarrow> bool" where
  "ensures Q out \<longleftrightarrow> (\<forall>v. fst out = Inr v \<longrightarrow> Q v (snd out))"

lemma ensures_error [ensures_rules]: "ensures Q (Inl e, s)"
  by (simp add: ensures_def)

lemma ensures_value [ensures_rules]: "Q v s \<Longrightarrow> ensures Q (Inr v, s)"
  by (simp add: ensures_def)

lemma ensures_if [ensures_rules]:
  "(b \<Longrightarrow> ensures Q x) \<Longrightarrow> (\<not> b \<Longrightarrow> ensures Q y) \<Longrightarrow> ensures Q (if b then x else y)"
  by simp

lemma ensures_option [ensures_rules]:
  "(v = None \<Longrightarrow> ensures Q x) \<Longrightarrow> (\<And>w. v = Some w \<Longrightarrow> ensures Q (f w)) \<Longrightarrow>
   ensures Q (case v of None \<Rightarrow> x | Some w \<Rightarrow> f w)"
  by (cases v) simp_all

lemma ensures_sum [ensures_rules]:
  "(\<And>w. v = Inl w \<Longrightarrow> ensures Q (f w)) \<Longrightarrow> (\<And>w. v = Inr w \<Longrightarrow> ensures Q (g w)) \<Longrightarrow>
   ensures Q (case v of Inl w \<Rightarrow> f w | Inr w \<Rightarrow> g w)"
  by (cases v) simp_all

lemma ensures_prod [ensures_rules]:
  "(\<And>w u. v = (w, u) \<Longrightarrow> ensures Q (f w u)) \<Longrightarrow> ensures Q (case v of (w, u) \<Rightarrow> f w u)"
  by (cases v) simp

lemma ensures_ctx [ensures_rules]: "(c = None \<Longrightarrow> ensures Q (k s)) \<Longrightarrow> ensures Q (with_ctx c k s)"
  by (cases c) (simp_all add: ensures_def)

lemma ensuresD: "ensures Q out \<Longrightarrow> out = (Inr v, s) \<Longrightarrow> Q v s"
  by (simp add: ensures_def)

text \<open>
  An operation is \<^emph>\<open>settled\<close> if it either refuses with an error and leaves the state alone, or
  succeeds with a value and a state that satisfy a predicate. The walk leaves one goal per success.
\<close>

definition settled :: "'s \<Rightarrow> ('a \<Rightarrow> 's \<Rightarrow> bool) \<Rightarrow> ('a, 's) outcome \<Rightarrow> bool" where
  "settled s Q out \<longleftrightarrow> (\<exists>e. out = (Inl e, s)) \<or> (\<exists>v t. out = (Inr v, t) \<and> Q v t)"

lemma settled_error [settled_rules]: "settled s Q (Inl e, s)"
  by (simp add: settled_def)

lemma settled_value [settled_rules]: "Q v t \<Longrightarrow> settled s Q (Inr v, t)"
  by (simp add: settled_def)

lemma settled_if [settled_rules]:
  "(b \<Longrightarrow> settled s Q x) \<Longrightarrow> (\<not> b \<Longrightarrow> settled s Q y) \<Longrightarrow> settled s Q (if b then x else y)"
  by simp

lemma settled_option [settled_rules]:
  "(v = None \<Longrightarrow> settled s Q x) \<Longrightarrow> (\<And>w. v = Some w \<Longrightarrow> settled s Q (f w)) \<Longrightarrow>
   settled s Q (case v of None \<Rightarrow> x | Some w \<Rightarrow> f w)"
  by (cases v) simp_all

lemma settled_sum [settled_rules]:
  "(\<And>w. v = Inl w \<Longrightarrow> settled s Q (f w)) \<Longrightarrow> (\<And>w. v = Inr w \<Longrightarrow> settled s Q (g w)) \<Longrightarrow>
   settled s Q (case v of Inl w \<Rightarrow> f w | Inr w \<Rightarrow> g w)"
  by (cases v) simp_all

lemma settled_prod [settled_rules]:
  "(\<And>w u. v = (w, u) \<Longrightarrow> settled s Q (f w u)) \<Longrightarrow> settled s Q (case v of (w, u) \<Rightarrow> f w u)"
  by (cases v) simp

lemma settled_ctx [settled_rules]: "(c = None \<Longrightarrow> settled s Q (k s)) \<Longrightarrow> settled s Q (with_ctx c k s)"
  by (cases c) (simp_all add: settled_def)

lemma settled_refusal: "settled s Q out \<Longrightarrow> fst out = Inl e \<Longrightarrow> snd out = s"
  by (auto simp: settled_def)

lemma settled_success: "settled s Q out \<Longrightarrow> out = (Inr v, t) \<Longrightarrow> Q v t"
  by (auto simp: settled_def)

lemma settled_kept: "settled s Q out \<Longrightarrow> unless_kept s (\<lambda>out. \<exists>v t. out = (Inr v, t) \<and> Q v t) out"
  by (auto simp: settled_def unless_kept_def)

lemma settled_cases:
  "settled s Q out \<Longrightarrow> (\<And>e. out = (Inl e, s) \<Longrightarrow> P) \<Longrightarrow> (\<And>v t. out = (Inr v, t) \<Longrightarrow> Q v t \<Longrightarrow> P) \<Longrightarrow> P"
  by (auto simp: settled_def)

lemma settled_mono: "settled s Q out \<Longrightarrow> (\<And>v t. Q v t \<Longrightarrow> R v t) \<Longrightarrow> settled s R out"
  by (auto simp: settled_def)

subsection \<open>Maps\<close>

type_synonym 'v gomap = "(string \<times> 'v) list"

definition mget :: "'v gomap \<Rightarrow> string \<Rightarrow> 'v option" where
  "mget m k = map_of m k"

definition mput :: "'v gomap \<Rightarrow> string \<Rightarrow> 'v \<Rightarrow> 'v gomap" where
  "mput m k v = AList.update k v m"

definition mdel :: "'v gomap \<Rightarrow> string \<Rightarrow> 'v gomap" where
  "mdel m k = AList.delete k m"

definition mwf :: "'v gomap \<Rightarrow> bool" where
  "mwf m \<longleftrightarrow> distinct (map fst m)"

text \<open>Reads that fall back to the zero value of the element type.\<close>

definition mbool :: "bool gomap \<Rightarrow> string \<Rightarrow> bool" where
  "mbool m k \<longleftrightarrow> mget m k = Some True"

definition mlist :: "'a list gomap \<Rightarrow> string \<Rightarrow> 'a list" where
  "mlist m k = (case mget m k of None \<Rightarrow> [] | Some xs \<Rightarrow> xs)"

definition mtime :: "time gomap \<Rightarrow> string \<Rightarrow> time" where
  "mtime m k = (case mget m k of None \<Rightarrow> 0 | Some t \<Rightarrow> t)"

text \<open>A loop over a map that deletes, or rewrites, the entries a condition selects.\<close>

definition mdel_where :: "(string \<Rightarrow> 'v \<Rightarrow> bool) \<Rightarrow> 'v gomap \<Rightarrow> 'v gomap" where
  "mdel_where P m = filter (\<lambda>(k, v). \<not> P k v) m"

definition mmap_where :: "(string \<Rightarrow> 'v \<Rightarrow> bool) \<Rightarrow> ('v \<Rightarrow> 'v) \<Rightarrow> 'v gomap \<Rightarrow> 'v gomap" where
  "mmap_where P f m = map (\<lambda>(k, v). if P k v then (k, f v) else (k, v)) m"

text \<open>The interface of a map, as the stores use it: reads after writes, and iteration.\<close>

locale go_map =
  fixes get :: "'m \<Rightarrow> 'k \<Rightarrow> 'v option"
    and put :: "'m \<Rightarrow> 'k \<Rightarrow> 'v \<Rightarrow> 'm"
    and del :: "'m \<Rightarrow> 'k \<Rightarrow> 'm"
    and entries :: "'m \<Rightarrow> ('k \<times> 'v) list"
    and wf :: "'m \<Rightarrow> bool"
  assumes get_put: "get (put m k v) j = (if j = k then Some v else get m j)"
    and get_del: "get (del m k) j = (if j = k then None else get m j)"
    and wf_put: "wf m \<Longrightarrow> wf (put m k v)"
    and wf_del: "wf m \<Longrightarrow> wf (del m k)"
    and entries_get: "wf m \<Longrightarrow> (k, v) \<in> set (entries m) \<longleftrightarrow> get m k = Some v"
begin

lemma entries_put:
  "wf m \<Longrightarrow> (j, w) \<in> set (entries (put m k v)) \<longleftrightarrow>
     (if j = k then w = v else (j, w) \<in> set (entries m))"
  by (auto simp: entries_get wf_put get_put)

lemma entries_del:
  "wf m \<Longrightarrow> (j, w) \<in> set (entries (del m k)) \<longleftrightarrow> j \<noteq> k \<and> (j, w) \<in> set (entries m)"
  by (auto simp: entries_get wf_del get_del)

lemma get_put_same: "get (put m k v) k = Some v"
  by (simp add: get_put)

lemma get_put_other: "j \<noteq> k \<Longrightarrow> get (put m k v) j = get m j"
  by (simp add: get_put)

lemma entries_unique:
  "wf m \<Longrightarrow> (k, v) \<in> set (entries m) \<Longrightarrow> (k, w) \<in> set (entries m) \<Longrightarrow> v = w"
  by (simp add: entries_get)

end

interpretation gm: go_map mget mput mdel "\<lambda>m. m" mwf
proof unfold_locales
  fix m :: "'v gomap" and k j v
  show "mget (mput m k v) j = (if j = k then Some v else mget m j)"
    by (simp add: mget_def mput_def update_conv)
  show "mget (mdel m k) j = (if j = k then None else mget m j)"
    by (simp add: mget_def mdel_def delete_conv)
  assume "mwf m"
  then show "mwf (mput m k v)" and "mwf (mdel m k)"
    and "(k, v) \<in> set m \<longleftrightarrow> mget m k = Some v"
    by (auto simp: mwf_def mput_def mdel_def mget_def distinct_update distinct_delete)
qed

lemmas [simp, gomap_simps] = gm.get_put gm.get_del
lemmas [simp, wf_intros] = gm.wf_put gm.wf_del
lemmas mget_iff = gm.entries_get [symmetric]

lemma mget_Nil [simp]: "mget [] k = None"
  by (simp add: mget_def)

lemma mwf_Nil [simp]: "mwf []"
  by (simp add: mwf_def)

lemma mget_in: "mget m k = Some v \<Longrightarrow> (k, v) \<in> set m"
  by (simp add: mget_def map_of_SomeD)

lemma mput_in: "(j, w) \<in> set (mput m k v) \<Longrightarrow> (j, w) \<in> set m \<or> j = k \<and> w = v"
  by (induction m) (auto simp: mput_def split: if_splits)

lemma mdel_in: "(j, w) \<in> set (mdel m k) \<longleftrightarrow> j \<noteq> k \<and> (j, w) \<in> set m"
  by (auto simp: mdel_def AList.delete_eq)

lemma mdel_where_in [simp]:
  "(k, v) \<in> set (mdel_where P m) \<longleftrightarrow> (k, v) \<in> set m \<and> \<not> P k v"
  by (auto simp: mdel_where_def)

lemma mwf_mdel_where [simp, wf_intros]: "mwf m \<Longrightarrow> mwf (mdel_where P m)"
  by (induction m) (auto simp: mwf_def mdel_where_def)

lemma mget_mdel_where [simp, gomap_simps]:
  "mwf m \<Longrightarrow> mget (mdel_where P m) k =
     (case mget m k of None \<Rightarrow> None | Some v \<Rightarrow> if P k v then None else Some v)"
proof (induction m)
  case Nil
  then show ?case by (simp add: mdel_where_def)
next
  case (Cons a m)
  obtain j w where [simp]: "a = (j, w)" by (cases a)
  from Cons show ?case
    by (auto simp: mdel_where_def mget_def mwf_def split: option.splits
        dest: map_of_SomeD intro: rev_image_eqI)
qed

lemma mwf_mmap_where [simp, wf_intros]: "mwf (mmap_where P f m) = mwf m"
  by (induction m) (auto simp: mwf_def mmap_where_def image_iff split: if_splits)

lemma mget_mmap_where [simp, gomap_simps]:
  "mget (mmap_where P f m) k = map_option (\<lambda>v. if P k v then f v else v) (mget m k)"
  by (induction m) (auto simp: mget_def mmap_where_def)

lemma mbool_mput [simp, gomap_simps]: "mbool (mput m k b) j = (if j = k then b else mbool m j)"
  by (auto simp: mbool_def)

lemma mbool_mdel [simp, gomap_simps]: "mbool (mdel m k) j = (j \<noteq> k \<and> mbool m j)"
  by (auto simp: mbool_def)

lemma mlist_mput [simp, gomap_simps]: "mlist (mput m k xs) j = (if j = k then xs else mlist m j)"
  by (auto simp: mlist_def)

lemma mtime_mput [simp, gomap_simps]: "mtime (mput m k t) j = (if j = k then t else mtime m j)"
  by (auto simp: mtime_def)

subsection \<open>Reachable states\<close>

inductive reach :: "('s \<Rightarrow> bool) \<Rightarrow> ('s \<Rightarrow> 's \<Rightarrow> bool) \<Rightarrow> 's \<Rightarrow> bool"
  for init step where
  reach_init: "init s \<Longrightarrow> reach init step s"
| reach_step: "reach init step s \<Longrightarrow> step s t \<Longrightarrow> reach init step t"

text \<open>The contract of an invariant: it holds at the start and every step keeps it.\<close>

locale inductive_invariant =
  fixes init :: "'s \<Rightarrow> bool" and step :: "'s \<Rightarrow> 's \<Rightarrow> bool" and inv :: "'s \<Rightarrow> bool"
  assumes inv_init: "init s \<Longrightarrow> inv s"
    and inv_step: "inv s \<Longrightarrow> step s t \<Longrightarrow> inv t"
begin

lemma inv_reach: "reach init step s \<Longrightarrow> inv s"
  by (induction rule: reach.induct) (auto intro: inv_init inv_step)

lemma inv_run: "step\<^sup>*\<^sup>* s t \<Longrightarrow> inv s \<Longrightarrow> inv t"
  by (induction rule: rtranclp_induct) (auto intro: inv_step)

end

end
