(* ===== verification/Stream_Types.thy ===== *)
theory Stream_Types
  imports Prelude
begin

text \<open>
  The data of the stream side of the store: the structs of \<^verbatim>\<open>streams.go\<close>,
  \<^verbatim>\<open>youtube_relay_binding_claims.go\<close> and \<^verbatim>\<open>discord_youtube_live_notification_outbox.go\<close>,
  and \<^verbatim>\<open>MemoryStreamStore\<close> of \<^verbatim>\<open>memory.go\<close> itself. Each record has the fields of its struct,
  prefixed by the struct's initials.
\<close>

record stream =
  st_ID :: string
  st_Name :: string
  st_Status :: string
  st_ArchiveRunID :: string
  st_ArchiveStartedAt :: "time option"
  st_ArchiveReportedAt :: "time option"
  st_ScheduledStartAt :: "time option"
  st_ScheduledEndAt :: "time option"
  st_DiscordConfigID :: string
  st_AutoStartTrigger :: string
  st_EncoderProfileID :: string
  st_CaptionProfileID :: string
  st_OverlayProfileID :: string
  st_EncoderAudioGainDB :: float64
  st_ArchiveProfileID :: string
  st_ArchiveDriveDestinationID :: string
  st_ArchiveOAuthAccountID :: string
  st_ArchiveFolderIDConfigured :: bool
  st_ArchiveMaskedFolderID :: string
  st_ArchiveSharedDrive :: bool
  st_ArchiveSharedDriveID :: string
  st_ArchiveFileName :: string
  st_YouTubeOutputID :: string
  st_EncoderInputURL :: string
  st_AssignedWorkerID :: string
  st_AssignedEncoderID :: string
  st_CreatedAt :: time
  st_UpdatedAt :: time
  st_DeletedAt :: "time option"

text \<open>A stream with the zero value in every field but the ones a creator sets.\<close>

definition new_stream :: "string \<Rightarrow> string \<Rightarrow> time \<Rightarrow> stream" where
  "new_stream i name now =
     \<lparr>st_ID = i, st_Name = name, st_Status = ''created'', st_ArchiveRunID = [],
      st_ArchiveStartedAt = None, st_ArchiveReportedAt = None,
      st_ScheduledStartAt = None, st_ScheduledEndAt = None,
      st_DiscordConfigID = [], st_AutoStartTrigger = [], st_EncoderProfileID = [],
      st_CaptionProfileID = [], st_OverlayProfileID = [], st_EncoderAudioGainDB = 0,
      st_ArchiveProfileID = [], st_ArchiveDriveDestinationID = [], st_ArchiveOAuthAccountID = [],
      st_ArchiveFolderIDConfigured = False, st_ArchiveMaskedFolderID = [],
      st_ArchiveSharedDrive = False, st_ArchiveSharedDriveID = [], st_ArchiveFileName = [],
      st_YouTubeOutputID = [], st_EncoderInputURL = [], st_AssignedWorkerID = [],
      st_AssignedEncoderID = [], st_CreatedAt = now, st_UpdatedAt = now, st_DeletedAt = None\<rparr>"

record stream_settings =
  ss_ExpectedDiscordServiceID :: "string option"
  ss_Name :: string
  ss_ScheduledStartAt :: "time option"
  ss_ScheduledEndAt :: "time option"
  ss_DiscordConfigID :: string
  ss_AutoStartTrigger :: string
  ss_EncoderProfileID :: string
  ss_CaptionProfileID :: string
  ss_OverlayProfileID :: string
  ss_EncoderAudioGainDB :: float64
  ss_ArchiveProfileID :: string
  ss_ArchiveDriveDestinationID :: string
  ss_ArchiveOAuthAccountID :: string
  ss_ArchiveSharedDrive :: bool
  ss_ArchiveSharedDriveID :: string
  ss_ArchiveFileName :: string
  ss_YouTubeOutputID :: string
  ss_EncoderInputURL :: string

text \<open>\<^verbatim>\<open>StreamLog.Fields\<close> may be a nil map, which \<^verbatim>\<open>normalizeStreamLog\<close> tells apart.\<close>

record stream_log =
  sl_ID :: string
  sl_StreamID :: string
  sl_StreamName :: string
  sl_StreamDeletedAt :: "time option"
  sl_Level :: string
  sl_Message :: string
  sl_Fields :: "any gomap option"
  sl_CreatedAt :: time

record stream_artifact =
  sa_ID :: string
  sa_StreamID :: string
  sa_ArchiveRunID :: string
  sa_ArchiveStartedAt :: "time option"
  sa_Kind :: string
  sa_Name :: string
  sa_RelativePath :: string
  sa_SizeBytes :: int
  sa_CreatedAt :: time
  sa_SourceServiceID :: string

record stream_artifact_share =
  sh_ID :: string
  sh_TokenHash :: string
  sh_StreamID :: string
  sh_ArtifactID :: string
  sh_CreatedByUserID :: string
  sh_AllowDownload :: bool
  sh_ExpiresAt :: time
  sh_CreatedAt :: time
  sh_RevokedAt :: "time option"

record stream_media_runtime =
  mr_StreamID :: string
  mr_VideoOverlayBurnIn :: bool
  mr_UpdatedAt :: time

record stream_youtube_runtime =
  yr_StreamID :: string
  yr_YouTubeOutput :: string
  yr_OAuthAccountID :: string
  yr_Mode :: string
  yr_BroadcastID :: string
  yr_LiveStreamID :: string
  yr_RTMPURL :: string
  yr_StreamKeySecretName :: string
  yr_DryRun :: bool
  yr_CompleteOnStop :: bool
  yr_CompleteRetryCount :: int
  yr_CompleteNextRetryAt :: time
  yr_CompleteLastError :: string
  yr_CreatedAt :: time
  yr_UpdatedAt :: time

record youtube_relay_binding_claim =
  rc_RelayBindingID :: string
  rc_ReservationToken :: string
  rc_StreamID :: string
  rc_YouTubeOutputID :: string
  rc_ExpectedYouTubeOutputRevision :: "64 word option"
  rc_YouTubeOutputRevision :: "64 word"
  rc_OAuthAccountID :: string
  rc_ReusableLiveStreamID :: string
  rc_BroadcastID :: string
  rc_State :: string
  rc_PrepareState :: string
  rc_DispatchState :: string
  rc_EncoderStopConfirmedAt :: time
  rc_LastError :: string
  rc_CreatedAt :: time
  rc_UpdatedAt :: time

record live_notification =
  ln_ID :: string
  ln_StreamID :: string
  ln_EventID :: string
  ln_WatchURL :: string
  ln_DiscordServiceID :: string
  ln_DiscordTextChannelID :: string
  ln_YouTubeMode :: string
  ln_YouTubeOAuthAccountID :: string
  ln_YouTubeBroadcastID :: string
  ln_LifecycleStatus :: string
  ln_State :: string
  ln_AttemptCount :: int
  ln_DispatchAttemptCount :: int
  ln_NextAttemptAt :: "time option"
  ln_LastError :: string
  ln_DiscordMessageID :: string
  ln_DeliveredAt :: "time option"
  ln_RecoveryOfID :: string
  ln_CreatedAt :: time
  ln_UpdatedAt :: time

text \<open>
  The store itself, without its mutexes (every method below runs in one critical section) and
  without the two pointers to the paired stores, which the composed state of
  \<^verbatim>\<open>Panel\<close> holds.
\<close>

record stream_store =
  streams :: "stream gomap"
  normalStopPending :: "bool gomap"
  normalStopReceipts :: "time gomap"
  logs :: "stream_log list gomap"
  artifacts :: "stream_artifact list gomap"
  artifactReports :: "bool gomap"
  archiveRetryPending :: "bool gomap"
  artifactShares :: "stream_artifact_share gomap"
  mediaRuntimes :: "stream_media_runtime gomap"
  youtubeRuntimes :: "stream_youtube_runtime gomap"
  youtubeRelayBindingClaims :: "youtube_relay_binding_claim gomap"
  liveNotifications :: "live_notification gomap"
  liveNotificationEvents :: "string gomap"
  liveNotificationLeases :: "string gomap"
  liveNotificationLeaseExpires :: "time gomap"

definition NewMemoryStreamStore :: stream_store where
  "NewMemoryStreamStore =
     \<lparr>streams = [], normalStopPending = [], normalStopReceipts = [], logs = [], artifacts = [],
      artifactReports = [], archiveRetryPending = [], artifactShares = [], mediaRuntimes = [],
      youtubeRuntimes = [], youtubeRelayBindingClaims = [], liveNotifications = [],
      liveNotificationEvents = [], liveNotificationLeases = [],
      liveNotificationLeaseExpires = []\<rparr>"

text \<open>
  The representation invariant: every map has distinct keys, and the maps whose entries carry
  their own key are keyed by it.
\<close>

definition keyed :: "('v \<Rightarrow> string) \<Rightarrow> 'v gomap \<Rightarrow> bool" where
  "keyed key m \<longleftrightarrow> mwf m \<and> (\<forall>(k, v) \<in> set m. key v = k)"

lemma keyed_Nil [simp, wf_intros]: "keyed key []"
  by (simp add: keyed_def)

lemma keyed_mwf: "keyed key m \<Longrightarrow> mwf m"
  by (simp add: keyed_def)

lemma keyed_mget: "keyed key m \<Longrightarrow> mget m k = Some v \<Longrightarrow> key v = k"
  by (auto simp: keyed_def dest: mget_in)

lemma keyed_mput [wf_intros]: "keyed key m \<Longrightarrow> key v = k \<Longrightarrow> keyed key (mput m k v)"
  by (auto simp: keyed_def dest: mput_in)

lemma keyed_mdel [wf_intros]: "keyed key m \<Longrightarrow> keyed key (mdel m k)"
  by (auto simp: keyed_def mdel_in)

lemma keyed_mdel_where [wf_intros]: "keyed key m \<Longrightarrow> keyed key (mdel_where P m)"
  by (auto simp: keyed_def)

definition stream_store_wf :: "stream_store \<Rightarrow> bool" where
  "stream_store_wf s \<longleftrightarrow>
     keyed st_ID (streams s) \<and> mwf (normalStopPending s) \<and> mwf (normalStopReceipts s) \<and>
     mwf (logs s) \<and> mwf (artifacts s) \<and> mwf (artifactReports s) \<and>
     mwf (archiveRetryPending s) \<and> keyed sh_ID (artifactShares s) \<and>
     keyed mr_StreamID (mediaRuntimes s) \<and> keyed yr_StreamID (youtubeRuntimes s) \<and>
     keyed rc_RelayBindingID (youtubeRelayBindingClaims s) \<and>
     keyed ln_ID (liveNotifications s) \<and> mwf (liveNotificationEvents s) \<and>
     mwf (liveNotificationLeases s) \<and> mwf (liveNotificationLeaseExpires s)"

lemma stream_store_wf_init: "stream_store_wf NewMemoryStreamStore"
  by (simp add: stream_store_wf_def NewMemoryStreamStore_def)

lemma stream_store_wf_streams: "stream_store_wf s \<Longrightarrow> keyed st_ID (streams s)"
  by (simp add: stream_store_wf_def)

end
