(* ===== verification/Artifact_Values.thy ===== *)
theory Artifact_Values
  imports Stream_Types
begin

text \<open>
  The pure functions on artifacts, archive runs and paths: \<^verbatim>\<open>stream_artifact_values.go\<close> and
  the report checks of \<^verbatim>\<open>stream_artifact_reporting_mariadb.go\<close>, with the parts of Go's
  \<^verbatim>\<open>path\<close> and \<^verbatim>\<open>path/filepath\<close> they call (on a system whose separator is the slash).
\<close>

subsection \<open>Paths\<close>

text \<open>\<^verbatim>\<open>path.Ext\<close>: from the last dot of the last element, or the empty string.\<close>

definition path_Ext :: "string \<Rightarrow> string" where
  "path_Ext p =
     (let r = takeWhile (\<lambda>c. c \<noteq> CHR ''/'') (rev p) in
      if CHR ''.'' \<in> set r then CHR ''.'' # rev (takeWhile (\<lambda>c. c \<noteq> CHR ''.'') r) else [])"

text \<open>\<^verbatim>\<open>path.Clean\<close>, on the elements between slashes; the stack has the last element first.\<close>

definition clean_step :: "bool \<Rightarrow> string list \<Rightarrow> string \<Rightarrow> string list" where
  "clean_step rooted st c =
     (if c = [] \<or> c = ''.'' then st
      else if c = ''..'' then
        (case st of
           [] \<Rightarrow> if rooted then [] else [''..'']
         | t # st' \<Rightarrow> if t = ''..'' then ''..'' # st else st')
      else c # st)"

fun join_slash :: "string list \<Rightarrow> string" where
  "join_slash [] = []"
| "join_slash [x] = x"
| "join_slash (x # y # xs) = x @ CHR ''/'' # join_slash (y # xs)"

definition clean_elements :: "bool \<Rightarrow> string \<Rightarrow> string list" where
  "clean_elements rooted p = rev (foldl (clean_step rooted) [] (splitOn (CHR ''/'') p))"

definition path_Clean :: "string \<Rightarrow> string" where
  "path_Clean p =
     (let rooted = prefix ''/'' p; els = clean_elements rooted p in
      if rooted then CHR ''/'' # join_slash els
      else if els = [] then ''.'' else join_slash els)"

definition path_Join :: "string list \<Rightarrow> string" where
  "path_Join els =
     (case filter (\<lambda>e. e \<noteq> []) els of [] \<Rightarrow> [] | es \<Rightarrow> path_Clean (join_slash es))"

definition isSafeRelativePath :: "string \<Rightarrow> bool" where
  "isSafeRelativePath p \<longleftrightarrow>
     (if p = [] \<or> prefix ''/'' p \<or> containsAny p [CHR 0x5C, CHR '':''] then False
      else let clean = path_Clean p;
               slashClean = map (\<lambda>c. if c = CHR 0x5C then CHR ''/'' else c) clean in
        \<not> (slashClean = ''.'' \<or> slashClean \<noteq> p \<or> prefix ''../'' slashClean \<or>
           contains slashClean ''/../''))"

lemma splitOn_join_slash:
  "xs \<noteq> [] \<Longrightarrow> (\<forall>x \<in> set xs. CHR ''/'' \<notin> set x) \<Longrightarrow> splitOn (CHR ''/'') (join_slash xs) = xs"
  by (induction xs rule: join_slash.induct) (auto simp: splitOn_no_sep splitOn_append_sep)

lemma splitOn_elements_no_sep: "x \<in> set (splitOn c s) \<Longrightarrow> c \<notin> set x"
proof (induction s arbitrary: x)
  case (Cons a s)
  then show ?case by (cases "splitOn c s") (auto split: if_splits)
qed simp

text \<open>
  The stack of \<open>clean_step\<close> is a run of parent elements below a run of plain ones: the shape
  every cleaned relative path has.
\<close>

definition plain_element :: "string \<Rightarrow> bool" where
  "plain_element c \<longleftrightarrow> c \<noteq> [] \<and> c \<noteq> ''.'' \<and> c \<noteq> ''..'' \<and> CHR ''/'' \<notin> set c"

definition clean_shape :: "string list \<Rightarrow> bool" where
  "clean_shape st \<longleftrightarrow> (\<exists>n ps. st = ps @ replicate n ''..'' \<and> list_all plain_element ps)"

lemma clean_shapeI: "st = ps @ replicate n ''..'' \<Longrightarrow> list_all plain_element ps \<Longrightarrow> clean_shape st"
  unfolding clean_shape_def by blast

lemma clean_step_shape:
  assumes "clean_shape st" and "CHR ''/'' \<notin> set c"
  shows "clean_shape (clean_step False st c)"
proof -
  from assms(1) obtain n ps where st: "st = ps @ replicate n ''..''" and ps: "list_all plain_element ps"
    unfolding clean_shape_def by blast
  consider (skip) "c = [] \<or> c = ''.''" | (up) "c = ''..''" | (plain) "plain_element c"
    using assms(2) unfolding plain_element_def by blast
  then show ?thesis
  proof cases
    case skip
    then show ?thesis using assms(1) by (auto simp: clean_step_def)
  next
    case plain
    then have "clean_step False st c = (c # ps) @ replicate n ''..''"
      by (simp add: clean_step_def st plain_element_def)
    then show ?thesis by (rule clean_shapeI) (simp add: plain ps)
  next
    case up
    show ?thesis
    proof (cases ps)
      case Nil
      then have "clean_step False st c = [] @ replicate (Suc n) ''..''"
        using up st by (cases n) (auto simp: clean_step_def)
      then show ?thesis by (rule clean_shapeI) simp
    next
      case (Cons q qs)
      then have "clean_step False st c = qs @ replicate n ''..''"
        using up st ps by (auto simp: clean_step_def plain_element_def)
      then show ?thesis by (rule clean_shapeI) (use Cons ps in simp)
    qed
  qed
qed

lemma foldl_clean_shape:
  "clean_shape st \<Longrightarrow> (\<forall>c \<in> set cs. CHR ''/'' \<notin> set c) \<Longrightarrow>
   clean_shape (foldl (clean_step False) st cs)"
  by (induction cs arbitrary: st) (auto intro: clean_step_shape)

lemma clean_elements_shape:
  obtains n ps where "clean_elements False p = replicate n ''..'' @ ps"
    and "list_all plain_element ps"
proof -
  have "clean_shape (foldl (clean_step False) [] (splitOn (CHR ''/'') p))"
    by (rule foldl_clean_shape) (auto simp: clean_shape_def dest: splitOn_elements_no_sep)
  then obtain n ps where "foldl (clean_step False) [] (splitOn (CHR ''/'') p) = ps @ replicate n ''..''"
    and "list_all plain_element ps"
    unfolding clean_shape_def by blast
  then have "clean_elements False p = replicate n ''..'' @ rev ps" and "list_all plain_element (rev ps)"
    by (simp_all add: clean_elements_def list_all_iff)
  then show ?thesis by (rule that)
qed

lemma splitOn_subset: "x \<in> set (splitOn c s) \<Longrightarrow> set x \<subseteq> set s"
proof (induction s arbitrary: x)
  case (Cons a s)
  have IH: "\<And>x. x \<in> set (splitOn c s) \<Longrightarrow> set x \<subseteq> set s" by (rule Cons.IH)
  show ?case
  proof (cases "splitOn c s")
    case (Cons q qs)
    with IH have "set q \<subseteq> set s" and "\<And>x. x \<in> set qs \<Longrightarrow> set x \<subseteq> set s" by simp_all
    with Cons Cons.prems show ?thesis by (auto split: if_splits)
  qed simp
qed simp

lemma set_join_slash: "set (join_slash xs) \<subseteq> {CHR ''/''} \<union> (\<Union>x \<in> set xs. set x)"
  by (induction xs rule: join_slash.induct) auto

lemma set_foldl_clean: "set (foldl (clean_step r) st cs) \<subseteq> set st \<union> set cs \<union> {''..''}"
proof (induction cs arbitrary: st)
  case (Cons c cs)
  have "set (clean_step r st c) \<subseteq> set st \<union> {c} \<union> {''..''}"
    by (auto simp: clean_step_def split: if_splits list.splits)
  with Cons.IH [of "clean_step r st c"] show ?case by auto
qed auto

lemma set_path_Clean: "\<not> prefix ''/'' p \<Longrightarrow> set (path_Clean p) \<subseteq> set p \<union> {CHR ''/'', CHR ''.''}"
proof -
  assume "\<not> prefix ''/'' p"
  let ?els = "clean_elements False p"
  have els: "x = ''..'' \<or> x \<in> set (splitOn (CHR ''/'') p)" if "x \<in> set ?els" for x
    using that set_foldl_clean [of False "[]" "splitOn (CHR ''/'') p"]
    by (auto simp: clean_elements_def)
  have "set x \<subseteq> set p \<union> {CHR ''.''}" if "x \<in> set ?els" for x
    using els [OF that]
  proof
    assume "x = ''..''"
    then show ?thesis by simp
  next
    assume "x \<in> set (splitOn (CHR ''/'') p)"
    then have "set x \<subseteq> set p" by (rule splitOn_subset)
    then show ?thesis by blast
  qed
  then have "set (join_slash ?els) \<subseteq> set p \<union> {CHR ''/'', CHR ''.''}"
    using set_join_slash [of ?els] by blast
  with \<open>\<not> prefix ''/'' p\<close> show ?thesis by (simp add: path_Clean_def Let_def)
qed

lemma prefix_join_parent: "xs \<noteq> [] \<Longrightarrow> prefix ''../'' (join_slash (''..'' # xs))"
  by (cases xs) auto

lemma safe_path_elements:
  assumes "isSafeRelativePath p"
  shows "p = ''..'' \<or> list_all plain_element (splitOn (CHR ''/'') p)"
proof -
  from assms have rel: "\<not> prefix ''/'' p" and noesc: "\<not> containsAny p [CHR 0x5C, CHR '':'']"
    by (auto simp: isSafeRelativePath_def split: if_splits)
  let ?els = "clean_elements False p"
  obtain n ps where els: "?els = replicate n ''..'' @ ps" and ps: "list_all plain_element ps"
    by (rule clean_elements_shape)
  have clean: "path_Clean p = (if ?els = [] then ''.'' else join_slash ?els)"
    using rel by (simp add: path_Clean_def)
  define q where "q = map (\<lambda>c. if c = CHR 0x5C then CHR ''/'' else c) (path_Clean p)"
  from assms have q: "q = p" "q \<noteq> ''.''" "\<not> prefix ''../'' q"
    unfolding isSafeRelativePath_def q_def by (auto simp: Let_def split: if_splits)
  have "CHR 0x5C \<notin> set p"
    using noesc by (auto simp: containsAny_def list_ex_iff)
  have "path_Clean p = p"
  proof (cases "CHR 0x5C \<in> set (path_Clean p)")
    case False
    then have "q = path_Clean p" unfolding q_def by (intro map_idI) auto
    with q show ?thesis by simp
  next
    case True
    have "set (path_Clean p) \<subseteq> set p \<union> {CHR ''/'', CHR ''.''}"
      using rel by (rule set_path_Clean)
    with True \<open>CHR 0x5C \<notin> set p\<close> show ?thesis by auto
  qed
  with clean q have p: "p = join_slash ?els" and ne: "?els \<noteq> []"
    by (auto split: if_splits)
  show ?thesis
  proof (cases n)
    case 0
    with els ps ne have "splitOn (CHR ''/'') (join_slash ?els) = ps"
      by (subst splitOn_join_slash) (auto simp: list_all_iff plain_element_def)
    with p ps show ?thesis by simp
  next
    case (Suc m)
    with els have e: "?els = ''..'' # (replicate m ''..'' @ ps)" by simp
    show ?thesis
    proof (cases "replicate m ''..'' @ ps")
      case Nil
      with e p show ?thesis by simp
    next
      case (Cons y ys)
      with e p q prefix_join_parent [of "replicate m ''..'' @ ps"] show ?thesis by simp
    qed
  qed
qed

subsection \<open>File names and archive runs\<close>

definition isASCIIAlphaNumeric :: "char \<Rightarrow> bool" where
  "isASCIIAlphaNumeric c \<longleftrightarrow>
     (let n = of_char c :: nat in 97 \<le> n \<and> n \<le> 122 \<or> 65 \<le> n \<and> n \<le> 90 \<or> 48 \<le> n \<and> n \<le> 57)"

text \<open>
  The loops \<^verbatim>\<open>for _, r := range name\<close> accept ASCII letters, digits and three marks. A rune
  outside ASCII is rejected, and so is each of its bytes, so the check is done on bytes.
\<close>

definition safe_name_char :: "char \<Rightarrow> bool" where
  "safe_name_char c \<longleftrightarrow> isASCIIAlphaNumeric c \<or> c = CHR ''-'' \<or> c = CHR ''_'' \<or> c = CHR ''.''"

definition ValidStreamArtifactFileName :: "string \<Rightarrow> bool" where
  "ValidStreamArtifactFileName name0 \<longleftrightarrow>
     (let name = trimSpace name0 in
      \<not> (name = [] \<or> length name > 255 \<or> contains name ''..'' \<or> containsAny name [CHR ''/'', CHR 0x5C]) \<and>
      toLower (path_Ext name) \<in> {''.mp4'', ''.mkv'', ''.json'', ''.jsonl'', ''.vtt''} \<and>
      list_all safe_name_char name)"

definition validArchiveRunID :: "string \<Rightarrow> bool" where
  "validArchiveRunID id0 \<longleftrightarrow>
     (let i = trimSpace id0 in
      \<not> (i = [] \<or> length i > 128 \<or> contains i ''..'' \<or> containsAny i [CHR ''/'', CHR 0x5C] \<or>
         \<not> isASCIIAlphaNumeric (hd i)) \<and>
      list_all safe_name_char i)"

definition streamArtifactRelativePath :: "string \<Rightarrow> string \<Rightarrow> string \<Rightarrow> string" where
  "streamArtifactRelativePath streamID archiveRunID name =
     path_Join [''final'', streamID, archiveRunID, name]"

definition sameOptionalTime :: "time option \<Rightarrow> time option \<Rightarrow> bool" where
  "sameOptionalTime left right \<longleftrightarrow>
     (case (left, right) of (Some l, Some r) \<Rightarrow> l = r | _ \<Rightarrow> left = None \<and> right = None)"

definition isArchiveRecordingArtifact :: "stream_artifact \<Rightarrow> bool" where
  "isArchiveRecordingArtifact a \<longleftrightarrow>
     equalFold (trimSpace (sa_Kind a)) ''archive'' \<and>
     toLower (path_Ext (trimSpace (sa_Name a))) \<in> {''.mp4'', ''.webm'', ''.m4v'', ''.mov'', ''.mkv''}"

definition NormalizeStreamArtifacts :: "string \<Rightarrow> stream_artifact list \<Rightarrow> stream_artifact list" where
  "NormalizeStreamArtifacts streamID =
     map (\<lambda>a. a\<lparr>sa_ID := [], sa_StreamID := streamID, sa_Kind := trimSpace (sa_Kind a),
       sa_Name := trimSpace (sa_Name a), sa_RelativePath := trimSpace (sa_RelativePath a),
       sa_ArchiveRunID := trimSpace (sa_ArchiveRunID a), sa_CreatedAt := 0\<rparr>)"

definition streamArtifactReportMatchesArchiveAuthority :: "stream \<Rightarrow> stream_artifact list \<Rightarrow> bool" where
  "streamArtifactReportMatchesArchiveAuthority stream arts \<longleftrightarrow>
     (case arts of
        [] \<Rightarrow> False
      | report # _ \<Rightarrow>
          trimSpace (st_ArchiveRunID stream) \<noteq> [] \<and> st_ArchiveStartedAt stream \<noteq> None \<and>
          trimSpace (sa_ArchiveRunID report) = trimSpace (st_ArchiveRunID stream) \<and>
          sa_ArchiveStartedAt report \<noteq> None \<and>
          sa_ArchiveStartedAt report = st_ArchiveStartedAt stream)"

text \<open>
  The loop of \<^verbatim>\<open>ValidateStreamArtifactReport\<close>, with \<^verbatim>\<open>seen\<close> and the run of the first
  artifact (\<^verbatim>\<open>reportRunSet\<close>, \<^verbatim>\<open>reportRunID\<close>, \<^verbatim>\<open>reportStartedAt\<close>) as its state.
\<close>

definition artifactAllowedName :: "string \<Rightarrow> string" where
  "artifactAllowedName kind =
     (if kind = ''archive'' then ''final.mp4''
      else if kind = ''caption'' then ''captions.vtt''
      else if kind = ''transcript'' then ''transcript.json''
      else if kind = ''metadata'' then ''metadata.json''
      else if kind = ''logs'' then ''logs.jsonl'' else [])"

fun validateArtifactLoop ::
  "string \<Rightarrow> string list \<Rightarrow> (string \<times> time option) option \<Rightarrow> stream_artifact list \<Rightarrow> unit result" where
  "validateArtifactLoop streamID seen run [] = Inr ()"
| "validateArtifactLoop streamID seen run (a # rest) =
     (let kind = sa_Kind a; name = sa_Name a; key = kind @ NUL # name in
      if kind \<notin> {''archive'', ''caption'', ''transcript'', ''metadata'', ''logs''} \<or> name = [] \<or>
         length name > 255 \<or> containsAny name [CHR ''/'', CHR 0x5C]
      then Inl (ErrOther ''invalid artifact metadata'')
      else if artifactAllowedName kind \<noteq> name then Inl (ErrOther ''unsupported artifact name'')
      else if sa_SizeBytes a < 0 \<or> length (sa_RelativePath a) > 1024 \<or>
              \<not> isSafeRelativePath (sa_RelativePath a)
      then Inl (ErrOther ''unsafe artifact path'')
      else if \<not> validArchiveRunID (sa_ArchiveRunID a) \<or> sa_ArchiveStartedAt a = None \<or>
              sa_ArchiveStartedAt a = Some 0
      then Inl (ErrOther ''invalid archive run metadata'')
      else if sa_RelativePath a \<noteq> streamArtifactRelativePath streamID (sa_ArchiveRunID a) name
      then Inl (ErrOther ''artifact path does not match stream and name'')
      else if (case run of None \<Rightarrow> False
               | Some (r, t) \<Rightarrow> r \<noteq> sa_ArchiveRunID a \<or> \<not> sameOptionalTime t (sa_ArchiveStartedAt a))
      then Inl (ErrOther ''mixed archive runs in one report'')
      else if key \<in> set seen then Inl (ErrOther ''duplicate artifact'')
      else validateArtifactLoop streamID (key # seen)
             (case run of None \<Rightarrow> Some (sa_ArchiveRunID a, sa_ArchiveStartedAt a) | Some r \<Rightarrow> Some r) rest)"

definition ValidateStreamArtifactReport :: "string \<Rightarrow> stream_artifact list \<Rightarrow> unit result" where
  "ValidateStreamArtifactReport streamID arts =
     (if trimSpace streamID = [] \<or> arts = [] \<or> length arts > 20
      then Inl (ErrOther ''invalid artifact report'')
      else validateArtifactLoop streamID [] None (NormalizeStreamArtifacts streamID arts))"

text \<open>What an accepted report guarantees of every artifact it lists.\<close>

lemma validateArtifactLoop_all:
  "validateArtifactLoop streamID seen run arts = Inr u \<Longrightarrow> a \<in> set arts \<Longrightarrow>
   isSafeRelativePath (sa_RelativePath a) \<and> validArchiveRunID (sa_ArchiveRunID a) \<and>
   0 \<le> sa_SizeBytes a \<and> sa_Name a = artifactAllowedName (sa_Kind a) \<and> sa_Name a \<noteq> [] \<and>
   sa_RelativePath a = streamArtifactRelativePath streamID (sa_ArchiveRunID a) (sa_Name a)"
proof (induction streamID seen run arts rule: validateArtifactLoop.induct)
  case (2 streamID seen run b rest)
  then show ?case by (auto simp: Let_def split: if_splits)
qed simp

lemma validateArtifactLoop_run:
  "validateArtifactLoop streamID seen (Some (r, t)) arts = Inr u \<Longrightarrow> a \<in> set arts \<Longrightarrow>
   sa_ArchiveRunID a = r \<and> sameOptionalTime t (sa_ArchiveStartedAt a)"
proof (induction arts arbitrary: seen)
  case (Cons b rest)
  then show ?case by (auto simp: Let_def split: if_splits)
qed simp

lemma validateArtifactLoop_one_run:
  assumes "validateArtifactLoop streamID seen None arts = Inr u"
  shows "\<exists>r t. \<forall>a \<in> set arts. sa_ArchiveRunID a = r \<and> sa_ArchiveStartedAt a = Some t"
proof (cases arts)
  case (Cons b rest)
  with assms obtain t seen' where "sa_ArchiveStartedAt b = Some t"
    and rest: "validateArtifactLoop streamID seen' (Some (sa_ArchiveRunID b, Some t)) rest = Inr u"
    by (auto simp: Let_def split: if_splits)
  moreover have "sa_ArchiveRunID a = sa_ArchiveRunID b \<and> sa_ArchiveStartedAt a = Some t"
    if "a \<in> set rest" for a
    using validateArtifactLoop_run [OF rest that]
    by (auto simp: sameOptionalTime_def split: option.splits)
  ultimately show ?thesis using Cons by auto
qed simp

lemma validateArtifactLoop_distinct:
  "validateArtifactLoop streamID seen run arts = Inr u \<Longrightarrow>
   distinct (map (\<lambda>a. (sa_Kind a, sa_Name a)) arts) \<and>
   (\<forall>a \<in> set arts. sa_Kind a @ NUL # sa_Name a \<notin> set seen)"
proof (induction streamID seen run arts rule: validateArtifactLoop.induct)
  case (2 streamID seen run b rest)
  then show ?case by (fastforce simp: Let_def split: if_splits)
qed simp

subsection \<open>Identifiers\<close>

definition hex_digit :: "nat \<Rightarrow> char" where
  "hex_digit n = ''0123456789abcdef'' ! n"

text \<open>\<^verbatim>\<open>hex.EncodeToString\<close>.\<close>

definition hex_encode :: "8 word list \<Rightarrow> string" where
  "hex_encode bs = concat (map (\<lambda>b. [hex_digit (unat b div 16), hex_digit (unat b mod 16)]) bs)"

text \<open>\<^verbatim>\<open>newUUID\<close> on the 16 random bytes it read; the masks are \<open>0x0f\<close>, \<open>0x40\<close>, \<open>0x3f\<close>, \<open>0x80\<close>.\<close>

definition newUUID :: "8 word list \<Rightarrow> string" where
  "newUUID b0 =
     (let b = b0[6 := or (and (b0 ! 6) 0x0f) 0x40];
          b' = b[8 := or (and (b ! 8) 0x3f) 0x80];
          encoded = hex_encode b';
          slice = (\<lambda>i j. take (j - i) (drop i encoded)) in
      slice 0 8 @ ''-'' @ slice 8 12 @ ''-'' @ slice 12 16 @ ''-'' @ slice 16 20 @ ''-'' @ slice 20 32)"

subsection \<open>Archive run identifiers\<close>

fun decimal :: "nat \<Rightarrow> string" where
  "decimal n = (if n < 10 then [char_of (48 + n)] else decimal (n div 10) @ [char_of (48 + n mod 10)])"

declare decimal.simps [simp del]

definition zero_pad :: "nat \<Rightarrow> nat \<Rightarrow> string" where
  "zero_pad w n = replicate (w - length (decimal n)) (CHR ''0'') @ decimal n"

text \<open>
  The date of a day number (days since 1 January of year 1, the day of Go's zero time) in the
  proleptic Gregorian calendar: years are counted from March, in eras of 400 years.
\<close>

definition civil_date :: "int \<Rightarrow> int \<times> int \<times> int" where
  "civil_date d =
     (let z = d + 306; era = z div 146097; doe = z mod 146097;
          yoe = (doe - doe div 1460 + doe div 36524 - doe div 146096) div 365;
          doy = doe - (365 * yoe + yoe div 4 - yoe div 100);
          mp = (5 * doy + 2) div 153;
          day = doy - (153 * mp + 2) div 5 + 1;
          month = (if mp < 10 then mp + 3 else mp - 9)
      in (yoe + era * 400 + (if month \<le> 2 then 1 else 0), month, day))"

text \<open>
  \<^verbatim>\<open>StreamArchiveRunIDForStart\<close>: the start in the fixed zone JST (nine hours ahead of UTC) as
  \<^verbatim>\<open>20060102_150405\<close>, its nanoseconds with nine digits, and the zone's name.
\<close>

definition StreamArchiveRunIDForStart :: "time \<Rightarrow> string" where
  "StreamArchiveRunIDForStart startedAt =
     (let local = startedAt + 9 * 60 * 60 * second;
          secs = local div second; nanos = local mod second;
          days = secs div 86400; sod = secs mod 86400;
          pad = (\<lambda>w n. zero_pad w (nat n)) in
      case civil_date days of (y, m, d) \<Rightarrow>
        (if y < 0 then ''-'' @ pad 4 (- y) else pad 4 y) @ pad 2 m @ pad 2 d @ ''_'' @
        pad 2 (sod div 3600) @ pad 2 (sod div 60 mod 60) @ pad 2 (sod mod 60) @ ''_'' @
        pad 9 nanos @ ''_JST'')"

subsection \<open>Accepted reports\<close>

lemma splitOn_snoc: "c \<notin> set x \<Longrightarrow> splitOn c (s @ c # x) = splitOn c s @ [x]"
  by (induction s) (auto simp: splitOn_no_sep split: list.split)

lemma clean_elements_snoc:
  "plain_element x \<Longrightarrow> clean_elements r (s @ CHR ''/'' # x) = clean_elements r s @ [x]"
  by (auto simp: clean_elements_def splitOn_snoc plain_element_def clean_step_def)

lemma join_slash_suffix: "suffix x (join_slash (xs @ [x]))"
  by (induction xs rule: join_slash.induct) (auto simp: suffix_def)

lemma join_slash_snoc: "xs \<noteq> [] \<Longrightarrow> join_slash (xs @ [x]) = join_slash xs @ CHR ''/'' # x"
  by (induction xs rule: join_slash.induct) auto

lemma artifactAllowedName_plain: "artifactAllowedName k \<noteq> [] \<Longrightarrow> plain_element (artifactAllowedName k)"
  by (auto simp: artifactAllowedName_def plain_element_def)

text \<open>The path of an artifact ends in its name, so it is never the parent directory.\<close>

lemma streamArtifactRelativePath_suffix:
  assumes "plain_element name"
  shows "suffix name (streamArtifactRelativePath streamID run name)"
proof -
  define es where "es = filter (\<lambda>e. e \<noteq> []) [''final'', streamID, run]"
  have es: "es \<noteq> []" by (simp add: es_def)
  have "streamArtifactRelativePath streamID run name = path_Clean (join_slash (es @ [name]))"
    using assms by (auto simp: streamArtifactRelativePath_def path_Join_def es_def plain_element_def)
  also have "\<dots> = path_Clean (join_slash es @ CHR ''/'' # name)"
    using es by (simp add: join_slash_snoc)
  finally show ?thesis
    using join_slash_suffix [of name] assms
    by (auto simp: path_Clean_def Let_def clean_elements_snoc suffix_Cons)
qed

text \<open>The check on relative paths alone lets the parent directory pass; only the match with the name excludes it.\<close>

lemma parent_directory_passes: "isSafeRelativePath ''..''"
  by code_simp

definition sample_artifact :: stream_artifact where
  "sample_artifact =
     \<lparr>sa_ID = [], sa_StreamID = [], sa_ArchiveRunID = ''run-1'', sa_ArchiveStartedAt = Some 5,
      sa_Kind = ''archive'', sa_Name = ''final.mp4'', sa_RelativePath = ''final/s1/run-1/final.mp4'',
      sa_SizeBytes = 7, sa_CreatedAt = 0, sa_SourceServiceID = ''enc''\<rparr>"

end
