(* ===== verification/Stream_Store.thy ===== *)
theory Stream_Store
  imports Artifact_Values
begin

text \<open>
  The operations of \<^verbatim>\<open>MemoryStreamStore\<close> that touch only its own maps: creation, reads, status
  transitions and archive runs (\<^verbatim>\<open>memory.go\<close>, \<^verbatim>\<open>memory_stream_start_claim.go\<close>), media
  runtime and settings (\<^verbatim>\<open>memory_stream_settings.go\<close>), the normal and forced stop protocol
  (\<^verbatim>\<open>stream_stop_receipts.go\<close>), and the protection of a stream against assignment changes
  (\<^verbatim>\<open>service_assignment_guard.go\<close>). Arguments \<open>now\<close> and \<open>uuid\<close> are the clock reading
  and the fresh identifier the method obtains.
\<close>

subsection \<open>Protection of a stream\<close>

record stream_assignment_protection =
  sp_Stream :: stream
  sp_ArchiveRetryPending :: bool
  sp_NormalStopPending :: bool
  sp_HasArchiveReport :: bool
  sp_HasRecordingArtifact :: bool

definition active_status :: "string \<Rightarrow> bool" where
  "active_status status \<longleftrightarrow> toLower (trimSpace status) \<in> {''starting'', ''live'', ''stopping''}"

definition pendingArchiveRun :: "stream \<Rightarrow> bool" where
  "pendingArchiveRun st \<longleftrightarrow>
     (case st_ArchiveStartedAt st of
        None \<Rightarrow> False
      | Some startedAt \<Rightarrow>
          if st_ArchiveReportedAt st \<noteq> None then False
          else let modern = (trimSpace (st_ArchiveRunID st) \<noteq> [] \<and> startedAt > 0) in
            if trimSpace (st_ArchiveProfileID st) = [] \<and> \<not> modern then False
            else toLower (trimSpace (st_Status st)) \<in> {''stopping'', ''completed'', ''ready''})"

definition protected :: "stream_assignment_protection \<Rightarrow> bool" where
  "protected p \<longleftrightarrow>
     (if active_status (st_Status (sp_Stream p)) then True
      else if sp_ArchiveRetryPending p \<or> sp_NormalStopPending p then True
      else pendingArchiveRun (sp_Stream p))"

definition memoryStreamAssignmentProtectionLocked ::
  "stream_store \<Rightarrow> stream \<Rightarrow> stream_assignment_protection" where
  "memoryStreamAssignmentProtectionLocked s st =
     \<lparr>sp_Stream = st,
      sp_ArchiveRetryPending = mbool (archiveRetryPending s) (st_ID st),
      sp_NormalStopPending = mbool (normalStopPending s) (st_ID st),
      sp_HasArchiveReport = mbool (artifactReports s) (st_ID st),
      sp_HasRecordingArtifact = list_ex isArchiveRecordingArtifact (mlist (artifacts s) (st_ID st))\<rparr>"

abbreviation stream_protected :: "stream_store \<Rightarrow> stream \<Rightarrow> bool" where
  "stream_protected s st \<equiv> protected (memoryStreamAssignmentProtectionLocked s st)"

lemma stream_protected_iff:
  "stream_protected s st \<longleftrightarrow>
     active_status (st_Status st) \<or> mbool (archiveRetryPending s) (st_ID st) \<or>
     mbool (normalStopPending s) (st_ID st) \<or> pendingArchiveRun st"
  by (auto simp: protected_def memoryStreamAssignmentProtectionLocked_def)

subsection \<open>Reads\<close>

definition ListStreams :: "ctx \<Rightarrow> stream_store \<Rightarrow> (stream list, stream_store) outcome" where
  "ListStreams c = with_ctx c (\<lambda>s.
     (Inr (filter (\<lambda>st. st_DeletedAt st = None) (map snd (streams s))), s))"

definition ListArchiveStreams :: "ctx \<Rightarrow> stream_store \<Rightarrow> (stream list, stream_store) outcome" where
  "ListArchiveStreams c = with_ctx c (\<lambda>s.
     (Inr (filter (\<lambda>st. list_ex isArchiveRecordingArtifact (mlist (artifacts s) (st_ID st)))
             (map snd (streams s))), s))"

definition ListArchiveProcessingStreams :: "ctx \<Rightarrow> stream_store \<Rightarrow> (stream list, stream_store) outcome" where
  "ListArchiveProcessingStreams c = with_ctx c (\<lambda>s.
     (Inr (filter (\<lambda>st. st_DeletedAt st = None \<and>
             (mbool (archiveRetryPending s) (st_ID st) \<or> pendingArchiveRun st))
             (map snd (streams s))), s))"

definition HasActiveStream :: "ctx \<Rightarrow> stream_store \<Rightarrow> (bool, stream_store) outcome" where
  "HasActiveStream c = with_ctx c (\<lambda>s.
     (Inr (list_ex (\<lambda>(_, st). active_status (st_Status st)) (streams s)), s))"

definition GetStream :: "ctx \<Rightarrow> string \<Rightarrow> stream_store \<Rightarrow> (stream, stream_store) outcome" where
  "GetStream c i = with_ctx c (\<lambda>s.
     case mget (streams s) i of None \<Rightarrow> (Inl ErrNotFound, s) | Some st \<Rightarrow> (Inr st, s))"

subsection \<open>Creation and status transitions\<close>

definition put_stream :: "string \<Rightarrow> stream \<Rightarrow> stream_store \<Rightarrow> stream_store" where
  "put_stream i st s = s\<lparr>streams := mput (streams s) i st\<rparr>"

definition CreateStream :: "ctx \<Rightarrow> string \<Rightarrow> string \<Rightarrow> time \<Rightarrow> stream_store \<Rightarrow> (stream, stream_store) outcome" where
  "CreateStream c name uuid now = with_ctx c (\<lambda>s.
     let st = new_stream uuid name now in (Inr st, put_stream uuid st s))"

text \<open>A stored time that is always later than the previous one.\<close>

definition streamMutationTime :: "time \<Rightarrow> time \<Rightarrow> time" where
  "streamMutationTime now previous =
     (let n = truncate_us now in if \<not> n > previous then previous + microsecond else n)"

lemma streamMutationTime_later: "previous < streamMutationTime now previous"
  by (auto simp: streamMutationTime_def microsecond_def Let_def)

definition UpdateStreamStatus ::
  "ctx \<Rightarrow> string \<Rightarrow> string \<Rightarrow> time \<Rightarrow> stream_store \<Rightarrow> (stream, stream_store) outcome" where
  "UpdateStreamStatus c i status now = with_ctx c (\<lambda>s.
     case mget (streams s) i of
       None \<Rightarrow> (Inl ErrNotFound, s)
     | Some st \<Rightarrow>
         let st' = st\<lparr>st_Status := status, st_UpdatedAt := streamMutationTime now (st_UpdatedAt st)\<rparr>
         in (Inr st', put_stream i st' s))"

definition TransitionStreamStatus ::
  "ctx \<Rightarrow> string \<Rightarrow> string \<Rightarrow> string \<Rightarrow> time \<Rightarrow> stream_store \<Rightarrow> (stream \<times> bool, stream_store) outcome" where
  "TransitionStreamStatus c i expectedStatus status now = with_ctx c (\<lambda>s.
     case mget (streams s) i of
       None \<Rightarrow> (Inl ErrNotFound, s)
     | Some st \<Rightarrow>
         if \<not> equalFold (trimSpace (st_Status st)) (trimSpace expectedStatus) then (Inr (st, False), s)
         else let st' = st\<lparr>st_Status := status, st_UpdatedAt := streamMutationTime now (st_UpdatedAt st)\<rparr>
              in (Inr (st', True), put_stream i st' s))"

definition PrepareStreamArchiveRun ::
  "ctx \<Rightarrow> string \<Rightarrow> string \<Rightarrow> time \<Rightarrow> time \<Rightarrow> stream_store \<Rightarrow> (stream, stream_store) outcome" where
  "PrepareStreamArchiveRun c i archiveRunID0 startedAt now = with_ctx c (\<lambda>s.
     let archiveRunID = trimSpace archiveRunID0 in
     if \<not> validArchiveRunID archiveRunID \<or> isZero startedAt then (Inl ErrInvalidStreamArtifact, s)
     else case mget (streams s) i of
       None \<Rightarrow> (Inl ErrNotFound, s)
     | Some st \<Rightarrow>
         let st' = st\<lparr>st_ArchiveRunID := archiveRunID, st_ArchiveStartedAt := Some startedAt,
               st_ArchiveReportedAt := None,
               st_UpdatedAt := streamMutationTime now (st_UpdatedAt st)\<rparr>
         in (Inr st', (put_stream i st' s)\<lparr>artifactReports := mput (artifactReports s) i False\<rparr>))"

subsection \<open>Media runtime and settings\<close>

definition SetStreamVideoOverlayBurnIn ::
  "ctx \<Rightarrow> string \<Rightarrow> bool \<Rightarrow> time \<Rightarrow> stream_store \<Rightarrow> (unit, stream_store) outcome" where
  "SetStreamVideoOverlayBurnIn c streamID0 enabled now = with_ctx c (\<lambda>s.
     let streamID = trimSpace streamID0 in
     if mget (streams s) streamID = None then (Inl ErrNotFound, s)
     else (Inr (), s\<lparr>mediaRuntimes := mput (mediaRuntimes s) streamID
             \<lparr>mr_StreamID = streamID, mr_VideoOverlayBurnIn = enabled, mr_UpdatedAt = now\<rparr>\<rparr>))"

definition GetStreamMediaRuntime ::
  "ctx \<Rightarrow> string \<Rightarrow> stream_store \<Rightarrow> (stream_media_runtime, stream_store) outcome" where
  "GetStreamMediaRuntime c streamID = with_ctx c (\<lambda>s.
     case mget (mediaRuntimes s) (trimSpace streamID) of
       None \<Rightarrow> (Inl ErrNotFound, s) | Some r \<Rightarrow> (Inr r, s))"

definition applyMemoryStreamSettings :: "stream \<Rightarrow> stream_settings \<Rightarrow> time \<Rightarrow> stream" where
  "applyMemoryStreamSettings st settings now =
     (let name = trimSpace (ss_Name settings);
          st1 = (if name \<noteq> [] then st\<lparr>st_Name := name\<rparr> else st) in
      st1\<lparr>st_ScheduledStartAt := cloneTimePtr (ss_ScheduledStartAt settings),
          st_ScheduledEndAt := cloneTimePtr (ss_ScheduledEndAt settings),
          st_DiscordConfigID := trimSpace (ss_DiscordConfigID settings),
          st_AutoStartTrigger := trimSpace (ss_AutoStartTrigger settings),
          st_EncoderProfileID := trimSpace (ss_EncoderProfileID settings),
          st_CaptionProfileID := trimSpace (ss_CaptionProfileID settings),
          st_OverlayProfileID := trimSpace (ss_OverlayProfileID settings),
          st_EncoderAudioGainDB := ss_EncoderAudioGainDB settings,
          st_ArchiveProfileID := trimSpace (ss_ArchiveProfileID settings),
          st_ArchiveDriveDestinationID := trimSpace (ss_ArchiveDriveDestinationID settings),
          st_ArchiveOAuthAccountID := trimSpace (ss_ArchiveOAuthAccountID settings),
          st_ArchiveSharedDrive := ss_ArchiveSharedDrive settings,
          st_ArchiveSharedDriveID := trimSpace (ss_ArchiveSharedDriveID settings),
          st_ArchiveFileName := trimSpace (ss_ArchiveFileName settings),
          st_ArchiveFolderIDConfigured := (trimSpace (ss_ArchiveDriveDestinationID settings) \<noteq> []),
          st_YouTubeOutputID := trimSpace (ss_YouTubeOutputID settings),
          st_EncoderInputURL := trimSpace (ss_EncoderInputURL settings),
          st_UpdatedAt := now\<rparr>)"

definition UpdateStreamEncoderRuntimeSettings ::
  "ctx \<Rightarrow> string \<Rightarrow> float64 \<Rightarrow> string \<Rightarrow> time \<Rightarrow> stream_store \<Rightarrow> (stream, stream_store) outcome" where
  "UpdateStreamEncoderRuntimeSettings c i audioGainDB overlayProfileID now = with_ctx c (\<lambda>s.
     case mget (streams s) (trimSpace i) of
       None \<Rightarrow> (Inl ErrNotFound, s)
     | Some st \<Rightarrow>
         let st' = st\<lparr>st_EncoderAudioGainDB := audioGainDB,
               st_OverlayProfileID := trimSpace overlayProfileID, st_UpdatedAt := now\<rparr>
         in (Inr st', put_stream (st_ID st) st' s))"

lemma applyMemoryStreamSettings_keeps [simp]:
  "st_ID (applyMemoryStreamSettings st settings now) = st_ID st"
  "st_Status (applyMemoryStreamSettings st settings now) = st_Status st"
  "st_DeletedAt (applyMemoryStreamSettings st settings now) = st_DeletedAt st"
  "st_ArchiveRunID (applyMemoryStreamSettings st settings now) = st_ArchiveRunID st"
  "st_ArchiveStartedAt (applyMemoryStreamSettings st settings now) = st_ArchiveStartedAt st"
  "st_ArchiveReportedAt (applyMemoryStreamSettings st settings now) = st_ArchiveReportedAt st"
  by (simp_all add: applyMemoryStreamSettings_def Let_def)

end
