(* ===== verification/Service_Registry.thy ===== *)
theory Service_Registry
  imports Prelude "HOL-Library.Multiset"
begin

text \<open>
  The service registry of \<^verbatim>\<open>MemoryAuthStore\<close>: the structs of \<^verbatim>\<open>services.go\<close>, the
  assignment keys, and the assignment operations of \<^verbatim>\<open>memory_service_assignments_events.go\<close> that
  need no stream state. \<open>auth_store\<close> has the registry's fields of \<^verbatim>\<open>MemoryAuthStore\<close>; its
  user, session and credential maps belong to another component.
\<close>

subsection \<open>Data\<close>

record service_token =
  tk_ID :: string
  tk_ServiceType :: string
  tk_Scopes :: "string list"
  tk_RevokedAt :: "time option"
  tk_CreatedAt :: time
  tk_RawToken :: string
  tk_TokenHash :: string

record service_endpoint =
  ep_Host :: string
  ep_Port :: int
  ep_SSLEnabled :: bool
  ep_PublicURL :: string

record registered_service =
  sv_ServiceID :: string
  sv_ServiceType :: string
  sv_ServiceName :: string
  sv_Description :: string
  sv_TransportMode :: string
  sv_ExecutionHostID :: string
  sv_OwnershipEpoch :: int
  sv_Host :: string
  sv_Port :: int
  sv_SSLEnabled :: bool
  sv_PublicURL :: string
  sv_DesiredEndpoint :: "service_endpoint option"
  sv_AppliedEndpoint :: "service_endpoint option"
  sv_ReportedEndpoint :: "service_endpoint option"
  sv_EndpointRevision :: int
  sv_AppliedEndpointRevision :: int
  sv_EndpointStatus :: string
  sv_AppliedConfigRevision :: int
  sv_AppliedConfigSHA256 :: string
  sv_Version :: string
  sv_ReportedVersion :: string
  sv_ReportedCommit :: string
  sv_ReportedBuildDate :: string
  sv_Status :: string
  sv_AssignmentRole :: string
  sv_LastHeartbeatAt :: "time option"
  sv_LastReportedAt :: "time option"
  sv_CurrentStreamID :: string
  sv_Capabilities :: "any gomap"
  sv_ReportedCapabilities :: "any gomap"
  sv_Metrics :: "any gomap"
  sv_TokenID :: string
  sv_NodeTokenCiphertext :: string
  sv_NodeTokenNonce :: string
  sv_StagedNodePreviousTokenID :: string
  sv_StagedNodeTokenID :: string
  sv_StagedNodeTokenHash :: string
  sv_StagedNodeTokenScopes :: "string list"
  sv_StagedNodeTokenCiphertext :: string
  sv_StagedNodeTokenNonce :: string
  sv_StagedNodeActivationTokenHash :: string
  sv_StagedNodeTokenAt :: "time option"
  sv_ReportedHostname :: string
  sv_ReportedOS :: string
  sv_ReportedArch :: string
  sv_ConfigureTokenHash :: string
  sv_ConfigureTokenExpiresAt :: "time option"
  sv_ConfigureTokenUsedAt :: "time option"
  sv_NodeTokenRotatedAt :: "time option"
  sv_CreatedAt :: time
  sv_UpdatedAt :: time

text \<open>The zero value of the struct.\<close>

definition zero_service :: registered_service where
  "zero_service =
     \<lparr>sv_ServiceID = [], sv_ServiceType = [], sv_ServiceName = [], sv_Description = [],
      sv_TransportMode = [], sv_ExecutionHostID = [], sv_OwnershipEpoch = 0, sv_Host = [],
      sv_Port = 0, sv_SSLEnabled = False, sv_PublicURL = [], sv_DesiredEndpoint = None,
      sv_AppliedEndpoint = None, sv_ReportedEndpoint = None, sv_EndpointRevision = 0,
      sv_AppliedEndpointRevision = 0, sv_EndpointStatus = [], sv_AppliedConfigRevision = 0,
      sv_AppliedConfigSHA256 = [], sv_Version = [], sv_ReportedVersion = [],
      sv_ReportedCommit = [], sv_ReportedBuildDate = [], sv_Status = [], sv_AssignmentRole = [],
      sv_LastHeartbeatAt = None, sv_LastReportedAt = None, sv_CurrentStreamID = [],
      sv_Capabilities = [], sv_ReportedCapabilities = [], sv_Metrics = [], sv_TokenID = [],
      sv_NodeTokenCiphertext = [], sv_NodeTokenNonce = [], sv_StagedNodePreviousTokenID = [],
      sv_StagedNodeTokenID = [], sv_StagedNodeTokenHash = [], sv_StagedNodeTokenScopes = [],
      sv_StagedNodeTokenCiphertext = [], sv_StagedNodeTokenNonce = [],
      sv_StagedNodeActivationTokenHash = [], sv_StagedNodeTokenAt = None,
      sv_ReportedHostname = [], sv_ReportedOS = [], sv_ReportedArch = [],
      sv_ConfigureTokenHash = [], sv_ConfigureTokenExpiresAt = None,
      sv_ConfigureTokenUsedAt = None, sv_NodeTokenRotatedAt = None, sv_CreatedAt = 0,
      sv_UpdatedAt = 0\<rparr>"

record stream_service_assignment =
  as_StreamID :: string
  as_ServiceID :: string
  as_ServiceType :: string
  as_AssignmentRole :: string
  as_AssignedAt :: time

record service_stream_event =
  ev_ServiceID :: string
  ev_StreamID :: string
  ev_EventType :: string
  ev_Payload :: "any gomap"

record service_metric_snapshot =
  ms_Name :: string
  ms_ServiceID :: string
  ms_ServiceType :: string
  ms_Status :: string
  ms_Value :: float64
  ms_ObservedAt :: time

record auth_store =
  serviceTokens :: "service_token gomap"
  services :: "registered_service gomap"
  assignments :: "string gomap"
  assignmentIDs :: "string gomap"
  streamEvents :: "service_stream_event list"
  metricHistory :: "service_metric_snapshot list"

definition NewMemoryAuthStore :: auth_store where
  "NewMemoryAuthStore =
     \<lparr>serviceTokens = [], services = [], assignments = [], assignmentIDs = [], streamEvents = [], metricHistory = []\<rparr>"

subsection \<open>Assignment keys\<close>

definition assignmentKey :: "string \<Rightarrow> string \<Rightarrow> string \<Rightarrow> string \<Rightarrow> string" where
  "assignmentKey streamID serviceType assignmentRole serviceID =
     (if assignmentRole = ''standby''
      then streamID @ NUL # ''standby'' @ NUL # serviceType @ NUL # serviceID
      else streamID @ NUL # ''primary'' @ NUL # serviceType)"

definition assignmentKeyMatchesPrimary :: "string \<Rightarrow> string \<Rightarrow> string \<Rightarrow> bool" where
  "assignmentKeyMatchesPrimary key streamID serviceType \<longleftrightarrow>
     key = assignmentKey streamID serviceType ''primary'' []"

definition assignmentRoleFromKey :: "string \<Rightarrow> string" where
  "assignmentRoleFromKey key =
     (let parts = splitOn NUL key in
      if length parts \<ge> 2 \<and> parts ! 1 = ''standby'' then ''standby'' else ''primary'')"

text \<open>The three named results of the Go function, as a triple in its order.\<close>

definition assignmentPartsFromKey :: "string \<Rightarrow> string \<times> string \<times> string" where
  "assignmentPartsFromKey key =
     (let parts = splitOn NUL key in
      if length parts \<ge> 3
      then (parts ! 0, parts ! 2, if parts ! 1 \<noteq> ''standby'' then ''primary'' else parts ! 1)
      else ([], [], ''primary''))"

definition normalizeAssignmentRole :: "string \<Rightarrow> string" where
  "normalizeAssignmentRole role =
     (if trimSpace (toLower role) = ''standby'' then ''standby'' else ''primary'')"

definition streamAssignableServiceType :: "string \<Rightarrow> bool" where
  "streamAssignableServiceType serviceType \<longleftrightarrow>
     trimSpace serviceType \<in> {''discord_bot'', ''encoder_recorder'', ''worker'', ''observability''}"

lemma normalizeAssignmentRole_cases:
  "normalizeAssignmentRole r = ''standby'' \<or> normalizeAssignmentRole r = ''primary''"
  by (simp add: normalizeAssignmentRole_def)

lemma NUL_literals [simp]: "NUL \<notin> set ''standby''" "NUL \<notin> set ''primary''"
  by (simp_all add: NUL_def)

lemma splitOn_primary_key:
  "NUL \<notin> set st \<Longrightarrow> NUL \<notin> set ty \<Longrightarrow>
   splitOn NUL (assignmentKey st ty ''primary'' sid) = [st, ''primary'', ty]"
  by (simp add: assignmentKey_def splitOn_append_sep splitOn_no_sep NUL_def)

lemma splitOn_standby_key:
  "NUL \<notin> set st \<Longrightarrow> NUL \<notin> set ty \<Longrightarrow>
   splitOn NUL (assignmentKey st ty ''standby'' sid) = st # ''standby'' # ty # splitOn NUL sid"
  by (simp add: assignmentKey_def splitOn_append_sep splitOn_no_sep NUL_def)

lemma splitOn_length_pos: "0 < length (splitOn c s)"
  by (simp only: length_greater_0_conv splitOn_not_Nil not_False_eq_True)

lemma assignmentPartsFromKey_key:
  assumes "NUL \<notin> set st" and "NUL \<notin> set ty" and "role = ''primary'' \<or> role = ''standby''"
  shows "assignmentPartsFromKey (assignmentKey st ty role sid) = (st, ty, role)"
  using assms(3)
proof
  assume "role = ''primary''"
  with assms show ?thesis
    by (simp add: assignmentPartsFromKey_def splitOn_primary_key)
next
  assume "role = ''standby''"
  with assms splitOn_length_pos [of NUL sid] show ?thesis
    by (simp add: assignmentPartsFromKey_def splitOn_standby_key Let_def Suc_le_eq)
qed

lemma assignmentRoleFromKey_key:
  assumes "NUL \<notin> set st" and "NUL \<notin> set ty" and "role = ''primary'' \<or> role = ''standby''"
  shows "assignmentRoleFromKey (assignmentKey st ty role sid) = role"
  using assms(3)
proof
  assume "role = ''primary''"
  with assms show ?thesis
    by (simp add: assignmentRoleFromKey_def splitOn_primary_key)
next
  assume "role = ''standby''"
  with assms show ?thesis
    by (simp add: assignmentRoleFromKey_def splitOn_standby_key)
qed

subsection \<open>The consistency check\<close>

text \<open>
  The loop of \<^verbatim>\<open>consistentServiceAssignmentLocked\<close> over the assignments, with its three
  variables \<^verbatim>\<open>owner\<close>, \<^verbatim>\<open>role\<close> and \<^verbatim>\<open>count\<close> as the accumulator.
\<close>

fun scanServiceAssignments ::
  "registered_service \<Rightarrow> string \<times> string \<times> nat \<Rightarrow> string gomap \<Rightarrow>
   (string \<times> string \<times> nat) result" where
  "scanServiceAssignments service acc [] = Inr acc"
| "scanServiceAssignments service (owner, role, n) ((key, assignedServiceID) # rest) =
     (if assignedServiceID \<noteq> sv_ServiceID service
      then scanServiceAssignments service (owner, role, n) rest
      else case assignmentPartsFromKey key of (streamID, serviceType, assignmentRole) \<Rightarrow>
        if serviceType \<noteq> sv_ServiceType service \<or> streamID = []
        then Inl ErrServiceAssignmentConflict
        else scanServiceAssignments service (streamID, assignmentRole, n + 1) rest)"

definition consistentServiceAssignmentLocked ::
  "auth_store \<Rightarrow> registered_service \<Rightarrow> (string \<times> string) result" where
  "consistentServiceAssignmentLocked s service =
     (case scanServiceAssignments service ([], [], 0) (assignments s) of
        Inl e \<Rightarrow> Inl e
      | Inr (owner, role, n) \<Rightarrow>
          if n > 1 \<or> (n = 0) \<noteq> (trimSpace (sv_CurrentStreamID service) = [])
          then Inl ErrServiceAssignmentConflict
          else if n = 1 \<and> owner \<noteq> trimSpace (sv_CurrentStreamID service)
          then Inl ErrServiceAssignmentConflict
          else Inr (owner, role))"

text \<open>The entries of the assignment map that name a service.\<close>

definition assignments_of :: "auth_store \<Rightarrow> string \<Rightarrow> (string \<times> string) list" where
  "assignments_of s sid = filter (\<lambda>(k, v). v = sid) (assignments s)"

lemma mset_assignments_of:
  "mset (assignments_of s sid) = filter_mset (\<lambda>(k, v). v = sid) (mset (assignments s))"
  by (simp add: assignments_of_def mset_filter)

lemma scanServiceAssignments_filter:
  "scanServiceAssignments service acc m =
   scanServiceAssignments service acc (filter (\<lambda>(k, v). v = sv_ServiceID service) m)"
proof (induction m arbitrary: acc)
  case (Cons a m)
  obtain o' r n where [simp]: "acc = (o', r, n)" by (cases acc)
  obtain k v where [simp]: "a = (k, v)" by (cases a)
  show ?case by (auto simp: Cons.IH split: prod.split)
qed simp

lemma scanServiceAssignments_count:
  "scanServiceAssignments service (o', r, n) m = Inr (o'', r', n') \<Longrightarrow>
   n' = n + length (filter (\<lambda>(k, v). v = sv_ServiceID service) m)"
proof (induction m arbitrary: o' r n)
  case (Cons a m)
  obtain k v where [simp]: "a = (k, v)" by (cases a)
  from Cons.prems show ?case
    by (auto dest: Cons.IH split: if_splits prod.splits)
qed simp

lemma scanServiceAssignments_error:
  "scanServiceAssignments service acc m = Inl e \<Longrightarrow> e = ErrServiceAssignmentConflict"
proof (induction m arbitrary: acc)
  case (Cons a m)
  obtain o' r n where [simp]: "acc = (o', r, n)" by (cases acc)
  obtain k v where [simp]: "a = (k, v)" by (cases a)
  from Cons show ?case by (auto split: if_splits prod.splits)
qed simp

text \<open>
  What the check decides, whatever the order of iteration: no assignment and no current stream,
  or exactly one assignment that agrees with the service's type and current stream.
\<close>

lemma consistent_iff:
  "consistentServiceAssignmentLocked s service = Inr (owner, role) \<longleftrightarrow>
     (assignments_of s (sv_ServiceID service) = [] \<and>
        trimSpace (sv_CurrentStreamID service) = [] \<and> owner = [] \<and> role = []) \<or>
     (\<exists>key. assignments_of s (sv_ServiceID service) = [(key, sv_ServiceID service)] \<and>
        assignmentPartsFromKey key = (owner, sv_ServiceType service, role) \<and> owner \<noteq> [] \<and>
        owner = trimSpace (sv_CurrentStreamID service))"
proof -
  let ?ks = "assignments_of s (sv_ServiceID service)"
  have scan: "scanServiceAssignments service ([], [], 0) (assignments s) =
      scanServiceAssignments service ([], [], 0) ?ks"
    unfolding assignments_of_def by (rule scanServiceAssignments_filter)
  have all: "\<forall>(k, v) \<in> set ?ks. v = sv_ServiceID service"
    by (auto simp: assignments_of_def)
  consider (none) "?ks = []" | (one) key v where "?ks = [(key, v)]"
    | (more) "1 < length ?ks"
    by (cases ?ks rule: remdups_adj.cases) auto
  then show ?thesis
  proof cases
    case none
    then show ?thesis
      by (auto simp: consistentServiceAssignmentLocked_def scan)
  next
    case (one key v)
    with all have v: "v = sv_ServiceID service" by simp
    show ?thesis
      by (cases "assignmentPartsFromKey key")
        (auto simp: consistentServiceAssignmentLocked_def scan one v)
  next
    case more
    have len: "filter (\<lambda>(k, v). v = sv_ServiceID service) ?ks = ?ks"
      using all by (auto simp: filter_id_conv)
    have "consistentServiceAssignmentLocked s service \<noteq> Inr (owner, role)"
      using more scanServiceAssignments_count [of service "[]" "[]" 0 ?ks] len
      by (auto simp: consistentServiceAssignmentLocked_def scan split: sum.splits if_splits)
    with more show ?thesis by (auto simp: scan)
  qed
qed

lemma consistent_error:
  "consistentServiceAssignmentLocked s service = Inl e \<Longrightarrow> e = ErrServiceAssignmentConflict"
  by (auto simp: consistentServiceAssignmentLocked_def split: sum.splits if_splits
      dest: scanServiceAssignments_error)

lemma consistent_role:
  "consistentServiceAssignmentLocked s service = Inr (owner, role) \<Longrightarrow> owner \<noteq> [] \<Longrightarrow>
   role = ''primary'' \<or> role = ''standby''"
  by (auto simp: consistent_iff assignmentPartsFromKey_def Let_def split: if_splits)

subsection \<open>Properties\<close>

text \<open>
  Assignment keys round trip: for a stream and a service type without NUL bytes the parts that
  \<^verbatim>\<open>assignmentPartsFromKey\<close> and \<^verbatim>\<open>assignmentRoleFromKey\<close> read from a key are the ones
  \<^verbatim>\<open>assignmentKey\<close> built it from, and two keys agree only when stream, type and role agree and,
  for standbys, the service too.
\<close>

theorem assignment_key_roundtrip:
  assumes "NUL \<notin> set st" and "NUL \<notin> set ty" and "role \<in> {''primary'', ''standby''}"
    and "NUL \<notin> set st'" and "NUL \<notin> set ty'" and "role' \<in> {''primary'', ''standby''}"
  shows "assignmentPartsFromKey (assignmentKey st ty role sid) = (st, ty, role) \<and>
    assignmentRoleFromKey (assignmentKey st ty role sid) = role \<and>
    (assignmentKey st ty role sid = assignmentKey st' ty' role' sid' \<longleftrightarrow>
       st = st' \<and> ty = ty' \<and> role = role' \<and> (role = ''standby'' \<longrightarrow> sid = sid'))"
proof -
  from assms have p: "assignmentPartsFromKey (assignmentKey st ty role sid) = (st, ty, role)"
    and p': "assignmentPartsFromKey (assignmentKey st' ty' role' sid') = (st', ty', role')"
    by (auto intro: assignmentPartsFromKey_key)
  have "st = st' \<and> ty = ty' \<and> role = role' \<and> (role = ''standby'' \<longrightarrow> sid = sid')"
    if eq: "assignmentKey st ty role sid = assignmentKey st' ty' role' sid'"
  proof -
    from eq p p' have "st = st' \<and> ty = ty' \<and> role = role'" by simp
    with eq show ?thesis by (auto simp: assignmentKey_def)
  qed
  moreover have "assignmentKey st ty role sid = assignmentKey st ty role sid'"
    if "role = ''standby'' \<longrightarrow> sid = sid'"
    using that by (auto simp: assignmentKey_def)
  ultimately show ?thesis
    using p assms by (auto intro: assignmentRoleFromKey_key)
qed

theorem assignment_key_roundtrip_witness:
  "assignmentPartsFromKey (assignmentKey ''s1'' ''worker'' ''standby'' ''w1'') = (''s1'', ''worker'', ''standby'') \<and>
   assignmentKey ''s1'' ''worker'' ''standby'' ''w1'' \<noteq> assignmentKey ''s1'' ''worker'' ''standby'' ''w2''"
  using assignment_key_roundtrip
    [of "''s1''" "''worker''" "''standby''" "''s1''" "''worker''" "''standby''" "''w1''" "''w2''"]
  by (simp add: NUL_def)

text \<open>
  C30. The consistency check does not depend on the order in which Go iterates over the assignment
  map: two registries whose assignment maps are permutations of each other give the same answer,
  error or ownership, for every service.
\<close>

theorem consistency_order_independent:
  assumes "mset (assignments s) = mset (assignments t)"
  shows "consistentServiceAssignmentLocked s service = consistentServiceAssignmentLocked t service"
proof -
  have "mset (assignments_of s sid) = mset (assignments_of t sid)" for sid
    using assms by (simp add: mset_assignments_of)
  then have "assignments_of s sid = [] \<longleftrightarrow> assignments_of t sid = []"
    and "assignments_of s sid = [x] \<longleftrightarrow> assignments_of t sid = [x]" for sid x
    by (metis mset_zero_iff, metis mset_single_iff)
  then have "consistentServiceAssignmentLocked s service = Inr r \<longleftrightarrow>
      consistentServiceAssignmentLocked t service = Inr r" for r
    by (cases r) (simp add: consistent_iff)
  then show ?thesis
    by (metis consistent_error sum.exhaust)
qed

theorem consistency_order_independent_witness:
  "let svc = zero_service\<lparr>sv_ServiceID := ''w1'', sv_ServiceType := ''worker'', sv_CurrentStreamID := ''s1''\<rparr>;
       x = (assignmentKey ''s1'' ''worker'' ''primary'' ''w1'', ''w1'');
       y = (assignmentKey ''s1'' ''discord_bot'' ''primary'' ''d1'', ''d1'');
       s = NewMemoryAuthStore\<lparr>assignments := [x, y]\<rparr>; t = NewMemoryAuthStore\<lparr>assignments := [y, x]\<rparr>
   in consistentServiceAssignmentLocked t svc = Inr (''s1'', ''primary'') \<and>
      consistentServiceAssignmentLocked s svc = consistentServiceAssignmentLocked t svc"
  unfolding Let_def
proof (rule conjI, goal_cases)
  case 1
  show ?case by code_simp
next
  case 2
  show ?case by (rule consistency_order_independent) simp
qed

end
