(* ===== verification/Panel.thy ===== *)
theory Panel
  imports Stream_Store Service_Registry
begin

text \<open>
  The stores joined as the server joins them (\<^verbatim>\<open>BindStreamAssignmentGuard\<close> of
  \<^verbatim>\<open>memory_auth.go\<close>, \<^verbatim>\<open>BindStreamYouTubeRelayBindingClaims\<close> of \<^verbatim>\<open>profiles.go\<close>): a pointer
  that is not nil points to the store of the same panel, so each pointer is a flag. A method that
  takes several mutexes runs in one critical section and is one function on the whole state.
\<close>

type_synonym profile_kind = string

definition ProfileEncoder :: profile_kind where "ProfileEncoder = ''encoder''"
definition ProfileArchive :: profile_kind where "ProfileArchive = ''archive''"
definition ProfileCaption :: profile_kind where "ProfileCaption = ''caption''"
definition ProfileOverlay :: profile_kind where "ProfileOverlay = ''overlay''"
definition ProfileDiscordConfig :: profile_kind where "ProfileDiscordConfig = ''discord_config''"
definition ProfileYouTubeOutput :: profile_kind where "ProfileYouTubeOutput = ''youtube_output''"

record profile =
  pf_ID :: string
  pf_Kind :: profile_kind
  pf_Name :: string
  pf_Config :: "any gomap"
  pf_CreatedAt :: time
  pf_UpdatedAt :: time
  pf_YouTubeRelayBindingRevision :: "64 word"

record panel =
  ps_streams :: stream_store
  ps_auth :: auth_store
  ps_profiles :: "profile gomap"
  serviceAssignmentGuard :: bool
  streamAssignmentGuard :: bool
  relayBindingClaimProfiles :: bool
  relayBindingClaimStreams :: bool

definition NewPanel :: panel where
  "NewPanel =
     \<lparr>ps_streams = NewMemoryStreamStore, ps_auth = NewMemoryAuthStore, ps_profiles = [],
      serviceAssignmentGuard = False, streamAssignmentGuard = False,
      relayBindingClaimProfiles = False, relayBindingClaimStreams = False\<rparr>"

definition BindStreamAssignmentGuard :: "panel \<Rightarrow> panel" where
  "BindStreamAssignmentGuard p = p\<lparr>serviceAssignmentGuard := True, streamAssignmentGuard := True\<rparr>"

definition BindStreamYouTubeRelayBindingClaims :: "panel \<Rightarrow> panel" where
  "BindStreamYouTubeRelayBindingClaims p =
     p\<lparr>relayBindingClaimStreams := True, relayBindingClaimProfiles := True\<rparr>"

text \<open>A string entry of a profile's configuration, trimmed; empty if absent or not a string.\<close>

definition currentDiscordConfigString :: "any gomap \<Rightarrow> string \<Rightarrow> string" where
  "currentDiscordConfigString config key =
     trimSpace (case mget config key of Some (AStr v) \<Rightarrow> v | _ \<Rightarrow> [])"

text \<open>An operation on the stream store alone, run on the panel.\<close>

definition on_streams ::
  "(stream_store \<Rightarrow> ('a, stream_store) outcome) \<Rightarrow> panel \<Rightarrow> ('a, panel) outcome" where
  "on_streams f p = (case f (ps_streams p) of (r, s) \<Rightarrow> (r, p\<lparr>ps_streams := s\<rparr>))"

subsection \<open>The assignment step shared by the assigning operations\<close>

text \<open>
  The entries an assignment replaces: those of the service itself, the primary of the same
  stream and type when a primary is assigned, and the target entry.
\<close>

definition replaces ::
  "string \<Rightarrow> string \<Rightarrow> string \<Rightarrow> string \<Rightarrow> string \<Rightarrow> string \<Rightarrow> bool" where
  "replaces serviceID streamID serviceType role key assignedServiceID \<longleftrightarrow>
     assignedServiceID = serviceID \<or>
     (role = ''primary'' \<and> assignmentKeyMatchesPrimary key streamID serviceType) \<or>
     key = assignmentKey streamID serviceType role serviceID"

definition replacedServiceIDs ::
  "string \<Rightarrow> string \<Rightarrow> string \<Rightarrow> string \<Rightarrow> auth_store \<Rightarrow> string list" where
  "replacedServiceIDs serviceID streamID serviceType role a =
     remdups (map snd (filter (\<lambda>(k, v). replaces serviceID streamID serviceType role k v \<and> v \<noteq> serviceID)
       (assignments a)))"

definition release_service :: "time \<Rightarrow> registered_service \<Rightarrow> registered_service" where
  "release_service now svc =
     svc\<lparr>sv_CurrentStreamID := [],
         sv_Status := (if sv_Status svc = ''assigned'' then ''registered'' else sv_Status svc),
         sv_UpdatedAt := now\<rparr>"

text \<open>
  Release every service of a list. Like the source, a service the registry does not hold is read
  as the zero value and written back under its identifier.
\<close>

definition service_or_zero :: "auth_store \<Rightarrow> string \<Rightarrow> registered_service" where
  "service_or_zero a sid = (case mget (services a) sid of None \<Rightarrow> zero_service | Some svc \<Rightarrow> svc)"

fun release_all :: "(string \<Rightarrow> time) \<Rightarrow> string list \<Rightarrow> auth_store \<Rightarrow> auth_store" where
  "release_all now [] a = a"
| "release_all now (sid # rest) a =
     release_all now rest
       (a\<lparr>services := mput (services a) sid (release_service (now sid) (service_or_zero a sid))\<rparr>)"

definition delete_assignments :: "(string \<Rightarrow> string \<Rightarrow> bool) \<Rightarrow> auth_store \<Rightarrow> auth_store" where
  "delete_assignments P a =
     a\<lparr>assignments := mdel_where P (assignments a),
       assignmentIDs := mdel_where (\<lambda>k _. case mget (assignments a) k of None \<Rightarrow> False | Some v \<Rightarrow> P k v)
         (assignmentIDs a)\<rparr>"

definition write_assignment ::
  "string \<Rightarrow> string \<Rightarrow> string \<Rightarrow> string \<Rightarrow> string \<Rightarrow> time \<Rightarrow> registered_service \<Rightarrow> auth_store \<Rightarrow>
   registered_service \<times> auth_store" where
  "write_assignment key serviceID streamID role uuid now svc a =
     (let svc' = svc\<lparr>sv_CurrentStreamID := streamID, sv_Status := ''assigned'',
            sv_AssignmentRole := role, sv_UpdatedAt := now\<rparr> in
      (svc', a\<lparr>assignments := mput (assignments a) key serviceID,
        assignmentIDs := mput (assignmentIDs a) key uuid,
        services := mput (services a) serviceID svc'\<rparr>))"

text \<open>
  The mutating tail of an assignment: delete the replaced entries, release their services, write
  the new entry. \<open>now\<close> gives the clock reading for each written service.
\<close>

definition replace_assignment ::
  "string \<Rightarrow> string \<Rightarrow> string \<Rightarrow> string \<Rightarrow> (string \<Rightarrow> time) \<Rightarrow> registered_service \<Rightarrow> auth_store \<Rightarrow>
   registered_service \<times> auth_store" where
  "replace_assignment serviceID streamID role uuid now svc a =
     (let ids = replacedServiceIDs serviceID streamID (sv_ServiceType svc) role a;
          a1 = delete_assignments (replaces serviceID streamID (sv_ServiceType svc) role) a;
          a2 = release_all now ids a1 in
      write_assignment (assignmentKey streamID (sv_ServiceType svc) role serviceID)
        serviceID streamID role uuid (now serviceID) svc a2)"

text \<open>Delete the entries of one service and write it back without a stream.\<close>

definition drop_service_assignments :: "string \<Rightarrow> auth_store \<Rightarrow> auth_store" where
  "drop_service_assignments serviceID = delete_assignments (\<lambda>_ assigned. assigned = serviceID)"

end
