(* ===== verification/Registry_Invariant.thy ===== *)
theory Registry_Invariant
  imports Panel
begin

text \<open>
  The invariant of the service registry and its preservation by the writing steps that the
  assigning operations share: entries of the assignment map name registered services, sit under
  the key of the stream the service says it serves, and a service has at most one.
\<close>

subsection \<open>The invariant of the registry\<close>

definition good_id :: "string \<Rightarrow> bool" where
  "good_id i \<longleftrightarrow> i \<noteq> [] \<and> trimSpace i = i \<and> NUL \<notin> set i"

text \<open>
  An entry of the assignment map names a registered service and is filed under the key of the
  stream that service says it serves.
\<close>

definition entry_ok :: "auth_store \<Rightarrow> string \<Rightarrow> string \<Rightarrow> bool" where
  "entry_ok a key sid \<longleftrightarrow>
     (\<exists>svc role. mget (services a) sid = Some svc \<and> role \<in> {''primary'', ''standby''} \<and>
        good_id (sv_CurrentStreamID svc) \<and>
        key = assignmentKey (sv_CurrentStreamID svc) (sv_ServiceType svc) role sid)"

lemma entry_okI:
  "mget (services a) sid = Some svc \<Longrightarrow> role \<in> {''primary'', ''standby''} \<Longrightarrow> good_id (sv_CurrentStreamID svc) \<Longrightarrow>
   key = assignmentKey (sv_CurrentStreamID svc) (sv_ServiceType svc) role sid \<Longrightarrow> entry_ok a key sid"
  unfolding entry_ok_def by blast

definition registry_ok :: "auth_store \<Rightarrow> bool" where
  "registry_ok a \<longleftrightarrow>
     keyed sv_ServiceID (services a) \<and> mwf (assignments a) \<and> mwf (assignmentIDs a) \<and>
     (\<forall>key. (mget (assignmentIDs a) key = None) = (mget (assignments a) key = None)) \<and>
     (\<forall>sid svc. mget (services a) sid = Some svc \<longrightarrow> NUL \<notin> set (sv_ServiceType svc)) \<and>
     (\<forall>key sid. mget (assignments a) key = Some sid \<longrightarrow> entry_ok a key sid) \<and>
     (\<forall>sid svc. mget (services a) sid = Some svc \<longrightarrow> trimSpace (sv_CurrentStreamID svc) \<noteq> [] \<longrightarrow>
        (\<exists>key. mget (assignments a) key = Some sid)) \<and>
     (\<forall>key key' sid. mget (assignments a) key = Some sid \<longrightarrow> mget (assignments a) key' = Some sid \<longrightarrow> key = key')"

lemma registry_ok_init: "registry_ok NewMemoryAuthStore"
  by (simp add: registry_ok_def NewMemoryAuthStore_def)

lemma registry_okD:
  assumes "registry_ok a"
  shows registry_keyed: "keyed sv_ServiceID (services a)"
    and registry_mwf: "mwf (assignments a)" "mwf (assignmentIDs a)"
    and registry_ids: "\<And>key. (mget (assignmentIDs a) key = None) = (mget (assignments a) key = None)"
    and registry_sid: "\<And>sid svc. mget (services a) sid = Some svc \<Longrightarrow> sv_ServiceID svc = sid"
    and registry_type: "\<And>sid svc. mget (services a) sid = Some svc \<Longrightarrow> NUL \<notin> set (sv_ServiceType svc)"
    and registry_entry: "\<And>key sid. mget (assignments a) key = Some sid \<Longrightarrow> entry_ok a key sid"
    and registry_current: "\<And>sid svc. mget (services a) sid = Some svc \<Longrightarrow>
      trimSpace (sv_CurrentStreamID svc) \<noteq> [] \<Longrightarrow> \<exists>key. mget (assignments a) key = Some sid"
    and registry_unique: "\<And>key key' sid. mget (assignments a) key = Some sid \<Longrightarrow>
      mget (assignments a) key' = Some sid \<Longrightarrow> key = key'"
  using assms unfolding registry_ok_def by (blast intro: keyed_mget)+

lemma good_idD: "good_id i \<Longrightarrow> i \<noteq> [] \<and> trimSpace i = i \<and> NUL \<notin> set i"
  by (simp add: good_id_def)

lemma assignments_of_get:
  "mwf (assignments a) \<Longrightarrow> (key, v) \<in> set (assignments_of a sid) \<longleftrightarrow> v = sid \<and> mget (assignments a) key = Some sid"
  by (auto simp: assignments_of_def gm.entries_get)

lemma assignments_of_distinct: "mwf (assignments a) \<Longrightarrow> distinct (assignments_of a sid)"
  unfolding assignments_of_def mwf_def by (simp add: distinct_map)

lemma distinct_single: "distinct xs \<Longrightarrow> set xs = {x} \<Longrightarrow> xs = [x]"
  by (cases xs rule: remdups_adj.cases) auto

text \<open>In a well-formed registry the consistency check succeeds for every registered service.\<close>

lemma registry_assigned:
  assumes ok: "registry_ok a" and svc: "mget (services a) sid = Some svc"
    and key: "mget (assignments a) key = Some sid"
  obtains role where "consistentServiceAssignmentLocked a svc = Inr (sv_CurrentStreamID svc, role)"
    and "role \<in> {''primary'', ''standby''}" and "good_id (sv_CurrentStreamID svc)"
    and "key = assignmentKey (sv_CurrentStreamID svc) (sv_ServiceType svc) role sid"
    and "assignmentPartsFromKey key = (sv_CurrentStreamID svc, sv_ServiceType svc, role)"
proof -
  note wf = registry_mwf(1) [OF ok] and sid = registry_sid [OF ok svc]
  from ok key have "entry_ok a key sid" by (rule registry_entry)
  then obtain role where role: "role \<in> {''primary'', ''standby''}" and good: "good_id (sv_CurrentStreamID svc)"
    and k: "key = assignmentKey (sv_CurrentStreamID svc) (sv_ServiceType svc) role sid"
    using svc by (auto simp: entry_ok_def)
  from ok svc have "NUL \<notin> set (sv_ServiceType svc)" by (rule registry_type)
  with role good k have parts: "assignmentPartsFromKey key = (sv_CurrentStreamID svc, sv_ServiceType svc, role)"
    by (auto simp: good_id_def intro: assignmentPartsFromKey_key)
  have "x \<in> set (assignments_of a sid) \<longleftrightarrow> x = (key, sid)" for x
    using assignments_of_get [OF wf, of "fst x" "snd x" sid] registry_unique [OF ok _ key, of "fst x"] key
    by (cases x) auto
  then have "set (assignments_of a sid) = {(key, sid)}" by blast
  with wf have "assignments_of a sid = [(key, sid)]"
    by (intro distinct_single assignments_of_distinct)
  with parts good have "consistentServiceAssignmentLocked a svc = Inr (sv_CurrentStreamID svc, role)"
    by (simp add: consistent_iff sid good_id_def)
  from this role good k parts show thesis by (rule that)
qed

lemma registry_unassigned:
  assumes ok: "registry_ok a" and svc: "mget (services a) sid = Some svc"
    and none: "\<And>key. mget (assignments a) key \<noteq> Some sid"
  shows "consistentServiceAssignmentLocked a svc = Inr ([], [])" and "trimSpace (sv_CurrentStreamID svc) = []"
proof -
  note wf = registry_mwf(1) [OF ok] and sid = registry_sid [OF ok svc]
  have "x \<notin> set (assignments_of a sid)" for x
    using assignments_of_get [OF wf, of "fst x" "snd x" sid] none [of "fst x"] by simp
  then have "assignments_of a sid = []"
    by (meson last_in_set)
  moreover show blank: "trimSpace (sv_CurrentStreamID svc) = []"
    using registry_current [OF ok svc] none by blast
  ultimately show "consistentServiceAssignmentLocked a svc = Inr ([], [])"
    by (simp add: consistent_iff sid)
qed

text \<open>What the check returned describes the one entry of the service.\<close>

lemma consistent_owner:
  assumes ok: "registry_ok a" and svc: "mget (services a) sid = Some svc"
    and c: "consistentServiceAssignmentLocked a svc = Inr (owner, role)"
  shows "owner = trimSpace (sv_CurrentStreamID svc)"
    and "mget (assignments a) key = Some sid \<longleftrightarrow>
      owner \<noteq> [] \<and> key = assignmentKey owner (sv_ServiceType svc) role sid"
proof -
  show owner: "owner = trimSpace (sv_CurrentStreamID svc)"
    using c by (auto simp: consistent_iff)
  show "mget (assignments a) key = Some sid \<longleftrightarrow>
      owner \<noteq> [] \<and> key = assignmentKey owner (sv_ServiceType svc) role sid"
  proof (cases "\<exists>k. mget (assignments a) k = Some sid")
    case True
    then obtain k where k: "mget (assignments a) k = Some sid" by blast
    with ok svc obtain role' where
      "consistentServiceAssignmentLocked a svc = Inr (sv_CurrentStreamID svc, role')"
      "good_id (sv_CurrentStreamID svc)" "k = assignmentKey (sv_CurrentStreamID svc) (sv_ServiceType svc) role' sid"
      by (rule registry_assigned)
    moreover have "mget (assignments a) key = Some sid \<longleftrightarrow> key = k"
      using registry_unique [OF ok k] k by blast
    ultimately show ?thesis using c by (auto simp: good_id_def)
  next
    case False
    with registry_unassigned [OF ok svc] c show ?thesis by auto
  qed
qed

subsection \<open>Preservation\<close>

lemma release_all_fields [simp]:
  "assignments (release_all now ids a) = assignments a"
  "assignmentIDs (release_all now ids a) = assignmentIDs a"
  "serviceTokens (release_all now ids a) = serviceTokens a"
  "streamEvents (release_all now ids a) = streamEvents a"
  by (induction now ids a rule: release_all.induct) simp_all

lemma release_all_get:
  "distinct ids \<Longrightarrow> mget (services (release_all now ids a)) j =
     (if j \<in> set ids then Some (release_service (now j) (service_or_zero a j)) else mget (services a) j)"
  by (induction now ids a rule: release_all.induct) (auto simp: service_or_zero_def)

lemma release_service_fields [simp]:
  "sv_ServiceID (release_service now svc) = sv_ServiceID svc"
  "sv_ServiceType (release_service now svc) = sv_ServiceType svc"
  "sv_CurrentStreamID (release_service now svc) = []"
  by (simp_all add: release_service_def)

lemma keyed_release_all:
  "keyed sv_ServiceID (services a) \<Longrightarrow> (\<And>j. j \<in> set ids \<Longrightarrow> mget (services a) j \<noteq> None) \<Longrightarrow>
   keyed sv_ServiceID (services (release_all now ids a))"
proof (induction now ids a rule: release_all.induct)
  case (2 now sid rest a)
  from "2.prems" obtain svc where "mget (services a) sid = Some svc" "sv_ServiceID svc = sid"
    by (metis keyed_mget list.set_intros(1) not_Some_eq)
  then have "keyed sv_ServiceID (services (release_all now rest
      (a\<lparr>services := mput (services a) sid (release_service (now sid) (service_or_zero a sid))\<rparr>)))"
    using "2.prems" by (intro "2.IH") (simp_all add: keyed_mput service_or_zero_def)
  then show ?case by simp
qed simp

text \<open>
  Deleting entries is safe when every service that loses one is written back without a stream, or
  is removed.
\<close>

lemma mget_delete_assignments:
  "mwf (assignments a) \<Longrightarrow> mget (assignments (delete_assignments P a)) k =
     (case mget (assignments a) k of None \<Rightarrow> None | Some v \<Rightarrow> if P k v then None else Some v)"
  by (simp add: delete_assignments_def)

lemma delete_assignments_ids:
  assumes "registry_ok a"
  shows "(mget (assignmentIDs (delete_assignments P a)) k = None) =
    (mget (assignments (delete_assignments P a)) k = None)"
proof -
  have "mget (assignmentIDs (delete_assignments P a)) k =
      (if (case mget (assignments a) k of None \<Rightarrow> False | Some w \<Rightarrow> P k w) then None
       else mget (assignmentIDs a) k)"
    using registry_mwf(2) [OF assms] by (simp add: delete_assignments_def split: option.split)
  with registry_ids [OF assms, of k] registry_mwf(1) [OF assms] show ?thesis
    by (auto simp: mget_delete_assignments split: option.splits)
qed

lemma delete_assignments_mwf [simp]:
  "registry_ok a \<Longrightarrow> mwf (assignments (delete_assignments P a))"
  "registry_ok a \<Longrightarrow> mwf (assignmentIDs (delete_assignments P a))"
  by (simp_all add: delete_assignments_def registry_mwf)

lemma delete_assignments_fields [simp]:
  "services (delete_assignments P a) = services a"
  "serviceTokens (delete_assignments P a) = serviceTokens a"
  "streamEvents (delete_assignments P a) = streamEvents a"
  by (simp_all add: delete_assignments_def)

text \<open>
  The common shape of the writers: some entries go, one may be added, and the services that lost
  their entry are gone or have no stream.
\<close>

lemma registry_ok_shrink:
  assumes ok: "registry_ok a"
    and asg: "\<And>k v. mget (assignments b) k = Some v \<Longrightarrow> mget (assignments a) k = Some v"
    and wf: "mwf (assignments b)" "mwf (assignmentIDs b)" "keyed sv_ServiceID (services b)"
    and ids: "\<And>k. (mget (assignmentIDs b) k = None) = (mget (assignments b) k = None)"
    and svc: "\<And>j v. mget (services b) j = Some v \<Longrightarrow>
      \<exists>u. mget (services a) j = Some u \<and> sv_ServiceType v = sv_ServiceType u \<and>
        (sv_CurrentStreamID v = sv_CurrentStreamID u \<or> trimSpace (sv_CurrentStreamID v) = [])"
    and kept: "\<And>k j. mget (assignments b) k = Some j \<Longrightarrow>
      \<exists>u v. mget (services a) j = Some u \<and> mget (services b) j = Some v \<and>
        sv_CurrentStreamID v = sv_CurrentStreamID u"
    and lost: "\<And>k j v. mget (assignments a) k = Some j \<Longrightarrow> mget (assignments b) k = None \<Longrightarrow>
      mget (services b) j = Some v \<Longrightarrow> trimSpace (sv_CurrentStreamID v) = []"
  shows "registry_ok b"
  unfolding registry_ok_def
proof (intro conjI allI impI)
  fix k j
  assume k: "mget (assignments b) k = Some j"
  from kept [OF k] obtain u v where u: "mget (services a) j = Some u" and v: "mget (services b) j = Some v"
    and cur: "sv_CurrentStreamID v = sv_CurrentStreamID u" by blast
  from ok asg [OF k] have "entry_ok a k j" by (rule registry_entry)
  with u v cur svc [OF v] show "entry_ok b k j" by (auto simp: entry_ok_def)
next
  fix j v
  assume v: "mget (services b) j = Some v"
  from svc [OF v] obtain u where u: "mget (services a) j = Some u" "sv_ServiceType v = sv_ServiceType u"
    "sv_CurrentStreamID v = sv_CurrentStreamID u \<or> trimSpace (sv_CurrentStreamID v) = []" by blast
  with registry_type [OF ok u(1)] show "NUL \<notin> set (sv_ServiceType v)" by simp
  assume cur: "trimSpace (sv_CurrentStreamID v) \<noteq> []"
  with u registry_current [OF ok u(1)] obtain k where "mget (assignments a) k = Some j" by auto
  with lost [OF this _ v] cur asg show "\<exists>k. mget (assignments b) k = Some j"
    by (metis option.exhaust option.inject)
next
  fix k k' j
  assume "mget (assignments b) k = Some j" "mget (assignments b) k' = Some j"
  then show "k = k'" by (rule registry_unique [OF ok asg asg])
qed (use wf ids in auto)

text \<open>Writing a service back with its type and stream unchanged.\<close>

lemma registry_ok_touch:
  assumes ok: "registry_ok a" and svc: "mget (services a) sid = Some svc"
    and "sv_ServiceID svc' = sid" "sv_ServiceType svc' = sv_ServiceType svc"
      "sv_CurrentStreamID svc' = sv_CurrentStreamID svc"
  shows "registry_ok (a\<lparr>services := mput (services a) sid svc'\<rparr>)"
proof -
  have entry: "entry_ok (a\<lparr>services := mput (services a) sid svc'\<rparr>) k j" if "entry_ok a k j" for k j
  proof -
    from that obtain u role where u: "mget (services a) j = Some u" "role \<in> {''primary'', ''standby''}"
      "good_id (sv_CurrentStreamID u)" "k = assignmentKey (sv_CurrentStreamID u) (sv_ServiceType u) role j"
      unfolding entry_ok_def by blast
    with svc assms(4,5) show ?thesis
      by (cases "j = sid") (auto intro: entry_okI [of _ _ svc'] entry_okI [of _ _ u])
  qed
  from ok show ?thesis
    unfolding registry_ok_def
  proof (elim conjE, intro conjI allI impI)
    show "entry_ok (a\<lparr>services := mput (services a) sid svc'\<rparr>) k j"
      if "mget (assignments (a\<lparr>services := mput (services a) sid svc'\<rparr>)) k = Some j" for k j
      using that registry_entry [OF ok, of k j] by (intro entry) simp
  qed (use assms svc in \<open>auto intro!: keyed_mput split: if_splits\<close>)
qed

text \<open>Adding a service that serves no stream.\<close>

lemma registry_ok_add:
  assumes ok: "registry_ok a" and fresh: "mget (services a) sid = None"
    and "sv_ServiceID svc = sid" "NUL \<notin> set (sv_ServiceType svc)" "sv_CurrentStreamID svc = []"
  shows "registry_ok (a\<lparr>services := mput (services a) sid svc\<rparr>)"
proof -
  have entry: "entry_ok (a\<lparr>services := mput (services a) sid svc\<rparr>) k j" if "entry_ok a k j" for k j
  proof -
    from that obtain u role where u: "mget (services a) j = Some u" "role \<in> {''primary'', ''standby''}"
      "good_id (sv_CurrentStreamID u)" "k = assignmentKey (sv_CurrentStreamID u) (sv_ServiceType u) role j"
      unfolding entry_ok_def by blast
    moreover from u fresh have "j \<noteq> sid" by auto
    ultimately show ?thesis by (intro entry_okI [of _ _ u role]) simp_all
  qed
  from ok show ?thesis
    unfolding registry_ok_def
  proof (elim conjE, intro conjI allI impI)
    show "entry_ok (a\<lparr>services := mput (services a) sid svc\<rparr>) k j"
      if "mget (assignments (a\<lparr>services := mput (services a) sid svc\<rparr>)) k = Some j" for k j
      using that registry_entry [OF ok, of k j] by (intro entry) simp
  qed (use assms in \<open>auto intro!: keyed_mput split: if_splits\<close>)
qed

text \<open>The registry after an assignment, entry by entry.\<close>

lemma replacedServiceIDs_iff:
  "mwf (assignments a) \<Longrightarrow> j \<in> set (replacedServiceIDs sid st ty role a) \<longleftrightarrow>
     j \<noteq> sid \<and> (\<exists>k. mget (assignments a) k = Some j \<and> replaces sid st ty role k j)"
  by (force simp: replacedServiceIDs_def gm.entries_get)

lemma distinct_replacedServiceIDs [simp]: "distinct (replacedServiceIDs sid st ty role a)"
  by (simp add: replacedServiceIDs_def)

lemma replaces_target [simp]: "replaces sid st ty role (assignmentKey st ty role sid) v"
  by (simp add: replaces_def)

lemma replaces_own [simp]: "replaces sid st ty role k sid"
  by (simp add: replaces_def)

lemma replace_assignment_eqs:
  assumes ok: "registry_ok a" and eq: "replace_assignment sid st role uuid now svc a = (svc', b)"
  shows replace_result: "svc' = svc\<lparr>sv_CurrentStreamID := st, sv_Status := ''assigned'',
      sv_AssignmentRole := role, sv_UpdatedAt := now sid\<rparr>"
    and replace_assignments: "\<And>k. mget (assignments b) k =
      (if k = assignmentKey st (sv_ServiceType svc) role sid then Some sid
       else case mget (assignments a) k of None \<Rightarrow> None
         | Some v \<Rightarrow> if replaces sid st (sv_ServiceType svc) role k v then None else Some v)"
    and replace_ids: "\<And>k. (mget (assignmentIDs b) k = None) = (mget (assignments b) k = None)"
    and replace_services: "\<And>j. mget (services b) j =
      (if j = sid then Some svc'
       else if j \<in> set (replacedServiceIDs sid st (sv_ServiceType svc) role a)
       then Some (release_service (now j) (service_or_zero a j)) else mget (services a) j)"
    and replace_wf: "mwf (assignments b)" "mwf (assignmentIDs b)"
    and replace_other: "serviceTokens b = serviceTokens a" "streamEvents b = streamEvents a"
proof -
  have soz: "service_or_zero (delete_assignments P a) j = service_or_zero a j" for P j
    by (simp add: service_or_zero_def)
  note defs = replace_assignment_def write_assignment_def Let_def
  show "svc' = svc\<lparr>sv_CurrentStreamID := st, sv_Status := ''assigned'',
      sv_AssignmentRole := role, sv_UpdatedAt := now sid\<rparr>"
    and "mwf (assignments b)" and "mwf (assignmentIDs b)"
    and "serviceTokens b = serviceTokens a" and "streamEvents b = streamEvents a"
    using eq ok by (auto simp: defs)
  show "mget (assignments b) k =
      (if k = assignmentKey st (sv_ServiceType svc) role sid then Some sid
       else case mget (assignments a) k of None \<Rightarrow> None
         | Some v \<Rightarrow> if replaces sid st (sv_ServiceType svc) role k v then None else Some v)" for k
    using eq registry_mwf(1) [OF ok] by (auto simp: defs mget_delete_assignments)
  show "(mget (assignmentIDs b) k = None) = (mget (assignments b) k = None)" for k
    using eq delete_assignments_ids [OF ok] by (auto simp: defs)
  show "mget (services b) j =
      (if j = sid then Some svc'
       else if j \<in> set (replacedServiceIDs sid st (sv_ServiceType svc) role a)
       then Some (release_service (now j) (service_or_zero a j)) else mget (services a) j)" for j
    using eq by (auto simp: defs release_all_get soz)
qed

lemma keyed_replace:
  assumes ok: "registry_ok a" and svc: "mget (services a) sid = Some svc"
    and eq: "replace_assignment sid st role uuid now svc a = (svc', b)"
  shows "keyed sv_ServiceID (services b)"
proof -
  have "mget (services a) j \<noteq> None" if "j \<in> set (replacedServiceIDs sid st (sv_ServiceType svc) role a)" for j
  proof -
    from that obtain k where "mget (assignments a) k = Some j"
      by (auto simp: replacedServiceIDs_iff registry_mwf [OF ok])
    from registry_entry [OF ok this] show ?thesis by (auto simp: entry_ok_def)
  qed
  with registry_keyed [OF ok] registry_sid [OF ok svc] eq show ?thesis
    by (auto simp: replace_assignment_def write_assignment_def Let_def intro!: keyed_mput keyed_release_all)
qed

lemma registry_ok_replace:
  assumes ok: "registry_ok a" and svc: "mget (services a) sid = Some svc" and good: "good_id st"
    and role: "role \<in> {''primary'', ''standby''}"
    and eq: "replace_assignment sid st role uuid now svc a = (svc', b)"
  shows "registry_ok b"
proof -
  let ?ty = "sv_ServiceType svc" and ?key = "assignmentKey st (sv_ServiceType svc) role sid"
  let ?ids = "set (replacedServiceIDs sid st ?ty role a)"
  note asg = replace_assignments [OF ok eq] and sv = replace_services [OF ok eq]
    and res = replace_result [OF ok eq] and idsI = replacedServiceIDs_iff [OF registry_mwf(1) [OF ok]]
  have kept: "k = ?key \<and> j = sid \<or> k \<noteq> ?key \<and> j \<noteq> sid \<and> j \<notin> ?ids \<and> mget (assignments a) k = Some j"
    if k: "mget (assignments b) k = Some j" for k j
  proof (cases "k = ?key")
    case False
    with k asg have a: "mget (assignments a) k = Some j" and np: "\<not> replaces sid st ?ty role k j"
      by (auto split: option.splits if_splits)
    then have "j \<noteq> sid" by auto
    moreover have "j \<notin> ?ids" using np registry_unique [OF ok _ a] by (auto simp: idsI)
    ultimately show ?thesis using a False by blast
  qed (use k asg in simp)
  have type: "\<exists>u. mget (services a) j = Some u \<and> sv_ServiceType v = sv_ServiceType u"
    if "mget (services b) j = Some v" for j v
  proof (cases "j = sid")
    case True
    with that sv res svc show ?thesis by auto
  next
    case False
    show ?thesis
    proof (cases "j \<in> ?ids")
      case True
      then obtain k where "mget (assignments a) k = Some j" by (auto simp: idsI)
      from registry_entry [OF ok this] obtain u where "mget (services a) j = Some u"
        by (auto simp: entry_ok_def)
      with that sv False True show ?thesis by (auto simp: service_or_zero_def)
    qed (use that sv False in auto)
  qed
  show ?thesis
    unfolding registry_ok_def
  proof (intro conjI allI impI)
    show "keyed sv_ServiceID (services b)" by (rule keyed_replace [OF ok svc eq])
    show "mwf (assignments b)" "mwf (assignmentIDs b)" by (rule replace_wf [OF ok eq])+
    show "(mget (assignmentIDs b) k = None) = (mget (assignments b) k = None)" for k
      by (rule replace_ids [OF ok eq])
    show "NUL \<notin> set (sv_ServiceType v)" if "mget (services b) j = Some v" for j v
      using type [OF that] registry_type [OF ok] by auto
    show "entry_ok b k j" if k: "mget (assignments b) k = Some j" for k j
    proof (cases "k = ?key")
      case True
      with k asg sv res good role show ?thesis by (auto simp: entry_ok_def)
    next
      case False
      with kept [OF k] have j: "j \<noteq> sid" "j \<notin> ?ids" "mget (assignments a) k = Some j" by auto
      then have "mget (services b) j = mget (services a) j" by (simp add: sv)
      with registry_entry [OF ok j(3)] show ?thesis by (simp add: entry_ok_def)
    qed
    show "\<exists>k. mget (assignments b) k = Some j"
      if v: "mget (services b) j = Some v" and cur: "trimSpace (sv_CurrentStreamID v) \<noteq> []" for j v
    proof (cases "j = sid")
      case True
      with asg [of ?key] show ?thesis by auto
    next
      case False
      with v cur sv have "j \<notin> ?ids" and a: "mget (services a) j = Some v"
        by (auto split: if_splits)
      from registry_current [OF ok a cur] obtain k where k: "mget (assignments a) k = Some j" by blast
      with \<open>j \<notin> ?ids\<close> False have "\<not> replaces sid st ?ty role k j" by (auto simp: idsI)
      moreover from this have "k \<noteq> ?key" by auto
      ultimately show ?thesis using k asg [of k] by auto
    qed
    show "k = k'" if "mget (assignments b) k = Some j" "mget (assignments b) k' = Some j" for k k' j
      using kept [OF that(1)] kept [OF that(2)] registry_unique [OF ok, of k j k'] by blast
  qed
qed

end
