(* ===== verification/Stream_Archive.thy ===== *)
theory Stream_Archive
  imports Stream_Store
begin

text \<open>
  Logs, artifacts and share links of a stream: \<^verbatim>\<open>memory_stream_log_history.go\<close>,
  \<^verbatim>\<open>memory_stream_artifact_catalog.go\<close> and \<^verbatim>\<open>memory_stream_artifact_shares.go\<close>, with the
  log values of \<^verbatim>\<open>stream_log_history_mariadb.go\<close> and the panel's loop that loads older logs
  page by page (\<^verbatim>\<open>web/src/features/resources/generic-resource-panel.tsx\<close>).
\<close>

subsection \<open>Logs\<close>

definition normalizeStreamLog :: "string \<Rightarrow> time \<Rightarrow> stream_log \<Rightarrow> stream_log" where
  "normalizeStreamLog uuid now log0 =
     (let level = toLower (trimSpace (sl_Level log0)) in
      log0\<lparr>sl_StreamID := trimSpace (sl_StreamID log0),
        sl_ID := (if trimSpace (sl_ID log0) = [] then uuid else sl_ID log0),
        sl_Level := (if level \<in> {''debug'', ''info'', ''warning'', ''error''} then level else ''info''),
        sl_Message := trimSpace (sl_Message log0),
        sl_Fields := Some (case sl_Fields log0 of None \<Rightarrow> [] | Some m \<Rightarrow> m),
        sl_CreatedAt := (if isZero (sl_CreatedAt log0) then now else sl_CreatedAt log0)\<rparr>)"

definition boundedStreamLogLimit :: "int \<Rightarrow> int" where
  "boundedStreamLogLimit limit = (if limit \<le> 0 then 500 else if limit > 1000 then 1000 else limit)"

definition AppendStreamLog ::
  "ctx \<Rightarrow> stream_log \<Rightarrow> string \<Rightarrow> time \<Rightarrow> stream_store \<Rightarrow> (stream_log, stream_store) outcome" where
  "AppendStreamLog c log0 uuid now = with_ctx c (\<lambda>s.
     let log1 = normalizeStreamLog uuid now log0 in
     if mget (streams s) (sl_StreamID log1) = None then (Inl ErrNotFound, s)
     else (Inr log1, s\<lparr>logs := mput (logs s) (sl_StreamID log1) (mlist (logs s) (sl_StreamID log1) @ [log1])\<rparr>))"

definition RetryArchiveUpload ::
  "ctx \<Rightarrow> string \<Rightarrow> string \<Rightarrow> string \<Rightarrow> time \<Rightarrow> stream_store \<Rightarrow> (stream_log, stream_store) outcome" where
  "RetryArchiveUpload c i actorUserID uuid now =
     AppendStreamLog c \<lparr>sl_ID = [], sl_StreamID = i, sl_StreamName = [], sl_StreamDeletedAt = None, sl_Level = ''info'',
       sl_Message = ''archive upload retry requested'', sl_Fields = Some [(''actor_user_id'', AStr actorUserID)],
       sl_CreatedAt = 0\<rparr> uuid now"

text \<open>A stream that is no longer in the map is the zero value, with an empty name and no deletion time.\<close>

definition enrichMemoryStreamLog :: "stream_log \<Rightarrow> stream option \<Rightarrow> stream_log" where
  "enrichMemoryStreamLog log0 stream =
     (let log1 = log0\<lparr>sl_StreamName := (case stream of None \<Rightarrow> [] | Some st \<Rightarrow> st_Name st)\<rparr> in
      case Option.bind stream st_DeletedAt of None \<Rightarrow> log1 | Some deletedAt \<Rightarrow> log1\<lparr>sl_StreamDeletedAt := Some deletedAt\<rparr>)"

definition ListStreamLogs :: "ctx \<Rightarrow> string \<Rightarrow> stream_store \<Rightarrow> (stream_log list, stream_store) outcome" where
  "ListStreamLogs c i = with_ctx c (\<lambda>s.
     if mget (streams s) i = None then (Inl ErrNotFound, s)
     else (Inr (sort_key (\<lambda>l. - sl_CreatedAt l)
       (map (\<lambda>l. enrichMemoryStreamLog l (mget (streams s) i)) (mlist (logs s) i))), s))"

text \<open>The order of the history, newest first: a stable sort by time and then identifier, both descending.\<close>

definition log_key :: "stream_log \<Rightarrow> time \<times> string" where
  "log_key l = (sl_CreatedAt l, sl_ID l)"

definition newest_first :: "stream_log list \<Rightarrow> stream_log list" where
  "newest_first ls = rev (sort_key log_key (rev ls))"

definition history_rows :: "stream_store \<Rightarrow> stream_log list" where
  "history_rows s = concat (map (\<lambda>(streamID, ls). map (\<lambda>l. enrichMemoryStreamLog l (mget (streams s) streamID)) ls) (logs s))"

definition skipped :: "time \<Rightarrow> string \<Rightarrow> stream_log \<Rightarrow> bool" where
  "skipped before beforeID l \<longleftrightarrow>
     \<not> isZero before \<and> (sl_CreatedAt l > before \<or> sl_CreatedAt l = before \<and> sl_ID l \<ge> beforeID)"

definition ListStreamLogHistory ::
  "ctx \<Rightarrow> int \<Rightarrow> time \<Rightarrow> string \<Rightarrow> stream_store \<Rightarrow> (stream_log list, stream_store) outcome" where
  "ListStreamLogHistory c limit before beforeID = with_ctx c (\<lambda>s.
     (Inr (take (nat (boundedStreamLogLimit limit)) (newest_first (filter (\<lambda>l. \<not> skipped before beforeID l) (history_rows s)))), s))"

text \<open>
  The panel asks for the page below the oldest row it has until a page is shorter than asked for, first
  for 500 rows and then for 200 at a time: \<open>limit n\<close> is what the \<open>n\<close>th request asks for. The store may
  have moved on from one request to the next: \<open>at n\<close> is the store the \<open>n\<close>th request finds.
\<close>

partial_function (option) load_history ::
  "(nat \<Rightarrow> stream_store) \<Rightarrow> (nat \<Rightarrow> int) \<Rightarrow> nat \<Rightarrow> time \<Rightarrow> string \<Rightarrow> stream_log list option" where
  "load_history at limit n before beforeID =
     (case fst (ListStreamLogHistory None (limit n) before beforeID (at n)) of
        Inl e \<Rightarrow> Some []
      | Inr page \<Rightarrow>
        if int (length page) < boundedStreamLogLimit (limit n) then Some page
        else Option.bind (load_history at limit (Suc n) (sl_CreatedAt (last page)) (sl_ID (last page))) (\<lambda>rest. Some (page @ rest)))"

definition historyLimits :: "nat \<Rightarrow> int" where
  "historyLimits n = (if n = 0 then 500 else 200)"

subsection \<open>Artifacts\<close>

definition ListStreamArtifacts :: "ctx \<Rightarrow> string \<Rightarrow> stream_store \<Rightarrow> (stream_artifact list, stream_store) outcome" where
  "ListStreamArtifacts c i = with_ctx c (\<lambda>s.
     if mget (streams s) i = None then (Inl ErrNotFound, s)
     else (Inr (filter (\<lambda>a. isSafeRelativePath (sa_RelativePath a)) (mlist (artifacts s) i)), s))"

fun update_first :: "('a \<Rightarrow> bool) \<Rightarrow> ('a \<Rightarrow> 'a) \<Rightarrow> 'a list \<Rightarrow> 'a list option" where
  "update_first P f [] = None"
| "update_first P f (x # xs) = (if P x then Some (f x # xs) else map_option (Cons x) (update_first P f xs))"

definition same_artifact :: "stream_artifact \<Rightarrow> stream_artifact \<Rightarrow> bool" where
  "same_artifact a existing \<longleftrightarrow>
     \<not> (sa_ArchiveRunID existing \<noteq> sa_ArchiveRunID a \<or> sa_Kind existing \<noteq> sa_Kind a \<or> sa_Name existing \<noteq> sa_Name a)"

definition refreshed_artifact :: "stream_artifact \<Rightarrow> stream_artifact \<Rightarrow> stream_artifact" where
  "refreshed_artifact a existing =
     (let e = existing\<lparr>sa_RelativePath := sa_RelativePath a, sa_SizeBytes := sa_SizeBytes a\<rparr>;
          source = trimSpace (sa_SourceServiceID a) in
      if source \<noteq> [] then e\<lparr>sa_SourceServiceID := source\<rparr> else e)"

definition upsert_artifact ::
  "(nat \<Rightarrow> string) \<Rightarrow> (nat \<Rightarrow> time) \<Rightarrow> stream_artifact list \<Rightarrow> nat \<times> stream_artifact \<Rightarrow> stream_artifact list" where
  "upsert_artifact uuid now current entry =
     (case entry of (n, a) \<Rightarrow>
       (case update_first (same_artifact a) (refreshed_artifact a) current of
          Some updated \<Rightarrow> updated
        | None \<Rightarrow> current @ [a\<lparr>sa_ID := uuid n, sa_CreatedAt := now n\<rparr>]))"

definition UpsertStreamArtifacts ::
  "ctx \<Rightarrow> string \<Rightarrow> stream_artifact list \<Rightarrow> (nat \<Rightarrow> string) \<Rightarrow> (nat \<Rightarrow> time) \<Rightarrow> stream_store \<Rightarrow> (unit, stream_store) outcome" where
  "UpsertStreamArtifacts c i arts uuid now = with_ctx c (\<lambda>s.
     case mget (streams s) i of
       None \<Rightarrow> (Inl ErrNotFound, s)
     | Some stream \<Rightarrow>
       (case ValidateStreamArtifactReport i arts of
          Inl e \<Rightarrow> (Inl e, s)
        | Inr _ \<Rightarrow>
          let normalized = NormalizeStreamArtifacts i arts;
              current = foldl (upsert_artifact uuid now) (mlist (artifacts s) i) (enumerate 0 normalized);
              s1 = s\<lparr>artifacts := mput (artifacts s) i current, artifactReports := mput (artifactReports s) i True\<rparr>;
              reportMatchesAuthority = streamArtifactReportMatchesArchiveAuthority stream normalized;
              s2 = (if reportMatchesAuthority then s1\<lparr>archiveRetryPending := mdel (archiveRetryPending s1) i\<rparr> else s1);
              reportedAt = now (length normalized) in
          (Inr (), if reportMatchesAuthority \<and> st_ArchiveReportedAt stream = None
            then put_stream i (stream\<lparr>st_ArchiveReportedAt := Some reportedAt, st_UpdatedAt := reportedAt\<rparr>) s2 else s2)))"

definition AddArtifact ::
  "ctx \<Rightarrow> stream_artifact \<Rightarrow> (nat \<Rightarrow> string) \<Rightarrow> (nat \<Rightarrow> time) \<Rightarrow> stream_store \<Rightarrow> (unit, stream_store) outcome" where
  "AddArtifact c a = UpsertStreamArtifacts c (sa_StreamID a) [a]"

definition DeleteStreamArtifact :: "ctx \<Rightarrow> string \<Rightarrow> string \<Rightarrow> stream_store \<Rightarrow> (unit, stream_store) outcome" where
  "DeleteStreamArtifact c streamID artifactID = with_ctx c (\<lambda>s.
     let current = mlist (artifacts s) streamID in
     if mget (streams s) streamID = None then (Inl ErrNotFound, s)
     else if \<not> list_ex (\<lambda>a. sa_ID a = artifactID) current then (Inl ErrNotFound, s)
     else (Inr (), s\<lparr>artifacts := mput (artifacts s) streamID (filter (\<lambda>a. sa_ID a \<noteq> artifactID) current)\<rparr>))"

definition RenameStreamArtifact ::
  "ctx \<Rightarrow> string \<Rightarrow> string \<Rightarrow> string \<Rightarrow> stream_store \<Rightarrow> (stream_artifact, stream_store) outcome" where
  "RenameStreamArtifact c streamID artifactID name = with_ctx c (\<lambda>s.
     let current = mlist (artifacts s) streamID in
     if \<not> ValidStreamArtifactFileName name then (Inl ErrInvalidStreamArtifact, s)
     else if mget (streams s) streamID = None then (Inl ErrNotFound, s)
     else (case find (\<lambda>a. sa_ID a = artifactID) current of
       None \<Rightarrow> (Inl ErrNotFound, s)
     | Some target \<Rightarrow>
       if list_ex (\<lambda>a. sa_ID a \<noteq> artifactID \<and> sa_ArchiveRunID a = sa_ArchiveRunID target \<and> sa_Name a = name) current
       then (Inl ErrAlreadyExists, s)
       else let path = streamArtifactRelativePath streamID (sa_ArchiveRunID target) name;
                renamed = target\<lparr>sa_Name := name, sa_RelativePath := path\<rparr> in
         if \<not> isSafeRelativePath path then (Inl ErrInvalidStreamArtifact, s)
         else (case update_first (\<lambda>a. sa_ID a = artifactID) (\<lambda>_. renamed) current of
           None \<Rightarrow> (Inl ErrNotFound, s)
         | Some updated \<Rightarrow> (Inr renamed, s\<lparr>artifacts := mput (artifacts s) streamID updated\<rparr>))))"

subsection \<open>Share links\<close>

definition memoryArtifactByID :: "stream_artifact list \<Rightarrow> string \<Rightarrow> stream_artifact option" where
  "memoryArtifactByID arts i = find (\<lambda>a. sa_ID a = i) arts"

definition CreateStreamArtifactShare ::
  "ctx \<Rightarrow> stream_artifact_share \<Rightarrow> string \<Rightarrow> time \<Rightarrow> time \<Rightarrow> stream_store \<Rightarrow> (stream_artifact_share, stream_store) outcome" where
  "CreateStreamArtifactShare c share0 uuid checked now = with_ctx c (\<lambda>s.
     let share = share0\<lparr>sh_StreamID := trimSpace (sh_StreamID share0), sh_ArtifactID := trimSpace (sh_ArtifactID share0),
           sh_TokenHash := trimSpace (sh_TokenHash share0), sh_CreatedByUserID := trimSpace (sh_CreatedByUserID share0)\<rparr> in
     if sh_StreamID share = [] \<or> sh_ArtifactID share = [] \<or> sh_TokenHash share = [] \<or> \<not> sh_ExpiresAt share > checked
     then (Inl ErrInvalidStreamArtifact, s)
     else if mget (streams s) (sh_StreamID share) = None then (Inl ErrNotFound, s)
     else if memoryArtifactByID (mlist (artifacts s) (sh_StreamID share)) (sh_ArtifactID share) = None then (Inl ErrNotFound, s)
     else let created = share\<lparr>sh_ID := uuid, sh_CreatedAt := now\<rparr> in
       (Inr created, s\<lparr>artifactShares := mput (artifactShares s) uuid created\<rparr>))"

definition ListStreamArtifactShares ::
  "ctx \<Rightarrow> string \<Rightarrow> string \<Rightarrow> stream_store \<Rightarrow> (stream_artifact_share list, stream_store) outcome" where
  "ListStreamArtifactShares c streamID artifactID = with_ctx c (\<lambda>s.
     if mget (streams s) streamID = None then (Inl ErrNotFound, s)
     else if memoryArtifactByID (mlist (artifacts s) streamID) artifactID = None then (Inl ErrNotFound, s)
     else (Inr (filter (\<lambda>share. sh_StreamID share = streamID \<and> sh_ArtifactID share = artifactID) (map snd (artifactShares s))), s))"

definition GetStreamArtifactShareByTokenHash ::
  "ctx \<Rightarrow> string \<Rightarrow> stream_store \<Rightarrow> (stream_artifact_share, stream_store) outcome" where
  "GetStreamArtifactShareByTokenHash c tokenHash = with_ctx c (\<lambda>s.
     case find (\<lambda>share. sh_TokenHash share = trimSpace tokenHash) (map snd (artifactShares s)) of
       None \<Rightarrow> (Inl ErrNotFound, s) | Some share \<Rightarrow> (Inr share, s))"

definition RevokeStreamArtifactShare ::
  "ctx \<Rightarrow> string \<Rightarrow> string \<Rightarrow> string \<Rightarrow> time \<Rightarrow> stream_store \<Rightarrow> (unit, stream_store) outcome" where
  "RevokeStreamArtifactShare c streamID artifactID shareID now = with_ctx c (\<lambda>s.
     case mget (artifactShares s) shareID of
       None \<Rightarrow> (Inl ErrNotFound, s)
     | Some share \<Rightarrow>
       if sh_StreamID share \<noteq> streamID \<or> sh_ArtifactID share \<noteq> artifactID then (Inl ErrNotFound, s)
       else (Inr (), s\<lparr>artifactShares := mput (artifactShares s) shareID (share\<lparr>sh_RevokedAt := Some now\<rparr>)\<rparr>))"

lemmas archive_op_defs = AppendStreamLog_def RetryArchiveUpload_def UpsertStreamArtifacts_def AddArtifact_def
  DeleteStreamArtifact_def RenameStreamArtifact_def CreateStreamArtifactShare_def RevokeStreamArtifactShare_def

end
