(* ===== verification/Stop_Receipts.thy ===== *)
theory Stop_Receipts
  imports Stream_Archive
begin

text \<open>
  The stop protocol of \<^verbatim>\<open>stream_stop_receipts.go\<close> on the memory store: a stop is claimed by a
  compare-and-set on status and version, keeps the stream fenced while it is unconfirmed, and ends
  in a failure or in a completion with a receipt. The locales state the contract the
  compare-and-set operations share.
\<close>

subsection \<open>Operations\<close>

definition receiptKey :: "string \<Rightarrow> string \<Rightarrow> string" where
  "receiptKey i source = i @ NUL # source"

definition CompleteNormalStop ::
  "ctx \<Rightarrow> string \<Rightarrow> string \<Rightarrow> time \<Rightarrow> time \<Rightarrow> stream_store \<Rightarrow> (stream \<times> bool, stream_store) outcome" where
  "CompleteNormalStop c i source claim now = with_ctx c (\<lambda>s.
     case mget (streams s) i of
       None \<Rightarrow> (Inl ErrNotFound, s)
     | Some st \<Rightarrow>
         if st_Status st \<noteq> ''stopping'' \<or> st_UpdatedAt st \<noteq> claim then (Inr (st, False), s)
         else let st' = st\<lparr>st_Status := ''completed'', st_UpdatedAt := streamMutationTime now (st_UpdatedAt st)\<rparr>
              in (Inr (st', True),
                  (put_stream i st' s)\<lparr>normalStopPending := mdel (normalStopPending s) i,
                     normalStopReceipts := mput (normalStopReceipts s) (receiptKey i source) (st_UpdatedAt st')\<rparr>))"

definition RecordNormalStopReceipt ::
  "ctx \<Rightarrow> string \<Rightarrow> string \<Rightarrow> time \<Rightarrow> stream_store \<Rightarrow> (unit, stream_store) outcome" where
  "RecordNormalStopReceipt c i source completed = with_ctx c (\<lambda>s.
     (Inr (), s\<lparr>normalStopReceipts := mput (normalStopReceipts s) (receiptKey i source) completed\<rparr>))"

definition HasNormalStopReceipt ::
  "ctx \<Rightarrow> string \<Rightarrow> string \<Rightarrow> stream_store \<Rightarrow> (bool, stream_store) outcome" where
  "HasNormalStopReceipt c i source = with_ctx c (\<lambda>s.
     (Inr (mget (normalStopReceipts s) (receiptKey i source) \<noteq> None), s))"

definition MarkNormalStopUnconfirmed :: "ctx \<Rightarrow> string \<Rightarrow> stream_store \<Rightarrow> (unit, stream_store) outcome" where
  "MarkNormalStopUnconfirmed c i = with_ctx c (\<lambda>s.
     if mget (streams s) i = None then (Inl ErrNotFound, s)
     else (Inr (), s\<lparr>normalStopPending := mput (normalStopPending s) i True\<rparr>))"

definition claimStop ::
  "ctx \<Rightarrow> stream \<Rightarrow> string \<Rightarrow> time \<Rightarrow> stream_store \<Rightarrow> (stream \<times> bool, stream_store) outcome" where
  "claimStop c expected status now = with_ctx c (\<lambda>s.
     case mget (streams s) (st_ID expected) of
       None \<Rightarrow> (Inl ErrNotFound, s)
     | Some current \<Rightarrow>
         if st_Status current \<noteq> st_Status expected \<or> st_UpdatedAt current \<noteq> st_UpdatedAt expected
         then (Inr (current, False), s)
         else let cur' = current\<lparr>st_Status := status,
                    st_UpdatedAt := streamMutationTime now (st_UpdatedAt current)\<rparr>
              in (Inr (cur', True),
                  (put_stream (st_ID cur') cur' s)\<lparr>normalStopPending := mput (normalStopPending s) (st_ID cur') True\<rparr>))"

definition ClaimNormalStop ::
  "ctx \<Rightarrow> stream \<Rightarrow> time \<Rightarrow> stream_store \<Rightarrow> (stream \<times> bool, stream_store) outcome" where
  "ClaimNormalStop c expected = claimStop c expected ''stopping''"

definition ClaimForceStop ::
  "ctx \<Rightarrow> stream \<Rightarrow> time \<Rightarrow> stream_store \<Rightarrow> (stream \<times> bool, stream_store) outcome" where
  "ClaimForceStop c expected = claimStop c expected ''failed''"

definition finishClaimedStop ::
  "ctx \<Rightarrow> string \<Rightarrow> string \<Rightarrow> string \<Rightarrow> time \<Rightarrow> bool \<Rightarrow> time \<Rightarrow> stream_store \<Rightarrow>
   (stream \<times> bool, stream_store) outcome" where
  "finishClaimedStop c i expected status claim confirmed now = with_ctx c (\<lambda>s.
     case mget (streams s) i of
       None \<Rightarrow> (Inl ErrNotFound, s)
     | Some current \<Rightarrow>
         if st_Status current \<noteq> expected \<or> st_UpdatedAt current \<noteq> claim then (Inr (current, False), s)
         else let cur' = current\<lparr>st_Status := status,
                    st_UpdatedAt := streamMutationTime now (st_UpdatedAt current)\<rparr>;
                  s' = put_stream i cur' s
              in (Inr (cur', True),
                  if confirmed then s'\<lparr>normalStopPending := mdel (normalStopPending s') i\<rparr> else s'))"

definition FailNormalStop ::
  "ctx \<Rightarrow> string \<Rightarrow> time \<Rightarrow> time \<Rightarrow> stream_store \<Rightarrow> (stream \<times> bool, stream_store) outcome" where
  "FailNormalStop c i claim = finishClaimedStop c i ''stopping'' ''failed'' claim False"

definition CompleteConfirmedForceStop ::
  "ctx \<Rightarrow> string \<Rightarrow> time \<Rightarrow> time \<Rightarrow> stream_store \<Rightarrow> (stream \<times> bool, stream_store) outcome" where
  "CompleteConfirmedForceStop c i claim = finishClaimedStop c i ''failed'' ''completed'' claim True"

lemmas stop_op_defs [op_defs] =
  CompleteNormalStop_def RecordNormalStopReceipt_def HasNormalStopReceipt_def
  MarkNormalStopUnconfirmed_def claimStop_def ClaimNormalStop_def ClaimForceStop_def
  finishClaimedStop_def FailNormalStop_def CompleteConfirmedForceStop_def put_stream_def

subsection \<open>The contract of a compare-and-set\<close>

text \<open>
  An operation on one stream that either finds no stream, or finds its fence broken and changes
  nothing, or writes the target status and a later version and leaves every other stream alone.
\<close>

definition moved :: "string \<Rightarrow> time \<Rightarrow> stream \<Rightarrow> stream" where
  "moved target now st = st\<lparr>st_Status := target, st_UpdatedAt := streamMutationTime now (st_UpdatedAt st)\<rparr>"

locale stream_cas =
  fixes cas :: "time \<Rightarrow> stream_store \<Rightarrow> (stream \<times> bool, stream_store) outcome"
    and key :: string
    and fence :: "stream \<Rightarrow> bool"
    and target :: string
  assumes cas_missing: "mget (streams s) key = None \<Longrightarrow> cas now s = (Inl ErrNotFound, s)"
    and cas_refused: "mget (streams s) key = Some st \<Longrightarrow> \<not> fence st \<Longrightarrow> cas now s = (Inr (st, False), s)"
    and cas_taken: "keyed st_ID (streams s) \<Longrightarrow> mget (streams s) key = Some st \<Longrightarrow> fence st \<Longrightarrow>
      fst (cas now s) = Inr (moved target now st, True) \<and>
      streams (snd (cas now s)) = mput (streams s) key (moved target now st)"
begin

lemma cas_outcome:
  assumes "keyed st_ID (streams s)" and "fst (cas now s) = Inr (st', b)"
  obtains st where "mget (streams s) key = Some st" and "b = fence st"
    and "st' = (if b then moved target now st else st)"
proof (cases "mget (streams s) key")
  case None
  with cas_missing assms show thesis by simp
next
  case (Some st)
  show thesis
  proof (cases "fence st")
    case True
    with cas_taken [OF assms(1) Some True, of now] assms(2) Some show thesis
      by (intro that [of st]) auto
  next
    case False
    with cas_refused [OF Some False, of now] assms(2) Some show thesis
      by (intro that [of st]) auto
  qed
qed

lemma cas_frame:
  assumes "keyed st_ID (streams s)" and "j \<noteq> key"
  shows "mget (streams (snd (cas now s))) j = mget (streams s) j"
proof (cases "mget (streams s) key")
  case None
  then show ?thesis by (simp add: cas_missing)
next
  case (Some st)
  with assms show ?thesis
    by (cases "fence st") (simp_all add: cas_refused cas_taken)
qed

lemma cas_keeps:
  assumes "keyed st_ID (streams s)" and "mget (streams s) i = Some st"
  shows "\<exists>st'. mget (streams (snd (cas now s))) i = Some st' \<and> st_DeletedAt st' = st_DeletedAt st"
proof (cases "i = key")
  case True
  show ?thesis
  proof (cases "fence st")
    case taken: True
    with cas_taken [OF assms(1) assms(2) [unfolded True] taken, of now] True show ?thesis
      by (simp add: moved_def)
  next
    case False
    with cas_refused [OF assms(2) [unfolded True] False, of now] assms(2) show ?thesis by simp
  qed
next
  case False
  with cas_frame [OF assms(1) False] assms(2) show ?thesis by simp
qed

lemma cas_version_grows:
  assumes "keyed st_ID (streams s)" and "fst (cas now s) = Inr (st', True)"
  obtains st where "mget (streams s) key = Some st" and "st_UpdatedAt st < st_UpdatedAt st'"
    and "st_Status st' = target" and "mget (streams (snd (cas now s))) key = Some st'"
proof -
  from assms obtain st where st: "mget (streams s) key = Some st" "fence st" "st' = moved target now st"
    by (rule cas_outcome) auto
  with cas_taken [OF assms(1) st(1,2), of now] show thesis
    by (intro that [of st]) (auto simp: moved_def streamMutationTime_later)
qed

end

text \<open>A fence that the operation itself breaks: of two racing callers only one wins.\<close>

locale fenced_transition = stream_cas +
  assumes fence_closes: "fence st \<Longrightarrow> \<not> fence (moved target now st)"
begin

lemma one_winner:
  assumes "keyed st_ID (streams s)" and "fst (cas now s) = Inr (st', True)"
  shows "cas now' (snd (cas now s)) = (Inr (st', False), snd (cas now s))"
proof -
  from assms obtain st where st: "mget (streams s) key = Some st" "fence st" "st' = moved target now st"
    by (rule cas_outcome) auto
  from cas_taken [OF assms(1) st(1,2), of now]
  have "mget (streams (snd (cas now s))) key = Some (moved target now st)" by simp
  with st fence_closes [OF st(2)] show ?thesis by (simp add: cas_refused)
qed

end

lemma moved_fields [simp]:
  "st_Status (moved t now st) = t" "st_ID (moved t now st) = st_ID st"
  "st_UpdatedAt (moved t now st) = streamMutationTime now (st_UpdatedAt st)"
  by (simp_all add: moved_def)

lemma version_moves: "st_UpdatedAt st = v \<Longrightarrow> streamMutationTime now (st_UpdatedAt st) \<noteq> v"
  using streamMutationTime_later [of "st_UpdatedAt st" now] by simp

interpretation claim_stop: fenced_transition "claimStop None expected status" "st_ID expected"
    "\<lambda>st. st_Status st = st_Status expected \<and> st_UpdatedAt st = st_UpdatedAt expected" status
  for expected status
  by unfold_locales
    (auto simp: claimStop_def put_stream_def moved_def Let_def version_moves dest: keyed_mget)

interpretation finish_stop: fenced_transition "finishClaimedStop None i expected status claim confirmed" i
    "\<lambda>st. st_Status st = expected \<and> st_UpdatedAt st = claim" status
  for i expected status claim confirmed
  by unfold_locales
    (auto simp: finishClaimedStop_def put_stream_def moved_def Let_def version_moves)

interpretation complete_stop: fenced_transition "CompleteNormalStop None i source claim" i
    "\<lambda>st. st_Status st = ''stopping'' \<and> st_UpdatedAt st = claim" "''completed''"
  for i source claim
  by unfold_locales
    (auto simp: CompleteNormalStop_def put_stream_def moved_def Let_def version_moves)

interpretation transition_cas: stream_cas "TransitionStreamStatus None i expectedStatus status" i
    "\<lambda>st. equalFold (trimSpace (st_Status st)) (trimSpace expectedStatus)" status
  for i expectedStatus status
  by unfold_locales (auto simp: TransitionStreamStatus_def put_stream_def moved_def Let_def)

text \<open>
  \<^verbatim>\<open>TransitionStreamStatus\<close> has no version in its fence, so it is a fenced transition only
  between statuses that differ under case folding.
\<close>

lemma TransitionStreamStatus_fenced:
  "\<not> equalFold (trimSpace status) (trimSpace expectedStatus) \<Longrightarrow>
   fenced_transition (TransitionStreamStatus None i expectedStatus status) i
     (\<lambda>st. equalFold (trimSpace (st_Status st)) (trimSpace expectedStatus)) status"
  by (intro fenced_transition.intro fenced_transition_axioms.intro transition_cas.stream_cas_axioms) simp

subsection \<open>The protocol as a state machine\<close>

text \<open>One step is one call of an operation on the stream store, whatever its arguments.\<close>

inductive stop_step :: "stream_store \<Rightarrow> stream_store \<Rightarrow> bool" where
  claim_normal: "stop_step s (snd (ClaimNormalStop c expected now s))"
| claim_force: "stop_step s (snd (ClaimForceStop c expected now s))"
| fail_normal: "stop_step s (snd (FailNormalStop c i claim now s))"
| complete_force: "stop_step s (snd (CompleteConfirmedForceStop c i claim now s))"
| complete_normal: "stop_step s (snd (CompleteNormalStop c i source claim now s))"
| mark_unconfirmed: "stop_step s (snd (MarkNormalStopUnconfirmed c i s))"
| record_receipt: "stop_step s (snd (RecordNormalStopReceipt c i source completed s))"
| transition: "stop_step s (snd (TransitionStreamStatus c i expectedStatus status now s))"
| update_status: "stop_step s (snd (UpdateStreamStatus c i status now s))"
| create: "mget (streams s) uuid = None \<Longrightarrow> stop_step s (snd (CreateStream c name uuid now s))"
| prepare_run: "stop_step s (snd (PrepareStreamArchiveRun c i run startedAt now s))"
| encoder_settings: "stop_step s (snd (UpdateStreamEncoderRuntimeSettings c i gain overlay now s))"
| burn_in: "stop_step s (snd (SetStreamVideoOverlayBurnIn c i enabled now s))"
| append_log: "stop_step s (snd (AppendStreamLog c log0 uuid now s))"
| upsert_artifacts: "stop_step s (snd (UpsertStreamArtifacts c i arts uuids nows s))"
| delete_artifact: "stop_step s (snd (DeleteStreamArtifact c i j s))"
| rename_artifact: "stop_step s (snd (RenameStreamArtifact c i j name s))"
| create_share: "stop_step s (snd (CreateStreamArtifactShare c share uuid checked now s))"
| revoke_share: "stop_step s (snd (RevokeStreamArtifactShare c i j k now s))"

lemmas step_defs = stop_op_defs TransitionStreamStatus_def UpdateStreamStatus_def
  CreateStream_def PrepareStreamArchiveRun_def UpdateStreamEncoderRuntimeSettings_def
  SetStreamVideoOverlayBurnIn_def archive_op_defs new_stream_def snd_with_ctx Let_def

text \<open>The invariant: streams are keyed by their identifiers, and only known streams are pending.\<close>

definition stop_inv :: "stream_store \<Rightarrow> bool" where
  "stop_inv s \<longleftrightarrow> keyed st_ID (streams s) \<and>
     (\<forall>i. mbool (normalStopPending s) i \<longrightarrow> mget (streams s) i \<noteq> None)"

lemma stop_step_inv: "stop_inv s \<Longrightarrow> stop_step s t \<Longrightarrow> stop_inv t"
  by (erule stop_step.cases)
    (auto simp: step_defs stop_inv_def split: option.splits sum.splits if_splits
      intro!: keyed_mput dest: keyed_mget)

lemma stop_inv_init: "stop_inv NewMemoryStreamStore"
  by (simp add: stop_inv_def NewMemoryStreamStore_def mbool_def)

interpretation stop: inductive_invariant "\<lambda>s. s = NewMemoryStreamStore" stop_step stop_inv
  using stop_inv_init stop_step_inv by unfold_locales auto

text \<open>A pending stop is resolved only by the step that completes its stream.\<close>

lemma stop_step_resolves:
  assumes "stop_inv s" and "stop_step s t"
    and "mbool (normalStopPending s) i" and "\<not> mbool (normalStopPending t) i"
  shows "\<exists>st. mget (streams t) i = Some st \<and> st_Status st = ''completed''"
  using assms(2,1,3,4)
  by (cases rule: stop_step.cases)
    (auto simp: step_defs stop_inv_def split: option.splits sum.splits if_splits)

text \<open>No step removes a stream or moves its version back, except where a later clock is trusted.\<close>

lemma stop_step_keeps_streams:
  "stop_inv s \<Longrightarrow> stop_step s t \<Longrightarrow> mget (streams s) i \<noteq> None \<Longrightarrow> mget (streams t) i \<noteq> None"
  by (erule stop_step.cases) (auto simp: step_defs split: option.splits sum.splits if_splits)

lemma pending_run:
  assumes "stop_step\<^sup>*\<^sup>* s t" and "stop_inv s" and "mbool (normalStopPending s) i"
  shows "mbool (normalStopPending t) i \<or>
    (\<exists>u st. stop_step\<^sup>*\<^sup>* s u \<and> stop_step\<^sup>*\<^sup>* u t \<and>
       mget (streams u) i = Some st \<and> st_Status st = ''completed'')"
  using assms
proof (induction rule: rtranclp_induct)
  case base
  then show ?case by simp
next
  case (step t t')
  from step.hyps(1) step.prems(1) have inv: "stop_inv t" by (rule stop.inv_run)
  show ?case
  proof (cases "mbool (normalStopPending t) i")
    case True
    show ?thesis
    proof (cases "mbool (normalStopPending t') i")
      case False
      from stop_step_resolves [OF inv step.hyps(2) True False] step.hyps show ?thesis
        by (meson rtranclp.rtrancl_into_rtrancl rtranclp.rtrancl_refl)
    qed simp
  next
    case False
    with step.IH [OF step.prems] step.hyps(2) show ?thesis
      by (meson rtranclp.rtrancl_into_rtrancl)
  qed
qed

subsection \<open>Properties\<close>

lemma claimStop_won:
  assumes "keyed st_ID (streams s)" and "claimStop None expected status now s = (Inr (st, True), s1)"
  obtains old where "mget (streams s) (st_ID expected) = Some old"
    and "st_Status old = st_Status expected" and "st_UpdatedAt old = st_UpdatedAt expected"
    and "st = moved status now old"
    and "s1 = (put_stream (st_ID expected) st s)\<lparr>normalStopPending := mput (normalStopPending s) (st_ID expected) True\<rparr>"
proof (cases "mget (streams s) (st_ID expected)")
  case None
  with assms(2) show thesis by (simp add: claimStop_def)
next
  case (Some old)
  then have "st_ID old = st_ID expected" using assms(1) by (auto dest: keyed_mget)
  with Some assms(2) show thesis
    by (intro that [of old]) (auto simp: claimStop_def moved_def Let_def split: if_splits)
qed

lemma claims_claimStop:
  assumes "f \<in> {ClaimNormalStop, ClaimForceStop}"
  obtains status where "f c expected = claimStop c expected status"
proof -
  from assms consider "f = ClaimNormalStop" | "f = ClaimForceStop" by blast
  then show thesis by cases (simp_all add: that ClaimNormalStop_def ClaimForceStop_def)
qed

lemma CompleteNormalStop_taken:
  "mget (streams s) i = Some st \<Longrightarrow> st_Status st = ''stopping'' \<Longrightarrow>
   CompleteNormalStop None i source (st_UpdatedAt st) now s =
     (Inr (moved ''completed'' now st, True),
      (put_stream i (moved ''completed'' now st) s)\<lparr>normalStopPending := mdel (normalStopPending s) i,
        normalStopReceipts := mput (normalStopReceipts s) (receiptKey i source)
          (streamMutationTime now (st_UpdatedAt st))\<rparr>)"
  by (simp add: CompleteNormalStop_def moved_def Let_def)

text \<open>
  C25. A stop has one owner: when two callers hold the same snapshot of a stream and each claims a
  normal or a forced stop, the second one is refused, sees the stream as the first one left it,
  and changes nothing.
\<close>

theorem stop_claim_single_winner:
  assumes "keyed st_ID (streams s)"
    and "claim1 \<in> {ClaimNormalStop, ClaimForceStop}" and "claim2 \<in> {ClaimNormalStop, ClaimForceStop}"
    and "claim1 None expected now1 s = (Inr (st, True), s1)"
  shows "claim2 None expected now2 s1 = (Inr (st, False), s1)"
proof -
  obtain status1 where eq1: "claim1 None expected = claimStop None expected status1"
    using assms(2) by (rule claims_claimStop)
  obtain status2 where eq2: "claim2 None expected = claimStop None expected status2"
    using assms(3) by (rule claims_claimStop)
  from claimStop_won [OF assms(1) assms(4) [unfolded eq1]]
  obtain old where "st_UpdatedAt old = st_UpdatedAt expected" and "st = moved status1 now1 old"
    and "s1 = (put_stream (st_ID expected) st s)\<lparr>normalStopPending := mput (normalStopPending s) (st_ID expected) True\<rparr>" .
  then have "mget (streams s1) (st_ID expected) = Some st" "st_UpdatedAt st \<noteq> st_UpdatedAt expected"
    by (auto simp: put_stream_def version_moves)
  then show ?thesis
    by (simp add: eq2 claim_stop.cas_refused)
qed

definition sample_store :: stream_store where
  "sample_store =
     put_stream ''s1'' ((new_stream ''s1'' ''demo'' 5000)\<lparr>st_Status := ''live''\<rparr>) NewMemoryStreamStore"

lemma sample_store_keyed: "keyed st_ID (streams sample_store)"
  by code_simp

theorem stop_claim_single_winner_witness:
  "\<exists>st s1. ClaimNormalStop None ((new_stream ''s1'' ''demo'' 5000)\<lparr>st_Status := ''live''\<rparr>) 7000 sample_store
       = (Inr (st, True), s1) \<and>
     ClaimForceStop None ((new_stream ''s1'' ''demo'' 5000)\<lparr>st_Status := ''live''\<rparr>) 7000 s1
       = (Inr (st, False), s1)"
proof -
  let ?e = "(new_stream ''s1'' ''demo'' 5000)\<lparr>st_Status := ''live''\<rparr>"
  have "ClaimNormalStop None ?e 7000 sample_store =
      (Inr (moved ''stopping'' 7000 ?e, True), snd (ClaimNormalStop None ?e 7000 sample_store))"
    by code_simp
  from this stop_claim_single_winner [of sample_store ClaimNormalStop ClaimForceStop ?e 7000, OF sample_store_keyed _ _ this]
  show ?thesis by blast
qed

text \<open>
  C26. The normal stop protocol reaches its goal: whoever wins the claim of a stream finds it
  fenced and stopping, and completing with the version the claim returned succeeds, marks the
  stream completed at a later version, lifts the fence, and leaves a receipt for exactly that
  source; the streams and fences of others are as they were.
\<close>

theorem normal_stop_completes:
  assumes "keyed st_ID (streams s)"
    and "ClaimNormalStop None expected now1 s = (Inr (st, True), s1)"
  shows "mbool (normalStopPending s1) (st_ID expected) \<and> st_Status st = ''stopping'' \<and>
    (\<exists>fin s2. CompleteNormalStop None (st_ID expected) source (st_UpdatedAt st) now2 s1
        = (Inr (fin, True), s2) \<and>
      st_Status fin = ''completed'' \<and> st_UpdatedAt st < st_UpdatedAt fin \<and>
      mget (streams s2) (st_ID expected) = Some fin \<and>
      \<not> mbool (normalStopPending s2) (st_ID expected) \<and>
      HasNormalStopReceipt None (st_ID expected) source s2 = (Inr True, s2) \<and>
      (\<forall>j. j \<noteq> st_ID expected \<longrightarrow> mget (streams s2) j = mget (streams s) j \<and>
         mbool (normalStopPending s2) j = mbool (normalStopPending s) j))"
proof -
  from assms(2) have "claimStop None expected ''stopping'' now1 s = (Inr (st, True), s1)"
    by (simp add: ClaimNormalStop_def)
  with assms(1) obtain old where st: "st = moved ''stopping'' now1 old"
    and s1: "s1 = (put_stream (st_ID expected) st s)\<lparr>normalStopPending := mput (normalStopPending s) (st_ID expected) True\<rparr>"
    by (rule claimStop_won)
  from s1 have get: "mget (streams s1) (st_ID expected) = Some st"
    by (simp add: put_stream_def)
  from st have "st_Status st = ''stopping''" by simp
  with s1 CompleteNormalStop_taken [OF get this] streamMutationTime_later show ?thesis
    by (simp add: HasNormalStopReceipt_def put_stream_def)
qed

theorem normal_stop_completes_witness:
  "\<exists>st s1 fin s2.
     ClaimNormalStop None ((new_stream ''s1'' ''demo'' 5000)\<lparr>st_Status := ''live''\<rparr>) 7000 sample_store
       = (Inr (st, True), s1) \<and>
     CompleteNormalStop None ''s1'' ''encoder'' (st_UpdatedAt st) 9000 s1 = (Inr (fin, True), s2) \<and>
     st_Status fin = ''completed''"
proof -
  let ?e = "(new_stream ''s1'' ''demo'' 5000)\<lparr>st_Status := ''live''\<rparr>"
  have claimed: "ClaimNormalStop None ?e 7000 sample_store =
      (Inr (moved ''stopping'' 7000 ?e, True), snd (ClaimNormalStop None ?e 7000 sample_store))"
    by code_simp
  have "st_ID ?e = ''s1''" by (simp add: new_stream_def)
  from normal_stop_completes [OF sample_store_keyed claimed, of "''encoder''" 9000, unfolded this]
  obtain fin s2 where "CompleteNormalStop None ''s1'' ''encoder'' (st_UpdatedAt (moved ''stopping'' 7000 ?e)) 9000
      (snd (ClaimNormalStop None ?e 7000 sample_store)) = (Inr (fin, True), s2)" "st_Status fin = ''completed''"
    by blast
  with claimed show ?thesis by blast
qed

text \<open>
  C27. An unconfirmed stop is never forgotten: along every run of calls on the store from a
  reachable state, a stream whose stop is pending stays pending unless the run passes a state in
  which that stream is completed.
\<close>

theorem pending_stop_resolved_only_by_completion:
  assumes "reach (\<lambda>s. s = NewMemoryStreamStore) stop_step s"
    and "mbool (normalStopPending s) i" and "stop_step\<^sup>*\<^sup>* s t"
    and "\<not> mbool (normalStopPending t) i"
  shows "\<exists>u st. stop_step\<^sup>*\<^sup>* s u \<and> stop_step\<^sup>*\<^sup>* u t \<and>
    mget (streams u) i = Some st \<and> st_Status st = ''completed''"
  using pending_run [OF assms(3) stop.inv_reach [OF assms(1)] assms(2)] assms(4) by blast

definition sample_run :: "stream_store list" where
  "sample_run =
     (let s0 = NewMemoryStreamStore; s1 = snd (CreateStream None ''demo'' ''s1'' 5000 s0);
          s2 = snd (ClaimNormalStop None (new_stream ''s1'' ''demo'' 5000) 7000 s1);
          s3 = snd (CompleteNormalStop None ''s1'' ''encoder'' 7000 9000 s2)
      in [s0, s1, s2, s3])"

theorem pending_stop_resolved_only_by_completion_witness:
  "mbool (normalStopPending (sample_run ! 2)) ''s1'' \<and> \<not> mbool (normalStopPending (sample_run ! 3)) ''s1'' \<and>
   (\<exists>u st. stop_step\<^sup>*\<^sup>* (sample_run ! 2) u \<and> mget (streams u) ''s1'' = Some st \<and> st_Status st = ''completed'')"
proof -
  have steps: "stop_step (sample_run ! 0) (sample_run ! 1)" "stop_step (sample_run ! 1) (sample_run ! 2)"
    "stop_step (sample_run ! 2) (sample_run ! 3)"
    unfolding sample_run_def Let_def
    by (simp_all add: stop_step.claim_normal stop_step.complete_normal stop_step.create NewMemoryStreamStore_def)
  have "reach (\<lambda>s. s = NewMemoryStreamStore) stop_step (sample_run ! 0)"
    by (rule reach.reach_init) (simp add: sample_run_def Let_def)
  with steps have reach: "reach (\<lambda>s. s = NewMemoryStreamStore) stop_step (sample_run ! 2)"
    by (blast intro: reach.reach_step)
  have p: "mbool (normalStopPending (sample_run ! 2)) ''s1''"
    and q: "\<not> mbool (normalStopPending (sample_run ! 3)) ''s1''"
    by code_simp+
  have "stop_step\<^sup>*\<^sup>* (sample_run ! 2) (sample_run ! 3)"
    using steps(3) by (rule r_into_rtranclp)
  from pending_stop_resolved_only_by_completion [OF reach p this q] p q
  show ?thesis by blast
qed

end
