(* ===== verification/Assignment_Guard.thy ===== *)
theory Assignment_Guard
  imports Registry_Invariant Stop_Receipts
begin

text \<open>
  The operations that change which service serves which stream, with the guard that couples them
  to the state of the streams: \<^verbatim>\<open>memory_service_assignments_events.go\<close>, the deletions of
  \<^verbatim>\<open>memory_service_catalog.go\<close> and \<^verbatim>\<open>memory.go\<close>, the creation of a stream together with its
  assignments (\<^verbatim>\<open>stream_create_assignments.go\<close>) and the settings update that rechecks the
  Discord assignment (\<^verbatim>\<open>stream_discord_settings.go\<close>, \<^verbatim>\<open>memory_stream_settings.go\<close>).
\<close>

subsection \<open>Assign and unassign\<close>

record service_assignment_mutation =
  am_ServiceID :: string
  am_StreamID :: string
  am_ActorUserID :: string
  am_AssignmentRole :: string
  am_ExpectedCurrentStreamID :: "string option"

record service_unassignment_mutation =
  um_ServiceID :: string
  um_ActorUserID :: string
  um_ExpectedCurrentStreamID :: "string option"

text \<open>A stream that exists and is not deleted.\<close>

definition live_stream :: "stream_store \<Rightarrow> string \<Rightarrow> stream option" where
  "live_stream s i = (case mget (streams s) i of None \<Rightarrow> None
     | Some st \<Rightarrow> if st_DeletedAt st \<noteq> None then None else Some st)"

text \<open>The first loop over the entries an assignment replaces: their services must be in order.\<close>

definition replaceable :: "string \<Rightarrow> string \<Rightarrow> string \<Rightarrow> string \<Rightarrow> auth_store \<Rightarrow> bool" where
  "replaceable serviceID streamID serviceType role a \<longleftrightarrow>
     list_all (\<lambda>(key, assigned).
       replaces serviceID streamID serviceType role key assigned \<longrightarrow> assigned = serviceID \<or>
         (case mget (services a) assigned of
            None \<Rightarrow> False
          | Some replaced \<Rightarrow>
              (case consistentServiceAssignmentLocked a replaced of
                 Inl _ \<Rightarrow> False | Inr (owner, _) \<Rightarrow> owner = streamID)))
       (assignments a)"

definition AssignServiceToStreamGuarded ::
  "ctx \<Rightarrow> service_assignment_mutation \<Rightarrow> string \<Rightarrow> time \<Rightarrow> panel \<Rightarrow> (registered_service, panel) outcome" where
  "AssignServiceToStreamGuarded c m uuid now = with_ctx c (\<lambda>p.
     let serviceID = trimSpace (am_ServiceID m); streamID = trimSpace (am_StreamID m);
         role = normalizeAssignmentRole (am_AssignmentRole m); a = ps_auth p; s = ps_streams p in
     if \<not> streamAssignmentGuard p then (Inl ErrServiceAssignmentGuardUnavailable, p)
     else case mget (services a) serviceID of
       None \<Rightarrow> (Inl ErrNotFound, p)
     | Some svc \<Rightarrow>
       if \<not> streamAssignableServiceType (sv_ServiceType svc) then (Inl ErrInvalidServiceAssignment, p)
       else case live_stream s streamID of
         None \<Rightarrow> (Inl ErrNotFound, p)
       | Some target \<Rightarrow>
         (case consistentServiceAssignmentLocked a svc of
            Inl e \<Rightarrow> (Inl e, p)
          | Inr (currentStreamID, currentRole) \<Rightarrow>
            if (case am_ExpectedCurrentStreamID m of None \<Rightarrow> False | Some e \<Rightarrow> currentStreamID \<noteq> trimSpace e)
            then (Inl ErrServiceAssignmentConflict, p)
            else if currentStreamID = streamID \<and> currentRole = role
            then (Inr (svc\<lparr>sv_AssignmentRole := currentRole\<rparr>), p)
            else if currentStreamID \<noteq> [] \<and> live_stream s currentStreamID = None
            then (Inl ErrServiceAssignmentConflict, p)
            else if currentStreamID \<noteq> [] \<and>
              (case live_stream s currentStreamID of None \<Rightarrow> False | Some source \<Rightarrow> stream_protected s source)
            then (Inl ErrServiceAssignmentProtectedStream, p)
            else if stream_protected s target then (Inl ErrServiceAssignmentProtectedStream, p)
            else if \<not> replaceable serviceID streamID (sv_ServiceType svc) role a
            then (Inl ErrServiceAssignmentConflict, p)
            else case replace_assignment serviceID streamID role uuid (\<lambda>_. now) svc a of
              (svc', a') \<Rightarrow> (Inr svc', p\<lparr>ps_auth := a'\<rparr>)))"

text \<open>Without a guard the role is normalised and nothing else; \<open>now\<close> is read per service.\<close>

definition AssignServiceToStreamWithRole ::
  "ctx \<Rightarrow> string \<Rightarrow> string \<Rightarrow> string \<Rightarrow> string \<Rightarrow> string \<Rightarrow> (string \<Rightarrow> time) \<Rightarrow> panel \<Rightarrow>
   (registered_service, panel) outcome" where
  "AssignServiceToStreamWithRole c serviceID streamID actorUserID role0 uuid now = with_ctx c (\<lambda>p.
     if streamAssignmentGuard p
     then AssignServiceToStreamGuarded c \<lparr>am_ServiceID = serviceID, am_StreamID = streamID,
            am_ActorUserID = actorUserID, am_AssignmentRole = role0,
            am_ExpectedCurrentStreamID = None\<rparr> uuid (now serviceID) p
     else let role = normalizeAssignmentRole role0; a = ps_auth p in
       case mget (services a) serviceID of
         None \<Rightarrow> (Inl ErrNotFound, p)
       | Some svc \<Rightarrow>
         if \<not> streamAssignableServiceType (sv_ServiceType svc) then (Inl ErrInvalidServiceAssignment, p)
         else case replace_assignment serviceID streamID role uuid now svc a of
           (svc', a') \<Rightarrow> (Inr svc', p\<lparr>ps_auth := a'\<rparr>))"

definition AssignServiceToStream ::
  "ctx \<Rightarrow> string \<Rightarrow> string \<Rightarrow> string \<Rightarrow> string \<Rightarrow> (string \<Rightarrow> time) \<Rightarrow> panel \<Rightarrow>
   (registered_service, panel) outcome" where
  "AssignServiceToStream c serviceID streamID actorUserID =
     AssignServiceToStreamWithRole c serviceID streamID actorUserID ''primary''"

definition UnassignServiceFromStreamGuarded ::
  "ctx \<Rightarrow> service_unassignment_mutation \<Rightarrow> time \<Rightarrow> panel \<Rightarrow> (registered_service, panel) outcome" where
  "UnassignServiceFromStreamGuarded c m now = with_ctx c (\<lambda>p.
     let serviceID = trimSpace (um_ServiceID m); a = ps_auth p; s = ps_streams p in
     if \<not> streamAssignmentGuard p then (Inl ErrServiceAssignmentGuardUnavailable, p)
     else case mget (services a) serviceID of
       None \<Rightarrow> (Inl ErrNotFound, p)
     | Some svc \<Rightarrow>
       (case consistentServiceAssignmentLocked a svc of
          Inl e \<Rightarrow> (Inl e, p)
        | Inr (currentStreamID, currentRole) \<Rightarrow>
          if (case um_ExpectedCurrentStreamID m of None \<Rightarrow> False | Some e \<Rightarrow> currentStreamID \<noteq> trimSpace e)
          then (Inl ErrServiceAssignmentConflict, p)
          else if currentStreamID = [] then (Inr (svc\<lparr>sv_AssignmentRole := currentRole\<rparr>), p)
          else case live_stream s currentStreamID of
            None \<Rightarrow> (Inl ErrServiceAssignmentConflict, p)
          | Some owner \<Rightarrow>
            if stream_protected s owner then (Inl ErrServiceUnassignProtectedStream, p)
            else let svc' = (release_service now svc)\<lparr>sv_AssignmentRole := []\<rparr>;
                     a' = drop_service_assignments serviceID a in
              (Inr svc', p\<lparr>ps_auth := a'\<lparr>services := mput (services a') serviceID svc'\<rparr>\<rparr>)))"

definition UnassignServiceFromStream ::
  "ctx \<Rightarrow> string \<Rightarrow> string \<Rightarrow> time \<Rightarrow> panel \<Rightarrow> (registered_service, panel) outcome" where
  "UnassignServiceFromStream c serviceID actorUserID now = with_ctx c (\<lambda>p.
     if streamAssignmentGuard p
     then UnassignServiceFromStreamGuarded c \<lparr>um_ServiceID = serviceID, um_ActorUserID = actorUserID,
            um_ExpectedCurrentStreamID = None\<rparr> now p
     else case mget (services (ps_auth p)) serviceID of
       None \<Rightarrow> (Inl ErrNotFound, p)
     | Some svc \<Rightarrow>
         let svc' = release_service now svc; a' = drop_service_assignments serviceID (ps_auth p) in
         (Inr svc', p\<lparr>ps_auth := a'\<lparr>services := mput (services a') serviceID svc'\<rparr>\<rparr>))"

definition BeginStreamArchiveRetryGuarded ::
  "ctx \<Rightarrow> string \<Rightarrow> string \<Rightarrow> time \<Rightarrow> panel \<Rightarrow> (stream, panel) outcome" where
  "BeginStreamArchiveRetryGuarded c serviceID0 streamID0 now = with_ctx c (\<lambda>p.
     let serviceID = trimSpace serviceID0; streamID = trimSpace streamID0;
         a = ps_auth p; s = ps_streams p in
     if \<not> streamAssignmentGuard p then (Inl ErrServiceAssignmentGuardUnavailable, p)
     else case mget (services a) serviceID of
       None \<Rightarrow> (Inl ErrNotFound, p)
     | Some svc \<Rightarrow>
       if sv_ServiceType svc \<noteq> ''encoder_recorder'' then (Inl ErrInvalidServiceAssignment, p)
       else (case consistentServiceAssignmentLocked a svc of
         Inl e \<Rightarrow> (Inl e, p)
       | Inr (owner, _) \<Rightarrow>
         if owner \<noteq> streamID then (Inl ErrServiceAssignmentConflict, p)
         else case live_stream s streamID of
           None \<Rightarrow> (Inl ErrNotFound, p)
         | Some st \<Rightarrow>
           if mbool (archiveRetryPending s) streamID then (Inr st, p)
           else let s1 = s\<lparr>archiveRetryPending := mput (archiveRetryPending s) streamID True\<rparr> in
             if st_ArchiveReportedAt st \<noteq> None
             then let st' = st\<lparr>st_ArchiveReportedAt := None, st_UpdatedAt := now\<rparr> in
               (Inr st', p\<lparr>ps_streams := (put_stream streamID st' s1)
                  \<lparr>artifactReports := mput (artifactReports s1) streamID False\<rparr>\<rparr>)
             else (Inr st, p\<lparr>ps_streams := s1\<rparr>)))"

subsection \<open>Listings\<close>

definition ListStreamAssignments ::
  "ctx \<Rightarrow> string \<Rightarrow> auth_store \<Rightarrow> (registered_service list, auth_store) outcome" where
  "ListStreamAssignments c streamID = with_ctx c (\<lambda>a.
     (Inr (sort_key (\<lambda>svc. (sv_ServiceType svc, sv_AssignmentRole svc \<noteq> ''primary'', sv_ServiceName svc))
        (concat (map (\<lambda>(key, serviceID).
            if \<not> prefix (streamID @ [NUL]) key then []
            else case mget (services a) serviceID of
              None \<Rightarrow> [] | Some svc \<Rightarrow> [svc\<lparr>sv_AssignmentRole := assignmentRoleFromKey key\<rparr>])
          (assignments a)))), a))"

definition ListServiceAssignmentsForService ::
  "ctx \<Rightarrow> string \<Rightarrow> auth_store \<Rightarrow> (stream_service_assignment list, auth_store) outcome" where
  "ListServiceAssignmentsForService c serviceID = with_ctx c (\<lambda>a.
     (Inr (sort_key (\<lambda>x. (as_StreamID x, as_AssignmentRole x))
        (map (\<lambda>(key, _). case assignmentPartsFromKey key of (streamID, serviceType, role) \<Rightarrow>
            \<lparr>as_StreamID = streamID, as_ServiceID = serviceID, as_ServiceType = serviceType,
             as_AssignmentRole = role, as_AssignedAt = sv_UpdatedAt (service_or_zero a serviceID)\<rparr>)
          (assignments_of a serviceID))), a))"

definition RequestServiceRestart ::
  "ctx \<Rightarrow> string \<Rightarrow> time \<Rightarrow> auth_store \<Rightarrow> (registered_service, auth_store) outcome" where
  "RequestServiceRestart c serviceID now = with_ctx c (\<lambda>a.
     case mget (services a) serviceID of
       None \<Rightarrow> (Inl ErrNotFound, a)
     | Some svc \<Rightarrow>
         let svc' = svc\<lparr>sv_Status := ''restart_requested'', sv_UpdatedAt := now\<rparr> in
         (Inr svc', a\<lparr>services := mput (services a) serviceID svc'\<rparr>))"

definition isAssignedLocked :: "auth_store \<Rightarrow> string \<Rightarrow> string \<Rightarrow> bool" where
  "isAssignedLocked a serviceID streamID \<longleftrightarrow>
     list_ex (\<lambda>(key, assigned). assigned = serviceID \<and> prefix (streamID @ [NUL]) key) (assignments a)"

subsection \<open>Deletions\<close>

definition deleteServiceGuard :: "panel \<Rightarrow> registered_service \<Rightarrow> store_error option" where
  "deleteServiceGuard p svc =
     (if \<not> streamAssignmentGuard p then None
      else case consistentServiceAssignmentLocked (ps_auth p) svc of
        Inl e \<Rightarrow> Some e
      | Inr (owner, _) \<Rightarrow>
        if owner = [] then None
        else case live_stream (ps_streams p) owner of
          None \<Rightarrow> Some ErrServiceAssignmentConflict
        | Some st \<Rightarrow>
          if stream_protected (ps_streams p) st then Some ErrServiceUnassignProtectedStream else None)"

definition revokeToken :: "string \<Rightarrow> time \<Rightarrow> auth_store \<Rightarrow> auth_store" where
  "revokeToken tokenID now a =
     (case mget (serviceTokens a) tokenID of
        None \<Rightarrow> a
      | Some token \<Rightarrow>
          if tk_RevokedAt token \<noteq> None then a
          else a\<lparr>serviceTokens := mput (serviceTokens a) tokenID (token\<lparr>tk_RevokedAt := Some now\<rparr>)\<rparr>)"

definition DeleteService :: "ctx \<Rightarrow> string \<Rightarrow> time \<Rightarrow> panel \<Rightarrow> (unit, panel) outcome" where
  "DeleteService c serviceID now = with_ctx c (\<lambda>p.
     let a = ps_auth p in
     case mget (services a) serviceID of
       None \<Rightarrow> (Inl ErrNotFound, p)
     | Some svc \<Rightarrow>
       (case deleteServiceGuard p svc of
          Some e \<Rightarrow> (Inl e, p)
        | None \<Rightarrow>
          let a1 = drop_service_assignments serviceID (a\<lparr>services := mdel (services a) serviceID\<rparr>);
              a2 = a1\<lparr>streamEvents := filter (\<lambda>e. ev_ServiceID e \<noteq> serviceID) (streamEvents a1)\<rparr>
          in (Inr (), p\<lparr>ps_auth := revokeToken (sv_TokenID svc) now a2\<rparr>)))"

text \<open>The encoder that an archive without a source is attributed to: a primary if there is one.\<close>

definition archiveEncoderOf :: "string \<Rightarrow> string gomap \<Rightarrow> string" where
  "archiveEncoderOf i m =
     fst (foldl (\<lambda>(enc, isPrim) (key, serviceID).
       case assignmentPartsFromKey key of (streamID, serviceType, role) \<Rightarrow>
         if streamID = i \<and> serviceType = ''encoder_recorder'' \<and>
            (enc = [] \<or> (\<not> isPrim \<and> role = ''primary''))
         then (serviceID, role = ''primary'') else (enc, isPrim)) ([], False) m)"

definition streamServiceIDs :: "string \<Rightarrow> auth_store \<Rightarrow> string list" where
  "streamServiceIDs i a =
     remdups (map snd (filter (\<lambda>(key, _). fst (assignmentPartsFromKey key) = i) (assignments a)))"

definition currentServiceIDs :: "string \<Rightarrow> auth_store \<Rightarrow> string list" where
  "currentServiceIDs i a =
     map fst (filter (\<lambda>(_, svc). trimSpace (sv_CurrentStreamID svc) = i) (services a))"

definition streamServicesConsistent :: "string \<Rightarrow> auth_store \<Rightarrow> bool" where
  "streamServicesConsistent i a \<longleftrightarrow>
     length (currentServiceIDs i a) = length (streamServiceIDs i a) \<and>
     list_all (\<lambda>sid. sid \<in> set (currentServiceIDs i a)) (streamServiceIDs i a) \<and>
     list_all (\<lambda>sid. case mget (services a) sid of
         None \<Rightarrow> False
       | Some svc \<Rightarrow> (case consistentServiceAssignmentLocked a svc of
           Inl _ \<Rightarrow> False | Inr (owner, _) \<Rightarrow> owner = i)) (streamServiceIDs i a)"

definition attributeArtifacts :: "string \<Rightarrow> string \<Rightarrow> stream_store \<Rightarrow> stream_store" where
  "attributeArtifacts i enc s =
     (if enc = [] then s
      else s\<lparr>artifacts := mput (artifacts s) i
        (map (\<lambda>x. if trimSpace (sa_SourceServiceID x) = [] then x\<lparr>sa_SourceServiceID := enc\<rparr> else x)
          (mlist (artifacts s) i))\<rparr>)"

definition releaseStreamServices :: "string \<Rightarrow> time \<Rightarrow> auth_store \<Rightarrow> auth_store" where
  "releaseStreamServices i now a =
     release_all (\<lambda>_. now) (streamServiceIDs i a)
       (delete_assignments (\<lambda>key _. fst (assignmentPartsFromKey key) = i) a)"

definition dropStreamRuntime :: "string \<Rightarrow> stream_store \<Rightarrow> stream_store" where
  "dropStreamRuntime i s =
     (let mine = filter (\<lambda>(_, n). ln_StreamID n = i) (liveNotifications s) in
      s\<lparr>mediaRuntimes := mdel (mediaRuntimes s) i, youtubeRuntimes := mdel (youtubeRuntimes s) i,
        liveNotificationEvents :=
          mdel_where (\<lambda>k _. list_ex (\<lambda>(_, n). ln_EventID n = k) mine) (liveNotificationEvents s),
        liveNotificationLeases :=
          mdel_where (\<lambda>k _. list_ex (\<lambda>(j, _). j = k) mine) (liveNotificationLeases s),
        liveNotificationLeaseExpires :=
          mdel_where (\<lambda>k _. list_ex (\<lambda>(j, _). j = k) mine) (liveNotificationLeaseExpires s),
        liveNotifications := mdel_where (\<lambda>_ n. ln_StreamID n = i) (liveNotifications s)\<rparr>)"

definition deleted_stream :: "time \<Rightarrow> stream \<Rightarrow> stream" where
  "deleted_stream now st =
     st\<lparr>st_Status := ''completed'',
        st_DeletedAt := (if st_DeletedAt st = None then Some now else st_DeletedAt st),
        st_UpdatedAt := now\<rparr>"

definition DeleteStream :: "ctx \<Rightarrow> string \<Rightarrow> time \<Rightarrow> panel \<Rightarrow> (unit, panel) outcome" where
  "DeleteStream c i now = with_ctx c (\<lambda>p.
     let a = ps_auth p; s = ps_streams p in
     case mget (streams s) i of
       None \<Rightarrow> (Inl ErrNotFound, p)
     | Some st \<Rightarrow>
       if list_ex (\<lambda>(_, claim). rc_StreamID claim = i) (youtubeRelayBindingClaims s)
       then (Inl ErrYouTubeRelayBindingClaimActive, p)
       else if stream_protected s st then (Inl ErrServiceUnassignProtectedStream, p)
       else if serviceAssignmentGuard p \<and> \<not> streamServicesConsistent i a
       then (Inl ErrServiceAssignmentConflict, p)
       else let s1 = (if serviceAssignmentGuard p then attributeArtifacts i (archiveEncoderOf i (assignments a)) s else s);
                a1 = (if serviceAssignmentGuard p then releaseStreamServices i now a else a)
         in (Inr (), p\<lparr>ps_streams := dropStreamRuntime i (put_stream i (deleted_stream now st) s1),
              ps_auth := a1\<rparr>))"

subsection \<open>Creation with assignments, and settings\<close>

record stream_create_assignments =
  ca_EncoderServiceID :: string
  ca_WorkerServiceID :: string
  ca_DiscordServiceID :: string
  ca_DiscordConfigID :: string

definition sortedUniqueStrings :: "string list \<Rightarrow> string list" where
  "sortedUniqueStrings vs = sort (remdups (filter (\<lambda>v. v \<noteq> []) (map trimSpace vs)))"

definition create_serviceIDs :: "stream_create_assignments \<Rightarrow> string list" where
  "create_serviceIDs x =
     sortedUniqueStrings [ca_EncoderServiceID x, ca_WorkerServiceID x, ca_DiscordServiceID x]"

definition create_valid :: "stream_create_assignments \<Rightarrow> bool" where
  "create_valid x \<longleftrightarrow>
     (let n = (if trimSpace (ca_DiscordConfigID x) \<noteq> [] then 3 else 2) in
      (trimSpace (ca_DiscordConfigID x) \<noteq> []) = (trimSpace (ca_DiscordServiceID x) \<noteq> []) \<and>
      trimSpace (ca_EncoderServiceID x) \<noteq> [] \<and> trimSpace (ca_WorkerServiceID x) \<noteq> [] \<and>
      length (create_serviceIDs x) = n)"

definition create_serviceType :: "stream_create_assignments \<Rightarrow> string \<Rightarrow> string" where
  "create_serviceType x i =
     (if i = trimSpace (ca_EncoderServiceID x) then ''encoder_recorder''
      else if i = trimSpace (ca_DiscordServiceID x) then ''discord_bot'' else ''worker'')"

fun checkCreateServices :: "stream_create_assignments \<Rightarrow> auth_store \<Rightarrow> string list \<Rightarrow> store_error option" where
  "checkCreateServices x a [] = None"
| "checkCreateServices x a (i # rest) =
     (case mget (services a) i of
        None \<Rightarrow> Some ErrNotFound
      | Some svc \<Rightarrow>
        if sv_ServiceType svc \<noteq> create_serviceType x i then Some ErrInvalidServiceAssignment
        else (case consistentServiceAssignmentLocked a svc of
          Inl e \<Rightarrow> Some e
        | Inr (owner, _) \<Rightarrow>
          if owner \<noteq> [] then Some ErrServiceAssignmentConflict else checkCreateServices x a rest))"

fun assignCreateServices ::
  "string \<Rightarrow> (string \<Rightarrow> string) \<Rightarrow> time \<Rightarrow> string list \<Rightarrow> auth_store \<Rightarrow> auth_store" where
  "assignCreateServices streamID uuid now [] a = a"
| "assignCreateServices streamID uuid now (i # rest) a =
     (let svc = service_or_zero a i in
      assignCreateServices streamID uuid now rest
        (snd (write_assignment (assignmentKey streamID (sv_ServiceType svc) ''primary'' i)
           i streamID ''primary'' (uuid i) now svc a)))"

definition created_stream ::
  "string \<Rightarrow> string \<Rightarrow> stream_settings \<Rightarrow> stream_create_assignments \<Rightarrow> time \<Rightarrow> time \<Rightarrow> stream" where
  "created_stream streamID name settings x now now' =
     (applyMemoryStreamSettings (new_stream streamID name now) settings now')
       \<lparr>st_AssignedEncoderID := trimSpace (ca_EncoderServiceID x),
        st_AssignedWorkerID := trimSpace (ca_WorkerServiceID x)\<rparr>"

definition CreateAssignedStream ::
  "ctx \<Rightarrow> string \<Rightarrow> string \<Rightarrow> string \<Rightarrow> stream_settings \<Rightarrow> stream_create_assignments \<Rightarrow>
   (string \<Rightarrow> string) \<Rightarrow> time \<Rightarrow> time \<Rightarrow> panel \<Rightarrow> (stream, panel) outcome" where
  "CreateAssignedStream c streamID name actorID settings x uuid now now' = with_ctx c (\<lambda>p.
     let a = ps_auth p; s = ps_streams p in
     if \<not> serviceAssignmentGuard p then (Inl ErrServiceAssignmentGuardUnavailable, p)
     else if ca_DiscordConfigID x \<noteq> [] \<and> \<not> relayBindingClaimProfiles p
     then (Inl ErrServiceAssignmentGuardUnavailable, p)
     else if ca_DiscordConfigID x \<noteq> [] \<and>
       (ss_DiscordConfigID settings \<noteq> ca_DiscordConfigID x \<or>
        (case mget (ps_profiles p) (ca_DiscordConfigID x) of
           None \<Rightarrow> True
         | Some pf \<Rightarrow> pf_Kind pf \<noteq> ProfileDiscordConfig \<or>
             currentDiscordConfigString (pf_Config pf) ''service_id'' \<noteq> ca_DiscordServiceID x))
     then (Inl ErrServiceAssignmentConflict, p)
     else if \<not> create_valid x then (Inl ErrInvalidServiceAssignment, p)
     else if mget (streams s) streamID \<noteq> None then (Inl ErrServiceAssignmentConflict, p)
     else case checkCreateServices x a (create_serviceIDs x) of
       Some e \<Rightarrow> (Inl e, p)
     | None \<Rightarrow>
       let st = created_stream streamID name settings x now now' in
       (Inr st, p\<lparr>ps_auth := assignCreateServices streamID uuid now (create_serviceIDs x) a,
          ps_streams := put_stream streamID st s\<rparr>))"

text \<open>
  \<^verbatim>\<open>lockExpectedDiscordSettings\<close>, without its locks: the error it returns, if any. \<open>c\<close> is
  the context at its end.
\<close>

definition lockExpectedDiscordSettings ::
  "ctx \<Rightarrow> string \<Rightarrow> stream_settings \<Rightarrow> panel \<Rightarrow> store_error option" where
  "lockExpectedDiscordSettings c streamID settings p =
     (case ss_ExpectedDiscordServiceID settings of
        None \<Rightarrow> None
      | Some expected \<Rightarrow>
        let desired = trimSpace expected; a = ps_auth p in
        if desired \<noteq> [] \<and> \<not> relayBindingClaimProfiles p then Some ErrServiceAssignmentGuardUnavailable
        else if desired \<noteq> [] \<and>
          (case mget (ps_profiles p) (ss_DiscordConfigID settings) of
             None \<Rightarrow> True
           | Some pf \<Rightarrow> pf_Kind pf \<noteq> ProfileDiscordConfig \<or>
               currentDiscordConfigString (pf_Config pf) ''service_id'' \<noteq> desired)
        then Some ErrServiceAssignmentConflict
        else if desired = [] \<and> ss_DiscordConfigID settings \<noteq> [] then Some ErrServiceAssignmentConflict
        else if \<not> serviceAssignmentGuard p then Some ErrServiceAssignmentGuardUnavailable
        else if desired \<noteq> [] \<and>
          (case mget (services a) desired of
             None \<Rightarrow> True
           | Some svc \<Rightarrow> sv_ServiceType svc \<noteq> ''discord_bot'' \<or>
               consistentServiceAssignmentLocked a svc \<noteq> Inr (streamID, ''primary''))
        then Some ErrServiceAssignmentConflict
        else if desired = [] \<and>
          list_ex (\<lambda>(key, _). case assignmentPartsFromKey key of (owner, serviceType, _) \<Rightarrow>
            owner = streamID \<and> serviceType = ''discord_bot'') (assignments a)
        then Some ErrServiceAssignmentConflict
        else c)"

definition UpdateStreamSettings ::
  "ctx \<Rightarrow> ctx \<Rightarrow> string \<Rightarrow> stream_settings \<Rightarrow> time \<Rightarrow> panel \<Rightarrow> (stream, panel) outcome" where
  "UpdateStreamSettings c c' i settings now = with_ctx c (\<lambda>p.
     case lockExpectedDiscordSettings c' i settings p of
       Some e \<Rightarrow> (Inl e, p)
     | None \<Rightarrow>
       let s = ps_streams p in
       (case mget (streams s) i of
          None \<Rightarrow> (Inl ErrNotFound, p)
        | Some st \<Rightarrow>
          if list_ex (\<lambda>(_, claim). rc_StreamID claim = i \<and>
               rc_YouTubeOutputID claim \<noteq> trimSpace (ss_YouTubeOutputID settings))
             (youtubeRelayBindingClaims s)
          then (Inl ErrYouTubeRelayBindingClaimActive, p)
          else let st' = applyMemoryStreamSettings st settings now in
            (Inr st', p\<lparr>ps_streams := put_stream i st' s\<rparr>)))"

end
