(* ===== verification/Start_Claim.thy ===== *)
theory Start_Claim
  imports Assignment_Guard
begin

text \<open>
  The atomic start of a stream: \<^verbatim>\<open>memory_stream_start_claim.go\<close>, \<^verbatim>\<open>stream_start_claim_clock.go\<close>
  and the claim types of \<^verbatim>\<open>service_assignment_guard.go\<close>. A start is claimed against the exact
  preflight observation of status, version and primary assignments; the claim it returns is the
  only authority that may finish the start. The JSON encoder and the hash of
  \<^verbatim>\<open>streamStartOwnershipIdentity\<close> are parameters.
\<close>

subsection \<open>Data\<close>

record start_claim_request =
  rq_StreamID :: string
  rq_ExpectedStatus :: string
  rq_ExpectedStreamUpdatedAt :: time
  rq_ExpectedPrimaryAssignments :: "registered_service list"
  rq_MaterializeServiceID :: string
  rq_MaterializeActorUserID :: string
  rq_ArchiveEnabled :: bool
  rq_ArchiveStartedAt :: time

record start_assignment_claim =
  cl_AssignmentID :: string
  cl_ServiceID :: string
  cl_ServiceType :: string
  cl_Role :: string

record archive_authority =
  aa_RunID :: string
  aa_StartedAt :: "time option"

record start_ownership_claim =
  ow_StreamID :: string
  ow_StreamUpdatedAt :: time
  ow_StreamIdentity :: string
  ow_Assignments :: "start_assignment_claim list"
  ow_Archive :: archive_authority

record claimed_stream_start =
  cs_Stream :: stream
  cs_PrimaryAssignments :: "registered_service list"
  cs_ArchiveAuthority :: archive_authority
  cs_OwnershipClaim :: start_ownership_claim
  cs_Materialized :: "registered_service option"

definition streamStartOwnershipIdentity ::
  "(stream \<Rightarrow> string option) \<Rightarrow> (string \<Rightarrow> string) \<Rightarrow> stream \<Rightarrow> string" where
  "streamStartOwnershipIdentity marshal sha256hex st =
     (case marshal st of None \<Rightarrow> [] | Some encoded \<Rightarrow> sha256hex encoded)"

subsection \<open>Checks\<close>

definition streamStartClaimStatus :: "string \<Rightarrow> bool" where
  "streamStartClaimStatus status \<longleftrightarrow>
     toLower (trimSpace status) \<in> {''created'', ''draft'', ''scheduled'', ''ready'', ''failed''}"

definition streamStartClockConflict :: "stream \<Rightarrow> time \<Rightarrow> archive_authority \<Rightarrow> bool" where
  "streamStartClockConflict previous now next \<longleftrightarrow>
     (if now < st_UpdatedAt previous then True
      else if now > st_UpdatedAt previous \<or> \<not> equalFold (trimSpace (st_Status previous)) ''failed'' then False
      else (case aa_StartedAt next of
          None \<Rightarrow> True
        | Some n \<Rightarrow> (case st_ArchiveStartedAt previous of None \<Rightarrow> False | Some t \<Rightarrow> \<not> n > t)))"

definition archiveAuthorityMatchesClaim :: "stream \<Rightarrow> archive_authority \<Rightarrow> bool" where
  "archiveAuthorityMatchesClaim st authority \<longleftrightarrow>
     trimSpace (st_ArchiveRunID st) = trimSpace (aa_RunID authority) \<and>
     st_ArchiveStartedAt st = aa_StartedAt authority"

definition startAssignmentClaimsEqual :: "start_assignment_claim list \<Rightarrow> start_assignment_claim list \<Rightarrow> bool" where
  "startAssignmentClaimsEqual left right \<longleftrightarrow>
     length left = length right \<and> sort_key cl_AssignmentID left = sort_key cl_AssignmentID right"

fun collectExpected :: "registered_service gomap \<Rightarrow> registered_service list \<Rightarrow> registered_service gomap result" where
  "collectExpected expected [] = Inr expected"
| "collectExpected expected (service # rest) =
     (let svc = service\<lparr>sv_ServiceID := trimSpace (sv_ServiceID service),
            sv_ServiceType := toLower (trimSpace (sv_ServiceType service)), sv_AssignmentRole := ''primary''\<rparr> in
      if sv_ServiceID svc = [] \<or> sv_ServiceType svc = [] \<or>
         normalizeAssignmentRole (sv_AssignmentRole service) \<noteq> ''primary''
      then Inl ErrServiceAssignmentConflict
      else if mget expected (sv_ServiceType svc) \<noteq> None then Inl ErrServiceAssignmentConflict
      else collectExpected (mput expected (sv_ServiceType svc) svc) rest)"

definition expectedPrimaryStartAssignments :: "registered_service list \<Rightarrow> registered_service gomap result" where
  "expectedPrimaryStartAssignments = collectExpected []"

text \<open>The loop over the assignments that collects the primaries of the stream by type.\<close>

fun collectActual ::
  "auth_store \<Rightarrow> string \<Rightarrow> registered_service gomap \<Rightarrow> string gomap \<Rightarrow> registered_service gomap result" where
  "collectActual a i actual [] = Inr actual"
| "collectActual a i actual ((key, serviceID) # rest) =
     (case assignmentPartsFromKey key of (streamID, serviceType, role) \<Rightarrow>
      if streamID \<noteq> i \<or> normalizeAssignmentRole role \<noteq> ''primary'' then collectActual a i actual rest
      else case mget (services a) serviceID of
        None \<Rightarrow> Inl ErrServiceAssignmentConflict
      | Some service \<Rightarrow>
        if trimSpace (case mget (assignmentIDs a) key of None \<Rightarrow> [] | Some x \<Rightarrow> x) = []
        then Inl ErrServiceAssignmentConflict
        else if consistentServiceAssignmentLocked a service \<noteq> Inr (i, ''primary'') \<or> sv_ServiceType service \<noteq> serviceType
        then Inl ErrServiceAssignmentConflict
        else if mget actual serviceType \<noteq> None then Inl ErrServiceAssignmentConflict
        else collectActual a i (mput actual serviceType (service\<lparr>sv_AssignmentRole := ''primary''\<rparr>)) rest)"

text \<open>
  The materialisation of a configured service: the candidate, and the key of the standby entry it
  gives up (empty if none).
\<close>

definition materializeCandidate ::
  "auth_store \<Rightarrow> string \<Rightarrow> string \<Rightarrow> registered_service gomap \<Rightarrow> registered_service gomap \<Rightarrow>
   (registered_service \<times> string) result" where
  "materializeCandidate a i serviceID expected actual =
     (case mget (services a) serviceID of
        None \<Rightarrow> Inl ErrServiceAssignmentConflict
      | Some candidate \<Rightarrow>
        (case mget expected (sv_ServiceType candidate) of
           None \<Rightarrow> Inl ErrServiceAssignmentConflict
         | Some e \<Rightarrow>
           if sv_ServiceID e \<noteq> sv_ServiceID candidate \<or> normalizeAssignmentRole (sv_AssignmentRole e) \<noteq> ''primary''
           then Inl ErrServiceAssignmentConflict
           else if mget actual (sv_ServiceType candidate) \<noteq> None then Inl ErrServiceAssignmentConflict
           else (case consistentServiceAssignmentLocked a candidate of
             Inl _ \<Rightarrow> Inl ErrServiceAssignmentConflict
           | Inr (owner, role) \<Rightarrow>
             if (owner \<noteq> [] \<and> owner \<noteq> i) \<or> (owner = i \<and> role = ''primary'')
             then Inl ErrServiceAssignmentConflict
             else Inr (candidate\<lparr>sv_AssignmentRole := ''primary''\<rparr>,
               if owner = i then assignmentKey i (sv_ServiceType candidate) role (sv_ServiceID candidate) else []))))"

definition writeMaterialized ::
  "string \<Rightarrow> string \<Rightarrow> time \<Rightarrow> registered_service \<times> string \<Rightarrow> auth_store \<Rightarrow> registered_service \<times> auth_store" where
  "writeMaterialized i uuid now cand a =
     (case cand of (candidate, previousKey) \<Rightarrow>
      let a1 = (if previousKey \<noteq> []
            then a\<lparr>assignments := mdel (assignments a) previousKey, assignmentIDs := mdel (assignmentIDs a) previousKey\<rparr>
            else a) in
      write_assignment (assignmentKey i (sv_ServiceType candidate) ''primary'' (sv_ServiceID candidate))
        (sv_ServiceID candidate) i ''primary'' uuid now candidate a1)"

text \<open>The same steps when no service is to be materialised: nothing happens.\<close>

definition startMaterialize ::
  "auth_store \<Rightarrow> string \<Rightarrow> string \<Rightarrow> registered_service gomap \<Rightarrow> registered_service gomap \<Rightarrow>
   (registered_service \<times> string) option result" where
  "startMaterialize a i serviceID expected actual =
     (if serviceID = [] then Inr None
      else case materializeCandidate a i serviceID expected actual of Inl e \<Rightarrow> Inl e | Inr cand \<Rightarrow> Inr (Some cand))"

definition withCandidate ::
  "(registered_service \<times> string) option \<Rightarrow> registered_service gomap \<Rightarrow> registered_service gomap" where
  "withCandidate mat actual =
     (case mat of None \<Rightarrow> actual | Some (candidate, _) \<Rightarrow> mput actual (sv_ServiceType candidate) candidate)"

definition applyMaterialized ::
  "string \<Rightarrow> string \<Rightarrow> time \<Rightarrow> (registered_service \<times> string) option \<Rightarrow> auth_store \<Rightarrow>
   registered_service option \<times> auth_store" where
  "applyMaterialized i uuid now mat a =
     (case mat of None \<Rightarrow> (None, a)
      | Some cand \<Rightarrow> (case writeMaterialized i uuid now cand a of (m, b) \<Rightarrow> (Some m, b)))"

definition requiredStartTypes :: "string list" where
  "requiredStartTypes = [''encoder_recorder'', ''worker'', ''discord_bot'']"

definition startAssignmentsMatch :: "registered_service gomap \<Rightarrow> registered_service gomap \<Rightarrow> bool" where
  "startAssignmentsMatch expected actual \<longleftrightarrow>
     length actual = length expected \<and>
     list_all (\<lambda>(serviceType, e). case mget actual serviceType of
         None \<Rightarrow> False
       | Some current \<Rightarrow> sv_ServiceID current = sv_ServiceID e \<and> sv_ServiceType current = sv_ServiceType e) expected \<and>
     list_all (\<lambda>required. mget actual required \<noteq> None) requiredStartTypes"

definition startAuthority :: "start_claim_request \<Rightarrow> time \<Rightarrow> archive_authority" where
  "startAuthority request now =
     (if rq_ArchiveEnabled request
      then let startedAt = (if isZero (rq_ArchiveStartedAt request) then now else rq_ArchiveStartedAt request) in
        \<lparr>aa_RunID = StreamArchiveRunIDForStart startedAt, aa_StartedAt = cloneTimePtr (Some startedAt)\<rparr>
      else \<lparr>aa_RunID = [], aa_StartedAt = None\<rparr>)"

subsection \<open>The claimed assignments\<close>

fun collectClaims ::
  "auth_store \<Rightarrow> string \<Rightarrow> string gomap \<Rightarrow> (registered_service list \<times> start_assignment_claim list) result" where
  "collectClaims a i [] = Inr ([], [])"
| "collectClaims a i ((key, serviceID) # rest) =
     (case assignmentPartsFromKey key of (owner, serviceType, role) \<Rightarrow>
      if owner \<noteq> i \<or> normalizeAssignmentRole role \<noteq> ''primary'' then collectClaims a i rest
      else case mget (services a) serviceID of
        None \<Rightarrow> Inl ErrServiceAssignmentConflict
      | Some service \<Rightarrow>
        let assignmentID = trimSpace (case mget (assignmentIDs a) key of None \<Rightarrow> [] | Some x \<Rightarrow> x) in
        if assignmentID = [] \<or> sv_ServiceType service \<noteq> serviceType \<or> trimSpace (sv_CurrentStreamID service) \<noteq> i
        then Inl ErrServiceAssignmentConflict
        else (case collectClaims a i rest of
          Inl e \<Rightarrow> Inl e
        | Inr (primary, claims) \<Rightarrow>
          Inr (service\<lparr>sv_AssignmentRole := ''primary''\<rparr> # primary,
            \<lparr>cl_AssignmentID = assignmentID, cl_ServiceID = serviceID, cl_ServiceType = serviceType,
             cl_Role = ''primary''\<rparr> # claims)))"

definition memoryClaimedPrimaryAssignments ::
  "auth_store \<Rightarrow> string \<Rightarrow> (registered_service list \<times> start_assignment_claim list) result" where
  "memoryClaimedPrimaryAssignments a i =
     (case collectClaims a i (assignments a) of
        Inl e \<Rightarrow> Inl e
      | Inr (primary, claims) \<Rightarrow>
          Inr (sort_key (\<lambda>svc. (sv_ServiceType svc, sv_ServiceID svc)) primary, sort_key cl_AssignmentID claims))"

subsection \<open>Claim and transition\<close>

definition starting_stream :: "archive_authority \<Rightarrow> time \<Rightarrow> stream \<Rightarrow> stream" where
  "starting_stream authority now st =
     st\<lparr>st_ArchiveRunID := aa_RunID authority, st_ArchiveStartedAt := cloneTimePtr (aa_StartedAt authority),
        st_ArchiveReportedAt := None, st_Status := ''starting'', st_UpdatedAt := now\<rparr>"

definition ClaimStreamStart ::
  "(stream \<Rightarrow> string option) \<Rightarrow> (string \<Rightarrow> string) \<Rightarrow> ctx \<Rightarrow> start_claim_request \<Rightarrow> string \<Rightarrow> time \<Rightarrow> panel \<Rightarrow>
   (claimed_stream_start, panel) outcome" where
  "ClaimStreamStart marshal sha256hex c request uuid now = with_ctx c (\<lambda>p.
     let a = ps_auth p; s = ps_streams p; materializeID = trimSpace (rq_MaterializeServiceID request) in
     if \<not> serviceAssignmentGuard p then (Inl ErrServiceAssignmentGuardUnavailable, p)
     else case live_stream s (trimSpace (rq_StreamID request)) of
       None \<Rightarrow> (Inl ErrServiceAssignmentConflict, p)
     | Some st \<Rightarrow>
       if \<not> streamStartClaimStatus (st_Status st) \<or>
          \<not> equalFold (trimSpace (st_Status st)) (trimSpace (rq_ExpectedStatus request)) \<or>
          st_UpdatedAt st \<noteq> rq_ExpectedStreamUpdatedAt request
       then (Inl ErrServiceAssignmentConflict, p)
       else if stream_protected s st then (Inl ErrServiceAssignmentConflict, p)
       else (case expectedPrimaryStartAssignments (rq_ExpectedPrimaryAssignments request) of
         Inl e \<Rightarrow> (Inl e, p)
       | Inr expected \<Rightarrow>
         (case collectActual a (st_ID st) [] (assignments a) of
           Inl e \<Rightarrow> (Inl e, p)
         | Inr actual0 \<Rightarrow>
           (case startMaterialize a (st_ID st) materializeID expected actual0 of
             Inl e \<Rightarrow> (Inl e, p)
           | Inr mat \<Rightarrow>
             let actual = withCandidate mat actual0;
                 authority = startAuthority request now in
             if \<not> startAssignmentsMatch expected actual then (Inl ErrServiceAssignmentConflict, p)
             else if streamStartClockConflict st now authority then (Inl ErrServiceAssignmentConflict, p)
             else let (materialized, a') = applyMaterialized (st_ID st) uuid now mat a;
                   st' = starting_stream authority now st;
                   s' = (put_stream (st_ID st') st' s)\<lparr>artifactReports := mput (artifactReports s) (st_ID st') False\<rparr>;
                   p' = p\<lparr>ps_auth := a', ps_streams := s'\<rparr> in
               (case memoryClaimedPrimaryAssignments a' (st_ID st') of
                  Inl e \<Rightarrow> (Inl e, p')
                | Inr (primary, claims) \<Rightarrow>
                  (Inr \<lparr>cs_Stream = st', cs_PrimaryAssignments = primary, cs_ArchiveAuthority = authority,
                     cs_OwnershipClaim = \<lparr>ow_StreamID = st_ID st', ow_StreamUpdatedAt = st_UpdatedAt st',
                       ow_StreamIdentity = streamStartOwnershipIdentity marshal sha256hex st',
                       ow_Assignments = claims, ow_Archive = authority\<rparr>,
                     cs_Materialized = materialized\<rparr>, p'))))))"

definition TransitionClaimedStreamStart ::
  "(stream \<Rightarrow> string option) \<Rightarrow> (string \<Rightarrow> string) \<Rightarrow> ctx \<Rightarrow> start_ownership_claim \<Rightarrow> string \<Rightarrow> time \<Rightarrow> panel \<Rightarrow>
   (stream \<times> bool, panel) outcome" where
  "TransitionClaimedStreamStart marshal sha256hex c claim status now = with_ctx c (\<lambda>p.
     let a = ps_auth p; s = ps_streams p in
     if \<not> serviceAssignmentGuard p then (Inl ErrServiceAssignmentGuardUnavailable, p)
     else case live_stream s (trimSpace (ow_StreamID claim)) of
       None \<Rightarrow> (Inl ErrNotFound, p)
     | Some st \<Rightarrow>
       if \<not> equalFold (trimSpace (st_Status st)) ''starting'' then (Inr (st, False), p)
       else if trimSpace (ow_StreamIdentity claim) = [] \<or>
         streamStartOwnershipIdentity marshal sha256hex st \<noteq> ow_StreamIdentity claim \<or>
         st_UpdatedAt st \<noteq> ow_StreamUpdatedAt claim \<or> \<not> archiveAuthorityMatchesClaim st (ow_Archive claim)
       then (Inl ErrServiceAssignmentConflict, p)
       else (case memoryClaimedPrimaryAssignments a (st_ID st) of
         Inl _ \<Rightarrow> (Inl ErrServiceAssignmentConflict, p)
       | Inr (_, currentClaims) \<Rightarrow>
         if \<not> startAssignmentClaimsEqual currentClaims (ow_Assignments claim)
         then (Inl ErrServiceAssignmentConflict, p)
         else if now < st_UpdatedAt st then (Inl ErrServiceAssignmentConflict, p)
         else let st' = st\<lparr>st_Status := trimSpace status, st_UpdatedAt := now\<rparr> in
           (Inr (st', True), p\<lparr>ps_streams := put_stream (st_ID st) st' s\<rparr>)))"

subsection \<open>The collected primaries\<close>

lemma normalize_roles [simp]:
  "normalizeAssignmentRole ''primary'' = ''primary''" "normalizeAssignmentRole ''standby'' = ''standby''"
  by code_simp+

definition primary_entry :: "string \<Rightarrow> string \<Rightarrow> bool" where
  "primary_entry i key \<longleftrightarrow> fst (assignmentPartsFromKey key) = i \<and>
     normalizeAssignmentRole (snd (snd (assignmentPartsFromKey key))) = ''primary''"

text \<open>What makes an entry part of a claim.\<close>

definition claimable :: "auth_store \<Rightarrow> string \<Rightarrow> string \<Rightarrow> string \<Rightarrow> bool" where
  "claimable a i key sid \<longleftrightarrow>
     (\<exists>svc. mget (services a) sid = Some svc \<and>
        trimSpace (case mget (assignmentIDs a) key of None \<Rightarrow> [] | Some x \<Rightarrow> x) \<noteq> [] \<and>
        sv_ServiceType svc = fst (snd (assignmentPartsFromKey key)) \<and> trimSpace (sv_CurrentStreamID svc) = i)"

lemma collectActual_mono:
  "collectActual a i acc m = Inr actual \<Longrightarrow> mget acc ty \<noteq> None \<Longrightarrow> mget actual ty \<noteq> None"
  by (induction a i acc m rule: collectActual.induct)
    (auto split: prod.splits if_splits option.splits)

lemma collectActual_entry:
  "collectActual a i acc m = Inr actual \<Longrightarrow> (key, sid) \<in> set m \<Longrightarrow> primary_entry i key \<Longrightarrow>
   claimable a i key sid \<and> mget actual (fst (snd (assignmentPartsFromKey key))) \<noteq> None"
proof (induction a i acc m rule: collectActual.induct)
  case (2 a i actual' key' serviceID rest)
  obtain streamID ty role where parts: "assignmentPartsFromKey key' = (streamID, ty, role)"
    by (cases "assignmentPartsFromKey key'")
  show ?case
  proof (cases "streamID \<noteq> i \<or> normalizeAssignmentRole role \<noteq> ''primary''")
    case True
    with "2.prems" parts have "(key, sid) \<in> set rest" by (auto simp: primary_entry_def)
    with "2.IH"(1) [OF parts [symmetric] refl True] "2.prems" True parts show ?thesis by simp
  next
    case False
    with "2.prems"(1) parts obtain service where svc: "mget (services a) serviceID = Some service"
      "trimSpace (case mget (assignmentIDs a) key' of None \<Rightarrow> [] | Some x \<Rightarrow> x) \<noteq> []"
      "consistentServiceAssignmentLocked a service = Inr (i, ''primary'')" "sv_ServiceType service = ty"
      and fresh: "mget actual' ty = None"
      and rest: "collectActual a i (mput actual' ty (service\<lparr>sv_AssignmentRole := ''primary''\<rparr>)) rest = Inr actual"
      by (auto split: option.splits if_splits)
    show ?thesis
    proof (cases "(key, sid) = (key', serviceID)")
      case True
      with svc parts have "claimable a i key sid"
        by (auto simp: claimable_def consistent_iff)
      moreover have "mget actual ty \<noteq> None"
        using rest by (rule collectActual_mono) simp
      ultimately show ?thesis using True parts by simp
    next
      case other: False
      with "2.prems"(2) have "(key, sid) \<in> set rest" by auto
      with "2.IH"(2) [OF parts [symmetric] refl False svc(1)] svc fresh rest "2.prems"(3) show ?thesis by simp
    qed
  qed
qed simp

lemma collectClaims_total:
  "(\<And>key sid. (key, sid) \<in> set m \<Longrightarrow> primary_entry i key \<Longrightarrow> claimable a i key sid) \<Longrightarrow>
   \<exists>x. collectClaims a i m = Inr x"
proof (induction m)
  case (Cons e m)
  obtain key sid where e: "e = (key, sid)" by (cases e)
  obtain owner ty role where parts: "assignmentPartsFromKey key = (owner, ty, role)"
    by (cases "assignmentPartsFromKey key")
  from Cons obtain primary claims where rest: "collectClaims a i m = Inr (primary, claims)" by force
  show ?case
  proof (cases "primary_entry i key")
    case True
    with Cons.prems [of key sid] e have "claimable a i key sid" by simp
    with True rest parts show ?thesis
      by (auto simp: e primary_entry_def claimable_def Let_def)
  next
    case False
    with rest parts show ?thesis by (auto simp: e primary_entry_def)
  qed
qed simp

subsection \<open>Materialisation is an assignment\<close>

lemma assignmentKey_not_Nil [simp]: "assignmentKey st ty role sid \<noteq> []"
  by (simp add: assignmentKey_def)

lemma mdel_where_key:
  "mwf m \<Longrightarrow> (\<And>k v. mget m k = Some v \<Longrightarrow> P k v \<longleftrightarrow> k = j) \<Longrightarrow> mdel_where P m = mdel m j"
  unfolding mdel_where_def mdel_def AList.delete_eq
  by (intro filter_cong) (auto simp: gm.entries_get)

lemma mdel_where_none: "mwf m \<Longrightarrow> (\<And>k v. mget m k = Some v \<Longrightarrow> \<not> P k v) \<Longrightarrow> mdel_where P m = m"
  unfolding mdel_where_def by (auto simp: filter_id_conv gm.entries_get)

lemma materialize_is_replace:
  assumes ok: "registry_ok a" and i: "good_id i" and svc: "mget (services a) sid = Some cand"
    and c: "consistentServiceAssignmentLocked a cand = Inr (owner, role)" and own: "owner = [] \<or> owner = i"
    and none: "mget (assignments a) (assignmentKey i (sv_ServiceType cand) ''primary'' []) = None"
    and prev: "prev = (if owner = i then assignmentKey i (sv_ServiceType cand) role sid else [])"
  shows "writeMaterialized i uuid now (cand\<lparr>sv_AssignmentRole := ''primary''\<rparr>, prev) a =
    replace_assignment sid i ''primary'' uuid (\<lambda>_. now) cand a"
proof -
  let ?P = "replaces sid i (sv_ServiceType cand) ''primary''"
  note wf = registry_mwf [OF ok] and sid = registry_sid [OF ok svc]
  have P: "?P k v \<longleftrightarrow> owner = i \<and> k = assignmentKey i (sv_ServiceType cand) role sid"
    if "mget (assignments a) k = Some v" for k v
  proof -
    have "k \<noteq> assignmentKey i (sv_ServiceType cand) ''primary'' x" for x
      using that none by (auto simp: assignmentKey_def)
    then have "?P k v \<longleftrightarrow> v = sid" by (simp add: replaces_def assignmentKeyMatchesPrimary_def)
    also have "\<dots> \<longleftrightarrow> owner \<noteq> [] \<and> k = assignmentKey owner (sv_ServiceType cand) role sid"
      using consistent_owner(2) [OF ok svc c, of k] that by auto
    finally show ?thesis using own i by (auto simp: good_id_def)
  qed
  have own_entry: "v = sid" if "mget (assignments a) k = Some v" "?P k v" for k v
    using that P consistent_owner(2) [OF ok svc c, of k] i by (auto simp: good_id_def)
  have ids: "replacedServiceIDs sid i (sv_ServiceType cand) ''primary'' a = []"
    using own_entry by (auto simp: replacedServiceIDs_def filter_empty_conv gm.entries_get wf)
  have del: "delete_assignments ?P a = (if prev \<noteq> []
      then a\<lparr>assignments := mdel (assignments a) prev, assignmentIDs := mdel (assignmentIDs a) prev\<rparr> else a)"
  proof (cases "owner = i")
    case True
    with prev have prev: "prev = assignmentKey i (sv_ServiceType cand) role sid" by simp
    have idP: "(case mget (assignments a) k of None \<Rightarrow> False | Some v \<Rightarrow> ?P k v) \<longleftrightarrow> k = prev"
      if "mget (assignmentIDs a) k = Some x" for k x
      using that registry_ids [OF ok, of k] P True prev by (auto split: option.splits)
    have "mdel_where ?P (assignments a) = mdel (assignments a) prev"
      using P True prev by (intro mdel_where_key wf) simp
    moreover have "mdel_where (\<lambda>k _. case mget (assignments a) k of None \<Rightarrow> False | Some v \<Rightarrow> ?P k v) (assignmentIDs a)
        = mdel (assignmentIDs a) prev"
      using idP by (intro mdel_where_key wf)
    ultimately show ?thesis by (simp add: delete_assignments_def prev)
  next
    case False
    with P have "mdel_where ?P (assignments a) = assignments a"
      by (intro mdel_where_none wf) simp
    moreover have "mdel_where (\<lambda>k _. case mget (assignments a) k of None \<Rightarrow> False | Some v \<Rightarrow> ?P k v) (assignmentIDs a)
        = assignmentIDs a"
      using P False by (intro mdel_where_none wf) (simp split: option.split)
    ultimately show ?thesis using False prev by (simp add: delete_assignments_def)
  qed
  show ?thesis
    by (simp add: writeMaterialized_def replace_assignment_def del ids write_assignment_def sid)
qed

subsection \<open>The outcomes of a claim\<close>

lemma collectActual_source:
  "collectActual a i acc m = Inr actual \<Longrightarrow> mget actual ty \<noteq> None \<Longrightarrow>
   mget acc ty \<noteq> None \<or> (\<exists>(key, sid) \<in> set m. primary_entry i key \<and> fst (snd (assignmentPartsFromKey key)) = ty)"
proof (induction a i acc m rule: collectActual.induct)
  case (2 a i actual' key' serviceID rest)
  obtain streamID ty' role where parts: "assignmentPartsFromKey key' = (streamID, ty', role)"
    by (cases "assignmentPartsFromKey key'")
  show ?case
  proof (cases "streamID \<noteq> i \<or> normalizeAssignmentRole role \<noteq> ''primary''")
    case True
    with "2.IH"(1) [OF parts [symmetric] refl True] "2.prems" parts show ?thesis by auto
  next
    case False
    with "2.prems"(1) parts obtain service where svc: "mget (services a) serviceID = Some service"
      "trimSpace (case mget (assignmentIDs a) key' of None \<Rightarrow> [] | Some x \<Rightarrow> x) \<noteq> []"
      "consistentServiceAssignmentLocked a service = Inr (i, ''primary'')" "sv_ServiceType service = ty'"
      and fresh: "mget actual' ty' = None"
      and rest: "collectActual a i (mput actual' ty' (service\<lparr>sv_AssignmentRole := ''primary''\<rparr>)) rest = Inr actual"
      by (auto split: option.splits if_splits)
    from False parts have "primary_entry i key'" by (simp add: primary_entry_def)
    with "2.IH"(2) [OF parts [symmetric] refl False svc(1)] svc fresh rest "2.prems"(2) parts show ?thesis
      by (auto split: if_splits)
  qed
qed simp

lemma collectClaims_member:
  "collectClaims a i m = Inr (primary, claims) \<Longrightarrow> (key, sid) \<in> set m \<Longrightarrow> primary_entry i key \<Longrightarrow>
   \<exists>svc \<in> set primary. sv_ServiceType svc = fst (snd (assignmentPartsFromKey key))"
proof (induction a i m arbitrary: primary claims rule: collectClaims.induct)
  case (2 a i key' serviceID rest)
  obtain owner ty role where parts: "assignmentPartsFromKey key' = (owner, ty, role)"
    by (cases "assignmentPartsFromKey key'")
  show ?case
  proof (cases "owner \<noteq> i \<or> normalizeAssignmentRole role \<noteq> ''primary''")
    case True
    with "2.prems" parts have "(key, sid) \<in> set rest" by (auto simp: primary_entry_def)
    with "2.IH"(1) [OF parts [symmetric] refl True] "2.prems" True parts show ?thesis by simp
  next
    case False
    with "2.prems"(1) parts obtain service primary' claims' where svc: "mget (services a) serviceID = Some service"
      "trimSpace (case mget (assignmentIDs a) key' of None \<Rightarrow> [] | Some x \<Rightarrow> x) \<noteq> []"
      "sv_ServiceType service = ty" "trimSpace (sv_CurrentStreamID service) = i"
      and rest: "collectClaims a i rest = Inr (primary', claims')"
      and p: "primary = service\<lparr>sv_AssignmentRole := ''primary''\<rparr> # primary'"
      by (auto simp: Let_def split: option.splits if_splits sum.splits)
    show ?thesis
    proof (cases "key = key'")
      case True
      with parts svc p show ?thesis by simp
    next
      case other: False
      with "2.prems"(2) have "(key, sid) \<in> set rest" by auto
      with "2.IH"(2) [OF parts [symmetric] refl False svc(1) refl] svc rest "2.prems"(3) p show ?thesis by auto
    qed
  qed
qed simp

text \<open>After the materialisation every primary entry of the stream is claimable.\<close>

lemma claimable_after:
  assumes ok: "registry_ok a" and i: "good_id i" and svc: "mget (services a) sid = Some cand"
    and eq: "replace_assignment sid i ''primary'' uuid (\<lambda>_. now) cand a = (m, b)"
    and c: "consistentServiceAssignmentLocked a cand = Inr (owner, role)" and own: "owner = [] \<or> owner = i"
    and none: "mget (assignments a) (assignmentKey i (sv_ServiceType cand) ''primary'' []) = None"
    and old: "\<And>key sid. mget (assignments a) key = Some sid \<Longrightarrow> primary_entry i key \<Longrightarrow> claimable a i key sid"
    and uuid: "trimSpace uuid \<noteq> []"
    and key: "mget (assignments b) key = Some j" "primary_entry i key"
  shows "claimable b i key j"
proof -
  let ?key = "assignmentKey i (sv_ServiceType cand) ''primary'' sid"
  obtain prev where prev: "prev = (if owner = i then assignmentKey i (sv_ServiceType cand) role sid else [])" by simp
  have w: "writeMaterialized i uuid now (cand\<lparr>sv_AssignmentRole := ''primary''\<rparr>, prev) a = (m, b)"
    using materialize_is_replace [OF ok i svc c own none prev] eq by simp
  note sid = registry_sid [OF ok svc]
  have ids: "mget (assignmentIDs b) k = (if k = ?key then Some uuid
      else if prev \<noteq> [] \<and> k = prev then None else mget (assignmentIDs a) k)" for k
    using w by (auto simp: writeMaterialized_def write_assignment_def Let_def sid split: if_splits)
  have asg: "mget (assignments b) k = (if k = ?key then Some sid
      else if prev \<noteq> [] \<and> k = prev then None else mget (assignments a) k)" for k
    using w by (auto simp: writeMaterialized_def write_assignment_def Let_def sid split: if_splits)
  have srv: "mget (services b) k = (if k = sid then Some m else mget (services a) k)" for k
    using w by (auto simp: writeMaterialized_def write_assignment_def Let_def sid split: if_splits)
  have m: "sv_ServiceType m = sv_ServiceType cand" "sv_CurrentStreamID m = i"
    using replace_result [OF ok eq] by simp_all
  show ?thesis
  proof (cases "key = ?key")
    case True
    have "fst (snd (assignmentPartsFromKey ?key)) = sv_ServiceType cand"
      using i registry_type [OF ok svc] by (simp add: good_id_def assignmentPartsFromKey_key)
    with True key(1) m uuid i show ?thesis
      by (auto simp: claimable_def asg srv ids good_id_def)
  next
    case False
    with key(1) have np: "\<not> (prev \<noteq> [] \<and> key = prev)" and a: "mget (assignments a) key = Some j"
      by (auto simp: asg split: if_splits)
    have "j \<noteq> sid"
      using consistent_owner(2) [OF ok svc c, of key] a np prev own by auto
    with old [OF a key(2)] False np show ?thesis by (auto simp: claimable_def srv ids)
  qed
qed

end
