(* ===== verification/Guard_Effects.thy ===== *)
theory Guard_Effects
  imports Start_Claim
begin

text \<open>
  The invariant of the joined stores and, for every operation of the assignment guard, that it
  keeps the registry consistent with the streams and changes no assignment of a stream while that
  stream is protected.
\<close>

subsection \<open>The invariant\<close>

definition panel_ok :: "panel \<Rightarrow> bool" where
  "panel_ok p \<longleftrightarrow>
     streamAssignmentGuard p \<and> serviceAssignmentGuard p \<and>
     keyed st_ID (streams (ps_streams p)) \<and> registry_ok (ps_auth p) \<and>
     (\<forall>i. mget (streams (ps_streams p)) i \<noteq> None \<longrightarrow> good_id i) \<and>
     (\<forall>key sid. mget (assignments (ps_auth p)) key = Some sid \<longrightarrow>
        live_stream (ps_streams p) (fst (assignmentPartsFromKey key)) \<noteq> None)"

lemma panel_okD:
  assumes "panel_ok p"
  shows panel_guards: "streamAssignmentGuard p" "serviceAssignmentGuard p"
    and panel_streams: "keyed st_ID (streams (ps_streams p))"
    and panel_registry: "registry_ok (ps_auth p)"
    and panel_ids: "\<And>i. mget (streams (ps_streams p)) i \<noteq> None \<Longrightarrow> good_id i"
    and panel_live: "\<And>key sid. mget (assignments (ps_auth p)) key = Some sid \<Longrightarrow>
      live_stream (ps_streams p) (fst (assignmentPartsFromKey key)) \<noteq> None"
  using assms unfolding panel_ok_def by blast+

lemma panel_ok_init: "panel_ok (BindStreamAssignmentGuard NewPanel)"
  by (simp add: panel_ok_def BindStreamAssignmentGuard_def NewPanel_def registry_ok_init)
    (simp add: NewMemoryStreamStore_def NewMemoryAuthStore_def)

lemma live_stream_get: "live_stream s i = Some st \<Longrightarrow> mget (streams s) i = Some st"
  by (auto simp: live_stream_def split: option.splits if_splits)

text \<open>Two registries agree on the entries of a stream.\<close>

definition same_entries :: "string \<Rightarrow> auth_store \<Rightarrow> auth_store \<Rightarrow> bool" where
  "same_entries i a b \<longleftrightarrow>
     (\<forall>key. fst (assignmentPartsFromKey key) = i \<longrightarrow> mget (assignments b) key = mget (assignments a) key)"

lemma same_entries_refl [simp]: "same_entries i a a"
  by (simp add: same_entries_def)

text \<open>The contract that every operation of the panel has to meet.\<close>

definition guarded_effect :: "panel \<Rightarrow> panel \<Rightarrow> bool" where
  "guarded_effect p q \<longleftrightarrow> panel_ok q \<and>
     (\<forall>i st. mget (streams (ps_streams p)) i = Some st \<longrightarrow> stream_protected (ps_streams p) st \<longrightarrow>
        same_entries i (ps_auth p) (ps_auth q))"

lemma guarded_effect_refl: "panel_ok p \<Longrightarrow> guarded_effect p p"
  by (simp add: guarded_effect_def)

text \<open>An operation on the registry alone.\<close>

lemma guarded_effect_auth:
  assumes "panel_ok p" and "registry_ok b"
    and "\<And>key sid. mget (assignments b) key = Some sid \<Longrightarrow>
      mget (assignments (ps_auth p)) key \<noteq> None \<or>
      live_stream (ps_streams p) (fst (assignmentPartsFromKey key)) \<noteq> None"
    and "\<And>i st. mget (streams (ps_streams p)) i = Some st \<Longrightarrow> stream_protected (ps_streams p) st \<Longrightarrow>
      same_entries i (ps_auth p) b"
  shows "guarded_effect p (p\<lparr>ps_auth := b\<rparr>)"
proof -
  have "live_stream (ps_streams p) (fst (assignmentPartsFromKey key)) \<noteq> None"
    if "mget (assignments b) key = Some sid" for key sid
    using assms(3) [OF that] panel_live [OF assms(1), of key] by blast
  with assms(1,2,4) show ?thesis
    unfolding guarded_effect_def panel_ok_def by auto
qed

lemma guarded_effect_streams:
  assumes ok: "panel_ok p" and "keyed st_ID (streams s)"
    and keep: "\<And>i st. mget (streams (ps_streams p)) i = Some st \<Longrightarrow>
      \<exists>st'. mget (streams s) i = Some st' \<and> st_DeletedAt st' = st_DeletedAt st"
    and new: "\<And>i. mget (streams s) i \<noteq> None \<Longrightarrow> mget (streams (ps_streams p)) i \<noteq> None \<or> good_id i"
  shows "guarded_effect p (p\<lparr>ps_streams := s\<rparr>)"
proof -
  have "live_stream s i \<noteq> None" if "live_stream (ps_streams p) i \<noteq> None" for i
    using that keep [of i] by (auto simp: live_stream_def split: option.splits if_splits)
  then have "live_stream s (fst (assignmentPartsFromKey key)) \<noteq> None"
    if "mget (assignments (ps_auth p)) key = Some sid" for key sid
    using panel_live [OF ok that] by blast
  moreover have "good_id i" if "mget (streams s) i \<noteq> None" for i
    using new [OF that] panel_ids [OF ok] by blast
  ultimately show ?thesis
    using ok assms(2) unfolding guarded_effect_def panel_ok_def by auto
qed

lemma guarded_effect_cases:
  "unless_kept p Q out \<Longrightarrow> panel_ok p \<Longrightarrow> (Q out \<Longrightarrow> guarded_effect p (snd out)) \<Longrightarrow>
   guarded_effect p (snd out)"
  by (auto simp: unless_kept_def guarded_effect_refl)

text \<open>The entry of a service is filed under the stream that the consistency check returns.\<close>

lemma own_entry_stream:
  assumes "registry_ok a" and "mget (services a) sid = Some svc"
    and "consistentServiceAssignmentLocked a svc = Inr (cur, r)"
    and "mget (assignments a) k = Some sid"
  shows "fst (assignmentPartsFromKey k) = cur \<and> cur \<noteq> []"
proof -
  from assms(1,2,4) obtain r' where
    "consistentServiceAssignmentLocked a svc = Inr (sv_CurrentStreamID svc, r')"
    "good_id (sv_CurrentStreamID svc)" "assignmentPartsFromKey k = (sv_CurrentStreamID svc, sv_ServiceType svc, r')"
    by (rule registry_assigned)
  with assms(3) show ?thesis by (auto simp: good_id_def)
qed

subsection \<open>Assign\<close>

lemma replace_same_entries:
  assumes ok: "registry_ok a" and svc: "mget (services a) sid = Some svc" and good: "good_id st"
    and role: "role \<in> {''primary'', ''standby''}"
    and eq: "replace_assignment sid st role uuid now svc a = (svc', b)"
    and c: "consistentServiceAssignmentLocked a svc = Inr (cur, r)"
    and i: "i \<noteq> st" "i \<noteq> cur \<or> cur = []"
  shows "same_entries i a b"
  unfolding same_entries_def
proof (intro allI impI)
  fix k
  assume k: "fst (assignmentPartsFromKey k) = i"
  from ok svc have ty: "NUL \<notin> set (sv_ServiceType svc)" by (rule registry_type)
  have parts: "fst (assignmentPartsFromKey (assignmentKey st (sv_ServiceType svc) r' sid')) = st"
    if "r' \<in> {''primary'', ''standby''}" for r' sid'
    using ty good that by (auto simp: good_id_def assignmentPartsFromKey_key)
  have key: "k \<noteq> assignmentKey st (sv_ServiceType svc) role sid"
    using parts [OF role] k i by blast
  moreover have "\<not> replaces sid st (sv_ServiceType svc) role k v" if v: "mget (assignments a) k = Some v" for v
  proof -
    have "v \<noteq> sid"
      using own_entry_stream [OF ok svc c, of k] v k i by auto
    with key parts [of "''primary''" "[]"] k i show ?thesis
      by (auto simp: replaces_def assignmentKeyMatchesPrimary_def)
  qed
  ultimately show "mget (assignments b) k = mget (assignments a) k"
    by (simp add: replace_assignments [OF ok eq] split: option.split)
qed

lemma replace_live:
  assumes ok: "registry_ok a" and svc: "mget (services a) sid = Some svc" and good: "good_id st"
    and role: "role \<in> {''primary'', ''standby''}"
    and eq: "replace_assignment sid st role uuid now svc a = (svc', b)"
    and k: "mget (assignments b) k = Some j"
  shows "mget (assignments a) k \<noteq> None \<or> fst (assignmentPartsFromKey k) = st"
proof (cases "k = assignmentKey st (sv_ServiceType svc) role sid")
  case True
  with registry_type [OF ok svc] good role show ?thesis
    by (auto simp: good_id_def assignmentPartsFromKey_key)
next
  case False
  with k replace_assignments [OF ok eq, of k] show ?thesis by (auto split: option.splits)
qed

lemma AssignServiceToStreamGuarded_cases:
  "unless_kept p (\<lambda>out. \<exists>svc target cur role svc' b.
      mget (services (ps_auth p)) (trimSpace (am_ServiceID m)) = Some svc \<and>
      live_stream (ps_streams p) (trimSpace (am_StreamID m)) = Some target \<and>
      \<not> stream_protected (ps_streams p) target \<and>
      consistentServiceAssignmentLocked (ps_auth p) svc = Inr (cur, role) \<and>
      (cur \<noteq> [] \<longrightarrow> (\<exists>source. live_stream (ps_streams p) cur = Some source \<and>
         \<not> stream_protected (ps_streams p) source)) \<and>
      replace_assignment (trimSpace (am_ServiceID m)) (trimSpace (am_StreamID m))
        (normalizeAssignmentRole (am_AssignmentRole m)) uuid (\<lambda>_. now) svc (ps_auth p) = (svc', b) \<and>
      out = (Inr svc', p\<lparr>ps_auth := b\<rparr>))
   (AssignServiceToStreamGuarded c m uuid now p)"
  unfolding AssignServiceToStreamGuarded_def Let_def
  by (intro outcome_rules unless_keptI) (force split: option.splits)

lemma role_ok: "normalizeAssignmentRole r \<in> {''primary'', ''standby''}"
  using normalizeAssignmentRole_cases by blast

lemma assign_effect:
  assumes ok: "panel_ok p"
  shows "guarded_effect p (snd (AssignServiceToStreamGuarded c m uuid now p))"
proof (rule guarded_effect_cases [OF AssignServiceToStreamGuarded_cases ok], elim exE conjE)
  fix svc target cur role svc' b
  let ?a = "ps_auth p" and ?s = "ps_streams p" and ?st = "trimSpace (am_StreamID m)"
  assume svc: "mget (services ?a) (trimSpace (am_ServiceID m)) = Some svc"
    and target: "live_stream ?s ?st = Some target" "\<not> stream_protected ?s target"
    and c: "consistentServiceAssignmentLocked ?a svc = Inr (cur, role)"
    and source: "cur \<noteq> [] \<longrightarrow> (\<exists>source. live_stream ?s cur = Some source \<and> \<not> stream_protected ?s source)"
    and eq: "replace_assignment (trimSpace (am_ServiceID m)) ?st
        (normalizeAssignmentRole (am_AssignmentRole m)) uuid (\<lambda>_. now) svc ?a = (svc', b)"
    and out: "AssignServiceToStreamGuarded c m uuid now p = (Inr svc', p\<lparr>ps_auth := b\<rparr>)"
  note reg = panel_registry [OF ok]
  have good: "good_id ?st"
    using panel_ids [OF ok] live_stream_get [OF target(1)] by simp
  have "guarded_effect p (p\<lparr>ps_auth := b\<rparr>)"
  proof (rule guarded_effect_auth [OF ok registry_ok_replace [OF reg svc good role_ok eq]])
    show "mget (assignments ?a) k \<noteq> None \<or> live_stream ?s (fst (assignmentPartsFromKey k)) \<noteq> None"
      if "mget (assignments b) k = Some j" for k j
      using replace_live [OF reg svc good role_ok eq that] target(1) by auto
    show "same_entries i ?a b" if "mget (streams ?s) i = Some st" "stream_protected ?s st" for i st
    proof (rule replace_same_entries [OF reg svc good role_ok eq c])
      show "i \<noteq> ?st" using that target live_stream_get by fastforce
      show "i \<noteq> cur \<or> cur = []" using that source live_stream_get by fastforce
    qed
  qed
  then show "guarded_effect p (snd (AssignServiceToStreamGuarded c m uuid now p))"
    by (simp add: out)
qed

lemma assign_role_effect:
  assumes ok: "panel_ok p"
  shows "guarded_effect p (snd (AssignServiceToStreamWithRole c sid st actor role uuid now p))"
  using assign_effect [OF ok] panel_guards [OF ok] guarded_effect_refl [OF ok]
  by (cases c) (simp_all add: AssignServiceToStreamWithRole_def)

subsection \<open>Unassign, restart, delete a service\<close>

lemma drop_get:
  "registry_ok a \<Longrightarrow> mget (assignments (drop_service_assignments sid a)) k =
     (if mget (assignments a) k = Some sid then None else mget (assignments a) k)"
  by (auto simp: drop_service_assignments_def mget_delete_assignments registry_mwf split: option.split)

text \<open>A service that loses its entries is written back without a stream, or removed.\<close>

lemma registry_ok_drop:
  assumes ok: "registry_ok a"
    and asg: "assignments b = assignments (drop_service_assignments sid a)"
      "assignmentIDs b = assignmentIDs (drop_service_assignments sid a)"
    and keyed: "keyed sv_ServiceID (services b)"
    and others: "\<And>j. j \<noteq> sid \<Longrightarrow> mget (services b) j = mget (services a) j"
    and self: "\<And>v. mget (services b) sid = Some v \<Longrightarrow>
      (\<exists>u. mget (services a) sid = Some u \<and> sv_ServiceType v = sv_ServiceType u) \<and>
      trimSpace (sv_CurrentStreamID v) = []"
  shows "registry_ok b"
proof (rule registry_ok_shrink [OF ok])
  show "mget (assignments a) k = Some v" if "mget (assignments b) k = Some v" for k v
    using that by (simp add: asg drop_get [OF ok] split: if_splits)
  show "mwf (assignments b)" "mwf (assignmentIDs b)"
    using ok by (simp_all add: asg drop_service_assignments_def)
  show "(mget (assignmentIDs b) k = None) = (mget (assignments b) k = None)" for k
    using delete_assignments_ids [OF ok] by (simp add: asg drop_service_assignments_def)
  show "\<exists>u. mget (services a) j = Some u \<and> sv_ServiceType v = sv_ServiceType u \<and>
      (sv_CurrentStreamID v = sv_CurrentStreamID u \<or> trimSpace (sv_CurrentStreamID v) = [])"
    if "mget (services b) j = Some v" for j v
    using that others [of j] self [of v] by (cases "j = sid") auto
  show "\<exists>u v. mget (services a) j = Some u \<and> mget (services b) j = Some v \<and>
      sv_CurrentStreamID v = sv_CurrentStreamID u" if "mget (assignments b) k = Some j" for k j
  proof -
    from that have k: "mget (assignments a) k = Some j" and "j \<noteq> sid"
      by (auto simp: asg drop_get [OF ok] split: if_splits)
    with registry_entry [OF ok k] others [of j] show ?thesis by (auto simp: entry_ok_def)
  qed
  show "trimSpace (sv_CurrentStreamID v) = []"
    if "mget (assignments a) k = Some j" "mget (assignments b) k = None" "mget (services b) j = Some v" for k j v
    using that self [of v] by (auto simp: asg drop_get [OF ok] split: if_splits)
qed (rule keyed)

lemma drop_same_entries:
  assumes ok: "registry_ok a" and "mget (services a) sid = Some svc"
    and "consistentServiceAssignmentLocked a svc = Inr (cur, r)"
    and "assignments b = assignments (drop_service_assignments sid a)" and "i \<noteq> cur \<or> cur = []"
  shows "same_entries i a b"
  unfolding same_entries_def
  using own_entry_stream [OF assms(1-3)] assms(5) by (auto simp: assms(4) drop_get [OF ok])

text \<open>The operations that drop the entries of a service whose stream is not protected.\<close>

lemma drop_effect:
  assumes ok: "panel_ok p" and svc: "mget (services (ps_auth p)) sid = Some svc"
    and c: "consistentServiceAssignmentLocked (ps_auth p) svc = Inr (cur, r)"
    and owner: "cur \<noteq> [] \<Longrightarrow> \<exists>owner. live_stream (ps_streams p) cur = Some owner \<and>
      \<not> stream_protected (ps_streams p) owner"
    and asg: "assignments b = assignments (drop_service_assignments sid (ps_auth p))"
      "assignmentIDs b = assignmentIDs (drop_service_assignments sid (ps_auth p))"
    and keyed: "keyed sv_ServiceID (services b)"
    and others: "\<And>j. j \<noteq> sid \<Longrightarrow> mget (services b) j = mget (services (ps_auth p)) j"
    and self: "\<And>v. mget (services b) sid = Some v \<Longrightarrow>
      (\<exists>u. mget (services (ps_auth p)) sid = Some u \<and> sv_ServiceType v = sv_ServiceType u) \<and>
      trimSpace (sv_CurrentStreamID v) = []"
  shows "guarded_effect p (p\<lparr>ps_auth := b\<rparr>)"
proof (rule guarded_effect_auth [OF ok])
  note reg = panel_registry [OF ok]
  show "registry_ok b" using reg asg keyed others self by (rule registry_ok_drop)
  show "mget (assignments (ps_auth p)) k \<noteq> None \<or> live_stream (ps_streams p) (fst (assignmentPartsFromKey k)) \<noteq> None"
    if "mget (assignments b) k = Some j" for k j
    using that by (simp add: asg drop_get [OF reg] split: if_splits)
  show "same_entries i (ps_auth p) b"
    if "mget (streams (ps_streams p)) i = Some st" "stream_protected (ps_streams p) st" for i st
    using that owner live_stream_get by (intro drop_same_entries [OF reg svc c asg(1)]) fastforce
qed

lemma unassign_effect:
  assumes ok: "panel_ok p"
  shows "guarded_effect p (snd (UnassignServiceFromStreamGuarded c m now p))"
proof (rule guarded_effect_cases [OF _ ok])
  let ?sid = "trimSpace (um_ServiceID m)"
  let ?Q = "\<lambda>out. \<exists>svc cur r owner svc'. mget (services (ps_auth p)) ?sid = Some svc \<and>
      consistentServiceAssignmentLocked (ps_auth p) svc = Inr (cur, r) \<and>
      live_stream (ps_streams p) cur = Some owner \<and> \<not> stream_protected (ps_streams p) owner \<and>
      svc' = (release_service now svc)\<lparr>sv_AssignmentRole := []\<rparr> \<and>
      snd out = p\<lparr>ps_auth := (drop_service_assignments ?sid (ps_auth p))
        \<lparr>services := mput (services (ps_auth p)) ?sid svc'\<rparr>\<rparr>"
  show "unless_kept p ?Q (UnassignServiceFromStreamGuarded c m now p)"
    unfolding UnassignServiceFromStreamGuarded_def Let_def
    by (intro outcome_rules unless_keptI) (force simp: drop_service_assignments_def)
  assume "?Q (UnassignServiceFromStreamGuarded c m now p)"
  then show "guarded_effect p (snd (UnassignServiceFromStreamGuarded c m now p))"
    using registry_sid [OF panel_registry [OF ok]] registry_keyed [OF panel_registry [OF ok]]
    by (elim exE conjE) (auto intro!: drop_effect [OF ok] keyed_mput)
qed

lemma unassign_plain_effect:
  assumes ok: "panel_ok p"
  shows "guarded_effect p (snd (UnassignServiceFromStream c sid actor now p))"
  using unassign_effect [OF ok] panel_guards [OF ok] guarded_effect_refl [OF ok]
  by (cases c) (simp_all add: UnassignServiceFromStream_def)

lemma revokeToken_fields [simp]:
  "services (revokeToken t now a) = services a" "assignments (revokeToken t now a) = assignments a"
  "assignmentIDs (revokeToken t now a) = assignmentIDs a" "streamEvents (revokeToken t now a) = streamEvents a"
  by (simp_all add: revokeToken_def split: option.split)

lemma deleteServiceGuard_None:
  assumes "deleteServiceGuard p svc = None" and "streamAssignmentGuard p"
  obtains cur r where "consistentServiceAssignmentLocked (ps_auth p) svc = Inr (cur, r)"
    and "cur \<noteq> [] \<longrightarrow> (\<exists>owner. live_stream (ps_streams p) cur = Some owner \<and>
      \<not> stream_protected (ps_streams p) owner)"
proof (cases "consistentServiceAssignmentLocked (ps_auth p) svc")
  case (Inl e)
  with assms show thesis by (simp add: deleteServiceGuard_def)
next
  case (Inr x)
  with assms show thesis
    by (intro that [of "fst x" "snd x"]) (auto simp: deleteServiceGuard_def split: prod.splits option.splits if_splits)
qed

lemma drop_service_fields:
  "assignments (drop_service_assignments sid (a\<lparr>services := m\<rparr>)) = assignments (drop_service_assignments sid a)"
  "assignmentIDs (drop_service_assignments sid (a\<lparr>services := m\<rparr>)) = assignmentIDs (drop_service_assignments sid a)"
  "services (drop_service_assignments sid a) = services a"
  "serviceTokens (drop_service_assignments sid a) = serviceTokens a"
  by (simp_all add: drop_service_assignments_def delete_assignments_def)

lemma delete_service_effect:
  assumes ok: "panel_ok p"
  shows "guarded_effect p (snd (DeleteService c sid now p))"
proof (cases "c = None \<and> (\<exists>svc. mget (services (ps_auth p)) sid = Some svc \<and> deleteServiceGuard p svc = None)")
  case False
  then have "snd (DeleteService c sid now p) = p"
    by (cases c) (auto simp: DeleteService_def Let_def split: option.splits)
  with guarded_effect_refl [OF ok] show ?thesis by simp
next
  case True
  then obtain svc where svc: "mget (services (ps_auth p)) sid = Some svc" and g: "deleteServiceGuard p svc = None"
    and c: "c = None" by blast
  from g panel_guards(1) [OF ok] obtain cur r where
    "consistentServiceAssignmentLocked (ps_auth p) svc = Inr (cur, r)"
    "cur \<noteq> [] \<longrightarrow> (\<exists>owner. live_stream (ps_streams p) cur = Some owner \<and> \<not> stream_protected (ps_streams p) owner)"
    by (rule deleteServiceGuard_None)
  note eff = drop_effect [OF ok svc this(1) this(2) [rule_format]]
  show ?thesis
    unfolding DeleteService_def Let_def c
    using registry_keyed [OF panel_registry [OF ok]]
    by (simp add: svc g, intro eff) (simp_all add: drop_service_fields keyed_mdel)
qed

lemma restart_effect:
  assumes ok: "panel_ok p"
  shows "guarded_effect p (p\<lparr>ps_auth := snd (RequestServiceRestart c sid now (ps_auth p))\<rparr>)"
proof (cases "c = None \<and> mget (services (ps_auth p)) sid \<noteq> None")
  case False
  then have "snd (RequestServiceRestart c sid now (ps_auth p)) = ps_auth p"
    by (cases c) (auto simp: RequestServiceRestart_def)
  with guarded_effect_refl [OF ok] show ?thesis by simp
next
  case True
  then obtain svc where svc: "mget (services (ps_auth p)) sid = Some svc" by blast
  note reg = panel_registry [OF ok]
  let ?b = "(ps_auth p)\<lparr>services := mput (services (ps_auth p)) sid
    (svc\<lparr>sv_Status := ''restart_requested'', sv_UpdatedAt := now\<rparr>)\<rparr>"
  have "registry_ok ?b"
    using registry_sid [OF reg svc] by (intro registry_ok_touch [OF reg svc]) simp_all
  then have "guarded_effect p (p\<lparr>ps_auth := ?b\<rparr>)"
    by (intro guarded_effect_auth [OF ok]) (auto simp: same_entries_def)
  with True svc show ?thesis by (simp add: RequestServiceRestart_def Let_def)
qed

subsection \<open>Delete a stream\<close>

lemma releaseStreamServices_get:
  assumes "registry_ok a"
  shows "mget (assignments (releaseStreamServices i now a)) k =
     (if fst (assignmentPartsFromKey k) = i then None else mget (assignments a) k)"
    and "mget (services (releaseStreamServices i now a)) j =
     (if j \<in> set (streamServiceIDs i a) then Some (release_service now (service_or_zero a j))
      else mget (services a) j)"
    and "j \<in> set (streamServiceIDs i a) \<longleftrightarrow>
      (\<exists>k. mget (assignments a) k = Some j \<and> fst (assignmentPartsFromKey k) = i)"
proof -
  have "distinct (streamServiceIDs i a)" by (simp add: streamServiceIDs_def)
  then show "mget (services (releaseStreamServices i now a)) j =
     (if j \<in> set (streamServiceIDs i a) then Some (release_service now (service_or_zero a j))
      else mget (services a) j)"
    by (simp add: releaseStreamServices_def release_all_get service_or_zero_def)
  show "mget (assignments (releaseStreamServices i now a)) k =
     (if fst (assignmentPartsFromKey k) = i then None else mget (assignments a) k)"
    using assms by (auto simp: releaseStreamServices_def mget_delete_assignments registry_mwf split: option.split)
  show "j \<in> set (streamServiceIDs i a) \<longleftrightarrow>
      (\<exists>k. mget (assignments a) k = Some j \<and> fst (assignmentPartsFromKey k) = i)"
    using registry_mwf [OF assms] by (force simp: streamServiceIDs_def gm.entries_get)
qed

lemma registry_ok_releaseStream:
  assumes ok: "registry_ok a"
  shows "registry_ok (releaseStreamServices i now a)" (is "registry_ok ?b")
proof (rule registry_ok_shrink [OF ok])
  note get = releaseStreamServices_get [OF ok]
  have reg: "\<exists>u. mget (services a) j = Some u" if "j \<in> set (streamServiceIDs i a)" for j
    using that registry_entry [OF ok] by (auto simp: get(3) entry_ok_def)
  then show "keyed sv_ServiceID (services ?b)"
    unfolding releaseStreamServices_def
    by (intro keyed_release_all) (auto simp: registry_keyed [OF ok])
  show "mget (assignments a) k = Some v" if "mget (assignments ?b) k = Some v" for k v
    using that by (simp add: get(1) split: if_splits)
  show "mwf (assignments ?b)" "mwf (assignmentIDs ?b)"
    using ok by (simp_all add: releaseStreamServices_def)
  show "(mget (assignmentIDs ?b) k = None) = (mget (assignments ?b) k = None)" for k
    using delete_assignments_ids [OF ok] by (simp add: releaseStreamServices_def)
  show "\<exists>u. mget (services a) j = Some u \<and> sv_ServiceType v = sv_ServiceType u \<and>
      (sv_CurrentStreamID v = sv_CurrentStreamID u \<or> trimSpace (sv_CurrentStreamID v) = [])"
    if "mget (services ?b) j = Some v" for j v
    using that reg [of j] by (auto simp: get(2) service_or_zero_def split: if_splits)
  show "\<exists>u v. mget (services a) j = Some u \<and> mget (services ?b) j = Some v \<and>
      sv_CurrentStreamID v = sv_CurrentStreamID u" if k: "mget (assignments ?b) k = Some j" for k j
  proof -
    from k have a: "mget (assignments a) k = Some j" and ne: "fst (assignmentPartsFromKey k) \<noteq> i"
      by (auto simp: get(1) split: if_splits)
    have "j \<notin> set (streamServiceIDs i a)"
      using registry_unique [OF ok a] ne by (auto simp: get(3))
    with registry_entry [OF ok a] show ?thesis by (auto simp: get(2) entry_ok_def)
  qed
  show "trimSpace (sv_CurrentStreamID v) = []"
    if "mget (assignments a) k = Some j" "mget (assignments ?b) k = None" "mget (services ?b) j = Some v" for k j v
  proof -
    from that have "j \<in> set (streamServiceIDs i a)" by (auto simp: get(1,3) split: if_splits)
    with that(3) show ?thesis by (simp add: get(2)) auto
  qed
qed

lemma streams_dropStreamRuntime [simp]: "streams (dropStreamRuntime i s) = streams s"
  by (simp add: dropStreamRuntime_def Let_def)

lemma attributeArtifacts_fields [simp]:
  "streams (attributeArtifacts i enc s) = streams s"
  "liveNotifications (attributeArtifacts i enc s) = liveNotifications s"
  by (simp_all add: attributeArtifacts_def)

lemma delete_stream_effect:
  assumes ok: "panel_ok p"
  shows "guarded_effect p (snd (DeleteStream c i now p))"
proof (rule guarded_effect_cases [OF _ ok])
  let ?Q = "\<lambda>out. \<exists>st. mget (streams (ps_streams p)) i = Some st \<and>
      \<not> stream_protected (ps_streams p) st \<and>
      streams (ps_streams (snd out)) = mput (streams (ps_streams p)) i (deleted_stream now st) \<and>
      ps_auth (snd out) = releaseStreamServices i now (ps_auth p) \<and>
      streamAssignmentGuard (snd out) \<and> serviceAssignmentGuard (snd out)"
  show "unless_kept p ?Q (DeleteStream c i now p)"
    unfolding DeleteStream_def Let_def
    using panel_guards [OF ok]
    by (intro outcome_rules unless_keptI) (simp add: put_stream_def)
  assume "?Q (DeleteStream c i now p)"
  then obtain st where st: "mget (streams (ps_streams p)) i = Some st"
    "\<not> stream_protected (ps_streams p) st"
    and s: "streams (ps_streams (snd (DeleteStream c i now p))) =
      mput (streams (ps_streams p)) i (deleted_stream now st)" (is "streams ?s = _")
    and out: "ps_auth (snd (DeleteStream c i now p)) = releaseStreamServices i now (ps_auth p)"
      "streamAssignmentGuard (snd (DeleteStream c i now p))" "serviceAssignmentGuard (snd (DeleteStream c i now p))"
    by blast
  note reg = panel_registry [OF ok] and get = releaseStreamServices_get(1) [OF panel_registry [OF ok]]
  have "live_stream ?s j = live_stream (ps_streams p) j" if "j \<noteq> i" for j
    using that by (simp add: live_stream_def s)
  then have "live_stream ?s (fst (assignmentPartsFromKey k)) \<noteq> None"
    if "mget (assignments (releaseStreamServices i now (ps_auth p))) k = Some j" for k j
    using that panel_live [OF ok, of k] by (auto simp: get split: if_splits)
  moreover have "keyed st_ID (streams ?s)"
    using st panel_streams [OF ok] by (auto simp: s deleted_stream_def keyed_mget intro!: keyed_mput)
  moreover have "good_id j" if "mget (streams ?s) j \<noteq> None" for j
    using that st panel_ids [OF ok] by (auto simp: s split: if_splits)
  moreover have "same_entries j (ps_auth p) (releaseStreamServices i now (ps_auth p))"
    if "mget (streams (ps_streams p)) j = Some u" "stream_protected (ps_streams p) u" for j u
    using that st(1,2) by (auto simp: same_entries_def get)
  ultimately show "guarded_effect p (snd (DeleteStream c i now p))"
    using registry_ok_releaseStream [OF reg]
    by (simp add: out guarded_effect_def panel_ok_def)
qed

subsection \<open>Create a stream with its services\<close>

text \<open>Writing an entry that replaces none is an assignment.\<close>

lemma write_is_replace:
  assumes ok: "registry_ok a"
    and none: "\<And>k v. mget (assignments a) k = Some v \<Longrightarrow> \<not> replaces sid st (sv_ServiceType svc) role k v"
  shows "write_assignment (assignmentKey st (sv_ServiceType svc) role sid) sid st role uuid now svc a =
    replace_assignment sid st role uuid (\<lambda>_. now) svc a"
proof -
  let ?P = "replaces sid st (sv_ServiceType svc) role"
  have np: "\<not> ?P k v" if "(k, v) \<in> set (assignments a)" for k v
    using that none registry_mwf(1) [OF ok] by (simp add: gm.entries_get)
  then have "mdel_where ?P (assignments a) = assignments a"
    by (auto simp: mdel_where_def filter_id_conv)
  moreover have "mdel_where (\<lambda>k _. case mget (assignments a) k of None \<Rightarrow> False | Some v \<Rightarrow> ?P k v)
      (assignmentIDs a) = assignmentIDs a"
    using none by (auto simp: mdel_where_def filter_id_conv split: option.splits)
  moreover have "replacedServiceIDs sid st (sv_ServiceType svc) role a = []"
    using np by (auto simp: replacedServiceIDs_def filter_empty_conv)
  ultimately show ?thesis
    by (simp add: replace_assignment_def delete_assignments_def Let_def)
qed

lemma checkCreateServices_None:
  "checkCreateServices x a ids = None \<Longrightarrow> i \<in> set ids \<Longrightarrow>
   \<exists>svc role. mget (services a) i = Some svc \<and> sv_ServiceType svc = create_serviceType x i \<and>
     consistentServiceAssignmentLocked a svc = Inr ([], role)"
  by (induction x a ids rule: checkCreateServices.induct)
    (auto split: option.splits if_splits sum.splits prod.splits)

lemma create_serviceIDs_set:
  "set (create_serviceIDs x) =
     {trimSpace (ca_EncoderServiceID x), trimSpace (ca_WorkerServiceID x), trimSpace (ca_DiscordServiceID x)} - {[]}"
  by (auto simp: create_serviceIDs_def sortedUniqueStrings_def)

lemma create_serviceIDs_distinct: "distinct (create_serviceIDs x)"
  by (simp add: create_serviceIDs_def sortedUniqueStrings_def)

text \<open>Distinct services of a new stream have distinct types, so their entries do not collide.\<close>

lemma create_serviceType_inj: "inj_on (create_serviceType x) (set (create_serviceIDs x))"
  by (auto simp: inj_on_def create_serviceIDs_set create_serviceType_def split: if_splits)

lemma assignCreateServices_effect:
  assumes "registry_ok a" and "good_id st" and "distinct ids"
    and "\<And>i. i \<in> set ids \<Longrightarrow> \<exists>svc. mget (services a) i = Some svc \<and> sv_ServiceType svc = ty i"
    and "\<And>i k. i \<in> set ids \<Longrightarrow> mget (assignments a) k \<noteq> Some i"
    and "\<And>i. i \<in> set ids \<Longrightarrow> mget (assignments a) (assignmentKey st (ty i) ''primary'' []) = None"
    and "inj_on ty (set ids)"
  shows "registry_ok (assignCreateServices st uuid now ids a) \<and>
    (\<forall>i \<in> set ids. mget (assignments (assignCreateServices st uuid now ids a))
       (assignmentKey st (ty i) ''primary'' []) = Some i) \<and>
    (\<forall>k. k \<notin> (\<lambda>i. assignmentKey st (ty i) ''primary'' []) ` set ids \<longrightarrow>
       mget (assignments (assignCreateServices st uuid now ids a)) k = mget (assignments a) k)"
  using assms
proof (induction ids arbitrary: a)
  case (Cons i rest)
  from Cons.prems(4) [of i] obtain svc where svc: "mget (services a) i = Some svc" and ty: "sv_ServiceType svc = ty i"
    by auto
  let ?key = "assignmentKey st (ty i) ''primary'' []"
  have key: "assignmentKey st (ty i) ''primary'' i = ?key" by (simp add: assignmentKey_def)
  have np: "\<not> replaces i st (sv_ServiceType svc) ''primary'' k v" if "mget (assignments a) k = Some v" for k v
    using that Cons.prems(5) [of i k] Cons.prems(6) [of i]
    by (auto simp: replaces_def assignmentKeyMatchesPrimary_def ty key)
  obtain svc' b where eq: "replace_assignment i st ''primary'' (uuid i) (\<lambda>_. now) svc a = (svc', b)"
    by (cases "replace_assignment i st ''primary'' (uuid i) (\<lambda>_. now) svc a")
  have step: "assignCreateServices st uuid now (i # rest) a = assignCreateServices st uuid now rest b"
    using write_is_replace [OF Cons.prems(1) np] eq svc by (simp add: service_or_zero_def Let_def)
  have reg: "registry_ok b"
    by (rule registry_ok_replace [OF Cons.prems(1) svc Cons.prems(2) _ eq]) simp
  have asg: "mget (assignments b) k = (if k = ?key then Some i else mget (assignments a) k)" for k
    using np by (auto simp: replace_assignments [OF Cons.prems(1) eq] ty key split: option.split)
  have "replacedServiceIDs i st (sv_ServiceType svc) ''primary'' a = []"
    using np by (auto simp: replacedServiceIDs_def filter_empty_conv gm.entries_get registry_mwf [OF Cons.prems(1)])
  then have srv: "mget (services b) j = mget (services a) j" if "j \<noteq> i" for j
    using that by (simp add: replace_services [OF Cons.prems(1) eq])
  have inj: "ty j \<noteq> ty i" if "j \<in> set rest" for j
    using that Cons.prems(3,7) by (auto simp: inj_on_def)
  then have key': "assignmentKey st (ty j) ''primary'' [] \<noteq> ?key" if "j \<in> set rest" for j
    using that by (simp add: assignmentKey_def)
  have "registry_ok (assignCreateServices st uuid now rest b) \<and>
    (\<forall>j \<in> set rest. mget (assignments (assignCreateServices st uuid now rest b))
       (assignmentKey st (ty j) ''primary'' []) = Some j) \<and>
    (\<forall>k. k \<notin> (\<lambda>j. assignmentKey st (ty j) ''primary'' []) ` set rest \<longrightarrow>
       mget (assignments (assignCreateServices st uuid now rest b)) k = mget (assignments b) k)"
  proof (rule Cons.IH [OF reg Cons.prems(2)])
    show "\<exists>svc. mget (services b) j = Some svc \<and> sv_ServiceType svc = ty j" if "j \<in> set rest" for j
    proof -
      from that Cons.prems(3) have "j \<noteq> i" by auto
      with that Cons.prems(4) [of j] show ?thesis by (simp add: srv)
    qed
    show "mget (assignments b) k \<noteq> Some j" if "j \<in> set rest" for j k
      using that Cons.prems(3) Cons.prems(5) [of j k] by (auto simp: asg)
    show "mget (assignments b) (assignmentKey st (ty j) ''primary'' []) = None" if "j \<in> set rest" for j
      using that key' [OF that] Cons.prems(6) [of j] by (simp add: asg)
  qed (use Cons.prems(3,7) in auto)
  moreover have "?key \<notin> (\<lambda>j. assignmentKey st (ty j) ''primary'' []) ` set rest"
    using key' by fastforce
  ultimately show ?case
    unfolding step by (simp add: asg)
qed simp

lemma panel_no_entry:
  assumes "panel_ok p" and "mget (streams (ps_streams p)) st = None" and "fst (assignmentPartsFromKey k) = st"
  shows "mget (assignments (ps_auth p)) k = None"
proof (rule ccontr)
  assume "mget (assignments (ps_auth p)) k \<noteq> None"
  then obtain sid where "mget (assignments (ps_auth p)) k = Some sid" by blast
  from panel_live [OF assms(1) this] assms(2,3) show False by (simp add: live_stream_def)
qed

lemma create_key_stream:
  "good_id st \<Longrightarrow> fst (assignmentPartsFromKey (assignmentKey st (create_serviceType x i) ''primary'' [])) = st"
  by (simp add: good_id_def assignmentPartsFromKey_key NUL_def create_serviceType_def)

lemma create_assignments_effect:
  assumes ok: "panel_ok p" and good: "good_id st" and fresh: "mget (streams (ps_streams p)) st = None"
    and check: "checkCreateServices x (ps_auth p) (create_serviceIDs x) = None"
    and b_def: "b = assignCreateServices st uuid now (create_serviceIDs x) (ps_auth p)"
  shows "registry_ok b"
    and "i \<in> set (create_serviceIDs x) \<Longrightarrow>
      mget (assignments b) (assignmentKey st (create_serviceType x i) ''primary'' []) = Some i"
    and "fst (assignmentPartsFromKey k) \<noteq> st \<Longrightarrow> mget (assignments b) k = mget (assignments (ps_auth p)) k"
proof -
  let ?ids = "create_serviceIDs x" and ?a = "ps_auth p"
  let ?key = "\<lambda>i. assignmentKey st (create_serviceType x i) ''primary'' []"
  note reg = panel_registry [OF ok]
  have eff: "registry_ok b \<and> (\<forall>i \<in> set ?ids. mget (assignments b) (?key i) = Some i) \<and>
      (\<forall>k. k \<notin> ?key ` set ?ids \<longrightarrow> mget (assignments b) k = mget (assignments ?a) k)"
    unfolding b_def
  proof (rule assignCreateServices_effect [OF reg good create_serviceIDs_distinct])
    show "\<exists>svc. mget (services ?a) i = Some svc \<and> sv_ServiceType svc = create_serviceType x i"
      if "i \<in> set ?ids" for i
      using checkCreateServices_None [OF check that] by blast
    show "mget (assignments ?a) k \<noteq> Some i" if "i \<in> set ?ids" for i k
      using checkCreateServices_None [OF check that] own_entry_stream [OF reg] by blast
    show "mget (assignments ?a) (?key i) = None" if "i \<in> set ?ids" for i
      by (rule panel_no_entry [OF ok fresh create_key_stream [OF good]])
  qed (rule create_serviceType_inj)
  then show "registry_ok b"
    and "i \<in> set ?ids \<Longrightarrow> mget (assignments b) (?key i) = Some i" by blast+
  assume "fst (assignmentPartsFromKey k) \<noteq> st"
  then have "k \<notin> ?key ` set ?ids" using create_key_stream [OF good] by blast
  with eff show "mget (assignments b) k = mget (assignments ?a) k" by blast
qed

lemma create_effect:
  assumes ok: "panel_ok p" and good: "good_id st"
  shows "guarded_effect p (snd (CreateAssignedStream c st name actor settings x uuid now now' p))"
proof (rule guarded_effect_cases [OF _ ok])
  let ?op = "CreateAssignedStream c st name actor settings x uuid now now' p"
  let ?ids = "create_serviceIDs x" and ?a = "ps_auth p" and ?s = "ps_streams p"
  let ?b = "assignCreateServices st uuid now ?ids ?a" and ?new = "created_stream st name settings x now now'"
  let ?Q = "\<lambda>out. mget (streams ?s) st = None \<and> checkCreateServices x ?a ?ids = None \<and>
      streams (ps_streams (snd out)) = mput (streams ?s) st ?new \<and>
      ps_auth (snd out) = ?b \<and> streamAssignmentGuard (snd out) \<and> serviceAssignmentGuard (snd out)"
  show "unless_kept p ?Q ?op"
    unfolding CreateAssignedStream_def Let_def
    using panel_guards [OF ok]
    by (intro outcome_rules unless_keptI) (simp add: put_stream_def)
  assume "?Q ?op"
  then have fresh: "mget (streams ?s) st = None" and check: "checkCreateServices x ?a ?ids = None"
    and s: "streams (ps_streams (snd ?op)) = mput (streams ?s) st ?new" (is "streams ?t = _")
    and out: "ps_auth (snd ?op) = ?b" "streamAssignmentGuard (snd ?op)" "serviceAssignmentGuard (snd ?op)" by blast+
  have new: "st_ID ?new = st" "st_DeletedAt ?new = None"
    by (simp_all add: created_stream_def) (simp_all add: new_stream_def)
  note eff = create_assignments_effect [OF ok good fresh check refl]
  have kept: "mget (assignments ?b) k = mget (assignments ?a) k" if "fst (assignmentPartsFromKey k) \<noteq> st" for k
    using that by (rule eff(3))
  have "live_stream ?t i \<noteq> None" if "i = st \<or> live_stream ?s i \<noteq> None" for i
    using that new fresh by (auto simp: live_stream_def s)
  then have "live_stream ?t (fst (assignmentPartsFromKey k)) \<noteq> None" if "mget (assignments ?b) k = Some j" for k j
    using that kept [of k] panel_live [OF ok, of k j] by metis
  moreover have "keyed st_ID (streams ?t)"
    using new panel_streams [OF ok] by (simp add: s keyed_mput)
  moreover have "good_id j" if "mget (streams ?t) j \<noteq> None" for j
    using that good panel_ids [OF ok] by (auto simp: s split: if_splits)
  moreover have "same_entries j ?a ?b" if "mget (streams ?s) j = Some u" for j u
  proof -
    from that fresh have "j \<noteq> st" by auto
    with kept show ?thesis by (simp add: same_entries_def)
  qed
  ultimately show "guarded_effect p (snd ?op)"
    using eff(1) by (auto simp: out guarded_effect_def panel_ok_def)
qed

subsection \<open>Operations on the streams\<close>

lemma stop_step_keeps:
  assumes "stop_step s t" and keyed: "keyed st_ID (streams s)" and st: "mget (streams s) i = Some st"
  shows "\<exists>st'. mget (streams t) i = Some st' \<and> st_DeletedAt st' = st_DeletedAt st"
  using assms(1)
proof cases
  case (claim_normal c expected now)
  then show ?thesis
    using claim_stop.cas_keeps [OF keyed st] st by (cases c) (simp_all add: ClaimNormalStop_def claimStop_def [of "Some _"])
next
  case (claim_force c expected now)
  then show ?thesis
    using claim_stop.cas_keeps [OF keyed st] st by (cases c) (simp_all add: ClaimForceStop_def claimStop_def [of "Some _"])
next
  case (fail_normal c i claim now)
  then show ?thesis
    using finish_stop.cas_keeps [OF keyed st] st by (cases c) (simp_all add: FailNormalStop_def finishClaimedStop_def [of "Some _"])
next
  case (complete_force c i claim now)
  then show ?thesis
    using finish_stop.cas_keeps [OF keyed st] st
    by (cases c) (simp_all add: CompleteConfirmedForceStop_def finishClaimedStop_def [of "Some _"])
next
  case (complete_normal c i source claim now)
  then show ?thesis
    using complete_stop.cas_keeps [OF keyed st] st by (cases c) (simp_all add: CompleteNormalStop_def [of "Some _"])
next
  case (transition c i expectedStatus status now)
  then show ?thesis
    using transition_cas.cas_keeps [OF keyed st] st by (cases c) (simp_all add: TransitionStreamStatus_def [of "Some _"])
next
  case (encoder_settings c j gain overlay now)
  then show ?thesis
    using st keyed_mget [OF keyed] by (auto simp: UpdateStreamEncoderRuntimeSettings_def put_stream_def snd_with_ctx Let_def split: option.splits)
qed (use st in \<open>auto simp: step_defs split: option.splits sum.splits if_splits\<close>)

lemma stop_step_keyed: "stop_step s t \<Longrightarrow> keyed st_ID (streams s) \<Longrightarrow> keyed st_ID (streams t)"
  by (erule stop_step.cases)
    (auto simp: step_defs split: option.splits sum.splits if_splits intro!: keyed_mput dest: keyed_mget)

lemma stop_step_effect:
  assumes "panel_ok p" and "stop_step (ps_streams p) s"
    and "\<And>i. mget (streams s) i \<noteq> None \<Longrightarrow> mget (streams (ps_streams p)) i \<noteq> None \<or> good_id i"
  shows "guarded_effect p (p\<lparr>ps_streams := s\<rparr>)"
  using assms stop_step_keyed panel_streams stop_step_keeps
  by (intro guarded_effect_streams) blast+

text \<open>Writing one stream back that keeps its identifier and its deletion mark.\<close>

lemma put_stream_effect:
  assumes ok: "panel_ok p" and "mget (streams (ps_streams p)) i = Some st"
    and "streams s = mput (streams (ps_streams p)) i st'"
    and "st_ID st' = st_ID st" and "st_DeletedAt st' = st_DeletedAt st"
  shows "guarded_effect p (p\<lparr>ps_streams := s\<rparr>)"
  using assms(2-) panel_streams [OF ok]
  by (intro guarded_effect_streams [OF ok]) (auto simp: keyed_mget intro!: keyed_mput split: if_splits)

lemma settings_effect:
  assumes ok: "panel_ok p"
  shows "guarded_effect p (snd (UpdateStreamSettings c c' i settings now p))"
proof (rule guarded_effect_cases [OF _ ok])
  let ?Q = "\<lambda>out. \<exists>st. mget (streams (ps_streams p)) i = Some st \<and>
      snd out = p\<lparr>ps_streams := put_stream i (applyMemoryStreamSettings st settings now) (ps_streams p)\<rparr>"
  show "unless_kept p ?Q (UpdateStreamSettings c c' i settings now p)"
    unfolding UpdateStreamSettings_def Let_def
    by (intro outcome_rules unless_keptI) simp
  assume "?Q (UpdateStreamSettings c c' i settings now p)"
  then show "guarded_effect p (snd (UpdateStreamSettings c c' i settings now p))"
    by (auto intro!: put_stream_effect [OF ok] simp: put_stream_def)
qed

lemma retry_effect:
  assumes ok: "panel_ok p"
  shows "guarded_effect p (snd (BeginStreamArchiveRetryGuarded c sid i now p))"
proof (rule guarded_effect_cases [OF _ ok])
  let ?i = "trimSpace i"
  let ?Q = "\<lambda>out. \<exists>st. mget (streams (ps_streams p)) ?i = Some st \<and>
      streams (ps_streams (snd out)) \<in> {streams (ps_streams p),
        mput (streams (ps_streams p)) ?i (st\<lparr>st_ArchiveReportedAt := None, st_UpdatedAt := now\<rparr>)} \<and>
      snd out = p\<lparr>ps_streams := ps_streams (snd out)\<rparr>"
  show "unless_kept p ?Q (BeginStreamArchiveRetryGuarded c sid i now p)"
    unfolding BeginStreamArchiveRetryGuarded_def Let_def
    by (intro outcome_rules unless_keptI) (simp_all add: put_stream_def live_stream_get)
  assume Q: "?Q (BeginStreamArchiveRetryGuarded c sid i now p)"
  let ?s = "ps_streams (snd (BeginStreamArchiveRetryGuarded c sid i now p))"
  from Q obtain st where st: "mget (streams (ps_streams p)) ?i = Some st"
    and s: "streams ?s \<in> {streams (ps_streams p),
      mput (streams (ps_streams p)) ?i (st\<lparr>st_ArchiveReportedAt := None, st_UpdatedAt := now\<rparr>)}"
    and out: "snd (BeginStreamArchiveRetryGuarded c sid i now p) = p\<lparr>ps_streams := ?s\<rparr>" by blast
  have "guarded_effect p (p\<lparr>ps_streams := ?s\<rparr>)"
    using s
  proof (elim insertE emptyE)
    assume "streams ?s = streams (ps_streams p)"
    with panel_streams [OF ok] show ?thesis by (intro guarded_effect_streams [OF ok]) auto
  next
    assume "streams ?s = mput (streams (ps_streams p)) ?i (st\<lparr>st_ArchiveReportedAt := None, st_UpdatedAt := now\<rparr>)"
    then show ?thesis by (rule put_stream_effect [OF ok st]) simp_all
  qed
  then show "guarded_effect p (snd (BeginStreamArchiveRetryGuarded c sid i now p))"
    using out by metis
qed

end
