(* ===== verification/Start_Effects.thy ===== *)
theory Start_Effects
  imports Guard_Effects
begin

text \<open>
  What a claim of a stream start does to the joined stores: it either leaves them alone or takes
  the stream, and it never returns an error after it has written.
\<close>

subsection \<open>Starting a stream\<close>

text \<open>The registry after a claim: unchanged, or with one service materialised.\<close>

definition start_registry :: "auth_store \<Rightarrow> string \<Rightarrow> string \<Rightarrow> time \<Rightarrow> registered_service option \<Rightarrow> auth_store \<Rightarrow> bool" where
  "start_registry a i uuid now mat b \<longleftrightarrow>
     (case mat of
        None \<Rightarrow> b = a
      | Some m \<Rightarrow> \<exists>sid cand owner role. mget (services a) sid = Some cand \<and>
          consistentServiceAssignmentLocked a cand = Inr (owner, role) \<and> (owner = [] \<or> owner = i) \<and>
          mget (assignments a) (assignmentKey i (sv_ServiceType cand) ''primary'' []) = None \<and>
          replace_assignment sid i ''primary'' uuid (\<lambda>_. now) cand a = (m, b))"

lemma primary_key_entry:
  "NUL \<notin> set i \<Longrightarrow> NUL \<notin> set ty \<Longrightarrow> primary_entry i (assignmentKey i ty ''primary'' sid)"
  by (simp add: primary_entry_def assignmentPartsFromKey_key)

lemma materializeCandidate_registry:
  assumes ok: "registry_ok a" and i: "good_id i"
    and actual: "collectActual a i [] (assignments a) = Inr actual"
    and cand: "materializeCandidate a i sid expected actual = Inr cand"
    and w: "writeMaterialized i uuid now cand a = (m, b)"
  shows "start_registry a i uuid now (Some m) b"
proof -
  from cand obtain svc owner role where svc: "mget (services a) sid = Some svc"
    and c: "consistentServiceAssignmentLocked a svc = Inr (owner, role)" and own: "owner = [] \<or> owner = i"
    and act: "mget actual (sv_ServiceType svc) = None"
    and eq: "cand = (svc\<lparr>sv_AssignmentRole := ''primary''\<rparr>,
      if owner = i then assignmentKey i (sv_ServiceType svc) role (sv_ServiceID svc) else [])"
    by (auto simp: materializeCandidate_def split: option.splits if_splits sum.splits prod.splits)
  have ty: "NUL \<notin> set (sv_ServiceType svc)" using ok svc by (rule registry_type)
  have none: "mget (assignments a) (assignmentKey i (sv_ServiceType svc) ''primary'' []) = None" (is "mget _ ?k = None")
  proof (rule ccontr)
    assume "mget (assignments a) ?k \<noteq> None"
    then obtain j where "mget (assignments a) ?k = Some j" by blast
    from collectActual_entry [OF actual mget_in [OF this] primary_key_entry] act i ty show False
      by (simp add: good_id_def assignmentPartsFromKey_key)
  qed
  have "replace_assignment sid i ''primary'' uuid (\<lambda>_. now) svc a = (m, b)"
    using materialize_is_replace [OF ok i svc c own none refl, of uuid now] w [unfolded eq registry_sid [OF ok svc]]
    by simp
  with svc c own none show ?thesis unfolding start_registry_def option.case by blast
qed

lemma start_registry_effect:
  assumes ok: "panel_ok p" and st: "live_stream (ps_streams p) i = Some st" "\<not> stream_protected (ps_streams p) st"
    and reg: "start_registry (ps_auth p) i uuid now mat b"
  shows "guarded_effect p (p\<lparr>ps_auth := b\<rparr>)"
proof (cases mat)
  case None
  with reg guarded_effect_refl [OF ok] show ?thesis by (simp add: start_registry_def)
next
  case (Some m)
  with reg obtain sid cand owner role where svc: "mget (services (ps_auth p)) sid = Some cand"
    and c: "consistentServiceAssignmentLocked (ps_auth p) cand = Inr (owner, role)" and own: "owner = [] \<or> owner = i"
    and eq: "replace_assignment sid i ''primary'' uuid (\<lambda>_. now) cand (ps_auth p) = (m, b)"
    by (auto simp: start_registry_def)
  have i: "good_id i" using panel_ids [OF ok] live_stream_get [OF st(1)] by simp
  have role: "''primary'' \<in> {''primary'', ''standby''}" by simp
  note r = panel_registry [OF ok]
  show ?thesis
  proof (rule guarded_effect_auth [OF ok registry_ok_replace [OF r svc i role eq]])
    show "mget (assignments (ps_auth p)) k \<noteq> None \<or> live_stream (ps_streams p) (fst (assignmentPartsFromKey k)) \<noteq> None"
      if "mget (assignments b) k = Some j" for k j
      using replace_live [OF r svc i role eq that] st(1) by auto
    show "same_entries j (ps_auth p) b" if "mget (streams (ps_streams p)) j = Some u" "stream_protected (ps_streams p) u" for j u
    proof (rule replace_same_entries [OF r svc i role eq c])
      show "j \<noteq> i" using that st live_stream_get by fastforce
      then show "j \<noteq> owner \<or> owner = []" using own by blast
    qed
  qed
qed

lemma start_registry_claims:
  assumes ok: "registry_ok a" and i: "good_id i" and actual: "collectActual a i [] (assignments a) = Inr actual"
    and reg: "start_registry a i uuid now mat b" and uuid: "trimSpace uuid \<noteq> []"
  shows "\<exists>x. memoryClaimedPrimaryAssignments b i = Inr x"
proof -
  have old: "claimable a i key sid" if "mget (assignments a) key = Some sid" "primary_entry i key" for key sid
    using collectActual_entry [OF actual mget_in [OF that(1)] that(2)] by blast
  have "mwf (assignments b) \<and> (\<forall>key sid. mget (assignments b) key = Some sid \<longrightarrow> primary_entry i key \<longrightarrow> claimable b i key sid)"
  proof (cases mat)
    case None
    with reg old registry_mwf [OF ok] show ?thesis by (auto simp: start_registry_def)
  next
    case (Some m)
    with reg obtain sid cand owner role where svc: "mget (services a) sid = Some cand"
      and c: "consistentServiceAssignmentLocked a cand = Inr (owner, role)" and own: "owner = [] \<or> owner = i"
      and none: "mget (assignments a) (assignmentKey i (sv_ServiceType cand) ''primary'' []) = None"
      and eq: "replace_assignment sid i ''primary'' uuid (\<lambda>_. now) cand a = (m, b)"
      by (auto simp: start_registry_def)
    from claimable_after [OF ok i svc eq c own none old uuid] replace_wf [OF ok eq] show ?thesis by blast
  qed
  then have "\<exists>x. collectClaims b i (assignments b) = Inr x"
    by (intro collectClaims_total) (auto simp: gm.entries_get)
  then show ?thesis by (force simp: memoryClaimedPrimaryAssignments_def split: sum.split prod.split)
qed

text \<open>What a claim has established when it succeeds.\<close>

definition claim_outcome ::
  "(stream \<Rightarrow> string option) \<Rightarrow> (string \<Rightarrow> string) \<Rightarrow> start_claim_request \<Rightarrow> string \<Rightarrow> time \<Rightarrow> panel \<Rightarrow>
   claimed_stream_start \<Rightarrow> panel \<Rightarrow> bool" where
  "claim_outcome marshal sha256hex request uuid now p r q \<longleftrightarrow>
     (\<exists>st mat b primary claims actual.
        live_stream (ps_streams p) (trimSpace (rq_StreamID request)) = Some st \<and>
        streamStartClaimStatus (st_Status st) \<and> \<not> stream_protected (ps_streams p) st \<and>
        st_UpdatedAt st = rq_ExpectedStreamUpdatedAt request \<and>
        \<not> streamStartClockConflict st now (startAuthority request now) \<and>
        collectActual (ps_auth p) (st_ID st) [] (assignments (ps_auth p)) = Inr actual \<and>
        list_all (\<lambda>ty. mget actual ty \<noteq> None \<or> (\<exists>m. mat = Some m \<and> sv_ServiceType m = ty)) requiredStartTypes \<and>
        start_registry (ps_auth p) (st_ID st) uuid now mat b \<and>
        memoryClaimedPrimaryAssignments b (st_ID st) = Inr (primary, claims) \<and>
        (let st' = starting_stream (startAuthority request now) now st in
         r = \<lparr>cs_Stream = st', cs_PrimaryAssignments = primary, cs_ArchiveAuthority = startAuthority request now,
             cs_OwnershipClaim = \<lparr>ow_StreamID = st_ID st', ow_StreamUpdatedAt = st_UpdatedAt st',
               ow_StreamIdentity = streamStartOwnershipIdentity marshal sha256hex st',
               ow_Assignments = claims, ow_Archive = startAuthority request now\<rparr>,
             cs_Materialized = mat\<rparr> \<and>
         q = p\<lparr>ps_auth := b, ps_streams := (put_stream (st_ID st') st' (ps_streams p))
             \<lparr>artifactReports := mput (artifactReports (ps_streams p)) (st_ID st') False\<rparr>\<rparr>))"

lemma writeMaterialized_type:
  "writeMaterialized i uuid now (cand, prev) a = (m, b) \<Longrightarrow> sv_ServiceType m = sv_ServiceType cand"
  by (auto simp: writeMaterialized_def write_assignment_def Let_def)

lemma starting_stream_ID [simp]: "st_ID (starting_stream authority now st) = st_ID st"
  by (simp add: starting_stream_def)

lemma startMaterialize_registry:
  assumes "registry_ok a" and "good_id i" and "collectActual a i [] (assignments a) = Inr actual"
    and "startMaterialize a i sid expected actual = Inr mat"
    and "applyMaterialized i uuid now mat a = (m, b)"
  shows "start_registry a i uuid now m b"
proof (cases mat)
  case None
  with assms(5) show ?thesis by (simp add: applyMaterialized_def start_registry_def)
next
  case (Some cand)
  with assms(4) have c: "materializeCandidate a i sid expected actual = Inr cand"
    by (simp add: startMaterialize_def split: if_splits sum.splits)
  obtain m' b' where w: "writeMaterialized i uuid now cand a = (m', b')"
    by (cases "writeMaterialized i uuid now cand a")
  with assms(5) Some have "m = Some m'" "b = b'" by (simp_all add: applyMaterialized_def)
  with materializeCandidate_registry [OF assms(1-3) c w] show ?thesis by simp
qed

lemma withCandidate_types:
  assumes "applyMaterialized i uuid now mat a = (m, b)" and "mget (withCandidate mat actual) ty \<noteq> None"
  shows "mget actual ty \<noteq> None \<or> (\<exists>v. m = Some v \<and> sv_ServiceType v = ty)"
proof (cases mat)
  case None
  with assms(2) show ?thesis by (simp add: withCandidate_def)
next
  case (Some c)
  obtain cand prev where c: "c = (cand, prev)" by (cases c)
  obtain m' b' where w: "writeMaterialized i uuid now (cand, prev) a = (m', b')"
    by (cases "writeMaterialized i uuid now (cand, prev) a")
  from assms w writeMaterialized_type [OF w] show ?thesis
    unfolding Some c by (auto simp: applyMaterialized_def withCandidate_def split: if_splits)
qed

lemma ClaimStreamStart_cases:
  assumes ok: "panel_ok p" and uuid: "trimSpace uuid \<noteq> []"
  shows "settled p (claim_outcome marshal sha256hex request uuid now p)
    (ClaimStreamStart marshal sha256hex c request uuid now p)"
  unfolding ClaimStreamStart_def Let_def
proof (intro settled_rules, goal_cases)
  case (1 st expected actual mat m b e)
  have i: "good_id (st_ID st)" using ok 1(3) live_stream_get panel_ids keyed_mget panel_streams by (metis option.distinct(1))
  from start_registry_claims [OF panel_registry [OF ok] i 1(7)
      startMaterialize_registry [OF panel_registry [OF ok] i 1(7,8) 1(11)] uuid] 1(12)
  show ?case by simp
next
  case (2 st expected actual mat m b x primary claims)
  have i: "good_id (st_ID st)" using ok 2(3) live_stream_get panel_ids keyed_mget panel_streams by (metis option.distinct(1))
  note reg = startMaterialize_registry [OF panel_registry [OF ok] i 2(7,8) 2(11)]
  have "list_all (\<lambda>ty. mget actual ty \<noteq> None \<or> (\<exists>v. m = Some v \<and> sv_ServiceType v = ty)) requiredStartTypes"
    using 2(9) withCandidate_types [OF 2(11)] by (auto simp: startAssignmentsMatch_def list_all_iff)
  with reg 2 show ?case unfolding claim_outcome_def Let_def by auto
qed

lemma claim_effect:
  assumes ok: "panel_ok p" and uuid: "trimSpace uuid \<noteq> []"
  shows "guarded_effect p (snd (ClaimStreamStart marshal sha256hex c request uuid now p))"
proof (rule settled_cases [OF ClaimStreamStart_cases [OF ok uuid, of marshal sha256hex request now c]])
  let ?op = "ClaimStreamStart marshal sha256hex c request uuid now p"
  show "guarded_effect p (snd ?op)" if "?op = (Inl e, p)" for e
    by (simp add: that guarded_effect_refl [OF ok])
  fix r q
  assume "?op = (Inr r, q)" and "claim_outcome marshal sha256hex request uuid now p r q"
  then obtain st mat b where st: "live_stream (ps_streams p) (trimSpace (rq_StreamID request)) = Some st"
      "\<not> stream_protected (ps_streams p) st"
    and reg: "start_registry (ps_auth p) (st_ID st) uuid now mat b"
    and out: "snd ?op = p\<lparr>ps_auth := b, ps_streams :=
        (put_stream (st_ID st) (starting_stream (startAuthority request now) now st) (ps_streams p))
         \<lparr>artifactReports := mput (artifactReports (ps_streams p)) (st_ID st) False\<rparr>\<rparr>"
    unfolding claim_outcome_def Let_def by (elim exE conjE) simp
  have id: "st_ID st = trimSpace (rq_StreamID request)"
    using keyed_mget [OF panel_streams [OF ok] live_stream_get [OF st(1)]] .
  have one: "guarded_effect p (p\<lparr>ps_auth := b\<rparr>)"
    using start_registry_effect [OF ok st(1) [folded id] st(2) reg] .
  then have okb: "panel_ok (p\<lparr>ps_auth := b\<rparr>)" by (simp add: guarded_effect_def)
  have get: "mget (streams (ps_streams (p\<lparr>ps_auth := b\<rparr>))) (st_ID st) = Some st"
    using live_stream_get [OF st(1)] id by simp
  have "guarded_effect (p\<lparr>ps_auth := b\<rparr>) (p\<lparr>ps_auth := b\<rparr>\<lparr>ps_streams :=
        (put_stream (st_ID st) (starting_stream (startAuthority request now) now st) (ps_streams p))
         \<lparr>artifactReports := mput (artifactReports (ps_streams p)) (st_ID st) False\<rparr>\<rparr>)"
    by (rule put_stream_effect [OF okb get, where st' = "starting_stream (startAuthority request now) now st"])
      (simp_all add: put_stream_def starting_stream_def)
  with one show "guarded_effect p (snd ?op)"
    by (simp add: out guarded_effect_def)
qed

lemma transition_effect:
  assumes ok: "panel_ok p"
  shows "guarded_effect p (snd (TransitionClaimedStreamStart marshal sha256hex c claim status now p))"
proof (rule guarded_effect_cases [OF _ ok])
  let ?op = "TransitionClaimedStreamStart marshal sha256hex c claim status now p"
  let ?Q = "\<lambda>out. \<exists>st. live_stream (ps_streams p) (trimSpace (ow_StreamID claim)) = Some st \<and>
      snd out = p\<lparr>ps_streams := put_stream (st_ID st) (st\<lparr>st_Status := trimSpace status, st_UpdatedAt := now\<rparr>) (ps_streams p)\<rparr>"
  show "unless_kept p ?Q ?op"
    unfolding TransitionClaimedStreamStart_def Let_def
    by (intro outcome_rules unless_keptI) simp
  assume "?Q ?op"
  then obtain st where st: "live_stream (ps_streams p) (trimSpace (ow_StreamID claim)) = Some st"
    and out: "snd ?op = p\<lparr>ps_streams := put_stream (st_ID st) (st\<lparr>st_Status := trimSpace status, st_UpdatedAt := now\<rparr>) (ps_streams p)\<rparr>"
    by blast
  from keyed_mget [OF panel_streams [OF ok] live_stream_get [OF st]] live_stream_get [OF st]
  have "mget (streams (ps_streams p)) (st_ID st) = Some st" by simp
  then show "guarded_effect p (snd ?op)"
    unfolding out
    by (rule put_stream_effect [OF ok, where st' = "st\<lparr>st_Status := trimSpace status, st_UpdatedAt := now\<rparr>"])
      (simp_all add: put_stream_def)
qed

end
