(* ===== verification/Node_Tokens.thy ===== *)
theory Node_Tokens
  imports Assignment_Guard
begin

text \<open>
  The tokens of the service nodes and how a node is configured: \<^verbatim>\<open>memory_services.go\<close>,
  \<^verbatim>\<open>memory_service_node_configuration.go\<close> and the value checks they use. A node gets its runtime
  token with a configure token that works once; the token of an update agent is staged first and
  replaces the old one only when the agent activates it.

  SHA-256 is the parameter \<open>sha256hex\<close>. A random token is an argument that is the token or the error
  of the generator; the sealer is the caller's function, nil being \<^const>\<open>None\<close>; \<^verbatim>\<open>ctx.Err()\<close> is
  read again after the sealer ran, so it is a second argument.
\<close>

subsection \<open>Values\<close>

definition hasString :: "string list \<Rightarrow> string \<Rightarrow> bool" where
  "hasString items needle = list_ex (\<lambda>item. item = needle) items"

definition VerifyTokenHash :: "(string \<Rightarrow> string) \<Rightarrow> string \<Rightarrow> string \<Rightarrow> bool" where
  "VerifyTokenHash sha256hex raw hash \<longleftrightarrow> sha256hex raw = hash"

definition validateServiceType :: "string \<Rightarrow> bool" where
  "validateServiceType serviceType \<longleftrightarrow>
     serviceType \<in> {''discord_bot'', ''encoder_recorder'', ''worker'', ''observability'', ''update_agent''}"

definition allowedScopes :: "string list" where
  "allowedScopes =
     [''service.register'', ''service.heartbeat'', ''service.logs.write'', ''service.status.write'', ''service.config.read'',
      ''service.secret.resolve'', ''worker.events.write'', ''encoder.status.write'', ''discord.status.write'',
      ''observability.ingest'', ''notifications.email.send'', ''streams.start'', ''streams.stop'', ''remediation.execute'',
      ''updates.claim'', ''updates.report'', ''updates.authorize'']"

definition validateServiceScopes :: "string list \<Rightarrow> bool" where
  "validateServiceScopes scopes \<longleftrightarrow> scopes \<noteq> [] \<and> list_all (\<lambda>scope. scope \<in> set allowedScopes) scopes"

definition validateRequiredUpdateAgentScopes :: "string \<Rightarrow> string list \<Rightarrow> bool" where
  "validateRequiredUpdateAgentScopes serviceType scopes \<longleftrightarrow>
     trimSpace serviceType \<noteq> ''update_agent'' \<or>
     list_all (hasString scopes) [''updates.claim'', ''updates.report'', ''updates.authorize'']"

text \<open>The two appends concern different service types, so at most one of them happens.\<close>

definition ProjectedServiceTokenScopesForRotation :: "service_token \<Rightarrow> string list" where
  "ProjectedServiceTokenScopesForRotation oldToken =
     (let scopes = tk_Scopes oldToken;
          scopes1 = (if tk_ServiceType oldToken = ''observability'' \<and> \<not> hasString scopes ''notifications.email.send''
                     then scopes @ [''notifications.email.send''] else scopes) in
      if tk_ServiceType oldToken = ''discord_bot'' \<and> hasString scopes1 ''streams.start'' \<and> \<not> hasString scopes1 ''streams.stop''
      then scopes1 @ [''streams.stop''] else scopes1)"

definition SystemUpdateTransportPullV2 :: string where
  "SystemUpdateTransportPullV2 = ''pull_v2''"

definition requiresStagedNodeTokenRotation :: "registered_service \<Rightarrow> bool" where
  "requiresStagedNodeTokenRotation service \<longleftrightarrow>
     sv_ServiceType service = ''update_agent'' \<and> sv_TransportMode service = SystemUpdateTransportPullV2"

definition isEmergencyRevokedNodeConfigurationAnchor :: "registered_service \<Rightarrow> service_token \<Rightarrow> bool" where
  "isEmergencyRevokedNodeConfigurationAnchor service token \<longleftrightarrow>
     requiresStagedNodeTokenRotation service \<and> sv_TokenID service = tk_ID token \<and> sv_Status service = ''offline'' \<and>
     sv_LastHeartbeatAt service = None \<and> sv_NodeTokenCiphertext service = [] \<and> sv_NodeTokenNonce service = [] \<and>
     sv_ReportedCapabilities service = [] \<and> tk_ServiceType token = ''update_agent'' \<and> tk_RevokedAt token \<noteq> None"

definition hasStagedServiceNodeConfiguration :: "registered_service \<Rightarrow> bool" where
  "hasStagedServiceNodeConfiguration service \<longleftrightarrow>
     sv_StagedNodePreviousTokenID service \<noteq> [] \<or> sv_StagedNodeTokenID service \<noteq> [] \<or> sv_StagedNodeTokenHash service \<noteq> [] \<or>
     sv_StagedNodeTokenScopes service \<noteq> [] \<or> sv_StagedNodeTokenCiphertext service \<noteq> [] \<or>
     sv_StagedNodeTokenNonce service \<noteq> [] \<or> sv_StagedNodeActivationTokenHash service \<noteq> [] \<or>
     sv_StagedNodeTokenAt service \<noteq> None"

definition hasOnlyStagedNodeConfigurationTombstone :: "registered_service \<Rightarrow> bool" where
  "hasOnlyStagedNodeConfigurationTombstone service \<longleftrightarrow>
     sv_StagedNodePreviousTokenID service = [] \<and> sv_StagedNodeTokenID service \<noteq> [] \<and>
     sv_StagedNodeTokenID service \<noteq> sv_TokenID service \<and> sv_StagedNodeTokenHash service = [] \<and>
     sv_StagedNodeTokenScopes service = [] \<and> sv_StagedNodeTokenCiphertext service = [] \<and>
     sv_StagedNodeTokenNonce service = [] \<and> sv_StagedNodeActivationTokenHash service = [] \<and>
     sv_StagedNodeTokenAt service = None"

definition updateAgentStageTokenReferenceAllowed ::
  "string \<Rightarrow> string \<Rightarrow> string \<Rightarrow> string \<Rightarrow> string \<Rightarrow> string \<Rightarrow> bool" where
  "updateAgentStageTokenReferenceAllowed serviceID tokenID stagedPreviousTokenID stagedTokenID targetServiceID oldTokenID \<longleftrightarrow>
     (tokenID \<noteq> oldTokenID \<and> stagedPreviousTokenID \<noteq> oldTokenID \<and> stagedTokenID \<noteq> oldTokenID) \<or>
     (serviceID = targetServiceID \<and> tokenID = oldTokenID \<and> stagedPreviousTokenID \<noteq> oldTokenID \<and> stagedTokenID \<noteq> oldTokenID)"

definition updateAgentActivationTokenReferenceAllowed ::
  "string \<Rightarrow> string \<Rightarrow> string \<Rightarrow> string \<Rightarrow> string \<Rightarrow> string \<Rightarrow> string \<Rightarrow> bool" where
  "updateAgentActivationTokenReferenceAllowed serviceID tokenID stagedPreviousTokenID stagedTokenID targetServiceID
     oldTokenID newTokenID \<longleftrightarrow>
     (tokenID \<noteq> oldTokenID \<and> tokenID \<noteq> newTokenID \<and> stagedPreviousTokenID \<noteq> oldTokenID \<and>
      stagedPreviousTokenID \<noteq> newTokenID \<and> stagedTokenID \<noteq> oldTokenID \<and> stagedTokenID \<noteq> newTokenID) \<or>
     (serviceID = targetServiceID \<and> tokenID = oldTokenID \<and> stagedPreviousTokenID = oldTokenID \<and> stagedTokenID = newTokenID)"

definition clearStagedNodeConfiguration :: "registered_service \<Rightarrow> registered_service" where
  "clearStagedNodeConfiguration service =
     service\<lparr>sv_StagedNodePreviousTokenID := [], sv_StagedNodeTokenID := [], sv_StagedNodeTokenHash := [],
       sv_StagedNodeTokenScopes := [], sv_StagedNodeTokenCiphertext := [], sv_StagedNodeTokenNonce := [],
       sv_StagedNodeActivationTokenHash := [], sv_StagedNodeTokenAt := None\<rparr>"

record service_runtime_report =
  rr_ServiceID :: string
  rr_Version :: string
  rr_Commit :: string
  rr_BuildDate :: string
  rr_Hostname :: string
  rr_OS :: string
  rr_Arch :: string

definition truncateServiceReportedValue :: "string \<Rightarrow> int \<Rightarrow> string" where
  "truncateServiceReportedValue value limit = (if int (length value) \<le> limit then value else take (nat limit) value)"

definition normalizeServiceRuntimeReport :: "service_runtime_report \<Rightarrow> service_runtime_report" where
  "normalizeServiceRuntimeReport report =
     report\<lparr>rr_ServiceID := trimSpace (rr_ServiceID report),
       rr_Version := truncateServiceReportedValue (trimSpace (rr_Version report)) 80,
       rr_Commit := truncateServiceReportedValue (trimSpace (rr_Commit report)) 80,
       rr_BuildDate := truncateServiceReportedValue (trimSpace (rr_BuildDate report)) 80,
       rr_Hostname := truncateServiceReportedValue (trimSpace (rr_Hostname report)) 255,
       rr_OS := truncateServiceReportedValue (trimSpace (rr_OS report)) 80,
       rr_Arch := truncateServiceReportedValue (trimSpace (rr_Arch report)) 80\<rparr>"

abbreviation given :: "string \<Rightarrow> string \<Rightarrow> string" where
  "given new old \<equiv> (if new \<noteq> [] then new else old)"

definition applyServiceRuntimeReport ::
  "registered_service \<Rightarrow> service_runtime_report \<Rightarrow> time \<Rightarrow> registered_service" where
  "applyServiceRuntimeReport service report now =
     service\<lparr>sv_Status := (if sv_Status service = ''pending'' then ''registered'' else sv_Status service),
       sv_Version := given (rr_Version report) (sv_Version service),
       sv_ReportedVersion := given (rr_Version report) (sv_ReportedVersion service),
       sv_ReportedCommit := given (rr_Commit report) (sv_ReportedCommit service),
       sv_ReportedBuildDate := given (rr_BuildDate report) (sv_ReportedBuildDate service),
       sv_ReportedHostname := given (rr_Hostname report) (sv_ReportedHostname service),
       sv_ReportedOS := given (rr_OS report) (sv_ReportedOS service),
       sv_ReportedArch := given (rr_Arch report) (sv_ReportedArch service),
       sv_LastReportedAt := (if rr_Version report \<noteq> [] \<or> rr_Commit report \<noteq> [] \<or> rr_BuildDate report \<noteq> [] \<or>
           rr_Hostname report \<noteq> [] \<or> rr_OS report \<noteq> [] \<or> rr_Arch report \<noteq> []
         then Some now else sv_LastReportedAt service),
       sv_UpdatedAt := now\<rparr>"

subsection \<open>Tokens\<close>

definition issued_token :: "(string \<Rightarrow> string) \<Rightarrow> string \<Rightarrow> string list \<Rightarrow> string \<Rightarrow> string \<Rightarrow> time \<Rightarrow> service_token" where
  "issued_token sha256hex serviceType scopes raw uuid now =
     \<lparr>tk_ID = uuid, tk_ServiceType = serviceType, tk_Scopes = scopes, tk_RevokedAt = None, tk_CreatedAt = now,
      tk_RawToken = ''ast_svc_'' @ raw, tk_TokenHash = sha256hex (''ast_svc_'' @ raw)\<rparr>"

definition put_token :: "service_token \<Rightarrow> auth_store \<Rightarrow> auth_store" where
  "put_token token a = a\<lparr>serviceTokens := mput (serviceTokens a) (tk_ID token) token\<rparr>"

definition put_service :: "string \<Rightarrow> registered_service \<Rightarrow> auth_store \<Rightarrow> auth_store" where
  "put_service serviceID svc a = a\<lparr>services := mput (services a) serviceID svc\<rparr>"

definition CreateServiceToken ::
  "(string \<Rightarrow> string) \<Rightarrow> ctx \<Rightarrow> string \<Rightarrow> string list \<Rightarrow> string result \<Rightarrow> string \<Rightarrow> time \<Rightarrow> auth_store \<Rightarrow>
   (service_token, auth_store) outcome" where
  "CreateServiceToken sha256hex c serviceType scopes random uuid now = with_ctx c (\<lambda>a.
     if \<not> validateServiceType serviceType then (Inl (ErrOther ''invalid service type''), a)
     else if \<not> validateServiceScopes scopes then (Inl ErrInvalidServiceScope, a)
     else (case random of
       Inl e \<Rightarrow> (Inl e, a)
     | Inr raw \<Rightarrow>
       let token = issued_token sha256hex serviceType scopes raw uuid now in (Inr token, put_token token a)))"

definition ListServiceTokens :: "ctx \<Rightarrow> auth_store \<Rightarrow> (service_token list, auth_store) outcome" where
  "ListServiceTokens c = with_ctx c (\<lambda>a.
     (Inr (sort_key (\<lambda>token. - tk_CreatedAt token)
       (map (\<lambda>(_, token). token\<lparr>tk_RawToken := [], tk_TokenHash := []\<rparr>) (serviceTokens a))), a))"

definition forget_heartbeat :: "time \<Rightarrow> registered_service \<Rightarrow> registered_service" where
  "forget_heartbeat now svc = svc\<lparr>sv_LastHeartbeatAt := None, sv_ReportedCapabilities := [], sv_UpdatedAt := now\<rparr>"

definition RevokeServiceToken :: "ctx \<Rightarrow> string \<Rightarrow> time \<Rightarrow> auth_store \<Rightarrow> (unit, auth_store) outcome" where
  "RevokeServiceToken c i now = with_ctx c (\<lambda>a.
     case mget (serviceTokens a) i of
       None \<Rightarrow> (Inl ErrNotFound, a)
     | Some token \<Rightarrow>
       if tk_RevokedAt token \<noteq> None then (Inl ErrNotFound, a)
       else (Inr (), a\<lparr>serviceTokens := mput (serviceTokens a) i (token\<lparr>tk_RevokedAt := Some now\<rparr>),
              services := mmap_where (\<lambda>_ svc. sv_TokenID svc = i) (forget_heartbeat now) (services a)\<rparr>))"

definition rotated_service :: "string \<Rightarrow> time \<Rightarrow> registered_service \<Rightarrow> registered_service" where
  "rotated_service tokenID now svc =
     (clearStagedNodeConfiguration (forget_heartbeat now svc))\<lparr>sv_TokenID := tokenID, sv_NodeTokenRotatedAt := Some now\<rparr>"

definition RotateServiceToken ::
  "(string \<Rightarrow> string) \<Rightarrow> ctx \<Rightarrow> string \<Rightarrow> string result \<Rightarrow> string \<Rightarrow> time \<Rightarrow> auth_store \<Rightarrow>
   (service_token, auth_store) outcome" where
  "RotateServiceToken sha256hex c i random uuid now = with_ctx c (\<lambda>a.
     case random of
       Inl e \<Rightarrow> (Inl e, a)
     | Inr raw \<Rightarrow>
       (case mget (serviceTokens a) i of
         None \<Rightarrow> (Inl ErrNotFound, a)
       | Some oldToken \<Rightarrow>
         if tk_RevokedAt oldToken \<noteq> None then (Inl ErrNotFound, a)
         else let token = issued_token sha256hex (tk_ServiceType oldToken)
                (ProjectedServiceTokenScopesForRotation oldToken) raw uuid now in
           (Inr token, a\<lparr>serviceTokens :=
               mput (mput (serviceTokens a) i (oldToken\<lparr>tk_RevokedAt := Some now\<rparr>)) (tk_ID token) token,
             services := mmap_where (\<lambda>_ svc. sv_TokenID svc = i) (rotated_service (tk_ID token) now) (services a)\<rparr>)))"

definition newRotatedServiceToken ::
  "(string \<Rightarrow> string) \<Rightarrow> service_token \<Rightarrow> string result \<Rightarrow> string \<Rightarrow> time \<Rightarrow> service_token result" where
  "newRotatedServiceToken sha256hex oldToken random uuid now =
     (case random of
        Inl e \<Rightarrow> Inl e
      | Inr raw \<Rightarrow> Inr (issued_token sha256hex (tk_ServiceType oldToken)
          (ProjectedServiceTokenScopesForRotation oldToken) raw uuid now))"

type_synonym node_token_sealer = "string \<Rightarrow> (string \<times> string) result"

text \<open>The old token is revoked unless another service still uses it; the new one is added.\<close>

definition replace_token :: "string \<Rightarrow> service_token \<Rightarrow> service_token \<Rightarrow> time \<Rightarrow> auth_store \<Rightarrow> auth_store" where
  "replace_token serviceID oldToken token now a =
     (let stillReferenced = list_ex (\<lambda>(candidateID, candidate). candidateID \<noteq> serviceID \<and> sv_TokenID candidate = tk_ID oldToken)
        (services a);
          oldToken' = (if stillReferenced then oldToken else oldToken\<lparr>tk_RevokedAt := Some now\<rparr>) in
      put_token token (put_token oldToken' a))"

definition RotateServiceNodeToken ::
  "(string \<Rightarrow> string) \<Rightarrow> ctx \<Rightarrow> string \<Rightarrow> string \<Rightarrow> node_token_sealer option \<Rightarrow> string result \<Rightarrow> string \<Rightarrow> ctx \<Rightarrow> time \<Rightarrow>
   auth_store \<Rightarrow> (service_token \<times> registered_service, auth_store) outcome" where
  "RotateServiceNodeToken sha256hex c serviceID0 expectedTokenID0 sealer random uuid c' now = with_ctx c (\<lambda>a.
     case sealer of
       None \<Rightarrow> (Inl ErrNodeTokenSealerRequired, a)
     | Some seal \<Rightarrow>
       let serviceID = trimSpace serviceID0; expectedTokenID = trimSpace expectedTokenID0 in
       if serviceID = [] \<or> expectedTokenID = [] then (Inl ErrNotFound, a)
       else (case mget (services a) serviceID of
         None \<Rightarrow> (Inl ErrNotFound, a)
       | Some service \<Rightarrow>
         if sv_TokenID service \<noteq> expectedTokenID then (Inl ErrNotFound, a)
         else if requiresStagedNodeTokenRotation service then (Inl ErrConflict, a)
         else (case mget (serviceTokens a) expectedTokenID of
           None \<Rightarrow> (Inl ErrNotFound, a)
         | Some oldToken \<Rightarrow>
           if tk_RevokedAt oldToken \<noteq> None then (Inl ErrNotFound, a)
           else if sv_ServiceType service \<noteq> tk_ServiceType oldToken then (Inl ErrForbidden, a)
           else (case newRotatedServiceToken sha256hex oldToken random uuid now of
             Inl e \<Rightarrow> (Inl e, a)
           | Inr token \<Rightarrow>
             (case seal (tk_RawToken token) of
               Inl e \<Rightarrow> (Inl e, a)
             | Inr (ciphertext, nonce) \<Rightarrow> with_ctx c' (\<lambda>a.
               let service' = (rotated_service (tk_ID token) now service)\<lparr>sv_NodeTokenCiphertext := ciphertext,
                     sv_NodeTokenNonce := nonce, sv_ConfigureTokenHash := [], sv_ConfigureTokenExpiresAt := None,
                     sv_ConfigureTokenUsedAt := None\<rparr> in
               (Inr (token, service'), put_service serviceID service' (replace_token serviceID oldToken token now a))) a)))))"

definition AuthenticateServiceToken ::
  "(string \<Rightarrow> string) \<Rightarrow> ctx \<Rightarrow> string \<Rightarrow> string \<Rightarrow> auth_store \<Rightarrow> (service_token, auth_store) outcome" where
  "AuthenticateServiceToken sha256hex c rawToken requiredScope = with_ctx c (\<lambda>a.
     case find (\<lambda>token. tk_TokenHash token = sha256hex rawToken) (map snd (serviceTokens a)) of
       None \<Rightarrow> (Inl ErrUnauthorized, a)
     | Some token \<Rightarrow>
       if tk_RevokedAt token \<noteq> None then (Inl ErrUnauthorized, a)
       else if requiredScope \<noteq> [] \<and> \<not> hasString (tk_Scopes token) requiredScope then (Inl ErrForbidden, a)
       else (Inr token, a))"

subsection \<open>Configuration of a node\<close>

definition SetServiceConfigureToken ::
  "ctx \<Rightarrow> string \<Rightarrow> string \<Rightarrow> time \<Rightarrow> time \<Rightarrow> auth_store \<Rightarrow> (registered_service, auth_store) outcome" where
  "SetServiceConfigureToken c serviceID tokenHash expiresAt now = with_ctx c (\<lambda>a.
     case mget (services a) serviceID of
       None \<Rightarrow> (Inl ErrNotFound, a)
     | Some svc \<Rightarrow>
       let pendingStagedTokenID = (if sv_StagedNodeTokenID svc \<noteq> [] \<and> sv_StagedNodeTokenID svc \<noteq> sv_TokenID svc
             then sv_StagedNodeTokenID svc else []);
           svc' = (clearStagedNodeConfiguration svc)\<lparr>sv_ConfigureTokenExpiresAt := Some expiresAt, sv_ConfigureTokenUsedAt := None,
             sv_ConfigureTokenHash := tokenHash, sv_StagedNodeTokenID := pendingStagedTokenID, sv_UpdatedAt := now\<rparr> in
       (Inr svc', put_service serviceID svc' a))"

definition configureTokenUsable :: "(string \<Rightarrow> string) \<Rightarrow> registered_service \<Rightarrow> string \<Rightarrow> time \<Rightarrow> bool" where
  "configureTokenUsable sha256hex svc rawToken now \<longleftrightarrow>
     sv_ConfigureTokenHash svc \<noteq> [] \<and>
     (case sv_ConfigureTokenExpiresAt svc of None \<Rightarrow> False | Some expiresAt \<Rightarrow> sv_ConfigureTokenUsedAt svc = None \<and> now < expiresAt) \<and>
     VerifyTokenHash sha256hex rawToken (sv_ConfigureTokenHash svc)"

definition ValidateServiceConfigureToken ::
  "(string \<Rightarrow> string) \<Rightarrow> ctx \<Rightarrow> string \<Rightarrow> string \<Rightarrow> time \<Rightarrow> auth_store \<Rightarrow> (bool, auth_store) outcome" where
  "ValidateServiceConfigureToken sha256hex c serviceID0 rawToken now = with_ctx c (\<lambda>a.
     let serviceID = trimSpace serviceID0 in
     if serviceID = [] then (Inl ErrNotFound, a)
     else (case mget (services a) serviceID of
       None \<Rightarrow> (Inl ErrNotFound, a)
     | Some svc \<Rightarrow> (Inr (configureTokenUsable sha256hex svc rawToken now), a)))"

definition ConsumeServiceConfigureToken ::
  "(string \<Rightarrow> string) \<Rightarrow> ctx \<Rightarrow> string \<Rightarrow> string \<Rightarrow> time \<Rightarrow> auth_store \<Rightarrow> (registered_service, auth_store) outcome" where
  "ConsumeServiceConfigureToken sha256hex c serviceID rawToken now = with_ctx c (\<lambda>a.
     case mget (services a) serviceID of
       None \<Rightarrow> (Inl ErrNotFound, a)
     | Some svc \<Rightarrow>
       if \<not> configureTokenUsable sha256hex svc rawToken now then (Inl ErrUnauthorized, a)
       else let svc' = svc\<lparr>sv_ConfigureTokenUsedAt := Some now, sv_UpdatedAt := now\<rparr> in
         (Inr svc', put_service serviceID svc' a))"

definition ConfigureServiceNode ::
  "(string \<Rightarrow> string) \<Rightarrow> ctx \<Rightarrow> string \<Rightarrow> string \<Rightarrow> time \<Rightarrow> service_runtime_report \<Rightarrow> node_token_sealer option \<Rightarrow>
   string result \<Rightarrow> string \<Rightarrow> ctx \<Rightarrow> auth_store \<Rightarrow> (service_token \<times> registered_service, auth_store) outcome" where
  "ConfigureServiceNode sha256hex c serviceID0 rawConfigureToken now report0 sealer random uuid c' = with_ctx c (\<lambda>a.
     case sealer of
       None \<Rightarrow> (Inl ErrNodeTokenSealerRequired, a)
     | Some seal \<Rightarrow>
       let serviceID = trimSpace serviceID0; report = normalizeServiceRuntimeReport (report0\<lparr>rr_ServiceID := serviceID\<rparr>) in
       if serviceID = [] then (Inl ErrNotFound, a)
       else (case mget (services a) serviceID of
         None \<Rightarrow> (Inl ErrNotFound, a)
       | Some service \<Rightarrow>
         if sv_ServiceType service = ''update_agent'' then (Inl ErrTwoPhaseConfigureRequired, a)
         else if \<not> configureTokenUsable sha256hex service rawConfigureToken now then (Inl ErrUnauthorized, a)
         else (case mget (serviceTokens a) (sv_TokenID service) of
           None \<Rightarrow> (Inl ErrNotFound, a)
         | Some oldToken \<Rightarrow>
           if tk_RevokedAt oldToken \<noteq> None then (Inl ErrNotFound, a)
           else if sv_ServiceType service \<noteq> tk_ServiceType oldToken then (Inl ErrForbidden, a)
           else (case newRotatedServiceToken sha256hex oldToken random uuid now of
             Inl e \<Rightarrow> (Inl e, a)
           | Inr token \<Rightarrow>
             (case seal (tk_RawToken token) of
               Inl e \<Rightarrow> (Inl e, a)
             | Inr (ciphertext, nonce) \<Rightarrow> with_ctx c' (\<lambda>a.
               let service' = (applyServiceRuntimeReport service report now)\<lparr>sv_TokenID := tk_ID token,
                     sv_NodeTokenCiphertext := ciphertext, sv_NodeTokenNonce := nonce, sv_ConfigureTokenUsedAt := Some now,
                     sv_LastHeartbeatAt := None, sv_ReportedCapabilities := [], sv_NodeTokenRotatedAt := Some now,
                     sv_UpdatedAt := now\<rparr> in
               (Inr (token, service'), put_service serviceID service' (replace_token serviceID oldToken token now a))) a)))))"

record staged_service_node_configuration =
  sc_Token :: service_token
  sc_Service :: registered_service
  sc_ActivationToken :: string
  sc_ActivationExpiresAt :: time

definition staged_service ::
  "service_token \<Rightarrow> service_token \<Rightarrow> string \<Rightarrow> string \<Rightarrow> string \<Rightarrow> time \<Rightarrow> registered_service \<Rightarrow> registered_service" where
  "staged_service oldToken token ciphertext nonce activationHash now service =
     service\<lparr>sv_StagedNodePreviousTokenID := tk_ID oldToken, sv_StagedNodeTokenID := tk_ID token,
       sv_StagedNodeTokenHash := tk_TokenHash token, sv_StagedNodeTokenScopes := tk_Scopes token,
       sv_StagedNodeTokenCiphertext := ciphertext, sv_StagedNodeTokenNonce := nonce,
       sv_StagedNodeActivationTokenHash := activationHash, sv_StagedNodeTokenAt := Some now,
       sv_ConfigureTokenUsedAt := Some now, sv_UpdatedAt := now\<rparr>"

text \<open>The activation token expires with the configure token, which the guard found to have an expiry.\<close>

definition StageServiceNodeConfiguration ::
  "(string \<Rightarrow> string) \<Rightarrow> ctx \<Rightarrow> string \<Rightarrow> string \<Rightarrow> time \<Rightarrow> node_token_sealer option \<Rightarrow> string result \<Rightarrow> string \<Rightarrow>
   string result \<Rightarrow> ctx \<Rightarrow> auth_store \<Rightarrow> (staged_service_node_configuration, auth_store) outcome" where
  "StageServiceNodeConfiguration sha256hex c serviceID0 rawConfigureToken now sealer random uuid activation c' = with_ctx c (\<lambda>a.
     case sealer of
       None \<Rightarrow> (Inl ErrNodeTokenSealerRequired, a)
     | Some seal \<Rightarrow>
       let serviceID = trimSpace serviceID0 in
       if serviceID = [] then (Inl ErrNotFound, a)
       else (case mget (services a) serviceID of
         None \<Rightarrow> (Inl ErrNotFound, a)
       | Some service \<Rightarrow>
         if sv_ServiceType service \<noteq> ''update_agent'' then (Inl ErrForbidden, a)
         else if \<not> configureTokenUsable sha256hex service rawConfigureToken now then (Inl ErrUnauthorized, a)
         else (case mget (serviceTokens a) (sv_TokenID service) of
           None \<Rightarrow> (Inl ErrNotFound, a)
         | Some oldToken \<Rightarrow>
           if tk_RevokedAt oldToken \<noteq> None \<and> (\<not> isEmergencyRevokedNodeConfigurationAnchor service oldToken \<or>
             (hasStagedServiceNodeConfiguration service \<and> \<not> hasOnlyStagedNodeConfigurationTombstone service))
           then (Inl ErrNotFound, a)
           else if tk_ServiceType oldToken \<noteq> ''update_agent'' then (Inl ErrForbidden, a)
           else if \<not> validateRequiredUpdateAgentScopes (tk_ServiceType oldToken) (tk_Scopes oldToken)
           then (Inl ErrInvalidServiceScope, a)
           else if \<not> list_all (\<lambda>(candidateID, candidate). updateAgentStageTokenReferenceAllowed candidateID (sv_TokenID candidate)
               (sv_StagedNodePreviousTokenID candidate) (sv_StagedNodeTokenID candidate) serviceID (tk_ID oldToken)) (services a)
           then (Inl ErrSystemUpdateRuntimeTokenRotationSharedToken, a)
           else (case newRotatedServiceToken sha256hex oldToken random uuid now of
             Inl e \<Rightarrow> (Inl e, a)
           | Inr token \<Rightarrow>
             (case seal (tk_RawToken token) of
               Inl e \<Rightarrow> (Inl e, a)
             | Inr (ciphertext, nonce) \<Rightarrow>
               (case activation of
                 Inl e \<Rightarrow> (Inl e, a)
               | Inr activationRandom \<Rightarrow> with_ctx c' (\<lambda>a.
                 let activationToken = ''ast_act_'' @ activationRandom;
                     service' = staged_service oldToken token ciphertext nonce (sha256hex activationToken) now service in
                 (Inr \<lparr>sc_Token = token, sc_Service = service', sc_ActivationToken = activationToken,
                    sc_ActivationExpiresAt = (case sv_ConfigureTokenExpiresAt service of None \<Rightarrow> 0 | Some t \<Rightarrow> t)\<rparr>,
                  put_service serviceID service' a)) a))))))"

text \<open>A repeated activation finds the token in place and returns it again.\<close>

definition replayed_activation ::
  "(service_token \<Rightarrow> bool) \<Rightarrow> registered_service \<Rightarrow> auth_store \<Rightarrow> (service_token \<times> registered_service \<times> bool, auth_store) outcome" where
  "replayed_activation accepted service a =
     (case mget (serviceTokens a) (sv_TokenID service) of
        None \<Rightarrow> (Inl ErrUnauthorized, a)
      | Some token \<Rightarrow>
        if tk_RevokedAt token \<noteq> None \<or> \<not> accepted token then (Inl ErrUnauthorized, a)
        else if \<not> validateRequiredUpdateAgentScopes (tk_ServiceType token) (tk_Scopes token)
        then (Inl ErrInvalidServiceScope, a)
        else (Inr (token, service, True), a))"

definition activated_token :: "registered_service \<Rightarrow> service_token" where
  "activated_token service =
     \<lparr>tk_ID = sv_StagedNodeTokenID service, tk_ServiceType = ''update_agent'', tk_Scopes = sv_StagedNodeTokenScopes service,
      tk_RevokedAt = None, tk_CreatedAt = (case sv_StagedNodeTokenAt service of None \<Rightarrow> 0 | Some t \<Rightarrow> t),
      tk_RawToken = [], tk_TokenHash = sv_StagedNodeTokenHash service\<rparr>"

definition activated_service ::
  "service_runtime_report \<Rightarrow> time \<Rightarrow> registered_service \<Rightarrow> registered_service" where
  "activated_service report now service =
     (clearStagedNodeConfiguration (applyServiceRuntimeReport service report now))\<lparr>sv_TokenID := sv_StagedNodeTokenID service,
       sv_NodeTokenCiphertext := sv_StagedNodeTokenCiphertext service, sv_NodeTokenNonce := sv_StagedNodeTokenNonce service,
       sv_ConfigureTokenHash := sv_StagedNodeActivationTokenHash service, sv_ConfigureTokenExpiresAt := None,
       sv_LastHeartbeatAt := None, sv_ReportedCapabilities := [], sv_NodeTokenRotatedAt := Some now, sv_UpdatedAt := now\<rparr>"

text \<open>After the activated service is written, the old token is revoked if nothing refers to it any more.\<close>

definition retire_token :: "service_token \<Rightarrow> time \<Rightarrow> auth_store \<Rightarrow> auth_store" where
  "retire_token oldToken now a =
     (if \<not> list_ex (\<lambda>(_, candidate). sv_TokenID candidate = tk_ID oldToken \<or>
          sv_StagedNodePreviousTokenID candidate = tk_ID oldToken \<or> sv_StagedNodeTokenID candidate = tk_ID oldToken) (services a) \<and>
        tk_RevokedAt oldToken = None
      then put_token (oldToken\<lparr>tk_RevokedAt := Some now\<rparr>) a else a)"

definition ActivateServiceNodeConfiguration ::
  "(string \<Rightarrow> string) \<Rightarrow> ctx \<Rightarrow> string \<Rightarrow> string \<Rightarrow> string \<Rightarrow> time \<Rightarrow> service_runtime_report \<Rightarrow> ctx \<Rightarrow>
   auth_store \<Rightarrow> (service_token \<times> registered_service \<times> bool, auth_store) outcome" where
  "ActivateServiceNodeConfiguration sha256hex c serviceID0 configurationID0 rawActivationToken0 now report0 c' = with_ctx c (\<lambda>a.
     let serviceID = trimSpace serviceID0; configurationID = trimSpace configurationID0;
         rawActivationToken = trimSpace rawActivationToken0;
         report = normalizeServiceRuntimeReport (report0\<lparr>rr_ServiceID := serviceID\<rparr>) in
     if serviceID = [] \<or> configurationID = [] \<or> rawActivationToken = [] then (Inl ErrUnauthorized, a)
     else (case mget (services a) serviceID of
       None \<Rightarrow> (Inl ErrNotFound, a)
     | Some service \<Rightarrow>
       if sv_ServiceType service \<noteq> ''update_agent'' then (Inl ErrForbidden, a)
       else if sv_TokenID service = configurationID \<and> sv_StagedNodeTokenID service = []
       then (if sv_ConfigureTokenUsedAt service = None \<or> sv_ConfigureTokenExpiresAt service \<noteq> None \<or>
               sv_ConfigureTokenHash service = [] \<or> \<not> VerifyTokenHash sha256hex rawActivationToken (sv_ConfigureTokenHash service)
             then (Inl ErrUnauthorized, a)
             else replayed_activation (\<lambda>token. tk_ServiceType token = sv_ServiceType service) service a)
       else if sv_StagedNodeTokenID service \<noteq> configurationID \<or> sv_StagedNodeTokenHash service = [] \<or>
         sv_StagedNodeActivationTokenHash service = [] \<or>
         \<not> VerifyTokenHash sha256hex rawActivationToken (sv_StagedNodeActivationTokenHash service)
       then (Inl ErrUnauthorized, a)
       else if sv_TokenID service = sv_StagedNodeTokenID service
       then replayed_activation (\<lambda>token. tk_TokenHash token = sv_StagedNodeTokenHash service) service a
       else if (case sv_ConfigureTokenExpiresAt service of None \<Rightarrow> True | Some t \<Rightarrow> \<not> now < t) \<or>
         sv_StagedNodeTokenAt service = None \<or> sv_TokenID service \<noteq> sv_StagedNodePreviousTokenID service
       then (Inl ErrUnauthorized, a)
       else (case mget (serviceTokens a) (sv_TokenID service) of
         None \<Rightarrow> (Inl ErrUnauthorized, a)
       | Some oldToken \<Rightarrow>
         if tk_ServiceType oldToken \<noteq> ''update_agent'' \<or>
           (tk_RevokedAt oldToken \<noteq> None \<and> \<not> isEmergencyRevokedNodeConfigurationAnchor service oldToken)
         then (Inl ErrUnauthorized, a)
         else if \<not> validateRequiredUpdateAgentScopes (tk_ServiceType oldToken) (tk_Scopes oldToken)
         then (Inl ErrInvalidServiceScope, a)
         else if \<not> validateRequiredUpdateAgentScopes (sv_ServiceType service) (sv_StagedNodeTokenScopes service)
         then (Inl ErrInvalidServiceScope, a)
         else if \<not> list_all (\<lambda>(candidateID, candidate). updateAgentActivationTokenReferenceAllowed candidateID (sv_TokenID candidate)
             (sv_StagedNodePreviousTokenID candidate) (sv_StagedNodeTokenID candidate) serviceID (tk_ID oldToken)
             (sv_StagedNodeTokenID service)) (services a)
         then (Inl ErrSystemUpdateRuntimeTokenRotationSharedToken, a)
         else if \<not> validateServiceScopes (tk_Scopes (activated_token service)) then (Inl ErrInvalidServiceScope, a)
         else with_ctx c' (\<lambda>a.
           let token = activated_token service; service' = activated_service report now service in
           (Inr (token, service', False),
            retire_token oldToken now (put_service serviceID service' (put_token token a)))) a)))"

definition SetServiceNodeTokenSecret ::
  "ctx \<Rightarrow> string \<Rightarrow> string \<Rightarrow> string \<Rightarrow> time \<Rightarrow> auth_store \<Rightarrow> (registered_service, auth_store) outcome" where
  "SetServiceNodeTokenSecret c serviceID ciphertext nonce now = with_ctx c (\<lambda>a.
     case mget (services a) serviceID of
       None \<Rightarrow> (Inl ErrNotFound, a)
     | Some svc \<Rightarrow>
       let svc' = svc\<lparr>sv_NodeTokenCiphertext := ciphertext, sv_NodeTokenNonce := nonce, sv_UpdatedAt := now\<rparr> in
       (Inr svc', put_service serviceID svc' a))"

end
