(* ===== verification/Outbound_Policy.thy ===== *)
theory Outbound_Policy
  imports Prelude
begin

text \<open>
  The outbound policy of \<^verbatim>\<open>src/internal/netpolicy/service_url.go\<close>: which service URLs may be stored
  and which addresses the control plane may connect to.

  An address is Go's \<^verbatim>\<open>net.IP\<close>, 4 or 16 bytes, with the classification methods of the net package
  written out. Parameters stand for \<^verbatim>\<open>url.Parse\<close> (with the accessors of its result),
  \<^verbatim>\<open>net.ParseIP\<close>, \<^verbatim>\<open>net.ParseCIDR\<close> and \<^verbatim>\<open>net.SplitHostPort\<close>; the environment, the answer of the
  resolver and the connection that the dialer makes are values.
\<close>

unbundle bit_operations_syntax

subsection \<open>Addresses\<close>

type_synonym ip = "8 word list"

record ipnet =
  net_IP :: ip
  net_Mask :: ip

definition v4mapped :: "ip \<Rightarrow> ip" where
  "v4mapped ip4 = replicate 10 0 @ [0xff, 0xff] @ ip4"

definition To4 :: "ip \<Rightarrow> ip option" where
  "To4 ip =
     (if length ip = 4 then Some ip
      else if length ip = 16 \<and> take 12 ip = v4mapped [] then Some (drop 12 ip)
      else None)"

definition ip_Equal :: "ip \<Rightarrow> ip \<Rightarrow> bool" where
  "ip_Equal ip x \<longleftrightarrow>
     (if length ip = length x then ip = x
      else if length ip = 4 \<and> length x = 16 then take 12 x = v4mapped [] \<and> ip = drop 12 x
      else if length ip = 16 \<and> length x = 4 then take 12 ip = v4mapped [] \<and> drop 12 ip = x
      else False)"

definition IPv6loopback :: ip where
  "IPv6loopback = replicate 15 0 @ [1]"

definition IPv6unspecified :: ip where
  "IPv6unspecified = replicate 16 0"

definition IPv4zero :: ip where
  "IPv4zero = v4mapped [0, 0, 0, 0]"

definition IsLoopback :: "ip \<Rightarrow> bool" where
  "IsLoopback ip = (case To4 ip of Some ip4 \<Rightarrow> ip4 ! 0 = 127 | None \<Rightarrow> ip_Equal ip IPv6loopback)"

definition IsPrivate :: "ip \<Rightarrow> bool" where
  "IsPrivate ip =
     (case To4 ip of
        Some ip4 \<Rightarrow> ip4 ! 0 = 10 \<or> (ip4 ! 0 = 172 \<and> ip4 ! 1 AND 0xf0 = 16) \<or> (ip4 ! 0 = 192 \<and> ip4 ! 1 = 168)
      | None \<Rightarrow> length ip = 16 \<and> ip ! 0 AND 0xfe = 0xfc)"

definition IsLinkLocalUnicast :: "ip \<Rightarrow> bool" where
  "IsLinkLocalUnicast ip =
     (case To4 ip of
        Some ip4 \<Rightarrow> ip4 ! 0 = 169 \<and> ip4 ! 1 = 254
      | None \<Rightarrow> length ip = 16 \<and> ip ! 0 = 0xfe \<and> ip ! 1 AND 0xc0 = 0x80)"

definition IsLinkLocalMulticast :: "ip \<Rightarrow> bool" where
  "IsLinkLocalMulticast ip =
     (case To4 ip of
        Some ip4 \<Rightarrow> ip4 ! 0 = 224 \<and> ip4 ! 1 = 0 \<and> ip4 ! 2 = 0
      | None \<Rightarrow> length ip = 16 \<and> ip ! 0 = 0xff \<and> ip ! 1 AND 0x0f = 0x02)"

definition IsUnspecified :: "ip \<Rightarrow> bool" where
  "IsUnspecified ip \<longleftrightarrow> ip_Equal ip IPv4zero \<or> ip_Equal ip IPv6unspecified"

definition IsMulticast :: "ip \<Rightarrow> bool" where
  "IsMulticast ip =
     (case To4 ip of Some ip4 \<Rightarrow> ip4 ! 0 AND 0xf0 = 0xe0 | None \<Rightarrow> length ip = 16 \<and> ip ! 0 = 0xff)"

definition networkNumberAndMask :: "ipnet \<Rightarrow> (ip \<times> ip) option" where
  "networkNumberAndMask n =
     (case (case To4 (net_IP n) of Some ip4 \<Rightarrow> Some ip4 | None \<Rightarrow> if length (net_IP n) = 16 then Some (net_IP n) else None) of
        None \<Rightarrow> None
      | Some ip \<Rightarrow>
        if length (net_Mask n) = 4 then (if length ip = 4 then Some (ip, net_Mask n) else None)
        else if length (net_Mask n) = 16
        then Some (ip, if length ip = 4 then drop 12 (net_Mask n) else net_Mask n)
        else None)"

definition net_Contains :: "ipnet \<Rightarrow> ip \<Rightarrow> bool" where
  "net_Contains n ip =
     (let x = (case To4 ip of Some ip4 \<Rightarrow> ip4 | None \<Rightarrow> ip) in
      case networkNumberAndMask n of
        None \<Rightarrow> x = []
      | Some (nn, m) \<Rightarrow> length x = length nn \<and> list_all (\<lambda>i. nn ! i AND m ! i = x ! i AND m ! i) [0..<length x])"

definition unsafeIP :: "ip \<Rightarrow> bool" where
  "unsafeIP ip \<longleftrightarrow> IsLoopback ip \<or> IsPrivate ip \<or> IsLinkLocalUnicast ip \<or> IsLinkLocalMulticast ip \<or>
     IsUnspecified ip \<or> IsMulticast ip"

subsection \<open>The policy\<close>

datatype url_error = ErrInvalidServiceURL | ErrBlockedServiceURL | ErrResolution

record url =
  url_Scheme :: string
  url_Host :: string
  url_Hostname :: string
  url_Port :: string
  url_User :: "string option"
  url_Fragment :: string
  url_Query :: "string list gomap"

record service_url_policy =
  AllowedHosts :: "string list"
  AllowedCIDRs :: "ipnet list"
  PublicAllowedHosts :: "string list"
  RequirePublicAllowlist :: bool

definition normalizeHost :: "string \<Rightarrow> string" where
  "normalizeHost host =
     (let h = trimSpace host in toLower (if suffix ''.'' h then butlast h else h))"

definition envBoolDefault :: "(string \<Rightarrow> string) \<Rightarrow> string \<Rightarrow> bool \<Rightarrow> bool" where
  "envBoolDefault getenv key fallback =
     (let v = toLower (trimSpace (getenv key)) in
      if v \<in> {''1'', ''true'', ''yes'', ''on''} then True
      else if v \<in> {''0'', ''false'', ''no'', ''off''} then False
      else fallback)"

definition hosts_from :: "string \<Rightarrow> string list" where
  "hosts_from v = filter (\<lambda>host. host \<noteq> []) (map normalizeHost (splitOn (CHR '','') v))"

definition cidrs_from :: "(string \<Rightarrow> ipnet option) \<Rightarrow> string \<Rightarrow> ipnet list" where
  "cidrs_from parseCIDR v =
     List.map_filter (\<lambda>s. let t = trimSpace s in if t = [] then None else parseCIDR t) (splitOn (CHR '','') v)"

definition ServiceURLPolicyFromEnv :: "(string \<Rightarrow> ipnet option) \<Rightarrow> (string \<Rightarrow> string) \<Rightarrow> service_url_policy" where
  "ServiceURLPolicyFromEnv parseCIDR getenv =
     \<lparr>AllowedHosts = hosts_from (getenv ''AUTOSTREAM_SERVICE_ALLOWED_HOSTS''),
      AllowedCIDRs = cidrs_from parseCIDR (getenv ''AUTOSTREAM_SERVICE_ALLOWED_CIDRS''),
      PublicAllowedHosts = hosts_from (getenv ''AUTOSTREAM_SERVICE_PUBLIC_ALLOWED_HOSTS''),
      RequirePublicAllowlist = envBoolDefault getenv ''AUTOSTREAM_REQUIRE_SERVICE_PUBLIC_ALLOWED_HOSTS'' True\<rparr>"

definition hostAllowed :: "service_url_policy \<Rightarrow> string \<Rightarrow> bool" where
  "hostAllowed p host \<longleftrightarrow> AllowedHosts p \<noteq> [] \<and> normalizeHost host \<in> set (AllowedHosts p)"

definition publicHostAllowed :: "service_url_policy \<Rightarrow> string \<Rightarrow> bool" where
  "publicHostAllowed p host0 =
     (if PublicAllowedHosts p = [] then \<not> RequirePublicAllowlist p
      else let host = normalizeHost host0 in
        host \<in> set (PublicAllowedHosts p) \<or>
        list_ex (\<lambda>pattern. prefix ''*.'' pattern \<and> suffix (drop 1 pattern) host) (PublicAllowedHosts p))"

definition explicitCIDRAllowed :: "service_url_policy \<Rightarrow> ip \<Rightarrow> bool" where
  "explicitCIDRAllowed p ip \<longleftrightarrow> list_ex (\<lambda>network. net_Contains network ip) (AllowedCIDRs p)"

definition ipAllowed :: "service_url_policy \<Rightarrow> ip \<Rightarrow> bool" where
  "ipAllowed p ip \<longleftrightarrow> list_ex (\<lambda>network. net_Contains network ip) (AllowedCIDRs p) \<or> \<not> unsafeIP ip"

definition ValidateURL ::
  "(string \<Rightarrow> url option) \<Rightarrow> (string \<Rightarrow> ip option) \<Rightarrow> service_url_policy \<Rightarrow> string \<Rightarrow> url_error option" where
  "ValidateURL parseURL parseIP p raw =
     (case parseURL (trimSpace raw) of
        None \<Rightarrow> Some ErrInvalidServiceURL
      | Some parsed \<Rightarrow>
        if url_Scheme parsed = [] \<or> url_Host parsed = [] then Some ErrInvalidServiceURL
        else if url_Scheme parsed \<noteq> ''https'' \<and> url_Scheme parsed \<noteq> ''http'' then Some ErrInvalidServiceURL
        else if url_User parsed \<noteq> None \<or> url_Fragment parsed \<noteq> [] then Some ErrInvalidServiceURL
        else let host = normalizeHost (url_Hostname parsed) in
          if host = [] then Some ErrInvalidServiceURL
          else if hostAllowed p host then None
          else if (case parseIP host of Some ip \<Rightarrow> explicitCIDRAllowed p ip | None \<Rightarrow> False) then None
          else if url_Scheme parsed = ''http'' then Some ErrBlockedServiceURL
          else if host = ''localhost'' \<or> suffix ''.localhost'' host then Some ErrBlockedServiceURL
          else if (case parseIP host of Some ip \<Rightarrow> \<not> ipAllowed p ip | None \<Rightarrow> False) then Some ErrBlockedServiceURL
          else if \<not> publicHostAllowed p host then Some ErrBlockedServiceURL
          else None)"

text \<open>
  The dial function: the address the dialer connects to, or the error. \<open>resolve\<close> is what
  \<^verbatim>\<open>LookupIPAddr\<close> answered for the name, an error being \<^const>\<open>None\<close>.
\<close>

definition safeDialContext ::
  "(string \<Rightarrow> (string \<times> string) option) \<Rightarrow> (string \<Rightarrow> ip list option) \<Rightarrow> service_url_policy \<Rightarrow> string \<Rightarrow>
   url_error + ip \<times> string" where
  "safeDialContext splitHostPort resolve p address =
     (case splitHostPort address of
        None \<Rightarrow> Inl ErrInvalidServiceURL
      | Some (host, port) \<Rightarrow>
        let normalizedHost = normalizeHost host in
        if \<not> hostAllowed p normalizedHost \<and> \<not> publicHostAllowed p normalizedHost then Inl ErrBlockedServiceURL
        else (case resolve normalizedHost of
          None \<Rightarrow> Inl ErrResolution
        | Some resolved \<Rightarrow>
          (case find (\<lambda>candidate. hostAllowed p normalizedHost \<or> ipAllowed p candidate) resolved of
            None \<Rightarrow> Inl ErrBlockedServiceURL
          | Some candidate \<Rightarrow> Inr (candidate, port))))"

subsection \<open>The networks that are off limits\<close>

text \<open>The special-purpose networks as a table of prefixes, and their membership test of the net package.\<close>

definition v4net :: "8 word list \<Rightarrow> 8 word list \<Rightarrow> ipnet" where
  "v4net address bits = \<lparr>net_IP = address, net_Mask = bits\<rparr>"

definition v6net :: "8 word list \<Rightarrow> 8 word list \<Rightarrow> ipnet" where
  "v6net head bits =
     \<lparr>net_IP = head @ replicate (16 - length head) 0, net_Mask = bits @ replicate (16 - length bits) 0\<rparr>"

definition reserved_networks :: "ipnet list" where
  "reserved_networks =
     [v4net [127, 0, 0, 0] [0xff, 0, 0, 0],
      v4net [10, 0, 0, 0] [0xff, 0, 0, 0],
      v4net [172, 16, 0, 0] [0xff, 0xf0, 0, 0],
      v4net [192, 168, 0, 0] [0xff, 0xff, 0, 0],
      v4net [169, 254, 0, 0] [0xff, 0xff, 0, 0],
      v4net [224, 0, 0, 0] [0xf0, 0, 0, 0],
      v4net [0, 0, 0, 0] [0xff, 0xff, 0xff, 0xff],
      v6net (replicate 15 0 @ [1]) (replicate 16 0xff),
      v6net [] (replicate 16 0xff),
      v6net [0xfc] [0xfe],
      v6net [0xfe, 0x80] [0xff, 0xc0],
      v6net [0xff] [0xff]]"

lemma length_4_cases:
  assumes "length xs = 4"
  obtains a b c d where "xs = [a, b, c, d]"
  using assms by (auto simp: eval_nat_numeral length_Suc_conv)

lemma byte_and_ff [simp]: "(x :: 8 word) AND 0xff = x"
proof -
  have "(0xff :: 8 word) = - 1" by simp
  then show ?thesis by (metis and.right_neutral)
qed

lemma To4_v4 [simp]: "To4 [a, b, c, d] = Some [a, b, c, d]"
  by (simp add: To4_def)

text \<open>Membership in the table, with the network numbers and masks computed once.\<close>

definition within :: "ip \<Rightarrow> (ip \<times> ip) option \<Rightarrow> bool" where
  "within x n = (case n of None \<Rightarrow> x = []
     | Some (nn, m) \<Rightarrow> length x = length nn \<and> list_all (\<lambda>i. nn ! i AND m ! i = x ! i AND m ! i) [0..<length x])"

lemma net_Contains_within:
  "net_Contains n ip = within (case To4 ip of Some ip4 \<Rightarrow> ip4 | None \<Rightarrow> ip) (networkNumberAndMask n)"
  by (simp add: net_Contains_def within_def Let_def)

lemma reserved_numbers:
  "map networkNumberAndMask reserved_networks =
     [Some ([127, 0, 0, 0], [0xff, 0, 0, 0]), Some ([10, 0, 0, 0], [0xff, 0, 0, 0]),
      Some ([172, 16, 0, 0], [0xff, 0xf0, 0, 0]), Some ([192, 168, 0, 0], [0xff, 0xff, 0, 0]),
      Some ([169, 254, 0, 0], [0xff, 0xff, 0, 0]), Some ([224, 0, 0, 0], [0xf0, 0, 0, 0]),
      Some ([0, 0, 0, 0], [0xff, 0xff, 0xff, 0xff]),
      Some ([0, 0, 0, 0, 0, 0, 0, 0, 0, 0, 0, 0, 0, 0, 0, 1],
        [0xff, 0xff, 0xff, 0xff, 0xff, 0xff, 0xff, 0xff, 0xff, 0xff, 0xff, 0xff, 0xff, 0xff, 0xff, 0xff]),
      Some ([0, 0, 0, 0, 0, 0, 0, 0, 0, 0, 0, 0, 0, 0, 0, 0],
        [0xff, 0xff, 0xff, 0xff, 0xff, 0xff, 0xff, 0xff, 0xff, 0xff, 0xff, 0xff, 0xff, 0xff, 0xff, 0xff]),
      Some ([0xfc, 0, 0, 0, 0, 0, 0, 0, 0, 0, 0, 0, 0, 0, 0, 0], [0xfe, 0, 0, 0, 0, 0, 0, 0, 0, 0, 0, 0, 0, 0, 0, 0]),
      Some ([0xfe, 0x80, 0, 0, 0, 0, 0, 0, 0, 0, 0, 0, 0, 0, 0, 0], [0xff, 0xc0, 0, 0, 0, 0, 0, 0, 0, 0, 0, 0, 0, 0, 0, 0]),
      Some ([0xff, 0, 0, 0, 0, 0, 0, 0, 0, 0, 0, 0, 0, 0, 0, 0], [0xff, 0, 0, 0, 0, 0, 0, 0, 0, 0, 0, 0, 0, 0, 0, 0])]"
  by code_simp

definition reserved :: "ip \<Rightarrow> bool" where
  "reserved ip \<longleftrightarrow> list_ex (\<lambda>n. net_Contains n ip) reserved_networks"

lemma reserved_within:
  "reserved ip = list_ex (within (case To4 ip of Some ip4 \<Rightarrow> ip4 | None \<Rightarrow> ip)) (map networkNumberAndMask reserved_networks)"
  by (simp add: reserved_def net_Contains_within list_ex_iff)

lemmas address_classes = unsafeIP_def IsLoopback_def IsPrivate_def IsLinkLocalUnicast_def IsLinkLocalMulticast_def
  IsUnspecified_def IsMulticast_def ip_Equal_def IPv4zero_def IPv6unspecified_def IPv6loopback_def

lemma unsafeIP_v4: "unsafeIP [a, b, c, d] = reserved [a, b, c, d]"
  unfolding reserved_within reserved_numbers address_classes
  by (simp add: within_def v4mapped_def upt_rec numeral_eq_Suc) auto

lemma length_16_cases:
  assumes "length xs = 16"
  obtains x0 x1 x2 x3 x4 x5 x6 x7 x8 x9 x10 x11 x12 x13 x14 x15
  where "xs = [x0, x1, x2, x3, x4, x5, x6, x7, x8, x9, x10, x11, x12, x13, x14, x15]"
proof -
  from assms have "xs = map ((!) xs) [0..<16]" by (metis map_nth)
  also have "\<dots> = [xs ! 0, xs ! 1, xs ! 2, xs ! 3, xs ! 4, xs ! 5, xs ! 6, xs ! 7, xs ! 8, xs ! 9, xs ! 10, xs ! 11,
      xs ! 12, xs ! 13, xs ! 14, xs ! 15]"
    by (simp add: upt_rec numeral_eq_Suc)
  finally show thesis by (rule that)
qed

lemma unsafeIP_mapped: "length ip4 = 4 \<Longrightarrow> unsafeIP (v4mapped ip4) = unsafeIP ip4"
  by (elim length_4_cases) (simp add: address_classes To4_def v4mapped_def numeral_eq_Suc)

lemma To4_mapped: "length ip4 = 4 \<Longrightarrow> To4 (v4mapped ip4) = Some ip4"
  by (simp add: To4_def v4mapped_def)

lemma reserved_mapped: "length ip4 = 4 \<Longrightarrow> reserved (v4mapped ip4) = reserved ip4"
  by (elim length_4_cases) (simp add: reserved_within To4_mapped)

lemma To4_16: "length ip = 16 \<Longrightarrow> To4 ip = Some ip4 \<Longrightarrow> length ip4 = 4 \<and> ip = v4mapped ip4"
  by (auto simp: To4_def v4mapped_def split: if_splits) (metis append_take_drop_id append.assoc append_Cons append_Nil)

lemma unsafeIP_v6:
  assumes "length ip = 16" and none: "To4 ip = None"
  shows "unsafeIP ip = reserved ip"
proof -
  obtain x0 x1 x2 x3 x4 x5 x6 x7 x8 x9 x10 x11 x12 x13 x14 x15
    where ip: "ip = [x0, x1, x2, x3, x4, x5, x6, x7, x8, x9, x10, x11, x12, x13, x14, x15]"
    using assms(1) by (rule length_16_cases)
  have "\<not> (ip = IPv4zero)" using none by (auto simp: IPv4zero_def To4_mapped)
  then show ?thesis
    using none unfolding reserved_within reserved_numbers address_classes ip
    by (simp add: within_def v4mapped_def upt_rec numeral_eq_Suc) auto
qed

text \<open>The methods of the net package that the policy combines describe exactly the table.\<close>

lemma unsafeIP_reserved:
  assumes "length ip = 4 \<or> length ip = 16"
  shows "unsafeIP ip = reserved ip"
proof (cases "length ip = 4")
  case True
  then show ?thesis by (elim length_4_cases) (simp add: unsafeIP_v4)
next
  case False
  with assms have len: "length ip = 16" by simp
  show ?thesis
  proof (cases "To4 ip")
    case None
    with len show ?thesis by (rule unsafeIP_v6)
  next
    case (Some ip4)
    with len have ip4: "length ip4 = 4" and ip: "ip = v4mapped ip4" by (auto dest: To4_16)
    from ip4 show ?thesis
      unfolding ip by (elim length_4_cases) (simp add: unsafeIP_mapped reserved_mapped unsafeIP_v4)
  qed
qed

subsection \<open>What the dial function may reach\<close>

lemma safeDial_Inr:
  "safeDialContext splitHostPort resolve p address = Inr (ip, port) \<longleftrightarrow>
     (\<exists>host resolved. splitHostPort address = Some (host, port) \<and> resolve (normalizeHost host) = Some resolved \<and>
        (hostAllowed p (normalizeHost host) \<or> publicHostAllowed p (normalizeHost host)) \<and>
        find (\<lambda>candidate. hostAllowed p (normalizeHost host) \<or> ipAllowed p candidate) resolved = Some ip)"
  by (auto simp: safeDialContext_def Let_def split: option.splits prod.splits)

lemma getenv_empty:
  "ServiceURLPolicyFromEnv parseCIDR (\<lambda>_. []) =
     \<lparr>AllowedHosts = [], AllowedCIDRs = [], PublicAllowedHosts = [], RequirePublicAllowlist = True\<rparr>"
  by (simp add: ServiceURLPolicyFromEnv_def hosts_from_def cidrs_from_def envBoolDefault_def normalizeHost_def toLower_def
      map_filter_simps)


definition sample_policy :: service_url_policy where
  "sample_policy = ServiceURLPolicyFromEnv (\<lambda>_. None)
     (\<lambda>key. if key = ''AUTOSTREAM_SERVICE_PUBLIC_ALLOWED_HOSTS'' then ''*.example.org'' else [])"

definition sample_resolver :: "string \<Rightarrow> ip list option" where
  "sample_resolver name = (if name = ''node.example.org'' then Some [[10, 0, 0, 1], v4mapped [127, 0, 0, 1], [93, 184, 216, 34]] else None)"

definition sample_split :: "string \<Rightarrow> (string \<times> string) option" where
  "sample_split address = (if address = ''Node.example.org.:443'' then Some (''Node.example.org.'', ''443'') else None)"


text \<open>
  The two halves of the policy disagree on addresses that only \<^verbatim>\<open>AUTOSTREAM_SERVICE_ALLOWED_CIDRS\<close>
  allows: the URL is accepted, and the dial function refuses the host before it looks at the address.
\<close>

definition cidr_policy :: service_url_policy where
  "cidr_policy = ServiceURLPolicyFromEnv (\<lambda>s. if s = ''10.0.0.0/8'' then Some (v4net [10, 0, 0, 0] [0xff, 0, 0, 0]) else None)
     (\<lambda>key. if key = ''AUTOSTREAM_SERVICE_ALLOWED_CIDRS'' then ''10.0.0.0/8'' else [])"

lemma cidr_url_accepted_not_dialled:
  "ValidateURL (\<lambda>_. Some \<lparr>url_Scheme = ''http'', url_Host = ''10.1.2.3:8080'', url_Hostname = ''10.1.2.3'', url_Port = ''8080'',
       url_User = None, url_Fragment = [], url_Query = []\<rparr>) (\<lambda>_. Some [10, 1, 2, 3]) cidr_policy ''http://10.1.2.3:8080'' = None \<and>
   safeDialContext (\<lambda>_. Some (''10.1.2.3'', ''8080'')) (\<lambda>_. Some [[10, 1, 2, 3]]) cidr_policy ''10.1.2.3:8080'' =
     Inl ErrBlockedServiceURL"
  by code_simp

end
