(* ===== verification/Service_Catalog.thy ===== *)
theory Service_Catalog
  imports Node_Tokens Outbound_Policy
begin

text \<open>
  The service catalogue: how a node is created ahead of time, registers, reports and is edited
  (\<^verbatim>\<open>memory_service_registration.go\<close>, \<^verbatim>\<open>memory_service_reports.go\<close>, \<^verbatim>\<open>memory_service_catalog.go\<close>, and
  \<^verbatim>\<open>WriteStreamEvent\<close>), with the checks of \<^verbatim>\<open>service_registration_validation.go\<close> and the sanitizers of
  \<^verbatim>\<open>service_reports_mariadb.go\<close>.

  The parameter \<open>parseURL\<close> is \<^verbatim>\<open>url.Parse\<close>; \<open>urlAllowed\<close> is the check of the outbound policy that the
  environment configures, \<open>ValidateURL\<close> applied to \<open>ServiceURLPolicyFromEnv\<close>, true when it returns nil.
\<close>

subsection \<open>Sanitizers\<close>

definition secretKeyTokens :: "string list" where
  "secretKeyTokens =
     [''password'', ''passwd'', ''token'', ''api_key'', ''apikey'', ''private_key'', ''credential'', ''webhook_url'',
      ''stream_key'', ''client_secret'', ''refresh_token'', ''access_token'', ''authorization'', ''folder_id'',
      ''drive_folder_id'', ''google_drive_folder_id'', ''gdrive_folder_id'']"

definition serviceCapabilitySecretKey :: "string \<Rightarrow> bool" where
  "serviceCapabilitySecretKey key \<longleftrightarrow> list_ex (contains (toLower (trimSpace key))) secretKeyTokens"

definition sensitivePatterns :: "string list" where
  "sensitivePatterns =
     [''bearer '', ''authorization:'', ''password='', ''token='', ''access_token='', ''refresh_token='',
      ''discord.com/api/webhooks/'', ''hooks.slack.com/services/'', ''-----begin private key-----'']"

definition secretLikeValue :: "(string \<Rightarrow> url option) \<Rightarrow> string \<Rightarrow> bool" where
  "secretLikeValue parseURL value0 =
     (let value = trimSpace value0 in
      if value = [] then False
      else if list_ex (contains (toLower value)) sensitivePatterns then True
      else (case parseURL value of None \<Rightarrow> False | Some parsed \<Rightarrow> url_Scheme parsed \<noteq> [] \<and> url_User parsed \<noteq> None))"

text \<open>
  One entry of an object. Keys that become equal by trimming overwrite each other in the order of
  the iteration.
\<close>

definition keep_entry :: "any gomap \<Rightarrow> string \<times> any \<Rightarrow> any gomap" where
  "keep_entry out entry =
     (let key = trimSpace (fst entry) in
      if key = [] \<or> serviceCapabilitySecretKey key then out else mput out key (snd entry))"

function sanitizeServiceCapabilityValue :: "(string \<Rightarrow> url option) \<Rightarrow> any \<Rightarrow> any" where
  "sanitizeServiceCapabilityValue parseURL ANil = ANil"
| "sanitizeServiceCapabilityValue parseURL (ABool b) = ABool b"
| "sanitizeServiceCapabilityValue parseURL (AStr s) = AStr (if secretLikeValue parseURL s then ''<redacted>'' else s)"
| "sanitizeServiceCapabilityValue parseURL (ANum n) = ANum n"
| "sanitizeServiceCapabilityValue parseURL (AArr xs) = AArr (map (sanitizeServiceCapabilityValue parseURL) xs)"
| "sanitizeServiceCapabilityValue parseURL (AObj m) =
     AObj (foldl keep_entry [] (map (\<lambda>x. (fst x, sanitizeServiceCapabilityValue parseURL (snd x))) m))"
  by pat_completeness auto
termination
  by (relation "measure (\<lambda>(_, v). size v)") (auto simp del: any.size dest: size_any_entry size_any_item)

definition sanitizeServiceCapabilities :: "(string \<Rightarrow> url option) \<Rightarrow> any gomap \<Rightarrow> any gomap" where
  "sanitizeServiceCapabilities parseURL capabilities =
     foldl keep_entry [] (map (\<lambda>x. (fst x, sanitizeServiceCapabilityValue parseURL (snd x))) capabilities)"

text \<open>\<^verbatim>\<open>sanitizeServiceEventPayload\<close> and \<^verbatim>\<open>sanitizeServiceEventValue\<close> have the same bodies as the two functions above.\<close>

definition sanitizeServiceEventPayload :: "(string \<Rightarrow> url option) \<Rightarrow> any gomap \<Rightarrow> any gomap" where
  "sanitizeServiceEventPayload parseURL payload =
     foldl keep_entry [] (map (\<lambda>x. (fst x, sanitizeServiceCapabilityValue parseURL (snd x))) payload)"

fun isNumber :: "any \<Rightarrow> bool" where
  "isNumber (ANum _) = True"
| "isNumber _ = False"

definition sanitizeServiceMetrics :: "any gomap \<Rightarrow> any gomap" where
  "sanitizeServiceMetrics metrics = filter (\<lambda>(key, value). trimSpace key \<noteq> [] \<and> isNumber value) metrics"

fun serviceMetricSnapshotNumber :: "any \<Rightarrow> float64 option" where
  "serviceMetricSnapshotNumber (ANum value) = Some value"
| "serviceMetricSnapshotNumber _ = None"

subsection \<open>Registrations\<close>

definition id_head :: "char \<Rightarrow> bool" where
  "id_head c \<longleftrightarrow> (CHR ''A'' \<le> c \<and> c \<le> CHR ''Z'') \<or> (CHR ''a'' \<le> c \<and> c \<le> CHR ''z'') \<or> (CHR ''0'' \<le> c \<and> c \<le> CHR ''9'')"

definition id_tail :: "char \<Rightarrow> bool" where
  "id_tail c \<longleftrightarrow> id_head c \<or> c \<in> set ''._:-''"

definition id_pattern :: "int \<Rightarrow> string \<Rightarrow> bool" where
  "id_pattern limit s = (case s of [] \<Rightarrow> False | c # cs \<Rightarrow> id_head c \<and> list_all id_tail cs \<and> int (length cs) \<le> limit)"

definition serviceIDPattern :: "string \<Rightarrow> bool" where
  "serviceIDPattern = id_pattern 127"

definition executionHostIDPattern :: "string \<Rightarrow> bool" where
  "executionHostIDPattern = id_pattern 190"

record service_registration =
  rg_ServiceID :: string
  rg_ServiceType :: string
  rg_ServiceName :: string
  rg_Description :: string
  rg_TransportMode :: string
  rg_ExecutionHostID :: string
  rg_OwnershipEpoch :: int
  rg_Host :: string
  rg_Port :: int
  rg_SSLEnabled :: bool
  rg_PublicURL :: string
  rg_Version :: string
  rg_Commit :: string
  rg_BuildDate :: string
  rg_Capabilities :: "any gomap"
  rg_Hostname :: string
  rg_OS :: string
  rg_Arch :: string

definition buildServiceURL :: "string \<Rightarrow> int \<Rightarrow> bool \<Rightarrow> string" where
  "buildServiceURL host0 port sslEnabled =
     (let host = trimSpace host0 in
      if host = [] \<or> port \<le> 0 then []
      else (if sslEnabled then ''https'' else ''http'') @ ''://'' @ host @ '':'' @ decimal (nat port))"

text \<open>\<^verbatim>\<open>strconv.Atoi\<close> on the digits of a port; a number beyond 64 bits is an error.\<close>

definition digit :: "char \<Rightarrow> bool" where
  "digit c \<longleftrightarrow> CHR ''0'' \<le> c \<and> c \<le> CHR ''9''"

definition atoi :: "string \<Rightarrow> int option" where
  "atoi s =
     (if s = [] \<or> \<not> list_all digit s then None
      else let n = foldl (\<lambda>n c. 10 * n + (of_char c - 48)) 0 s in if n < 2 ^ 63 then Some n else None)"

definition endpointFromServiceURL :: "(string \<Rightarrow> url option) \<Rightarrow> string \<Rightarrow> string \<times> int \<times> bool" where
  "endpointFromServiceURL parseURL raw =
     (case parseURL (trimSpace raw) of
        None \<Rightarrow> ([], 0, False)
      | Some parsed \<Rightarrow>
        if url_Hostname parsed = [] then ([], 0, False)
        else let port = (if url_Port parsed \<noteq> [] then (case atoi (url_Port parsed) of Some v \<Rightarrow> v | None \<Rightarrow> 0) else 0);
                 sslEnabled = (url_Scheme parsed = ''https'') in
          (url_Hostname parsed,
           (if port = 0 then (if sslEnabled then 443 else if url_Scheme parsed = ''http'' then 80 else 0) else port),
           sslEnabled))"

definition normalizeServiceRegistration :: "(string \<Rightarrow> url option) \<Rightarrow> service_registration \<Rightarrow> service_registration" where
  "normalizeServiceRegistration parseURL registration =
     (let r = registration\<lparr>rg_ServiceID := trimSpace (rg_ServiceID registration),
            rg_ServiceType := trimSpace (rg_ServiceType registration),
            rg_ServiceName := trimSpace (rg_ServiceName registration),
            rg_Description := trimSpace (rg_Description registration),
            rg_TransportMode := toLower (trimSpace (rg_TransportMode registration)),
            rg_ExecutionHostID := trimSpace (rg_ExecutionHostID registration),
            rg_Host := trimSpace (rg_Host registration),
            rg_PublicURL := trimSpace (rg_PublicURL registration),
            rg_Version := trimSpace (rg_Version registration),
            rg_Commit := truncateServiceReportedValue (trimSpace (rg_Commit registration)) 80,
            rg_BuildDate := truncateServiceReportedValue (trimSpace (rg_BuildDate registration)) 80,
            rg_Hostname := trimSpace (rg_Hostname registration),
            rg_OS := trimSpace (rg_OS registration),
            rg_Arch := trimSpace (rg_Arch registration)\<rparr> in
      if rg_ServiceType r = ''update_agent'' then r
      else let r1 = (if rg_Host r = [] \<or> rg_Port r = 0
             then (case endpointFromServiceURL parseURL (rg_PublicURL r) of (host, port, sslEnabled) \<Rightarrow>
               r\<lparr>rg_Host := (if rg_Host r = [] then host else rg_Host r),
                 rg_Port := (if rg_Port r = 0 then port else rg_Port r), rg_SSLEnabled := sslEnabled\<rparr>)
             else r) in
        if rg_PublicURL r1 = []
        then r1\<lparr>rg_PublicURL := buildServiceURL (rg_Host r1) (rg_Port r1) (rg_SSLEnabled r1)\<rparr>
        else r1)"

definition validateServiceRegistration ::
  "(string \<Rightarrow> url option) \<Rightarrow> (string \<Rightarrow> bool) \<Rightarrow> service_registration \<Rightarrow> store_error option" where
  "validateServiceRegistration parseURL urlAllowed registration =
     (let r = normalizeServiceRegistration parseURL registration in
      if \<not> serviceIDPattern (rg_ServiceID r) \<or> equalFold (rg_ServiceID r) ''control-panel'' \<or> trimSpace (rg_ServiceName r) = []
      then Some ErrInvalidServiceRegistration
      else if \<not> validateServiceType (rg_ServiceType r) then Some (ErrOther ''invalid service type'')
      else if rg_ServiceType r = ''update_agent''
      then (if rg_TransportMode r \<noteq> SystemUpdateTransportPullV2 \<or> \<not> executionHostIDPattern (rg_ExecutionHostID r) \<or>
              rg_OwnershipEpoch r < 0 \<or> rg_Host r \<noteq> [] \<or> rg_Port r \<noteq> 0 \<or> rg_SSLEnabled r \<or> rg_PublicURL r \<noteq> []
            then Some ErrInvalidServiceRegistration else None)
      else if rg_TransportMode r \<noteq> [] \<or> rg_ExecutionHostID r \<noteq> [] \<or> rg_OwnershipEpoch r \<noteq> 0
      then Some ErrInvalidServiceRegistration
      else if trimSpace (rg_PublicURL r) = [] \<or> rg_Port r < 1 \<or> rg_Port r > 65535 then Some ErrInvalidServiceRegistration
      else if \<not> urlAllowed (rg_PublicURL r) then Some ErrInvalidServiceRegistration
      else None)"

definition bindPrecreatedUpdateAgentRegistration ::
  "service_registration \<Rightarrow> string \<Rightarrow> string \<Rightarrow> int \<Rightarrow> service_registration" where
  "bindPrecreatedUpdateAgentRegistration registration transportMode executionHostID ownershipEpoch =
     (if rg_ServiceType registration \<noteq> ''update_agent'' then registration
      else registration\<lparr>rg_TransportMode := toLower (trimSpace transportMode),
        rg_ExecutionHostID := trimSpace executionHostID, rg_OwnershipEpoch := ownershipEpoch\<rparr>)"

definition serviceEndpoint ::
  "(string \<Rightarrow> url option) \<Rightarrow> string \<Rightarrow> int \<Rightarrow> bool \<Rightarrow> string \<Rightarrow> service_endpoint option" where
  "serviceEndpoint parseURL host0 port0 ssl0 publicURL0 =
     (let host1 = trimSpace host0; publicURL1 = trimSpace publicURL0;
          (host, port, ssl) = (if host1 = [] \<or> port0 = 0
            then (case endpointFromServiceURL parseURL publicURL1 of (urlHost, urlPort, urlSSL) \<Rightarrow>
              (if host1 = [] then urlHost else host1, if port0 = 0 then urlPort else port0,
               if urlHost \<noteq> [] then urlSSL else ssl0))
            else (host1, port0, ssl0));
          publicURL = (if publicURL1 = [] then buildServiceURL host port ssl else publicURL1) in
      if host = [] \<or> port < 1 \<or> port > 65535 \<or> publicURL = [] then None
      else Some \<lparr>ep_Host = host, ep_Port = port, ep_SSLEnabled = ssl, ep_PublicURL = publicURL\<rparr>)"

definition hydrateServiceEndpointState :: "(string \<Rightarrow> url option) \<Rightarrow> registered_service \<Rightarrow> registered_service" where
  "hydrateServiceEndpointState parseURL service =
     (let applied = (case sv_AppliedEndpoint service of
            None \<Rightarrow> serviceEndpoint parseURL (sv_Host service) (sv_Port service) (sv_SSLEnabled service) (sv_PublicURL service)
          | Some e \<Rightarrow> Some e) in
      service\<lparr>sv_AppliedEndpoint := applied,
        sv_DesiredEndpoint := (case sv_DesiredEndpoint service of None \<Rightarrow> applied | Some e \<Rightarrow> Some e),
        sv_EndpointRevision := (if sv_EndpointRevision service = 0 then 1 else sv_EndpointRevision service),
        sv_EndpointStatus := (if sv_EndpointStatus service = [] then ''applied'' else sv_EndpointStatus service),
        sv_AppliedConfigRevision := (if sv_AppliedConfigRevision service = 0 then 1 else sv_AppliedConfigRevision service)\<rparr>)"

text \<open>The fields both registering operations copy from the registration.\<close>

definition registration_fields :: "service_registration \<Rightarrow> string \<Rightarrow> time \<Rightarrow> registered_service" where
  "registration_fields r tokenID now =
     zero_service\<lparr>sv_ServiceID := rg_ServiceID r, sv_ServiceType := rg_ServiceType r, sv_ServiceName := rg_ServiceName r,
       sv_Description := rg_Description r, sv_TransportMode := rg_TransportMode r, sv_ExecutionHostID := rg_ExecutionHostID r,
       sv_OwnershipEpoch := rg_OwnershipEpoch r, sv_Host := rg_Host r, sv_Port := rg_Port r, sv_SSLEnabled := rg_SSLEnabled r,
       sv_PublicURL := rg_PublicURL r, sv_Version := rg_Version r, sv_TokenID := tokenID, sv_CreatedAt := now, sv_UpdatedAt := now\<rparr>"

definition PrecreateService ::
  "(string \<Rightarrow> url option) \<Rightarrow> (string \<Rightarrow> bool) \<Rightarrow> ctx \<Rightarrow> service_token \<Rightarrow> service_registration \<Rightarrow> time \<Rightarrow>
   auth_store \<Rightarrow> (registered_service, auth_store) outcome" where
  "PrecreateService parseURL urlAllowed c token registration now = with_ctx c (\<lambda>a.
     if rg_ServiceType registration \<noteq> tk_ServiceType token then (Inl ErrForbidden, a)
     else let r = normalizeServiceRegistration parseURL registration in
       (case validateServiceRegistration parseURL urlAllowed r of
         Some e \<Rightarrow> (Inl e, a)
       | None \<Rightarrow>
         let capabilities = sanitizeServiceCapabilities parseURL (rg_Capabilities r);
             svc = hydrateServiceEndpointState parseURL ((registration_fields r (tk_ID token) now)
               \<lparr>sv_ReportedVersion := [], sv_Status := ''pending'', sv_Capabilities := capabilities,
                sv_ReportedCapabilities := capabilities, sv_Metrics := [], sv_NodeTokenRotatedAt := Some (tk_CreatedAt token)\<rparr>) in
         if mget (services a) (sv_ServiceID svc) \<noteq> None then (Inl ErrAlreadyExists, a)
         else (Inr svc, put_service (sv_ServiceID svc) svc a)))"

definition fresh_registration ::
  "(string \<Rightarrow> url option) \<Rightarrow> service_registration \<Rightarrow> string \<Rightarrow> time \<Rightarrow> registered_service" where
  "fresh_registration parseURL r tokenID now =
     (let capabilities = sanitizeServiceCapabilities parseURL (rg_Capabilities r) in
      hydrateServiceEndpointState parseURL ((registration_fields r tokenID now)
        \<lparr>sv_ReportedVersion := rg_Version r, sv_ReportedCommit := rg_Commit r, sv_ReportedBuildDate := rg_BuildDate r,
         sv_Status := ''registered'', sv_Capabilities := capabilities, sv_ReportedCapabilities := capabilities,
         sv_ReportedHostname := rg_Hostname r, sv_ReportedOS := rg_OS r, sv_ReportedArch := rg_Arch r,
         sv_LastReportedAt := Some now\<rparr>))"

text \<open>What a registration keeps of the service it replaces, in the order of the source.\<close>

definition keep_endpoint ::
  "(string \<Rightarrow> url option) \<Rightarrow> service_registration \<Rightarrow> registered_service \<Rightarrow> registered_service \<Rightarrow> registered_service" where
  "keep_endpoint parseURL r existing svc =
     (if sv_Status existing = ''pending'' then svc
      else svc\<lparr>sv_Host := sv_Host existing, sv_Port := sv_Port existing, sv_SSLEnabled := sv_SSLEnabled existing,
        sv_PublicURL := sv_PublicURL existing, sv_DesiredEndpoint := sv_DesiredEndpoint existing,
        sv_AppliedEndpoint := sv_AppliedEndpoint existing, sv_EndpointRevision := sv_EndpointRevision existing,
        sv_AppliedEndpointRevision := sv_AppliedEndpointRevision existing, sv_EndpointStatus := sv_EndpointStatus existing,
        sv_ReportedEndpoint := serviceEndpoint parseURL (rg_Host r) (rg_Port r) (rg_SSLEnabled r) (rg_PublicURL r)\<rparr>)"

definition keep_node :: "registered_service \<Rightarrow> registered_service \<Rightarrow> registered_service" where
  "keep_node existing svc =
     svc\<lparr>sv_CreatedAt := sv_CreatedAt existing, sv_LastHeartbeatAt := sv_LastHeartbeatAt existing,
       sv_CurrentStreamID := sv_CurrentStreamID existing, sv_Metrics := sv_Metrics existing,
       sv_NodeTokenCiphertext := sv_NodeTokenCiphertext existing, sv_NodeTokenNonce := sv_NodeTokenNonce existing,
       sv_StagedNodePreviousTokenID := sv_StagedNodePreviousTokenID existing,
       sv_StagedNodeTokenID := sv_StagedNodeTokenID existing, sv_StagedNodeTokenHash := sv_StagedNodeTokenHash existing,
       sv_StagedNodeTokenScopes := sv_StagedNodeTokenScopes existing,
       sv_StagedNodeTokenCiphertext := sv_StagedNodeTokenCiphertext existing,
       sv_StagedNodeTokenNonce := sv_StagedNodeTokenNonce existing,
       sv_StagedNodeActivationTokenHash := sv_StagedNodeActivationTokenHash existing,
       sv_StagedNodeTokenAt := sv_StagedNodeTokenAt existing, sv_ConfigureTokenHash := sv_ConfigureTokenHash existing,
       sv_ConfigureTokenExpiresAt := sv_ConfigureTokenExpiresAt existing,
       sv_ConfigureTokenUsedAt := sv_ConfigureTokenUsedAt existing,
       sv_NodeTokenRotatedAt := sv_NodeTokenRotatedAt existing\<rparr>"

definition registered ::
  "(string \<Rightarrow> url option) \<Rightarrow> service_registration \<Rightarrow> registered_service \<Rightarrow> string \<Rightarrow> time \<Rightarrow> registered_service" where
  "registered parseURL r existing tokenID now =
     (let svc = fresh_registration parseURL r tokenID now;
          svc1 = (if sv_ServiceType existing = ''update_agent'' \<and> sv_Status existing \<noteq> ''pending''
            then svc\<lparr>sv_Capabilities := sv_Capabilities existing\<rparr> else svc);
          svc2 = keep_endpoint parseURL r existing svc1;
          svc3 = (if sv_AppliedConfigRevision existing > 0
            then svc2\<lparr>sv_AppliedConfigRevision := sv_AppliedConfigRevision existing,
              sv_AppliedConfigSHA256 := sv_AppliedConfigSHA256 existing\<rparr> else svc2);
          svc4 = (if sv_ServiceType existing = ''update_agent''
            then svc3\<lparr>sv_TransportMode := sv_TransportMode existing, sv_ExecutionHostID := sv_ExecutionHostID existing,
              sv_OwnershipEpoch := sv_OwnershipEpoch existing\<rparr> else svc3);
          svc5 = keep_node existing svc4 in
      if sv_Status existing = ''assigned'' \<or> sv_Status existing = ''restart_requested''
      then svc5\<lparr>sv_Status := sv_Status existing\<rparr> else svc5)"

definition RegisterService ::
  "(string \<Rightarrow> url option) \<Rightarrow> (string \<Rightarrow> bool) \<Rightarrow> ctx \<Rightarrow> service_token \<Rightarrow> service_registration \<Rightarrow> time \<Rightarrow>
   auth_store \<Rightarrow> (registered_service, auth_store) outcome" where
  "RegisterService parseURL urlAllowed c token registration now = with_ctx c (\<lambda>a.
     if rg_ServiceType registration \<noteq> tk_ServiceType token then (Inl ErrForbidden, a)
     else let r0 = normalizeServiceRegistration parseURL registration in
       (case mget (services a) (rg_ServiceID r0) of
         None \<Rightarrow> (Inl ErrForbidden, a)
       | Some existing \<Rightarrow>
         if sv_ServiceType existing \<noteq> rg_ServiceType r0 \<or> sv_TokenID existing \<noteq> tk_ID token then (Inl ErrForbidden, a)
         else let r = bindPrecreatedUpdateAgentRegistration r0 (sv_TransportMode existing) (sv_ExecutionHostID existing)
                (sv_OwnershipEpoch existing) in
           (case validateServiceRegistration parseURL urlAllowed r of
             Some e \<Rightarrow> (Inl e, a)
           | None \<Rightarrow> let svc = registered parseURL r existing (tk_ID token) now in
             (Inr svc, put_service (sv_ServiceID svc) svc a))))"

subsection \<open>Reports\<close>

record node_agent_api =
  na_Host :: string
  na_Port :: int
  na_SSLEnabled :: bool

record service_heartbeat =
  hb_ServiceID :: string
  hb_NodeID :: string
  hb_NodeIDSnake :: string
  hb_Status :: string
  hb_CurrentStreamID :: string
  hb_Version :: string
  hb_Commit :: string
  hb_BuildDate :: string
  hb_Capabilities :: "any gomap"
  hb_Hostname :: string
  hb_OS :: string
  hb_Arch :: string
  hb_API :: "node_agent_api option"
  hb_Metrics :: "any gomap"

definition metric_snapshot :: "registered_service \<Rightarrow> time \<Rightarrow> string \<times> any \<Rightarrow> service_metric_snapshot option" where
  "metric_snapshot service observedAt entry =
     map_option (\<lambda>value. \<lparr>ms_Name = fst entry, ms_ServiceID = sv_ServiceID service, ms_ServiceType = sv_ServiceType service,
       ms_Status = sv_Status service, ms_Value = value, ms_ObservedAt = observedAt\<rparr>) (serviceMetricSnapshotNumber (snd entry))"

definition recordMetricHistoryLocked :: "registered_service \<Rightarrow> time \<Rightarrow> auth_store \<Rightarrow> auth_store" where
  "recordMetricHistoryLocked service observedAt a =
     (let cutoff = observedAt - 3 * 3600 * second in
      a\<lparr>metricHistory := filter (\<lambda>snapshot. ms_ObservedAt snapshot \<ge> cutoff) (metricHistory a) @
          List.map_filter (metric_snapshot service observedAt) (sv_Metrics service)\<rparr>)"

definition beaten :: "(string \<Rightarrow> url option) \<Rightarrow> service_heartbeat \<Rightarrow> time \<Rightarrow> registered_service \<Rightarrow> registered_service" where
  "beaten parseURL h now svc =
     (let commit = truncateServiceReportedValue (trimSpace (hb_Commit h)) 80;
          buildDate = truncateServiceReportedValue (trimSpace (hb_BuildDate h)) 80;
          reported = sanitizeServiceCapabilities parseURL (hb_Capabilities h) in
      svc\<lparr>sv_Status := hb_Status h, sv_LastHeartbeatAt := Some now,
        sv_CurrentStreamID := (if hb_CurrentStreamID h \<noteq> [] then hb_CurrentStreamID h else sv_CurrentStreamID svc),
        sv_Metrics := sanitizeServiceMetrics (hb_Metrics h),
        sv_Version := given (trimSpace (hb_Version h)) (sv_Version svc),
        sv_ReportedVersion := given (trimSpace (hb_Version h)) (sv_ReportedVersion svc),
        sv_ReportedCommit := given commit (sv_ReportedCommit svc),
        sv_ReportedBuildDate := given buildDate (sv_ReportedBuildDate svc),
        sv_Capabilities := (if hb_Capabilities h \<noteq> [] \<and> sv_ServiceType svc \<noteq> ''update_agent'' then reported else sv_Capabilities svc),
        sv_ReportedCapabilities := (if hb_Capabilities h \<noteq> [] then reported else sv_ReportedCapabilities svc),
        sv_ReportedHostname := given (trimSpace (hb_Hostname h)) (sv_ReportedHostname svc),
        sv_ReportedOS := given (trimSpace (hb_OS h)) (sv_ReportedOS svc),
        sv_ReportedArch := given (trimSpace (hb_Arch h)) (sv_ReportedArch svc),
        sv_ReportedEndpoint := (case hb_API h of
            None \<Rightarrow> sv_ReportedEndpoint svc
          | Some api \<Rightarrow> if trimSpace (na_Host api) \<noteq> [] \<and> 1 \<le> na_Port api \<and> na_Port api \<le> 65535
              then serviceEndpoint parseURL (trimSpace (na_Host api)) (na_Port api) (na_SSLEnabled api) []
              else sv_ReportedEndpoint svc),
        sv_LastReportedAt := (if hb_Version h \<noteq> [] \<or> commit \<noteq> [] \<or> buildDate \<noteq> [] \<or> hb_Capabilities h \<noteq> [] \<or>
            hb_Hostname h \<noteq> [] \<or> hb_OS h \<noteq> [] \<or> hb_Arch h \<noteq> [] \<or> hb_API h \<noteq> None
          then Some now else sv_LastReportedAt svc),
        sv_UpdatedAt := now\<rparr>)"

text \<open>The service is written under its own identifier, which is the key it was found under.\<close>

definition Heartbeat ::
  "(string \<Rightarrow> url option) \<Rightarrow> ctx \<Rightarrow> service_token \<Rightarrow> service_heartbeat \<Rightarrow> time \<Rightarrow> auth_store \<Rightarrow>
   (registered_service, auth_store) outcome" where
  "Heartbeat parseURL c token heartbeat now = with_ctx c (\<lambda>a.
     let id1 = (if hb_ServiceID heartbeat = [] then trimSpace (hb_NodeID heartbeat) else hb_ServiceID heartbeat);
         id2 = (if id1 = [] then trimSpace (hb_NodeIDSnake heartbeat) else id1) in
     (case mget (services a) id2 of
       None \<Rightarrow> (Inl ErrNotFound, a)
     | Some svc \<Rightarrow>
       if sv_TokenID svc \<noteq> tk_ID token then (Inl ErrForbidden, a)
       else (case mget (serviceTokens a) (tk_ID token) of
         None \<Rightarrow> (Inl ErrForbidden, a)
       | Some activeToken \<Rightarrow>
         if tk_RevokedAt activeToken \<noteq> None then (Inl ErrForbidden, a)
         else if hb_CurrentStreamID heartbeat \<noteq> [] \<and> \<not> isAssignedLocked a id2 (hb_CurrentStreamID heartbeat)
         then (Inl ErrForbidden, a)
         else let svc' = beaten parseURL heartbeat now svc in
           (Inr svc', recordMetricHistoryLocked svc' now (put_service (sv_ServiceID svc') svc' a)))))"

definition UpdateServiceRuntimeReport ::
  "ctx \<Rightarrow> service_runtime_report \<Rightarrow> time \<Rightarrow> auth_store \<Rightarrow> (registered_service, auth_store) outcome" where
  "UpdateServiceRuntimeReport c report0 now = with_ctx c (\<lambda>a.
     let report = normalizeServiceRuntimeReport report0 in
     if rr_ServiceID report = [] then (Inl ErrNotFound, a)
     else (case mget (services a) (rr_ServiceID report) of
       None \<Rightarrow> (Inl ErrNotFound, a)
     | Some svc \<Rightarrow> let svc' = applyServiceRuntimeReport svc report now in
         (Inr svc', put_service (sv_ServiceID svc') svc' a)))"

text \<open>
  The history grouped into series; within a series the points are thinned to the last point of
  each of \<open>maxPoints\<close> buckets.
\<close>

definition series_key :: "service_metric_snapshot \<Rightarrow> string" where
  "series_key snapshot = ms_ServiceID snapshot @ [NUL] @ ms_ServiceType snapshot @ [NUL] @ ms_Name snapshot"

definition group_series :: "service_metric_snapshot list \<Rightarrow> service_metric_snapshot list gomap" where
  "group_series snapshots =
     foldl (\<lambda>series snapshot. mput series (series_key snapshot) (mlist series (series_key snapshot) @ [snapshot])) [] snapshots"

definition thin_series :: "nat \<Rightarrow> service_metric_snapshot list \<Rightarrow> service_metric_snapshot list" where
  "thin_series maxPoints points0 =
     (let points = sort_key ms_ObservedAt points0 in
      if length points \<le> maxPoints then points
      else List.map_filter (\<lambda>bucket.
        let finish = (bucket + 1) * length points div maxPoints; start = bucket * length points div maxPoints in
        if finish > start then Some (points ! (finish - 1)) else None) [0..<maxPoints])"

definition ListServiceMetricSnapshots ::
  "ctx \<Rightarrow> time \<Rightarrow> int \<Rightarrow> time \<Rightarrow> auth_store \<Rightarrow> (service_metric_snapshot list, auth_store) outcome" where
  "ListServiceMetricSnapshots c since0 maxPointsPerSeries now = with_ctx c (\<lambda>a.
     let since = (if isZero since0 then now - 3 * 3600 * second else since0);
         limit = (if maxPointsPerSeries \<le> 0 then 360 else maxPointsPerSeries);
         series = group_series (filter (\<lambda>snapshot. \<not> ms_ObservedAt snapshot < since) (metricHistory a)) in
     (Inr (sort_key (\<lambda>s. (ms_ObservedAt s, ms_ServiceID s @ ms_Name s))
       (concat (map (\<lambda>(_, points). thin_series (nat limit) points) series))), a))"

subsection \<open>The catalogue\<close>

definition ListServices :: "ctx \<Rightarrow> auth_store \<Rightarrow> (registered_service list, auth_store) outcome" where
  "ListServices c = with_ctx c (\<lambda>a. (Inr (sort_key (\<lambda>svc. (sv_ServiceType svc, sv_ServiceName svc)) (map snd (services a))), a))"

definition ListWorkers :: "ctx \<Rightarrow> auth_store \<Rightarrow> (registered_service list, auth_store) outcome" where
  "ListWorkers c = with_ctx c (\<lambda>a.
     (Inr (sort_key sv_ServiceName (filter (\<lambda>svc. sv_ServiceType svc = ''worker'') (map snd (services a)))), a))"

definition GetService :: "ctx \<Rightarrow> string \<Rightarrow> auth_store \<Rightarrow> (registered_service, auth_store) outcome" where
  "GetService c i = with_ctx c (\<lambda>a. (case mget (services a) i of None \<Rightarrow> Inl ErrNotFound | Some svc \<Rightarrow> Inr svc, a))"

record service_metadata_update =
  mu_ServiceName :: string
  mu_Description :: string
  mu_Host :: string
  mu_Port :: int
  mu_SSLEnabled :: bool
  mu_PublicURL :: string
  mu_Endpointless :: bool
  mu_PreserveEndpoint :: bool

definition normalizeServiceMetadataUpdate ::
  "(string \<Rightarrow> url option) \<Rightarrow> service_metadata_update \<Rightarrow> service_metadata_update" where
  "normalizeServiceMetadataUpdate parseURL update0 =
     (let u = update0\<lparr>mu_ServiceName := trimSpace (mu_ServiceName update0), mu_Description := trimSpace (mu_Description update0),
            mu_Host := trimSpace (mu_Host update0), mu_PublicURL := trimSpace (mu_PublicURL update0)\<rparr>;
          u1 = (if mu_Host u = [] \<or> mu_Port u = 0
            then (case endpointFromServiceURL parseURL (mu_PublicURL u) of (host, port, sslEnabled) \<Rightarrow>
              u\<lparr>mu_Host := (if mu_Host u = [] then host else mu_Host u), mu_Port := (if mu_Port u = 0 then port else mu_Port u),
                mu_SSLEnabled := (if host \<noteq> [] then sslEnabled else mu_SSLEnabled u)\<rparr>)
            else u) in
      if mu_PublicURL u1 = [] then u1\<lparr>mu_PublicURL := buildServiceURL (mu_Host u1) (mu_Port u1) (mu_SSLEnabled u1)\<rparr> else u1)"

definition validateServiceMetadataUpdate ::
  "(string \<Rightarrow> url option) \<Rightarrow> (string \<Rightarrow> bool) \<Rightarrow> service_metadata_update \<Rightarrow> bool" where
  "validateServiceMetadataUpdate parseURL urlAllowed update0 =
     (let u = normalizeServiceMetadataUpdate parseURL update0 in
      if trimSpace (mu_ServiceName u) = [] then False
      else if mu_PreserveEndpoint u then \<not> mu_Endpointless u
      else if mu_Endpointless u
      then \<not> (mu_Host u \<noteq> [] \<or> mu_Port u \<noteq> 0 \<or> mu_SSLEnabled u \<or> mu_PublicURL u \<noteq> [])
      else if trimSpace (mu_PublicURL u) = [] \<or> mu_Port u < 1 \<or> mu_Port u > 65535 then False
      else urlAllowed (mu_PublicURL u))"

definition updated_service ::
  "(string \<Rightarrow> url option) \<Rightarrow> service_metadata_update \<Rightarrow> time \<Rightarrow> registered_service \<Rightarrow> registered_service" where
  "updated_service parseURL u now svc =
     (let svc1 = svc\<lparr>sv_ServiceName := mu_ServiceName u, sv_Description := mu_Description u\<rparr>;
          endpoint = serviceEndpoint parseURL (mu_Host u) (mu_Port u) (mu_SSLEnabled u) (mu_PublicURL u);
          svc2 = (if \<not> mu_Endpointless u \<and> \<not> mu_PreserveEndpoint u
            then svc1\<lparr>sv_Host := mu_Host u, sv_Port := mu_Port u, sv_SSLEnabled := mu_SSLEnabled u,
              sv_PublicURL := mu_PublicURL u, sv_AppliedEndpoint := endpoint, sv_DesiredEndpoint := endpoint,
              sv_EndpointRevision := sv_EndpointRevision svc + 1, sv_EndpointStatus := ''applied''\<rparr>
            else svc1) in
      svc2\<lparr>sv_UpdatedAt := now\<rparr>)"

definition UpdateServiceMetadata ::
  "(string \<Rightarrow> url option) \<Rightarrow> (string \<Rightarrow> bool) \<Rightarrow> ctx \<Rightarrow> string \<Rightarrow> service_metadata_update \<Rightarrow> time \<Rightarrow>
   auth_store \<Rightarrow> (registered_service, auth_store) outcome" where
  "UpdateServiceMetadata parseURL urlAllowed c serviceID update0 now = with_ctx c (\<lambda>a.
     let u = normalizeServiceMetadataUpdate parseURL update0 in
     if trimSpace serviceID = [] then (Inl ErrNotFound, a)
     else if \<not> validateServiceMetadataUpdate parseURL urlAllowed u then (Inl ErrInvalidServiceRegistration, a)
     else (case mget (services a) serviceID of
       None \<Rightarrow> (Inl ErrNotFound, a)
     | Some svc \<Rightarrow>
       if mu_Endpointless u \<and> (sv_ServiceType svc \<noteq> ''update_agent'' \<or> sv_TransportMode svc \<noteq> ''pull_v2'')
       then (Inl ErrInvalidServiceRegistration, a)
       else let svc' = updated_service parseURL u now svc in (Inr svc', put_service serviceID svc' a)))"

subsection \<open>Events\<close>

definition allowedPrefixes :: "string \<Rightarrow> string list" where
  "allowedPrefixes serviceType =
     (if serviceType = ''worker''
      then [''worker.'', ''overlay.'', ''caption.'', ''participant.'', ''active_speaker.'', ''current_time.'']
      else if serviceType = ''encoder_recorder''
      then [''encoder.'', ''recorder.'', ''archive.'', ''gdrive.'', ''media.'', ''rtmp.'', ''stream.'']
      else if serviceType = ''discord_bot'' then [''discord.'', ''participant.'', ''active_speaker.'']
      else if serviceType = ''observability''
      then [''observability.'', ''incident.'', ''diagnostic.'', ''remediation.'', ''notification.'']
      else [])"

definition serviceStreamEventAllowed :: "string \<Rightarrow> string \<Rightarrow> bool" where
  "serviceStreamEventAllowed serviceType eventType0 =
     (let eventType = toLower (trimSpace eventType0) in
      eventType \<noteq> [] \<and> list_ex (\<lambda>p. prefix p eventType) (allowedPrefixes serviceType))"

definition WriteStreamEvent ::
  "(string \<Rightarrow> url option) \<Rightarrow> ctx \<Rightarrow> service_token \<Rightarrow> service_stream_event \<Rightarrow> auth_store \<Rightarrow> (unit, auth_store) outcome" where
  "WriteStreamEvent parseURL c token event = with_ctx c (\<lambda>a.
     case mget (services a) (ev_ServiceID event) of
       None \<Rightarrow> (Inl ErrNotFound, a)
     | Some svc \<Rightarrow>
       if sv_TokenID svc \<noteq> tk_ID token then (Inl ErrForbidden, a)
       else if \<not> serviceStreamEventAllowed (sv_ServiceType svc) (ev_EventType event) then (Inl ErrInvalidServiceStreamEvent, a)
       else if \<not> isAssignedLocked a (ev_ServiceID event) (ev_StreamID event) then (Inl ErrForbidden, a)
       else (Inr (), a\<lparr>streamEvents := streamEvents a @
         [event\<lparr>ev_Payload := sanitizeServiceEventPayload parseURL (ev_Payload event)\<rparr>]\<rparr>))"

end
