(* ===== verification/Node_Steps.thy ===== *)
theory Node_Steps
  imports Service_Catalog Registry_Invariant
begin

text \<open>
  The operations on the tokens and the catalogue as one step relation on the registry, and that they
  keep the registry consistent: no token or report moves an assignment.
\<close>

subsection \<open>Steps\<close>

text \<open>
  What a new identifier and a new secret must be: unknown to the tokens and to the staged
  configurations. Go draws both at random.
\<close>

definition known_id :: "auth_store \<Rightarrow> string \<Rightarrow> bool" where
  "known_id a i \<longleftrightarrow> mget (serviceTokens a) i \<noteq> None \<or>
     list_ex (\<lambda>(_, svc). i \<in> {sv_TokenID svc, sv_StagedNodeTokenID svc, sv_StagedNodePreviousTokenID svc}) (services a)"

definition known_hash :: "auth_store \<Rightarrow> string \<Rightarrow> bool" where
  "known_hash a h \<longleftrightarrow> list_ex (\<lambda>(_, token). tk_TokenHash token = h) (serviceTokens a) \<or>
     list_ex (\<lambda>(_, svc). sv_StagedNodeTokenHash svc = h) (services a)"

definition fresh_draw :: "(string \<Rightarrow> string) \<Rightarrow> auth_store \<Rightarrow> string result \<Rightarrow> string \<Rightarrow> bool" where
  "fresh_draw sha256hex a random uuid \<longleftrightarrow> \<not> known_id a uuid \<and>
     (case random of Inl _ \<Rightarrow> True | Inr raw \<Rightarrow> \<not> known_hash a (sha256hex (''ast_svc_'' @ raw)) \<and> sha256hex (''ast_svc_'' @ raw) \<noteq> [])"

inductive node_op ::
  "(string \<Rightarrow> string) \<Rightarrow> (string \<Rightarrow> url option) \<Rightarrow> (string \<Rightarrow> bool) \<Rightarrow> auth_store \<Rightarrow> auth_store \<Rightarrow> bool"
  for sha256hex parseURL urlAllowed where
  create_token: "fresh_draw sha256hex a random uuid \<Longrightarrow>
    node_op sha256hex parseURL urlAllowed a (snd (CreateServiceToken sha256hex c serviceType scopes random uuid now a))"
| revoke_token: "node_op sha256hex parseURL urlAllowed a (snd (RevokeServiceToken c i now a))"
| rotate_token: "fresh_draw sha256hex a random uuid \<Longrightarrow>
    node_op sha256hex parseURL urlAllowed a (snd (RotateServiceToken sha256hex c i random uuid now a))"
| rotate_node: "fresh_draw sha256hex a random uuid \<Longrightarrow>
    node_op sha256hex parseURL urlAllowed a (snd (RotateServiceNodeToken sha256hex c sid i sealer random uuid c' now a))"
| set_configure: "node_op sha256hex parseURL urlAllowed a (snd (SetServiceConfigureToken c sid hash expiresAt now a))"
| consume: "node_op sha256hex parseURL urlAllowed a (snd (ConsumeServiceConfigureToken sha256hex c sid raw now a))"
| configure: "fresh_draw sha256hex a random uuid \<Longrightarrow>
    node_op sha256hex parseURL urlAllowed a
      (snd (ConfigureServiceNode sha256hex c sid raw now report sealer random uuid c' a))"
| stage: "fresh_draw sha256hex a random uuid \<Longrightarrow>
    node_op sha256hex parseURL urlAllowed a
      (snd (StageServiceNodeConfiguration sha256hex c sid raw now sealer random uuid activation c' a))"
| activate: "node_op sha256hex parseURL urlAllowed a
    (snd (ActivateServiceNodeConfiguration sha256hex c sid i raw now report c' a))"
| set_secret: "node_op sha256hex parseURL urlAllowed a (snd (SetServiceNodeTokenSecret c sid ciphertext nonce now a))"
| precreate: "node_op sha256hex parseURL urlAllowed a (snd (PrecreateService parseURL urlAllowed c token registration now a))"
| register: "node_op sha256hex parseURL urlAllowed a (snd (RegisterService parseURL urlAllowed c token registration now a))"
| heartbeat: "NUL \<notin> set (hb_CurrentStreamID beat) \<Longrightarrow>
    node_op sha256hex parseURL urlAllowed a (snd (Heartbeat parseURL c token beat now a))"
| report: "node_op sha256hex parseURL urlAllowed a (snd (UpdateServiceRuntimeReport c report now a))"
| metadata: "node_op sha256hex parseURL urlAllowed a (snd (UpdateServiceMetadata parseURL urlAllowed c sid update now a))"
| event: "node_op sha256hex parseURL urlAllowed a (snd (WriteStreamEvent parseURL c token e a))"

subsection \<open>No step moves an assignment\<close>

definition settled_place :: "registered_service \<Rightarrow> registered_service \<Rightarrow> bool" where
  "settled_place u v \<longleftrightarrow> sv_ServiceID v = sv_ServiceID u \<and> sv_ServiceType v = sv_ServiceType u \<and>
     sv_CurrentStreamID v = sv_CurrentStreamID u"

definition placed :: "auth_store \<Rightarrow> auth_store \<Rightarrow> bool" where
  "placed a b \<longleftrightarrow> assignments b = assignments a \<and> assignmentIDs b = assignmentIDs a \<and>
     (mwf (services a) \<longrightarrow> mwf (services b)) \<and>
     (\<forall>j u. mget (services a) j = Some u \<longrightarrow> (\<exists>v. mget (services b) j = Some v \<and> settled_place u v)) \<and>
     (\<forall>j v. mget (services a) j = None \<longrightarrow> mget (services b) j = Some v \<longrightarrow>
        sv_ServiceID v = j \<and> NUL \<notin> set (sv_ServiceType v) \<and> sv_CurrentStreamID v = [])"

lemma settled_place_refl [simp]: "settled_place u u"
  by (simp add: settled_place_def)

lemma placed_refl [simp]: "placed a a"
  by (simp add: placed_def)

lemma placed_put_token [simp]: "placed a (put_token token b) = placed a b"
  by (simp add: placed_def put_token_def)

lemma placed_put_service:
  "mget (services a) sid = Some u \<Longrightarrow> settled_place u v \<Longrightarrow> placed a (put_service sid v a)"
  by (simp add: placed_def put_service_def)

lemma placed_mmap:
  "(\<And>u. settled_place u (f u)) \<Longrightarrow> placed a (a\<lparr>serviceTokens := m, services := mmap_where P f (services a)\<rparr>)"
  by (simp add: placed_def)

lemma placed_cases:
  assumes "placed a b" and "mget (services b) j = Some v"
  obtains u where "mget (services a) j = Some u" "settled_place u v"
  | "mget (services a) j = None" "sv_ServiceID v = j" "NUL \<notin> set (sv_ServiceType v)" "sv_CurrentStreamID v = []"
  using assms unfolding placed_def by (cases "mget (services a) j") fastforce+

lemma placed_kept:
  "placed a b \<Longrightarrow> mget (services a) j = Some u \<Longrightarrow> \<exists>v. mget (services b) j = Some v \<and> settled_place u v"
  by (simp add: placed_def)

lemma placed_keyed:
  assumes ok: "registry_ok a" and p: "placed a b"
  shows "keyed sv_ServiceID (services b)"
proof -
  have wf: "mwf (services b)" using p registry_keyed [OF ok] by (auto simp: placed_def keyed_def)
  have "sv_ServiceID v = j" if "mget (services b) j = Some v" for j v
    using p that by (rule placed_cases) (auto simp: settled_place_def registry_sid [OF ok])
  with wf show ?thesis by (auto simp: keyed_def gm.entries_get)
qed

lemma placed_registry:
  assumes ok: "registry_ok a" and p: "placed a b"
  shows "registry_ok b"
  unfolding registry_ok_def
proof (intro conjI allI impI)
  have asg: "assignments b = assignments a" "assignmentIDs b = assignmentIDs a"
    using p by (simp_all add: placed_def)
  show "keyed sv_ServiceID (services b)" using ok p by (rule placed_keyed)
  show "mwf (assignments b)" "mwf (assignmentIDs b)" using asg registry_mwf [OF ok] by simp_all
  show "(mget (assignmentIDs b) key = None) = (mget (assignments b) key = None)" for key
    using asg registry_ids [OF ok] by simp
  show "NUL \<notin> set (sv_ServiceType v)" if "mget (services b) j = Some v" for j v
    using p that by (rule placed_cases) (use registry_type [OF ok] in \<open>auto simp: settled_place_def\<close>)
  show "entry_ok b key sid" if "mget (assignments b) key = Some sid" for key sid
    using registry_entry [OF ok, of key sid] that asg placed_kept [OF p, of sid]
    by (fastforce simp: entry_ok_def settled_place_def)
  show "\<exists>key. mget (assignments b) key = Some sid"
    if "mget (services b) sid = Some v" and "trimSpace (sv_CurrentStreamID v) \<noteq> []" for sid v
    using p that(1) by (rule placed_cases)
      (use that(2) registry_current [OF ok] asg in \<open>auto simp: settled_place_def\<close>)
  show "key = key'" if "mget (assignments b) key = Some sid" "mget (assignments b) key' = Some sid" for key key' sid
    using asg that registry_unique [OF ok] by auto
qed

text \<open>The rewritten services stay where they are.\<close>

lemma place_simps [simp]:
  "settled_place u (forget_heartbeat now v) = settled_place u v"
  "settled_place u (clearStagedNodeConfiguration v) = settled_place u v"
  "settled_place u (rotated_service i now v) = settled_place u v"
  "settled_place u (applyServiceRuntimeReport v r now) = settled_place u v"
  "settled_place u (staged_service t t' x y z now v) = settled_place u v"
  "settled_place u (activated_service r now v) = settled_place u v"
  "settled_place u (updated_service parseURL mu now v) = settled_place u v"
  by (simp_all add: settled_place_def forget_heartbeat_def clearStagedNodeConfiguration_def rotated_service_def
      applyServiceRuntimeReport_def staged_service_def activated_service_def updated_service_def Let_def)

lemma place_update [simp]:
  "settled_place u (v\<lparr>sv_NodeTokenCiphertext := x\<rparr>) = settled_place u v"
  "settled_place u (v\<lparr>sv_NodeTokenNonce := x\<rparr>) = settled_place u v"
  "settled_place u (v\<lparr>sv_ConfigureTokenHash := x\<rparr>) = settled_place u v"
  "settled_place u (v\<lparr>sv_ConfigureTokenExpiresAt := t\<rparr>) = settled_place u v"
  "settled_place u (v\<lparr>sv_ConfigureTokenUsedAt := t\<rparr>) = settled_place u v"
  "settled_place u (v\<lparr>sv_StagedNodeTokenID := x\<rparr>) = settled_place u v"
  "settled_place u (v\<lparr>sv_TokenID := x\<rparr>) = settled_place u v"
  "settled_place u (v\<lparr>sv_LastHeartbeatAt := t\<rparr>) = settled_place u v"
  "settled_place u (v\<lparr>sv_ReportedCapabilities := m\<rparr>) = settled_place u v"
  "settled_place u (v\<lparr>sv_NodeTokenRotatedAt := t\<rparr>) = settled_place u v"
  "settled_place u (v\<lparr>sv_UpdatedAt := n\<rparr>) = settled_place u v"
  by (simp_all add: settled_place_def)

lemma services_put [simp]: "services (put_token token a) = services a" "serviceTokens (put_service sid svc a) = serviceTokens a"
  by (simp_all add: put_token_def put_service_def)

lemma replace_token_put: "\<exists>t. replace_token sid old token now a = put_token token (put_token t a)"
  by (auto simp: replace_token_def Let_def)

lemma placed_replace: "placed a (put_service sid v (replace_token sid old token now a)) = placed a (put_service sid v a)"
  using replace_token_put [of sid old token now a] by (auto simp: placed_def put_token_def put_service_def)

lemma placed_retire [simp]: "placed a (retire_token old now b) = placed a b"
  by (simp add: retire_token_def)

lemma placed_service_token: "placed a (put_service sid v (put_token t a)) = placed a (put_service sid v a)"
  by (simp add: placed_def put_token_def put_service_def)

lemma placed_outcome: "unless_kept a (\<lambda>out. placed a (snd out)) out \<Longrightarrow> placed a (snd out)"
  by (auto simp: unless_kept_def)

lemma place_tokens:
  "placed a (snd (CreateServiceToken sha c ty scopes random uuid now a))"
  "placed a (snd (RevokeServiceToken c i now a))"
  "placed a (snd (RotateServiceToken sha c i random uuid now a))"
  "placed a (snd (SetServiceNodeTokenSecret c sid ciphertext nonce now a))"
  "placed a (snd (SetServiceConfigureToken c sid hash expiresAt now a))"
  "placed a (snd (ConsumeServiceConfigureToken sha c sid raw now a))"
  unfolding CreateServiceToken_def RevokeServiceToken_def RotateServiceToken_def SetServiceNodeTokenSecret_def
    SetServiceConfigureToken_def ConsumeServiceConfigureToken_def Let_def
  by (rule placed_outcome, intro outcome_rules; rule unless_keptI; simp add: placed_mmap placed_put_service)+

lemma place_configuration:
  "placed a (snd (RotateServiceNodeToken sha c sid i sealer random uuid c' now a))"
  "placed a (snd (ConfigureServiceNode sha c sid raw now report sealer random uuid c' a))"
  "placed a (snd (StageServiceNodeConfiguration sha c sid raw now sealer random uuid activation c' a))"
  unfolding RotateServiceNodeToken_def ConfigureServiceNode_def StageServiceNodeConfiguration_def Let_def
  by (rule placed_outcome, intro outcome_rules; rule unless_keptI; simp add: placed_replace placed_put_service)+

lemma place_activation: "placed a (snd (ActivateServiceNodeConfiguration sha c sid i raw now report c' a))"
  unfolding ActivateServiceNodeConfiguration_def replayed_activation_def Let_def
  by (rule placed_outcome, intro outcome_rules; rule unless_keptI; simp add: placed_service_token placed_put_service)

lemma placed_add:
  "mget (services a) sid = None \<Longrightarrow> sv_ServiceID v = sid \<Longrightarrow> NUL \<notin> set (sv_ServiceType v) \<Longrightarrow> sv_CurrentStreamID v = [] \<Longrightarrow>
   placed a (put_service sid v a)"
  by (simp add: placed_def put_service_def)

lemma serviceType_no_NUL: "validateServiceType t \<Longrightarrow> NUL \<notin> set t"
  by (auto simp: validateServiceType_def NUL_def)

lemma normalize_type: "rg_ServiceType (normalizeServiceRegistration parseURL r) = trimSpace (rg_ServiceType r)"
  "rg_ServiceID (normalizeServiceRegistration parseURL r) = trimSpace (rg_ServiceID r)"
  by (simp_all add: normalizeServiceRegistration_def Let_def split: prod.split)

lemma validate_type:
  "validateServiceRegistration parseURL urlAllowed r = None \<Longrightarrow> validateServiceType (trimSpace (rg_ServiceType r))"
  by (auto simp: validateServiceRegistration_def Let_def normalize_type split: if_splits)

lemma hydrate_place [simp]:
  "sv_ServiceID (hydrateServiceEndpointState parseURL v) = sv_ServiceID v"
  "sv_ServiceType (hydrateServiceEndpointState parseURL v) = sv_ServiceType v"
  "sv_CurrentStreamID (hydrateServiceEndpointState parseURL v) = sv_CurrentStreamID v"
  by (simp_all add: hydrateServiceEndpointState_def Let_def)

lemma place_precreate: "placed a (snd (PrecreateService parseURL urlAllowed c token r now a))"
  unfolding PrecreateService_def Let_def
  by (rule placed_outcome, intro outcome_rules; rule unless_keptI)
    (auto simp: registration_fields_def normalize_type zero_service_def
      intro!: placed_add serviceType_no_NUL dest: validate_type)

lemma registered_place:
  "sv_ServiceID (registered parseURL r u i now) = rg_ServiceID r"
  "sv_ServiceType (registered parseURL r u i now) = rg_ServiceType r"
  "sv_CurrentStreamID (registered parseURL r u i now) = sv_CurrentStreamID u"
  by (simp_all add: registered_def fresh_registration_def keep_endpoint_def keep_node_def registration_fields_def Let_def)

lemma bind_place [simp]:
  "rg_ServiceID (bindPrecreatedUpdateAgentRegistration r x y z) = rg_ServiceID r"
  "rg_ServiceType (bindPrecreatedUpdateAgentRegistration r x y z) = rg_ServiceType r"
  by (simp_all add: bindPrecreatedUpdateAgentRegistration_def)

lemma place_register:
  assumes ok: "registry_ok a"
  shows "placed a (snd (RegisterService parseURL urlAllowed c token r now a))"
  unfolding RegisterService_def Let_def
  by (rule placed_outcome, intro outcome_rules; rule unless_keptI)
    (auto simp: registered_place settled_place_def registry_sid [OF ok] intro!: placed_put_service)

lemma placed_history [simp]: "placed a (recordMetricHistoryLocked svc now b) = placed a b"
  by (simp add: placed_def recordMetricHistoryLocked_def Let_def)

text \<open>A node that reports a stream it is assigned to reports the stream of its one entry.\<close>

lemma assigned_stream:
  assumes ok: "registry_ok a" and svc: "mget (services a) sid = Some svc"
    and "isAssignedLocked a sid streamID" and "NUL \<notin> set streamID"
  shows "streamID = sv_CurrentStreamID svc"
proof -
  obtain key where key: "mget (assignments a) key = Some sid" and pre: "prefix (streamID @ [NUL]) key"
    using assms(3) registry_mwf(1) [OF ok] by (auto simp: isAssignedLocked_def list_ex_iff gm.entries_get)
  obtain role where k: "key = assignmentKey (sv_CurrentStreamID svc) (sv_ServiceType svc) role sid"
    and good: "good_id (sv_CurrentStreamID svc)"
    using registry_assigned [OF ok svc key] by metis
  have "hd (splitOn NUL key) = streamID"
    using pre assms(4) by (auto simp: prefix_def splitOn_append_sep)
  moreover have "hd (splitOn NUL key) = sv_CurrentStreamID svc"
    using good unfolding k assignmentKey_def good_id_def by (auto simp: splitOn_append_sep)
  ultimately show ?thesis by simp
qed

lemma reported_stream:
  "registry_ok a \<Longrightarrow> mget (services a) sid = Some svc \<Longrightarrow> streamID = [] \<or> isAssignedLocked a sid streamID \<Longrightarrow>
   NUL \<notin> set streamID \<Longrightarrow> streamID = [] \<or> streamID = sv_CurrentStreamID svc"
  by (auto dest: assigned_stream)

lemma placed_put_own:
  assumes "registry_ok a" and "mget (services a) sid = Some u" and "settled_place u v"
  shows "placed a (put_service (sv_ServiceID v) v a)"
  using assms registry_sid [OF assms(1,2)] by (simp add: settled_place_def placed_put_service)

lemma beaten_place: "hb_CurrentStreamID h = [] \<or> hb_CurrentStreamID h = sv_CurrentStreamID u \<Longrightarrow> settled_place u (beaten parseURL h now u)"
  by (auto simp: settled_place_def beaten_def Let_def)

lemma place_heartbeat:
  assumes ok: "registry_ok a" and "NUL \<notin> set (hb_CurrentStreamID h)"
  shows "placed a (snd (Heartbeat parseURL c token h now a))"
  unfolding Heartbeat_def Let_def
  by (rule placed_outcome, intro outcome_rules; rule unless_keptI; simp)
    (rule placed_put_own [OF ok], assumption, rule beaten_place, rule reported_stream [OF ok _ _ assms(2)], assumption, assumption)

lemma place_report:
  assumes ok: "registry_ok a"
  shows "placed a (snd (UpdateServiceRuntimeReport c report now a))"
  unfolding UpdateServiceRuntimeReport_def Let_def
  by (rule placed_outcome, intro outcome_rules; rule unless_keptI; simp add: placed_put_own [OF ok])

lemma place_metadata: "placed a (snd (UpdateServiceMetadata parseURL urlAllowed c sid update now a))"
  unfolding UpdateServiceMetadata_def Let_def
  by (rule placed_outcome, intro outcome_rules; rule unless_keptI; simp add: placed_put_service)

lemma place_event: "placed a (snd (WriteStreamEvent parseURL c token e a))"
  unfolding WriteStreamEvent_def
  by (rule placed_outcome, intro outcome_rules; rule unless_keptI; simp add: placed_def)

lemma node_op_placed:
  assumes "node_op sha256hex parseURL urlAllowed a b" and ok: "registry_ok a"
  shows "placed a b"
  using assms(1)
proof cases
  case (heartbeat beat c token now)
  with place_heartbeat [OF ok] show ?thesis by blast
qed (simp_all only: place_tokens place_configuration place_activation place_precreate place_register [OF ok]
    place_report [OF ok] place_metadata place_event)

end
