(* ===== verification/Guard_Invariant.thy ===== *)
theory Guard_Invariant
  imports Start_Effects Node_Steps
begin

text \<open>
  The joined stores as a state machine: the invariant holds in every reachable state, and no step
  changes the assignments of a stream while it is protected.
\<close>

subsection \<open>The joined stores as a state machine\<close>

text \<open>
  One step is one call, with any arguments, on stores whose guard is bound. New streams get
  identifiers without blanks around them and without NUL bytes, as \<^verbatim>\<open>newUUID\<close> makes them.
  A claimed start may materialize an assignment, whose identifier from \<^verbatim>\<open>newUUID\<close> is not blank.
  The operations of the service catalogue and of the node tokens run on the registry alone.
\<close>

inductive panel_op :: "panel \<Rightarrow> panel \<Rightarrow> bool" where
  assign: "panel_op p (snd (AssignServiceToStreamGuarded c m uuid now p))"
| assign_role: "panel_op p (snd (AssignServiceToStreamWithRole c sid st actor role uuid nows p))"
| unassign: "panel_op p (snd (UnassignServiceFromStreamGuarded c um now p))"
| unassign_plain: "panel_op p (snd (UnassignServiceFromStream c sid actor now p))"
| retry: "panel_op p (snd (BeginStreamArchiveRetryGuarded c sid st now p))"
| restart: "panel_op p (p\<lparr>ps_auth := snd (RequestServiceRestart c sid now (ps_auth p))\<rparr>)"
| delete_service: "panel_op p (snd (DeleteService c sid now p))"
| delete_stream: "panel_op p (snd (DeleteStream c i now p))"
| create: "good_id st \<Longrightarrow>
    panel_op p (snd (CreateAssignedStream c st name actor settings x uuids now now' p))"
| settings: "panel_op p (snd (UpdateStreamSettings c c' i settings now p))"
| claim_start: "trimSpace uuid \<noteq> [] \<Longrightarrow>
    panel_op p (snd (ClaimStreamStart marshal sha256hex c request uuid now p))"
| transition_start: "panel_op p (snd (TransitionClaimedStreamStart marshal sha256hex c claim status now p))"
| stream_op: "stop_step (ps_streams p) s \<Longrightarrow>
    (\<And>i. mget (streams s) i \<noteq> None \<Longrightarrow> mget (streams (ps_streams p)) i \<noteq> None \<or> good_id i) \<Longrightarrow>
    panel_op p (p\<lparr>ps_streams := s\<rparr>)"

inductive panel_step :: "panel \<Rightarrow> panel \<Rightarrow> bool" where
  op: "panel_op p q \<Longrightarrow> panel_step p q"
| node: "node_op sha256hex parseURL urlAllowed (ps_auth p) a \<Longrightarrow> panel_step p (p\<lparr>ps_auth := a\<rparr>)"

lemma node_op_effect:
  assumes "panel_ok p" and "node_op sha256hex parseURL urlAllowed (ps_auth p) a"
  shows "guarded_effect p (p\<lparr>ps_auth := a\<rparr>)"
proof -
  have placed: "placed (ps_auth p) a"
    using node_op_placed [OF assms(2) panel_registry [OF assms(1)]] .
  show ?thesis
    by (rule guarded_effect_auth [OF assms(1) placed_registry [OF panel_registry [OF assms(1)] placed]])
      (use placed in \<open>simp_all add: placed_def same_entries_def\<close>)
qed

lemmas panel_effects = assign_effect assign_role_effect unassign_effect unassign_plain_effect
  retry_effect restart_effect delete_service_effect delete_stream_effect create_effect settings_effect
  claim_effect transition_effect

lemma panel_op_effect:
  assumes "panel_op p q" and ok: "panel_ok p"
  shows "guarded_effect p q"
  using assms(1)
proof cases
  case (stream_op s)
  then show ?thesis using stop_step_effect [OF ok] by blast
qed (auto simp del: snd_conv intro: panel_effects ok)

lemma panel_step_effect:
  assumes "panel_step p q" and ok: "panel_ok p"
  shows "guarded_effect p q"
  using assms(1)
proof cases
  case op
  then show ?thesis using ok by (rule panel_op_effect)
next
  case (node sha256hex parseURL urlAllowed a)
  then show ?thesis using node_op_effect [OF ok] by blast
qed

interpretation guard: inductive_invariant "\<lambda>p. p = BindStreamAssignmentGuard NewPanel" panel_step panel_ok
  using panel_ok_init panel_step_effect by unfold_locales (auto simp: guarded_effect_def)

subsection \<open>Properties\<close>

text \<open>
  C1. The assignments of a protected stream are frozen. In every reachable state of the joined
  stores, if a stream is starting, live or stopping, or has an unconfirmed stop, an archive retry
  or an unreported archive run, then no operation adds, removes or changes an assignment of that
  stream.
\<close>

theorem protected_assignments_frozen:
  assumes "reach (\<lambda>p. p = BindStreamAssignmentGuard NewPanel) panel_step p" and "panel_step p q"
    and "mget (streams (ps_streams p)) i = Some st"
    and "protected (memoryStreamAssignmentProtectionLocked (ps_streams p) st)"
    and "fst (assignmentPartsFromKey key) = i"
  shows "mget (assignments (ps_auth q)) key = mget (assignments (ps_auth p)) key"
  using panel_step_effect [OF assms(2) guard.inv_reach [OF assms(1)]] assms(3-)
  unfolding guarded_effect_def same_entries_def by blast

text \<open>A node as \<^verbatim>\<open>PrecreateService\<close> stores it.\<close>

definition sample_token :: "string \<Rightarrow> service_token" where
  "sample_token ty = \<lparr>tk_ID = ''t1'', tk_ServiceType = ty, tk_Scopes = [''service.register''], tk_RevokedAt = None,
     tk_CreatedAt = 0, tk_RawToken = [], tk_TokenHash = ''h1''\<rparr>"

definition sample_registration :: "string \<Rightarrow> string \<Rightarrow> service_registration" where
  "sample_registration i ty = \<lparr>rg_ServiceID = i, rg_ServiceType = ty, rg_ServiceName = ''node'', rg_Description = [],
     rg_TransportMode = [], rg_ExecutionHostID = [], rg_OwnershipEpoch = 0, rg_Host = ''h'', rg_Port = 8080,
     rg_SSLEnabled = False, rg_PublicURL = ''http://h:8080'', rg_Version = [], rg_Commit = [], rg_BuildDate = [],
     rg_Capabilities = [], rg_Hostname = [], rg_OS = [], rg_Arch = []\<rparr>"

definition sample_node :: "string \<Rightarrow> string \<Rightarrow> registered_service" where
  "sample_node i ty =
     (let endpoint = Some \<lparr>ep_Host = ''h'', ep_Port = 8080, ep_SSLEnabled = False, ep_PublicURL = ''http://h:8080''\<rparr> in
      zero_service\<lparr>sv_ServiceID := i, sv_ServiceType := ty, sv_ServiceName := ''node'', sv_Host := ''h'', sv_Port := 8080,
        sv_PublicURL := ''http://h:8080'', sv_DesiredEndpoint := endpoint, sv_AppliedEndpoint := endpoint,
        sv_EndpointRevision := 1, sv_EndpointStatus := ''applied'', sv_AppliedConfigRevision := 1,
        sv_Status := ''pending'', sv_TokenID := ''t1'', sv_NodeTokenRotatedAt := Some 0\<rparr>)"

definition sample_worker :: registered_service where
  "sample_worker = sample_node ''w1'' ''worker''"

lemma sample_register:
  assumes "mget (services (ps_auth p)) i = None"
    and "fst (PrecreateService (\<lambda>_. None) (\<lambda>_. True) None (sample_token ty) (sample_registration i ty) 0 NewMemoryAuthStore) =
      Inr (sample_node i ty)"
    and "sv_ServiceID (sample_node i ty) = i"
  shows "panel_step p (p\<lparr>ps_auth := (ps_auth p)\<lparr>services := mput (services (ps_auth p)) i (sample_node i ty)\<rparr>\<rparr>)"
proof -
  have "snd (PrecreateService (\<lambda>_. None) (\<lambda>_. True) None (sample_token ty) (sample_registration i ty) 0 (ps_auth p)) =
      (ps_auth p)\<lparr>services := mput (services (ps_auth p)) i (sample_node i ty)\<rparr>"
    using assms by (auto simp: PrecreateService_def Let_def put_service_def simp del: hydrate_place split: if_splits option.splits)
  with panel_step.node [OF node_op.precreate, of p "\<lambda>_. None" "\<lambda>_. True"] show ?thesis by metis
qed

definition sample_mutation :: service_assignment_mutation where
  "sample_mutation = \<lparr>am_ServiceID = ''w1'', am_StreamID = ''s1'', am_ActorUserID = ''u1'',
     am_AssignmentRole = ''primary'', am_ExpectedCurrentStreamID = None\<rparr>"

definition sample_panel0 :: panel where
  "sample_panel0 = BindStreamAssignmentGuard NewPanel"

definition sample_panel1 :: panel where
  "sample_panel1 = sample_panel0\<lparr>ps_auth := (ps_auth sample_panel0)
     \<lparr>services := mput (services (ps_auth sample_panel0)) ''w1'' sample_worker\<rparr>\<rparr>"

definition sample_panel2 :: panel where
  "sample_panel2 = sample_panel1\<lparr>ps_streams := snd (CreateStream None ''demo'' ''s1'' 5000 (ps_streams sample_panel1))\<rparr>"

definition sample_panel3 :: panel where
  "sample_panel3 = snd (AssignServiceToStreamGuarded None sample_mutation ''a1'' 6000 sample_panel2)"

definition sample_panel4 :: panel where
  "sample_panel4 = sample_panel3\<lparr>ps_streams := snd (UpdateStreamStatus None ''s1'' ''live'' 7000 (ps_streams sample_panel3))\<rparr>"

abbreviation panel_reach :: "panel \<Rightarrow> bool" where
  "panel_reach \<equiv> reach (\<lambda>p. p = BindStreamAssignmentGuard NewPanel) panel_step"

lemma good_id_s1: "good_id ''s1''"
  by code_simp

lemma sample_reach:
  "panel_reach sample_panel1" "panel_reach sample_panel2" "panel_reach sample_panel3" "panel_reach sample_panel4"
proof -
  have r0: "panel_reach sample_panel0"
    by (rule reach.reach_init) (simp add: sample_panel0_def)
  have "panel_step sample_panel0 sample_panel1"
    unfolding sample_panel1_def sample_worker_def by (rule sample_register) code_simp+
  with r0 show r1: "panel_reach sample_panel1" by (rule reach.reach_step)
  have "panel_step sample_panel1 sample_panel2"
    unfolding sample_panel2_def
  proof (rule panel_step.op, rule panel_op.stream_op)
    show "stop_step (ps_streams sample_panel1) (snd (CreateStream None ''demo'' ''s1'' 5000 (ps_streams sample_panel1)))"
      by (rule stop_step.create) code_simp
    show "mget (streams (ps_streams sample_panel1)) i \<noteq> None \<or> good_id i"
      if "mget (streams (snd (CreateStream None ''demo'' ''s1'' 5000 (ps_streams sample_panel1)))) i \<noteq> None" for i
      using that good_id_s1 by (auto simp: CreateStream_def put_stream_def Let_def split: if_splits)
  qed
  with r1 show r2: "panel_reach sample_panel2" by (rule reach.reach_step)
  have "panel_step sample_panel2 sample_panel3"
    unfolding sample_panel3_def by (rule panel_step.op, rule panel_op.assign)
  with r2 show r3: "panel_reach sample_panel3" by (rule reach.reach_step)
  have "panel_step sample_panel3 sample_panel4"
    unfolding sample_panel4_def
    by (rule panel_step.op, rule panel_op.stream_op, rule stop_step.update_status)
      (auto simp: UpdateStreamStatus_def put_stream_def Let_def split: option.splits if_splits)
  with r3 show "panel_reach sample_panel4" by (rule reach.reach_step)
qed

theorem protected_assignments_frozen_witness:
  "mget (assignments (ps_auth sample_panel4)) (assignmentKey ''s1'' ''worker'' ''primary'' []) = Some ''w1'' \<and>
   mget (assignments (ps_auth (snd (DeleteService None ''w1'' 8000 sample_panel4))))
     (assignmentKey ''s1'' ''worker'' ''primary'' []) = Some ''w1''"
proof -
  let ?k = "assignmentKey ''s1'' ''worker'' ''primary'' []"
  have st: "\<exists>st. mget (streams (ps_streams sample_panel4)) ''s1'' = Some st \<and>
      protected (memoryStreamAssignmentProtectionLocked (ps_streams sample_panel4) st)"
    by (rule exI [of _ "(new_stream ''s1'' ''demo'' 5000)\<lparr>st_Status := ''live'', st_UpdatedAt := 7000\<rparr>"]) code_simp
  have parts: "fst (assignmentPartsFromKey ?k) = ''s1''" by code_simp
  have before: "mget (assignments (ps_auth sample_panel4)) ?k = Some ''w1''" by code_simp
  from st protected_assignments_frozen [OF sample_reach(4) panel_step.op [OF panel_op.delete_service] _ _ parts, of _ None "''w1''" 8000]
    before show ?thesis by auto
qed



text \<open>
  A refused operation leaves no trace: whenever one of the guarded operations on the joined
  stores returns an error, the stores are exactly as before.
\<close>

theorem refused_operations_change_nothing:
  "(fst (AssignServiceToStreamGuarded c m uuid now p) = Inl e \<longrightarrow> snd (AssignServiceToStreamGuarded c m uuid now p) = p) \<and>
   (fst (UnassignServiceFromStreamGuarded c um now p) = Inl e \<longrightarrow> snd (UnassignServiceFromStreamGuarded c um now p) = p) \<and>
   (fst (BeginStreamArchiveRetryGuarded c sid i now p) = Inl e \<longrightarrow> snd (BeginStreamArchiveRetryGuarded c sid i now p) = p) \<and>
   (fst (DeleteService c sid now p) = Inl e \<longrightarrow> snd (DeleteService c sid now p) = p) \<and>
   (fst (DeleteStream c i now p) = Inl e \<longrightarrow> snd (DeleteStream c i now p) = p) \<and>
   (fst (CreateAssignedStream c i name actor settings x uuids now now' p) = Inl e \<longrightarrow>
      snd (CreateAssignedStream c i name actor settings x uuids now now' p) = p) \<and>
   (fst (UpdateStreamSettings c c' i settings now p) = Inl e \<longrightarrow> snd (UpdateStreamSettings c c' i settings now p) = p)"
proof -
  note defs = AssignServiceToStreamGuarded_def UnassignServiceFromStreamGuarded_def BeginStreamArchiveRetryGuarded_def
    DeleteService_def DeleteStream_def CreateAssignedStream_def UpdateStreamSettings_def
  let ?Q = "\<lambda>out. \<exists>r. fst out = Inr r"
  have "unless_kept p ?Q (AssignServiceToStreamGuarded c m uuid now p)"
    "unless_kept p ?Q (UnassignServiceFromStreamGuarded c um now p)"
    "unless_kept p ?Q (BeginStreamArchiveRetryGuarded c sid i now p)"
    "unless_kept p ?Q (DeleteService c sid now p)" "unless_kept p ?Q (DeleteStream c i now p)"
    "unless_kept p ?Q (CreateAssignedStream c i name actor settings x uuids now now' p)"
    "unless_kept p ?Q (UpdateStreamSettings c c' i settings now p)"
    unfolding defs Let_def by (intro outcome_rules unless_keptI exI; rule fst_conv)+
  then show ?thesis by (intro conjI impI) (erule (1) unless_kept_error)+
qed

theorem refused_operations_change_nothing_witness:
  "fst (DeleteService None ''w1'' 8000 sample_panel4) = Inl ErrServiceUnassignProtectedStream \<and>
   snd (DeleteService None ''w1'' 8000 sample_panel4) = sample_panel4"
proof -
  have e: "fst (DeleteService None ''w1'' 8000 sample_panel4) = Inl ErrServiceUnassignProtectedStream"
    by code_simp
  from refused_operations_change_nothing have
    "fst (DeleteService None ''w1'' 8000 sample_panel4) = Inl ErrServiceUnassignProtectedStream \<longrightarrow>
     snd (DeleteService None ''w1'' 8000 sample_panel4) = sample_panel4" by blast
  with e show ?thesis by simp
qed

end
