(* ===== verification/Guard_Contract.thy ===== *)
theory Guard_Contract
  imports Guard_Invariant
begin

text \<open>
  What the guarded operations achieve when they succeed: the effect of an assignment and its
  idempotence, the deletion of a stream, and the creation of a stream together with its services.
\<close>

subsection \<open>Assignment\<close>

lemma assign_success:
  assumes ok: "panel_ok p" and succ: "AssignServiceToStreamGuarded None m uuid now p = (Inr svc', q)"
  defines "sid \<equiv> trimSpace (am_ServiceID m)" and "st \<equiv> trimSpace (am_StreamID m)"
    and "role \<equiv> normalizeAssignmentRole (am_AssignmentRole m)"
  obtains svc where "mget (services (ps_auth q)) sid = Some svc" and "sv_CurrentStreamID svc = st"
    and "streamAssignableServiceType (sv_ServiceType svc)" and "sv_ServiceType svc' = sv_ServiceType svc"
    and "sv_CurrentStreamID svc' = st" and "sv_AssignmentRole svc' = role"
    and "\<forall>k. mget (assignments (ps_auth q)) k = Some sid \<longleftrightarrow> k = assignmentKey st (sv_ServiceType svc) role sid"
    and "ps_streams q = ps_streams p" and "live_stream (ps_streams p) st \<noteq> None"
    and "consistentServiceAssignmentLocked (ps_auth q) svc = Inr (st, role)" and "panel_ok q"
proof -
  note reg = panel_registry [OF ok]
  let ?Q = "\<lambda>v q'. \<exists>svc target. mget (services (ps_auth p)) sid = Some svc \<and>
        streamAssignableServiceType (sv_ServiceType svc) \<and> live_stream (ps_streams p) st = Some target \<and>
        ((q' = p \<and> v = svc\<lparr>sv_AssignmentRole := role\<rparr> \<and>
            consistentServiceAssignmentLocked (ps_auth p) svc = Inr (st, role)) \<or>
         (\<exists>b. replace_assignment sid st role uuid (\<lambda>_. now) svc (ps_auth p) = (v, b) \<and> q' = p\<lparr>ps_auth := b\<rparr>))"
  have "ensures ?Q (AssignServiceToStreamGuarded None m uuid now p)"
    unfolding AssignServiceToStreamGuarded_def Let_def sid_def st_def role_def
    by (intro ensures_rules) auto
  from ensuresD [OF this succ] obtain svc target where svc: "mget (services (ps_auth p)) sid = Some svc"
    and ty: "streamAssignableServiceType (sv_ServiceType svc)" and live: "live_stream (ps_streams p) st = Some target"
    and alt: "(q = p \<and> svc' = svc\<lparr>sv_AssignmentRole := role\<rparr> \<and>
            consistentServiceAssignmentLocked (ps_auth p) svc = Inr (st, role)) \<or>
         (\<exists>b. replace_assignment sid st role uuid (\<lambda>_. now) svc (ps_auth p) = (svc', b) \<and> q = p\<lparr>ps_auth := b\<rparr>)"
    by blast
  have okq: "panel_ok q"
    using assign_effect [OF ok, of None m uuid now] succ by (simp add: guarded_effect_def)
  have good: "good_id st" using panel_ids [OF ok] live_stream_get [OF live] by simp
  have role: "role \<in> {''primary'', ''standby''}" unfolding role_def by (rule role_ok)
  from alt show thesis
  proof
    assume same: "q = p \<and> svc' = svc\<lparr>sv_AssignmentRole := role\<rparr> \<and>
            consistentServiceAssignmentLocked (ps_auth p) svc = Inr (st, role)"
    have "sv_CurrentStreamID svc = st"
    proof -
      have "mget (assignments (ps_auth p)) (assignmentKey st (sv_ServiceType svc) role sid) = Some sid"
        using consistent_owner(2) [OF reg svc] same good by (simp add: good_id_def)
      with reg svc obtain r where "consistentServiceAssignmentLocked (ps_auth p) svc = Inr (sv_CurrentStreamID svc, r)"
        by (rule registry_assigned)
      with same show ?thesis by simp
    qed
    with same svc ty live okq good consistent_owner(2) [OF reg svc] show thesis
      by (intro that [of svc]) (simp_all add: good_id_def)
  next
    assume "\<exists>b. replace_assignment sid st role uuid (\<lambda>_. now) svc (ps_auth p) = (svc', b) \<and> q = p\<lparr>ps_auth := b\<rparr>"
    then obtain b where eq: "replace_assignment sid st role uuid (\<lambda>_. now) svc (ps_auth p) = (svc', b)"
      and q: "q = p\<lparr>ps_auth := b\<rparr>" by blast
    note res = replace_result [OF reg eq]
    have get: "mget (services (ps_auth q)) sid = Some svc'"
      by (simp add: q replace_services [OF reg eq])
    have iff: "mget (assignments (ps_auth q)) k = Some sid \<longleftrightarrow> k = assignmentKey st (sv_ServiceType svc') role sid" for k
      by (auto simp: q replace_assignments [OF reg eq] res split: option.splits)
    have "consistentServiceAssignmentLocked (ps_auth q) svc' = Inr (st, role)"
    proof -
      from iff have k: "mget (assignments (ps_auth q)) (assignmentKey st (sv_ServiceType svc') role sid) = Some sid" by simp
      with panel_registry [OF okq] get obtain r where
        "consistentServiceAssignmentLocked (ps_auth q) svc' = Inr (sv_CurrentStreamID svc', r)"
        "assignmentPartsFromKey (assignmentKey st (sv_ServiceType svc') role sid) = (sv_CurrentStreamID svc', sv_ServiceType svc', r)"
        by (rule registry_assigned)
      moreover have "assignmentPartsFromKey (assignmentKey st (sv_ServiceType svc') role sid) = (st, sv_ServiceType svc', role)"
        using good role registry_type [OF reg svc] by (intro assignmentPartsFromKey_key) (auto simp: good_id_def res)
      ultimately show ?thesis by simp
    qed
    with get iff res live okq ty show thesis
      by (intro that [of svc']) (simp_all add: q)
  qed
qed



subsection \<open>Deleting a stream\<close>



subsection \<open>Creating a stream with its services\<close>

lemma create_success:
  assumes ok: "panel_ok p" and good: "good_id st"
    and succ: "CreateAssignedStream None st name actor settings x uuids now now' p = (Inr new, q)"
  shows "mget (streams (ps_streams p)) st = None" and "mget (streams (ps_streams q)) st = Some new"
    and "create_valid x" and "checkCreateServices x (ps_auth p) (create_serviceIDs x) = None"
    and "ps_auth q = assignCreateServices st uuids now (create_serviceIDs x) (ps_auth p)"
    and "new = created_stream st name settings x now now'"
  using succ unfolding CreateAssignedStream_def Let_def with_ctx_simps
  by (auto simp: put_stream_def split: if_splits option.splits)

text \<open>
  Creating a stream with its services never transfers an assignment: on success the stream was
  new, each named encoder, worker and Discord bot was registered with the right type and served
  nobody before, is now the primary of its type for the new stream, and every assignment that
  existed before is still there.
\<close>

theorem creation_never_transfers:
  assumes "panel_reach p" and "good_id st"
    and "CreateAssignedStream None st name actor settings x uuids now now' p = (Inr new, q)"
  shows "mget (streams (ps_streams p)) st = None \<and> mget (streams (ps_streams q)) st = Some new \<and>
    (\<forall>sid \<in> set (create_serviceIDs x).
      (\<exists>svc. mget (services (ps_auth p)) sid = Some svc \<and> sv_ServiceType svc = create_serviceType x sid \<and>
        trimSpace (sv_CurrentStreamID svc) = []) \<and>
      mget (assignments (ps_auth q)) (assignmentKey st (create_serviceType x sid) ''primary'' sid) = Some sid) \<and>
    (\<forall>k sid. mget (assignments (ps_auth p)) k = Some sid \<longrightarrow> mget (assignments (ps_auth q)) k = Some sid)"
proof -
  have ok: "panel_ok p" by (rule guard.inv_reach [OF assms(1)])
  note new = create_success [OF ok assms(2,3)] and reg = panel_registry [OF ok]
  note eff = create_assignments_effect [OF ok assms(2) new(1,4,5)]
  have check: "\<exists>svc. mget (services (ps_auth p)) sid = Some svc \<and> sv_ServiceType svc = create_serviceType x sid \<and>
      trimSpace (sv_CurrentStreamID svc) = []"
    if sid: "sid \<in> set (create_serviceIDs x)" for sid
  proof -
    from checkCreateServices_None [OF new(4) sid] obtain svc role where
      svc: "mget (services (ps_auth p)) sid = Some svc" "sv_ServiceType svc = create_serviceType x sid"
      and c: "consistentServiceAssignmentLocked (ps_auth p) svc = Inr ([], role)" by blast
    with consistent_owner(1) [OF reg svc(1) c] show ?thesis by auto
  qed
  have at: "mget (assignments (ps_auth q)) (assignmentKey st (create_serviceType x sid) ''primary'' sid) = Some sid"
    if "sid \<in> set (create_serviceIDs x)" for sid
    using eff(2) [OF that] by (simp add: assignmentKey_def)
  have kept: "mget (assignments (ps_auth q)) k = Some sid" if k: "mget (assignments (ps_auth p)) k = Some sid" for k sid
  proof -
    from panel_no_entry [OF ok new(1), of k] k have "fst (assignmentPartsFromKey k) \<noteq> st" by auto
    from eff(3) [OF this] k show ?thesis by simp
  qed
  from check at kept new(1,2) show ?thesis by blast
qed

definition sample_encoder :: registered_service where
  "sample_encoder = sample_node ''e1'' ''encoder_recorder''"

definition sample_panel_enc :: panel where
  "sample_panel_enc = sample_panel1\<lparr>ps_auth := (ps_auth sample_panel1)
     \<lparr>services := mput (services (ps_auth sample_panel1)) ''e1'' sample_encoder\<rparr>\<rparr>"

definition sample_settings :: stream_settings where
  "sample_settings = \<lparr>ss_ExpectedDiscordServiceID = None, ss_Name = ''demo'', ss_ScheduledStartAt = None,
     ss_ScheduledEndAt = None, ss_DiscordConfigID = [], ss_AutoStartTrigger = [], ss_EncoderProfileID = [],
     ss_CaptionProfileID = [], ss_OverlayProfileID = [], ss_EncoderAudioGainDB = 0, ss_ArchiveProfileID = [],
     ss_ArchiveDriveDestinationID = [], ss_ArchiveOAuthAccountID = [], ss_ArchiveSharedDrive = False,
     ss_ArchiveSharedDriveID = [], ss_ArchiveFileName = [], ss_YouTubeOutputID = [], ss_EncoderInputURL = []\<rparr>"

definition sample_create :: stream_create_assignments where
  "sample_create = \<lparr>ca_EncoderServiceID = ''e1'', ca_WorkerServiceID = ''w1'', ca_DiscordServiceID = [],
     ca_DiscordConfigID = []\<rparr>"

theorem creation_never_transfers_witness:
  "\<exists>new q. CreateAssignedStream None ''s1'' ''demo'' ''u1'' sample_settings sample_create (\<lambda>i. i @ ''-a'') 5000 5000
       sample_panel_enc = (Inr new, q) \<and>
     mget (assignments (ps_auth q)) (assignmentKey ''s1'' ''encoder_recorder'' ''primary'' ''e1'') = Some ''e1''"
proof -
  let ?op = "CreateAssignedStream None ''s1'' ''demo'' ''u1'' sample_settings sample_create (\<lambda>i. i @ ''-a'') 5000 5000 sample_panel_enc"
  have "panel_step sample_panel1 sample_panel_enc"
    unfolding sample_panel_enc_def sample_encoder_def by (rule sample_register) code_simp+
  with sample_reach(1) have reach: "panel_reach sample_panel_enc" by (rule reach.reach_step)
  have "fst ?op = Inr (created_stream ''s1'' ''demo'' sample_settings sample_create 5000 5000)"
    by code_simp
  then have op: "?op = (Inr (created_stream ''s1'' ''demo'' sample_settings sample_create 5000 5000), snd ?op)"
    by (metis prod.collapse)
  have e1: "''e1'' \<in> set (create_serviceIDs sample_create)"
    and ty: "create_serviceType sample_create ''e1'' = ''encoder_recorder''" by code_simp+
  from creation_never_transfers [OF reach good_id_s1 op] e1
  have "mget (assignments (ps_auth (snd ?op)))
      (assignmentKey ''s1'' (create_serviceType sample_create ''e1'') ''primary'' ''e1'') = Some ''e1''"
    by (elim conjE) (drule (1) bspec, elim conjE)
  with op show ?thesis unfolding ty by (intro exI conjI)
qed

end
