(* ===== verification/Start_Properties.thy ===== *)
theory Start_Properties
  imports Guard_Contract
begin

text \<open>
  What the start protocol promises: a start is claimed by one caller, completely or not at all, the
  caller can finish it, and a caller whose start was superseded cannot touch the successor.
\<close>

subsection \<open>What a claim holds\<close>

lemma collectClaims_source:
  "collectClaims a i m = Inr (primary, claims) \<Longrightarrow> svc \<in> set primary \<Longrightarrow>
   \<exists>key sid service. (key, sid) \<in> set m \<and> primary_entry i key \<and> mget (services a) sid = Some service \<and>
     svc = service\<lparr>sv_AssignmentRole := ''primary''\<rparr> \<and> trimSpace (sv_CurrentStreamID service) = i"
proof (induction a i m arbitrary: primary claims rule: collectClaims.induct)
  case (2 a i key serviceID rest)
  obtain owner ty role where parts: "assignmentPartsFromKey key = (owner, ty, role)"
    by (cases "assignmentPartsFromKey key")
  show ?case
  proof (cases "owner \<noteq> i \<or> normalizeAssignmentRole role \<noteq> ''primary''")
    case True
    with "2.IH"(1) [OF parts [symmetric] refl True] "2.prems" parts show ?thesis
      by (auto split: if_splits)
  next
    case False
    with "2.prems"(1) parts obtain service primary' claims' where svc: "mget (services a) serviceID = Some service"
      "trimSpace (case mget (assignmentIDs a) key of None \<Rightarrow> [] | Some x \<Rightarrow> x) \<noteq> []"
      "sv_ServiceType service = ty" "trimSpace (sv_CurrentStreamID service) = i"
      and rest: "collectClaims a i rest = Inr (primary', claims')"
      and p: "primary = service\<lparr>sv_AssignmentRole := ''primary''\<rparr> # primary'"
      by (auto simp: Let_def split: option.splits if_splits sum.splits)
    from False parts have e: "primary_entry i key" by (simp add: primary_entry_def)
    from "2.prems"(2) p consider "svc = service\<lparr>sv_AssignmentRole := ''primary''\<rparr>" | "svc \<in> set primary'"
      by auto
    then show ?thesis
    proof cases
      case 1
      with e svc show ?thesis by (intro exI [of _ key] exI [of _ serviceID] exI [of _ service]) simp
    next
      case tail: 2
      have "\<exists>k sid service. (k, sid) \<in> set rest \<and> primary_entry i k \<and> mget (services a) sid = Some service \<and>
          svc = service\<lparr>sv_AssignmentRole := ''primary''\<rparr> \<and> trimSpace (sv_CurrentStreamID service) = i"
        using "2.IH"(2) [OF parts [symmetric] refl False svc(1) refl] svc rest tail by auto
      then show ?thesis by auto
    qed
  qed
qed simp

text \<open>The primaries that a claim returns are exactly the primary entries of the stream.\<close>

lemma claimed_primaries_source:
  assumes ok: "registry_ok b" and "memoryClaimedPrimaryAssignments b i = Inr (primary, claims)" and "svc \<in> set primary"
  shows "trimSpace (sv_CurrentStreamID svc) = i \<and>
    (\<exists>key. mget (assignments b) key = Some (sv_ServiceID svc) \<and> primary_entry i key)"
proof -
  from assms(2,3) obtain primary' claims' where "collectClaims b i (assignments b) = Inr (primary', claims')"
    "svc \<in> set primary'"
    by (auto simp: memoryClaimedPrimaryAssignments_def split: sum.splits)
  from collectClaims_source [OF this] show ?thesis
    using registry_mwf [OF ok] registry_sid [OF ok] by (auto simp: gm.entries_get)
qed

lemma claimed_primaries_member:
  assumes "mwf (assignments b)" and "memoryClaimedPrimaryAssignments b i = Inr (primary, claims)"
    and "mget (assignments b) key = Some sid" and "primary_entry i key"
  shows "\<exists>svc \<in> set primary. sv_ServiceType svc = fst (snd (assignmentPartsFromKey key))"
proof -
  from assms(2) obtain primary' claims' where "collectClaims b i (assignments b) = Inr (primary', claims')"
    "set primary = set primary'"
    by (auto simp: memoryClaimedPrimaryAssignments_def split: sum.splits)
  with collectClaims_member [OF _ mget_in [OF assms(3)] assms(4)] show ?thesis by metis
qed

lemma start_registry_primary:
  assumes ok: "registry_ok a" and i: "good_id i" and actual: "collectActual a i [] (assignments a) = Inr actual"
    and reg: "start_registry a i uuid now mat b"
    and ty: "mget actual ty \<noteq> None \<or> (\<exists>m. mat = Some m \<and> sv_ServiceType m = ty)"
  shows "\<exists>key sid. mget (assignments b) key = Some sid \<and> primary_entry i key \<and> fst (snd (assignmentPartsFromKey key)) = ty"
proof -
  have old: "\<exists>key sid. mget (assignments a) key = Some sid \<and> primary_entry i key \<and> fst (snd (assignmentPartsFromKey key)) = ty"
    if "mget actual ty \<noteq> None"
    using collectActual_source [OF actual that] registry_mwf [OF ok] by (fastforce simp: gm.entries_get)
  show ?thesis
  proof (cases mat)
    case None
    with reg ty old show ?thesis by (auto simp: start_registry_def)
  next
    case (Some m)
    with reg obtain sid cand owner role where svc: "mget (services a) sid = Some cand"
      and c: "consistentServiceAssignmentLocked a cand = Inr (owner, role)" and own: "owner = [] \<or> owner = i"
      and none: "mget (assignments a) (assignmentKey i (sv_ServiceType cand) ''primary'' []) = None"
      and eq: "replace_assignment sid i ''primary'' uuid (\<lambda>_. now) cand a = (m, b)"
      by (auto simp: start_registry_def)
    let ?key = "assignmentKey i (sv_ServiceType cand) ''primary'' sid"
    have parts: "primary_entry i ?key" "fst (snd (assignmentPartsFromKey ?key)) = sv_ServiceType cand"
      using i registry_type [OF ok svc] by (simp_all add: primary_entry_def good_id_def assignmentPartsFromKey_key)
    have m: "sv_ServiceType m = sv_ServiceType cand" using replace_result [OF ok eq] by simp
    show ?thesis
    proof (cases "ty = sv_ServiceType cand")
      case True
      with parts replace_assignments [OF ok eq, of ?key] show ?thesis by auto
    next
      case False
      with ty Some m old obtain key j where k: "mget (assignments a) key = Some j" "primary_entry i key"
        "fst (snd (assignmentPartsFromKey key)) = ty" by auto
      have "j \<noteq> sid" using registry_assigned [OF ok svc, of key] k False by fastforce
      moreover have "key \<noteq> assignmentKey i (sv_ServiceType cand) ''primary'' x" for x
        using k(3) False i registry_type [OF ok svc] by (auto simp: good_id_def assignmentPartsFromKey_key)
      ultimately have "mget (assignments b) key = Some j"
        using k(1) by (simp add: replace_assignments [OF ok eq] replaces_def assignmentKeyMatchesPrimary_def)
      with k show ?thesis by blast
    qed
  qed
qed

subsection \<open>Properties\<close>

lemma claim_success:
  assumes ok: "panel_ok p" and uuid: "trimSpace uuid \<noteq> []"
    and claim: "ClaimStreamStart marshal sha256hex c request uuid now p = (Inr r, q)"
  shows "claim_outcome marshal sha256hex request uuid now p r q"
  using settled_success [OF ClaimStreamStart_cases [OF ok uuid] claim] .

text \<open>The facts of a successful claim that the properties below rest on.\<close>

lemma claim_facts:
  assumes ok: "panel_ok p" and uuid: "trimSpace uuid \<noteq> []"
    and claim: "ClaimStreamStart marshal sha256hex c request uuid now p = (Inr r, q)"
  obtains st claims where "live_stream (ps_streams p) (trimSpace (rq_StreamID request)) = Some st"
    "st_ID st = trimSpace (rq_StreamID request)" "good_id (st_ID st)"
    "\<not> stream_protected (ps_streams p) st" "st_UpdatedAt st = rq_ExpectedStreamUpdatedAt request"
    "streamStartClaimStatus (st_Status st)"
    "\<not> streamStartClockConflict st now (startAuthority request now)"
    "cs_Stream r = starting_stream (startAuthority request now) now st"
    "live_stream (ps_streams q) (st_ID st) = Some (cs_Stream r)"
    "memoryClaimedPrimaryAssignments (ps_auth q) (st_ID st) = Inr (cs_PrimaryAssignments r, claims)"
    "cs_OwnershipClaim r = \<lparr>ow_StreamID = st_ID st, ow_StreamUpdatedAt = now,
      ow_StreamIdentity = streamStartOwnershipIdentity marshal sha256hex (cs_Stream r),
      ow_Assignments = claims, ow_Archive = startAuthority request now\<rparr>"
    "list_all (\<lambda>ty. \<exists>svc \<in> set (cs_PrimaryAssignments r). sv_ServiceType svc = ty) requiredStartTypes"
    "panel_ok q"
proof -
  from claim_success [OF assms] obtain st mat b primary claims actual where
    st: "live_stream (ps_streams p) (trimSpace (rq_StreamID request)) = Some st"
      "streamStartClaimStatus (st_Status st)" "\<not> stream_protected (ps_streams p) st"
      "st_UpdatedAt st = rq_ExpectedStreamUpdatedAt request"
      "\<not> streamStartClockConflict st now (startAuthority request now)"
    and actual: "collectActual (ps_auth p) (st_ID st) [] (assignments (ps_auth p)) = Inr actual"
    and req: "list_all (\<lambda>ty. mget actual ty \<noteq> None \<or> (\<exists>m. mat = Some m \<and> sv_ServiceType m = ty)) requiredStartTypes"
    and reg: "start_registry (ps_auth p) (st_ID st) uuid now mat b"
    and claims: "memoryClaimedPrimaryAssignments b (st_ID st) = Inr (primary, claims)"
    and r: "r = \<lparr>cs_Stream = starting_stream (startAuthority request now) now st, cs_PrimaryAssignments = primary,
        cs_ArchiveAuthority = startAuthority request now,
        cs_OwnershipClaim = \<lparr>ow_StreamID = st_ID st, ow_StreamUpdatedAt = now,
          ow_StreamIdentity = streamStartOwnershipIdentity marshal sha256hex (starting_stream (startAuthority request now) now st),
          ow_Assignments = claims, ow_Archive = startAuthority request now\<rparr>, cs_Materialized = mat\<rparr>"
    and q: "q = p\<lparr>ps_auth := b, ps_streams :=
        (put_stream (st_ID st) (starting_stream (startAuthority request now) now st) (ps_streams p))
         \<lparr>artifactReports := mput (artifactReports (ps_streams p)) (st_ID st) False\<rparr>\<rparr>"
    unfolding claim_outcome_def Let_def by (auto simp: starting_stream_def)
  have id: "st_ID st = trimSpace (rq_StreamID request)"
    using keyed_mget [OF panel_streams [OF ok] live_stream_get [OF st(1)]] .
  have good: "good_id (st_ID st)" using panel_ids [OF ok] live_stream_get [OF st(1)] id by simp
  have okq: "panel_ok q"
    using claim_effect [OF ok uuid, of marshal sha256hex c request now] claim by (simp add: guarded_effect_def)
  have "mwf (assignments b)" using registry_mwf [OF panel_registry [OF okq]] q by simp
  then have "\<exists>svc \<in> set primary. sv_ServiceType svc = ty" if "ty \<in> set requiredStartTypes" for ty
  proof -
    from req that have "mget actual ty \<noteq> None \<or> (\<exists>m. mat = Some m \<and> sv_ServiceType m = ty)"
      by (simp add: list_all_iff)
    from start_registry_primary [OF panel_registry [OF ok] good actual reg this]
      claimed_primaries_member [OF \<open>mwf (assignments b)\<close> claims] show ?thesis by blast
  qed
  moreover have "live_stream (ps_streams q) (st_ID st) = Some (cs_Stream r)"
    using st(1) by (auto simp: q r live_stream_def put_stream_def starting_stream_def split: option.splits if_splits)
  moreover have "cs_PrimaryAssignments r = primary" "ps_auth q = b"
    "cs_Stream r = starting_stream (startAuthority request now) now st"
    "cs_OwnershipClaim r = \<lparr>ow_StreamID = st_ID st, ow_StreamUpdatedAt = now,
      ow_StreamIdentity = streamStartOwnershipIdentity marshal sha256hex (cs_Stream r),
      ow_Assignments = claims, ow_Archive = startAuthority request now\<rparr>"
    by (simp_all add: r q)
  ultimately show ?thesis
    using st id good okq claims by (intro that [of st claims]) (simp_all only: list_all_iff, blast+)
qed

text \<open>
  C3. A claimed start is complete. When \<^verbatim>\<open>ClaimStreamStart\<close> succeeds in a reachable state, the
  stream existed, was in the version the caller had seen and was not protected; now it is stored as
  starting and protected, and each of the required service types has, among the primaries returned,
  a service that the registry has on file as a primary of this stream.
\<close>

theorem claimed_start_is_complete:
  assumes "panel_reach p" and "trimSpace uuid \<noteq> []"
    and "ClaimStreamStart marshal sha256hex c request uuid now p = (Inr r, q)"
    and "i = trimSpace (rq_StreamID request)"
  shows "(\<exists>st. live_stream (ps_streams p) i = Some st \<and> st_UpdatedAt st = rq_ExpectedStreamUpdatedAt request \<and>
      \<not> protected (memoryStreamAssignmentProtectionLocked (ps_streams p) st)) \<and>
    live_stream (ps_streams q) i = Some (cs_Stream r) \<and> st_Status (cs_Stream r) = ''starting'' \<and>
    protected (memoryStreamAssignmentProtectionLocked (ps_streams q) (cs_Stream r)) \<and>
    (\<forall>ty \<in> {''encoder_recorder'', ''worker'', ''discord_bot''}. \<exists>svc \<in> set (cs_PrimaryAssignments r).
       sv_ServiceType svc = ty \<and> trimSpace (sv_CurrentStreamID svc) = i \<and>
       (\<exists>key. mget (assignments (ps_auth q)) key = Some (sv_ServiceID svc) \<and> primary_entry i key))"
proof -
  have ok: "panel_ok p" by (rule guard.inv_reach [OF assms(1)])
  show ?thesis
  proof (rule claim_facts [OF ok assms(2,3)])
    fix st claims
    assume st: "live_stream (ps_streams p) (trimSpace (rq_StreamID request)) = Some st"
      "st_ID st = trimSpace (rq_StreamID request)" "\<not> stream_protected (ps_streams p) st"
      "st_UpdatedAt st = rq_ExpectedStreamUpdatedAt request"
      "cs_Stream r = starting_stream (startAuthority request now) now st"
      "live_stream (ps_streams q) (st_ID st) = Some (cs_Stream r)"
      and claims: "memoryClaimedPrimaryAssignments (ps_auth q) (st_ID st) = Inr (cs_PrimaryAssignments r, claims)"
      and req: "list_all (\<lambda>ty. \<exists>svc \<in> set (cs_PrimaryAssignments r). sv_ServiceType svc = ty) requiredStartTypes"
      and okq: "panel_ok q"
    have s: "st_Status (cs_Stream r) = ''starting''" by (simp add: st(5) starting_stream_def)
    then have "stream_protected (ps_streams q) (cs_Stream r)"
      by (simp add: stream_protected_iff active_status_def) code_simp
    then show ?thesis
      using st(1-4,6) s req claimed_primaries_source [OF panel_registry [OF okq] claims] assms(4)
      by (auto simp: requiredStartTypes_def)
  qed
qed

text \<open>
  A claim that fails leaves no trace: in a reachable state, when \<^verbatim>\<open>ClaimStreamStart\<close> returns an
  error, at whichever of its checks, both stores are exactly as before. In particular the error
  return after the writes is never taken.
\<close>

theorem refused_claim_changes_nothing:
  assumes "panel_reach p" and "trimSpace uuid \<noteq> []"
    and "fst (ClaimStreamStart marshal sha256hex c request uuid now p) = Inl e"
  shows "snd (ClaimStreamStart marshal sha256hex c request uuid now p) = p"
  using settled_refusal [OF ClaimStreamStart_cases [OF guard.inv_reach [OF assms(1)] assms(2)] assms(3)] .

text \<open>
  C5. A start has one owner: after a successful claim of a stream every further claim of the same
  stream is refused as a conflict, whatever the caller expects, and changes nothing.
\<close>

theorem start_has_one_owner:
  assumes "panel_reach p" and "trimSpace uuid \<noteq> []"
    and "ClaimStreamStart marshal sha256hex c request uuid now p = (Inr r, q)"
    and "trimSpace (rq_StreamID request') = trimSpace (rq_StreamID request)"
  shows "ClaimStreamStart marshal sha256hex None request' uuid' now' q = (Inl ErrServiceAssignmentConflict, q)"
proof -
  have ok: "panel_ok p" by (rule guard.inv_reach [OF assms(1)])
  show ?thesis
  proof (rule claim_facts [OF ok assms(2,3)])
    fix st claims
    assume st: "st_ID st = trimSpace (rq_StreamID request)"
      "cs_Stream r = starting_stream (startAuthority request now) now st"
      "live_stream (ps_streams q) (st_ID st) = Some (cs_Stream r)" and ok: "panel_ok q"
    have "\<not> streamStartClaimStatus ''starting''" by code_simp
    with st assms(4) panel_guards(2) [OF ok] show ?thesis
      by (simp add: ClaimStreamStart_def Let_def starting_stream_def)
  qed
qed

lemma claim_then_finish:
  assumes ok: "panel_ok p" and "trimSpace uuid \<noteq> []"
    and "ClaimStreamStart marshal sha256hex c request uuid now p = (Inr r, q)"
    and "trimSpace (streamStartOwnershipIdentity marshal sha256hex (cs_Stream r)) \<noteq> []" and "now \<le> now'"
  shows "TransitionClaimedStreamStart marshal sha256hex None (cs_OwnershipClaim r) status now' q =
    (let st = (cs_Stream r)\<lparr>st_Status := trimSpace status, st_UpdatedAt := now'\<rparr> in
     (Inr (st, True), q\<lparr>ps_streams := put_stream (st_ID st) st (ps_streams q)\<rparr>))"
proof -
  show ?thesis
  proof (rule claim_facts [OF ok assms(2,3)])
    fix st claims
    assume id: "good_id (st_ID st)" and r: "cs_Stream r = starting_stream (startAuthority request now) now st"
      and st: "live_stream (ps_streams q) (st_ID st) = Some (cs_Stream r)"
      and claims: "memoryClaimedPrimaryAssignments (ps_auth q) (st_ID st) = Inr (cs_PrimaryAssignments r, claims)"
      and o: "cs_OwnershipClaim r = \<lparr>ow_StreamID = st_ID st, ow_StreamUpdatedAt = now,
        ow_StreamIdentity = streamStartOwnershipIdentity marshal sha256hex (cs_Stream r),
        ow_Assignments = claims, ow_Archive = startAuthority request now\<rparr>" and ok: "panel_ok q"
    have s: "equalFold (trimSpace ''starting'') ''starting''" by code_simp
    have "archiveAuthorityMatchesClaim (cs_Stream r) (startAuthority request now)"
      by (auto simp: archiveAuthorityMatchesClaim_def r starting_stream_def startAuthority_def Let_def cloneTimePtr_def)
    moreover have "startAssignmentClaimsEqual claims claims" by (simp add: startAssignmentClaimsEqual_def)
    moreover have "st_ID (cs_Stream r) = st_ID st" "st_Status (cs_Stream r) = ''starting''" "st_UpdatedAt (cs_Stream r) = now"
      by (simp_all add: r starting_stream_def)
    ultimately show ?thesis
      using assms(4,5) id st s claims panel_guards(2) [OF ok]
      by (simp add: TransitionClaimedStreamStart_def Let_def o good_id_def)
  qed
qed

text \<open>
  C6. The owner of a start can finish it: handing the claim that \<^verbatim>\<open>ClaimStreamStart\<close> returned to
  \<^verbatim>\<open>TransitionClaimedStreamStart\<close>, with a clock that has not gone back and an encoder that gives the
  stream an identity, moves the stream to the requested status and says so.
\<close>

theorem claimed_start_can_be_finished:
  assumes "panel_reach p" and "trimSpace uuid \<noteq> []"
    and "ClaimStreamStart marshal sha256hex c request uuid now p = (Inr r, q)"
    and "trimSpace (streamStartOwnershipIdentity marshal sha256hex (cs_Stream r)) \<noteq> []" and "now \<le> now'"
  shows "TransitionClaimedStreamStart marshal sha256hex None (cs_OwnershipClaim r) status now' q =
    (let st = (cs_Stream r)\<lparr>st_Status := trimSpace status, st_UpdatedAt := now'\<rparr> in
     (Inr (st, True), q\<lparr>ps_streams := put_stream (st_ID st) st (ps_streams q)\<rparr>))"
  by (rule claim_then_finish [OF guard.inv_reach [OF assms(1)] assms(2-5)])

lemma failed_by_claim:
  assumes "TransitionClaimedStreamStart marshal sha256hex c claim status now p = (Inr (st', True), q)"
    and "live_stream (ps_streams p) (trimSpace (ow_StreamID claim)) = Some st"
  shows "st_UpdatedAt st \<le> now" and "st' = st\<lparr>st_Status := trimSpace status, st_UpdatedAt := now\<rparr>"
    and "q = p\<lparr>ps_streams := put_stream (st_ID st) st' (ps_streams p)\<rparr>"
  using assms unfolding TransitionClaimedStreamStart_def Let_def
  by (auto simp: with_ctx_Inr split: if_splits sum.splits)

text \<open>
  C4. A superseded start is fenced off. If a claimed start is marked failed by its owner and the
  stream is then claimed again, even within the same clock tick, the first claim no longer matches:
  \<^verbatim>\<open>TransitionClaimedStreamStart\<close> with it is refused as a conflict and does not touch the successor.
\<close>

theorem superseded_claim_is_fenced:
  assumes "panel_reach p" and "trimSpace uuid \<noteq> []" and "trimSpace uuid' \<noteq> []"
    and "ClaimStreamStart marshal sha256hex c request uuid now p = (Inr r, p1)"
    and "TransitionClaimedStreamStart marshal sha256hex c' (cs_OwnershipClaim r) ''failed'' t p1 = (Inr (st, True), p2)"
    and "ClaimStreamStart marshal sha256hex c'' request' uuid' now' p2 = (Inr r', p3)"
    and "trimSpace (rq_StreamID request') = trimSpace (rq_StreamID request)"
  shows "TransitionClaimedStreamStart marshal sha256hex None (cs_OwnershipClaim r) status now'' p3 =
    (Inl ErrServiceAssignmentConflict, p3)"
proof -
  have ok: "panel_ok p" by (rule guard.inv_reach [OF assms(1)])
  have e: "equalFold (trimSpace ''starting'') ''starting''" "equalFold (trimSpace ''failed'') ''failed''"
    "trimSpace ''failed'' = ''failed''" by code_simp+
  show ?thesis
  proof (rule claim_facts [OF ok assms(2,4)])
    fix st0 claims
    assume id: "st_ID st0 = trimSpace (rq_StreamID request)" "good_id (st_ID st0)"
      and r: "cs_Stream r = starting_stream (startAuthority request now) now st0"
      and st1: "live_stream (ps_streams p1) (st_ID st0) = Some (cs_Stream r)"
      and o: "cs_OwnershipClaim r = \<lparr>ow_StreamID = st_ID st0, ow_StreamUpdatedAt = now,
        ow_StreamIdentity = streamStartOwnershipIdentity marshal sha256hex (cs_Stream r),
        ow_Assignments = claims, ow_Archive = startAuthority request now\<rparr>" and ok1: "panel_ok p1"
    have ok2: "panel_ok p2"
      using transition_effect [OF ok1, of marshal sha256hex c' "cs_OwnershipClaim r" "''failed''" t] assms(5)
      by (simp add: guarded_effect_def)
    have tid: "trimSpace (ow_StreamID (cs_OwnershipClaim r)) = st_ID st0" using id by (simp add: o good_id_def)
    note f = failed_by_claim [OF assms(5)[unfolded e(3)], unfolded tid, OF st1, unfolded e(3)]
    have live2: "live_stream (ps_streams p2) (st_ID st0) = Some st"
      using st1 by (auto simp: f r starting_stream_def live_stream_def put_stream_def split: option.splits if_splits)
    show ?thesis
    proof (rule claim_facts [OF ok2 assms(3,6)])
      fix st2 claims'
      assume st2: "live_stream (ps_streams p2) (trimSpace (rq_StreamID request')) = Some st2"
        and clock: "\<not> streamStartClockConflict st2 now' (startAuthority request' now')"
        and r': "cs_Stream r' = starting_stream (startAuthority request' now') now' st2"
        and st3: "live_stream (ps_streams p3) (st_ID st2) = Some (cs_Stream r')" and ok3: "panel_ok p3"
      have st2: "st2 = st" using st2 live2 assms(7) id by simp
      have sid: "st_ID st2 = st_ID st0" by (simp add: st2 f r)
      have prev: "st_UpdatedAt st2 = t" "st_Status st2 = ''failed''" "now \<le> t"
        "st_ArchiveStartedAt st2 = aa_StartedAt (startAuthority request now)"
        using f(1) by (auto simp: st2 f(2) r starting_stream_def startAuthority_def Let_def cloneTimePtr_def)
      have "now' \<noteq> now \<or> aa_StartedAt (startAuthority request' now') \<noteq> aa_StartedAt (startAuthority request now)"
        using clock prev e by (auto simp: streamStartClockConflict_def split: if_splits option.splits)
      then have "st_UpdatedAt (cs_Stream r') \<noteq> now \<or>
          \<not> archiveAuthorityMatchesClaim (cs_Stream r') (startAuthority request now)"
        by (auto simp: r' starting_stream_def archiveAuthorityMatchesClaim_def startAuthority_def Let_def
            cloneTimePtr_def split: if_splits)
      moreover have "st_Status (cs_Stream r') = ''starting''" by (simp add: r' starting_stream_def)
      ultimately show ?thesis
        using st3 e(1) panel_guards(2) [OF ok3] unfolding sid
        by (auto simp: TransitionClaimedStreamStart_def Let_def tid) (auto simp: o)
    qed
  qed
qed

subsection \<open>Witnesses\<close>

text \<open>A worker, an encoder and a Discord bot, all assigned to a stream that can be started.\<close>

definition sample_bot :: registered_service where
  "sample_bot = sample_node ''d1'' ''discord_bot''"

definition sample_panel_bot :: panel where
  "sample_panel_bot = sample_panel_enc\<lparr>ps_auth := (ps_auth sample_panel_enc)
     \<lparr>services := mput (services (ps_auth sample_panel_enc)) ''d1'' sample_bot\<rparr>\<rparr>"

definition sample_panel_created :: panel where
  "sample_panel_created = snd (CreateAssignedStream None ''s1'' ''demo'' ''u1'' sample_settings sample_create
     (\<lambda>i. i @ ''-a'') 5000 5000 sample_panel_bot)"

definition sample_ready :: panel where
  "sample_ready = snd (AssignServiceToStreamGuarded None (sample_mutation\<lparr>am_ServiceID := ''d1''\<rparr>) ''a3'' 6000
     sample_panel_created)"

definition sample_request :: "time \<Rightarrow> start_claim_request" where
  "sample_request t = \<lparr>rq_StreamID = ''s1'', rq_ExpectedStatus = ''created'', rq_ExpectedStreamUpdatedAt = t,
     rq_ExpectedPrimaryAssignments = [sample_worker, sample_encoder, sample_bot], rq_MaterializeServiceID = [],
     rq_MaterializeActorUserID = [], rq_ArchiveEnabled = False, rq_ArchiveStartedAt = 0\<rparr>"

definition sample_marshal :: "stream \<Rightarrow> string option" where
  "sample_marshal st = Some (st_ID st @ st_Status st)"

definition sample_hash :: "string \<Rightarrow> string" where
  "sample_hash x = rev x"
lemma sample_ready_reach: "panel_reach sample_ready"
proof -
  have "panel_step sample_panel1 sample_panel_enc"
    unfolding sample_panel_enc_def sample_encoder_def by (rule sample_register) code_simp+
  with sample_reach(1) have "panel_reach sample_panel_enc" by (rule reach.reach_step)
  moreover have "panel_step sample_panel_enc sample_panel_bot"
    unfolding sample_panel_bot_def sample_bot_def by (rule sample_register) code_simp+
  ultimately have "panel_reach sample_panel_bot" by (rule reach.reach_step)
  moreover have "panel_step sample_panel_bot sample_panel_created"
    unfolding sample_panel_created_def using good_id_s1 by (intro panel_step.op panel_op.create)
  ultimately have "panel_reach sample_panel_created" by (rule reach.reach_step)
  moreover have "panel_step sample_panel_created sample_ready"
    unfolding sample_ready_def by (intro panel_step.op panel_op.assign)
  ultimately show ?thesis by (rule reach.reach_step)
qed

definition sample_entry :: "registered_service \<Rightarrow> registered_service" where
  "sample_entry svc = svc\<lparr>sv_CurrentStreamID := ''s1'', sv_Status := ''assigned'', sv_AssignmentRole := ''primary''\<rparr>"

lemma sample_assignments: "assignments (ps_auth sample_ready) =
    [(assignmentKey ''s1'' ''encoder_recorder'' ''primary'' [], ''e1''), (assignmentKey ''s1'' ''worker'' ''primary'' [], ''w1''),
     (assignmentKey ''s1'' ''discord_bot'' ''primary'' [], ''d1'')]"
  by code_simp

lemma sample_ids:
  "mget (assignmentIDs (ps_auth sample_ready)) (assignmentKey ''s1'' ''encoder_recorder'' ''primary'' []) = Some ''e1-a''"
  "mget (assignmentIDs (ps_auth sample_ready)) (assignmentKey ''s1'' ''worker'' ''primary'' []) = Some ''w1-a''"
  "mget (assignmentIDs (ps_auth sample_ready)) (assignmentKey ''s1'' ''discord_bot'' ''primary'' []) = Some ''a3''"
  by code_simp+

lemma sample_services:
  "mget (services (ps_auth sample_ready)) ''e1'' = Some (sample_entry (sample_encoder\<lparr>sv_UpdatedAt := 5000\<rparr>))"
  "mget (services (ps_auth sample_ready)) ''w1'' = Some (sample_entry (sample_worker\<lparr>sv_UpdatedAt := 5000\<rparr>))"
  "mget (services (ps_auth sample_ready)) ''d1'' = Some (sample_entry (sample_bot\<lparr>sv_UpdatedAt := 6000\<rparr>))"
  by code_simp+

lemma sample_parts:
  "assignmentPartsFromKey (assignmentKey ''s1'' ''encoder_recorder'' ''primary'' []) = (''s1'', ''encoder_recorder'', ''primary'')"
  "assignmentPartsFromKey (assignmentKey ''s1'' ''worker'' ''primary'' []) = (''s1'', ''worker'', ''primary'')"
  "assignmentPartsFromKey (assignmentKey ''s1'' ''discord_bot'' ''primary'' []) = (''s1'', ''discord_bot'', ''primary'')"
  by code_simp+

lemma sample_trim: "trimSpace ''e1-a'' \<noteq> []" "trimSpace ''w1-a'' \<noteq> []" "trimSpace ''a3'' \<noteq> []" "trimSpace ''s1'' = ''s1''"
  by code_simp+

lemmas sample_simps = sample_assignments sample_ids sample_services sample_parts sample_entry_def sample_encoder_def
  sample_worker_def sample_bot_def sample_node_def Let_def zero_service_def sample_trim

definition sample_actual :: "registered_service gomap" where
  "sample_actual = [(''encoder_recorder'', sample_entry (sample_encoder\<lparr>sv_UpdatedAt := 5000\<rparr>)),
     (''worker'', sample_entry (sample_worker\<lparr>sv_UpdatedAt := 5000\<rparr>)),
     (''discord_bot'', sample_entry (sample_bot\<lparr>sv_UpdatedAt := 6000\<rparr>))]"

lemma sample_collect:
  "collectActual (ps_auth sample_ready) ''s1'' [] (assignments (ps_auth sample_ready)) = Inr sample_actual"
  by (simp add: sample_simps consistentServiceAssignmentLocked_def sample_actual_def) (simp add: mget_def mput_def)

lemma sample_expected:
  "case expectedPrimaryStartAssignments [sample_worker, sample_encoder, sample_bot] of
     Inl _ \<Rightarrow> False | Inr expected \<Rightarrow> startAssignmentsMatch expected sample_actual"
  by code_simp

lemma sample_can_claim:
  assumes ok: "panel_ok p" and auth: "ps_auth p = ps_auth sample_ready"
    and st: "live_stream (ps_streams p) ''s1'' = Some st" "\<not> stream_protected (ps_streams p) st"
      "streamStartClaimStatus (st_Status st)" "equalFold (trimSpace (st_Status st)) (trimSpace (rq_ExpectedStatus request))"
    and rq: "request = (sample_request (st_UpdatedAt st))\<lparr>rq_ExpectedStatus := rq_ExpectedStatus request\<rparr>"
    and now: "st_UpdatedAt st < now" and uuid: "trimSpace uuid \<noteq> []"
  shows "\<exists>r. ClaimStreamStart marshal sha256hex None request uuid now p =
    (Inr r, p\<lparr>ps_streams := (put_stream ''s1'' (starting_stream \<lparr>aa_RunID = [], aa_StartedAt = None\<rparr> now st) (ps_streams p))
       \<lparr>artifactReports := mput (artifactReports (ps_streams p)) ''s1'' False\<rparr>\<rparr>)"
proof -
  have id: "st_ID st = ''s1''" using keyed_mget [OF panel_streams [OF ok] live_stream_get [OF st(1)]] .
  have rq': "rq_StreamID request = ''s1''" "rq_MaterializeServiceID request = []"
    "rq_ExpectedStreamUpdatedAt request = st_UpdatedAt st" "\<not> rq_ArchiveEnabled request"
    "rq_ExpectedPrimaryAssignments request = [sample_worker, sample_encoder, sample_bot]"
    by (subst rq, simp add: sample_request_def)+
  obtain expected where e: "expectedPrimaryStartAssignments [sample_worker, sample_encoder, sample_bot] = Inr expected"
      "startAssignmentsMatch expected sample_actual"
    using sample_expected by (auto split: sum.splits)
  have "\<not> streamStartClockConflict st now authority" for authority
    using now by (simp add: streamStartClockConflict_def)
  moreover obtain primary claims where "memoryClaimedPrimaryAssignments (ps_auth p) ''s1'' = Inr (primary, claims)"
    using start_registry_claims [of "ps_auth p" "''s1''" sample_actual uuid now None] panel_registry [OF ok]
      good_id_s1 sample_collect uuid by (auto simp: auth start_registry_def)
  moreover have "trimSpace [] = []" by code_simp
  ultimately show ?thesis
    using st id e panel_guards(2) [OF ok] sample_collect sample_trim(4)
    by (simp add: ClaimStreamStart_def Let_def rq' startMaterialize_def withCandidate_def applyMaterialized_def
        startAuthority_def auth)
qed

abbreviation sample_claim :: "(claimed_stream_start, panel) outcome" where
  "sample_claim \<equiv> ClaimStreamStart sample_marshal sample_hash None (sample_request 5000) ''a4'' 9000 sample_ready"

definition sample_stream :: stream where
  "sample_stream = created_stream ''s1'' ''demo'' sample_settings sample_create 5000 5000"

definition sample_started :: stream where
  "sample_started = starting_stream \<lparr>aa_RunID = [], aa_StartedAt = None\<rparr> 9000 sample_stream"

definition sample_claimed :: panel where
  "sample_claimed = sample_ready\<lparr>ps_streams := (put_stream ''s1'' sample_started (ps_streams sample_ready))
     \<lparr>artifactReports := mput (artifactReports (ps_streams sample_ready)) ''s1'' False\<rparr>\<rparr>"

lemma sample_uuid: "trimSpace ''a4'' \<noteq> []" "trimSpace ''a6'' \<noteq> []"
  by code_simp+

lemma sample_claim_ok: "\<exists>r. sample_claim = (Inr r, sample_claimed)"
  unfolding sample_claimed_def sample_started_def
proof (rule sample_can_claim [OF guard.inv_reach [OF sample_ready_reach] refl])
  show "live_stream (ps_streams sample_ready) ''s1'' = Some sample_stream" by code_simp
  show "\<not> stream_protected (ps_streams sample_ready) sample_stream" by code_simp
  show "streamStartClaimStatus (st_Status sample_stream)" by code_simp
  show "equalFold (trimSpace (st_Status sample_stream)) (trimSpace (rq_ExpectedStatus (sample_request 5000)))" by code_simp
  have t: "st_UpdatedAt sample_stream = 5000" by code_simp
  then show "sample_request 5000 = (sample_request (st_UpdatedAt sample_stream))
      \<lparr>rq_ExpectedStatus := rq_ExpectedStatus (sample_request 5000)\<rparr>"
    and "st_UpdatedAt sample_stream < 9000" by simp_all
qed (rule sample_uuid)

theorem claimed_start_is_complete_witness:
  "\<exists>r. sample_claim = (Inr r, sample_claimed) \<and> st_Status (cs_Stream r) = ''starting'' \<and>
     (\<exists>svc \<in> set (cs_PrimaryAssignments r). sv_ServiceType svc = ''discord_bot'')"
proof -
  obtain r where r: "sample_claim = (Inr r, sample_claimed)" using sample_claim_ok by blast
  from claimed_start_is_complete [OF sample_ready_reach sample_uuid(1) r refl] r show ?thesis by auto
qed

theorem refused_claim_changes_nothing_witness:
  "fst (ClaimStreamStart sample_marshal sample_hash None (sample_request 4000) ''a4'' 9000 sample_ready) =
     Inl ErrServiceAssignmentConflict \<and>
   snd (ClaimStreamStart sample_marshal sample_hash None (sample_request 4000) ''a4'' 9000 sample_ready) = sample_ready"
proof -
  have "fst (ClaimStreamStart sample_marshal sample_hash None (sample_request 4000) ''a4'' 9000 sample_ready) =
     Inl ErrServiceAssignmentConflict" by code_simp
  with refused_claim_changes_nothing [OF sample_ready_reach sample_uuid(1) this] show ?thesis by simp
qed

theorem start_has_one_owner_witness:
  "ClaimStreamStart sample_marshal sample_hash None (sample_request 9000) ''a5'' 9000 sample_claimed =
     (Inl ErrServiceAssignmentConflict, sample_claimed)"
proof -
  obtain r where r: "sample_claim = (Inr r, sample_claimed)" using sample_claim_ok by blast
  have "trimSpace (rq_StreamID (sample_request 9000)) = trimSpace (rq_StreamID (sample_request 5000))"
    by (simp add: sample_request_def)
  from start_has_one_owner [OF sample_ready_reach sample_uuid(1) r this] show ?thesis .
qed

text \<open>The claimed sample: its stream, its identity, and the state after its owner marked it failed.\<close>

lemma sample_claimed_stream:
  assumes "sample_claim = (Inr r, sample_claimed)"
  shows "cs_Stream r = sample_started"
    and "trimSpace (streamStartOwnershipIdentity sample_marshal sample_hash (cs_Stream r)) \<noteq> []"
proof -
  have "mget (streams (ps_streams sample_claimed)) ''s1'' = Some sample_started"
    by (simp add: sample_claimed_def put_stream_def)
  moreover have "trimSpace (rq_StreamID (sample_request 5000)) = ''s1''" by code_simp
  ultimately show r: "cs_Stream r = sample_started"
    using claim_facts [OF guard.inv_reach [OF sample_ready_reach] sample_uuid(1) assms] live_stream_get
    by (metis option.inject)
  show "trimSpace (streamStartOwnershipIdentity sample_marshal sample_hash (cs_Stream r)) \<noteq> []"
    unfolding r by code_simp
qed

theorem claimed_start_can_be_finished_witness:
  "\<exists>r. sample_claim = (Inr r, sample_claimed) \<and>
     fst (TransitionClaimedStreamStart sample_marshal sample_hash None (cs_OwnershipClaim r) ''live'' 9000 sample_claimed) =
     Inr (sample_started\<lparr>st_Status := trimSpace ''live'', st_UpdatedAt := 9000\<rparr>, True)"
proof -
  obtain r where r: "sample_claim = (Inr r, sample_claimed)" using sample_claim_ok by blast
  from claimed_start_can_be_finished [OF sample_ready_reach sample_uuid(1) r sample_claimed_stream(2) [OF r], of 9000 "''live''"] r
  show ?thesis by (auto simp: Let_def sample_claimed_stream(1) [OF r])
qed

definition sample_failed :: stream where
  "sample_failed = sample_started\<lparr>st_Status := ''failed'', st_UpdatedAt := 9000\<rparr>"

definition sample_reset :: panel where
  "sample_reset = sample_claimed\<lparr>ps_streams := put_stream ''s1'' sample_failed (ps_streams sample_claimed)\<rparr>"

definition sample_again :: start_claim_request where
  "sample_again = (sample_request 9000)\<lparr>rq_ExpectedStatus := ''failed''\<rparr>"

theorem superseded_claim_is_fenced_witness:
  "\<exists>r r' q. sample_claim = (Inr r, sample_claimed) \<and>
     ClaimStreamStart sample_marshal sample_hash None sample_again ''a6'' 9500 sample_reset = (Inr r', q) \<and>
     TransitionClaimedStreamStart sample_marshal sample_hash None (cs_OwnershipClaim r) ''live'' 9500 q =
       (Inl ErrServiceAssignmentConflict, q)"
proof -
  obtain r where r: "sample_claim = (Inr r, sample_claimed)" using sample_claim_ok by blast
  note ok = guard.inv_reach [OF sample_ready_reach]
  have "trimSpace ''failed'' = ''failed''" "st_ID sample_started = ''s1''" by code_simp+
  with claim_then_finish [OF ok sample_uuid(1) r sample_claimed_stream(2) [OF r], of 9000 "''failed''"]
  have f: "TransitionClaimedStreamStart sample_marshal sample_hash None (cs_OwnershipClaim r) ''failed'' 9000 sample_claimed =
      (Inr (sample_failed, True), sample_reset)"
    by (simp add: sample_claimed_stream(1) [OF r] sample_failed_def sample_reset_def Let_def)
  have "panel_ok sample_claimed"
    using claim_effect [OF ok sample_uuid(1), of sample_marshal sample_hash None "sample_request 5000" 9000] r
    by (simp add: guarded_effect_def)
  from transition_effect [OF this, of sample_marshal sample_hash None "cs_OwnershipClaim r" "''failed''" 9000] f
  have okr: "panel_ok sample_reset" by (simp add: guarded_effect_def)
  have "\<exists>r'. ClaimStreamStart sample_marshal sample_hash None sample_again ''a6'' 9500 sample_reset =
    (Inr r', sample_reset\<lparr>ps_streams := (put_stream ''s1'' (starting_stream \<lparr>aa_RunID = [], aa_StartedAt = None\<rparr> 9500 sample_failed)
       (ps_streams sample_reset))\<lparr>artifactReports := mput (artifactReports (ps_streams sample_reset)) ''s1'' False\<rparr>\<rparr>)"
  proof (rule sample_can_claim [OF okr])
    show "ps_auth sample_reset = ps_auth sample_ready" by (simp add: sample_reset_def sample_claimed_def)
    show "live_stream (ps_streams sample_reset) ''s1'' = Some sample_failed" by code_simp
    show "\<not> stream_protected (ps_streams sample_reset) sample_failed" by code_simp
    show "streamStartClaimStatus (st_Status sample_failed)" by code_simp
    show "equalFold (trimSpace (st_Status sample_failed)) (trimSpace (rq_ExpectedStatus sample_again))" by code_simp
  qed (simp_all add: sample_again_def sample_failed_def sample_uuid)
  then obtain r' q where r': "ClaimStreamStart sample_marshal sample_hash None sample_again ''a6'' 9500 sample_reset = (Inr r', q)"
    by blast
  have "trimSpace (rq_StreamID sample_again) = trimSpace (rq_StreamID (sample_request 5000))"
    by (simp add: sample_again_def sample_request_def)
  from superseded_claim_is_fenced [OF sample_ready_reach sample_uuid r f r' this] r r' show ?thesis by blast
qed

end
