(* ===== verification/Notification_Outbox.thy ===== *)
theory Notification_Outbox
  imports Start_Claim
begin

text \<open>
  The outbox of Discord announcements, \<^verbatim>\<open>discord_youtube_live_notification_outbox.go\<close>: its value
  checks and the memory store's half. A notification is queued in the same critical section that
  makes its stream live, is leased to a dispatcher, crosses the boundary to the bot exactly when the
  store has recorded that it is about to, and ends delivered, suppressed or with an unknown outcome.
\<close>

subsection \<open>States and limits\<close>

abbreviation AwaitingYouTubeLive :: string where "AwaitingYouTubeLive \<equiv> ''awaiting_youtube_live''"
abbreviation DispatchPending :: string where "DispatchPending \<equiv> ''dispatch_pending''"
abbreviation Dispatching :: string where "Dispatching \<equiv> ''dispatching''"
abbreviation BotDispatching :: string where "BotDispatching \<equiv> ''bot_dispatching''"
abbreviation Delivered :: string where "Delivered \<equiv> ''delivered''"
abbreviation DeliveryUnknown :: string where "DeliveryUnknown \<equiv> ''delivery_unknown''"
abbreviation Suppressed :: string where "Suppressed \<equiv> ''suppressed''"

definition discordYouTubeLiveNotificationEventPrefix :: string where
  "discordYouTubeLiveNotificationEventPrefix = ''youtube-live-''"

definition discordYouTubeLiveNotificationMaxWatchURL :: int where
  "discordYouTubeLiveNotificationMaxWatchURL = 1900"

definition discordYouTubeLiveNotificationMaxError :: int where
  "discordYouTubeLiveNotificationMaxError = 128"

definition discordYouTubeLiveNotificationClaimTTL :: int where
  "discordYouTubeLiveNotificationClaimTTL = 120 * second"

record live_notification_claim =
  nc_Notification :: live_notification
  nc_LeaseToken :: string

subsection \<open>Values\<close>

definition initialDiscordYouTubeLiveNotificationState :: "string \<Rightarrow> string" where
  "initialDiscordYouTubeLiveNotificationState mode =
     (if equalFold (trimSpace mode) ''stream_key'' \<or> equalFold (trimSpace mode) ''legacy_stream_key''
      then DispatchPending else AwaitingYouTubeLive)"

definition validDiscordYouTubeLiveNotificationOpaqueValue :: "string \<Rightarrow> bool" where
  "validDiscordYouTubeLiveNotificationOpaqueValue value \<longleftrightarrow>
     value \<noteq> [] \<and> list_all (\<lambda>ch. \<not> (of_char ch < (0x20 :: int) \<or> of_char ch = (0x7f :: int))) value"

definition code_char :: "char \<Rightarrow> bool" where
  "code_char ch \<longleftrightarrow> (CHR ''a'' \<le> ch \<and> ch \<le> CHR ''z'') \<or> (CHR ''0'' \<le> ch \<and> ch \<le> CHR ''9'') \<or>
     ch = CHR ''_'' \<or> ch = CHR ''-''"

definition normalizeDiscordYouTubeLiveNotificationCode :: "string \<Rightarrow> string" where
  "normalizeDiscordYouTubeLiveNotificationCode value =
     (let v = toLower (trimSpace value) in
      if int (length v) > discordYouTubeLiveNotificationMaxError then []
      else if list_all code_char v then v else [])"

definition validDiscordYouTubeLiveNotificationRetryState :: "string \<Rightarrow> bool" where
  "validDiscordYouTubeLiveNotificationRetryState state \<longleftrightarrow> state = AwaitingYouTubeLive \<or> state = DispatchPending"

definition normalizeDiscordYouTubeLiveNotificationLeaseTTL :: "int \<Rightarrow> int" where
  "normalizeDiscordYouTubeLiveNotificationLeaseTTL value = (if value \<le> 0 then discordYouTubeLiveNotificationClaimTTL else value)"

definition normalizeDiscordYouTubeLiveNotificationLimit :: "int \<Rightarrow> int" where
  "normalizeDiscordYouTubeLiveNotificationLimit value = (if value \<le> 0 \<or> value > 100 then 25 else value)"

text \<open>
  \<^verbatim>\<open>normalizeNewDiscordYouTubeLiveNotification\<close>; \<open>uid\<close> and \<open>uev\<close> are the identifiers that
  \<^verbatim>\<open>newUUID\<close> returns when it is asked for the notification's and the event's.
\<close>

definition trimmed_notification :: "string \<Rightarrow> string \<Rightarrow> live_notification \<Rightarrow> live_notification" where
  "trimmed_notification uid uev n =
     n\<lparr>ln_ID := (if trimSpace (ln_ID n) = [] then uid else trimSpace (ln_ID n)),
       ln_StreamID := trimSpace (ln_StreamID n),
       ln_EventID := (if trimSpace (ln_EventID n) = [] then discordYouTubeLiveNotificationEventPrefix @ uev
         else trimSpace (ln_EventID n)),
       ln_WatchURL := trimSpace (ln_WatchURL n),
       ln_DiscordServiceID := trimSpace (ln_DiscordServiceID n),
       ln_DiscordTextChannelID := trimSpace (ln_DiscordTextChannelID n),
       ln_YouTubeMode := trimSpace (ln_YouTubeMode n),
       ln_YouTubeOAuthAccountID := trimSpace (ln_YouTubeOAuthAccountID n),
       ln_YouTubeBroadcastID := trimSpace (ln_YouTubeBroadcastID n),
       ln_LifecycleStatus := normalizeDiscordYouTubeLiveNotificationCode (ln_LifecycleStatus n),
       ln_State := (if trimSpace (ln_State n) = [] then initialDiscordYouTubeLiveNotificationState (trimSpace (ln_YouTubeMode n))
         else trimSpace (ln_State n))\<rparr>"

definition fresh_notification :: "time \<Rightarrow> live_notification \<Rightarrow> live_notification" where
  "fresh_notification now n =
     n\<lparr>ln_AttemptCount := 0, ln_DispatchAttemptCount := 0, ln_LastError := [], ln_DiscordMessageID := [],
       ln_DeliveredAt := None, ln_RecoveryOfID := trimSpace (ln_RecoveryOfID n), ln_NextAttemptAt := timePtrUTC now,
       ln_CreatedAt := now, ln_UpdatedAt := now\<rparr>"

definition normalizeNewDiscordYouTubeLiveNotification ::
  "string \<Rightarrow> string \<Rightarrow> live_notification \<Rightarrow> time \<Rightarrow> live_notification result" where
  "normalizeNewDiscordYouTubeLiveNotification uid uev notification now =
     (let n = trimmed_notification uid uev notification in
      if ln_StreamID n = [] \<or> ln_EventID n = [] \<or> int (length (ln_EventID n)) > 256 \<or>
         \<not> validDiscordYouTubeLiveNotificationOpaqueValue (ln_EventID n) \<or> ln_WatchURL n = [] \<or>
         int (length (ln_WatchURL n)) > discordYouTubeLiveNotificationMaxWatchURL \<or> \<not> validDiscordYouTubeLiveNotificationOpaqueValue (ln_WatchURL n) \<or>
         ln_DiscordServiceID n = [] \<or> ln_DiscordTextChannelID n = [] \<or>
         \<not> validDiscordYouTubeLiveNotificationOpaqueValue (ln_DiscordServiceID n) \<or> \<not> validDiscordYouTubeLiveNotificationOpaqueValue (ln_DiscordTextChannelID n)
      then Inl ErrInvalidDiscordYouTubeLiveNotification
      else if ln_YouTubeMode n = ''stream_key'' \<or> ln_YouTubeMode n = ''legacy_stream_key''
      then (if ln_State n \<noteq> DispatchPending then Inl ErrInvalidDiscordYouTubeLiveNotification
            else Inr (fresh_notification now (n\<lparr>ln_LifecycleStatus := ''legacy_unverified''\<rparr>)))
      else if ln_YouTubeMode n = ''live_api'' \<or> ln_YouTubeMode n = ''live_api_relay_static''
      then (if ln_State n \<noteq> AwaitingYouTubeLive \<or> ln_YouTubeOAuthAccountID n = [] \<or> ln_YouTubeBroadcastID n = [] \<or>
              \<not> validDiscordYouTubeLiveNotificationOpaqueValue (ln_YouTubeBroadcastID n)
            then Inl ErrInvalidDiscordYouTubeLiveNotification else Inr (fresh_notification now n))
      else Inl ErrInvalidDiscordYouTubeLiveNotification)"

definition discordYouTubeLiveNotificationLeaseHash :: "(string \<Rightarrow> string) \<Rightarrow> string \<Rightarrow> string" where
  "discordYouTubeLiveNotificationLeaseHash sha256hex raw = sha256hex raw"

subsection \<open>Queueing\<close>

text \<open>A start that is finished by its owner presents the claim; the other one passes \<^verbatim>\<open>nil\<close>.\<close>

definition ownership_holds ::
  "(stream \<Rightarrow> string option) \<Rightarrow> (string \<Rightarrow> string) \<Rightarrow> auth_store \<Rightarrow> stream \<Rightarrow> start_ownership_claim \<Rightarrow> bool" where
  "ownership_holds marshal sha256hex a st claim \<longleftrightarrow>
     (case memoryClaimedPrimaryAssignments a (ow_StreamID claim) of
        Inl _ \<Rightarrow> False
      | Inr (_, current) \<Rightarrow> startAssignmentClaimsEqual current (ow_Assignments claim)) \<and>
     st_Status st = ''starting'' \<and> streamStartOwnershipIdentity marshal sha256hex st = ow_StreamIdentity claim \<and>
     st_UpdatedAt st = ow_StreamUpdatedAt claim \<and> archiveAuthorityMatchesClaim st (ow_Archive claim)"

definition enqueue :: "live_notification \<Rightarrow> stream_store \<Rightarrow> stream_store" where
  "enqueue n s = s\<lparr>liveNotifications := mput (liveNotifications s) (ln_ID n) n,
     liveNotificationEvents := mput (liveNotificationEvents s) (ln_EventID n) (ln_ID n)\<rparr>"

definition transitionPreparedStartNotification ::
  "(stream \<Rightarrow> string option) \<Rightarrow> (string \<Rightarrow> string) \<Rightarrow> ctx \<Rightarrow> string \<Rightarrow> string \<Rightarrow> string \<Rightarrow> live_notification \<Rightarrow>
   start_ownership_claim option \<Rightarrow> string \<Rightarrow> string \<Rightarrow> time \<Rightarrow> panel \<Rightarrow>
   (stream \<times> live_notification option \<times> bool, panel) outcome" where
  "transitionPreparedStartNotification marshal sha256hex c streamID expectedStatus status notification claim uid uev now =
   with_ctx c (\<lambda>p.
     case normalizeNewDiscordYouTubeLiveNotification uid uev (notification\<lparr>ln_StreamID := trimSpace streamID\<rparr>) now of
       Inl e \<Rightarrow> (Inl e, p)
     | Inr n \<Rightarrow>
       if claim \<noteq> None \<and> \<not> serviceAssignmentGuard p then (Inl ErrServiceAssignmentGuardUnavailable, p)
       else let s = ps_streams p in
       (case mget (streams s) (ln_StreamID n) of
         None \<Rightarrow> (Inl ErrNotFound, p)
       | Some st \<Rightarrow>
         if \<not> equalFold (trimSpace (st_Status st)) (trimSpace expectedStatus) then (Inr (st, None, False), p)
         else if (case claim of None \<Rightarrow> False | Some cl \<Rightarrow> \<not> ownership_holds marshal sha256hex (ps_auth p) st cl)
         then (Inl ErrServiceAssignmentConflict, p)
         else if mget (liveNotificationEvents s) (ln_EventID n) \<noteq> None
         then (Inl ErrInvalidDiscordYouTubeLiveNotification, p)
         else let st' = st\<lparr>st_Status := status, st_UpdatedAt := now\<rparr> in
           (Inr (st', Some n, True), p\<lparr>ps_streams := enqueue n (put_stream (st_ID st') st' s)\<rparr>)))"

definition TransitionStreamStatusAndEnqueueDiscordYouTubeLiveNotification ::
  "(stream \<Rightarrow> string option) \<Rightarrow> (string \<Rightarrow> string) \<Rightarrow> ctx \<Rightarrow> string \<Rightarrow> string \<Rightarrow> string \<Rightarrow> live_notification \<Rightarrow>
   string \<Rightarrow> string \<Rightarrow> time \<Rightarrow> panel \<Rightarrow> (stream \<times> live_notification option \<times> bool, panel) outcome" where
  "TransitionStreamStatusAndEnqueueDiscordYouTubeLiveNotification marshal sha256hex c streamID expectedStatus status notification =
     transitionPreparedStartNotification marshal sha256hex c streamID expectedStatus status notification None"

definition TransitionClaimedStartAndEnqueueDiscordYouTubeLiveNotification ::
  "(stream \<Rightarrow> string option) \<Rightarrow> (string \<Rightarrow> string) \<Rightarrow> ctx \<Rightarrow> start_ownership_claim \<Rightarrow> live_notification \<Rightarrow>
   string \<Rightarrow> string \<Rightarrow> time \<Rightarrow> panel \<Rightarrow> (stream \<times> live_notification option \<times> bool, panel) outcome" where
  "TransitionClaimedStartAndEnqueueDiscordYouTubeLiveNotification marshal sha256hex c claim notification uid uev now p =
     (if aa_RunID (ow_Archive claim) = [] \<or> aa_StartedAt (ow_Archive claim) = None
      then (Inl ErrServiceAssignmentConflict, p)
      else transitionPreparedStartNotification marshal sha256hex c (ow_StreamID claim) ''starting'' ''live''
        notification (Some claim) uid uev now p)"

subsection \<open>Leases\<close>

definition due :: "time \<Rightarrow> stream_store \<Rightarrow> live_notification \<Rightarrow> bool" where
  "due now s item \<longleftrightarrow>
     (validDiscordYouTubeLiveNotificationRetryState (ln_State item) \<and> (case ln_NextAttemptAt item of None \<Rightarrow> False | Some t \<Rightarrow> \<not> t > now)) \<or>
     (ln_State item = Dispatching \<and> \<not> mtime (liveNotificationLeaseExpires s) (ln_ID item) > now)"

definition dueOrder :: "live_notification \<Rightarrow> time \<times> time" where
  "dueOrder item = (case ln_NextAttemptAt item of None \<Rightarrow> 0 | Some t \<Rightarrow> t, ln_CreatedAt item)"

definition dueItems :: "time \<Rightarrow> int \<Rightarrow> stream_store \<Rightarrow> live_notification list" where
  "dueItems now limit s =
     take (nat (normalizeDiscordYouTubeLiveNotificationLimit limit)) (sort_key dueOrder (filter (due now s) (map snd (liveNotifications s))))"

definition claimed :: "time \<Rightarrow> live_notification \<Rightarrow> live_notification" where
  "claimed now item = item\<lparr>ln_State := Dispatching, ln_AttemptCount := ln_AttemptCount item + 1, ln_UpdatedAt := now\<rparr>"

definition leaseItem ::
  "(string \<Rightarrow> string) \<Rightarrow> (string \<Rightarrow> string) \<Rightarrow> time \<Rightarrow> int \<Rightarrow> live_notification \<Rightarrow> stream_store \<Rightarrow> stream_store" where
  "leaseItem sha256hex token now ttl item s =
     s\<lparr>liveNotifications := mput (liveNotifications s) (ln_ID item) (claimed now item),
       liveNotificationLeases := mput (liveNotificationLeases s) (ln_ID item) (discordYouTubeLiveNotificationLeaseHash sha256hex (token (ln_ID item))),
       liveNotificationLeaseExpires := mput (liveNotificationLeaseExpires s) (ln_ID item) (now + ttl)\<rparr>"

text \<open>\<open>clock\<close> is what the clock shows, \<open>token\<close> the fresh lease token for each notification.\<close>

definition ClaimDueDiscordYouTubeLiveNotifications ::
  "(string \<Rightarrow> string) \<Rightarrow> ctx \<Rightarrow> time \<Rightarrow> int \<Rightarrow> int \<Rightarrow> time \<Rightarrow> (string \<Rightarrow> string) \<Rightarrow> stream_store \<Rightarrow>
   (live_notification_claim list, stream_store) outcome" where
  "ClaimDueDiscordYouTubeLiveNotifications sha256hex c now0 leaseTTL limit clock token = with_ctx c (\<lambda>s.
     let now = (if isZero now0 then clock else now0);
         items = dueItems now limit s in
     (Inr (map (\<lambda>item. \<lparr>nc_Notification = claimed now item, nc_LeaseToken = token (ln_ID item)\<rparr>) items),
      fold (leaseItem sha256hex token now (normalizeDiscordYouTubeLiveNotificationLeaseTTL leaseTTL)) items s))"

definition expiredDispatches :: "time \<Rightarrow> int \<Rightarrow> stream_store \<Rightarrow> live_notification list" where
  "expiredDispatches now limit s =
     take (nat (normalizeDiscordYouTubeLiveNotificationLimit limit)) (sort_key ln_CreatedAt
       (filter (\<lambda>n. ln_State n = BotDispatching \<and> \<not> mtime (liveNotificationLeaseExpires s) (ln_ID n) > now)
         (map snd (liveNotifications s))))"

definition fenced :: "time \<Rightarrow> live_notification \<Rightarrow> live_notification" where
  "fenced now item = item\<lparr>ln_State := DeliveryUnknown, ln_LastError := ''discord_dispatch_lease_expired_unknown'',
     ln_NextAttemptAt := None, ln_UpdatedAt := now\<rparr>"

text \<open>A notification is written back and its lease is given up.\<close>

definition settle :: "live_notification \<Rightarrow> stream_store \<Rightarrow> stream_store" where
  "settle n s = s\<lparr>liveNotifications := mput (liveNotifications s) (ln_ID n) n,
     liveNotificationLeases := mdel (liveNotificationLeases s) (ln_ID n),
     liveNotificationLeaseExpires := mdel (liveNotificationLeaseExpires s) (ln_ID n)\<rparr>"

definition FenceExpiredDiscordYouTubeLiveNotificationDispatches ::
  "ctx \<Rightarrow> time \<Rightarrow> int \<Rightarrow> time \<Rightarrow> stream_store \<Rightarrow> (live_notification list, stream_store) outcome" where
  "FenceExpiredDiscordYouTubeLiveNotificationDispatches c now0 limit clock = with_ctx c (\<lambda>s.
     let now = (if isZero now0 then clock else now0);
         items = map (fenced now) (expiredDispatches now limit s) in
     (Inr items, fold settle items s))"

definition holdsLease :: "(string \<Rightarrow> string) \<Rightarrow> string \<Rightarrow> time \<Rightarrow> live_notification \<Rightarrow> stream_store \<Rightarrow> bool" where
  "holdsLease sha256hex leaseToken now n s \<longleftrightarrow>
     (case mget (liveNotificationLeases s) (ln_ID n) of None \<Rightarrow> [] | Some h \<Rightarrow> h) = discordYouTubeLiveNotificationLeaseHash sha256hex leaseToken \<and>
     mtime (liveNotificationLeaseExpires s) (ln_ID n) > now"

definition BeginDiscordYouTubeLiveNotificationBotDispatch ::
  "(string \<Rightarrow> string) \<Rightarrow> ctx \<Rightarrow> string \<Rightarrow> string \<Rightarrow> time \<Rightarrow> stream_store \<Rightarrow> (live_notification, stream_store) outcome" where
  "BeginDiscordYouTubeLiveNotificationBotDispatch sha256hex c i leaseToken now = with_ctx c (\<lambda>s.
     case mget (liveNotifications s) (trimSpace i) of
       None \<Rightarrow> (Inl ErrDiscordYouTubeLiveNotificationClaimLost, s)
     | Some n \<Rightarrow>
       if ln_State n \<noteq> Dispatching \<or> \<not> holdsLease sha256hex leaseToken now n s
       then (Inl ErrDiscordYouTubeLiveNotificationClaimLost, s)
       else let n' = n\<lparr>ln_State := BotDispatching, ln_DispatchAttemptCount := ln_DispatchAttemptCount n + 1,
              ln_UpdatedAt := now\<rparr> in
         (Inr n', s\<lparr>liveNotifications := mput (liveNotifications s) (ln_ID n) n'\<rparr>))"

text \<open>\<open>now\<close> is the reading of the lease check, \<open>now'\<close> the one that is stored.\<close>

definition updateClaimedMemoryDiscordYouTubeLiveNotification ::
  "(string \<Rightarrow> string) \<Rightarrow> ctx \<Rightarrow> string \<Rightarrow> string \<Rightarrow> string \<Rightarrow> string \<Rightarrow> string \<Rightarrow> time \<Rightarrow> string \<Rightarrow> bool \<Rightarrow> bool \<Rightarrow>
   time \<Rightarrow> time \<Rightarrow> stream_store \<Rightarrow> (unit, stream_store) outcome" where
  "updateClaimedMemoryDiscordYouTubeLiveNotification sha256hex c i leaseToken state lifecycleStatus0 lastError0 nextAttemptAt messageID delivered
     requireBotDispatch now now' = with_ctx c (\<lambda>s.
     let lifecycleStatus = normalizeDiscordYouTubeLiveNotificationCode lifecycleStatus0; lastError = normalizeDiscordYouTubeLiveNotificationCode lastError0 in
     if trimSpace leaseToken = [] \<or> (state \<noteq> Delivered \<and> lastError = [])
     then (Inl ErrInvalidDiscordYouTubeLiveNotification, s)
     else case mget (liveNotifications s) (trimSpace i) of
       None \<Rightarrow> (Inl ErrDiscordYouTubeLiveNotificationClaimLost, s)
     | Some n \<Rightarrow>
       if (ln_State n \<noteq> Dispatching \<and> ln_State n \<noteq> BotDispatching) \<or>
          (requireBotDispatch \<and> ln_State n \<noteq> BotDispatching) \<or> \<not> holdsLease sha256hex leaseToken now n s
       then (Inl ErrDiscordYouTubeLiveNotificationClaimLost, s)
       else let n' = n\<lparr>ln_State := state, ln_LifecycleStatus := lifecycleStatus, ln_LastError := lastError,
              ln_NextAttemptAt := timePtrUTC nextAttemptAt, ln_DiscordMessageID := trimSpace messageID,
              ln_UpdatedAt := now', ln_DeliveredAt := (if delivered then timePtrUTC now' else ln_DeliveredAt n)\<rparr> in
         (Inr (), settle n' s))"

definition RecordDiscordYouTubeLiveNotificationRetry ::
  "(string \<Rightarrow> string) \<Rightarrow> ctx \<Rightarrow> string \<Rightarrow> string \<Rightarrow> string \<Rightarrow> string \<Rightarrow> string \<Rightarrow> time \<Rightarrow> time \<Rightarrow> time \<Rightarrow> stream_store \<Rightarrow>
   (unit, stream_store) outcome" where
  "RecordDiscordYouTubeLiveNotificationRetry sha256hex c i leaseToken state lifecycleStatus lastError nextAttemptAt now now' s =
     (if \<not> validDiscordYouTubeLiveNotificationRetryState state \<or> isZero nextAttemptAt then (Inl ErrInvalidDiscordYouTubeLiveNotification, s)
      else updateClaimedMemoryDiscordYouTubeLiveNotification sha256hex c i leaseToken state lifecycleStatus lastError nextAttemptAt [] False False now now' s)"

definition MarkDiscordYouTubeLiveNotificationDelivered ::
  "(string \<Rightarrow> string) \<Rightarrow> ctx \<Rightarrow> string \<Rightarrow> string \<Rightarrow> string \<Rightarrow> string \<Rightarrow> time \<Rightarrow> time \<Rightarrow> stream_store \<Rightarrow>
   (unit, stream_store) outcome" where
  "MarkDiscordYouTubeLiveNotificationDelivered sha256hex c i leaseToken lifecycleStatus0 messageID now now' s =
     (let lifecycleStatus = normalizeDiscordYouTubeLiveNotificationCode lifecycleStatus0 in
      if trimSpace messageID = [] \<or> \<not> validDiscordYouTubeLiveNotificationOpaqueValue (trimSpace messageID) \<or> lifecycleStatus = []
      then (Inl ErrInvalidDiscordYouTubeLiveNotification, s)
      else updateClaimedMemoryDiscordYouTubeLiveNotification sha256hex c i leaseToken Delivered lifecycleStatus [] 0 messageID True True now now' s)"

definition MarkDiscordYouTubeLiveNotificationDeliveryUnknown ::
  "(string \<Rightarrow> string) \<Rightarrow> ctx \<Rightarrow> string \<Rightarrow> string \<Rightarrow> string \<Rightarrow> string \<Rightarrow> time \<Rightarrow> time \<Rightarrow> stream_store \<Rightarrow>
   (unit, stream_store) outcome" where
  "MarkDiscordYouTubeLiveNotificationDeliveryUnknown sha256hex c i leaseToken lifecycleStatus lastError =
     updateClaimedMemoryDiscordYouTubeLiveNotification sha256hex c i leaseToken DeliveryUnknown lifecycleStatus lastError 0 [] False True"

definition MarkDiscordYouTubeLiveNotificationSuppressed ::
  "(string \<Rightarrow> string) \<Rightarrow> ctx \<Rightarrow> string \<Rightarrow> string \<Rightarrow> string \<Rightarrow> string \<Rightarrow> time \<Rightarrow> time \<Rightarrow> stream_store \<Rightarrow>
   (unit, stream_store) outcome" where
  "MarkDiscordYouTubeLiveNotificationSuppressed sha256hex c i leaseToken lifecycleStatus lastError =
     updateClaimedMemoryDiscordYouTubeLiveNotification sha256hex c i leaseToken Suppressed lifecycleStatus lastError 0 [] False False"

subsection \<open>Recovery and reads\<close>

definition CreateDiscordYouTubeLiveNotificationRecovery ::
  "ctx \<Rightarrow> string \<Rightarrow> string \<Rightarrow> string \<Rightarrow> string \<Rightarrow> time \<Rightarrow> stream_store \<Rightarrow> (live_notification, stream_store) outcome" where
  "CreateDiscordYouTubeLiveNotificationRecovery c streamID priorNotificationID uid uev now = with_ctx c (\<lambda>s.
     case mget (streams s) (trimSpace streamID) of
       None \<Rightarrow> (Inl ErrNotFound, s)
     | Some st \<Rightarrow>
       if \<not> equalFold (trimSpace (st_Status st)) ''live'' then (Inl ErrDiscordYouTubeLiveNotificationRecoveryGone, s)
       else (case mget (liveNotifications s) (trimSpace priorNotificationID) of
         None \<Rightarrow> (Inl ErrNotFound, s)
       | Some prior \<Rightarrow>
         if ln_StreamID prior \<noteq> st_ID st then (Inl ErrNotFound, s)
         else if ln_State prior \<noteq> DeliveryUnknown then (Inl ErrDiscordYouTubeLiveNotificationRecoveryGone, s)
         else if list_ex (\<lambda>(_, n). ln_RecoveryOfID n = ln_ID prior) (liveNotifications s)
         then (Inl ErrDiscordYouTubeLiveNotificationRecoveryUsed, s)
         else (case normalizeNewDiscordYouTubeLiveNotification uid uev
             (prior\<lparr>ln_ID := [], ln_EventID := [], ln_RecoveryOfID := ln_ID prior,
                ln_State := initialDiscordYouTubeLiveNotificationState (ln_YouTubeMode prior)\<rparr>) now of
           Inl e \<Rightarrow> (Inl e, s)
         | Inr recovery \<Rightarrow> (Inr recovery, enqueue recovery s))))"

fun latestNotification :: "string \<Rightarrow> live_notification option \<Rightarrow> live_notification list \<Rightarrow> live_notification option" where
  "latestNotification i latest [] = latest"
| "latestNotification i latest (n # rest) =
     (if ln_StreamID n \<noteq> i \<or> (case latest of None \<Rightarrow> False | Some l \<Rightarrow> \<not> ln_CreatedAt n > ln_CreatedAt l)
      then latestNotification i latest rest
      else latestNotification i (Some n) rest)"

definition GetLatestDiscordYouTubeLiveNotification :: "ctx \<Rightarrow> string \<Rightarrow> stream_store \<Rightarrow> (live_notification, stream_store) outcome" where
  "GetLatestDiscordYouTubeLiveNotification c streamID = with_ctx c (\<lambda>s.
     case latestNotification (trimSpace streamID) None (map snd (liveNotifications s)) of
       None \<Rightarrow> (Inl ErrNotFound, s)
     | Some n \<Rightarrow> (Inr n, s))"

end
