(* ===== verification/Outbox_Invariant.thy ===== *)
theory Outbox_Invariant
  imports Notification_Outbox
begin

text \<open>
  The outbox as a state machine, and the automaton of a single delivery that it refines: which
  states follow which, when an attempt is counted and when a post to Discord is.
\<close>

subsection \<open>The life of a delivery\<close>

record delivery =
  dl_State :: string
  dl_Attempts :: int
  dl_Posts :: int

definition delivery :: "live_notification \<Rightarrow> delivery" where
  "delivery n = \<lparr>dl_State = ln_State n, dl_Attempts = ln_AttemptCount n, dl_Posts = ln_DispatchAttemptCount n\<rparr>"

definition delivery_init :: "delivery \<Rightarrow> bool" where
  "delivery_init d \<longleftrightarrow> dl_State d \<in> {AwaitingYouTubeLive, DispatchPending} \<and> dl_Attempts d = 0 \<and> dl_Posts d = 0"

inductive delivery_step :: "delivery \<Rightarrow> delivery \<Rightarrow> bool" where
  lease: "dl_State d \<in> {AwaitingYouTubeLive, DispatchPending, Dispatching} \<Longrightarrow>
    delivery_step d (d\<lparr>dl_State := Dispatching, dl_Attempts := dl_Attempts d + 1\<rparr>)"
| post: "dl_State d = Dispatching \<Longrightarrow>
    delivery_step d (d\<lparr>dl_State := BotDispatching, dl_Posts := dl_Posts d + 1\<rparr>)"
| release: "dl_State d \<in> {Dispatching, BotDispatching} \<Longrightarrow> st \<in> {AwaitingYouTubeLive, DispatchPending, Suppressed} \<Longrightarrow>
    delivery_step d (d\<lparr>dl_State := st\<rparr>)"
| finish: "dl_State d = BotDispatching \<Longrightarrow> st \<in> {Delivered, DeliveryUnknown} \<Longrightarrow>
    delivery_step d (d\<lparr>dl_State := st\<rparr>)"

inductive_cases delivery_stepE: "delivery_step d e"

definition final_state :: "string \<Rightarrow> bool" where
  "final_state st \<longleftrightarrow> st \<in> {Delivered, DeliveryUnknown, Suppressed}"

definition leased_state :: "string \<Rightarrow> bool" where
  "leased_state st \<longleftrightarrow> st \<in> {Dispatching, BotDispatching}"

lemma final_no_step: "final_state (dl_State d) \<Longrightarrow> \<not> delivery_step d e"
  by (auto simp: final_state_def elim: delivery_stepE)

text \<open>The counters of a delivery.\<close>

definition delivery_ok :: "delivery \<Rightarrow> bool" where
  "delivery_ok d \<longleftrightarrow>
     dl_State d \<in> {AwaitingYouTubeLive, DispatchPending, Dispatching, BotDispatching, Delivered, DeliveryUnknown, Suppressed} \<and>
     0 \<le> dl_Posts d \<and> dl_Posts d \<le> dl_Attempts d \<and>
     (dl_State d = Dispatching \<longrightarrow> dl_Posts d < dl_Attempts d) \<and>
     (dl_State d \<in> {BotDispatching, Delivered, DeliveryUnknown} \<longrightarrow> 0 < dl_Posts d)"

interpretation delivery: inductive_invariant delivery_init delivery_step delivery_ok
proof unfold_locales
  fix d e
  show "delivery_ok d" if "delivery_init d"
    using that by (auto simp: delivery_init_def delivery_ok_def)
  assume "delivery_ok d" and "delivery_step d e"
  from this(2,1) show "delivery_ok e"
    by cases (auto simp: delivery_ok_def)
qed

subsection \<open>The invariant of the outbox\<close>

definition notification_ok :: "stream_store \<Rightarrow> live_notification \<Rightarrow> bool" where
  "notification_ok s n \<longleftrightarrow>
     ln_ID n \<noteq> [] \<and> trimSpace (ln_ID n) = ln_ID n \<and> delivery_ok (delivery n) \<and>
     (ln_State n = Delivered \<longrightarrow> ln_DiscordMessageID n \<noteq> []) \<and>
     mget (liveNotificationEvents s) (ln_EventID n) = Some (ln_ID n)"

text \<open>There is a lease, and an expiry, for exactly the notifications under way.\<close>

definition leased :: "stream_store \<Rightarrow> string \<Rightarrow> bool" where
  "leased s i \<longleftrightarrow> (case mget (liveNotifications s) i of None \<Rightarrow> False | Some n \<Rightarrow> leased_state (ln_State n))"

definition leases_ok :: "stream_store \<Rightarrow> bool" where
  "leases_ok s \<longleftrightarrow> (\<forall>i. (mget (liveNotificationLeases s) i = None) = (\<not> leased s i) \<and>
     (mget (liveNotificationLeaseExpires s) i = None) = (\<not> leased s i))"

definition recovery_ok :: "live_notification gomap \<Rightarrow> bool" where
  "recovery_ok m \<longleftrightarrow>
     (\<forall>i j n n'. mget m i = Some n \<longrightarrow> mget m j = Some n' \<longrightarrow> ln_RecoveryOfID n \<noteq> [] \<longrightarrow>
        ln_RecoveryOfID n = ln_RecoveryOfID n' \<longrightarrow> i = j) \<and>
     (\<forall>i j n n'. mget m i = Some n \<longrightarrow> mget m j = Some n' \<longrightarrow> ln_RecoveryOfID n = j \<longrightarrow>
        j \<noteq> [] \<longrightarrow> ln_State n' = DeliveryUnknown)"

lemma recovery_unique:
  "recovery_ok m \<Longrightarrow> mget m i = Some n \<Longrightarrow> mget m j = Some n' \<Longrightarrow> ln_RecoveryOfID n \<noteq> [] \<Longrightarrow>
   ln_RecoveryOfID n = ln_RecoveryOfID n' \<Longrightarrow> i = j"
  unfolding recovery_ok_def by blast

lemma recovery_prior:
  "recovery_ok m \<Longrightarrow> mget m i = Some n \<Longrightarrow> mget m (ln_RecoveryOfID n) = Some n' \<Longrightarrow> ln_RecoveryOfID n \<noteq> [] \<Longrightarrow>
   ln_State n' = DeliveryUnknown"
  unfolding recovery_ok_def by blast

definition outbox_ok :: "stream_store \<Rightarrow> bool" where
  "outbox_ok s \<longleftrightarrow>
     keyed ln_ID (liveNotifications s) \<and> mwf (liveNotificationEvents s) \<and>
     mwf (liveNotificationLeases s) \<and> mwf (liveNotificationLeaseExpires s) \<and>
     (\<forall>i n. mget (liveNotifications s) i = Some n \<longrightarrow> notification_ok s n) \<and>
     leases_ok s \<and> recovery_ok (liveNotifications s)"

lemma outbox_okD:
  assumes "outbox_ok s"
  shows outbox_keyed: "keyed ln_ID (liveNotifications s)"
    and outbox_mwf: "mwf (liveNotificationEvents s)" "mwf (liveNotificationLeases s)" "mwf (liveNotificationLeaseExpires s)"
    and outbox_notification: "\<And>i n. mget (liveNotifications s) i = Some n \<Longrightarrow> notification_ok s n"
    and outbox_leases: "leases_ok s"
    and outbox_recovery: "recovery_ok (liveNotifications s)"
  using assms unfolding outbox_ok_def by blast+

lemma outbox_ok_init: "outbox_ok NewMemoryStreamStore"
  by (simp add: outbox_ok_def NewMemoryStreamStore_def recovery_ok_def leases_ok_def leased_def)

text \<open>How one notification may differ between two stores.\<close>

fun moves :: "live_notification option \<Rightarrow> live_notification option \<Rightarrow> bool" where
  "moves None None = True"
| "moves None (Some n') = reach delivery_init delivery_step (delivery n')"
| "moves (Some n) None = False"
| "moves (Some n) (Some n') =
     (n' = n \<or> delivery_step\<^sup>+\<^sup>+ (delivery n) (delivery n') \<and>
       ln_StreamID n' = ln_StreamID n \<and> ln_EventID n' = ln_EventID n \<and> ln_RecoveryOfID n' = ln_RecoveryOfID n)"

definition outbox_effect :: "stream_store \<Rightarrow> stream_store \<Rightarrow> bool" where
  "outbox_effect s t \<longleftrightarrow> outbox_ok t \<and> (\<forall>i. moves (mget (liveNotifications s) i) (mget (liveNotifications t) i))"

lemma moves_refl [simp]: "moves x x"
  by (cases x) auto

lemma reach_steps: "step\<^sup>+\<^sup>+ s t \<Longrightarrow> reach init step s \<Longrightarrow> reach init step t"
  by (induction rule: tranclp_induct) (auto intro: reach.reach_step)

lemma moves_trans: "moves x y \<Longrightarrow> moves y z \<Longrightarrow> moves x z"
  by (cases x; cases y; cases z) (auto intro: reach_steps tranclp_trans)

lemma outbox_effect_refl: "outbox_ok s \<Longrightarrow> outbox_effect s s"
  by (simp add: outbox_effect_def)

lemma outbox_effect_trans: "outbox_effect s t \<Longrightarrow> outbox_effect t u \<Longrightarrow> outbox_effect s u"
  unfolding outbox_effect_def using moves_trans by blast

lemma outbox_effect_kept:
  "unless_kept s Q out \<Longrightarrow> outbox_ok s \<Longrightarrow> (Q out \<Longrightarrow> outbox_effect s (snd out)) \<Longrightarrow> outbox_effect s (snd out)"
  by (auto simp: unless_kept_def outbox_effect_refl)

text \<open>One notification is rewritten, with its lease or without.\<close>

lemma rewrite_effect:
  assumes ok: "outbox_ok s" and n: "mget (liveNotifications s) i = Some n"
    and t: "liveNotifications t = mput (liveNotifications s) i n'" "liveNotificationEvents t = liveNotificationEvents s"
      "mwf (liveNotificationLeases t)" "mwf (liveNotificationLeaseExpires t)"
      "\<And>j. j \<noteq> i \<Longrightarrow> mget (liveNotificationLeases t) j = mget (liveNotificationLeases s) j"
      "\<And>j. j \<noteq> i \<Longrightarrow> mget (liveNotificationLeaseExpires t) j = mget (liveNotificationLeaseExpires s) j"
      "(mget (liveNotificationLeases t) i = None) = (\<not> leased_state (ln_State n'))"
      "(mget (liveNotificationLeaseExpires t) i = None) = (\<not> leased_state (ln_State n'))"
    and same: "ln_ID n' = ln_ID n" "ln_StreamID n' = ln_StreamID n" "ln_EventID n' = ln_EventID n"
      "ln_RecoveryOfID n' = ln_RecoveryOfID n"
    and step: "delivery_step (delivery n) (delivery n')"
    and msg: "ln_State n' = Delivered \<longrightarrow> ln_DiscordMessageID n' \<noteq> []"
  shows "outbox_effect s t"
proof -
  have id: "ln_ID n = i" using outbox_keyed [OF ok] n by (rule keyed_mget)
  have old: "notification_ok s n" using outbox_notification [OF ok n] .
  have nf: "ln_State n \<noteq> DeliveryUnknown"
    using step final_no_step [of "delivery n" "delivery n'"] by (auto simp: delivery_def final_state_def)
  have "notification_ok t m" if "mget (liveNotifications t) j = Some m" for j m
  proof (cases "j = i")
    case True
    with that t(1) have m: "m = n'" by simp
    from old step have "delivery_ok (delivery n')"
      using delivery.inv_step by (auto simp: notification_ok_def)
    with old same msg t id show ?thesis unfolding m by (simp add: notification_ok_def)
  next
    case False
    with that t(1) have m: "mget (liveNotifications s) j = Some m" by simp
    from outbox_notification [OF ok m] show ?thesis
      unfolding notification_ok_def t(2) .
  qed
  moreover have "leases_ok t"
    unfolding leases_ok_def
  proof
    fix j
    show "(mget (liveNotificationLeases t) j = None) = (\<not> leased t j) \<and>
        (mget (liveNotificationLeaseExpires t) j = None) = (\<not> leased t j)"
      using outbox_leases [OF ok] t by (cases "j = i") (simp_all add: leases_ok_def leased_def)
  qed
  moreover have "recovery_ok (liveNotifications t)"
    using outbox_recovery [OF ok] n same(4) nf unfolding t(1) recovery_ok_def
    by (simp only: gm.get_put split: if_splits) (intro conjI allI impI; (metis option.inject))
  moreover have "keyed ln_ID (liveNotifications t)"
    using outbox_keyed [OF ok] same(1) id by (simp add: t(1) keyed_mput)
  moreover have "moves (mget (liveNotifications s) j) (mget (liveNotifications t) j)" for j
    using n same step by (auto simp: t(1))
  ultimately show ?thesis
    using outbox_mwf [OF ok] t by (simp add: outbox_effect_def outbox_ok_def)
qed

lemma settle_effect:
  assumes "outbox_ok s" and "mget (liveNotifications s) (ln_ID n') = Some n"
    and "delivery_step (delivery n) (delivery n')" and "\<not> leased_state (ln_State n')"
    and "ln_StreamID n' = ln_StreamID n" "ln_EventID n' = ln_EventID n" "ln_RecoveryOfID n' = ln_RecoveryOfID n"
    and "ln_State n' = Delivered \<longrightarrow> ln_DiscordMessageID n' \<noteq> []"
  shows "outbox_effect s (settle n' s)"
  using assms outbox_mwf [OF assms(1)] keyed_mget [OF outbox_keyed [OF assms(1)] assms(2)]
  by (intro rewrite_effect [OF assms(1,2), where n' = n']) (auto simp: settle_def)

lemma lease_effect:
  assumes "outbox_ok s" and "mget (liveNotifications s) (ln_ID n) = Some n"
    and "ln_State n \<in> {AwaitingYouTubeLive, DispatchPending, Dispatching}"
  shows "outbox_effect s (leaseItem sha256hex token now ttl n s)"
proof -
  have "delivery_step (delivery n) (delivery (claimed now n))"
    using assms(3) delivery_step.lease [of "delivery n"] by (simp add: delivery_def claimed_def)
  with assms outbox_mwf [OF assms(1)] show ?thesis
    by (intro rewrite_effect [OF assms(1,2), where n' = "claimed now n"]) (auto simp: leaseItem_def claimed_def leased_state_def)
qed

lemma post_effect:
  assumes ok: "outbox_ok s" and n: "mget (liveNotifications s) i = Some n" and st: "ln_State n = Dispatching"
  shows "outbox_effect s (s\<lparr>liveNotifications := mput (liveNotifications s) (ln_ID n)
    (n\<lparr>ln_State := BotDispatching, ln_DispatchAttemptCount := ln_DispatchAttemptCount n + 1, ln_UpdatedAt := now\<rparr>)\<rparr>)"
    (is "outbox_effect s (s\<lparr>liveNotifications := mput _ _ ?n\<rparr>)")
proof -
  have id: "ln_ID n = i" using outbox_keyed [OF ok] n by (rule keyed_mget)
  have "delivery_step (delivery n) (delivery ?n)"
    using st delivery_step.post [of "delivery n"] by (simp add: delivery_def)
  with st n outbox_leases [OF ok] outbox_mwf [OF ok] show ?thesis
    by (intro rewrite_effect [OF ok n, where n' = ?n]) (auto simp: id leased_state_def leases_ok_def leased_def)
qed

text \<open>A batch rewrites each notification on its list once.\<close>

lemma batch_effect:
  assumes "\<And>x s. outbox_ok s \<Longrightarrow> x \<in> set xs \<Longrightarrow> ready x (mget (liveNotifications s) (key x)) \<Longrightarrow> outbox_effect s (f x s)"
    and "\<And>x s j. j \<noteq> key x \<Longrightarrow> mget (liveNotifications (f x s)) j = mget (liveNotifications s) j"
    and "distinct (map key xs)" and "outbox_ok s" and "\<And>x. x \<in> set xs \<Longrightarrow> ready x (mget (liveNotifications s) (key x))"
  shows "outbox_effect s (fold f xs s)"
  using assms
proof (induction xs arbitrary: s)
  case (Cons x xs)
  have x: "outbox_effect s (f x s)" using Cons.prems(1) [OF Cons.prems(4)] Cons.prems(5) by simp
  have rest: "outbox_effect (f x s) (fold f xs (f x s))"
  proof (rule Cons.IH)
    show "outbox_ok (f x s)" using x by (simp add: outbox_effect_def)
    show "ready y (mget (liveNotifications (f x s)) (key y))" if "y \<in> set xs" for y
    proof -
      have "key x \<notin> key ` set xs" using Cons.prems(3) by simp
      with that have "key y \<noteq> key x" by (metis imageI)
      with that Cons.prems(2) [of "key y" x s] Cons.prems(5) [of y] show ?thesis by simp
    qed
  qed (use Cons.prems in auto)
  show ?case using outbox_effect_trans [OF x rest] by simp
qed (simp add: outbox_effect_refl)

lemma dueItems_ready:
  assumes ok: "outbox_ok s" and x: "x \<in> set (dueItems now limit s)"
  shows "mget (liveNotifications s) (ln_ID x) = Some x" and "due now s x"
proof -
  from x have "x \<in> snd ` set (liveNotifications s)" and due: "due now s x"
    by (auto simp: dueItems_def dest!: in_set_takeD)
  then show "mget (liveNotifications s) (ln_ID x) = Some x" and "due now s x"
    using outbox_keyed [OF ok] by (auto simp: keyed_def gm.entries_get)
qed

lemma distinct_ids: "keyed ln_ID m \<Longrightarrow> distinct (map ln_ID (take k (sort_key f (filter P (map snd m)))))"
proof -
  assume k: "keyed ln_ID m"
  then have eq: "map ln_ID (map snd m) = map fst m"
    by (auto simp: keyed_def)
  with k have "distinct (map ln_ID (map snd m))" unfolding eq by (simp add: keyed_def mwf_def)
  then have "distinct (map ln_ID (filter P (map snd m)))" by (rule distinct_map_filter)
  then have "distinct (map ln_ID (sort_key f (filter P (map snd m))))"
    by (simp add: distinct_map)
  then show ?thesis by (simp add: take_map [symmetric] distinct_take)
qed

lemma due_state: "due now s x \<Longrightarrow> ln_State x \<in> {AwaitingYouTubeLive, DispatchPending, Dispatching}"
  by (auto simp: due_def validDiscordYouTubeLiveNotificationRetryState_def)

lemma claim_due_effect:
  assumes ok: "outbox_ok s"
  shows "outbox_effect s (snd (ClaimDueDiscordYouTubeLiveNotifications sha256hex c now0 ttl limit clock token s))"
proof (cases c)
  case None
  let ?now = "if isZero now0 then clock else now0"
  have "outbox_effect s (fold (leaseItem sha256hex token ?now (normalizeDiscordYouTubeLiveNotificationLeaseTTL ttl)) (dueItems ?now limit s) s)"
  proof (rule batch_effect [where key = ln_ID and ready = "\<lambda>x n. n = Some x \<and>
        ln_State x \<in> {AwaitingYouTubeLive, DispatchPending, Dispatching}", OF _ _ _ ok])
    show "distinct (map ln_ID (dueItems ?now limit s))"
      unfolding dueItems_def by (rule distinct_ids [OF outbox_keyed [OF ok]])
    show "mget (liveNotifications s) (ln_ID x) = Some x \<and> ln_State x \<in> {AwaitingYouTubeLive, DispatchPending, Dispatching}"
      if "x \<in> set (dueItems ?now limit s)" for x
      using dueItems_ready [OF ok that] due_state by blast
    show "outbox_effect u (leaseItem sha256hex token ?now (normalizeDiscordYouTubeLiveNotificationLeaseTTL ttl) x u)"
      if "outbox_ok u" and "mget (liveNotifications u) (ln_ID x) = Some x \<and>
        ln_State x \<in> {AwaitingYouTubeLive, DispatchPending, Dispatching}" for x u
      using that by (blast intro: lease_effect)
  qed (simp add: leaseItem_def)
  then show ?thesis by (simp add: None ClaimDueDiscordYouTubeLiveNotifications_def Let_def)
qed (simp add: ClaimDueDiscordYouTubeLiveNotifications_def outbox_effect_refl [OF ok])

lemma fenced_step: "ln_State n = BotDispatching \<Longrightarrow> delivery_step (delivery n) (delivery (fenced now n))"
  using delivery_step.finish [of "delivery n" DeliveryUnknown] by (simp add: delivery_def fenced_def)

lemma expired_ready:
  assumes ok: "outbox_ok s" and x: "x \<in> set (expiredDispatches now limit s)"
  shows "mget (liveNotifications s) (ln_ID x) = Some x" and "ln_State x = BotDispatching"
proof -
  from x have "x \<in> snd ` set (liveNotifications s)" and st: "ln_State x = BotDispatching"
    by (auto simp: expiredDispatches_def dest!: in_set_takeD)
  then show "mget (liveNotifications s) (ln_ID x) = Some x" and "ln_State x = BotDispatching"
    using outbox_keyed [OF ok] by (auto simp: keyed_def gm.entries_get)
qed

lemma fence_effect:
  assumes ok: "outbox_ok s"
  shows "outbox_effect s (snd (FenceExpiredDiscordYouTubeLiveNotificationDispatches c now0 limit clock s))"
proof (cases c)
  case None
  let ?now = "if isZero now0 then clock else now0"
  have "outbox_effect s (fold (settle \<circ> fenced ?now) (expiredDispatches ?now limit s) s)"
  proof (rule batch_effect [where key = ln_ID and ready = "\<lambda>x n. n = Some x \<and> ln_State x = BotDispatching", OF _ _ _ ok])
    show "distinct (map ln_ID (expiredDispatches ?now limit s))"
      unfolding expiredDispatches_def by (rule distinct_ids [OF outbox_keyed [OF ok]])
    show "outbox_effect u ((settle \<circ> fenced ?now) x u)" if "outbox_ok u"
      and "mget (liveNotifications u) (ln_ID x) = Some x \<and> ln_State x = BotDispatching" for x u
      using that fenced_step [of x ?now]
      by (auto intro!: settle_effect [where n = x] simp: fenced_def leased_state_def)
  qed (use expired_ready [OF ok] in \<open>auto simp: settle_def fenced_def\<close>)
  then show ?thesis by (simp add: None FenceExpiredDiscordYouTubeLiveNotificationDispatches_def Let_def fold_map)
qed (simp add: FenceExpiredDiscordYouTubeLiveNotificationDispatches_def outbox_effect_refl [OF ok])

lemma begin_effect:
  assumes ok: "outbox_ok s"
  shows "outbox_effect s (snd (BeginDiscordYouTubeLiveNotificationBotDispatch sha256hex c i token now s))"
proof (rule outbox_effect_kept [OF _ ok])
  let ?Q = "\<lambda>out. \<exists>n. mget (liveNotifications s) (trimSpace i) = Some n \<and> ln_State n = Dispatching \<and>
    snd out = s\<lparr>liveNotifications := mput (liveNotifications s) (ln_ID n)
    (n\<lparr>ln_State := BotDispatching, ln_DispatchAttemptCount := ln_DispatchAttemptCount n + 1, ln_UpdatedAt := now\<rparr>)\<rparr>"
  show "unless_kept s ?Q (BeginDiscordYouTubeLiveNotificationBotDispatch sha256hex c i token now s)"
    unfolding BeginDiscordYouTubeLiveNotificationBotDispatch_def Let_def
    by (intro outcome_rules unless_keptI) auto
  assume "?Q (BeginDiscordYouTubeLiveNotificationBotDispatch sha256hex c i token now s)"
  with post_effect [OF ok] show "outbox_effect s (snd (BeginDiscordYouTubeLiveNotificationBotDispatch sha256hex c i token now s))"
    by auto
qed

text \<open>The states that \<^verbatim>\<open>updateClaimed\<close> is called with.\<close>

lemma update_effect:
  assumes ok: "outbox_ok s"
    and st: "(state \<in> {AwaitingYouTubeLive, DispatchPending, Suppressed}) \<or>
      (rb \<and> state \<in> {Delivered, DeliveryUnknown} \<and> (state = Delivered \<longrightarrow> trimSpace msg \<noteq> []))"
  shows "outbox_effect s (snd (updateClaimedMemoryDiscordYouTubeLiveNotification sha256hex c i token state lc err next msg dl rb now now' s))"
    (is "outbox_effect s (snd ?op)")
proof (rule outbox_effect_kept [OF _ ok])
  let ?n = "\<lambda>n. n\<lparr>ln_State := state, ln_LifecycleStatus := normalizeDiscordYouTubeLiveNotificationCode lc,
      ln_LastError := normalizeDiscordYouTubeLiveNotificationCode err,
      ln_NextAttemptAt := timePtrUTC next, ln_DiscordMessageID := trimSpace msg,
      ln_UpdatedAt := now', ln_DeliveredAt := (if dl then timePtrUTC now' else ln_DeliveredAt n)\<rparr>"
  let ?Q = "\<lambda>out. \<exists>n. mget (liveNotifications s) (trimSpace i) = Some n \<and> ln_State n \<in> {Dispatching, BotDispatching} \<and>
    (rb \<longrightarrow> ln_State n = BotDispatching) \<and> snd out = settle (?n n) s"
  show "unless_kept s ?Q ?op"
    unfolding updateClaimedMemoryDiscordYouTubeLiveNotification_def Let_def
    by (intro outcome_rules unless_keptI) auto
  assume "?Q ?op"
  then obtain n where n: "mget (liveNotifications s) (trimSpace i) = Some n" "ln_State n \<in> {Dispatching, BotDispatching}"
      "rb \<longrightarrow> ln_State n = BotDispatching" and out: "snd ?op = settle (?n n) s" by blast
  have id: "ln_ID n = trimSpace i" using outbox_keyed [OF ok] n(1) by (rule keyed_mget)
  have "delivery_step (delivery n) (delivery (?n n))"
    using st
  proof
    assume "state \<in> {AwaitingYouTubeLive, DispatchPending, Suppressed}"
    with n(2) delivery_step.release [of "delivery n" state] show ?thesis by (simp add: delivery_def)
  next
    assume "rb \<and> state \<in> {Delivered, DeliveryUnknown} \<and> (state = Delivered \<longrightarrow> trimSpace msg \<noteq> [])"
    with n(3) delivery_step.finish [of "delivery n" state] show ?thesis by (simp add: delivery_def)
  qed
  then show "outbox_effect s (snd ?op)"
    unfolding out using n(1) st id
    by (intro settle_effect [OF ok, where n = n]) (auto simp: leased_state_def)
qed

lemma retry_notification_effect:
  assumes ok: "outbox_ok s"
  shows "outbox_effect s (snd (RecordDiscordYouTubeLiveNotificationRetry sha256hex c i token state lc err at now now' s))"
proof (cases "validDiscordYouTubeLiveNotificationRetryState state \<and> \<not> isZero at")
  case True
  have "outbox_effect s (snd (updateClaimedMemoryDiscordYouTubeLiveNotification sha256hex c i token state lc err at [] False False now now' s))"
    by (rule update_effect [OF ok]) (use True in \<open>auto simp: validDiscordYouTubeLiveNotificationRetryState_def\<close>)
  with True show ?thesis by (simp add: RecordDiscordYouTubeLiveNotificationRetry_def)
next
  case False
  then have "snd (RecordDiscordYouTubeLiveNotificationRetry sha256hex c i token state lc err at now now' s) = s"
    by (simp add: RecordDiscordYouTubeLiveNotificationRetry_def)
  then show ?thesis by (simp add: outbox_effect_refl [OF ok])
qed

lemma delivered_effect:
  "outbox_ok s \<Longrightarrow> outbox_effect s (snd (MarkDiscordYouTubeLiveNotificationDelivered sha256hex c i token lc msg now now' s))"
  unfolding MarkDiscordYouTubeLiveNotificationDelivered_def Let_def
  by (cases "trimSpace msg = []") (simp_all add: outbox_effect_refl update_effect)

lemma unknown_effect:
  "outbox_ok s \<Longrightarrow> outbox_effect s (snd (MarkDiscordYouTubeLiveNotificationDeliveryUnknown sha256hex c i token lc err now now' s))"
  unfolding MarkDiscordYouTubeLiveNotificationDeliveryUnknown_def by (rule update_effect) simp_all

lemma suppressed_effect:
  "outbox_ok s \<Longrightarrow> outbox_effect s (snd (MarkDiscordYouTubeLiveNotificationSuppressed sha256hex c i token lc err now now' s))"
  unfolding MarkDiscordYouTubeLiveNotificationSuppressed_def by (rule update_effect) simp_all

subsection \<open>Queueing\<close>

text \<open>An identifier as \<^verbatim>\<open>newUUID\<close> makes them: not blank, trimmed, and not in use.\<close>

definition fresh_id :: "string \<Rightarrow> stream_store \<Rightarrow> bool" where
  "fresh_id uid s \<longleftrightarrow> uid \<noteq> [] \<and> trimSpace uid = uid \<and> mget (liveNotifications s) uid = None \<and>
     (\<forall>i n. mget (liveNotifications s) i = Some n \<longrightarrow> ln_RecoveryOfID n \<noteq> uid)"

lemma normalized_cases:
  assumes "normalizeNewDiscordYouTubeLiveNotification uid uev x now = Inr n"
  obtains lc where "n = fresh_notification now ((trimmed_notification uid uev x)\<lparr>ln_LifecycleStatus := lc\<rparr>)"
    and "ln_State (trimmed_notification uid uev x) \<in> {AwaitingYouTubeLive, DispatchPending}"
proof -
  let ?t = "trimmed_notification uid uev x"
  have cases: "c \<and> \<not> d \<and> n = u \<or> f \<and> \<not> g \<and> n = v"
    if "(if b then Inl e else if c then (if d then Inl e else Inr u) else if f then (if g then Inl e else Inr v) else Inl e) = Inr n"
    for b c d f g u v and e :: store_error
    using that by (simp split: if_splits)
  have "n = fresh_notification now (?t\<lparr>ln_LifecycleStatus := ''legacy_unverified''\<rparr>) \<and> ln_State ?t = DispatchPending \<or>
      n = fresh_notification now (?t\<lparr>ln_LifecycleStatus := ln_LifecycleStatus ?t\<rparr>) \<and> ln_State ?t = AwaitingYouTubeLive"
    using cases [OF assms [unfolded normalizeNewDiscordYouTubeLiveNotification_def Let_def]] by auto
  then show ?thesis using that by blast
qed

lemma normalized_new:
  assumes "normalizeNewDiscordYouTubeLiveNotification uid uev x now = Inr n"
  shows "ln_ID n = (if trimSpace (ln_ID x) = [] then uid else trimSpace (ln_ID x))"
    and "ln_RecoveryOfID n = trimSpace (ln_RecoveryOfID x)" and "ln_StreamID n = trimSpace (ln_StreamID x)"
    and "ln_EventID n = (if trimSpace (ln_EventID x) = [] then discordYouTubeLiveNotificationEventPrefix @ uev else trimSpace (ln_EventID x))"
    and "delivery_init (delivery n)" and "ln_DiscordMessageID n = []"
    and "ln_NextAttemptAt n = timePtrUTC now" and "ln_CreatedAt n = now"
proof -
  obtain lc where n: "n = fresh_notification now ((trimmed_notification uid uev x)\<lparr>ln_LifecycleStatus := lc\<rparr>)"
    and st: "ln_State (trimmed_notification uid uev x) \<in> {AwaitingYouTubeLive, DispatchPending}"
    using normalized_cases [OF assms] .
  note defs = n fresh_notification_def trimmed_notification_def
  from st show "delivery_init (delivery n)" unfolding n delivery_init_def delivery_def fresh_notification_def by simp
  show "ln_ID n = (if trimSpace (ln_ID x) = [] then uid else trimSpace (ln_ID x))" unfolding defs by simp
  show "ln_RecoveryOfID n = trimSpace (ln_RecoveryOfID x)" unfolding defs by simp
  show "ln_StreamID n = trimSpace (ln_StreamID x)" unfolding defs by simp
  show "ln_EventID n = (if trimSpace (ln_EventID x) = [] then discordYouTubeLiveNotificationEventPrefix @ uev else trimSpace (ln_EventID x))"
    unfolding defs by simp
  show "ln_DiscordMessageID n = []" "ln_NextAttemptAt n = timePtrUTC now" "ln_CreatedAt n = now" unfolding defs by simp_all
qed

lemma recovery_ok_mput:
  assumes ok: "recovery_ok m" and new: "mget m k = None" "\<And>i x. mget m i = Some x \<Longrightarrow> ln_RecoveryOfID x \<noteq> k" "k \<noteq> []"
    and rec: "ln_RecoveryOfID n = [] \<or> (\<exists>prior. mget m (ln_RecoveryOfID n) = Some prior \<and> ln_State prior = DeliveryUnknown \<and>
      (\<forall>i x. mget m i = Some x \<longrightarrow> ln_RecoveryOfID x \<noteq> ln_RecoveryOfID n))"
  shows "recovery_ok (mput m k n)"
  unfolding recovery_ok_def
proof (intro conjI allI impI)
  fix i j x y
  assume x: "mget (mput m k n) i = Some x" and y: "mget (mput m k n) j = Some y"
  show "i = j" if "ln_RecoveryOfID x \<noteq> []" and "ln_RecoveryOfID x = ln_RecoveryOfID y"
  proof (cases "i = k \<or> j = k")
    case True
    with x y that rec show ?thesis by (auto split: if_splits)
  next
    case False
    with x y that ok show ?thesis unfolding recovery_ok_def by (simp split: if_splits)
  qed
  show "ln_State y = DeliveryUnknown" if j: "ln_RecoveryOfID x = j" "j \<noteq> []"
  proof (cases "i = k")
    case True
    with x y j rec new(1) show ?thesis by (auto split: if_splits)
  next
    case False
    with x have xi: "mget m i = Some x" by simp
    with new(2) j y have "mget m j = Some y" by (auto split: if_splits)
    with xi j ok show ?thesis unfolding recovery_ok_def by blast
  qed
qed

lemma enqueue_effect:
  assumes ok: "outbox_ok s" and id: "fresh_id (ln_ID n) s" and init: "delivery_init (delivery n)"
    and event: "mget (liveNotificationEvents s) (ln_EventID n) = None"
    and rec: "ln_RecoveryOfID n = [] \<or> (\<exists>prior. mget (liveNotifications s) (ln_RecoveryOfID n) = Some prior \<and>
      ln_State prior = DeliveryUnknown \<and>
      (\<forall>i m. mget (liveNotifications s) i = Some m \<longrightarrow> ln_RecoveryOfID m \<noteq> ln_RecoveryOfID n))"
  shows "outbox_effect s (enqueue n s)"
proof -
  have st: "ln_State n \<in> {AwaitingYouTubeLive, DispatchPending}" using init by (simp add: delivery_init_def delivery_def)
  have "notification_ok (enqueue n s) m" if "mget (liveNotifications (enqueue n s)) j = Some m" for j m
  proof (cases "j = ln_ID n")
    case True
    with that have m: "m = n" by (simp add: enqueue_def)
    have "delivery_ok (delivery n)" using init by (rule delivery.inv_init)
    with st id show ?thesis
      unfolding m by (auto simp: notification_ok_def enqueue_def fresh_id_def)
  next
    case False
    with that have m: "mget (liveNotifications s) j = Some m" by (simp add: enqueue_def)
    from outbox_notification [OF ok m] event have "ln_EventID m \<noteq> ln_EventID n" by (auto simp: notification_ok_def)
    with outbox_notification [OF ok m] show ?thesis by (simp add: notification_ok_def enqueue_def)
  qed
  moreover have "leases_ok (enqueue n s)"
    using outbox_leases [OF ok] st id by (auto simp: leases_ok_def leased_def enqueue_def fresh_id_def leased_state_def)
  moreover have "recovery_ok (liveNotifications (enqueue n s))"
    using recovery_ok_mput [OF outbox_recovery [OF ok]] id rec by (simp add: enqueue_def fresh_id_def)
  moreover have "moves (mget (liveNotifications s) j) (mget (liveNotifications (enqueue n s)) j)" for j
    using id init by (auto simp: enqueue_def fresh_id_def intro: reach.reach_init)
  ultimately show ?thesis
    using outbox_mwf [OF ok] outbox_keyed [OF ok]
    by (simp add: outbox_effect_def outbox_ok_def enqueue_def keyed_mput)
qed

lemma transition_outbox_effect:
  assumes ok: "outbox_ok (ps_streams p)" and id: "trimSpace (ln_ID notification) = []" "fresh_id uid (ps_streams p)"
    and rec: "trimSpace (ln_RecoveryOfID notification) = []"
  shows "outbox_effect (ps_streams p) (ps_streams (snd
    (transitionPreparedStartNotification marshal sha256hex c streamID ex st notification claim uid uev now p)))" (is "outbox_effect _ (ps_streams (snd ?op))")
proof -
  let ?Q = "\<lambda>_ q. ps_streams q = ps_streams p \<or> (\<exists>n i st'. normalizeNewDiscordYouTubeLiveNotification uid uev (notification\<lparr>ln_StreamID := trimSpace streamID\<rparr>) now = Inr n \<and>
    mget (liveNotificationEvents (ps_streams p)) (ln_EventID n) = None \<and>
    ps_streams q = enqueue n (put_stream i st' (ps_streams p)))"
  have "settled p ?Q ?op"
    unfolding transitionPreparedStartNotification_def Let_def
    by (intro settled_rules) (simp_all, blast+)
  then show ?thesis
  proof (rule settled_cases)
    fix v q
    assume op: "?op = (Inr v, q)" and "?Q v q"
    then consider "ps_streams q = ps_streams p" | n i st' where
      "normalizeNewDiscordYouTubeLiveNotification uid uev (notification\<lparr>ln_StreamID := trimSpace streamID\<rparr>) now = Inr n"
      "mget (liveNotificationEvents (ps_streams p)) (ln_EventID n) = None"
      "ps_streams q = enqueue n (put_stream i st' (ps_streams p))" by blast
    then show ?thesis
    proof cases
      case 1
      with op show ?thesis by (simp add: outbox_effect_refl [OF ok])
    next
      case 2
      let ?s = "put_stream i st' (ps_streams p)"
      have "outbox_effect ?s (enqueue n ?s)"
        using normalized_new [OF 2(1)] id rec 2(2) ok
        by (intro enqueue_effect) (simp_all add: put_stream_def outbox_ok_def fresh_id_def notification_ok_def leases_ok_def leased_def)
      with op 2(3) show ?thesis by (simp add: outbox_effect_def put_stream_def)
    qed
  qed (simp add: outbox_effect_refl [OF ok])
qed

lemma recovery_effect:
  assumes ok: "outbox_ok s" and id: "fresh_id uid s"
    and event: "mget (liveNotificationEvents s) (discordYouTubeLiveNotificationEventPrefix @ uev) = None"
  shows "outbox_effect s (snd (CreateDiscordYouTubeLiveNotificationRecovery c streamID priorID uid uev now s))" (is "outbox_effect s (snd ?op)")
proof (rule outbox_effect_kept [OF _ ok])
  let ?x = "\<lambda>prior. prior\<lparr>ln_ID := [], ln_EventID := [], ln_RecoveryOfID := ln_ID prior,
    ln_State := initialDiscordYouTubeLiveNotificationState (ln_YouTubeMode prior)\<rparr>"
  let ?Q = "\<lambda>out. \<exists>prior n. mget (liveNotifications s) (trimSpace priorID) = Some prior \<and> ln_State prior = DeliveryUnknown \<and>
    \<not> list_ex (\<lambda>(_, n). ln_RecoveryOfID n = ln_ID prior) (liveNotifications s) \<and>
    normalizeNewDiscordYouTubeLiveNotification uid uev (?x prior) now = Inr n \<and> snd out = enqueue n s"
  show "unless_kept s ?Q ?op"
    unfolding CreateDiscordYouTubeLiveNotificationRecovery_def by (intro outcome_rules unless_keptI) auto
  assume "?Q ?op"
  then obtain prior n where prior: "mget (liveNotifications s) (trimSpace priorID) = Some prior" "ln_State prior = DeliveryUnknown"
    and unused: "\<not> list_ex (\<lambda>(_, n). ln_RecoveryOfID n = ln_ID prior) (liveNotifications s)"
    and n: "normalizeNewDiscordYouTubeLiveNotification uid uev (?x prior) now = Inr n" and out: "snd ?op = enqueue n s" by blast
  note new = normalized_new [OF n]
  have pid: "ln_ID prior = trimSpace priorID" using outbox_keyed [OF ok] prior(1) by (rule keyed_mget)
  have "ln_RecoveryOfID n = ln_ID prior" using new(2) pid by simp
  moreover have "\<forall>i m. mget (liveNotifications s) i = Some m \<longrightarrow> ln_RecoveryOfID m \<noteq> ln_ID prior"
    using unused by (auto simp: list_ex_iff dest: mget_in)
  ultimately show "outbox_effect s (snd ?op)"
    unfolding out using new id event prior pid by (intro enqueue_effect [OF ok]) auto
qed

subsection \<open>Deleting a stream\<close>

text \<open>What a store keeps when the notifications of one stream go.\<close>

definition outbox_drop :: "string \<Rightarrow> stream_store \<Rightarrow> stream_store \<Rightarrow> bool" where
  "outbox_drop i s t \<longleftrightarrow> outbox_ok t \<and>
     (\<forall>j. mget (liveNotifications t) j = (case mget (liveNotifications s) j of None \<Rightarrow> None
        | Some n \<Rightarrow> if ln_StreamID n = i then None else Some n))"

lemma drop_runtime_outbox:
  assumes ok: "outbox_ok s"
  shows "outbox_drop i s (dropStreamRuntime i s)"
proof -
  let ?t = "dropStreamRuntime i s"
  have wf: "mwf (liveNotifications s)" using outbox_keyed [OF ok] by (rule keyed_mwf)
  note wfs = outbox_mwf [OF ok]
  have get: "mget (liveNotifications ?t) j = (case mget (liveNotifications s) j of None \<Rightarrow> None
      | Some n \<Rightarrow> if ln_StreamID n = i then None else Some n)" for j
    using wf by (simp add: dropStreamRuntime_def Let_def)
  have mine: "list_ex (\<lambda>(j, _). j = k) (filter (\<lambda>(_, n). ln_StreamID n = i) (liveNotifications s)) \<longleftrightarrow>
      (\<exists>n. mget (liveNotifications s) k = Some n \<and> ln_StreamID n = i)" for k
    by (auto simp: list_ex_iff gm.entries_get [OF wf])
  have lease: "mget (liveNotificationLeases ?t) k = (if \<exists>n. mget (liveNotifications s) k = Some n \<and> ln_StreamID n = i
      then None else mget (liveNotificationLeases s) k)"
    "mget (liveNotificationLeaseExpires ?t) k = (if \<exists>n. mget (liveNotifications s) k = Some n \<and> ln_StreamID n = i
      then None else mget (liveNotificationLeaseExpires s) k)" for k
    using wfs by (auto simp: dropStreamRuntime_def Let_def mine split: option.split)
  have "notification_ok ?t m" if m: "mget (liveNotifications s) j = Some m" and other: "ln_StreamID m \<noteq> i" for j m
  proof -
    have "\<not> list_ex (\<lambda>(_, n). ln_EventID n = ln_EventID m) (filter (\<lambda>(_, n). ln_StreamID n = i) (liveNotifications s))"
    proof
      assume "list_ex (\<lambda>(_, n). ln_EventID n = ln_EventID m) (filter (\<lambda>(_, n). ln_StreamID n = i) (liveNotifications s))"
      then obtain k n where n: "mget (liveNotifications s) k = Some n" "ln_StreamID n = i" "ln_EventID n = ln_EventID m"
        by (auto simp: list_ex_iff gm.entries_get [OF wf])
      with outbox_notification [OF ok m] outbox_notification [OF ok n(1)] have "ln_ID n = ln_ID m"
        by (simp add: notification_ok_def)
      with keyed_mget [OF outbox_keyed [OF ok] m] keyed_mget [OF outbox_keyed [OF ok] n(1)] m n other show False by simp
    qed
    with outbox_notification [OF ok m] wfs show ?thesis
      by (simp add: notification_ok_def dropStreamRuntime_def Let_def)
  qed
  moreover have "leases_ok ?t"
    using outbox_leases [OF ok] by (auto simp: leases_ok_def leased_def lease get split: option.splits)
  moreover have "recovery_ok (liveNotifications ?t)"
    using outbox_recovery [OF ok] unfolding recovery_ok_def
    by (simp only: get split: option.splits if_splits) blast
  ultimately show ?thesis
    using outbox_keyed [OF ok] wfs get
    by (auto simp: outbox_drop_def outbox_ok_def dropStreamRuntime_def Let_def keyed_mdel_where split: option.splits if_splits)
qed

lemma outbox_ok_cong:
  assumes "liveNotifications t = liveNotifications s" "liveNotificationEvents t = liveNotificationEvents s"
    "liveNotificationLeases t = liveNotificationLeases s" "liveNotificationLeaseExpires t = liveNotificationLeaseExpires s"
  shows "outbox_ok t = outbox_ok s"
  by (simp add: outbox_ok_def notification_ok_def leases_ok_def leased_def assms)

lemma delete_outbox:
  assumes ok: "outbox_ok (ps_streams p)"
  shows "ps_streams (snd (DeleteStream c i now p)) = ps_streams p \<or>
    outbox_drop i (ps_streams p) (ps_streams (snd (DeleteStream c i now p)))"
proof -
  let ?u = "\<lambda>st g enc. put_stream i st (if g then attributeArtifacts i enc (ps_streams p) else ps_streams p)"
  have u: "outbox_ok (?u st g enc)" "liveNotifications (?u st g enc) = liveNotifications (ps_streams p)" for st g enc
    using ok by (subst outbox_ok_cong [of _ "ps_streams p"]) (simp_all add: put_stream_def attributeArtifacts_def)
  have "settled p (\<lambda>_ q. \<exists>st g enc. ps_streams q = dropStreamRuntime i (?u st g enc)) (DeleteStream c i now p)"
    unfolding DeleteStream_def Let_def
  proof (intro settled_rules, goal_cases)
    case (1 st)
    show ?case
      by (intro exI [of _ "deleted_stream now st"] exI [of _ "serviceAssignmentGuard p"]
          exI [of _ "archiveEncoderOf i (assignments (ps_auth p))"]) simp
  qed
  then show ?thesis
  proof (rule settled_cases)
    fix v q
    assume op: "DeleteStream c i now p = (Inr v, q)" and "\<exists>st g enc. ps_streams q = dropStreamRuntime i (?u st g enc)"
    then obtain st g enc where "ps_streams q = dropStreamRuntime i (?u st g enc)" by blast
    with drop_runtime_outbox [OF u(1) [of st g enc], of i] op show ?thesis
      by (simp only: outbox_drop_def u(2) snd_conv) blast
  qed simp
qed

end
