(* ===== verification/Outbox_Properties.thy ===== *)
theory Outbox_Properties
  imports Outbox_Invariant
begin

text \<open>
  The outbox as a state machine and what it promises: it refines the automaton of a delivery, a
  settled notification is final, a lost lease is worth nothing, and a recovery happens once.
\<close>

subsection \<open>The outbox as a state machine\<close>

text \<open>
  One step is one call with any arguments; \<^verbatim>\<open>newUUID\<close> returns identifiers that are not in use, and
  the panel queues notifications without an identifier and without a predecessor of their own. The
  last rule stands for every operation of the store that leaves the outbox alone.
\<close>

inductive outbox_step :: "(string \<Rightarrow> string) \<Rightarrow> stream_store \<Rightarrow> stream_store \<Rightarrow> bool" for sha256hex where
  queue: "trimSpace (ln_ID n) = [] \<Longrightarrow> trimSpace (ln_RecoveryOfID n) = [] \<Longrightarrow> fresh_id uid (ps_streams p) \<Longrightarrow>
    outbox_step sha256hex (ps_streams p) (ps_streams (snd
      (transitionPreparedStartNotification marshal sha256hex c i ex st n claim uid uev now p)))"
| lease: "outbox_step sha256hex s (snd (ClaimDueDiscordYouTubeLiveNotifications sha256hex c now0 ttl limit clock token s))"
| fence: "outbox_step sha256hex s (snd (FenceExpiredDiscordYouTubeLiveNotificationDispatches c now0 limit clock s))"
| post: "outbox_step sha256hex s (snd (BeginDiscordYouTubeLiveNotificationBotDispatch sha256hex c i token now s))"
| retry: "outbox_step sha256hex s
    (snd (RecordDiscordYouTubeLiveNotificationRetry sha256hex c i token st lc err at now now' s))"
| delivered: "outbox_step sha256hex s (snd (MarkDiscordYouTubeLiveNotificationDelivered sha256hex c i token lc msg now now' s))"
| unknown: "outbox_step sha256hex s (snd (MarkDiscordYouTubeLiveNotificationDeliveryUnknown sha256hex c i token lc err now now' s))"
| suppressed: "outbox_step sha256hex s (snd (MarkDiscordYouTubeLiveNotificationSuppressed sha256hex c i token lc err now now' s))"
| recover: "fresh_id uid s \<Longrightarrow>
    mget (liveNotificationEvents s) (discordYouTubeLiveNotificationEventPrefix @ uev) = None \<Longrightarrow>
    outbox_step sha256hex s (snd (CreateDiscordYouTubeLiveNotificationRecovery c i prior uid uev now s))"
| delete: "outbox_step sha256hex (ps_streams p) (ps_streams (snd (DeleteStream c i now p)))"
| other: "liveNotifications t = liveNotifications s \<Longrightarrow> liveNotificationEvents t = liveNotificationEvents s \<Longrightarrow>
    liveNotificationLeases t = liveNotificationLeases s \<Longrightarrow>
    liveNotificationLeaseExpires t = liveNotificationLeaseExpires s \<Longrightarrow> outbox_step sha256hex s t"

lemmas outbox_effects = claim_due_effect fence_effect begin_effect retry_notification_effect delivered_effect
  unknown_effect suppressed_effect recovery_effect

lemma outbox_step_cases:
  assumes "outbox_step sha256hex s t" and ok: "outbox_ok s"
  shows "outbox_effect s t \<or> (\<exists>i. outbox_drop i s t)"
  using assms(1)
proof cases
  case (queue n uid p marshal c i ex st claim uev now)
  then show ?thesis using transition_outbox_effect [of p n uid] ok by blast
next
  case (delete p c i now)
  with ok delete_outbox [of p c i now] outbox_effect_refl show ?thesis by auto
next
  case other
  with ok outbox_ok_cong [of t s] show ?thesis by (simp add: outbox_effect_def)
qed (use ok in \<open>auto simp del: snd_conv intro: outbox_effects\<close>)

lemma outbox_step_ok: "outbox_step sha256hex s t \<Longrightarrow> outbox_ok s \<Longrightarrow> outbox_ok t"
  using outbox_step_cases by (auto simp: outbox_effect_def outbox_drop_def)

lemma outbox_step_final:
  assumes "outbox_step sha256hex s t" and "outbox_ok s" and "mget (liveNotifications s) i = Some n"
    and "ln_State n \<in> {Delivered, DeliveryUnknown, Suppressed}"
  shows "mget (liveNotifications t) i = Some n \<or> mget (liveNotifications t) i = None"
  using outbox_step_cases [OF assms(1,2)]
proof
  assume "outbox_effect s t"
  then have "moves (Some n) (mget (liveNotifications t) i)" using assms(3) by (metis outbox_effect_def)
  moreover have "\<not> delivery_step\<^sup>+\<^sup>+ (delivery n) d" for d
    using final_no_step [of "delivery n"] assms(4) by (auto simp: delivery_def final_state_def dest: tranclpD)
  ultimately show ?thesis by (cases "mget (liveNotifications t) i") auto
qed (auto simp: outbox_drop_def assms(3) split: if_splits)

interpretation outbox: inductive_invariant "\<lambda>s. s = NewMemoryStreamStore" "outbox_step sha256hex" outbox_ok
  by unfold_locales (auto simp: outbox_ok_init intro: outbox_step_ok)

abbreviation outbox_reach :: "(string \<Rightarrow> string) \<Rightarrow> stream_store \<Rightarrow> bool" where
  "outbox_reach sha256hex \<equiv> reach (\<lambda>s. s = NewMemoryStreamStore) (outbox_step sha256hex)"

subsection \<open>Properties\<close>

text \<open>
  C7. The outbox refines the automaton of a delivery. In every reachable state, a call either leaves
  a notification alone, or removes it with its stream, or moves it along the automaton, with one
  attempt counted per lease and one post per crossing of the boundary to the bot; a notification
  that appears starts at an initial state.
\<close>

theorem outbox_refines_delivery:
  assumes "outbox_reach sha256hex s" and "outbox_step sha256hex s t"
  shows "(\<forall>i n'. mget (liveNotifications s) i = None \<longrightarrow> mget (liveNotifications t) i = Some n' \<longrightarrow>
      reach delivery_init delivery_step (delivery n')) \<and>
    (\<forall>i n n'. mget (liveNotifications s) i = Some n \<longrightarrow> mget (liveNotifications t) i = Some n' \<longrightarrow>
      n' = n \<or> delivery_step\<^sup>+\<^sup>+ (delivery n) (delivery n') \<and> ln_EventID n' = ln_EventID n) \<and>
    (\<forall>i n. mget (liveNotifications s) i = Some n \<longrightarrow> mget (liveNotifications t) i = None \<longrightarrow>
      (\<forall>j m. mget (liveNotifications t) j = Some m \<longrightarrow> ln_StreamID m \<noteq> ln_StreamID n))"
  using outbox_step_cases [OF assms(2) outbox.inv_reach [OF assms(1)]]
proof
  assume "outbox_effect s t"
  then have m: "moves (mget (liveNotifications s) i) (mget (liveNotifications t) i)" for i
    by (simp add: outbox_effect_def)
  show ?thesis
    by (intro conjI allI impI) (use m in \<open>metis moves.simps\<close>)+
next
  assume "\<exists>i. outbox_drop i s t"
  then obtain k where get: "mget (liveNotifications t) j = (case mget (liveNotifications s) j of None \<Rightarrow> None
      | Some n \<Rightarrow> if ln_StreamID n = k then None else Some n)" for j
    by (auto simp: outbox_drop_def)
  show ?thesis by (intro conjI allI impI) (simp_all add: get split: option.splits if_splits)
qed


text \<open>
  C9. The delivery invariant. In every reachable state every notification is in one of the seven
  states, has been posted at most once per attempt, is backed by a post if it is delivered or of
  unknown outcome, carries the message identifier if it is delivered, has a lease exactly while it
  is under way, and owns its event identifier, so that no two notifications share one.
\<close>

theorem notifications_are_accounted_for:
  assumes "outbox_reach sha256hex s" and "mget (liveNotifications s) i = Some n"
  shows "ln_ID n = i \<and> 0 \<le> ln_DispatchAttemptCount n \<and> ln_DispatchAttemptCount n \<le> ln_AttemptCount n \<and>
    (ln_State n \<in> {BotDispatching, Delivered, DeliveryUnknown} \<longrightarrow> 1 \<le> ln_DispatchAttemptCount n) \<and>
    (ln_State n = Delivered \<longrightarrow> ln_DiscordMessageID n \<noteq> []) \<and>
    (ln_State n \<in> {Dispatching, BotDispatching} \<longleftrightarrow> mget (liveNotificationLeases s) i \<noteq> None) \<and>
    (\<forall>j m. mget (liveNotifications s) j = Some m \<longrightarrow> ln_EventID m = ln_EventID n \<longrightarrow> j = i)"
proof -
  have ok: "outbox_ok s" by (rule outbox.inv_reach [OF assms(1)])
  note n = outbox_notification [OF ok assms(2)] and id = keyed_mget [OF outbox_keyed [OF ok]]
  have "j = i" if "mget (liveNotifications s) j = Some m" "ln_EventID m = ln_EventID n" for j m
    using n outbox_notification [OF ok that(1)] that id [OF that(1)] id [OF assms(2)] by (simp add: notification_ok_def)
  moreover have "ln_State n \<in> {Dispatching, BotDispatching} \<longleftrightarrow> mget (liveNotificationLeases s) i \<noteq> None"
    using outbox_leases [OF ok] assms(2) by (simp add: leases_ok_def leased_def leased_state_def)
  moreover have "0 \<le> ln_DispatchAttemptCount n \<and> ln_DispatchAttemptCount n \<le> ln_AttemptCount n \<and>
      (ln_State n \<in> {BotDispatching, Delivered, DeliveryUnknown} \<longrightarrow> 1 \<le> ln_DispatchAttemptCount n)"
    using n unfolding notification_ok_def delivery_ok_def delivery_def delivery.simps int_one_le_iff_zero_less by blast
  ultimately show ?thesis
    using n id [OF assms(2)] unfolding notification_ok_def by blast
qed

text \<open>
  C13. A recovery happens once. In every reachable state at most one notification is the recovery of
  a given predecessor, and the predecessor, as long as it is on file, is of unknown outcome.
\<close>

theorem recovery_happens_once:
  assumes "outbox_reach sha256hex s" and "mget (liveNotifications s) i = Some n" and "ln_RecoveryOfID n \<noteq> []"
  shows "(\<forall>j m. mget (liveNotifications s) j = Some m \<longrightarrow> ln_RecoveryOfID m = ln_RecoveryOfID n \<longrightarrow> j = i) \<and>
    (\<forall>prior. mget (liveNotifications s) (ln_RecoveryOfID n) = Some prior \<longrightarrow> ln_State prior = DeliveryUnknown)"
  using recovery_unique [OF outbox_recovery [OF outbox.inv_reach [OF assms(1)]] assms(2) _ assms(3)]
    recovery_prior [OF outbox_recovery [OF outbox.inv_reach [OF assms(1)]] assms(2) _ assms(3)] by metis

subsection \<open>Leases\<close>

lemma lease_fold_other:
  "k \<notin> ln_ID ` set xs \<Longrightarrow>
   mget (liveNotifications (fold (leaseItem sha256hex token now ttl) xs s)) k = mget (liveNotifications s) k \<and>
   mget (liveNotificationLeases (fold (leaseItem sha256hex token now ttl) xs s)) k = mget (liveNotificationLeases s) k \<and>
   mget (liveNotificationLeaseExpires (fold (leaseItem sha256hex token now ttl) xs s)) k = mget (liveNotificationLeaseExpires s) k"
  by (induction xs arbitrary: s) (auto simp: leaseItem_def)

lemma lease_fold:
  assumes "distinct (map ln_ID xs)" and "x \<in> set xs"
  shows "mget (liveNotifications (fold (leaseItem sha256hex token now ttl) xs s)) (ln_ID x) = Some (claimed now x)"
    and "mget (liveNotificationLeases (fold (leaseItem sha256hex token now ttl) xs s)) (ln_ID x) =
      Some (discordYouTubeLiveNotificationLeaseHash sha256hex (token (ln_ID x)))"
    and "mget (liveNotificationLeaseExpires (fold (leaseItem sha256hex token now ttl) xs s)) (ln_ID x) = Some (now + ttl)"
proof -
  let ?f = "leaseItem sha256hex token now ttl"
  from assms(2) obtain ys zs where xs: "xs = ys @ x # zs" by (auto simp: in_set_conv_decomp)
  with assms(1) have "ln_ID x \<notin> ln_ID ` set zs" by auto
  note other = lease_fold_other [OF this, of sha256hex token now ttl "?f x (fold ?f ys s)"]
  show "mget (liveNotifications (fold ?f xs s)) (ln_ID x) = Some (claimed now x)"
    "mget (liveNotificationLeases (fold ?f xs s)) (ln_ID x) =
      Some (discordYouTubeLiveNotificationLeaseHash sha256hex (token (ln_ID x)))"
    "mget (liveNotificationLeaseExpires (fold ?f xs s)) (ln_ID x) = Some (now + ttl)"
    using other by (simp_all add: xs leaseItem_def)
qed

lemma claim_due_member:
  assumes ok: "outbox_ok s"
    and op: "ClaimDueDiscordYouTubeLiveNotifications sha256hex c now0 ttl limit clock token s = (Inr claims, t)"
    and cl: "cl \<in> set claims"
  obtains x where "x \<in> set (dueItems (if isZero now0 then clock else now0) limit s)"
    "cl = \<lparr>nc_Notification = claimed (if isZero now0 then clock else now0) x, nc_LeaseToken = token (ln_ID x)\<rparr>"
    "mget (liveNotifications t) (ln_ID x) = Some (nc_Notification cl)"
    "mget (liveNotificationLeases t) (ln_ID x) = Some (sha256hex (nc_LeaseToken cl))"
    "mget (liveNotificationLeaseExpires t) (ln_ID x) =
      Some ((if isZero now0 then clock else now0) + normalizeDiscordYouTubeLiveNotificationLeaseTTL ttl)"
proof -
  let ?now = "if isZero now0 then clock else now0"
  let ?items = "dueItems ?now limit s"
  from op have claims: "claims = map (\<lambda>item. \<lparr>nc_Notification = claimed ?now item, nc_LeaseToken = token (ln_ID item)\<rparr>) ?items"
    and t: "t = fold (leaseItem sha256hex token ?now (normalizeDiscordYouTubeLiveNotificationLeaseTTL ttl)) ?items s"
    by (simp_all add: ClaimDueDiscordYouTubeLiveNotifications_def with_ctx_Inr Let_def)
  from cl claims obtain x where x: "x \<in> set ?items"
    "cl = \<lparr>nc_Notification = claimed ?now x, nc_LeaseToken = token (ln_ID x)\<rparr>" by auto
  have "distinct (map ln_ID ?items)" unfolding dueItems_def by (rule distinct_ids [OF outbox_keyed [OF ok]])
  from that [OF x] lease_fold [OF this x(1)] show ?thesis
    by (simp add: t x(2) discordYouTubeLiveNotificationLeaseHash_def)
qed

text \<open>
  C10. A lease has one holder. After \<^verbatim>\<open>ClaimDue\<close> has leased a notification in a reachable state, every
  call on that notification with a token of another hash, such as the token of an earlier lease that
  expired, is refused and changes nothing.
\<close>

theorem lease_has_one_holder:
  assumes "outbox_reach sha256hex s"
    and "ClaimDueDiscordYouTubeLiveNotifications sha256hex c now0 ttl limit clock token s = (Inr claims, t)"
    and "cl \<in> set claims" and "sha256hex stale \<noteq> sha256hex (nc_LeaseToken cl)"
    and "trimSpace i = ln_ID (nc_Notification cl)"
  shows "BeginDiscordYouTubeLiveNotificationBotDispatch sha256hex None i stale now t =
      (Inl ErrDiscordYouTubeLiveNotificationClaimLost, t) \<and>
    (\<exists>e. RecordDiscordYouTubeLiveNotificationRetry sha256hex None i stale st lc err at now now' t = (Inl e, t)) \<and>
    (\<exists>e. MarkDiscordYouTubeLiveNotificationDelivered sha256hex None i stale lc msg now now' t = (Inl e, t)) \<and>
    (\<exists>e. MarkDiscordYouTubeLiveNotificationDeliveryUnknown sha256hex None i stale lc err now now' t = (Inl e, t)) \<and>
    (\<exists>e. MarkDiscordYouTubeLiveNotificationSuppressed sha256hex None i stale lc err now now' t = (Inl e, t))"
proof (rule claim_due_member [OF outbox.inv_reach [OF assms(1)] assms(2,3)])
  fix x
  assume x: "cl = \<lparr>nc_Notification = claimed (if isZero now0 then clock else now0) x, nc_LeaseToken = token (ln_ID x)\<rparr>"
    and n: "mget (liveNotifications t) (ln_ID x) = Some (nc_Notification cl)"
    and l: "mget (liveNotificationLeases t) (ln_ID x) = Some (sha256hex (nc_LeaseToken cl))"
  have id: "ln_ID (nc_Notification cl) = ln_ID x" by (simp add: x claimed_def)
  have "\<not> holdsLease sha256hex stale now (nc_Notification cl) t"
    using l assms(4) by (simp add: holdsLease_def id discordYouTubeLiveNotificationLeaseHash_def)
  moreover have "mget (liveNotifications t) (trimSpace i) = Some (nc_Notification cl)" using n assms(5) id by simp
  ultimately show ?thesis
    by (simp add: BeginDiscordYouTubeLiveNotificationBotDispatch_def RecordDiscordYouTubeLiveNotificationRetry_def
        MarkDiscordYouTubeLiveNotificationDelivered_def MarkDiscordYouTubeLiveNotificationDeliveryUnknown_def
        MarkDiscordYouTubeLiveNotificationSuppressed_def updateClaimedMemoryDiscordYouTubeLiveNotification_def Let_def)
qed

text \<open>
  C11. The holder of a lease can deliver. A notification that was leased in a reachable state can be
  posted and then marked delivered with its token as long as the lease lasts; it ends delivered, with
  one more post counted and the trimmed message identifier on file.
\<close>

theorem lease_holder_can_deliver:
  assumes "outbox_reach sha256hex s"
    and "ClaimDueDiscordYouTubeLiveNotifications sha256hex c now0 ttl limit clock token s = (Inr claims, t)"
    and "cl \<in> set claims" and "trimSpace (nc_LeaseToken cl) \<noteq> []"
    and "validDiscordYouTubeLiveNotificationOpaqueValue (trimSpace msg)"
    and "normalizeDiscordYouTubeLiveNotificationCode lc \<noteq> []"
    and "now1 < (if isZero now0 then clock else now0) + normalizeDiscordYouTubeLiveNotificationLeaseTTL ttl"
    and "now2 < (if isZero now0 then clock else now0) + normalizeDiscordYouTubeLiveNotificationLeaseTTL ttl"
  shows "\<exists>n u v. BeginDiscordYouTubeLiveNotificationBotDispatch sha256hex None (ln_ID (nc_Notification cl)) (nc_LeaseToken cl) now1 t = (Inr n, u) \<and>
    MarkDiscordYouTubeLiveNotificationDelivered sha256hex None (ln_ID (nc_Notification cl)) (nc_LeaseToken cl) lc msg now2 now3 u = (Inr (), v) \<and>
    (\<exists>m. mget (liveNotifications v) (ln_ID (nc_Notification cl)) = Some m \<and> ln_State m = Delivered \<and>
      ln_DiscordMessageID m = trimSpace msg \<and>
      ln_DispatchAttemptCount m = ln_DispatchAttemptCount (nc_Notification cl) + 1)"
proof (rule claim_due_member [OF outbox.inv_reach [OF assms(1)] assms(2,3)])
  fix x
  let ?now = "if isZero now0 then clock else now0" and ?cl = "nc_Notification cl"
  assume x: "x \<in> set (dueItems ?now limit s)" "cl = \<lparr>nc_Notification = claimed ?now x, nc_LeaseToken = token (ln_ID x)\<rparr>"
    and n: "mget (liveNotifications t) (ln_ID x) = Some ?cl"
    and l: "mget (liveNotificationLeases t) (ln_ID x) = Some (sha256hex (nc_LeaseToken cl))"
    and e: "mget (liveNotificationLeaseExpires t) (ln_ID x) = Some (?now + normalizeDiscordYouTubeLiveNotificationLeaseTTL ttl)"
  have id: "ln_ID ?cl = ln_ID x" and st: "ln_State ?cl = Dispatching" by (simp_all add: x claimed_def)
  have trim: "trimSpace (ln_ID x) = ln_ID x"
    using outbox_notification [OF outbox.inv_reach [OF assms(1)] dueItems_ready(1) [OF outbox.inv_reach [OF assms(1)] x(1)]]
    by (simp add: notification_ok_def)
  have msg: "trimSpace msg \<noteq> []" using assms(5) by (auto simp: validDiscordYouTubeLiveNotificationOpaqueValue_def)
  have holds: "holdsLease sha256hex (nc_LeaseToken cl) k m u"
    if "k < ?now + normalizeDiscordYouTubeLiveNotificationLeaseTTL ttl" "ln_ID m = ln_ID x"
      "liveNotificationLeases u = liveNotificationLeases t" "liveNotificationLeaseExpires u = liveNotificationLeaseExpires t" for k m u
    using l e that by (simp add: holdsLease_def mtime_def discordYouTubeLiveNotificationLeaseHash_def)
  let ?n = "?cl\<lparr>ln_State := BotDispatching, ln_DispatchAttemptCount := ln_DispatchAttemptCount ?cl + 1, ln_UpdatedAt := now1\<rparr>"
  let ?u = "t\<lparr>liveNotifications := mput (liveNotifications t) (ln_ID x) ?n\<rparr>"
  have b: "BeginDiscordYouTubeLiveNotificationBotDispatch sha256hex None (ln_ID x) (nc_LeaseToken cl) now1 t = (Inr ?n, ?u)"
    using n st holds [OF assms(7) id] by (simp add: BeginDiscordYouTubeLiveNotificationBotDispatch_def trim id Let_def)
  have "\<exists>v m. MarkDiscordYouTubeLiveNotificationDelivered sha256hex None (ln_ID x) (nc_LeaseToken cl) lc msg now2 now3 ?u = (Inr (), v) \<and>
      mget (liveNotifications v) (ln_ID x) = Some m \<and> ln_State m = Delivered \<and> ln_DiscordMessageID m = trimSpace msg \<and>
      ln_DispatchAttemptCount m = ln_DispatchAttemptCount ?cl + 1"
    using holds [OF assms(8), of ?n ?u] assms(4-6) msg
    by (simp add: MarkDiscordYouTubeLiveNotificationDelivered_def updateClaimedMemoryDiscordYouTubeLiveNotification_def
        Let_def trim id settle_def)
  with b id show ?thesis by auto
qed

subsection \<open>Batches\<close>

lemma take_sorted_least:
  assumes "x \<in> set xs" and "x \<notin> set (take k (sort_key f xs))"
  shows "length (take k (sort_key f xs)) = k" and "y \<in> set (take k (sort_key f xs)) \<Longrightarrow> f y \<le> f x"
proof -
  let ?s = "sort_key f xs"
  have x: "x \<in> set (drop k ?s)"
    using assms by (metis (no_types) Un_iff append_take_drop_id set_append set_sort)
  then have "k < length ?s" by (metis drop_all empty_iff list.set(1) not_le)
  then show "length (take k ?s) = k" by simp
  show "f y \<le> f x" if "y \<in> set (take k ?s)"
  proof -
    have "sorted (map f (take k ?s @ drop k ?s))" by (simp only: append_take_drop_id sorted_sort_key)
    with that x show ?thesis by (auto simp only: map_append sorted_append set_map)
  qed
qed

lemma normalized_limit: "0 < normalizeDiscordYouTubeLiveNotificationLimit limit \<and> normalizeDiscordYouTubeLiveNotificationLimit limit \<le> 100"
  by (simp add: normalizeDiscordYouTubeLiveNotificationLimit_def)

text \<open>
  C12. A batch of leases is bounded and fair. In a reachable state \<^verbatim>\<open>ClaimDue\<close> leases at most a hundred
  notifications, each once, each of them due, and none of them is due any more afterwards. A due
  notification is left out only when the batch is full, and then everything in the batch was due no
  later than it was.
\<close>

theorem claim_batch_bounded_and_fair:
  assumes "outbox_reach sha256hex s" and "now = (if isZero now0 then clock else now0)"
    and "ClaimDueDiscordYouTubeLiveNotifications sha256hex c now0 ttl limit clock token s = (Inr claims, t)"
  shows "length claims \<le> 100 \<and> distinct (map (\<lambda>cl. ln_ID (nc_Notification cl)) claims) \<and>
    (\<forall>cl \<in> set claims. \<not> due now t (nc_Notification cl) \<and>
      (\<exists>x. mget (liveNotifications s) (ln_ID (nc_Notification cl)) = Some x \<and> due now s x)) \<and>
    (\<forall>i x. mget (liveNotifications s) i = Some x \<longrightarrow> due now s x \<longrightarrow>
      i \<in> (\<lambda>cl. ln_ID (nc_Notification cl)) ` set claims \<or>
      int (length claims) = normalizeDiscordYouTubeLiveNotificationLimit limit \<and>
      (\<forall>cl \<in> set claims. \<exists>y. mget (liveNotifications s) (ln_ID (nc_Notification cl)) = Some y \<and> dueOrder y \<le> dueOrder x))"
proof -
  have ok: "outbox_ok s" by (rule outbox.inv_reach [OF assms(1)])
  let ?items = "dueItems now limit s"
  from assms(3) have claims: "claims = map (\<lambda>item. \<lparr>nc_Notification = claimed now item, nc_LeaseToken = token (ln_ID item)\<rparr>) ?items"
    by (simp add: ClaimDueDiscordYouTubeLiveNotifications_def with_ctx_Inr Let_def assms(2))
  have ids: "map (\<lambda>cl. ln_ID (nc_Notification cl)) claims = map ln_ID ?items" by (simp add: claims claimed_def)
  have "length ?items \<le> nat (normalizeDiscordYouTubeLiveNotificationLimit limit)" by (simp add: dueItems_def)
  then have len: "length claims \<le> 100" using normalized_limit [of limit] unfolding claims length_map by linarith
  have distinct: "distinct (map (\<lambda>cl. ln_ID (nc_Notification cl)) claims)"
    unfolding ids dueItems_def by (rule distinct_ids [OF outbox_keyed [OF ok]])
  have before: "\<exists>x. mget (liveNotifications s) (ln_ID (nc_Notification cl)) = Some x \<and> due now s x" if "cl \<in> set claims" for cl
    using that dueItems_ready [OF ok] by (auto simp: claims claimed_def)
  have after: "\<not> due now t (nc_Notification cl)" if "cl \<in> set claims" for cl
  proof (rule claim_due_member [OF ok assms(3) that])
    fix x
    assume x: "cl = \<lparr>nc_Notification = claimed (if isZero now0 then clock else now0) x, nc_LeaseToken = token (ln_ID x)\<rparr>"
      and e: "mget (liveNotificationLeaseExpires t) (ln_ID x) =
        Some ((if isZero now0 then clock else now0) + normalizeDiscordYouTubeLiveNotificationLeaseTTL ttl)"
    have "0 < normalizeDiscordYouTubeLiveNotificationLeaseTTL ttl"
      by (simp add: normalizeDiscordYouTubeLiveNotificationLeaseTTL_def discordYouTubeLiveNotificationClaimTTL_def second_def)
    with e show ?thesis
      by (simp add: due_def x claimed_def validDiscordYouTubeLiveNotificationRetryState_def mtime_def assms(2))
  qed
  have fair: "i \<in> (\<lambda>cl. ln_ID (nc_Notification cl)) ` set claims \<or>
      int (length claims) = normalizeDiscordYouTubeLiveNotificationLimit limit \<and>
      (\<forall>cl \<in> set claims. \<exists>y. mget (liveNotifications s) (ln_ID (nc_Notification cl)) = Some y \<and> dueOrder y \<le> dueOrder x)"
    if x: "mget (liveNotifications s) i = Some x" "due now s x" for i x
  proof (cases "x \<in> set ?items")
    case True
    with keyed_mget [OF outbox_keyed [OF ok] x(1)] show ?thesis by (force simp: claims claimed_def)
  next
    case False
    have "x \<in> set (filter (due now s) (map snd (liveNotifications s)))"
      using x mget_in [OF x(1)] by force
    note least = take_sorted_least [OF this False [unfolded dueItems_def]]
    have "\<exists>y. mget (liveNotifications s) (ln_ID (nc_Notification cl)) = Some y \<and> dueOrder y \<le> dueOrder x"
      if "cl \<in> set claims" for cl
      using that least(2) dueItems_ready(1) [OF ok] by (auto simp: claims claimed_def dueItems_def)
    with least(1) normalized_limit [of limit] show ?thesis by (simp add: claims dueItems_def)
  qed
  from len distinct before after fair show ?thesis by blast
qed

subsection \<open>Going live\<close>


subsection \<open>Witnesses\<close>

text \<open>One live stream whose notification is queued, leased, posted, fenced and recovered.\<close>

definition sample_notification :: live_notification where
  "sample_notification = \<lparr>ln_ID = [], ln_StreamID = [], ln_EventID = [], ln_WatchURL = ''https://youtu.be/x'',
     ln_DiscordServiceID = ''d1'', ln_DiscordTextChannelID = ''c1'', ln_YouTubeMode = ''stream_key'',
     ln_YouTubeOAuthAccountID = [], ln_YouTubeBroadcastID = [], ln_LifecycleStatus = [], ln_State = [],
     ln_AttemptCount = 0, ln_DispatchAttemptCount = 0, ln_NextAttemptAt = None, ln_LastError = [],
     ln_DiscordMessageID = [], ln_DeliveredAt = None, ln_RecoveryOfID = [], ln_CreatedAt = 0, ln_UpdatedAt = 0\<rparr>"

definition sample_outbox0 :: panel where
  "sample_outbox0 = NewPanel\<lparr>ps_streams := snd (UpdateStreamStatus None ''s1'' ''starting'' 6000
     (snd (CreateStream None ''demo'' ''s1'' 5000 NewMemoryStreamStore)))\<rparr>"

definition sample_sha :: "string \<Rightarrow> string" where
  "sample_sha x = rev x"

definition sample_outbox1 :: stream_store where
  "sample_outbox1 = ps_streams (snd (transitionPreparedStartNotification (\<lambda>_. None) sample_sha None ''s1'' ''starting'' ''live''
     sample_notification None ''n1'' ''ev1'' 7000 sample_outbox0))"

definition sample_outbox2 :: stream_store where
  "sample_outbox2 = snd (ClaimDueDiscordYouTubeLiveNotifications sample_sha None 8000 0 0 8000 (\<lambda>i. i @ ''-t1'') sample_outbox1)"

definition sample_outbox3 :: stream_store where
  "sample_outbox3 = snd (BeginDiscordYouTubeLiveNotificationBotDispatch sample_sha None ''n1'' ''n1-t1'' 9000 sample_outbox2)"

definition sample_outbox4 :: stream_store where
  "sample_outbox4 = snd (FenceExpiredDiscordYouTubeLiveNotificationDispatches None (500 * second) 0 0 sample_outbox3)"

definition sample_outbox5 :: stream_store where
  "sample_outbox5 = snd (CreateDiscordYouTubeLiveNotificationRecovery None ''s1'' ''n1'' ''n2'' ''ev2'' (600 * second) sample_outbox4)"





lemma sample_fresh: "fresh_id uid s" if "uid \<noteq> [] \<and> trimSpace uid = uid \<and> mget (liveNotifications s) uid = None \<and>
    list_all (\<lambda>(_, n). ln_RecoveryOfID n \<noteq> uid) (liveNotifications s)"
  using that by (auto simp: fresh_id_def list_all_iff dest!: mget_in)

lemma sample_recover: "outbox_step sample_sha sample_outbox4 sample_outbox5"
proof -
  have f2: "fresh_id ''n2'' sample_outbox4" by (rule sample_fresh) code_simp
  have "mget (liveNotificationEvents sample_outbox4) (discordYouTubeLiveNotificationEventPrefix @ ''ev2'') = None" by code_simp
  from outbox_step.recover [OF f2 this] show ?thesis unfolding sample_outbox5_def .
qed

lemma sample_outbox_reach:
  "outbox_reach sample_sha (ps_streams sample_outbox0)" "outbox_reach sample_sha sample_outbox1"
  "outbox_reach sample_sha sample_outbox2" "outbox_reach sample_sha sample_outbox3" "outbox_reach sample_sha sample_outbox4"
  "outbox_reach sample_sha sample_outbox5"
proof -
  have "outbox_step sample_sha NewMemoryStreamStore (ps_streams sample_outbox0)"
    by (rule outbox_step.other) code_simp+
  moreover have "outbox_reach sample_sha NewMemoryStreamStore" by (rule reach.reach_init) simp
  ultimately show r0: "outbox_reach sample_sha (ps_streams sample_outbox0)" by (metis reach.reach_step)
  have f: "fresh_id ''n1'' (ps_streams sample_outbox0)" by (rule sample_fresh) code_simp
  have "trimSpace (ln_ID sample_notification) = []" "trimSpace (ln_RecoveryOfID sample_notification) = []" by code_simp+
  from outbox_step.queue [OF this f] have "outbox_step sample_sha (ps_streams sample_outbox0) sample_outbox1"
    unfolding sample_outbox1_def .
  with r0 show r1: "outbox_reach sample_sha sample_outbox1" by (rule reach.reach_step)
  have "outbox_step sample_sha sample_outbox1 sample_outbox2" unfolding sample_outbox2_def by (rule outbox_step.lease)
  with r1 show r2: "outbox_reach sample_sha sample_outbox2" by (rule reach.reach_step)
  have "outbox_step sample_sha sample_outbox2 sample_outbox3" unfolding sample_outbox3_def by (rule outbox_step.post)
  with r2 show r3: "outbox_reach sample_sha sample_outbox3" by (rule reach.reach_step)
  have "outbox_step sample_sha sample_outbox3 sample_outbox4" unfolding sample_outbox4_def by (rule outbox_step.fence)
  with r3 show r4: "outbox_reach sample_sha sample_outbox4" by (rule reach.reach_step)
  from r4 sample_recover show r5: "outbox_reach sample_sha sample_outbox5" by (rule reach.reach_step)
qed

theorem outbox_refines_delivery_witness:
  "\<exists>n n'. mget (liveNotifications sample_outbox1) ''n1'' = Some n \<and> mget (liveNotifications sample_outbox2) ''n1'' = Some n' \<and>
     delivery_step\<^sup>+\<^sup>+ (delivery n) (delivery n')"
proof -
  have "case (mget (liveNotifications sample_outbox1) ''n1'', mget (liveNotifications sample_outbox2) ''n1'') of
      (Some n, Some n') \<Rightarrow> ln_AttemptCount n' \<noteq> ln_AttemptCount n | _ \<Rightarrow> False" by code_simp
  then obtain n n' where n: "mget (liveNotifications sample_outbox1) ''n1'' = Some n"
    "mget (liveNotifications sample_outbox2) ''n1'' = Some n'" "ln_AttemptCount n' \<noteq> ln_AttemptCount n"
    by (auto split: option.splits)
  have "outbox_step sample_sha sample_outbox1 sample_outbox2" unfolding sample_outbox2_def by (rule outbox_step.lease)
  from outbox_refines_delivery [OF sample_outbox_reach(2) this] n show ?thesis by metis
qed


theorem notifications_are_accounted_for_witness:
  "\<exists>n. mget (liveNotifications sample_outbox4) ''n1'' = Some n \<and> ln_State n = DeliveryUnknown \<and> 1 \<le> ln_DispatchAttemptCount n"
proof -
  have "case mget (liveNotifications sample_outbox4) ''n1'' of Some n \<Rightarrow> ln_State n = DeliveryUnknown | None \<Rightarrow> False" by code_simp
  then obtain n where n: "mget (liveNotifications sample_outbox4) ''n1'' = Some n" "ln_State n = DeliveryUnknown"
    by (auto split: option.splits)
  have "ln_State n \<in> {BotDispatching, Delivered, DeliveryUnknown}" by (simp add: n(2))
  with notifications_are_accounted_for [OF sample_outbox_reach(5) n(1)] n show ?thesis by blast
qed

text \<open>The store before the recovery, written out.\<close>

definition sample_unknown :: live_notification where
  "sample_unknown = sample_notification\<lparr>ln_ID := ''n1'', ln_StreamID := ''s1'', ln_EventID := ''youtube-live-ev1'',
     ln_LifecycleStatus := ''legacy_unverified'', ln_State := DeliveryUnknown, ln_AttemptCount := 1,
     ln_DispatchAttemptCount := 1, ln_LastError := ''discord_dispatch_lease_expired_unknown'',
     ln_CreatedAt := 7000, ln_UpdatedAt := 500 * second\<rparr>"

definition sample_before :: stream_store where
  "sample_before = NewMemoryStreamStore\<lparr>
     streams := [(''s1'', (new_stream ''s1'' ''demo'' 5000)\<lparr>st_Status := ''live'', st_UpdatedAt := 7000\<rparr>)],
     liveNotifications := [(''n1'', sample_unknown)], liveNotificationEvents := [(''youtube-live-ev1'', ''n1'')]\<rparr>"

lemma sample_outbox4_eq: "sample_outbox4 = sample_before"
  by code_simp

theorem recovery_happens_once_witness:
  "\<exists>n. mget (liveNotifications sample_outbox5) ''n2'' = Some n \<and> ln_RecoveryOfID n = ''n1'' \<and>
     (\<forall>prior. mget (liveNotifications sample_outbox5) ''n1'' = Some prior \<longrightarrow> ln_State prior = DeliveryUnknown)"
proof -
  have "case mget (liveNotifications sample_outbox5) ''n2'' of Some n \<Rightarrow> ln_RecoveryOfID n = ''n1'' | None \<Rightarrow> False"
    unfolding sample_outbox5_def sample_outbox4_eq by code_simp
  then obtain n where n: "mget (liveNotifications sample_outbox5) ''n2'' = Some n" "ln_RecoveryOfID n = ''n1''"
    by (auto split: option.splits)
  have "ln_RecoveryOfID n \<noteq> []" by (simp add: n(2))
  from recovery_happens_once [OF sample_outbox_reach(6) n(1) this] show ?thesis
    unfolding n(2) using n by blast
qed

definition sample_leases :: "live_notification_claim list" where
  "sample_leases = [\<lparr>nc_Notification = claimed 8000 (snd (hd (liveNotifications sample_outbox1))), nc_LeaseToken = ''n1-t1''\<rparr>]"

lemma sample_lease:
  "ClaimDueDiscordYouTubeLiveNotifications sample_sha None 8000 0 0 8000 (\<lambda>i. i @ ''-t1'') sample_outbox1 = (Inr sample_leases, sample_outbox2)"
  "ln_ID (nc_Notification (hd sample_leases)) = ''n1''"
proof -
  have "fst (ClaimDueDiscordYouTubeLiveNotifications sample_sha None 8000 0 0 8000 (\<lambda>i. i @ ''-t1'') sample_outbox1) = Inr sample_leases"
    by code_simp
  then show "ClaimDueDiscordYouTubeLiveNotifications sample_sha None 8000 0 0 8000 (\<lambda>i. i @ ''-t1'') sample_outbox1 = (Inr sample_leases, sample_outbox2)"
    unfolding sample_outbox2_def by (metis prod.collapse)
  show "ln_ID (nc_Notification (hd sample_leases)) = ''n1''" by code_simp
qed

lemma sample_lease_member: "hd sample_leases \<in> set sample_leases" "nc_LeaseToken (hd sample_leases) = ''n1-t1''"
  by (simp_all add: sample_leases_def)

theorem lease_has_one_holder_witness:
  "BeginDiscordYouTubeLiveNotificationBotDispatch sample_sha None ''n1'' ''n1-t0'' 9000 sample_outbox2 =
     (Inl ErrDiscordYouTubeLiveNotificationClaimLost, sample_outbox2)"
proof -
  have "sample_sha ''n1-t0'' \<noteq> sample_sha (nc_LeaseToken (hd sample_leases))" by (simp add: sample_lease_member sample_sha_def)
  moreover have "trimSpace ''n1'' = ln_ID (nc_Notification (hd sample_leases))" unfolding sample_lease(2) by code_simp
  ultimately show ?thesis
    using lease_has_one_holder [OF sample_outbox_reach(2) sample_lease(1) sample_lease_member(1)] by blast
qed

theorem lease_holder_can_deliver_witness:
  "\<exists>n u v. BeginDiscordYouTubeLiveNotificationBotDispatch sample_sha None ''n1'' ''n1-t1'' 9000 sample_outbox2 = (Inr n, u) \<and>
     MarkDiscordYouTubeLiveNotificationDelivered sample_sha None ''n1'' ''n1-t1'' ''live'' ''m1'' 9500 9600 u = (Inr (), v) \<and>
     (\<exists>m. mget (liveNotifications v) ''n1'' = Some m \<and> ln_State m = Delivered)"
proof -
  have "trimSpace ''n1-t1'' \<noteq> []" "validDiscordYouTubeLiveNotificationOpaqueValue (trimSpace ''m1'')"
    "normalizeDiscordYouTubeLiveNotificationCode ''live'' \<noteq> []"
    "9000 < (if isZero 8000 then 8000 else 8000) + normalizeDiscordYouTubeLiveNotificationLeaseTTL 0"
    "9500 < (if isZero 8000 then 8000 else 8000) + normalizeDiscordYouTubeLiveNotificationLeaseTTL 0" by code_simp+
  with lease_holder_can_deliver [OF sample_outbox_reach(2) sample_lease(1) sample_lease_member(1),
      unfolded sample_lease(2) sample_lease_member(2), of "''m1''" "''live''" 9000 9500 9600]
  show ?thesis by blast
qed

theorem claim_batch_bounded_and_fair_witness:
  "length sample_leases \<le> 100 \<and> \<not> due 8000 sample_outbox2 (nc_Notification (hd sample_leases))"
  using claim_batch_bounded_and_fair [OF sample_outbox_reach(2) _ sample_lease(1), of 8000] sample_lease_member(1) by simp

end
