(* ===== verification/Relay_Claims.thy ===== *)
theory Relay_Claims
  imports Panel
begin

text \<open>
  The claims on YouTube relay bindings: \<^verbatim>\<open>youtube_relay_binding_claims.go\<close>,
  \<^verbatim>\<open>youtube_relay_claim_validation.go\<close>, the memory store's lookup, preparation and recovery files,
  and \<^verbatim>\<open>memory_stream_youtube_runtime.go\<close>. A claim reserves a binding before the panel calls
  YouTube, is fenced before every call whose outcome may get lost, and is given up only when nothing
  can be running behind it.
\<close>

subsection \<open>States and limits\<close>

abbreviation Reserved :: string where "Reserved \<equiv> ''reserved''"
abbreviation Prepared :: string where "Prepared \<equiv> ''prepared''"
abbreviation RecoveryRequired :: string where "RecoveryRequired \<equiv> ''recovery_required''"
abbreviation NotAttempted :: string where "NotAttempted \<equiv> ''not_attempted''"
abbreviation PossiblyPrepared :: string where "PossiblyPrepared \<equiv> ''possibly_prepared''"
abbreviation NotDispatched :: string where "NotDispatched \<equiv> ''not_dispatched''"
abbreviation PossiblyDispatched :: string where "PossiblyDispatched \<equiv> ''possibly_dispatched''"

definition youtubeRelayBindingClaimReusableLiveStreamIDMax :: int where
  "youtubeRelayBindingClaimReusableLiveStreamIDMax = 255"

definition youtubeRelayBindingClaimBroadcastIDMax :: int where
  "youtubeRelayBindingClaimBroadcastIDMax = 255"

definition youtubeRelayBindingClaimLastErrorMax :: int where
  "youtubeRelayBindingClaimLastErrorMax = 255"

definition youtubeRelayBindingClaimStaticRuntimeMode :: string where
  "youtubeRelayBindingClaimStaticRuntimeMode = ''live_api_relay_static''"

record prepare_fence_resolution =
  pr_Claim :: "youtube_relay_binding_claim option"
  pr_Released :: bool

type_synonym relay_claim = youtube_relay_binding_claim

subsection \<open>Values\<close>

definition normalizeYouTubeRelayBindingClaim :: "relay_claim \<Rightarrow> relay_claim" where
  "normalizeYouTubeRelayBindingClaim claim =
     claim\<lparr>rc_ReservationToken := trimSpace (rc_ReservationToken claim),
       rc_StreamID := trimSpace (rc_StreamID claim),
       rc_YouTubeOutputID := trimSpace (rc_YouTubeOutputID claim),
       rc_OAuthAccountID := trimSpace (rc_OAuthAccountID claim),
       rc_ReusableLiveStreamID := trimSpace (rc_ReusableLiveStreamID claim),
       rc_BroadcastID := trimSpace (rc_BroadcastID claim),
       rc_State := trimSpace (rc_State claim),
       rc_PrepareState := trimSpace (rc_PrepareState claim),
       rc_DispatchState := trimSpace (rc_DispatchState claim),
       rc_LastError := trimSpace (rc_LastError claim)\<rparr>"

definition nowYouTubeRelayBindingClaim :: "time \<Rightarrow> time" where
  "nowYouTubeRelayBindingClaim now = truncate_us now"

definition normalizeRelayStaticRuntime :: "stream_youtube_runtime \<Rightarrow> stream_youtube_runtime" where
  "normalizeRelayStaticRuntime r =
     r\<lparr>yr_StreamID := trimSpace (yr_StreamID r), yr_YouTubeOutput := trimSpace (yr_YouTubeOutput r),
       yr_OAuthAccountID := trimSpace (yr_OAuthAccountID r), yr_Mode := trimSpace (yr_Mode r),
       yr_BroadcastID := trimSpace (yr_BroadcastID r), yr_LiveStreamID := trimSpace (yr_LiveStreamID r),
       yr_RTMPURL := trimSpace (yr_RTMPURL r), yr_StreamKeySecretName := trimSpace (yr_StreamKeySecretName r)\<rparr>"

abbreviation lower_hex :: "char \<Rightarrow> bool" where
  "lower_hex ch \<equiv> (CHR ''0'' \<le> ch \<and> ch \<le> CHR ''9'') \<or> (CHR ''a'' \<le> ch \<and> ch \<le> CHR ''f'')"

abbreviation uuid_dash :: "nat \<Rightarrow> bool" where
  "uuid_dash i \<equiv> i = 8 \<or> i = 13 \<or> i = 18 \<or> i = 23"

fun uuid_chars :: "(char \<Rightarrow> bool) \<Rightarrow> nat \<Rightarrow> string \<Rightarrow> bool" where
  "uuid_chars digit i [] = True"
| "uuid_chars digit i (ch # rest) =
     ((if uuid_dash i then ch = CHR ''-'' else digit ch) \<and> uuid_chars digit (Suc i) rest)"

definition isValidYouTubeRelayBindingID :: "string \<Rightarrow> bool" where
  "isValidYouTubeRelayBindingID value \<longleftrightarrow>
     length value = length ''relay-'' + 36 \<and> prefix ''relay-'' value \<and>
     uuid_chars lower_hex 0 (drop (length ''relay-'') value)"

definition isCanonicalUUID :: "string \<Rightarrow> bool" where
  "isCanonicalUUID value \<longleftrightarrow> length value = 36 \<and>
     uuid_chars (\<lambda>ch. (CHR ''a'' \<le> ch \<and> ch \<le> CHR ''f'') \<or> (CHR ''A'' \<le> ch \<and> ch \<le> CHR ''F'') \<or>
       (CHR ''0'' \<le> ch \<and> ch \<le> CHR ''9'')) 0 value"

definition isValidYouTubeRelayBindingExternalID :: "string \<Rightarrow> int \<Rightarrow> bool" where
  "isValidYouTubeRelayBindingExternalID value max_len \<longleftrightarrow>
     value \<noteq> [] \<and> int (length value) \<le> max_len \<and>
     list_all (\<lambda>ch. (CHR ''a'' \<le> ch \<and> ch \<le> CHR ''z'') \<or> (CHR ''A'' \<le> ch \<and> ch \<le> CHR ''Z'') \<or>
       (CHR ''0'' \<le> ch \<and> ch \<le> CHR ''9'') \<or> ch = CHR ''-'' \<or> ch = CHR ''_'') value"

definition isSafeYouTubeRelayBindingErrorCode :: "string \<Rightarrow> bool" where
  "isSafeYouTubeRelayBindingErrorCode value \<longleftrightarrow>
     value \<noteq> [] \<and> int (length value) \<le> youtubeRelayBindingClaimLastErrorMax \<and>
     list_all (\<lambda>ch. (CHR ''a'' \<le> ch \<and> ch \<le> CHR ''z'') \<or> (CHR ''0'' \<le> ch \<and> ch \<le> CHR ''9'') \<or>
       ch = CHR ''-'' \<or> ch = CHR ''_'' \<or> ch = CHR ''.'') value"

definition isActiveYouTubeRelayBindingClaimStreamStatus :: "string \<Rightarrow> bool" where
  "isActiveYouTubeRelayBindingClaimStreamStatus status \<longleftrightarrow>
     toLower (trimSpace status) \<in> {''starting'', ''live'', ''stopping''}"

definition isYouTubeRelayBindingClaimDispatchFenceState :: "string \<Rightarrow> bool" where
  "isYouTubeRelayBindingClaimDispatchFenceState state \<longleftrightarrow> state = NotDispatched \<or> state = PossiblyDispatched"

definition isYouTubeRelayBindingClaimEncoderStopReceiptStreamStatus :: "string \<Rightarrow> bool" where
  "isYouTubeRelayBindingClaimEncoderStopReceiptStreamStatus status \<longleftrightarrow>
     toLower (trimSpace status) \<in> {''stopping'', ''failed'', ''completed''}"

definition validYouTubeRelayBindingClaimIdentity :: "relay_claim \<Rightarrow> bool" where
  "validYouTubeRelayBindingClaimIdentity claim \<longleftrightarrow>
     isValidYouTubeRelayBindingID (rc_RelayBindingID claim) \<and> isCanonicalUUID (rc_StreamID claim) \<and>
     isCanonicalUUID (rc_YouTubeOutputID claim) \<and> isCanonicalUUID (rc_OAuthAccountID claim) \<and>
     isValidYouTubeRelayBindingExternalID (rc_ReusableLiveStreamID claim) youtubeRelayBindingClaimReusableLiveStreamIDMax"

definition sameYouTubeRelayBindingReservation :: "relay_claim \<Rightarrow> relay_claim \<Rightarrow> bool" where
  "sameYouTubeRelayBindingReservation left right \<longleftrightarrow>
     rc_RelayBindingID left = rc_RelayBindingID right \<and> rc_ReservationToken left = rc_ReservationToken right \<and>
     rc_StreamID left = rc_StreamID right \<and> rc_YouTubeOutputID left = rc_YouTubeOutputID right \<and>
     rc_YouTubeOutputRevision left = rc_YouTubeOutputRevision right \<and>
     rc_OAuthAccountID left = rc_OAuthAccountID right \<and>
     rc_ReusableLiveStreamID left = rc_ReusableLiveStreamID right \<and> rc_CreatedAt left = rc_CreatedAt right"

definition memoryYouTubeRelayBindingClaimConflict :: "relay_claim gomap \<Rightarrow> relay_claim \<Rightarrow> bool" where
  "memoryYouTubeRelayBindingClaimConflict claims claim \<longleftrightarrow>
     list_ex (\<lambda>(_, existing). rc_RelayBindingID existing = rc_RelayBindingID claim \<or>
       rc_StreamID existing = rc_StreamID claim \<or>
       (rc_OAuthAccountID existing = rc_OAuthAccountID claim \<and>
        rc_ReusableLiveStreamID existing = rc_ReusableLiveStreamID claim)) claims"

definition runtimeMatchesYouTubeRelayBindingClaim :: "stream_youtube_runtime \<Rightarrow> relay_claim \<Rightarrow> bool" where
  "runtimeMatchesYouTubeRelayBindingClaim r claim \<longleftrightarrow>
     trimSpace (yr_StreamID r) = rc_StreamID claim \<and> trimSpace (yr_YouTubeOutput r) = rc_YouTubeOutputID claim \<and>
     trimSpace (yr_OAuthAccountID r) = rc_OAuthAccountID claim \<and>
     trimSpace (yr_Mode r) = youtubeRelayBindingClaimStaticRuntimeMode \<and>
     trimSpace (yr_BroadcastID r) = rc_BroadcastID claim \<and>
     trimSpace (yr_LiveStreamID r) = rc_ReusableLiveStreamID claim \<and>
     trimSpace (yr_RTMPURL r) = [] \<and> trimSpace (yr_StreamKeySecretName r) = [] \<and>
     \<not> yr_DryRun r \<and> yr_CompleteOnStop r"

definition sameRelayStaticRuntime :: "stream_youtube_runtime \<Rightarrow> stream_youtube_runtime \<Rightarrow> bool" where
  "sameRelayStaticRuntime left right \<longleftrightarrow>
     trimSpace (yr_StreamID left) = trimSpace (yr_StreamID right) \<and>
     trimSpace (yr_YouTubeOutput left) = trimSpace (yr_YouTubeOutput right) \<and>
     trimSpace (yr_OAuthAccountID left) = trimSpace (yr_OAuthAccountID right) \<and>
     trimSpace (yr_Mode left) = trimSpace (yr_Mode right) \<and>
     trimSpace (yr_BroadcastID left) = trimSpace (yr_BroadcastID right) \<and>
     trimSpace (yr_LiveStreamID left) = trimSpace (yr_LiveStreamID right) \<and>
     trimSpace (yr_RTMPURL left) = trimSpace (yr_RTMPURL right) \<and>
     trimSpace (yr_StreamKeySecretName left) = trimSpace (yr_StreamKeySecretName right) \<and>
     yr_DryRun left = yr_DryRun right \<and> yr_CompleteOnStop left = yr_CompleteOnStop right"

text \<open>The validations, as the condition under which they return no error.\<close>

definition validateYouTubeRelayBindingClaimReservation :: "relay_claim \<Rightarrow> bool" where
  "validateYouTubeRelayBindingClaimReservation claim \<longleftrightarrow>
     validYouTubeRelayBindingClaimIdentity claim \<and> rc_ExpectedYouTubeOutputRevision claim \<noteq> None \<and>
     rc_YouTubeOutputRevision claim = 0 \<and> rc_ReservationToken claim = [] \<and> rc_BroadcastID claim = [] \<and>
     rc_State claim = [] \<and> rc_PrepareState claim = [] \<and> rc_DispatchState claim = [] \<and>
     isZero (rc_EncoderStopConfirmedAt claim) \<and> rc_LastError claim = []"

definition validateYouTubeRelayBindingClaimReservationFence :: "relay_claim \<Rightarrow> bool" where
  "validateYouTubeRelayBindingClaimReservationFence claim \<longleftrightarrow>
     validYouTubeRelayBindingClaimIdentity claim \<and> isCanonicalUUID (rc_ReservationToken claim) \<and>
     \<not> isZero (rc_CreatedAt claim)"

definition validateYouTubeRelayBindingClaimPrepareFence :: "relay_claim \<Rightarrow> bool" where
  "validateYouTubeRelayBindingClaimPrepareFence claim \<longleftrightarrow>
     validateYouTubeRelayBindingClaimReservationFence claim \<and> rc_BroadcastID claim = [] \<and> rc_LastError claim = []"

definition validBroadcastID :: "relay_claim \<Rightarrow> bool" where
  "validBroadcastID claim \<longleftrightarrow>
     isValidYouTubeRelayBindingExternalID (rc_BroadcastID claim) youtubeRelayBindingClaimBroadcastIDMax"

definition validateYouTubeRelayBindingClaimFinalize :: "relay_claim \<Rightarrow> stream_youtube_runtime \<Rightarrow> bool" where
  "validateYouTubeRelayBindingClaimFinalize claim r \<longleftrightarrow>
     validateYouTubeRelayBindingClaimReservationFence claim \<and> validBroadcastID claim \<and> rc_LastError claim = [] \<and>
     runtimeMatchesYouTubeRelayBindingClaim r claim"

definition validateYouTubeRelayBindingClaimRecovery :: "relay_claim \<Rightarrow> bool" where
  "validateYouTubeRelayBindingClaimRecovery claim \<longleftrightarrow>
     validateYouTubeRelayBindingClaimReservationFence claim \<and> validBroadcastID claim \<and> isSafeYouTubeRelayBindingErrorCode (rc_LastError claim)"

definition validateYouTubeRelayBindingClaimPreparedFence :: "relay_claim \<Rightarrow> bool" where
  "validateYouTubeRelayBindingClaimPreparedFence claim \<longleftrightarrow> validateYouTubeRelayBindingClaimReservationFence claim \<and> validBroadcastID claim"

subsection \<open>Lookups\<close>

definition GetStreamYouTubeRelayBindingClaim ::
  "ctx \<Rightarrow> string \<Rightarrow> stream_store \<Rightarrow> (relay_claim, stream_store) outcome" where
  "GetStreamYouTubeRelayBindingClaim c relayBindingID = with_ctx c (\<lambda>s.
     if \<not> isValidYouTubeRelayBindingID relayBindingID then (Inl ErrInvalidYouTubeRelayBindingClaim, s)
     else case mget (youtubeRelayBindingClaims s) relayBindingID of
       None \<Rightarrow> (Inl ErrNotFound, s)
     | Some claim \<Rightarrow>
         if \<not> isValidYouTubeRelayBindingID (rc_RelayBindingID claim) then (Inl ErrInvalidYouTubeRelayBindingClaim, s)
         else (Inr claim, s))"

definition GetStreamYouTubeRelayBindingClaimForStream ::
  "ctx \<Rightarrow> string \<Rightarrow> stream_store \<Rightarrow> (relay_claim, stream_store) outcome" where
  "GetStreamYouTubeRelayBindingClaimForStream c streamID = with_ctx c (\<lambda>s.
     if \<not> isCanonicalUUID (trimSpace streamID) then (Inl ErrInvalidYouTubeRelayBindingClaim, s)
     else case find (\<lambda>claim. rc_StreamID claim = trimSpace streamID) (map snd (youtubeRelayBindingClaims s)) of
       None \<Rightarrow> (Inl ErrNotFound, s)
     | Some claim \<Rightarrow>
         if \<not> isValidYouTubeRelayBindingID (rc_RelayBindingID claim) then (Inl ErrInvalidYouTubeRelayBindingClaim, s)
         else (Inr claim, s))"

definition HasStreamYouTubeRelayBindingClaimForOutput ::
  "ctx \<Rightarrow> string \<Rightarrow> stream_store \<Rightarrow> (bool, stream_store) outcome" where
  "HasStreamYouTubeRelayBindingClaimForOutput c youtubeOutputID = with_ctx c (\<lambda>s.
     if \<not> isCanonicalUUID (trimSpace youtubeOutputID) then (Inl ErrInvalidYouTubeRelayBindingClaim, s)
     else (Inr (list_ex (\<lambda>(_, claim). rc_YouTubeOutputID claim = trimSpace youtubeOutputID)
       (youtubeRelayBindingClaims s)), s))"

definition HasStreamYouTubeRelayBindingClaim ::
  "ctx \<Rightarrow> string \<Rightarrow> stream_store \<Rightarrow> (bool, stream_store) outcome" where
  "HasStreamYouTubeRelayBindingClaim c relayBindingID = with_ctx c (\<lambda>s.
     if \<not> isValidYouTubeRelayBindingID relayBindingID then (Inl ErrInvalidYouTubeRelayBindingClaim, s)
     else (Inr (mget (youtubeRelayBindingClaims s) relayBindingID \<noteq> None), s))"

subsection \<open>Preparation\<close>

text \<open>The stored claim that a caller's claim names, if it is the same reservation.\<close>

definition stored_claim :: "relay_claim \<Rightarrow> stream_store \<Rightarrow> relay_claim result" where
  "stored_claim claim s =
     (case mget (youtubeRelayBindingClaims s) (rc_RelayBindingID claim) of
        None \<Rightarrow> Inl ErrNotFound
      | Some existing \<Rightarrow>
          if \<not> sameYouTubeRelayBindingReservation existing claim then Inl ErrYouTubeRelayBindingClaimConflict
          else Inr existing)"

definition put_claim :: "relay_claim \<Rightarrow> stream_store \<Rightarrow> stream_store" where
  "put_claim claim s =
     s\<lparr>youtubeRelayBindingClaims := mput (youtubeRelayBindingClaims s) (rc_RelayBindingID claim) claim\<rparr>"

definition no_runtime :: "string \<Rightarrow> stream_store \<Rightarrow> bool" where
  "no_runtime streamID s \<longleftrightarrow> mget (youtubeRuntimes s) streamID = None"

definition matching_runtime :: "relay_claim \<Rightarrow> relay_claim \<Rightarrow> stream_store \<Rightarrow> stream_youtube_runtime option" where
  "matching_runtime claim existing s =
     (case mget (youtubeRuntimes s) (rc_StreamID claim) of
        None \<Rightarrow> None
      | Some r \<Rightarrow> if runtimeMatchesYouTubeRelayBindingClaim r existing then Some r else None)"

abbreviation clean_completion :: "stream_youtube_runtime \<Rightarrow> bool" where
  "clean_completion r \<equiv>
     yr_CompleteRetryCount r = 0 \<and> isZero (yr_CompleteNextRetryAt r) \<and> trimSpace (yr_CompleteLastError r) = []"

definition reserved_claim :: "relay_claim \<Rightarrow> 64 word \<Rightarrow> string \<Rightarrow> time \<Rightarrow> relay_claim" where
  "reserved_claim claim revision uuid now =
     claim\<lparr>rc_ReservationToken := uuid, rc_YouTubeOutputRevision := revision,
       rc_ExpectedYouTubeOutputRevision := None, rc_State := Reserved, rc_PrepareState := NotAttempted,
       rc_DispatchState := NotDispatched, rc_EncoderStopConfirmedAt := 0, rc_BroadcastID := [], rc_LastError := [],
       rc_CreatedAt := now, rc_UpdatedAt := now\<rparr>"

definition ReserveStreamYouTubeRelayBindingClaim ::
  "ctx \<Rightarrow> relay_claim \<Rightarrow> string \<Rightarrow> time \<Rightarrow> panel \<Rightarrow> (relay_claim, panel) outcome" where
  "ReserveStreamYouTubeRelayBindingClaim c claim0 uuid clock = with_ctx c (\<lambda>p.
     let claim = normalizeYouTubeRelayBindingClaim claim0; s = ps_streams p in
     if \<not> validateYouTubeRelayBindingClaimReservation claim then (Inl ErrInvalidYouTubeRelayBindingClaim, p)
     else if \<not> relayBindingClaimProfiles p then (Inl ErrNotFound, p)
     else (case mget (streams s) (rc_StreamID claim) of
       None \<Rightarrow> (Inl ErrNotFound, p)
     | Some st \<Rightarrow>
       if \<not> equalFold (trimSpace (st_Status st)) ''starting'' then (Inl ErrYouTubeRelayBindingClaimState, p)
       else if trimSpace (st_YouTubeOutputID st) \<noteq> rc_YouTubeOutputID claim
       then (Inl ErrYouTubeRelayBindingClaimStreamOutputConflict, p)
       else (case mget (ps_profiles p) (rc_YouTubeOutputID claim) of
         None \<Rightarrow> (Inl ErrNotFound, p)
       | Some output \<Rightarrow>
         if pf_Kind output \<noteq> ProfileYouTubeOutput then (Inl ErrNotFound, p)
         else if Some (pf_YouTubeRelayBindingRevision output) \<noteq> rc_ExpectedYouTubeOutputRevision claim
         then (Inl ErrYouTubeRelayBindingClaimProfileRevisionConflict, p)
         else if memoryYouTubeRelayBindingClaimConflict (youtubeRelayBindingClaims s) claim
         then (Inl ErrYouTubeRelayBindingClaimConflict, p)
         else let claim' = reserved_claim claim (pf_YouTubeRelayBindingRevision output) uuid
                (nowYouTubeRelayBindingClaim clock) in
           (Inr claim', p\<lparr>ps_streams := put_claim claim' s\<rparr>))))"

definition MarkReservedStreamYouTubeRelayBindingClaimPossiblyPrepared ::
  "ctx \<Rightarrow> relay_claim \<Rightarrow> time \<Rightarrow> stream_store \<Rightarrow> (relay_claim, stream_store) outcome" where
  "MarkReservedStreamYouTubeRelayBindingClaimPossiblyPrepared c claim0 clock = with_ctx c (\<lambda>s.
     let claim = normalizeYouTubeRelayBindingClaim claim0 in
     if \<not> validateYouTubeRelayBindingClaimPrepareFence claim then (Inl ErrInvalidYouTubeRelayBindingClaim, s)
     else (case mget (streams s) (rc_StreamID claim) of
       None \<Rightarrow> (Inl ErrNotFound, s)
     | Some st \<Rightarrow>
       if \<not> equalFold (trimSpace (st_Status st)) ''starting'' then (Inl ErrYouTubeRelayBindingClaimState, s)
       else (case stored_claim claim s of
         Inl e \<Rightarrow> (Inl e, s)
       | Inr existing \<Rightarrow>
         if rc_State existing \<noteq> Reserved \<or> rc_DispatchState existing \<noteq> NotDispatched \<or>
            rc_BroadcastID existing \<noteq> [] \<or> rc_LastError existing \<noteq> []
         then (Inl ErrYouTubeRelayBindingClaimState, s)
         else if \<not> no_runtime (rc_StreamID claim) s then (Inl ErrYouTubeRelayBindingClaimState, s)
         else if rc_PrepareState existing = PossiblyPrepared then (Inr existing, s)
         else if rc_PrepareState existing = NotAttempted
         then let existing' = existing\<lparr>rc_PrepareState := PossiblyPrepared,
                rc_UpdatedAt := nowYouTubeRelayBindingClaim clock\<rparr> in (Inr existing', put_claim existing' s)
         else (Inl ErrYouTubeRelayBindingClaimState, s))))"

definition ReconcileReservedStreamYouTubeRelayBindingClaimAfterPrepareFence ::
  "ctx \<Rightarrow> relay_claim \<Rightarrow> time \<Rightarrow> stream_store \<Rightarrow> (prepare_fence_resolution, stream_store) outcome" where
  "ReconcileReservedStreamYouTubeRelayBindingClaimAfterPrepareFence c claim0 clock = with_ctx c (\<lambda>s.
     let claim = normalizeYouTubeRelayBindingClaim claim0 in
     if \<not> validateYouTubeRelayBindingClaimRecovery claim then (Inl ErrInvalidYouTubeRelayBindingClaim, s)
     else (case mget (streams s) (rc_StreamID claim) of
       None \<Rightarrow> (Inl ErrNotFound, s)
     | Some st \<Rightarrow>
       if isActiveYouTubeRelayBindingClaimStreamStatus (st_Status st) then (Inl ErrYouTubeRelayBindingClaimState, s)
       else (case stored_claim claim s of
         Inl e \<Rightarrow> (Inl e, s)
       | Inr existing \<Rightarrow>
         if rc_State existing = RecoveryRequired then (Inr \<lparr>pr_Claim = Some existing, pr_Released = False\<rparr>, s)
         else if rc_State existing \<noteq> Reserved \<or> rc_DispatchState existing \<noteq> NotDispatched \<or>
            rc_BroadcastID existing \<noteq> [] \<or> rc_LastError existing \<noteq> [] \<or>
            \<not> isZero (rc_EncoderStopConfirmedAt existing)
         then (Inl ErrYouTubeRelayBindingClaimState, s)
         else if \<not> no_runtime (rc_StreamID claim) s then (Inl ErrYouTubeRelayBindingClaimState, s)
         else if rc_PrepareState existing = NotAttempted
         then (Inr \<lparr>pr_Claim = None, pr_Released = True\<rparr>,
           s\<lparr>youtubeRelayBindingClaims := mdel (youtubeRelayBindingClaims s) (rc_RelayBindingID existing)\<rparr>)
         else if rc_PrepareState existing = PossiblyPrepared
         then let existing' = existing\<lparr>rc_BroadcastID := rc_BroadcastID claim, rc_State := RecoveryRequired,
                rc_LastError := rc_LastError claim, rc_UpdatedAt := nowYouTubeRelayBindingClaim clock\<rparr> in
           (Inr \<lparr>pr_Claim = Some existing', pr_Released = False\<rparr>, put_claim existing' s)
         else (Inl ErrYouTubeRelayBindingClaimState, s))))"

text \<open>A missing runtime reads as the zero value.\<close>

definition zero_runtime :: stream_youtube_runtime where
  "zero_runtime = \<lparr>yr_StreamID = [], yr_YouTubeOutput = [], yr_OAuthAccountID = [], yr_Mode = [], yr_BroadcastID = [],
     yr_LiveStreamID = [], yr_RTMPURL = [], yr_StreamKeySecretName = [], yr_DryRun = False, yr_CompleteOnStop = False,
     yr_CompleteRetryCount = 0, yr_CompleteNextRetryAt = 0, yr_CompleteLastError = [], yr_CreatedAt = 0, yr_UpdatedAt = 0\<rparr>"

definition FinalizeStreamYouTubeRuntimeAndMarkRelayBindingPrepared ::
  "ctx \<Rightarrow> relay_claim \<Rightarrow> stream_youtube_runtime \<Rightarrow> time \<Rightarrow> stream_store \<Rightarrow> (unit, stream_store) outcome" where
  "FinalizeStreamYouTubeRuntimeAndMarkRelayBindingPrepared c claim0 r0 clock = with_ctx c (\<lambda>s.
     let claim = normalizeYouTubeRelayBindingClaim claim0; r = normalizeRelayStaticRuntime r0 in
     if \<not> validateYouTubeRelayBindingClaimFinalize claim r then (Inl ErrInvalidYouTubeRelayBindingClaim, s)
     else (case mget (streams s) (rc_StreamID claim) of
       None \<Rightarrow> (Inl ErrNotFound, s)
     | Some st \<Rightarrow>
       if \<not> equalFold (trimSpace (st_Status st)) ''starting'' then (Inl ErrYouTubeRelayBindingClaimState, s)
       else (case stored_claim claim s of
         Inl e \<Rightarrow> (Inl e, s)
       | Inr existing \<Rightarrow>
         if rc_State existing = Prepared
         then (if rc_PrepareState existing \<noteq> PossiblyPrepared \<or> rc_BroadcastID existing \<noteq> rc_BroadcastID claim \<or>
                 \<not> sameRelayStaticRuntime
                   (case mget (youtubeRuntimes s) (yr_StreamID r) of None \<Rightarrow> zero_runtime | Some x \<Rightarrow> x) r
               then (Inl ErrYouTubeRelayBindingClaimConflict, s) else (Inr (), s))
         else if rc_State existing \<noteq> Reserved then (Inl ErrYouTubeRelayBindingClaimState, s)
         else if rc_PrepareState existing \<noteq> PossiblyPrepared \<or> rc_DispatchState existing \<noteq> NotDispatched
         then (Inl ErrYouTubeRelayBindingClaimState, s)
         else if \<not> clean_completion r then (Inl ErrInvalidYouTubeRelayBindingClaim, s)
         else (case mget (youtubeRuntimes s) (yr_StreamID r) of
           Some current \<Rightarrow>
             (Inl (if sameRelayStaticRuntime current r then ErrYouTubeRelayBindingClaimState
                   else ErrYouTubeRelayBindingClaimConflict), s)
         | None \<Rightarrow>
           let now = nowYouTubeRelayBindingClaim clock;
               r' = r\<lparr>yr_CreatedAt := (if isZero (yr_CreatedAt r) then now else yr_CreatedAt r), yr_UpdatedAt := now\<rparr>;
               existing' = existing\<lparr>rc_BroadcastID := rc_BroadcastID claim, rc_State := Prepared,
                 rc_DispatchState := NotDispatched, rc_LastError := [], rc_UpdatedAt := now\<rparr> in
           (Inr (), put_claim existing' (s\<lparr>youtubeRuntimes := mput (youtubeRuntimes s) (yr_StreamID r) r'\<rparr>))))))"

definition MarkPreparedStreamYouTubeRelayBindingClaimPossiblyDispatched ::
  "ctx \<Rightarrow> relay_claim \<Rightarrow> time \<Rightarrow> stream_store \<Rightarrow> (relay_claim, stream_store) outcome" where
  "MarkPreparedStreamYouTubeRelayBindingClaimPossiblyDispatched c claim0 clock = with_ctx c (\<lambda>s.
     let claim = normalizeYouTubeRelayBindingClaim claim0 in
     if \<not> validateYouTubeRelayBindingClaimPreparedFence claim then (Inl ErrInvalidYouTubeRelayBindingClaim, s)
     else (case mget (streams s) (rc_StreamID claim) of
       None \<Rightarrow> (Inl ErrNotFound, s)
     | Some st \<Rightarrow>
       if \<not> equalFold (trimSpace (st_Status st)) ''starting'' then (Inl ErrYouTubeRelayBindingClaimState, s)
       else (case stored_claim claim s of
         Inl e \<Rightarrow> (Inl e, s)
       | Inr existing \<Rightarrow>
         if rc_State existing \<noteq> Prepared \<or> rc_PrepareState existing \<noteq> PossiblyPrepared \<or>
            rc_BroadcastID existing \<noteq> rc_BroadcastID claim
         then (Inl ErrYouTubeRelayBindingClaimState, s)
         else (case matching_runtime claim existing s of
           None \<Rightarrow> (Inl ErrYouTubeRelayBindingClaimState, s)
         | Some r \<Rightarrow>
           if \<not> clean_completion r then (Inl ErrYouTubeRelayBindingClaimState, s)
           else if rc_DispatchState existing = PossiblyDispatched then (Inr existing, s)
           else if rc_DispatchState existing = NotDispatched
           then let existing' = existing\<lparr>rc_DispatchState := PossiblyDispatched,
                  rc_UpdatedAt := nowYouTubeRelayBindingClaim clock\<rparr> in (Inr existing', put_claim existing' s)
           else (Inl ErrYouTubeRelayBindingClaimState, s)))))"

definition MarkPreparedStreamYouTubeRelayBindingClaimEncoderStopConfirmed ::
  "ctx \<Rightarrow> relay_claim \<Rightarrow> time \<Rightarrow> stream_store \<Rightarrow> (relay_claim, stream_store) outcome" where
  "MarkPreparedStreamYouTubeRelayBindingClaimEncoderStopConfirmed c claim0 clock = with_ctx c (\<lambda>s.
     let claim = normalizeYouTubeRelayBindingClaim claim0 in
     if \<not> validateYouTubeRelayBindingClaimPreparedFence claim then (Inl ErrInvalidYouTubeRelayBindingClaim, s)
     else (case mget (streams s) (rc_StreamID claim) of
       None \<Rightarrow> (Inl ErrNotFound, s)
     | Some st \<Rightarrow>
       if \<not> isYouTubeRelayBindingClaimEncoderStopReceiptStreamStatus (st_Status st)
       then (Inl ErrYouTubeRelayBindingClaimState, s)
       else (case stored_claim claim s of
         Inl e \<Rightarrow> (Inl e, s)
       | Inr existing \<Rightarrow>
         if rc_PrepareState existing \<noteq> PossiblyPrepared \<or> rc_DispatchState existing \<noteq> PossiblyDispatched \<or>
            rc_BroadcastID existing \<noteq> rc_BroadcastID claim
         then (Inl ErrYouTubeRelayBindingClaimState, s)
         else if \<not> (rc_State existing = Prepared \<and> rc_LastError existing = [] \<and>
              matching_runtime claim existing s \<noteq> None \<or>
            rc_State existing = RecoveryRequired \<and> no_runtime (rc_StreamID claim) s)
         then (Inl ErrYouTubeRelayBindingClaimState, s)
         else if \<not> isZero (rc_EncoderStopConfirmedAt existing) then (Inr existing, s)
         else let now = nowYouTubeRelayBindingClaim clock;
                existing' = existing\<lparr>rc_EncoderStopConfirmedAt := now, rc_UpdatedAt := now\<rparr> in
           (Inr existing', put_claim existing' s))))"

subsection \<open>Recovery and release\<close>

text \<open>The matching runtime is removed and the claim is kept for recovery.\<close>

definition abandon :: "relay_claim \<Rightarrow> relay_claim \<Rightarrow> time \<Rightarrow> stream_store \<Rightarrow> relay_claim \<times> stream_store" where
  "abandon claim existing clock s =
     (let existing' = existing\<lparr>rc_State := RecoveryRequired, rc_LastError := rc_LastError claim,
        rc_UpdatedAt := nowYouTubeRelayBindingClaim clock\<rparr> in
      (existing', put_claim existing' (s\<lparr>youtubeRuntimes := mdel (youtubeRuntimes s) (rc_StreamID claim)\<rparr>)))"

definition AbandonPreparedStreamYouTubeRuntimeAndMarkRelayBindingRecoveryRequired ::
  "ctx \<Rightarrow> relay_claim \<Rightarrow> time \<Rightarrow> stream_store \<Rightarrow> (relay_claim, stream_store) outcome" where
  "AbandonPreparedStreamYouTubeRuntimeAndMarkRelayBindingRecoveryRequired c claim0 clock = with_ctx c (\<lambda>s.
     let claim = normalizeYouTubeRelayBindingClaim claim0 in
     if \<not> validateYouTubeRelayBindingClaimRecovery claim then (Inl ErrInvalidYouTubeRelayBindingClaim, s)
     else (case mget (streams s) (rc_StreamID claim) of
       None \<Rightarrow> (Inl ErrNotFound, s)
     | Some st \<Rightarrow>
       if \<not> equalFold (trimSpace (st_Status st)) ''failed'' then (Inl ErrYouTubeRelayBindingClaimState, s)
       else (case stored_claim claim s of
         Inl e \<Rightarrow> (Inl e, s)
       | Inr existing \<Rightarrow>
         if rc_PrepareState existing \<noteq> PossiblyPrepared \<or> rc_DispatchState existing \<noteq> PossiblyDispatched
         then (Inl ErrYouTubeRelayBindingClaimState, s)
         else if rc_State existing = RecoveryRequired
         then (if rc_BroadcastID existing \<noteq> rc_BroadcastID claim \<or> rc_LastError existing \<noteq> rc_LastError claim
               then (Inl ErrYouTubeRelayBindingClaimConflict, s)
               else if \<not> no_runtime (rc_StreamID claim) s then (Inl ErrYouTubeRelayBindingClaimState, s)
               else (Inr existing, s))
         else if rc_State existing \<noteq> Prepared then (Inl ErrYouTubeRelayBindingClaimState, s)
         else if rc_BroadcastID existing \<noteq> rc_BroadcastID claim then (Inl ErrYouTubeRelayBindingClaimConflict, s)
         else if matching_runtime claim existing s = None then (Inl ErrYouTubeRelayBindingClaimState, s)
         else (case abandon claim existing clock s of (existing', s') \<Rightarrow> (Inr existing', s')))))"

definition ReconcilePreparedStreamYouTubeRelayBindingClaimAfterDispatchFence ::
  "ctx \<Rightarrow> relay_claim \<Rightarrow> time \<Rightarrow> stream_store \<Rightarrow> (relay_claim, stream_store) outcome" where
  "ReconcilePreparedStreamYouTubeRelayBindingClaimAfterDispatchFence c claim0 clock = with_ctx c (\<lambda>s.
     let claim = normalizeYouTubeRelayBindingClaim claim0 in
     if \<not> validateYouTubeRelayBindingClaimRecovery claim then (Inl ErrInvalidYouTubeRelayBindingClaim, s)
     else (case mget (streams s) (rc_StreamID claim) of
       None \<Rightarrow> (Inl ErrNotFound, s)
     | Some st \<Rightarrow>
       if \<not> equalFold (trimSpace (st_Status st)) ''failed'' then (Inl ErrYouTubeRelayBindingClaimState, s)
       else (case stored_claim claim s of
         Inl e \<Rightarrow> (Inl e, s)
       | Inr existing \<Rightarrow>
         if rc_PrepareState existing \<noteq> PossiblyPrepared \<or> rc_BroadcastID existing \<noteq> rc_BroadcastID claim \<or>
            \<not> isYouTubeRelayBindingClaimDispatchFenceState (rc_DispatchState existing)
         then (Inl ErrYouTubeRelayBindingClaimState, s)
         else if rc_State existing = RecoveryRequired
         then (if rc_LastError existing \<noteq> rc_LastError claim then (Inl ErrYouTubeRelayBindingClaimConflict, s)
               else if \<not> no_runtime (rc_StreamID claim) s then (Inl ErrYouTubeRelayBindingClaimState, s)
               else (Inr existing, s))
         else if rc_State existing \<noteq> Prepared then (Inl ErrYouTubeRelayBindingClaimState, s)
         else if rc_LastError existing \<noteq> [] then (Inl ErrYouTubeRelayBindingClaimState, s)
         else if matching_runtime claim existing s = None then (Inl ErrYouTubeRelayBindingClaimState, s)
         else (case abandon claim existing clock s of (existing', s') \<Rightarrow> (Inr existing', s')))))"

definition required_claim :: "relay_claim \<Rightarrow> relay_claim \<Rightarrow> time \<Rightarrow> relay_claim" where
  "required_claim claim existing clock =
     existing\<lparr>rc_BroadcastID := rc_BroadcastID claim, rc_State := RecoveryRequired, rc_DispatchState := NotDispatched,
       rc_LastError := rc_LastError claim, rc_UpdatedAt := nowYouTubeRelayBindingClaim clock\<rparr>"

definition MarkStreamYouTubeRelayBindingClaimRecoveryRequired ::
  "ctx \<Rightarrow> relay_claim \<Rightarrow> time \<Rightarrow> stream_store \<Rightarrow> (relay_claim, stream_store) outcome" where
  "MarkStreamYouTubeRelayBindingClaimRecoveryRequired c claim0 clock = with_ctx c (\<lambda>s.
     let claim = normalizeYouTubeRelayBindingClaim claim0 in
     if \<not> validateYouTubeRelayBindingClaimRecovery claim then (Inl ErrInvalidYouTubeRelayBindingClaim, s)
     else if mget (streams s) (rc_StreamID claim) = None then (Inl ErrNotFound, s)
     else (case stored_claim claim s of
       Inl e \<Rightarrow> (Inl e, s)
     | Inr existing \<Rightarrow>
       let existing' = required_claim claim existing clock in
       if rc_DispatchState existing \<noteq> NotDispatched then (Inl ErrYouTubeRelayBindingClaimState, s)
       else if rc_State existing = Reserved
       then (if (rc_PrepareState existing \<noteq> NotAttempted \<and> rc_PrepareState existing \<noteq> PossiblyPrepared) \<or>
               \<not> isZero (rc_EncoderStopConfirmedAt existing)
             then (Inl ErrYouTubeRelayBindingClaimState, s)
             else if \<not> no_runtime (rc_StreamID claim) s then (Inl ErrYouTubeRelayBindingClaimState, s)
             else (Inr existing', put_claim existing' s))
       else if rc_State existing = Prepared
       then (if rc_PrepareState existing \<noteq> PossiblyPrepared \<or> rc_BroadcastID existing \<noteq> rc_BroadcastID claim
             then (Inl ErrYouTubeRelayBindingClaimConflict, s)
             else if matching_runtime claim existing s = None then (Inl ErrYouTubeRelayBindingClaimState, s)
             else (Inr existing',
               put_claim existing' (s\<lparr>youtubeRuntimes := mdel (youtubeRuntimes s) (rc_StreamID claim)\<rparr>)))
       else if rc_State existing = RecoveryRequired
       then (if rc_BroadcastID existing \<noteq> rc_BroadcastID claim then (Inl ErrYouTubeRelayBindingClaimConflict, s)
             else if \<not> no_runtime (rc_StreamID claim) s then (Inl ErrYouTubeRelayBindingClaimState, s)
             else (Inr existing', put_claim existing' s))
       else (Inl ErrYouTubeRelayBindingClaimState, s)))"

definition drop_claim :: "relay_claim \<Rightarrow> stream_store \<Rightarrow> stream_store" where
  "drop_claim claim s =
     s\<lparr>youtubeRelayBindingClaims := mdel (youtubeRelayBindingClaims s) (rc_RelayBindingID claim)\<rparr>"

definition ReleaseReservedStreamYouTubeRelayBindingClaim ::
  "ctx \<Rightarrow> relay_claim \<Rightarrow> stream_store \<Rightarrow> (unit, stream_store) outcome" where
  "ReleaseReservedStreamYouTubeRelayBindingClaim c claim0 = with_ctx c (\<lambda>s.
     let claim = normalizeYouTubeRelayBindingClaim claim0 in
     if \<not> validateYouTubeRelayBindingClaimReservationFence claim then (Inl ErrInvalidYouTubeRelayBindingClaim, s)
     else (case mget (streams s) (rc_StreamID claim) of
       None \<Rightarrow> (Inl ErrNotFound, s)
     | Some st \<Rightarrow>
       (case stored_claim claim s of
         Inl e \<Rightarrow> (Inl e, s)
       | Inr existing \<Rightarrow>
         if isActiveYouTubeRelayBindingClaimStreamStatus (st_Status st) then (Inl ErrYouTubeRelayBindingClaimState, s)
         else if rc_State existing \<noteq> Reserved \<or> rc_PrepareState existing \<noteq> NotAttempted \<or>
            rc_DispatchState existing \<noteq> NotDispatched \<or> \<not> isZero (rc_EncoderStopConfirmedAt existing)
         then (Inl ErrYouTubeRelayBindingClaimState, s)
         else if rc_BroadcastID existing \<noteq> [] \<or> rc_LastError existing \<noteq> []
         then (Inl ErrYouTubeRelayBindingClaimState, s)
         else if \<not> no_runtime (rc_StreamID claim) s then (Inl ErrYouTubeRelayBindingClaimState, s)
         else (Inr (), drop_claim claim s))))"

definition CompleteStreamYouTubeRuntimeAndReleaseRelayBindingClaim ::
  "ctx \<Rightarrow> relay_claim \<Rightarrow> stream_store \<Rightarrow> (unit, stream_store) outcome" where
  "CompleteStreamYouTubeRuntimeAndReleaseRelayBindingClaim c claim0 = with_ctx c (\<lambda>s.
     let claim = normalizeYouTubeRelayBindingClaim claim0 in
     if \<not> validateYouTubeRelayBindingClaimPreparedFence claim then (Inl ErrInvalidYouTubeRelayBindingClaim, s)
     else (case stored_claim claim s of
       Inl e \<Rightarrow> (Inl e, s)
     | Inr existing \<Rightarrow>
       if rc_State existing \<noteq> Prepared \<or> rc_PrepareState existing \<noteq> PossiblyPrepared \<or>
          rc_BroadcastID existing \<noteq> rc_BroadcastID claim \<or> rc_DispatchState existing \<noteq> PossiblyDispatched
       then (Inl ErrYouTubeRelayBindingClaimState, s)
       else (case mget (streams s) (rc_StreamID claim) of
         None \<Rightarrow> (Inl ErrNotFound, s)
       | Some st \<Rightarrow>
         if \<not> equalFold (trimSpace (st_Status st)) ''completed'' then (Inl ErrYouTubeRelayBindingClaimState, s)
         else if matching_runtime claim existing s = None then (Inl ErrYouTubeRelayBindingClaimState, s)
         else (Inr (), drop_claim claim
           (s\<lparr>youtubeRuntimes := mdel (youtubeRuntimes s) (rc_StreamID claim)\<rparr>)))))"

definition ResolveStreamYouTubeRelayBindingRecovery ::
  "ctx \<Rightarrow> relay_claim \<Rightarrow> stream_store \<Rightarrow> (unit, stream_store) outcome" where
  "ResolveStreamYouTubeRelayBindingRecovery c claim0 = with_ctx c (\<lambda>s.
     let claim = normalizeYouTubeRelayBindingClaim claim0 in
     if \<not> validateYouTubeRelayBindingClaimPreparedFence claim then (Inl ErrInvalidYouTubeRelayBindingClaim, s)
     else (case mget (streams s) (rc_StreamID claim) of
       None \<Rightarrow> (Inl ErrNotFound, s)
     | Some st \<Rightarrow>
       if isActiveYouTubeRelayBindingClaimStreamStatus (st_Status st) then (Inl ErrYouTubeRelayBindingClaimState, s)
       else (case stored_claim claim s of
         Inl e \<Rightarrow> (Inl e, s)
       | Inr existing \<Rightarrow>
         if rc_State existing \<noteq> RecoveryRequired \<or> rc_BroadcastID existing \<noteq> rc_BroadcastID claim \<or>
            \<not> isYouTubeRelayBindingClaimDispatchFenceState (rc_DispatchState existing)
         then (Inl ErrYouTubeRelayBindingClaimState, s)
         else if rc_DispatchState existing = PossiblyDispatched \<and> isZero (rc_EncoderStopConfirmedAt existing)
         then (Inl ErrYouTubeRelayBindingClaimState, s)
         else if \<not> no_runtime (rc_StreamID claim) s then (Inl ErrYouTubeRelayBindingClaimState, s)
         else (Inr (), drop_claim claim s))))"

subsection \<open>YouTube runtimes\<close>

definition SaveStreamYouTubeRuntime ::
  "ctx \<Rightarrow> stream_youtube_runtime \<Rightarrow> time \<Rightarrow> stream_store \<Rightarrow> (unit, stream_store) outcome" where
  "SaveStreamYouTubeRuntime c r now = with_ctx c (\<lambda>s.
     if trimSpace (yr_Mode r) = youtubeRelayBindingClaimStaticRuntimeMode
     then (Inl ErrInvalidYouTubeRelayBindingClaim, s)
     else if mget (streams s) (yr_StreamID r) = None then (Inl ErrNotFound, s)
     else if list_ex (\<lambda>(_, claim). rc_StreamID claim = yr_StreamID r) (youtubeRelayBindingClaims s)
     then (Inl ErrYouTubeRelayBindingClaimActive, s)
     else let r' = r\<lparr>yr_CreatedAt := (if isZero (yr_CreatedAt r) then now else yr_CreatedAt r), yr_UpdatedAt := now\<rparr> in
       (Inr (), s\<lparr>youtubeRuntimes := mput (youtubeRuntimes s) (yr_StreamID r) r'\<rparr>))"

definition GetStreamYouTubeRuntime ::
  "ctx \<Rightarrow> string \<Rightarrow> stream_store \<Rightarrow> (stream_youtube_runtime, stream_store) outcome" where
  "GetStreamYouTubeRuntime c streamID = with_ctx c (\<lambda>s.
     if mget (streams s) streamID = None then (Inl ErrNotFound, s)
     else case mget (youtubeRuntimes s) streamID of None \<Rightarrow> (Inl ErrNotFound, s) | Some r \<Rightarrow> (Inr r, s))"

definition ListStreamYouTubeRuntimes :: "ctx \<Rightarrow> stream_store \<Rightarrow> (stream_youtube_runtime list, stream_store) outcome" where
  "ListStreamYouTubeRuntimes c = with_ctx c (\<lambda>s. (Inr (map snd (youtubeRuntimes s)), s))"

text \<open>The loop breaks as soon as the list has \<open>limit\<close> entries; the limit is positive.\<close>

definition ListDueStreamYouTubeRuntimes ::
  "ctx \<Rightarrow> time \<Rightarrow> int \<Rightarrow> stream_store \<Rightarrow> (stream_youtube_runtime list, stream_store) outcome" where
  "ListDueStreamYouTubeRuntimes c now limit0 = with_ctx c (\<lambda>s.
     let limit = (if limit0 \<le> 0 \<or> limit0 > 100 then 25 else limit0) in
     (Inr (take (nat limit) (filter (\<lambda>r. \<not> ((yr_Mode r \<noteq> ''live_api'' \<and> yr_Mode r \<noteq> youtubeRelayBindingClaimStaticRuntimeMode) \<or>
        isZero (yr_CompleteNextRetryAt r) \<or> yr_CompleteNextRetryAt r > now)) (map snd (youtubeRuntimes s)))), s))"

definition truncateString :: "string \<Rightarrow> int \<Rightarrow> string" where
  "truncateString value maxLen =
     (if maxLen \<le> 0 \<or> int (length value) \<le> maxLen then value else take (nat maxLen) value)"

definition RecordStreamYouTubeRuntimeCompleteFailure ::
  "ctx \<Rightarrow> string \<Rightarrow> string \<Rightarrow> time \<Rightarrow> time \<Rightarrow> stream_store \<Rightarrow> (stream_youtube_runtime, stream_store) outcome" where
  "RecordStreamYouTubeRuntimeCompleteFailure c streamID lastError nextRetryAt now = with_ctx c (\<lambda>s.
     case mget (youtubeRuntimes s) streamID of
       None \<Rightarrow> (Inl ErrNotFound, s)
     | Some r \<Rightarrow>
       let r' = r\<lparr>yr_CompleteRetryCount := yr_CompleteRetryCount r + 1, yr_CompleteNextRetryAt := nextRetryAt,
             yr_CompleteLastError := truncateString (trimSpace lastError) 255, yr_UpdatedAt := now\<rparr> in
       (Inr r', s\<lparr>youtubeRuntimes := mput (youtubeRuntimes s) streamID r'\<rparr>))"

definition DeleteStreamYouTubeRuntime :: "ctx \<Rightarrow> string \<Rightarrow> stream_store \<Rightarrow> (unit, stream_store) outcome" where
  "DeleteStreamYouTubeRuntime c streamID = with_ctx c (\<lambda>s.
     if list_ex (\<lambda>(_, claim). rc_StreamID claim = trimSpace streamID) (youtubeRelayBindingClaims s)
     then (Inl ErrYouTubeRelayBindingClaimActive, s)
     else (Inr (), s\<lparr>youtubeRuntimes := mdel (youtubeRuntimes s) streamID\<rparr>))"

end
