(* ===== verification/Relay_Invariant.thy ===== *)
theory Relay_Invariant
  imports Relay_Claims Assignment_Guard
begin

text \<open>
  The invariant of the relay claims and their runtimes, and what each operation does to a claim: it
  keeps its identity, never lowers one of its fences, and goes only when it is safe to let go.
\<close>

subsection \<open>The invariant\<close>

text \<open>A claim fits the runtime of its stream, if there is one.\<close>

definition claim_ok :: "stream_youtube_runtime option \<Rightarrow> relay_claim \<Rightarrow> bool" where
  "claim_ok ro c \<longleftrightarrow> trimSpace (rc_StreamID c) = rc_StreamID c \<and>
     (rc_State c = Reserved \<and> rc_PrepareState c \<in> {NotAttempted, PossiblyPrepared} \<and> rc_DispatchState c = NotDispatched \<and>
        rc_BroadcastID c = [] \<and> rc_LastError c = [] \<and> isZero (rc_EncoderStopConfirmedAt c) \<and>
        (rc_PrepareState c = PossiblyPrepared \<longrightarrow> ro = None) \<or>
      rc_State c = Prepared \<and> rc_PrepareState c = PossiblyPrepared \<and> rc_DispatchState c \<in> {NotDispatched, PossiblyDispatched} \<and>
        rc_LastError c = [] \<and> (\<exists>r. ro = Some r \<and> runtimeMatchesYouTubeRelayBindingClaim r c) \<and>
        (\<not> isZero (rc_EncoderStopConfirmedAt c) \<longrightarrow> rc_DispatchState c = PossiblyDispatched) \<or>
      rc_State c = RecoveryRequired \<and> rc_PrepareState c \<in> {NotAttempted, PossiblyPrepared} \<and>
        rc_DispatchState c \<in> {NotDispatched, PossiblyDispatched} \<and> ro = None \<and>
        (rc_DispatchState c = PossiblyDispatched \<longrightarrow> rc_PrepareState c = PossiblyPrepared) \<and>
        (\<not> isZero (rc_EncoderStopConfirmedAt c) \<longrightarrow> rc_DispatchState c = PossiblyDispatched))"

definition claims_distinct :: "relay_claim gomap \<Rightarrow> bool" where
  "claims_distinct m \<longleftrightarrow> (\<forall>k k' c c'. mget m k = Some c \<longrightarrow> mget m k' = Some c' \<longrightarrow>
     rc_StreamID c = rc_StreamID c' \<or>
     (rc_OAuthAccountID c = rc_OAuthAccountID c' \<and> rc_ReusableLiveStreamID c = rc_ReusableLiveStreamID c') \<longrightarrow> k = k')"

abbreviation static_runtime :: "stream_youtube_runtime \<Rightarrow> bool" where
  "static_runtime r \<equiv> trimSpace (yr_Mode r) = youtubeRelayBindingClaimStaticRuntimeMode"

definition relay_ok :: "stream_store \<Rightarrow> bool" where
  "relay_ok s \<longleftrightarrow>
     keyed rc_RelayBindingID (youtubeRelayBindingClaims s) \<and> keyed yr_StreamID (youtubeRuntimes s) \<and>
     claims_distinct (youtubeRelayBindingClaims s) \<and>
     (\<forall>k c. mget (youtubeRelayBindingClaims s) k = Some c \<longrightarrow>
        claim_ok (mget (youtubeRuntimes s) (rc_StreamID c)) c \<and> mget (streams s) (rc_StreamID c) \<noteq> None) \<and>
     (\<forall>i r. mget (youtubeRuntimes s) i = Some r \<longrightarrow> static_runtime r \<longrightarrow>
        (\<exists>k c. mget (youtubeRelayBindingClaims s) k = Some c \<and> rc_StreamID c = i \<and> rc_State c = Prepared))"

lemma relay_okD:
  assumes "relay_ok s"
  shows relay_keyed: "keyed rc_RelayBindingID (youtubeRelayBindingClaims s)"
    and relay_runtimes: "keyed yr_StreamID (youtubeRuntimes s)"
    and relay_distinct: "claims_distinct (youtubeRelayBindingClaims s)"
    and relay_claim: "\<And>k c. mget (youtubeRelayBindingClaims s) k = Some c \<Longrightarrow> claim_ok (mget (youtubeRuntimes s) (rc_StreamID c)) c"
    and relay_stream: "\<And>k c. mget (youtubeRelayBindingClaims s) k = Some c \<Longrightarrow> mget (streams s) (rc_StreamID c) \<noteq> None"
    and relay_static: "\<And>i r. mget (youtubeRuntimes s) i = Some r \<Longrightarrow> static_runtime r \<Longrightarrow>
      \<exists>k c. mget (youtubeRelayBindingClaims s) k = Some c \<and> rc_StreamID c = i \<and> rc_State c = Prepared"
  using assms unfolding relay_ok_def by blast+

lemma relay_ok_init: "relay_ok NewMemoryStreamStore"
  by (simp add: relay_ok_def NewMemoryStreamStore_def claims_distinct_def)

subsection \<open>What may happen to a claim\<close>

definition claim_moves :: "relay_claim \<Rightarrow> relay_claim \<Rightarrow> bool" where
  "claim_moves c c' \<longleftrightarrow> sameYouTubeRelayBindingReservation c c' \<and>
     (rc_PrepareState c = PossiblyPrepared \<longrightarrow> rc_PrepareState c' = PossiblyPrepared) \<and>
     (rc_DispatchState c = PossiblyDispatched \<longrightarrow> rc_DispatchState c' = PossiblyDispatched) \<and>
     (\<not> isZero (rc_EncoderStopConfirmedAt c) \<longrightarrow> rc_EncoderStopConfirmedAt c' = rc_EncoderStopConfirmedAt c) \<and>
     (rc_State c \<noteq> Reserved \<longrightarrow> rc_State c' \<noteq> Reserved \<and> rc_BroadcastID c' = rc_BroadcastID c) \<and>
     (rc_State c = RecoveryRequired \<longrightarrow> rc_State c' = RecoveryRequired)"

text \<open>
  A claim may go if YouTube was never called for it, if its broadcast was completed with its stream,
  or if recovery has shown that no encoder can still be running.
\<close>

definition releasable :: "stream_store \<Rightarrow> relay_claim \<Rightarrow> bool" where
  "releasable s c \<longleftrightarrow> (\<exists>st. mget (streams s) (rc_StreamID c) = Some st \<and>
     (rc_State c = Reserved \<and> rc_PrepareState c = NotAttempted \<and>
        \<not> isActiveYouTubeRelayBindingClaimStreamStatus (st_Status st) \<or>
      rc_State c = Prepared \<and> rc_DispatchState c = PossiblyDispatched \<and> equalFold (trimSpace (st_Status st)) ''completed'' \<or>
      rc_State c = RecoveryRequired \<and> \<not> isActiveYouTubeRelayBindingClaimStreamStatus (st_Status st) \<and>
        (rc_DispatchState c = NotDispatched \<or> \<not> isZero (rc_EncoderStopConfirmedAt c))))"

definition relay_effect :: "stream_store \<Rightarrow> stream_store \<Rightarrow> bool" where
  "relay_effect s t \<longleftrightarrow> relay_ok t \<and>
     (\<forall>k c. mget (youtubeRelayBindingClaims s) k = Some c \<longrightarrow>
        (case mget (youtubeRelayBindingClaims t) k of None \<Rightarrow> releasable s c | Some c' \<Rightarrow> claim_moves c c'))"

lemma claim_moves_refl [simp]: "claim_moves c c"
  by (simp add: claim_moves_def sameYouTubeRelayBindingReservation_def)

lemma relay_effect_refl: "relay_ok s \<Longrightarrow> relay_effect s s"
  by (simp add: relay_effect_def)

lemma relay_effect_settled:
  "settled s Q out \<Longrightarrow> relay_ok s \<Longrightarrow> (\<And>v t. out = (Inr v, t) \<Longrightarrow> Q v t \<Longrightarrow> relay_effect s t) \<Longrightarrow> relay_effect s (snd out)"
  by (auto elim!: settled_cases simp: relay_effect_refl)

lemma same_reservation:
  "sameYouTubeRelayBindingReservation c c' \<Longrightarrow> rc_RelayBindingID c' = rc_RelayBindingID c \<and> rc_StreamID c' = rc_StreamID c \<and>
     rc_OAuthAccountID c' = rc_OAuthAccountID c \<and> rc_ReusableLiveStreamID c' = rc_ReusableLiveStreamID c"
  by (simp add: sameYouTubeRelayBindingReservation_def)

lemma stored_claimD:
  assumes "stored_claim claim s = Inr c" and "relay_ok s"
  shows "mget (youtubeRelayBindingClaims s) (rc_RelayBindingID claim) = Some c"
    and "rc_RelayBindingID c = rc_RelayBindingID claim" and "rc_StreamID c = rc_StreamID claim"
    and "claim_ok (mget (youtubeRuntimes s) (rc_StreamID claim)) c"
proof -
  show get: "mget (youtubeRelayBindingClaims s) (rc_RelayBindingID claim) = Some c"
    and id: "rc_RelayBindingID c = rc_RelayBindingID claim" "rc_StreamID c = rc_StreamID claim"
    using assms(1) by (auto simp: stored_claim_def sameYouTubeRelayBindingReservation_def split: option.splits if_splits)
  show "claim_ok (mget (youtubeRuntimes s) (rc_StreamID claim)) c"
    using relay_claim [OF assms(2) get] id by simp
qed

text \<open>One claim and the runtime of its stream are rewritten.\<close>

lemma claim_update_effect:
  assumes ok: "relay_ok s" and c: "mget (youtubeRelayBindingClaims s) k = Some c"
    and t: "youtubeRelayBindingClaims t = mput (youtubeRelayBindingClaims s) k c'" "streams t = streams s"
      "keyed yr_StreamID (youtubeRuntimes t)"
      "\<And>j. j \<noteq> rc_StreamID c \<Longrightarrow> mget (youtubeRuntimes t) j = mget (youtubeRuntimes s) j"
    and c': "claim_ok (mget (youtubeRuntimes t) (rc_StreamID c)) c'" "claim_moves c c'"
    and static: "\<And>r. mget (youtubeRuntimes t) (rc_StreamID c) = Some r \<Longrightarrow> static_runtime r \<Longrightarrow> rc_State c' = Prepared"
  shows "relay_effect s t"
proof -
  note same = same_reservation [OF c'(2) [unfolded claim_moves_def, THEN conjunct1]]
  have key: "rc_RelayBindingID c = k" using relay_keyed [OF ok] c by (rule keyed_mget)
  have other: "rc_StreamID x \<noteq> rc_StreamID c" if "mget (youtubeRelayBindingClaims s) j = Some x" "j \<noteq> k" for j x
    using relay_distinct [OF ok] that c unfolding claims_distinct_def by blast
  have "claim_ok (mget (youtubeRuntimes t) (rc_StreamID x)) x \<and> mget (streams t) (rc_StreamID x) \<noteq> None"
    if "mget (youtubeRelayBindingClaims t) j = Some x" for j x
  proof (cases "j = k")
    case True
    with that t c' same relay_stream [OF ok c] show ?thesis by simp
  next
    case False
    with that have x: "mget (youtubeRelayBindingClaims s) j = Some x" by (simp add: t(1))
    with relay_claim [OF ok x] relay_stream [OF ok x] t(4) [OF other [OF x False]] show ?thesis by (simp add: t(2))
  qed
  moreover have "claims_distinct (youtubeRelayBindingClaims t)"
    using relay_distinct [OF ok] c same unfolding claims_distinct_def t(1) gm.get_put by (metis option.inject)
  moreover have "\<exists>j x. mget (youtubeRelayBindingClaims t) j = Some x \<and> rc_StreamID x = i \<and> rc_State x = Prepared"
    if r: "mget (youtubeRuntimes t) i = Some r" "static_runtime r" for i r
  proof (cases "i = rc_StreamID c")
    case True
    with r static [of r] same show ?thesis by (auto simp: t(1))
  next
    case False
    with r t(4) relay_static [OF ok, of i r] obtain j x where
      x: "mget (youtubeRelayBindingClaims s) j = Some x" "rc_StreamID x = i" "rc_State x = Prepared" by auto
    with False c have "j \<noteq> k" by auto
    with x show ?thesis by (auto simp: t(1))
  qed
  ultimately have "relay_ok t"
    using relay_keyed [OF ok] t(3) same key by (auto simp: relay_ok_def t(1) intro: keyed_mput)
  with c c'(2) show ?thesis by (auto simp: relay_effect_def t(1) split: option.split)
qed

text \<open>One claim goes, and with it the runtime of its stream if that was its own.\<close>

lemma claim_drop_effect:
  assumes ok: "relay_ok s" and c: "mget (youtubeRelayBindingClaims s) k = Some c" and rel: "releasable s c"
    and t: "youtubeRelayBindingClaims t = mdel (youtubeRelayBindingClaims s) k" "streams t = streams s"
      "keyed yr_StreamID (youtubeRuntimes t)"
      "\<And>j. j \<noteq> rc_StreamID c \<Longrightarrow> mget (youtubeRuntimes t) j = mget (youtubeRuntimes s) j"
      "\<And>r. mget (youtubeRuntimes t) (rc_StreamID c) = Some r \<Longrightarrow> \<not> static_runtime r"
  shows "relay_effect s t"
proof -
  have other: "rc_StreamID x \<noteq> rc_StreamID c" if "mget (youtubeRelayBindingClaims s) j = Some x" "j \<noteq> k" for j x
    using relay_distinct [OF ok] that c unfolding claims_distinct_def by blast
  have "claim_ok (mget (youtubeRuntimes t) (rc_StreamID x)) x \<and> mget (streams t) (rc_StreamID x) \<noteq> None"
    if "mget (youtubeRelayBindingClaims t) j = Some x" for j x
  proof -
    from that have x: "mget (youtubeRelayBindingClaims s) j = Some x" "j \<noteq> k" by (auto simp: t(1) split: if_splits)
    with relay_claim [OF ok x(1)] relay_stream [OF ok x(1)] t(4) [OF other [OF x]] show ?thesis by (simp add: t(2))
  qed
  moreover have "claims_distinct (youtubeRelayBindingClaims t)"
    using relay_distinct [OF ok] unfolding claims_distinct_def t(1) gm.get_del by (metis option.distinct(1))
  moreover have "\<exists>j x. mget (youtubeRelayBindingClaims t) j = Some x \<and> rc_StreamID x = i \<and> rc_State x = Prepared"
    if r: "mget (youtubeRuntimes t) i = Some r" "static_runtime r" for i r
  proof -
    have "i \<noteq> rc_StreamID c" using r t(5) by auto
    with r t(4) relay_static [OF ok, of i r] obtain j x where
      x: "mget (youtubeRelayBindingClaims s) j = Some x" "rc_StreamID x = i" "rc_State x = Prepared" by auto
    with \<open>i \<noteq> rc_StreamID c\<close> c have "j \<noteq> k" by auto
    with x show ?thesis by (auto simp: t(1))
  qed
  ultimately have "relay_ok t"
    using relay_keyed [OF ok] t(3) by (auto simp: relay_ok_def t(1) intro: keyed_mdel)
  with c rel show ?thesis by (auto simp: relay_effect_def t(1) split: option.split)
qed


subsection \<open>The effect of every operation\<close>

lemma same_claim:
  assumes "relay_ok s" and "mget (youtubeRelayBindingClaims s) k = Some c" and "mget (youtubeRelayBindingClaims s) k' = Some c'"
    and "rc_StreamID c = rc_StreamID c'"
  shows "k = k'"
  using relay_distinct [OF assms(1)] assms(2-) unfolding claims_distinct_def by blast

lemma stored_claim_same: "stored_claim claim s = Inr c \<Longrightarrow> sameYouTubeRelayBindingReservation c claim"
  by (auto simp: stored_claim_def split: option.splits if_splits)

lemma put_stored_effect:
  assumes ok: "relay_ok s" and st: "stored_claim claim s = Inr c"
    and c': "claim_moves c c'" "claim_ok (mget (youtubeRuntimes s) (rc_StreamID claim)) c'"
    and prep: "rc_State c = Prepared \<Longrightarrow> rc_State c' = Prepared"
  shows "relay_effect s (put_claim c' s)"
proof (rule claim_update_effect [OF ok stored_claimD(1) [OF st ok]])
  note c = stored_claimD [OF st ok]
  note same = same_reservation [OF c'(1) [unfolded claim_moves_def, THEN conjunct1]]
  show "youtubeRelayBindingClaims (put_claim c' s) = mput (youtubeRelayBindingClaims s) (rc_RelayBindingID claim) c'"
    using same c by (simp add: put_claim_def)
  show "claim_ok (mget (youtubeRuntimes (put_claim c' s)) (rc_StreamID c)) c'"
    using c'(2) c by (simp add: put_claim_def)
  fix r assume "mget (youtubeRuntimes (put_claim c' s)) (rc_StreamID c) = Some r" "static_runtime r"
  with relay_static [OF ok, of "rc_StreamID c" r] obtain k x where
    x: "mget (youtubeRelayBindingClaims s) k = Some x" "rc_StreamID x = rc_StreamID c" "rc_State x = Prepared"
    by (auto simp: put_claim_def)
  with same_claim [OF ok x(1) c(1)] c(1) have "x = c" by simp
  with x prep show "rc_State c' = Prepared" by simp
qed (use c' relay_runtimes [OF ok] in \<open>simp_all add: put_claim_def\<close>)

lemma put_stored_unrun_effect:
  assumes ok: "relay_ok s" and st: "stored_claim claim s = Inr c"
    and c': "claim_moves c c'" "claim_ok None c'"
  shows "relay_effect s (put_claim c' (s\<lparr>youtubeRuntimes := mdel (youtubeRuntimes s) (rc_StreamID claim)\<rparr>))"
proof (rule claim_update_effect [OF ok stored_claimD(1) [OF st ok]])
  note c = stored_claimD [OF st ok]
  note same = same_reservation [OF c'(1) [unfolded claim_moves_def, THEN conjunct1]]
  let ?t = "put_claim c' (s\<lparr>youtubeRuntimes := mdel (youtubeRuntimes s) (rc_StreamID claim)\<rparr>)"
  show "youtubeRelayBindingClaims ?t = mput (youtubeRelayBindingClaims s) (rc_RelayBindingID claim) c'"
    using same c by (simp add: put_claim_def)
  show "claim_ok (mget (youtubeRuntimes ?t) (rc_StreamID c)) c'"
    using c'(2) c by (simp add: put_claim_def)
  show "keyed yr_StreamID (youtubeRuntimes ?t)" using relay_runtimes [OF ok] by (simp add: put_claim_def keyed_mdel)
qed (use c' stored_claimD [OF st ok] in \<open>auto simp: put_claim_def\<close>)

lemma drop_stored_effect:
  assumes ok: "relay_ok s" and st: "stored_claim claim s = Inr c" and rel: "releasable s c"
    and none: "mget (youtubeRuntimes s) (rc_StreamID claim) = None"
  shows "relay_effect s (drop_claim claim s)"
  by (rule claim_drop_effect [OF ok stored_claimD(1) [OF st ok] rel])
    (use stored_claimD [OF st ok] relay_runtimes [OF ok] none in \<open>simp_all add: drop_claim_def\<close>)

lemma drop_existing_effect:
  assumes ok: "relay_ok s" and st: "stored_claim claim s = Inr c" and "releasable s c"
    and "mget (youtubeRuntimes s) (rc_StreamID claim) = None"
  shows "relay_effect s (s\<lparr>youtubeRelayBindingClaims := mdel (youtubeRelayBindingClaims s) (rc_RelayBindingID c)\<rparr>)"
  using drop_stored_effect [OF assms] stored_claimD(2) [OF st ok] by (simp add: drop_claim_def)

lemma matching_runtimeD:
  "matching_runtime claim existing s = Some r \<Longrightarrow>
   mget (youtubeRuntimes s) (rc_StreamID claim) = Some r \<and> runtimeMatchesYouTubeRelayBindingClaim r existing"
  by (auto simp: matching_runtime_def split: option.splits if_splits)

lemmas moves_defs = claim_moves_def sameYouTubeRelayBindingReservation_def

lemmas moved = put_stored_effect put_stored_unrun_effect drop_stored_effect drop_existing_effect

lemma mark_prepared_effect:
  assumes ok: "relay_ok s"
  shows "settled s (\<lambda>_. relay_effect s) (MarkReservedStreamYouTubeRelayBindingClaimPossiblyPrepared c claim clock s)"
  unfolding MarkReservedStreamYouTubeRelayBindingClaimPossiblyPrepared_def Let_def
  by (intro settled_rules; (rule relay_effect_refl [OF ok])?; (rule moved [OF ok], assumption)?; (frule stored_claimD(4) [OF _ ok])?;
      simp add: moves_defs claim_ok_def no_runtime_def)

lemma reconcile_prepare_effect:
  assumes ok: "relay_ok s"
  shows "settled s (\<lambda>_. relay_effect s)
     (ReconcileReservedStreamYouTubeRelayBindingClaimAfterPrepareFence c claim clock s)"
  unfolding ReconcileReservedStreamYouTubeRelayBindingClaimAfterPrepareFence_def Let_def
  by (intro settled_rules; (rule relay_effect_refl [OF ok])?; (rule moved [OF ok], assumption)?;
      frule stored_claimD(4) [OF _ ok]; frule stored_claimD(3) [OF _ ok];
      auto simp add: moves_defs claim_ok_def no_runtime_def releasable_def)

lemma dispatch_effect:
  assumes ok: "relay_ok s"
  shows "settled s (\<lambda>_. relay_effect s) (MarkPreparedStreamYouTubeRelayBindingClaimPossiblyDispatched c claim clock s)"
  unfolding MarkPreparedStreamYouTubeRelayBindingClaimPossiblyDispatched_def Let_def
  by (intro settled_rules; (rule relay_effect_refl [OF ok])?; (rule moved [OF ok], assumption)?; (frule stored_claimD(4) [OF _ ok])?;
      auto simp add: moves_defs claim_ok_def runtimeMatchesYouTubeRelayBindingClaim_def)

lemma encoder_stop_effect:
  assumes ok: "relay_ok s"
  shows "settled s (\<lambda>_. relay_effect s) (MarkPreparedStreamYouTubeRelayBindingClaimEncoderStopConfirmed c claim clock s)"
  unfolding MarkPreparedStreamYouTubeRelayBindingClaimEncoderStopConfirmed_def Let_def
  by (intro settled_rules; (rule relay_effect_refl [OF ok])?; (rule moved [OF ok], assumption)?; (frule stored_claimD(4) [OF _ ok])?;
      auto simp add: moves_defs claim_ok_def runtimeMatchesYouTubeRelayBindingClaim_def)

lemma abandon_effect:
  assumes ok: "relay_ok s"
  shows "settled s (\<lambda>_. relay_effect s)
     (AbandonPreparedStreamYouTubeRuntimeAndMarkRelayBindingRecoveryRequired c claim clock s)"
  unfolding AbandonPreparedStreamYouTubeRuntimeAndMarkRelayBindingRecoveryRequired_def abandon_def Let_def prod.case
  by (intro settled_rules; (rule relay_effect_refl [OF ok])?; (rule moved [OF ok], assumption)?; (frule stored_claimD(4) [OF _ ok])?;
      auto simp add: moves_defs claim_ok_def)

lemma reconcile_dispatch_effect:
  assumes ok: "relay_ok s"
  shows "settled s (\<lambda>_. relay_effect s)
     (ReconcilePreparedStreamYouTubeRelayBindingClaimAfterDispatchFence c claim clock s)"
  unfolding ReconcilePreparedStreamYouTubeRelayBindingClaimAfterDispatchFence_def abandon_def Let_def prod.case
  by (intro settled_rules; (rule relay_effect_refl [OF ok])?; (rule moved [OF ok], assumption)?; (frule stored_claimD(4) [OF _ ok])?;
      auto simp add: moves_defs claim_ok_def)

lemma relay_recovery_effect:
  assumes ok: "relay_ok s"
  shows "settled s (\<lambda>_. relay_effect s) (MarkStreamYouTubeRelayBindingClaimRecoveryRequired c claim clock s)"
  unfolding MarkStreamYouTubeRelayBindingClaimRecoveryRequired_def required_claim_def Let_def
  by (intro settled_rules; (rule relay_effect_refl [OF ok])?; (rule moved [OF ok], assumption)?; (frule stored_claimD(4) [OF _ ok])?;
      auto simp add: moves_defs claim_ok_def no_runtime_def)

lemma release_effect:
  assumes ok: "relay_ok s"
  shows "settled s (\<lambda>_. relay_effect s) (ReleaseReservedStreamYouTubeRelayBindingClaim c claim s)"
  unfolding ReleaseReservedStreamYouTubeRelayBindingClaim_def Let_def
  by (intro settled_rules; (rule relay_effect_refl [OF ok])?; (rule moved [OF ok], assumption)?; (frule stored_claimD(3) [OF _ ok])?;
      auto simp add: releasable_def no_runtime_def)

lemma resolve_effect:
  assumes ok: "relay_ok s"
  shows "settled s (\<lambda>_. relay_effect s) (ResolveStreamYouTubeRelayBindingRecovery c claim s)"
  unfolding ResolveStreamYouTubeRelayBindingRecovery_def Let_def
  by (intro settled_rules; (rule relay_effect_refl [OF ok])?; (rule moved [OF ok], assumption)?; (frule stored_claimD(3) [OF _ ok])?;
      auto simp add: releasable_def no_runtime_def isYouTubeRelayBindingClaimDispatchFenceState_def)

lemma matches_same:
  "runtimeMatchesYouTubeRelayBindingClaim r claim \<Longrightarrow> sameYouTubeRelayBindingReservation e claim \<Longrightarrow>
   rc_BroadcastID e = rc_BroadcastID claim \<Longrightarrow> runtimeMatchesYouTubeRelayBindingClaim r e"
  by (simp add: runtimeMatchesYouTubeRelayBindingClaim_def sameYouTubeRelayBindingReservation_def)

lemma finalize_writes:
  assumes ok: "relay_ok s" and st: "stored_claim claim s = Inr c" and r: "yr_StreamID r = rc_StreamID claim"
    and c': "claim_moves c c'" "claim_ok (Some r) c'" "rc_State c' = Prepared"
  shows "relay_effect s (put_claim c' (s\<lparr>youtubeRuntimes := mput (youtubeRuntimes s) (yr_StreamID r) r\<rparr>))"
proof (rule claim_update_effect [OF ok stored_claimD(1) [OF st ok]])
  note c = stored_claimD [OF st ok]
  note same = same_reservation [OF c'(1) [unfolded claim_moves_def, THEN conjunct1]]
  let ?t = "put_claim c' (s\<lparr>youtubeRuntimes := mput (youtubeRuntimes s) (yr_StreamID r) r\<rparr>)"
  show "youtubeRelayBindingClaims ?t = mput (youtubeRelayBindingClaims s) (rc_RelayBindingID claim) c'"
    using same c by (simp add: put_claim_def)
  show "claim_ok (mget (youtubeRuntimes ?t) (rc_StreamID c)) c'"
    using c' c r by (simp add: put_claim_def)
  show "keyed yr_StreamID (youtubeRuntimes ?t)" using relay_runtimes [OF ok] by (simp add: put_claim_def keyed_mput)
qed (use c' r stored_claimD [OF st ok] in \<open>auto simp: put_claim_def\<close>)

lemma finalize_effect:
  assumes ok: "relay_ok s"
  shows "settled s (\<lambda>_. relay_effect s) (FinalizeStreamYouTubeRuntimeAndMarkRelayBindingPrepared c claim0 r0 clock s)"
proof -
  let ?claim = "normalizeYouTubeRelayBindingClaim claim0" and ?r = "normalizeRelayStaticRuntime r0"
    and ?now = "nowYouTubeRelayBindingClaim clock"
  let ?r' = "?r\<lparr>yr_CreatedAt := (if isZero (yr_CreatedAt ?r) then ?now else yr_CreatedAt ?r), yr_UpdatedAt := ?now\<rparr>"
  have put: "relay_effect s (put_claim
      (e\<lparr>rc_BroadcastID := rc_BroadcastID ?claim, rc_State := Prepared, rc_DispatchState := NotDispatched, rc_LastError := [],
         rc_UpdatedAt := ?now\<rparr>) (s\<lparr>youtubeRuntimes := mput (youtubeRuntimes s) (yr_StreamID ?r) ?r'\<rparr>))"
    if v: "validateYouTubeRelayBindingClaimFinalize ?claim ?r" and e: "stored_claim ?claim s = Inr e"
      and "rc_State e = Reserved" "rc_PrepareState e = PossiblyPrepared" for e
  proof -
    have m: "runtimeMatchesYouTubeRelayBindingClaim ?r ?claim" using v by (simp add: validateYouTubeRelayBindingClaimFinalize_def)
    then have r: "yr_StreamID ?r' = rc_StreamID ?claim"
      by (simp add: runtimeMatchesYouTubeRelayBindingClaim_def normalizeRelayStaticRuntime_def)
    have "trimSpace (rc_StreamID ?claim) = rc_StreamID ?claim" by (simp add: normalizeYouTubeRelayBindingClaim_def)
    with finalize_writes [OF ok e r] that m stored_claimD(3,4) [OF e ok] stored_claim_same [OF e] show ?thesis
      by (auto simp: moves_defs claim_ok_def runtimeMatchesYouTubeRelayBindingClaim_def)
  qed
  show ?thesis
    unfolding FinalizeStreamYouTubeRuntimeAndMarkRelayBindingPrepared_def Let_def
    by (intro settled_rules; (rule relay_effect_refl [OF ok] | rule put; simp))
qed

lemma complete_effect:
  assumes ok: "relay_ok s"
  shows "settled s (\<lambda>_. relay_effect s) (CompleteStreamYouTubeRuntimeAndReleaseRelayBindingClaim c claim0 s)"
  unfolding CompleteStreamYouTubeRuntimeAndReleaseRelayBindingClaim_def Let_def
proof (intro settled_rules)
  let ?claim = "normalizeYouTubeRelayBindingClaim claim0"
  let ?t = "drop_claim ?claim (s\<lparr>youtubeRuntimes := mdel (youtubeRuntimes s) (rc_StreamID ?claim)\<rparr>)"
  fix e st
  assume e: "stored_claim ?claim s = Inr e"
    and state: "\<not> (rc_State e \<noteq> Prepared \<or> rc_PrepareState e \<noteq> PossiblyPrepared \<or>
      rc_BroadcastID e \<noteq> rc_BroadcastID ?claim \<or> rc_DispatchState e \<noteq> PossiblyDispatched)"
    and "mget (streams s) (rc_StreamID ?claim) = Some st" "\<not> \<not> equalFold (trimSpace (st_Status st)) ''completed''"
  note c = stored_claimD [OF e ok]
  show "relay_effect s ?t"
  proof (rule claim_drop_effect [OF ok c(1)])
    show "releasable s e" using state c(3) \<open>mget (streams s) _ = _\<close> \<open>\<not> \<not> equalFold _ _\<close> by (simp add: releasable_def)
  qed (use c relay_runtimes [OF ok] in \<open>simp_all add: drop_claim_def keyed_mdel\<close>)
qed

text \<open>The claims stay as they are; a runtime is written only where no claim depends on it.\<close>

lemma runtimes_effect:
  assumes ok: "relay_ok s" and claims: "youtubeRelayBindingClaims t = youtubeRelayBindingClaims s"
    and key: "keyed yr_StreamID (youtubeRuntimes t)"
    and streams: "\<And>i. mget (streams s) i \<noteq> None \<Longrightarrow> mget (streams t) i \<noteq> None"
    and kept: "\<And>k c. mget (youtubeRelayBindingClaims s) k = Some c \<Longrightarrow>
      claim_ok (mget (youtubeRuntimes s) (rc_StreamID c)) c \<Longrightarrow> claim_ok (mget (youtubeRuntimes t) (rc_StreamID c)) c"
    and static: "\<And>i r. mget (youtubeRuntimes t) i = Some r \<Longrightarrow> static_runtime r \<Longrightarrow>
      \<exists>r'. mget (youtubeRuntimes s) i = Some r' \<and> static_runtime r'"
  shows "relay_effect s t"
proof -
  have "\<exists>k c. mget (youtubeRelayBindingClaims s) k = Some c \<and> rc_StreamID c = i \<and> rc_State c = Prepared"
    if "mget (youtubeRuntimes t) i = Some r" "static_runtime r" for i r
    using static [OF that] relay_static [OF ok] by blast
  moreover have "claim_ok (mget (youtubeRuntimes t) (rc_StreamID c)) c \<and> mget (streams t) (rc_StreamID c) \<noteq> None"
    if c: "mget (youtubeRelayBindingClaims s) k = Some c" for k c
    using kept [OF c relay_claim [OF ok c]] streams [OF relay_stream [OF ok c]] by blast
  ultimately have "relay_ok t"
    unfolding relay_ok_def claims using relay_keyed [OF ok] relay_distinct [OF ok] key by blast
  then show ?thesis by (simp add: relay_effect_def claims split: option.split)
qed

lemma no_claim_on:
  assumes "relay_ok s" and "\<not> list_ex (\<lambda>(_, claim). rc_StreamID claim = i) (youtubeRelayBindingClaims s)"
    and "mget (youtubeRelayBindingClaims s) k = Some c"
  shows "rc_StreamID c \<noteq> i"
  using assms(2) mget_in [OF assms(3)] by (auto simp: list_ex_iff)

lemma save_runtime_effect:
  assumes ok: "relay_ok s"
  shows "settled s (\<lambda>_. relay_effect s) (SaveStreamYouTubeRuntime c r now s)"
  unfolding SaveStreamYouTubeRuntime_def Let_def
  by (intro settled_rules runtimes_effect [OF ok])
    (use relay_runtimes [OF ok] in \<open>auto simp: keyed_mput dest: no_claim_on [OF ok] split: if_splits\<close>)

lemma record_failure_effect:
  assumes ok: "relay_ok s"
  shows "settled s (\<lambda>_. relay_effect s) (RecordStreamYouTubeRuntimeCompleteFailure c i e at now s)"
  unfolding RecordStreamYouTubeRuntimeCompleteFailure_def Let_def
proof (intro settled_rules runtimes_effect [OF ok])
  fix r k x
  assume r: "mget (youtubeRuntimes s) i = Some r"
  then have "yr_StreamID r = i" using relay_runtimes [OF ok] by (simp add: keyed_mget)
  let ?r = "r\<lparr>yr_CompleteRetryCount := yr_CompleteRetryCount r + 1, yr_CompleteNextRetryAt := at,
    yr_CompleteLastError := truncateString (trimSpace e) 255, yr_UpdatedAt := now\<rparr>"
  let ?t = "s\<lparr>youtubeRuntimes := mput (youtubeRuntimes s) i ?r\<rparr>"
  show "keyed yr_StreamID (youtubeRuntimes ?t)"
    using relay_runtimes [OF ok] \<open>yr_StreamID r = i\<close> by (simp add: keyed_mput)
  show "claim_ok (mget (youtubeRuntimes ?t) (rc_StreamID x)) x" if "claim_ok (mget (youtubeRuntimes s) (rc_StreamID x)) x"
    using that r by (cases "rc_StreamID x = i") (simp_all add: claim_ok_def runtimeMatchesYouTubeRelayBindingClaim_def)
  fix j r'
  assume "mget (youtubeRuntimes ?t) j = Some r'" and "static_runtime r'"
  with r show "\<exists>r''. mget (youtubeRuntimes s) j = Some r'' \<and> static_runtime r''" by (cases "j = i") auto
qed simp_all

lemma runtime_dropped_effect:
  assumes ok: "relay_ok s" and t: "youtubeRelayBindingClaims t = youtubeRelayBindingClaims s"
      "youtubeRuntimes t = mdel (youtubeRuntimes s) i" "\<And>i. mget (streams s) i \<noteq> None \<Longrightarrow> mget (streams t) i \<noteq> None"
    and free: "\<And>k c. mget (youtubeRelayBindingClaims s) k = Some c \<Longrightarrow> rc_StreamID c \<noteq> i"
  shows "relay_effect s t"
proof (rule runtimes_effect [OF ok t(1)])
  show "keyed yr_StreamID (youtubeRuntimes t)" using relay_runtimes [OF ok] by (simp add: t keyed_mdel)
  fix k c assume "mget (youtubeRelayBindingClaims s) k = Some c" and "claim_ok (mget (youtubeRuntimes s) (rc_StreamID c)) c"
  then show "claim_ok (mget (youtubeRuntimes t) (rc_StreamID c)) c" using free [of k c] by (simp add: t(2))
qed (use t in \<open>auto split: if_splits\<close>)

lemma delete_runtime_effect:
  assumes ok: "relay_ok s"
  shows "settled s (\<lambda>_. relay_effect s) (DeleteStreamYouTubeRuntime c i s)"
  unfolding DeleteStreamYouTubeRuntime_def
proof (intro settled_rules runtime_dropped_effect [OF ok])
  fix k c
  assume free: "\<not> list_ex (\<lambda>(_, claim). rc_StreamID claim = trimSpace i) (youtubeRelayBindingClaims s)"
    and k: "mget (youtubeRelayBindingClaims s) k = Some c"
  show "rc_StreamID c \<noteq> i" using no_claim_on [OF ok free k] relay_claim [OF ok k] by (auto simp: claim_ok_def)
qed simp_all

lemma reserve_writes:
  assumes ok: "relay_ok s" and new: "\<not> memoryYouTubeRelayBindingClaimConflict (youtubeRelayBindingClaims s) c"
    and c: "claim_ok (mget (youtubeRuntimes s) (rc_StreamID c)) c" "mget (streams s) (rc_StreamID c) \<noteq> None"
  shows "relay_effect s (put_claim c s)"
proof -
  have other: "rc_RelayBindingID c \<noteq> k \<and> rc_StreamID x \<noteq> rc_StreamID c \<and>
      (rc_OAuthAccountID x, rc_ReusableLiveStreamID x) \<noteq> (rc_OAuthAccountID c, rc_ReusableLiveStreamID c)"
    if x: "mget (youtubeRelayBindingClaims s) k = Some x" for k x
    using new mget_in [OF x] keyed_mget [OF relay_keyed [OF ok] x]
    by (auto simp: memoryYouTubeRelayBindingClaimConflict_def list_ex_iff)
  let ?m = "mput (youtubeRelayBindingClaims s) (rc_RelayBindingID c) c"
  have "claims_distinct ?m" unfolding claims_distinct_def gm.get_put
  proof (intro allI impI)
    fix k k' x x'
    assume "(if k = rc_RelayBindingID c then Some c else mget (youtubeRelayBindingClaims s) k) = Some x"
      and "(if k' = rc_RelayBindingID c then Some c else mget (youtubeRelayBindingClaims s) k') = Some x'"
      and "rc_StreamID x = rc_StreamID x' \<or>
        rc_OAuthAccountID x = rc_OAuthAccountID x' \<and> rc_ReusableLiveStreamID x = rc_ReusableLiveStreamID x'"
    with other [of k x] other [of k' x'] relay_distinct [OF ok] show "k = k'"
      unfolding claims_distinct_def by (cases "k = rc_RelayBindingID c"; cases "k' = rc_RelayBindingID c") auto
  qed
  moreover have "\<exists>k y. mget ?m k = Some y \<and> rc_StreamID y = i \<and> rc_State y = Prepared"
    if r: "mget (youtubeRuntimes s) i = Some r" "static_runtime r" for i r
  proof -
    from relay_static [OF ok r] obtain k y where
      y: "mget (youtubeRelayBindingClaims s) k = Some y" "rc_StreamID y = i" "rc_State y = Prepared" by blast
    with other [OF y(1)] show ?thesis by (intro exI [of _ k] exI [of _ y]) auto
  qed
  moreover have "claim_ok (mget (youtubeRuntimes s) (rc_StreamID x)) x \<and> mget (streams s) (rc_StreamID x) \<noteq> None"
    if "mget ?m k = Some x" for k x
    using that c relay_claim [OF ok, of k x] relay_stream [OF ok, of k x] by (auto split: if_splits)
  ultimately have "relay_ok (put_claim c s)"
    unfolding relay_ok_def put_claim_def using relay_keyed [OF ok] relay_runtimes [OF ok] by (simp add: keyed_mput)
  then show ?thesis
    using other by (auto simp: relay_effect_def put_claim_def split: option.split)
qed

lemma reserve_effect:
  assumes ok: "relay_ok (ps_streams p)"
  shows "settled p (\<lambda>_ q. relay_effect (ps_streams p) (ps_streams q)) (ReserveStreamYouTubeRelayBindingClaim c claim uuid clock p)"
  unfolding ReserveStreamYouTubeRelayBindingClaim_def Let_def
  apply (intro settled_rules)
  apply simp
  apply (rule reserve_writes [OF ok])
  by (simp_all add: reserved_claim_def claim_ok_def memoryYouTubeRelayBindingClaimConflict_def normalizeYouTubeRelayBindingClaim_def)

lemma relay_delete_stream_effect:
  assumes ok: "relay_ok (ps_streams p)"
  shows "settled p (\<lambda>_ q. relay_effect (ps_streams p) (ps_streams q)) (DeleteStream c i now p)"
  unfolding DeleteStream_def Let_def
  by (intro settled_rules runtime_dropped_effect [OF ok] no_claim_on [OF ok]; assumption?)
    (simp_all add: dropStreamRuntime_def put_stream_def attributeArtifacts_def Let_def)

subsection \<open>The relay claims as a state machine\<close>

text \<open>
  The operations on the stream store that touch claims or runtimes, then those that need the whole
  panel. The last rule is every other operation of the panel: no other function of the memory store
  writes the two maps or removes a stream.
\<close>

inductive relay_store_step :: "stream_store \<Rightarrow> stream_store \<Rightarrow> bool" where
  mark_prepared: "relay_store_step s (snd (MarkReservedStreamYouTubeRelayBindingClaimPossiblyPrepared c claim clock s))"
| reconcile_prepare: "relay_store_step s (snd (ReconcileReservedStreamYouTubeRelayBindingClaimAfterPrepareFence c claim clock s))"
| finalize: "relay_store_step s (snd (FinalizeStreamYouTubeRuntimeAndMarkRelayBindingPrepared c claim r clock s))"
| dispatch: "relay_store_step s (snd (MarkPreparedStreamYouTubeRelayBindingClaimPossiblyDispatched c claim clock s))"
| encoder_stop: "relay_store_step s (snd (MarkPreparedStreamYouTubeRelayBindingClaimEncoderStopConfirmed c claim clock s))"
| abandon: "relay_store_step s (snd (AbandonPreparedStreamYouTubeRuntimeAndMarkRelayBindingRecoveryRequired c claim clock s))"
| reconcile_dispatch: "relay_store_step s (snd (ReconcilePreparedStreamYouTubeRelayBindingClaimAfterDispatchFence c claim clock s))"
| recovery: "relay_store_step s (snd (MarkStreamYouTubeRelayBindingClaimRecoveryRequired c claim clock s))"
| release_reserved: "relay_store_step s (snd (ReleaseReservedStreamYouTubeRelayBindingClaim c claim s))"
| complete: "relay_store_step s (snd (CompleteStreamYouTubeRuntimeAndReleaseRelayBindingClaim c claim s))"
| resolve: "relay_store_step s (snd (ResolveStreamYouTubeRelayBindingRecovery c claim s))"
| save_runtime: "relay_store_step s (snd (SaveStreamYouTubeRuntime c r now s))"
| record_failure: "relay_store_step s (snd (RecordStreamYouTubeRuntimeCompleteFailure c i e at now s))"
| delete_runtime: "relay_store_step s (snd (DeleteStreamYouTubeRuntime c i s))"

definition untouched :: "stream_store \<Rightarrow> stream_store \<Rightarrow> bool" where
  "untouched s t \<longleftrightarrow> youtubeRelayBindingClaims t = youtubeRelayBindingClaims s \<and> youtubeRuntimes t = youtubeRuntimes s \<and>
     (\<forall>i. mget (streams s) i \<noteq> None \<longrightarrow> mget (streams t) i \<noteq> None)"

inductive relay_step :: "panel \<Rightarrow> panel \<Rightarrow> bool" where
  reserve: "relay_step p (snd (ReserveStreamYouTubeRelayBindingClaim c claim uuid clock p))"
| delete: "relay_step p (snd (DeleteStream c i now p))"
| store: "relay_store_step (ps_streams p) s \<Longrightarrow> relay_step p (p\<lparr>ps_streams := s\<rparr>)"
| elsewhere: "untouched (ps_streams p) (ps_streams q) \<Longrightarrow> relay_step p q"

inductive_cases relay_stepE: "relay_step p q"

lemmas relay_effects = mark_prepared_effect reconcile_prepare_effect finalize_effect dispatch_effect encoder_stop_effect
  abandon_effect reconcile_dispatch_effect relay_recovery_effect release_effect complete_effect resolve_effect
  save_runtime_effect record_failure_effect delete_runtime_effect

lemma settled_effect: "settled s (\<lambda>_. relay_effect s) out \<Longrightarrow> relay_ok s \<Longrightarrow> relay_effect s (snd out)"
  by (auto elim!: settled_cases simp: relay_effect_refl)

lemma relay_store_step_effect:
  assumes "relay_store_step s t" and ok: "relay_ok s"
  shows "relay_effect s t"
  using assms(1) by cases (simp_all add: settled_effect [OF _ ok] relay_effects [OF ok])

lemma relay_step_effect:
  assumes "relay_step p q" and ok: "relay_ok (ps_streams p)"
  shows "relay_effect (ps_streams p) (ps_streams q)"
  using assms(1)
proof cases
  case (reserve c claim uuid clock)
  with reserve_effect [OF ok, of c claim uuid clock] relay_effect_refl [OF ok] show ?thesis by (auto elim!: settled_cases)
next
  case (delete c i now)
  with relay_delete_stream_effect [OF ok, of c i now] relay_effect_refl [OF ok] show ?thesis by (auto elim!: settled_cases)
next
  case (store s)
  with relay_store_step_effect [OF _ ok] show ?thesis by simp
next
  case elsewhere
  with relay_runtimes [OF ok] show ?thesis by (intro runtimes_effect [OF ok]) (auto simp: untouched_def)
qed

definition relay_init :: "panel \<Rightarrow> bool" where
  "relay_init p \<longleftrightarrow> ps_streams p = NewMemoryStreamStore"

interpretation relay: inductive_invariant relay_init relay_step "\<lambda>p. relay_ok (ps_streams p)"
proof unfold_locales
  fix p q
  show "relay_ok (ps_streams p)" if "relay_init p" using that relay_ok_init by (simp add: relay_init_def)
  assume "relay_ok (ps_streams p)" and "relay_step p q"
  then show "relay_ok (ps_streams q)" using relay_step_effect by (simp add: relay_effect_def)
qed

end
