(* ===== verification/Relay_Properties.thy ===== *)
theory Relay_Properties
  imports Relay_Invariant
begin

text \<open>
  What the relay claims promise: a binding, a stream and a reusable live stream have at most one
  holder, a claim is never dropped while an encoder may be running behind it, a stale reservation
  can do nothing, a lost answer can be asked for again, and a claim can be taken to its end.
\<close>

subsection \<open>Retries\<close>

lemma stored_after_put:
  "stored_claim claim s = Inr c \<Longrightarrow> sameYouTubeRelayBindingReservation c c' \<Longrightarrow> stored_claim claim (put_claim c' s) = Inr c'"
  by (auto simp: stored_claim_def put_claim_def sameYouTubeRelayBindingReservation_def split: option.splits if_splits)

lemma stored_runtimes: "stored_claim claim (s\<lparr>youtubeRuntimes := m\<rparr>) = stored_claim claim s"
  by (simp add: stored_claim_def)

lemma put_claim_fields [simp]:
  "streams (put_claim c s) = streams s" "youtubeRuntimes (put_claim c s) = youtubeRuntimes s"
  by (simp_all add: put_claim_def)

lemma stored_put_unrun:
  "stored_claim claim s = Inr c \<Longrightarrow> sameYouTubeRelayBindingReservation c c' \<Longrightarrow>
   stored_claim claim (put_claim c' (s\<lparr>youtubeRuntimes := m\<rparr>)) = Inr c'"
  by (rule stored_after_put) (simp_all add: stored_runtimes)

lemma same_update:
  "sameYouTubeRelayBindingReservation c (c\<lparr>rc_PrepareState := a, rc_UpdatedAt := t\<rparr>)"
  "sameYouTubeRelayBindingReservation c (c\<lparr>rc_DispatchState := a, rc_UpdatedAt := t\<rparr>)"
  "sameYouTubeRelayBindingReservation c (c\<lparr>rc_EncoderStopConfirmedAt := u, rc_UpdatedAt := t\<rparr>)"
  "sameYouTubeRelayBindingReservation c (c\<lparr>rc_State := a, rc_LastError := b, rc_UpdatedAt := t\<rparr>)"
  "sameYouTubeRelayBindingReservation c (c\<lparr>rc_BroadcastID := d, rc_State := a, rc_DispatchState := e, rc_LastError := b, rc_UpdatedAt := t\<rparr>)"
  by (simp_all add: sameYouTubeRelayBindingReservation_def)

lemma matching_runtime_keeps:
  "matching_runtime claim c s = Some r \<Longrightarrow> sameYouTubeRelayBindingReservation c c' \<Longrightarrow> rc_BroadcastID c' = rc_BroadcastID c \<Longrightarrow>
   matching_runtime claim c' (put_claim c' s) = Some r"
  by (auto simp: matching_runtime_def runtimeMatchesYouTubeRelayBindingClaim_def sameYouTubeRelayBindingReservation_def
    split: option.splits if_splits)

lemmas again_simps = stored_after_put stored_put_unrun same_update matching_runtime_keeps no_runtime_def

lemma mark_prepared_again:
  "ensures (\<lambda>v t. MarkReservedStreamYouTubeRelayBindingClaimPossiblyPrepared None claim clock' t = (Inr v, t))
     (MarkReservedStreamYouTubeRelayBindingClaimPossiblyPrepared None claim clock s)"
  by (subst (2) MarkReservedStreamYouTubeRelayBindingClaimPossiblyPrepared_def, unfold Let_def with_ctx_simps, intro ensures_rules) (auto simp: MarkReservedStreamYouTubeRelayBindingClaimPossiblyPrepared_def again_simps Let_def)

lemma dispatch_again:
  "ensures (\<lambda>v t. MarkPreparedStreamYouTubeRelayBindingClaimPossiblyDispatched None claim clock' t = (Inr v, t))
     (MarkPreparedStreamYouTubeRelayBindingClaimPossiblyDispatched None claim clock s)"
  by (subst (2) MarkPreparedStreamYouTubeRelayBindingClaimPossiblyDispatched_def, unfold Let_def with_ctx_simps, intro ensures_rules) (auto simp: MarkPreparedStreamYouTubeRelayBindingClaimPossiblyDispatched_def again_simps Let_def)

lemma encoder_stop_again:
  "nowYouTubeRelayBindingClaim clock \<noteq> 0 \<Longrightarrow> ensures (\<lambda>v t. MarkPreparedStreamYouTubeRelayBindingClaimEncoderStopConfirmed None claim clock' t = (Inr v, t))
     (MarkPreparedStreamYouTubeRelayBindingClaimEncoderStopConfirmed None claim clock s)"
  by (subst (2) MarkPreparedStreamYouTubeRelayBindingClaimEncoderStopConfirmed_def, unfold Let_def with_ctx_simps, intro ensures_rules) (auto simp: MarkPreparedStreamYouTubeRelayBindingClaimEncoderStopConfirmed_def again_simps Let_def)

lemma abandon_again:
  "ensures (\<lambda>v t. AbandonPreparedStreamYouTubeRuntimeAndMarkRelayBindingRecoveryRequired None claim clock' t = (Inr v, t))
     (AbandonPreparedStreamYouTubeRuntimeAndMarkRelayBindingRecoveryRequired None claim clock s)"
  by (subst (2) AbandonPreparedStreamYouTubeRuntimeAndMarkRelayBindingRecoveryRequired_def, unfold Let_def with_ctx_simps abandon_def prod.case, intro ensures_rules) (auto simp: AbandonPreparedStreamYouTubeRuntimeAndMarkRelayBindingRecoveryRequired_def again_simps Let_def)

lemma reconcile_dispatch_again:
  "ensures (\<lambda>v t. ReconcilePreparedStreamYouTubeRelayBindingClaimAfterDispatchFence None claim clock' t = (Inr v, t))
     (ReconcilePreparedStreamYouTubeRelayBindingClaimAfterDispatchFence None claim clock s)"
  by (subst (2) ReconcilePreparedStreamYouTubeRelayBindingClaimAfterDispatchFence_def, unfold Let_def with_ctx_simps abandon_def prod.case, intro ensures_rules) (auto simp: ReconcilePreparedStreamYouTubeRelayBindingClaimAfterDispatchFence_def again_simps Let_def)

lemma finalize_again:
  "ensures (\<lambda>v t. FinalizeStreamYouTubeRuntimeAndMarkRelayBindingPrepared None claim r clock' t = (Inr v, t))
     (FinalizeStreamYouTubeRuntimeAndMarkRelayBindingPrepared None claim r clock s)"
  by (subst (2) FinalizeStreamYouTubeRuntimeAndMarkRelayBindingPrepared_def, unfold Let_def with_ctx_simps, intro ensures_rules) (auto simp: FinalizeStreamYouTubeRuntimeAndMarkRelayBindingPrepared_def again_simps sameRelayStaticRuntime_def Let_def)

subsection \<open>From reservation to release\<close>

lemma uuid_chars_all: "uuid_chars digit i s \<Longrightarrow> list_all (\<lambda>c. digit c \<or> c = CHR ''-'') s"
  by (induction s arbitrary: i) (auto split: if_splits)

lemma canonical_trim: "isCanonicalUUID v \<Longrightarrow> trimSpace v = v"
  unfolding isCanonicalUUID_def
  by (elim conjE, drule uuid_chars_all, intro trimSpace_plain, erule list.pred_mono_strong)
    (auto intro: plain_ranges simp: less_eq_char_def plain_def of_char_Char)

lemma external_trim: "isValidYouTubeRelayBindingExternalID v n \<Longrightarrow> trimSpace v = v"
  unfolding isValidYouTubeRelayBindingExternalID_def
  by (elim conjE, intro trimSpace_plain, erule list.pred_mono_strong) (auto intro: plain_ranges)

lemma ReserveD:
  assumes "ReserveStreamYouTubeRelayBindingClaim None request uuid clock p = (Inr claim, q)"
  obtains st rev where "claim = reserved_claim (normalizeYouTubeRelayBindingClaim request) rev uuid (nowYouTubeRelayBindingClaim clock)"
    and "validYouTubeRelayBindingClaimIdentity claim" and "ps_streams q = put_claim claim (ps_streams p)"
    and "mget (streams (ps_streams p)) (rc_StreamID claim) = Some st" and "equalFold (trimSpace (st_Status st)) ''starting''"
    and "\<not> memoryYouTubeRelayBindingClaimConflict (youtubeRelayBindingClaims (ps_streams p)) claim"
proof -
  have "ensures (\<lambda>claim q. \<exists>st rev. claim = reserved_claim (normalizeYouTubeRelayBindingClaim request) rev uuid (nowYouTubeRelayBindingClaim clock) \<and>
      validYouTubeRelayBindingClaimIdentity claim \<and> ps_streams q = put_claim claim (ps_streams p) \<and>
      mget (streams (ps_streams p)) (rc_StreamID claim) = Some st \<and> equalFold (trimSpace (st_Status st)) ''starting'' \<and>
      \<not> memoryYouTubeRelayBindingClaimConflict (youtubeRelayBindingClaims (ps_streams p)) claim)
    (ReserveStreamYouTubeRelayBindingClaim None request uuid clock p)"
    unfolding ReserveStreamYouTubeRelayBindingClaim_def Let_def
    by (intro ensures_rules exI conjI; (rule refl)?)
      (auto simp: reserved_claim_def memoryYouTubeRelayBindingClaimConflict_def validYouTubeRelayBindingClaimIdentity_def
        validateYouTubeRelayBindingClaimReservation_def)
  from ensuresD [OF this assms] that show thesis by blast
qed

text \<open>A claim as the panel carries it through its calls: reserved, and valid as a fence.\<close>

definition carried :: "relay_claim \<Rightarrow> bool" where
  "carried claim \<longleftrightarrow> validateYouTubeRelayBindingClaimReservationFence claim \<and> rc_LastError claim = [] \<and>
     rc_State claim = Reserved \<and> rc_PrepareState claim = NotAttempted \<and> rc_DispatchState claim = NotDispatched"

lemma reserved_facts:
  assumes res: "ReserveStreamYouTubeRelayBindingClaim None request uuid clock p = (Inr claim, q)" and ok: "relay_ok (ps_streams p)"
    and "isCanonicalUUID uuid" and "nowYouTubeRelayBindingClaim clock \<noteq> 0"
  shows "\<exists>st. carried claim \<and> rc_BroadcastID claim = [] \<and> ps_streams q = put_claim claim (ps_streams p) \<and>
    mget (streams (ps_streams p)) (rc_StreamID claim) = Some st \<and> equalFold (trimSpace (st_Status st)) ''starting'' \<and>
    mget (youtubeRelayBindingClaims (ps_streams p)) (rc_RelayBindingID claim) = None"
proof -
  obtain st rev where claim: "claim = reserved_claim (normalizeYouTubeRelayBindingClaim request) rev uuid (nowYouTubeRelayBindingClaim clock)"
    and id: "validYouTubeRelayBindingClaimIdentity claim" and q: "ps_streams q = put_claim claim (ps_streams p)"
    and st: "mget (streams (ps_streams p)) (rc_StreamID claim) = Some st" "equalFold (trimSpace (st_Status st)) ''starting''"
    and new: "\<not> memoryYouTubeRelayBindingClaimConflict (youtubeRelayBindingClaims (ps_streams p)) claim"
    using res by (rule ReserveD)
  have "mget (youtubeRelayBindingClaims (ps_streams p)) (rc_RelayBindingID claim) \<noteq> Some x" for x
    using new keyed_mget [OF relay_keyed [OF ok], of "rc_RelayBindingID claim" x] mget_in [of _ "rc_RelayBindingID claim" x]
    by (auto simp: memoryYouTubeRelayBindingClaimConflict_def list_ex_iff)
  moreover have "carried claim" "rc_BroadcastID claim = []"
    using id assms(3,4) by (simp_all add: claim reserved_claim_def carried_def validateYouTubeRelayBindingClaimReservationFence_def)
  ultimately show ?thesis using q st by (intro exI [of _ st] conjI) (auto simp: not_Some_eq [symmetric])
qed

lemma carried_broadcast [simp]: "carried (claim\<lparr>rc_BroadcastID := b\<rparr>) = carried claim"
  by (simp add: carried_def validateYouTubeRelayBindingClaimReservationFence_def validYouTubeRelayBindingClaimIdentity_def)

lemma stored_broadcast [simp]: "stored_claim (claim\<lparr>rc_BroadcastID := b\<rparr>) s = stored_claim claim s"
  by (auto simp: stored_claim_def sameYouTubeRelayBindingReservation_def split: option.split)

lemma carried_normal:
  assumes "carried claim" and "trimSpace (rc_BroadcastID claim) = rc_BroadcastID claim"
  shows "normalizeYouTubeRelayBindingClaim claim = claim"
proof -
  have "trimSpace Reserved = Reserved" "trimSpace NotAttempted = NotAttempted" "trimSpace NotDispatched = NotDispatched"
    by (simp_all add: trimSpace_plain plain_def of_char_Char)
  with assms show ?thesis
    by (auto simp: normalizeYouTubeRelayBindingClaim_def carried_def validateYouTubeRelayBindingClaimReservationFence_def
        validYouTubeRelayBindingClaimIdentity_def canonical_trim external_trim intro!: youtube_relay_binding_claim.equality)
qed

lemma reserved_prepared:
  assumes "carried claim" and "rc_BroadcastID claim = []" and "stored_claim claim s = Inr claim" and "no_runtime (rc_StreamID claim) s"
    and "mget (streams s) (rc_StreamID claim) = Some st" and "equalFold (trimSpace (st_Status st)) ''starting''"
  shows "MarkReservedStreamYouTubeRelayBindingClaimPossiblyPrepared None claim t s =
    (let c = claim\<lparr>rc_PrepareState := PossiblyPrepared, rc_UpdatedAt := nowYouTubeRelayBindingClaim t\<rparr> in (Inr c, put_claim c s))"
proof -
  have n: "normalizeYouTubeRelayBindingClaim claim = claim" using carried_normal assms(1,2) by simp
  show ?thesis using assms unfolding MarkReservedStreamYouTubeRelayBindingClaimPossiblyPrepared_def n
    by (simp add: Let_def carried_def validateYouTubeRelayBindingClaimPrepareFence_def)
qed

definition prepared_runtime :: "time \<Rightarrow> stream_youtube_runtime \<Rightarrow> stream_youtube_runtime" where
  "prepared_runtime now r = (let r = normalizeRelayStaticRuntime r in
     r\<lparr>yr_CreatedAt := (if isZero (yr_CreatedAt r) then now else yr_CreatedAt r), yr_UpdatedAt := now\<rparr>)"

lemma prepared_runtime_matches [simp]:
  "runtimeMatchesYouTubeRelayBindingClaim (prepared_runtime now r) c \<longleftrightarrow> runtimeMatchesYouTubeRelayBindingClaim r c"
  "runtimeMatchesYouTubeRelayBindingClaim (normalizeRelayStaticRuntime r) c \<longleftrightarrow> runtimeMatchesYouTubeRelayBindingClaim r c"
  by (simp_all add: prepared_runtime_def Let_def normalizeRelayStaticRuntime_def runtimeMatchesYouTubeRelayBindingClaim_def)

lemma prepared_runtime_fields:
  "yr_StreamID (prepared_runtime now r) = trimSpace (yr_StreamID r)"
  "yr_CompleteRetryCount (prepared_runtime now r) = yr_CompleteRetryCount r"
  "yr_CompleteNextRetryAt (prepared_runtime now r) = yr_CompleteNextRetryAt r"
  "yr_CompleteLastError (prepared_runtime now r) = yr_CompleteLastError r"
  by (simp_all add: prepared_runtime_def Let_def normalizeRelayStaticRuntime_def)

lemma prepared_finalized:
  fixes claim b defines "claim' \<equiv> claim\<lparr>rc_BroadcastID := b\<rparr>"
  assumes c: "carried claim" and b: "isValidYouTubeRelayBindingExternalID b youtubeRelayBindingClaimBroadcastIDMax"
    and e: "stored_claim claim s = Inr e" "rc_State e = Reserved" "rc_PrepareState e = PossiblyPrepared" "rc_DispatchState e = NotDispatched"
    and none: "no_runtime (rc_StreamID claim) s"
    and st: "mget (streams s) (rc_StreamID claim) = Some st" "equalFold (trimSpace (st_Status st)) ''starting''"
    and r: "runtimeMatchesYouTubeRelayBindingClaim r claim'" "clean_completion r"
  shows "FinalizeStreamYouTubeRuntimeAndMarkRelayBindingPrepared None claim' r t s =
    (Inr (), put_claim (e\<lparr>rc_BroadcastID := b, rc_State := Prepared, rc_DispatchState := NotDispatched, rc_LastError := [],
        rc_UpdatedAt := nowYouTubeRelayBindingClaim t\<rparr>)
      (s\<lparr>youtubeRuntimes := mput (youtubeRuntimes s) (rc_StreamID claim) (prepared_runtime (nowYouTubeRelayBindingClaim t) r)\<rparr>))"
proof -
  have n: "normalizeYouTubeRelayBindingClaim claim' = claim'"
    using c external_trim [OF b] by (simp add: claim'_def carried_normal)
  have "stored_claim claim' s = Inr e" using e(1) by (simp add: claim'_def)
  moreover have "validateYouTubeRelayBindingClaimFinalize claim' (normalizeRelayStaticRuntime r)"
    using c b r(1) by (simp add: claim'_def validateYouTubeRelayBindingClaimFinalize_def validBroadcastID_def carried_def
      validateYouTubeRelayBindingClaimReservationFence_def validYouTubeRelayBindingClaimIdentity_def)
  moreover have "yr_StreamID (normalizeRelayStaticRuntime r) = rc_StreamID claim"
    using r(1) by (simp add: claim'_def normalizeRelayStaticRuntime_def runtimeMatchesYouTubeRelayBindingClaim_def)
  ultimately show ?thesis
    using e none st r unfolding FinalizeStreamYouTubeRuntimeAndMarkRelayBindingPrepared_def n
    by (simp add: Let_def claim'_def no_runtime_def prepared_runtime_def normalizeRelayStaticRuntime_def)
qed

lemma prepared_dispatched:
  fixes claim b defines "claim' \<equiv> claim\<lparr>rc_BroadcastID := b\<rparr>"
  assumes c: "carried claim" and b: "isValidYouTubeRelayBindingExternalID b youtubeRelayBindingClaimBroadcastIDMax"
    and e: "stored_claim claim s = Inr e" "rc_State e = Prepared" "rc_PrepareState e = PossiblyPrepared" "rc_DispatchState e = NotDispatched"
      "rc_BroadcastID e = b"
    and st: "mget (streams s) (rc_StreamID claim) = Some st" "equalFold (trimSpace (st_Status st)) ''starting''"
    and r: "matching_runtime claim e s = Some r" "clean_completion r"
  shows "MarkPreparedStreamYouTubeRelayBindingClaimPossiblyDispatched None claim' t s =
    (let c = e\<lparr>rc_DispatchState := PossiblyDispatched, rc_UpdatedAt := nowYouTubeRelayBindingClaim t\<rparr> in (Inr c, put_claim c s))"
proof -
  have n: "normalizeYouTubeRelayBindingClaim claim' = claim'"
    using c external_trim [OF b] by (simp add: claim'_def carried_normal)
  have "validateYouTubeRelayBindingClaimPreparedFence claim'"
    using c b carried_broadcast [of b claim] by (simp add: claim'_def validateYouTubeRelayBindingClaimPreparedFence_def validBroadcastID_def carried_def)
  moreover have "matching_runtime claim' e s = Some r" using r(1) by (simp add: claim'_def matching_runtime_def)
  ultimately show ?thesis
    using e st r unfolding MarkPreparedStreamYouTubeRelayBindingClaimPossiblyDispatched_def n by (simp add: Let_def claim'_def)
qed

lemma dispatched_completed:
  fixes claim b defines "claim' \<equiv> claim\<lparr>rc_BroadcastID := b\<rparr>"
  assumes c: "carried claim" and b: "isValidYouTubeRelayBindingExternalID b youtubeRelayBindingClaimBroadcastIDMax"
    and e: "stored_claim claim s = Inr e" "rc_State e = Prepared" "rc_PrepareState e = PossiblyPrepared" "rc_DispatchState e = PossiblyDispatched"
      "rc_BroadcastID e = b"
    and st: "mget (streams s) (rc_StreamID claim) = Some st" "equalFold (trimSpace (st_Status st)) ''completed''"
    and r: "matching_runtime claim e s = Some r"
  shows "CompleteStreamYouTubeRuntimeAndReleaseRelayBindingClaim None claim' s =
    (Inr (), drop_claim claim (s\<lparr>youtubeRuntimes := mdel (youtubeRuntimes s) (rc_StreamID claim)\<rparr>))"
proof -
  have n: "normalizeYouTubeRelayBindingClaim claim' = claim'"
    using c external_trim [OF b] by (simp add: claim'_def carried_normal)
  have "validateYouTubeRelayBindingClaimPreparedFence claim'"
    using c b carried_broadcast [of b claim] by (simp add: claim'_def validateYouTubeRelayBindingClaimPreparedFence_def validBroadcastID_def carried_def)
  moreover have "matching_runtime claim' e s = Some r" using r(1) by (simp add: claim'_def matching_runtime_def)
  ultimately show ?thesis
    using e st r unfolding CompleteStreamYouTubeRuntimeAndReleaseRelayBindingClaim_def n by (simp add: Let_def claim'_def drop_claim_def)
qed

lemmas relay_op_defs = MarkReservedStreamYouTubeRelayBindingClaimPossiblyPrepared_def
  ReconcileReservedStreamYouTubeRelayBindingClaimAfterPrepareFence_def FinalizeStreamYouTubeRuntimeAndMarkRelayBindingPrepared_def
  MarkPreparedStreamYouTubeRelayBindingClaimPossiblyDispatched_def MarkPreparedStreamYouTubeRelayBindingClaimEncoderStopConfirmed_def
  AbandonPreparedStreamYouTubeRuntimeAndMarkRelayBindingRecoveryRequired_def
  ReconcilePreparedStreamYouTubeRelayBindingClaimAfterDispatchFence_def MarkStreamYouTubeRelayBindingClaimRecoveryRequired_def
  ReleaseReservedStreamYouTubeRelayBindingClaim_def CompleteStreamYouTubeRuntimeAndReleaseRelayBindingClaim_def
  ResolveStreamYouTubeRelayBindingRecovery_def

subsection \<open>The properties\<close>

text \<open>
  C15. In every reachable state a relay binding, a stream and a reusable live stream of an account are
  held by at most one claim; a claim's stream exists; a prepared claim has the static runtime it was
  prepared with, a claim in recovery has none, and every static runtime belongs to a prepared claim.
\<close>

theorem relay_bindings_exclusive:
  assumes "reach relay_init relay_step p"
    and c: "mget (youtubeRelayBindingClaims (ps_streams p)) k = Some c"
  shows "(\<forall>k' c'. mget (youtubeRelayBindingClaims (ps_streams p)) k' = Some c' \<longrightarrow> k \<noteq> k' \<longrightarrow>
        rc_RelayBindingID c \<noteq> rc_RelayBindingID c' \<and> rc_StreamID c \<noteq> rc_StreamID c' \<and>
        (rc_OAuthAccountID c, rc_ReusableLiveStreamID c) \<noteq> (rc_OAuthAccountID c', rc_ReusableLiveStreamID c')) \<and>
      mget (streams (ps_streams p)) (rc_StreamID c) \<noteq> None \<and>
      (rc_State c = Prepared \<longrightarrow> (\<exists>r. mget (youtubeRuntimes (ps_streams p)) (rc_StreamID c) = Some r \<and>
        runtimeMatchesYouTubeRelayBindingClaim r c)) \<and>
      (rc_State c = RecoveryRequired \<longrightarrow> mget (youtubeRuntimes (ps_streams p)) (rc_StreamID c) = None) \<and>
      (\<forall>i r. mget (youtubeRuntimes (ps_streams p)) i = Some r \<longrightarrow> static_runtime r \<longrightarrow>
        (\<exists>k' c'. mget (youtubeRelayBindingClaims (ps_streams p)) k' = Some c' \<and> rc_StreamID c' = i \<and> rc_State c' = Prepared))"
proof (intro conjI)
  have ok: "relay_ok (ps_streams p)" using assms(1) by (rule relay.inv_reach)
  note keys = keyed_mget [OF relay_keyed [OF ok]]
  show "\<forall>k' c'. mget (youtubeRelayBindingClaims (ps_streams p)) k' = Some c' \<longrightarrow> k \<noteq> k' \<longrightarrow>
      rc_RelayBindingID c \<noteq> rc_RelayBindingID c' \<and> rc_StreamID c \<noteq> rc_StreamID c' \<and>
      (rc_OAuthAccountID c, rc_ReusableLiveStreamID c) \<noteq> (rc_OAuthAccountID c', rc_ReusableLiveStreamID c')"
    using relay_distinct [OF ok] keys c unfolding claims_distinct_def by (metis prod.inject)
  show "mget (streams (ps_streams p)) (rc_StreamID c) \<noteq> None" using ok c by (rule relay_stream)
  show "rc_State c = Prepared \<longrightarrow> (\<exists>r. mget (youtubeRuntimes (ps_streams p)) (rc_StreamID c) = Some r \<and>
      runtimeMatchesYouTubeRelayBindingClaim r c)"
    and "rc_State c = RecoveryRequired \<longrightarrow> mget (youtubeRuntimes (ps_streams p)) (rc_StreamID c) = None"
    using relay_claim [OF ok c] by (auto simp: claim_ok_def)
  show "\<forall>i r. mget (youtubeRuntimes (ps_streams p)) i = Some r \<longrightarrow> static_runtime r \<longrightarrow>
      (\<exists>k' c'. mget (youtubeRelayBindingClaims (ps_streams p)) k' = Some c' \<and> rc_StreamID c' = i \<and> rc_State c' = Prepared)"
    using relay_static [OF ok] by blast
qed

text \<open>
  C16. A step of the panel from a reachable state keeps a claim's reservation and never lowers one of
  its fences; the claim goes only if YouTube was never called for it, if its dispatched broadcast was
  completed with its stream, or if recovery has shown that no encoder can still be running.
\<close>

theorem relay_claim_released_safely:
  assumes "reach relay_init relay_step p" and "relay_step p q"
    and "mget (youtubeRelayBindingClaims (ps_streams p)) k = Some c"
  shows "case mget (youtubeRelayBindingClaims (ps_streams q)) k of
      None \<Rightarrow> releasable (ps_streams p) c | Some c' \<Rightarrow> claim_moves c c'"
  using relay_step_effect [OF assms(2) relay.inv_reach [OF assms(1)]] assms(3) unfolding relay_effect_def by blast

abbreviation refused :: "'s \<Rightarrow> ('a, 's) outcome \<Rightarrow> bool" where
  "refused s out \<equiv> \<exists>e. out = (Inl e, s)"

text \<open>
  C19. A call with a reservation that the binding's claim does not carry (another token, stream, output,
  account or creation time) is refused by every operation on claims and leaves the store as it was.
\<close>

theorem stale_reservation_refused:
  assumes "mget (youtubeRelayBindingClaims s) (rc_RelayBindingID claim) = Some e"
    and "\<not> sameYouTubeRelayBindingReservation e (normalizeYouTubeRelayBindingClaim claim)"
  shows "refused s (MarkReservedStreamYouTubeRelayBindingClaimPossiblyPrepared c claim clock s) \<and>
      refused s (ReconcileReservedStreamYouTubeRelayBindingClaimAfterPrepareFence c claim clock s) \<and>
      refused s (FinalizeStreamYouTubeRuntimeAndMarkRelayBindingPrepared c claim r clock s) \<and>
      refused s (MarkPreparedStreamYouTubeRelayBindingClaimPossiblyDispatched c claim clock s) \<and>
      refused s (MarkPreparedStreamYouTubeRelayBindingClaimEncoderStopConfirmed c claim clock s) \<and>
      refused s (AbandonPreparedStreamYouTubeRuntimeAndMarkRelayBindingRecoveryRequired c claim clock s) \<and>
      refused s (ReconcilePreparedStreamYouTubeRelayBindingClaimAfterDispatchFence c claim clock s) \<and>
      refused s (MarkStreamYouTubeRelayBindingClaimRecoveryRequired c claim clock s) \<and>
      refused s (ReleaseReservedStreamYouTubeRelayBindingClaim c claim s) \<and>
      refused s (CompleteStreamYouTubeRuntimeAndReleaseRelayBindingClaim c claim s) \<and>
      refused s (ResolveStreamYouTubeRelayBindingRecovery c claim s)"
proof -
  have "rc_RelayBindingID (normalizeYouTubeRelayBindingClaim claim) = rc_RelayBindingID claim"
    by (simp add: normalizeYouTubeRelayBindingClaim_def)
  with assms have stored: "stored_claim (normalizeYouTubeRelayBindingClaim claim) s = Inl ErrYouTubeRelayBindingClaimConflict"
    by (simp add: stored_claim_def)
  show ?thesis
    by (cases c; intro conjI; simp add: relay_op_defs Let_def stored split: option.split)
qed



subsection \<open>A sample run\<close>

abbreviation sample_sid :: string where "sample_sid \<equiv> ''11111111-1111-4111-8111-111111111111''"
abbreviation sample_output :: string where "sample_output \<equiv> ''22222222-2222-4222-8222-222222222222''"
abbreviation sample_account :: string where "sample_account \<equiv> ''33333333-3333-4333-8333-333333333333''"
abbreviation sample_token :: string where "sample_token \<equiv> ''44444444-4444-4444-8444-444444444444''"
abbreviation sample_binding :: string where "sample_binding \<equiv> ''relay-55555555-5555-4555-8555-555555555555''"

definition sample_relay0 :: panel where
  "sample_relay0 = NewPanel\<lparr>
     ps_streams := put_stream sample_sid ((new_stream sample_sid ''Show'' 1000)\<lparr>st_Status := ''starting'',
       st_YouTubeOutputID := sample_output\<rparr>) NewMemoryStreamStore,
     ps_profiles := [(sample_output, \<lparr>pf_ID = sample_output, pf_Kind = ProfileYouTubeOutput, pf_Name = ''Out'', pf_Config = [],
       pf_CreatedAt = 1000, pf_UpdatedAt = 1000, pf_YouTubeRelayBindingRevision = 1\<rparr>)],
     relayBindingClaimProfiles := True, relayBindingClaimStreams := True\<rparr>"

definition sample_relay_request :: relay_claim where
  "sample_relay_request = \<lparr>rc_RelayBindingID = sample_binding, rc_ReservationToken = [], rc_StreamID = sample_sid,
     rc_YouTubeOutputID = sample_output, rc_ExpectedYouTubeOutputRevision = Some 1, rc_YouTubeOutputRevision = 0,
     rc_OAuthAccountID = sample_account, rc_ReusableLiveStreamID = ''live_1'', rc_BroadcastID = [], rc_State = [],
     rc_PrepareState = [], rc_DispatchState = [], rc_EncoderStopConfirmedAt = 0, rc_LastError = [], rc_CreatedAt = 0, rc_UpdatedAt = 0\<rparr>"

definition sample_relay_claim :: relay_claim where
  "sample_relay_claim = sample_relay_request\<lparr>rc_ReservationToken := sample_token, rc_ExpectedYouTubeOutputRevision := None,
     rc_YouTubeOutputRevision := 1, rc_State := Reserved, rc_PrepareState := NotAttempted, rc_DispatchState := NotDispatched,
     rc_CreatedAt := 5000, rc_UpdatedAt := 5000\<rparr>"

definition sample_relay1 :: panel where
  "sample_relay1 = sample_relay0\<lparr>ps_streams := put_claim sample_relay_claim (ps_streams sample_relay0)\<rparr>"

lemma sample_relay_ids:
  "isCanonicalUUID sample_sid" "isCanonicalUUID sample_output" "isCanonicalUUID sample_account" "isCanonicalUUID sample_token"
  "isValidYouTubeRelayBindingID sample_binding" "isValidYouTubeRelayBindingExternalID ''live_1'' 255"
  "isValidYouTubeRelayBindingExternalID ''bc-1'' 255"
  by code_simp+

lemma sample_relay_reserve:
  "ReserveStreamYouTubeRelayBindingClaim None sample_relay_request sample_token 5000 sample_relay0 = (Inr sample_relay_claim, sample_relay1)"
  by code_simp

lemma sample_relay_reach: "reach relay_init relay_step sample_relay0" "reach relay_init relay_step sample_relay1"
proof -
  have "reach relay_init relay_step NewPanel" by (rule reach_init) (simp add: relay_init_def NewPanel_def)
  then show r: "reach relay_init relay_step sample_relay0"
    by (rule reach_step) (rule elsewhere, simp add: untouched_def sample_relay0_def put_stream_def NewPanel_def NewMemoryStreamStore_def)
  show "reach relay_init relay_step sample_relay1"
    using r by (rule reach_step) (use reserve [of sample_relay0 None sample_relay_request sample_token 5000] in \<open>simp add: sample_relay_reserve\<close>)
qed

lemma sample_relay_get:
  "mget (youtubeRelayBindingClaims (ps_streams sample_relay1)) sample_binding = Some sample_relay_claim"
  by code_simp

abbreviation sample_marked :: stream_store where
  "sample_marked \<equiv> snd (MarkReservedStreamYouTubeRelayBindingClaimPossiblyPrepared None sample_relay_claim 9000 (ps_streams sample_relay1))"

lemma sample_marked_get:
  "mget (youtubeRelayBindingClaims sample_marked) sample_binding =
     Some (sample_relay_claim\<lparr>rc_PrepareState := PossiblyPrepared, rc_UpdatedAt := 9000\<rparr>)"
  by code_simp

definition sample_relay_runtime :: stream_youtube_runtime where
  "sample_relay_runtime = zero_runtime\<lparr>yr_StreamID := sample_sid, yr_YouTubeOutput := sample_output, yr_OAuthAccountID := sample_account,
     yr_Mode := youtubeRelayBindingClaimStaticRuntimeMode, yr_BroadcastID := ''bc-1'', yr_LiveStreamID := ''live_1'',
     yr_CompleteOnStop := True\<rparr>"

abbreviation sample_prepared :: stream_store where
  "sample_prepared \<equiv> snd (FinalizeStreamYouTubeRuntimeAndMarkRelayBindingPrepared None
     (sample_relay_claim\<lparr>rc_BroadcastID := ''bc-1''\<rparr>) sample_relay_runtime 9500 sample_marked)"

lemma sample_prepared_get:
  "mget (youtubeRelayBindingClaims sample_prepared) sample_binding =
     Some (sample_relay_claim\<lparr>rc_BroadcastID := ''bc-1'', rc_State := Prepared, rc_PrepareState := PossiblyPrepared, rc_UpdatedAt := 9000\<rparr>)"
  by code_simp

lemma sample_prepared_reach: "reach relay_init relay_step (sample_relay1\<lparr>ps_streams := sample_prepared\<rparr>)"
proof -
  have "reach relay_init relay_step (sample_relay1\<lparr>ps_streams := sample_marked\<rparr>)"
    by (rule reach_step [OF sample_relay_reach(2)]) (intro store mark_prepared)
  from reach_step [OF this store [OF finalize]] show ?thesis by simp
qed

theorem relay_bindings_exclusive_witness:
  "\<exists>r. mget (youtubeRuntimes sample_prepared) sample_sid = Some r \<and> trimSpace (yr_BroadcastID r) = ''bc-1''"
proof -
  have "mget (youtubeRelayBindingClaims (ps_streams (sample_relay1\<lparr>ps_streams := sample_prepared\<rparr>))) sample_binding =
     Some (sample_relay_claim\<lparr>rc_BroadcastID := ''bc-1'', rc_State := Prepared, rc_PrepareState := PossiblyPrepared, rc_UpdatedAt := 9000\<rparr>)"
    using sample_prepared_get by simp
  from relay_bindings_exclusive [OF sample_prepared_reach this] show ?thesis
    by (auto simp: sample_relay_claim_def sample_relay_request_def runtimeMatchesYouTubeRelayBindingClaim_def)
qed

theorem relay_claim_released_safely_witness:
  "claim_moves sample_relay_claim (sample_relay_claim\<lparr>rc_PrepareState := PossiblyPrepared, rc_UpdatedAt := 9000\<rparr>)"
  using relay_claim_released_safely [OF sample_relay_reach(2) store [OF mark_prepared, of _ None sample_relay_claim 9000] sample_relay_get]
  by (simp add: sample_marked_get)

theorem stale_reservation_refused_witness:
  "refused (ps_streams sample_relay1) (ReleaseReservedStreamYouTubeRelayBindingClaim None
     (sample_relay_claim\<lparr>rc_ReservationToken := sample_account\<rparr>) (ps_streams sample_relay1))"
proof -
  have "mget (youtubeRelayBindingClaims (ps_streams sample_relay1))
      (rc_RelayBindingID (sample_relay_claim\<lparr>rc_ReservationToken := sample_account\<rparr>)) = Some sample_relay_claim"
    and "\<not> sameYouTubeRelayBindingReservation sample_relay_claim
      (normalizeYouTubeRelayBindingClaim (sample_relay_claim\<lparr>rc_ReservationToken := sample_account\<rparr>))"
    by code_simp+
  from stale_reservation_refused [OF this, of None 0] show ?thesis by simp
qed



end
