(* ===== verification/Node_Invariant.thy ===== *)
theory Node_Invariant
  imports Guard_Invariant
begin

text \<open>
  The invariant of the tokens: every token and every staged token has its own identifier and its own
  secret. Operations only add new tokens and revoke old ones; a token once revoked stays so.
\<close>

subsection \<open>Credentials\<close>

text \<open>
  The credentials of a registry: \<open>Inl i\<close> is the token stored under \<open>i\<close>, \<open>Inr sid\<close> the token staged for
  the service \<open>sid\<close>. Each has an identifier and a hash.
\<close>

fun credential :: "auth_store \<Rightarrow> string + string \<Rightarrow> (string \<times> string) option" where
  "credential a (Inl i) = map_option (\<lambda>token. (i, tk_TokenHash token)) (mget (serviceTokens a) i)"
| "credential a (Inr sid) =
     (case mget (services a) sid of
        None \<Rightarrow> None
      | Some svc \<Rightarrow> if sv_StagedNodeTokenHash svc = [] then None
          else Some (sv_StagedNodeTokenID svc, sv_StagedNodeTokenHash svc))"

definition apart :: "(string \<times> string) \<Rightarrow> (string \<times> string) \<Rightarrow> bool" where
  "apart c d \<longleftrightarrow> fst c \<noteq> fst d \<and> snd c \<noteq> snd d"

definition credentials_apart :: "auth_store \<Rightarrow> bool" where
  "credentials_apart a \<longleftrightarrow>
     (\<forall>x y c d. credential a x = Some c \<longrightarrow> credential a y = Some d \<longrightarrow> x \<noteq> y \<longrightarrow> apart c d)"

definition tokens_ok :: "auth_store \<Rightarrow> bool" where
  "tokens_ok a \<longleftrightarrow> keyed tk_ID (serviceTokens a) \<and> credentials_apart a \<and>
     (\<forall>i token. mget (serviceTokens a) i = Some token \<longrightarrow> validateServiceScopes (tk_Scopes token))"

lemma tokens_okD:
  assumes "tokens_ok a"
  shows tokens_keyed: "keyed tk_ID (serviceTokens a)"
    and tokens_apart: "\<And>x y c d. credential a x = Some c \<Longrightarrow> credential a y = Some d \<Longrightarrow> x \<noteq> y \<Longrightarrow> apart c d"
    and tokens_scopes: "\<And>i token. mget (serviceTokens a) i = Some token \<Longrightarrow> validateServiceScopes (tk_Scopes token)"
    and tokens_id: "\<And>i token. mget (serviceTokens a) i = Some token \<Longrightarrow> tk_ID token = i"
  using assms unfolding tokens_ok_def credentials_apart_def by (blast intro: keyed_mget)+

lemma tokens_ok_init: "tokens_ok NewMemoryAuthStore"
proof -
  have "credential NewMemoryAuthStore x = None" for x by (cases x) (simp_all add: NewMemoryAuthStore_def)
  then show ?thesis by (simp add: tokens_ok_def credentials_apart_def) (simp add: NewMemoryAuthStore_def)
qed

text \<open>A credential that is not in the registry yet.\<close>

definition new_credential :: "auth_store \<Rightarrow> string \<times> string \<Rightarrow> bool" where
  "new_credential a c \<longleftrightarrow> (\<forall>x d. credential a x = Some d \<longrightarrow> apart c d)"

lemma apart_sym: "apart c d \<longleftrightarrow> apart d c"
  by (auto simp: apart_def)

lemma credentials_kept:
  assumes "credentials_apart a"
    and "\<And>x c. credential b x = Some c \<Longrightarrow> credential a x = Some c \<or> x = n \<and> new_credential a c"
  shows "credentials_apart b"
  unfolding credentials_apart_def
proof (intro allI impI)
  fix x y c d
  assume "credential b x = Some c" "credential b y = Some d" "x \<noteq> y"
  with assms(2) [of x c] assms(2) [of y d] show "apart c d"
    using assms(1) apart_sym unfolding credentials_apart_def new_credential_def by blast
qed

subsection \<open>What a step does to the tokens\<close>

text \<open>Tokens are never removed, keep their secret and scopes, and are never reinstated.\<close>

definition token_kept :: "service_token \<Rightarrow> service_token \<Rightarrow> bool" where
  "token_kept t t' \<longleftrightarrow> tk_ID t' = tk_ID t \<and> tk_TokenHash t' = tk_TokenHash t \<and> tk_Scopes t' = tk_Scopes t \<and>
     tk_ServiceType t' = tk_ServiceType t \<and> (tk_RevokedAt t \<noteq> None \<longrightarrow> tk_RevokedAt t' \<noteq> None)"

definition tokens_kept :: "auth_store \<Rightarrow> auth_store \<Rightarrow> bool" where
  "tokens_kept a b \<longleftrightarrow>
     (\<forall>i t. mget (serviceTokens a) i = Some t \<longrightarrow> (\<exists>t'. mget (serviceTokens b) i = Some t' \<and> token_kept t t'))"

definition token_effect :: "auth_store \<Rightarrow> auth_store \<Rightarrow> bool" where
  "token_effect a b \<longleftrightarrow> tokens_ok b \<and> tokens_kept a b"

lemma token_kept_refl [simp]: "token_kept t t"
  by (simp add: token_kept_def)

lemma token_kept_trans: "token_kept t u \<Longrightarrow> token_kept u v \<Longrightarrow> token_kept t v"
  by (simp add: token_kept_def)

lemma token_kept_revoked [simp]: "token_kept t (t\<lparr>tk_RevokedAt := Some now\<rparr>)"
  by (simp add: token_kept_def)

lemma tokens_kept_refl [simp]: "tokens_kept a a"
  by (simp add: tokens_kept_def)

lemma tokens_kept_trans: "tokens_kept a b \<Longrightarrow> tokens_kept b d \<Longrightarrow> tokens_kept a d"
  unfolding tokens_kept_def using token_kept_trans by blast

lemma token_effect_refl: "tokens_ok a \<Longrightarrow> token_effect a a"
  by (simp add: token_effect_def)

lemma token_effect_trans: "token_effect a b \<Longrightarrow> token_effect b d \<Longrightarrow> token_effect a d"
  unfolding token_effect_def by (blast intro: tokens_kept_trans)

lemma token_effect_ok: "token_effect a b \<Longrightarrow> tokens_ok b"
  by (simp add: token_effect_def)

text \<open>The writes the operations are made of.\<close>

lemma effect_new_token:
  assumes ok: "tokens_ok a" and new: "new_credential a (tk_ID token, tk_TokenHash token)"
    and scopes: "validateServiceScopes (tk_Scopes token)"
  shows "token_effect a (put_token token a)"
proof -
  have none: "mget (serviceTokens a) (tk_ID token) = None"
  proof (rule ccontr)
    assume "mget (serviceTokens a) (tk_ID token) \<noteq> None"
    then obtain t where "mget (serviceTokens a) (tk_ID token) = Some t" by blast
    then have "credential a (Inl (tk_ID token)) = Some (tk_ID token, tk_TokenHash t)" by simp
    with new have "apart (tk_ID token, tk_TokenHash token) (tk_ID token, tk_TokenHash t)"
      unfolding new_credential_def by blast
    then show False by (simp add: apart_def)
  qed
  have "credentials_apart (put_token token a)"
  proof (rule credentials_kept)
    show "credentials_apart a" using ok by (simp add: tokens_ok_def)
    show "credential a x = Some c \<or> x = Inl (tk_ID token) \<and> new_credential a c"
      if "credential (put_token token a) x = Some c" for x c
      using that new by (cases x) (auto simp: put_token_def split: if_splits)
  qed
  with ok none scopes show ?thesis
    unfolding token_effect_def tokens_ok_def tokens_kept_def by (auto simp: put_token_def keyed_mput)
qed

lemma effect_token_rewrite:
  assumes ok: "tokens_ok a" and old: "mget (serviceTokens a) (tk_ID t) = Some t" and kept: "token_kept t t'"
  shows "token_effect a (put_token t' a)"
proof -
  have id: "tk_ID t' = tk_ID t" using kept by (simp add: token_kept_def)
  have "credentials_apart (put_token t' a)"
  proof (rule credentials_kept [where n = undefined])
    show "credentials_apart a" using ok by (simp add: tokens_ok_def)
    show "credential a x = Some c \<or> x = undefined \<and> new_credential a c"
      if "credential (put_token t' a) x = Some c" for x c
      using that old kept by (cases x) (auto simp: put_token_def token_kept_def split: if_splits)
  qed
  with ok old kept show ?thesis
    unfolding token_effect_def tokens_ok_def tokens_kept_def
    by (auto simp: put_token_def keyed_mput id token_kept_def)
qed

text \<open>Services may be rewritten as long as they stage nothing new.\<close>

definition stages_less :: "auth_store \<Rightarrow> auth_store \<Rightarrow> bool" where
  "stages_less a b \<longleftrightarrow> serviceTokens b = serviceTokens a \<and>
     (\<forall>sid c. credential b (Inr sid) = Some c \<longrightarrow> credential a (Inr sid) = Some c)"

lemma effect_stages_less:
  assumes ok: "tokens_ok a" and less: "stages_less a b"
  shows "token_effect a b"
proof -
  have "credentials_apart b"
  proof (rule credentials_kept [where n = undefined])
    show "credentials_apart a" using ok by (simp add: tokens_ok_def)
    show "credential a x = Some c \<or> x = undefined \<and> new_credential a c" if "credential b x = Some c" for x c
    proof (cases x)
      case (Inl i)
      then show ?thesis using that less by (simp add: stages_less_def)
    next
      case (Inr sid)
      then show ?thesis using that less unfolding stages_less_def by blast
    qed
  qed
  with ok less show ?thesis unfolding token_effect_def tokens_ok_def tokens_kept_def by (auto simp: stages_less_def)
qed

lemma effect_stage:
  assumes ok: "tokens_ok a" and new: "new_credential a (sv_StagedNodeTokenID v, sv_StagedNodeTokenHash v)"
  shows "token_effect a (put_service sid v a)"
proof -
  have "credentials_apart (put_service sid v a)"
  proof (rule credentials_kept)
    show "credentials_apart a" using ok by (simp add: tokens_ok_def)
    show "credential a x = Some c \<or> x = Inr sid \<and> new_credential a c"
      if "credential (put_service sid v a) x = Some c" for x c
      using that new by (cases x) (auto simp: put_service_def split: if_splits)
  qed
  with ok show ?thesis unfolding token_effect_def tokens_ok_def tokens_kept_def by (auto simp: put_service_def)
qed

subsection \<open>The operations on tokens and nodes\<close>

lemma fresh_new:
  assumes "fresh_draw sha256hex a (Inr raw) uuid"
  shows "new_credential a (uuid, sha256hex (''ast_svc_'' @ raw))"
  unfolding new_credential_def
proof (intro allI impI)
  fix x d assume d: "credential a x = Some d"
  show "apart (uuid, sha256hex (''ast_svc_'' @ raw)) d"
  proof (cases x)
    case (Inl i)
    with d obtain t where "mget (serviceTokens a) i = Some t" "d = (i, tk_TokenHash t)" by auto
    with assms mget_in [of "serviceTokens a" i t] show ?thesis
      by (auto simp: fresh_draw_def known_id_def known_hash_def apart_def list_ex_iff)
  next
    case (Inr sid)
    with d obtain svc where "mget (services a) sid = Some svc" "d = (sv_StagedNodeTokenID svc, sv_StagedNodeTokenHash svc)"
      by (auto split: option.splits if_splits)
    with assms mget_in [of "services a" sid svc] show ?thesis
      by (auto simp: fresh_draw_def known_id_def known_hash_def apart_def list_ex_iff)
  qed
qed

lemma projected_scopes:
  "validateServiceScopes (tk_Scopes t) \<Longrightarrow> validateServiceScopes (ProjectedServiceTokenScopesForRotation t)"
  by (auto simp: validateServiceScopes_def ProjectedServiceTokenScopesForRotation_def Let_def allowedScopes_def)

lemma issued_fields [simp]:
  "tk_ID (issued_token sha ty scopes raw uuid now) = uuid"
  "tk_TokenHash (issued_token sha ty scopes raw uuid now) = sha (''ast_svc_'' @ raw)"
  "tk_Scopes (issued_token sha ty scopes raw uuid now) = scopes"
  "tk_ServiceType (issued_token sha ty scopes raw uuid now) = ty"
  "tk_RevokedAt (issued_token sha ty scopes raw uuid now) = None"
  "tk_RawToken (issued_token sha ty scopes raw uuid now) = ''ast_svc_'' @ raw"
  by (simp_all add: issued_token_def)

lemma new_credential_put:
  assumes "mget (serviceTokens a) (tk_ID t) = Some t" and "token_kept t t'" and "new_credential a c"
  shows "new_credential (put_token t' a) c"
  unfolding new_credential_def
proof (intro allI impI)
  fix x d assume "credential (put_token t' a) x = Some d"
  then have "credential a x = Some d"
    using assms(1,2) by (cases x) (auto simp: put_token_def token_kept_def split: if_splits)
  with assms(3) show "apart c d" unfolding new_credential_def by blast
qed

text \<open>The rewritten services stage nothing new.\<close>

definition stage_same :: "registered_service \<Rightarrow> registered_service \<Rightarrow> bool" where
  "stage_same u v \<longleftrightarrow> sv_StagedNodeTokenHash v = [] \<or>
     (sv_StagedNodeTokenHash v = sv_StagedNodeTokenHash u \<and> sv_StagedNodeTokenID v = sv_StagedNodeTokenID u)"

lemma stages_less_put:
  "mget (services a) sid = Some u \<Longrightarrow> stage_same u v \<Longrightarrow> stages_less a (put_service sid v a)"
  by (auto simp: stages_less_def put_service_def stage_same_def split: if_splits)

lemma stages_less_mmap:
  "(\<And>u. stage_same u (f u)) \<Longrightarrow> stages_less a (a\<lparr>services := mmap_where P f (services a)\<rparr>)"
  unfolding stages_less_def
proof (intro conjI allI impI)
  fix sid c
  assume f: "\<And>u. stage_same u (f u)"
    and c: "credential (a\<lparr>services := mmap_where P f (services a)\<rparr>) (Inr sid) = Some c"
  show "credential a (Inr sid) = Some c"
  proof (cases "mget (services a) sid")
    case (Some u)
    with c f [of u] show ?thesis by (auto simp: stage_same_def split: if_splits)
  qed (use c in simp)
qed simp

lemma stage_same_simps [simp]:
  "stage_same u u"
  "stage_same u (forget_heartbeat now u)"
  "stage_same u (rotated_service i now u)"
  "stage_same u (activated_service r now u)"
  "stage_same u (applyServiceRuntimeReport u r now)"
  "stage_same u (updated_service parseURL mu now u)"
  "stage_same u (beaten parseURL h now u)"
  "stage_same u (registered parseURL rg u i now)"
  by (simp_all add: stage_same_def forget_heartbeat_def rotated_service_def clearStagedNodeConfiguration_def
      activated_service_def applyServiceRuntimeReport_def updated_service_def beaten_def registered_def keep_node_def Let_def)

lemma stage_same_update [simp]:
  "stage_same u (v\<lparr>sv_NodeTokenCiphertext := x\<rparr>) = stage_same u v"
  "stage_same u (v\<lparr>sv_NodeTokenNonce := x\<rparr>) = stage_same u v"
  "stage_same u (v\<lparr>sv_ConfigureTokenHash := x\<rparr>) = stage_same u v"
  "stage_same u (v\<lparr>sv_ConfigureTokenExpiresAt := t\<rparr>) = stage_same u v"
  "stage_same u (v\<lparr>sv_ConfigureTokenUsedAt := t\<rparr>) = stage_same u v"
  "stage_same u (v\<lparr>sv_TokenID := x\<rparr>) = stage_same u v"
  "stage_same u (v\<lparr>sv_LastHeartbeatAt := t\<rparr>) = stage_same u v"
  "stage_same u (v\<lparr>sv_ReportedCapabilities := m\<rparr>) = stage_same u v"
  "stage_same u (v\<lparr>sv_NodeTokenRotatedAt := t\<rparr>) = stage_same u v"
  "stage_same u (v\<lparr>sv_UpdatedAt := n\<rparr>) = stage_same u v"
  by (simp_all add: stage_same_def)

lemma effect_put_service:
  "tokens_ok a \<Longrightarrow> mget (services a) sid = Some u \<Longrightarrow> stage_same u v \<Longrightarrow> token_effect a (put_service sid v a)"
  by (intro effect_stages_less stages_less_put)

lemma token_outcome:
  "tokens_ok a \<Longrightarrow> unless_kept a (\<lambda>out. token_effect a (snd out)) out \<Longrightarrow> token_effect a (snd out)"
  by (auto simp: unless_kept_def token_effect_refl)

text \<open>Replacing a token by a new one of the same scopes, with the services rewritten afterwards.\<close>

lemma effect_replace:
  assumes ok: "tokens_ok a" and old: "mget (serviceTokens a) i = Some t" and kept: "token_kept t t'"
    and fresh: "fresh_draw sha256hex a (Inr raw) uuid"
  shows "token_effect a (put_token (issued_token sha256hex ty (ProjectedServiceTokenScopesForRotation t) raw uuid now) (put_token t' a))"
proof -
  have id: "tk_ID t = i" using ok old by (rule tokens_id)
  have 1: "token_effect a (put_token t' a)" using ok old kept by (intro effect_token_rewrite) (simp_all add: id)
  have "token_effect (put_token t' a)
      (put_token (issued_token sha256hex ty (ProjectedServiceTokenScopesForRotation t) raw uuid now) (put_token t' a))"
  proof (rule effect_new_token [OF token_effect_ok [OF 1]])
    have "new_credential (put_token t' a) (uuid, sha256hex (''ast_svc_'' @ raw))"
      using old id kept fresh_new [OF fresh] by (intro new_credential_put [of a t]) simp_all
    then show "new_credential (put_token t' a)
        (tk_ID (issued_token sha256hex ty (ProjectedServiceTokenScopesForRotation t) raw uuid now),
         tk_TokenHash (issued_token sha256hex ty (ProjectedServiceTokenScopesForRotation t) raw uuid now))"
      by (simp only: issued_fields)
  qed (use tokens_scopes [OF ok old] in \<open>simp add: projected_scopes\<close>)
  with 1 show ?thesis by (rule token_effect_trans)
qed

lemma effect_create:
  assumes "tokens_ok a" and "fresh_draw sha256hex a random uuid"
  shows "token_effect a (snd (CreateServiceToken sha256hex c ty scopes random uuid now a))"
  unfolding CreateServiceToken_def Let_def
  by (rule token_outcome [OF assms(1)], intro outcome_rules; rule unless_keptI)
    (use assms fresh_new in \<open>auto intro!: effect_new_token\<close>)

lemma update_split:
  "a\<lparr>serviceTokens := mput (serviceTokens a) i t, services := m\<rparr> = (a\<lparr>serviceTokens := mput (serviceTokens a) i t\<rparr>)\<lparr>services := m\<rparr>"
  by simp

lemma effect_revoke:
  assumes ok: "tokens_ok a"
  shows "token_effect a (snd (RevokeServiceToken c i now a))"
  unfolding RevokeServiceToken_def
proof (rule token_outcome [OF ok], intro outcome_rules; (rule unless_keptI)?)
  fix t assume t: "mget (serviceTokens a) i = Some t"
  let ?b = "put_token (t\<lparr>tk_RevokedAt := Some now\<rparr>) a"
  have id: "tk_ID t = i" using ok t by (rule tokens_id)
  have 1: "token_effect a ?b" by (rule effect_token_rewrite [OF ok, of t]) (simp_all add: t id)
  have "token_effect ?b (?b\<lparr>services := mmap_where (\<lambda>_ svc. sv_TokenID svc = i) (forget_heartbeat now) (services ?b)\<rparr>)"
    by (intro effect_stages_less [OF token_effect_ok [OF 1]] stages_less_mmap) simp
  with 1 show "token_effect a (snd (Inr (), a\<lparr>serviceTokens := mput (serviceTokens a) i (t\<lparr>tk_RevokedAt := Some now\<rparr>),
      services := mmap_where (\<lambda>_ svc. sv_TokenID svc = i) (forget_heartbeat now) (services a)\<rparr>))"
    by (auto simp: put_token_def id intro: token_effect_trans)
qed

lemma effect_rotate:
  assumes ok: "tokens_ok a" and fresh: "fresh_draw sha256hex a random uuid"
  shows "token_effect a (snd (RotateServiceToken sha256hex c i random uuid now a))"
  unfolding RotateServiceToken_def Let_def
proof (rule token_outcome [OF ok], intro outcome_rules; (rule unless_keptI)?)
  fix raw t assume raw: "random = Inr raw" and t: "mget (serviceTokens a) i = Some t"
  let ?token = "issued_token sha256hex (tk_ServiceType t) (ProjectedServiceTokenScopesForRotation t) raw uuid now"
  let ?b = "put_token ?token (put_token (t\<lparr>tk_RevokedAt := Some now\<rparr>) a)"
  have id: "tk_ID t = i" using ok t by (rule tokens_id)
  have 1: "token_effect a ?b" using fresh raw by (intro effect_replace [OF ok t]) simp_all
  have "token_effect ?b (?b\<lparr>services := mmap_where (\<lambda>_ svc. sv_TokenID svc = i) (rotated_service (tk_ID ?token) now) (services ?b)\<rparr>)"
    by (intro effect_stages_less [OF token_effect_ok [OF 1]] stages_less_mmap) simp
  with 1 show "token_effect a (snd (Inr ?token, a\<lparr>serviceTokens :=
        mput (mput (serviceTokens a) i (t\<lparr>tk_RevokedAt := Some now\<rparr>)) (tk_ID ?token) ?token,
      services := mmap_where (\<lambda>_ svc. sv_TokenID svc = i) (rotated_service (tk_ID ?token) now) (services a)\<rparr>))"
    by (auto simp: put_token_def id intro: token_effect_trans)
qed

lemma effect_replace_service:
  assumes ok: "tokens_ok a" and fresh: "fresh_draw sha256hex a random uuid"
    and new: "newRotatedServiceToken sha256hex old random uuid now = Inr token"
    and old: "mget (serviceTokens a) i = Some old" and u: "mget (services a) sid = Some u" and v: "stage_same u v"
  shows "token_effect a (put_service sid v (replace_token sid old token now a))"
proof -
  obtain raw where raw: "random = Inr raw" and
    token: "token = issued_token sha256hex (tk_ServiceType old) (ProjectedServiceTokenScopesForRotation old) raw uuid now"
    using new by (auto simp: newRotatedServiceToken_def split: sum.splits)
  obtain t' where t': "token_kept old t'" and eq: "replace_token sid old token now a = put_token token (put_token t' a)"
    by (cases "list_ex (\<lambda>(candidateID, candidate). candidateID \<noteq> sid \<and> sv_TokenID candidate = tk_ID old) (services a)")
      (force simp: replace_token_def Let_def)+
  have 1: "token_effect a (replace_token sid old token now a)"
    unfolding eq unfolding token using fresh raw by (intro effect_replace [OF ok old t']) simp
  have "token_effect (replace_token sid old token now a) (put_service sid v (replace_token sid old token now a))"
    using u v by (intro effect_put_service [OF token_effect_ok [OF 1]]) (simp_all add: eq)
  with 1 show ?thesis by (rule token_effect_trans)
qed

lemma effect_rotate_node:
  assumes ok: "tokens_ok a" and fresh: "fresh_draw sha256hex a random uuid"
  shows "token_effect a (snd (RotateServiceNodeToken sha256hex c sid i sealer random uuid c' now a))"
  unfolding RotateServiceNodeToken_def Let_def
  by (rule token_outcome [OF ok], intro outcome_rules; rule unless_keptI)
    (simp only: snd_conv, rule effect_replace_service [OF ok fresh], assumption, assumption, assumption, simp)

lemma effect_configure:
  assumes ok: "tokens_ok a" and fresh: "fresh_draw sha256hex a random uuid"
  shows "token_effect a (snd (ConfigureServiceNode sha256hex c sid raw now report sealer random uuid c' a))"
  unfolding ConfigureServiceNode_def Let_def
  by (rule token_outcome [OF ok], intro outcome_rules; rule unless_keptI)
    (simp only: snd_conv, rule effect_replace_service [OF ok fresh], assumption, assumption, assumption, simp)

lemma effect_stage_op:
  assumes ok: "tokens_ok a" and fresh: "fresh_draw sha256hex a random uuid"
  shows "token_effect a (snd (StageServiceNodeConfiguration sha256hex c sid raw now sealer random uuid activation c' a))"
proof -
  have "new_credential a (sv_StagedNodeTokenID v, sv_StagedNodeTokenHash v)"
    if "newRotatedServiceToken sha256hex old random uuid now = Inr token" and "v = staged_service old token x y z now u"
    for old token x y z u v
    using that fresh_new fresh
    by (auto simp: newRotatedServiceToken_def staged_service_def simp del: append.simps split: sum.splits)
  then show ?thesis
    unfolding StageServiceNodeConfiguration_def Let_def
    by - (rule token_outcome [OF ok], intro outcome_rules; rule unless_keptI, simp only: snd_conv, rule effect_stage [OF ok],
        erule meta_allE, blast)
qed

lemma put_commute: "put_service sid v (put_token t a) = put_token t (put_service sid v a)"
  by (simp add: put_service_def put_token_def)

lemma effect_retire:
  assumes ok: "tokens_ok a" and old: "mget (serviceTokens a) i = Some t"
  shows "token_effect a (retire_token t now a)"
  using ok old tokens_id [OF ok old]
  by (auto simp: retire_token_def token_effect_refl intro!: effect_token_rewrite [OF ok, of t])

text \<open>The staged token leaves the service and enters the tokens: it is new there.\<close>

lemma effect_activated:
  assumes ok: "tokens_ok a" and svc: "mget (services a) sid = Some svc" and staged: "sv_StagedNodeTokenHash svc \<noteq> []"
    and scopes: "validateServiceScopes (tk_Scopes (activated_token svc))" and clear: "sv_StagedNodeTokenHash v = []"
    and old: "mget (serviceTokens a) i = Some t" and other: "i \<noteq> sv_StagedNodeTokenID svc"
  shows "token_effect a (retire_token t now (put_service sid v (put_token (activated_token svc) a)))"
proof -
  let ?b = "put_service sid v a" and ?token = "activated_token svc"
  have 1: "token_effect a ?b" using ok svc clear by (intro effect_put_service) (simp_all add: stage_same_def)
  have new: "new_credential ?b (tk_ID ?token, tk_TokenHash ?token)"
    unfolding new_credential_def
  proof (intro allI impI)
    fix x d assume d: "credential ?b x = Some d"
    then have "x \<noteq> Inr sid" using clear by (auto simp: put_service_def)
    moreover from this d have "credential a x = Some d" by (cases x) (auto simp: put_service_def split: if_splits)
    moreover have "credential a (Inr sid) = Some (tk_ID ?token, tk_TokenHash ?token)"
      using svc staged by (simp add: activated_token_def)
    ultimately show "apart (tk_ID ?token, tk_TokenHash ?token) d" using tokens_apart [OF ok] by metis
  qed
  have 2: "token_effect ?b (put_token ?token ?b)"
    by (rule effect_new_token [OF token_effect_ok [OF 1] new scopes])
  have "mget (serviceTokens (put_token ?token ?b)) i = Some t"
    using old other by (simp add: put_token_def put_service_def activated_token_def)
  with token_effect_ok [OF 2] have "token_effect (put_token ?token ?b) (retire_token t now (put_token ?token ?b))"
    by (rule effect_retire)
  with 1 2 show ?thesis unfolding put_commute by (blast intro: token_effect_trans)
qed

lemma effect_activate:
  assumes ok: "tokens_ok a"
  shows "token_effect a (snd (ActivateServiceNodeConfiguration sha256hex c sid i raw now report c' a))"
  unfolding ActivateServiceNodeConfiguration_def replayed_activation_def Let_def
  by (rule token_outcome [OF ok], intro outcome_rules; rule unless_keptI)
    (auto intro!: effect_activated [OF ok] simp: activated_service_def clearStagedNodeConfiguration_def)

lemma effect_service_writes:
  assumes ok: "tokens_ok a"
  shows "token_effect a (snd (SetServiceConfigureToken c sid hash expiresAt now a))"
    and "token_effect a (snd (ConsumeServiceConfigureToken sha256hex c sid raw now a))"
    and "token_effect a (snd (SetServiceNodeTokenSecret c sid ciphertext nonce now a))"
    and "token_effect a (snd (UpdateServiceMetadata parseURL urlAllowed c sid update now a))"
  unfolding SetServiceConfigureToken_def ConsumeServiceConfigureToken_def SetServiceNodeTokenSecret_def
    UpdateServiceMetadata_def Let_def
  by (rule token_outcome [OF ok], intro outcome_rules; rule unless_keptI, simp only: snd_conv, rule effect_put_service [OF ok],
      assumption, simp add: stage_same_def clearStagedNodeConfiguration_def updated_service_def Let_def)+

lemma stages_less_new: "sv_StagedNodeTokenHash v = [] \<Longrightarrow> stages_less a (put_service sid v a)"
  by (auto simp: stages_less_def put_service_def split: if_splits)

lemma effect_precreate:
  assumes ok: "tokens_ok a"
  shows "token_effect a (snd (PrecreateService parseURL urlAllowed c token r now a))"
  unfolding PrecreateService_def Let_def
  by (rule token_outcome [OF ok], intro outcome_rules; rule unless_keptI, simp only: snd_conv,
      rule effect_stages_less [OF ok], rule stages_less_new)
    (simp add: hydrateServiceEndpointState_def registration_fields_def zero_service_def Let_def)

lemma put_own_effect:
  assumes "registry_ok a" and ok: "tokens_ok a" and "mget (services a) sid = Some u" and "settled_place u v" and "stage_same u v"
  shows "token_effect a (put_service (sv_ServiceID v) v a)"
proof -
  have "sv_ServiceID v = sid" using assms(4) registry_sid [OF assms(1,3)] by (simp add: settled_place_def)
  with effect_put_service [OF ok assms(3,5)] show ?thesis by simp
qed

lemma effect_history:
  assumes "token_effect a b"
  shows "token_effect a (recordMetricHistoryLocked svc now b)"
  using assms
proof (rule token_effect_trans)
  have "stages_less b (recordMetricHistoryLocked svc now b)"
    by (simp add: stages_less_def recordMetricHistoryLocked_def Let_def)
  with token_effect_ok [OF assms] show "token_effect b (recordMetricHistoryLocked svc now b)"
    by (rule effect_stages_less)
qed

lemma effect_reports:
  assumes reg: "registry_ok a" and ok: "tokens_ok a"
  shows "token_effect a (snd (UpdateServiceRuntimeReport c report now a))"
    and "NUL \<notin> set (hb_CurrentStreamID h) \<Longrightarrow> token_effect a (snd (Heartbeat parseURL c token h now a))"
    and "token_effect a (snd (RegisterService parseURL urlAllowed c token r now a))"
    and "token_effect a (snd (WriteStreamEvent parseURL c token e a))"
  unfolding UpdateServiceRuntimeReport_def Heartbeat_def RegisterService_def WriteStreamEvent_def Let_def
     apply (rule token_outcome [OF ok], intro outcome_rules; rule unless_keptI, simp only: snd_conv,
      rule put_own_effect [OF reg ok], assumption, simp, simp)
    apply (rule token_outcome [OF ok], intro outcome_rules; rule unless_keptI, simp only: snd_conv, rule effect_history,
      rule put_own_effect [OF reg ok], assumption, rule beaten_place, rule reported_stream [OF reg], assumption, simp, simp, simp)
   apply (rule token_outcome [OF ok], intro outcome_rules; rule unless_keptI, simp only: snd_conv,
      rule put_own_effect [OF reg ok], assumption)
    apply (use registry_sid [OF reg] in \<open>auto simp: settled_place_def registered_place\<close>) [2]
  by (rule token_outcome [OF ok], intro outcome_rules; rule unless_keptI, simp only: snd_conv, rule effect_stages_less [OF ok])
    (simp add: stages_less_def)

lemma node_op_tokens:
  assumes "node_op sha256hex parseURL urlAllowed a b" and reg: "registry_ok a" and ok: "tokens_ok a"
  shows "token_effect a b"
  using assms(1)
  by cases (auto simp del: snd_conv intro: effect_create [OF ok] effect_revoke [OF ok] effect_rotate [OF ok]
      effect_rotate_node [OF ok] effect_configure [OF ok] effect_stage_op [OF ok] effect_activate [OF ok]
      effect_service_writes [OF ok] effect_precreate [OF ok] effect_reports [OF reg ok])

subsection \<open>The operations on assignments\<close>

text \<open>What an assignment does not change of a service.\<close>

definition node_view :: "registered_service \<Rightarrow> registered_service" where
  "node_view svc = svc\<lparr>sv_CurrentStreamID := [], sv_Status := [], sv_AssignmentRole := [], sv_UpdatedAt := 0\<rparr>"

definition nodes_kept :: "auth_store \<Rightarrow> auth_store \<Rightarrow> bool" where
  "nodes_kept a b \<longleftrightarrow> serviceTokens b = serviceTokens a \<and>
     (\<forall>sid v. mget (services b) sid = Some v \<longrightarrow> (\<exists>u. mget (services a) sid = Some u \<and> node_view v = node_view u))"

lemma nodes_kept_refl [simp]: "nodes_kept a a"
  by (simp add: nodes_kept_def)

lemma nodes_keptD: "nodes_kept a b \<Longrightarrow> mget (services b) sid = Some v \<Longrightarrow> \<exists>u. mget (services a) sid = Some u \<and> node_view v = node_view u"
  by (simp add: nodes_kept_def)

lemma node_view_moves [simp]:
  "node_view (v\<lparr>sv_CurrentStreamID := x\<rparr>) = node_view v"
  "node_view (v\<lparr>sv_Status := x\<rparr>) = node_view v"
  "node_view (v\<lparr>sv_AssignmentRole := x\<rparr>) = node_view v"
  "node_view (v\<lparr>sv_UpdatedAt := t\<rparr>) = node_view v"
  "node_view (release_service now v) = node_view v"
  by (simp_all add: node_view_def release_service_def)

lemma nodes_kept_put:
  "mget (services a) sid = Some u \<Longrightarrow> node_view v = node_view u \<Longrightarrow> serviceTokens b = serviceTokens a \<Longrightarrow>
   services b = mput (services a) sid v \<Longrightarrow> nodes_kept a b"
  by (simp add: nodes_kept_def)

lemma service_or_zero_Some: "mget (services a) j \<noteq> None \<Longrightarrow> mget (services a) j = Some (service_or_zero a j)"
  by (auto simp: service_or_zero_def)

lemma assigned_registered: "registry_ok a \<Longrightarrow> mget (assignments a) k = Some j \<Longrightarrow> mget (services a) j \<noteq> None"
  by (auto dest!: registry_entry simp: entry_ok_def)

lemma kept_replace:
  assumes ok: "registry_ok a" and svc: "mget (services a) sid = Some svc"
    and eq: "replace_assignment sid st role uuid now svc a = (svc', b)"
  shows "nodes_kept a b"
proof -
  have reg: "mget (services a) j = Some (service_or_zero a j)"
    if "j \<in> set (replacedServiceIDs sid st (sv_ServiceType svc) role a)" for j
    using that assigned_registered [OF ok] registry_mwf(1) [OF ok]
    by (intro service_or_zero_Some) (auto simp: replacedServiceIDs_iff)
  show ?thesis
    unfolding nodes_kept_def
    using replace_other(1) [OF ok eq] svc
    by (auto simp: replace_services [OF ok eq] replace_result [OF ok eq] reg)
qed

lemma kept_create:
  "(\<And>j. j \<in> set ids \<Longrightarrow> mget (services a) j \<noteq> None) \<Longrightarrow> nodes_kept a (assignCreateServices st uuid now ids a)"
proof (induction ids arbitrary: a)
  case (Cons j ids)
  let ?a1 = "snd (write_assignment (assignmentKey st (sv_ServiceType (service_or_zero a j)) ''primary'' j)
    j st ''primary'' (uuid j) now (service_or_zero a j) a)"
  have svc: "mget (services a) j = Some (service_or_zero a j)" using Cons.prems by (intro service_or_zero_Some) simp
  have 1: "nodes_kept a ?a1" by (rule nodes_kept_put [OF svc]) (simp_all add: write_assignment_def Let_def)
  have "nodes_kept ?a1 (assignCreateServices st uuid now ids ?a1)"
    using Cons.prems by (intro Cons.IH) (auto simp: write_assignment_def Let_def)
  with 1 show ?case unfolding nodes_kept_def by (auto simp: Let_def) metis
qed simp

definition auth_kept :: "panel \<Rightarrow> panel \<Rightarrow> bool" where
  "auth_kept p q \<longleftrightarrow> nodes_kept (ps_auth p) (ps_auth q)"

lemma auth_kept_same [simp]: "ps_auth q = ps_auth p \<Longrightarrow> auth_kept p q"
  by (simp add: auth_kept_def)

lemma kept_outcome: "unless_kept p (\<lambda>out. auth_kept p (snd out)) out \<Longrightarrow> auth_kept p (snd out)"
  by (auto simp: unless_kept_def)

lemma auth_kept_assign:
  assumes ok: "panel_ok p"
  shows "auth_kept p (snd (AssignServiceToStreamGuarded c m uuid now p))"
  unfolding AssignServiceToStreamGuarded_def Let_def
  by (rule kept_outcome, intro outcome_rules; rule unless_keptI)
    (auto simp: auth_kept_def intro: kept_replace [OF panel_registry [OF ok]])

lemma auth_kept_assign_role:
  assumes ok: "panel_ok p"
  shows "auth_kept p (snd (AssignServiceToStreamWithRole c sid st actor role uuid nows p))"
  unfolding AssignServiceToStreamWithRole_def Let_def
  using panel_guards [OF ok] auth_kept_assign [OF ok] by (simp add: snd_with_ctx)

lemma auth_kept_unassign: "auth_kept p (snd (UnassignServiceFromStreamGuarded c um now p))"
  unfolding UnassignServiceFromStreamGuarded_def Let_def
  by (rule kept_outcome, intro outcome_rules; rule unless_keptI)
    (auto simp: auth_kept_def nodes_kept_def drop_service_assignments_def)

lemma auth_kept_unassign_plain: "auth_kept p (snd (UnassignServiceFromStream c sid actor now p))"
  unfolding UnassignServiceFromStream_def Let_def
  using auth_kept_unassign
  by (auto simp: snd_with_ctx auth_kept_def drop_service_assignments_def nodes_kept_def split: option.split)

lemma auth_kept_streams:
  "auth_kept p (snd (BeginStreamArchiveRetryGuarded c sid st now p))"
  "auth_kept p (snd (UpdateStreamSettings c c' i settings now p))"
  "auth_kept p (snd (TransitionClaimedStreamStart marshal sha256hex c claim status now p))"
  unfolding BeginStreamArchiveRetryGuarded_def UpdateStreamSettings_def TransitionClaimedStreamStart_def Let_def
  by (rule kept_outcome, intro outcome_rules; rule unless_keptI; simp)+

lemma auth_kept_restart: "auth_kept p (p\<lparr>ps_auth := snd (RequestServiceRestart c sid now (ps_auth p))\<rparr>)"
  by (auto simp: RequestServiceRestart_def snd_with_ctx auth_kept_def nodes_kept_def Let_def split: option.split)

lemma auth_kept_create:
  "auth_kept p (snd (CreateAssignedStream c st name actor settings x uuids now now' p))"
  unfolding CreateAssignedStream_def Let_def
  by (rule kept_outcome, intro outcome_rules; rule unless_keptI)
    (simp add: auth_kept_def, rule kept_create, blast dest: checkCreateServices_None)

lemma auth_kept_delete_stream:
  assumes ok: "panel_ok p"
  shows "auth_kept p (snd (DeleteStream c i now p))"
proof -
  let ?a = "ps_auth p" and ?b = "releaseStreamServices i now (ps_auth p)"
  note reg = panel_registry [OF ok]
  have tokens: "serviceTokens ?b = serviceTokens ?a" by (simp add: releaseStreamServices_def)
  have some: "mget (services ?a) j = Some (service_or_zero ?a j)" if "j \<in> set (streamServiceIDs i ?a)" for j
    using that releaseStreamServices_get(3) [OF reg] assigned_registered [OF reg]
    by (intro service_or_zero_Some) blast
  have "nodes_kept ?a ?b"
    unfolding nodes_kept_def using tokens some by (auto simp: releaseStreamServices_get(2) [OF reg] split: if_splits)
  then show ?thesis
    unfolding DeleteStream_def Let_def
    by - (rule kept_outcome, intro outcome_rules; rule unless_keptI; simp add: auth_kept_def)
qed

lemma auth_kept_claim:
  assumes ok: "panel_ok p"
  shows "auth_kept p (snd (ClaimStreamStart marshal sha256hex c request uuid now p))"
proof -
  let ?a = "ps_auth p"
  have mat: "nodes_kept ?a (snd (applyMaterialized i uuid now mat ?a))"
    if "startMaterialize ?a i sid expected actual = Inr mat" for i sid expected actual mat
  proof (cases mat)
    case (Some cand)
    obtain candidate key where cand: "cand = (candidate, key)" by (cases cand)
    with Some that obtain svc where svc: "mget (services ?a) sid = Some svc" "candidate = svc\<lparr>sv_AssignmentRole := ''primary''\<rparr>"
      by (auto simp: startMaterialize_def materializeCandidate_def split: if_splits sum.splits option.splits prod.splits)
    have "sv_ServiceID candidate = sid" using svc registry_sid [OF panel_registry [OF ok] svc(1)] by simp
    with Some cand svc show ?thesis
      by (auto simp: applyMaterialized_def writeMaterialized_def write_assignment_def nodes_kept_def Let_def)
  qed (simp add: applyMaterialized_def)
  then show ?thesis
    unfolding ClaimStreamStart_def Let_def
    by - (rule kept_outcome, intro outcome_rules; rule unless_keptI; simp add: auth_kept_def; metis snd_conv)
qed

text \<open>Equal views agree on every field an assignment leaves alone.\<close>

lemma node_view_field:
  assumes "node_view v = node_view u" and "\<And>w. f (node_view w) = f w"
  shows "f v = f u"
  using assms by metis

lemma node_view_eqD:
  assumes "node_view v = node_view u"
  shows "sv_StagedNodeTokenHash v = sv_StagedNodeTokenHash u" "sv_StagedNodeTokenID v = sv_StagedNodeTokenID u"
    "sv_ConfigureTokenHash v = sv_ConfigureTokenHash u" "sv_ConfigureTokenUsedAt v = sv_ConfigureTokenUsedAt u"
    "sv_ConfigureTokenExpiresAt v = sv_ConfigureTokenExpiresAt u"
    "sv_TokenID v = sv_TokenID u" "sv_ServiceID v = sv_ServiceID u" "sv_ServiceType v = sv_ServiceType u"
    "sv_Capabilities v = sv_Capabilities u" "sv_ReportedCapabilities v = sv_ReportedCapabilities u"
    "sv_Metrics v = sv_Metrics u" "sv_PublicURL v = sv_PublicURL u" "sv_Port v = sv_Port u"
  by (rule node_view_field [OF assms]; simp add: node_view_def)+

lemma kept_effect:
  assumes "tokens_ok a" and "nodes_kept a b"
  shows "token_effect a b"
proof (rule effect_stages_less [OF assms(1)])
  show "stages_less a b"
    unfolding stages_less_def
  proof (intro conjI allI impI)
    show "serviceTokens b = serviceTokens a" using assms(2) by (simp add: nodes_kept_def)
    fix sid c assume c: "credential b (Inr sid) = Some c"
    then obtain v where v: "mget (services b) sid = Some v" by (auto split: option.splits)
    then obtain u where "mget (services a) sid = Some u" "node_view v = node_view u" using nodes_keptD [OF assms(2)] by blast
    with c v node_view_eqD(1,2) [of v u] show "credential a (Inr sid) = Some c" by (auto split: if_splits)
  qed
qed

text \<open>Deleting a service also revokes its token.\<close>

definition views_kept :: "auth_store \<Rightarrow> auth_store \<Rightarrow> bool" where
  "views_kept a b \<longleftrightarrow>
     (\<forall>sid v. mget (services b) sid = Some v \<longrightarrow> (\<exists>u. mget (services a) sid = Some u \<and> node_view v = node_view u))"

lemma nodes_kept_views: "nodes_kept a b \<Longrightarrow> views_kept a b"
  by (simp add: nodes_kept_def views_kept_def)

lemma effect_revokeToken:
  assumes ok: "tokens_ok a"
  shows "token_effect a (revokeToken i now a)"
proof (cases "mget (serviceTokens a) i")
  case (Some t)
  have id: "tk_ID t = i" using ok Some by (rule tokens_id)
  have "token_effect a (put_token (t\<lparr>tk_RevokedAt := Some now\<rparr>) a)"
    by (rule effect_token_rewrite [OF ok, of t]) (simp_all add: Some id)
  with Some show ?thesis using token_effect_refl [OF ok] by (simp add: revokeToken_def put_token_def id)
qed (simp add: revokeToken_def token_effect_refl [OF ok])

lemma revokeToken_services [simp]: "services (revokeToken i now a) = services a"
  by (auto simp: revokeToken_def split: option.split)

lemma delete_service_nodes:
  shows "views_kept (ps_auth p) (ps_auth (snd (DeleteService c sid now p)))"
    and "tokens_ok (ps_auth p) \<Longrightarrow> token_effect (ps_auth p) (ps_auth (snd (DeleteService c sid now p)))"
proof -
  let ?a = "ps_auth p"
  let ?b = "(drop_service_assignments sid (?a\<lparr>services := mdel (services ?a) sid\<rparr>))
    \<lparr>streamEvents := filter (\<lambda>e. ev_ServiceID e \<noteq> sid) (streamEvents ?a)\<rparr>"
  have kept: "nodes_kept ?a ?b" by (auto simp: nodes_kept_def drop_service_assignments_def)
  have out: "ps_auth (snd (DeleteService c sid now p)) = ?a \<or>
      (\<exists>i. ps_auth (snd (DeleteService c sid now p)) = revokeToken i now ?b)"
    by (cases c) (auto simp: DeleteService_def Let_def drop_service_assignments_def split: option.split)
  with kept show "views_kept ?a (ps_auth (snd (DeleteService c sid now p)))"
    by (auto dest!: nodes_kept_views simp: views_kept_def)
  show "token_effect ?a (ps_auth (snd (DeleteService c sid now p)))" if ok: "tokens_ok ?a"
    using out token_effect_refl [OF ok] kept_effect [OF ok kept]
      token_effect_trans [OF kept_effect [OF ok kept] effect_revokeToken [OF token_effect_ok [OF kept_effect [OF ok kept]]]]
    by auto
qed

lemma panel_op_kept:
  assumes "panel_op p q" and ok: "panel_ok p"
  shows "auth_kept p q \<or> (\<exists>c sid now. q = snd (DeleteService c sid now p))"
  using assms(1)
proof cases
  case delete_service
  then show ?thesis by blast
qed (auto simp del: snd_conv intro: auth_kept_assign [OF ok] auth_kept_assign_role [OF ok] auth_kept_unassign
    auth_kept_unassign_plain auth_kept_streams auth_kept_restart auth_kept_create auth_kept_delete_stream [OF ok]
    auth_kept_claim [OF ok])

lemma panel_op_nodes:
  assumes "panel_op p q" and "panel_ok p"
  shows panel_op_views: "views_kept (ps_auth p) (ps_auth q)"
    and panel_op_tokens: "tokens_ok (ps_auth p) \<Longrightarrow> token_effect (ps_auth p) (ps_auth q)"
  using panel_op_kept [OF assms] delete_service_nodes kept_effect nodes_kept_views unfolding auth_kept_def by blast+

subsection \<open>The control panel as a state machine\<close>

text \<open>
  The steps of the joined stores with one hash function, one URL parser and one outbound policy for
  the whole run.
\<close>

inductive control_step ::
  "(string \<Rightarrow> string) \<Rightarrow> (string \<Rightarrow> url option) \<Rightarrow> (string \<Rightarrow> bool) \<Rightarrow> panel \<Rightarrow> panel \<Rightarrow> bool"
  for sha256hex parseURL urlAllowed where
  op: "panel_op p q \<Longrightarrow> control_step sha256hex parseURL urlAllowed p q"
| node: "node_op sha256hex parseURL urlAllowed (ps_auth p) a \<Longrightarrow>
    control_step sha256hex parseURL urlAllowed p (p\<lparr>ps_auth := a\<rparr>)"

inductive_cases control_stepE: "control_step sha256hex parseURL urlAllowed p q"

definition control_ok :: "panel \<Rightarrow> bool" where
  "control_ok p \<longleftrightarrow> panel_ok p \<and> tokens_ok (ps_auth p)"

lemma control_okD:
  assumes "control_ok p"
  shows control_panel: "panel_ok p" and control_registry: "registry_ok (ps_auth p)" and control_tokens: "tokens_ok (ps_auth p)"
  using assms by (simp_all add: control_ok_def panel_registry)

lemma control_step_panel: "control_step sha256hex parseURL urlAllowed p q \<Longrightarrow> panel_step p q"
  by (erule control_step.cases) (auto intro: panel_step.intros)

lemma control_step_effect:
  assumes step: "control_step sha256hex parseURL urlAllowed p q" and ok: "control_ok p"
  shows "control_ok q \<and> token_effect (ps_auth p) (ps_auth q)"
proof -
  have "panel_ok q"
    using panel_step_effect [OF control_step_panel [OF step] control_panel [OF ok]] by (simp add: guarded_effect_def)
  moreover have "token_effect (ps_auth p) (ps_auth q)"
    using step
  proof cases
    case op
    then show ?thesis using control_panel [OF ok] control_tokens [OF ok] by (rule panel_op_tokens)
  next
    case (node a)
    then show ?thesis using node_op_tokens [OF _ control_registry [OF ok] control_tokens [OF ok]] by simp
  qed
  ultimately show ?thesis using token_effect_ok by (auto simp: control_ok_def)
qed

abbreviation control_init :: "panel \<Rightarrow> bool" where
  "control_init p \<equiv> p = BindStreamAssignmentGuard NewPanel"

interpretation control: inductive_invariant control_init "control_step sha256hex parseURL urlAllowed" control_ok
proof unfold_locales
  show "control_ok p" if "control_init p" for p
    using that panel_ok_init tokens_ok_init by (simp add: control_ok_def) (simp add: BindStreamAssignmentGuard_def NewPanel_def)
  show "control_ok q" if "control_ok p" "control_step sha256hex parseURL urlAllowed p q" for p q
    using control_step_effect [OF that(2,1)] by simp
qed

end
