(* ===== verification/Node_Properties.thy ===== *)
theory Node_Properties
  imports Node_Invariant
begin

text \<open>
  What the registry guarantees about the tokens and the catalogue in every reachable state.
\<close>

subsection \<open>Tokens\<close>

abbreviation control_reach :: "(string \<Rightarrow> string) \<Rightarrow> (string \<Rightarrow> url option) \<Rightarrow> (string \<Rightarrow> bool) \<Rightarrow> panel \<Rightarrow> bool" where
  "control_reach sha256hex parseURL urlAllowed \<equiv> reach control_init (control_step sha256hex parseURL urlAllowed)"

lemma run_tokens_kept:
  assumes "(control_step sha256hex parseURL urlAllowed)\<^sup>*\<^sup>* p q" and "control_ok p"
  shows "control_ok q \<and> tokens_kept (ps_auth p) (ps_auth q)"
  using assms
proof (induction rule: rtranclp_induct)
  case (step q r)
  then have q: "control_ok q" "tokens_kept (ps_auth p) (ps_auth q)" by simp_all
  with control_step_effect [OF step.hyps(2) q(1)] show ?case
    by (auto simp: token_effect_def intro: tokens_kept_trans)
qed simp

text \<open>The secret of a token finds that token and no other.\<close>

lemma find_token:
  assumes ok: "tokens_ok a" and t: "mget (serviceTokens a) i = Some t"
  shows "find (\<lambda>token. tk_TokenHash token = tk_TokenHash t) (map snd (serviceTokens a)) = Some t"
proof -
  have wf: "mwf (serviceTokens a)" using tokens_keyed [OF ok] by (rule keyed_mwf)
  have unique: "u = t" if "u \<in> set (map snd (serviceTokens a))" "tk_TokenHash u = tk_TokenHash t" for u
  proof -
    from that(1) obtain j where "(j, u) \<in> set (serviceTokens a)" by auto
    then have j: "mget (serviceTokens a) j = Some u" using wf by (simp add: gm.entries_get)
    have "j = i"
    proof (rule ccontr)
      assume "j \<noteq> i"
      with tokens_apart [OF ok, of "Inl j" "(j, tk_TokenHash u)" "Inl i" "(i, tk_TokenHash t)"] j t that(2)
      show False by (simp add: apart_def)
    qed
    with j t show ?thesis by simp
  qed
  have mem: "t \<in> set (map snd (serviceTokens a))" using mget_in [OF t] by force
  then obtain u where "find (\<lambda>token. tk_TokenHash token = tk_TokenHash t) (map snd (serviceTokens a)) = Some u"
    by (metis (mono_tags, lifting) find_None_iff not_None_eq)
  moreover from this have "u \<in> set (map snd (serviceTokens a))" "tk_TokenHash u = tk_TokenHash t"
    by (auto simp: find_Some_iff)
  ultimately show ?thesis using unique by simp
qed

lemma authenticate_revoked:
  assumes "tokens_ok a" and "mget (serviceTokens a) i = Some t" and "tk_RevokedAt t \<noteq> None" and "sha256hex raw = tk_TokenHash t"
  shows "AuthenticateServiceToken sha256hex None raw scope a = (Inl ErrUnauthorized, a)"
  using find_token [OF assms(1,2)] assms(3,4) by (simp add: AuthenticateServiceToken_def)

lemma authenticate_active:
  assumes "tokens_ok a" and "mget (serviceTokens a) i = Some t" and "tk_RevokedAt t = None" and "sha256hex raw = tk_TokenHash t"
    and "scope = [] \<or> hasString (tk_Scopes t) scope"
  shows "AuthenticateServiceToken sha256hex None raw scope a = (Inr t, a)"
  using find_token [OF assms(1,2)] assms(3-5) by (auto simp: AuthenticateServiceToken_def)


definition sample_sha :: "string \<Rightarrow> string" where
  "sample_sha x = CHR ''h'' # x"

definition sample_control :: "auth_store \<Rightarrow> panel" where
  "sample_control a = sample_panel0\<lparr>ps_auth := a\<rparr>"

definition sample_issued :: auth_store where
  "sample_issued = snd (CreateServiceToken sample_sha None ''worker'' [''service.heartbeat''] (Inr ''r1'') ''t1'' 1000 NewMemoryAuthStore)"

definition sample_revoked :: auth_store where
  "sample_revoked = snd (RevokeServiceToken None ''t1'' 2000 sample_issued)"

definition sample_reissued :: auth_store where
  "sample_reissued = snd (CreateServiceToken sample_sha None ''worker'' [''service.heartbeat''] (Inr ''r2'') ''t2'' 3000 sample_revoked)"

lemma sample_control_step:
  "node_op sha256hex parseURL urlAllowed a b \<Longrightarrow>
   control_step sha256hex parseURL urlAllowed (sample_control a) (sample_control b)"
  using control_step.node [of sha256hex parseURL urlAllowed "sample_control a" b] by (simp add: sample_control_def)

lemma sample_control_reach:
  assumes "node_op sha256hex parseURL urlAllowed a b" and "control_reach sha256hex parseURL urlAllowed (sample_control a)"
  shows "control_reach sha256hex parseURL urlAllowed (sample_control b)"
  using assms(2) sample_control_step [OF assms(1)] by (rule reach.reach_step)

lemma sample_control_init: "control_reach sha256hex parseURL urlAllowed (sample_control NewMemoryAuthStore)"
proof -
  have "sample_control NewMemoryAuthStore = BindStreamAssignmentGuard NewPanel"
    by (simp add: sample_control_def sample_panel0_def BindStreamAssignmentGuard_def NewPanel_def)
  then show ?thesis by (simp add: reach.reach_init)
qed

lemma sample_issued_op: "node_op sample_sha parseURL urlAllowed NewMemoryAuthStore sample_issued"
  unfolding sample_issued_def by (rule node_op.create_token) code_simp

lemma sample_revoked_op: "node_op sample_sha parseURL urlAllowed sample_issued sample_revoked"
  unfolding sample_revoked_def by (rule node_op.revoke_token)

lemma sample_reissued_op: "node_op sample_sha parseURL urlAllowed sample_revoked sample_reissued"
  unfolding sample_reissued_def by (rule node_op.create_token) code_simp


subsection \<open>How a stored service may change\<close>

text \<open>Every rewriting of a stored service, except the one that arms a new configure token.\<close>

inductive quiet :: "(string \<Rightarrow> url option) \<Rightarrow> (string \<Rightarrow> bool) \<Rightarrow> registered_service \<Rightarrow> registered_service \<Rightarrow> bool"
  for parseURL urlAllowed u where
  same: "quiet parseURL urlAllowed u u"
| forgotten: "quiet parseURL urlAllowed u (forget_heartbeat now u)"
| rotated: "quiet parseURL urlAllowed u (rotated_service i now u)"
| rotated_node: "quiet parseURL urlAllowed u ((rotated_service i now u)\<lparr>sv_NodeTokenCiphertext := x, sv_NodeTokenNonce := y,
    sv_ConfigureTokenHash := [], sv_ConfigureTokenExpiresAt := None, sv_ConfigureTokenUsedAt := None\<rparr>)"
| consumed: "quiet parseURL urlAllowed u (u\<lparr>sv_ConfigureTokenUsedAt := Some now, sv_UpdatedAt := now\<rparr>)"
| configured: "quiet parseURL urlAllowed u ((applyServiceRuntimeReport u report now)\<lparr>sv_TokenID := i,
    sv_NodeTokenCiphertext := x, sv_NodeTokenNonce := y, sv_ConfigureTokenUsedAt := Some now, sv_LastHeartbeatAt := None,
    sv_ReportedCapabilities := [], sv_NodeTokenRotatedAt := Some now, sv_UpdatedAt := now\<rparr>)"
| staged: "quiet parseURL urlAllowed u (staged_service t t' x y z now u)"
| activated: "quiet parseURL urlAllowed u (activated_service report now u)"
| secret: "quiet parseURL urlAllowed u (u\<lparr>sv_NodeTokenCiphertext := x, sv_NodeTokenNonce := y, sv_UpdatedAt := now\<rparr>)"
| registered: "r = bindPrecreatedUpdateAgentRegistration (normalizeServiceRegistration parseURL r0) m h e \<Longrightarrow>
    validateServiceRegistration parseURL urlAllowed r = None \<Longrightarrow> sv_ServiceType u = rg_ServiceType r \<Longrightarrow>
    quiet parseURL urlAllowed u (registered parseURL r u i now)"
| beaten: "quiet parseURL urlAllowed u (beaten parseURL beat now u)"
| reported: "quiet parseURL urlAllowed u (applyServiceRuntimeReport u report now)"
| updated: "mu = normalizeServiceMetadataUpdate parseURL mu0 \<Longrightarrow> validateServiceMetadataUpdate parseURL urlAllowed mu \<Longrightarrow>
    quiet parseURL urlAllowed u (updated_service parseURL mu now u)"

definition precreated ::
  "(string \<Rightarrow> url option) \<Rightarrow> (string \<Rightarrow> bool) \<Rightarrow> string \<Rightarrow> registered_service \<Rightarrow> bool" where
  "precreated parseURL urlAllowed sid v \<longleftrightarrow>
     (\<exists>token r now. fst (PrecreateService parseURL urlAllowed None token r now NewMemoryAuthStore) = Inr v \<and> sv_ServiceID v = sid)"

definition quiet_store :: "(string \<Rightarrow> url option) \<Rightarrow> (string \<Rightarrow> bool) \<Rightarrow> auth_store \<Rightarrow> auth_store \<Rightarrow> bool" where
  "quiet_store parseURL urlAllowed a b \<longleftrightarrow>
     (\<forall>sid v. mget (services b) sid = Some v \<longrightarrow>
        (\<exists>u. mget (services a) sid = Some u \<and> quiet parseURL urlAllowed u v) \<or>
        (mget (services a) sid = None \<and> precreated parseURL urlAllowed sid v))"

lemma quiet_same: "services b = services a \<Longrightarrow> quiet_store parseURL urlAllowed a b"
  by (auto simp: quiet_store_def intro: quiet.same)

lemma quiet_put:
  "mget (services a) sid = Some u \<Longrightarrow> quiet parseURL urlAllowed u v \<Longrightarrow> services b = mput (services a) sid v \<Longrightarrow>
   quiet_store parseURL urlAllowed a b"
  by (auto simp: quiet_store_def intro: quiet.same)

lemma quiet_mmap:
  "(\<And>u. quiet parseURL urlAllowed u (f u)) \<Longrightarrow> services b = mmap_where P f (services a) \<Longrightarrow> quiet_store parseURL urlAllowed a b"
  by (auto simp: quiet_store_def intro: quiet.same)

lemma quiet_outcome:
  "unless_kept a (\<lambda>out. quiet_store parseURL urlAllowed a (snd out)) out \<Longrightarrow> quiet_store parseURL urlAllowed a (snd out)"
  by (auto simp: unless_kept_def quiet_same)

lemma services_replace [simp]: "services (replace_token sid old token now a) = services a"
  using replace_token_put [of sid old token now a] by auto

lemma services_retire [simp]: "services (retire_token old now a) = services a"
  by (simp add: retire_token_def)

lemma services_put_service [simp]: "services (put_service sid v a) = mput (services a) sid v"
  by (simp add: put_service_def)

lemma services_history [simp]: "services (recordMetricHistoryLocked svc now a) = services a"
  by (simp add: recordMetricHistoryLocked_def Let_def)

lemma quiet_put_own:
  assumes "registry_ok a" and "mget (services a) sid = Some u" and "quiet parseURL urlAllowed u v" and "sv_ServiceID v = sv_ServiceID u"
    and "services b = mput (services a) (sv_ServiceID v) v"
  shows "quiet_store parseURL urlAllowed a b"
  using assms registry_sid [OF assms(1,2)] by (intro quiet_put [of a sid u]) simp_all

lemma quiet_create: "quiet_store parseURL urlAllowed a (snd (CreateServiceToken sha c ty scopes random uuid now a))"
  unfolding CreateServiceToken_def Let_def
  by (rule quiet_outcome, intro outcome_rules; rule unless_keptI, simp only: snd_conv, rule quiet_same, simp)

lemma quiet_revoke: "quiet_store parseURL urlAllowed a (snd (RevokeServiceToken c i now a))"
  unfolding RevokeServiceToken_def Let_def
  by (rule quiet_outcome, intro outcome_rules; rule unless_keptI, simp only: snd_conv, rule quiet_mmap, rule quiet.forgotten, simp)

lemma quiet_rotate: "quiet_store parseURL urlAllowed a (snd (RotateServiceToken sha c i random uuid now a))"
  unfolding RotateServiceToken_def Let_def
  by (rule quiet_outcome, intro outcome_rules; rule unless_keptI, simp only: snd_conv, rule quiet_mmap, rule quiet.rotated, simp)

lemma quiet_rotate_node: "quiet_store parseURL urlAllowed a (snd (RotateServiceNodeToken sha c sid i sealer random uuid c' now a))"
  unfolding RotateServiceNodeToken_def Let_def
  by (rule quiet_outcome, intro outcome_rules; rule unless_keptI, simp only: snd_conv, rule quiet_put, assumption, rule quiet.rotated_node, simp)

lemma quiet_configure: "quiet_store parseURL urlAllowed a (snd (ConfigureServiceNode sha c sid raw now report sealer random uuid c' a))"
  unfolding ConfigureServiceNode_def Let_def
  by (rule quiet_outcome, intro outcome_rules; rule unless_keptI, simp only: snd_conv, rule quiet_put, assumption, rule quiet.configured, simp)

lemma quiet_stage: "quiet_store parseURL urlAllowed a (snd (StageServiceNodeConfiguration sha c sid raw now sealer random uuid activation c' a))"
  unfolding StageServiceNodeConfiguration_def Let_def
  by (rule quiet_outcome, intro outcome_rules; rule unless_keptI, simp only: snd_conv, rule quiet_put, assumption, rule quiet.staged, simp)

lemma quiet_activate: "quiet_store parseURL urlAllowed a (snd (ActivateServiceNodeConfiguration sha c sid i raw now report c' a))"
  unfolding ActivateServiceNodeConfiguration_def replayed_activation_def Let_def
  by (rule quiet_outcome, intro outcome_rules; rule unless_keptI, simp only: snd_conv, rule quiet_put, assumption, rule quiet.activated, simp)

lemma quiet_secret: "quiet_store parseURL urlAllowed a (snd (SetServiceNodeTokenSecret c sid x y now a))"
  unfolding SetServiceNodeTokenSecret_def Let_def
  by (rule quiet_outcome, intro outcome_rules; rule unless_keptI, simp only: snd_conv, rule quiet_put, assumption, rule quiet.secret, simp)

lemma quiet_consume: "quiet_store parseURL urlAllowed a (snd (ConsumeServiceConfigureToken sha c sid raw now a))"
  unfolding ConsumeServiceConfigureToken_def Let_def
  by (rule quiet_outcome, intro outcome_rules; rule unless_keptI, simp only: snd_conv, rule quiet_put, assumption, rule quiet.consumed, simp)

lemmas quiet_ops = quiet_create quiet_revoke quiet_rotate quiet_rotate_node quiet_configure quiet_stage quiet_activate
  quiet_secret quiet_consume

lemma quiet_metadata: "quiet_store parseURL urlAllowed a (snd (UpdateServiceMetadata parseURL urlAllowed c sid update now a))"
  unfolding UpdateServiceMetadata_def Let_def
  by (rule quiet_outcome, intro outcome_rules; rule unless_keptI, simp only: snd_conv, rule quiet_put, assumption,
      rule quiet.updated [OF refl]; simp)

lemma quiet_reports:
  assumes reg: "registry_ok a"
  shows "quiet_store parseURL urlAllowed a (snd (UpdateServiceRuntimeReport c report now a))"
    and "quiet_store parseURL urlAllowed a (snd (Heartbeat parseURL c token h now a))"
    and "quiet_store parseURL urlAllowed a (snd (WriteStreamEvent parseURL c token e a))"
  unfolding UpdateServiceRuntimeReport_def Heartbeat_def WriteStreamEvent_def Let_def
    apply (rule quiet_outcome, intro outcome_rules; rule unless_keptI, simp only: snd_conv, rule quiet_put_own [OF reg], assumption,
      rule quiet.reported, simp add: applyServiceRuntimeReport_def, simp)
   apply (rule quiet_outcome, intro outcome_rules; rule unless_keptI, simp only: snd_conv, rule quiet_put_own [OF reg], assumption,
      rule quiet.beaten, simp add: beaten_def Let_def, simp)
  by (rule quiet_outcome, intro outcome_rules; rule unless_keptI, simp only: snd_conv, rule quiet_same, simp)

lemma quiet_register:
  assumes reg: "registry_ok a"
  shows "quiet_store parseURL urlAllowed a (snd (RegisterService parseURL urlAllowed c token r now a))"
  unfolding RegisterService_def Let_def
  by (rule quiet_outcome, intro outcome_rules; rule unless_keptI, simp only: snd_conv, rule quiet_put_own [OF reg], assumption,
      rule quiet.registered [OF refl], assumption, simp)
    (use registry_sid [OF reg] in \<open>auto simp: registered_place\<close>)

lemma precreate_elsewhere:
  "PrecreateService parseURL urlAllowed c token r now a = (Inr v, b) \<Longrightarrow>
   c = None \<and> mget (services a) (sv_ServiceID v) = None \<and> services b = mput (services a) (sv_ServiceID v) v \<and>
   precreated parseURL urlAllowed (sv_ServiceID v) v"
  unfolding precreated_def
  by (cases c) (auto simp: PrecreateService_def Let_def NewMemoryAuthStore_def simp del: hydrate_place split: if_splits option.splits)

lemma quiet_precreate: "quiet_store parseURL urlAllowed a (snd (PrecreateService parseURL urlAllowed c token r now a))"
proof -
  have "settled a (\<lambda>v b. True) (PrecreateService parseURL urlAllowed c token r now a)"
    unfolding PrecreateService_def Let_def by (intro settled_rules) simp
  then show ?thesis
  proof (rule settled_cases)
    fix v b assume "PrecreateService parseURL urlAllowed c token r now a = (Inr v, b)"
    with precreate_elsewhere [OF this] show ?thesis by (auto simp: quiet_store_def intro: quiet.same)
  qed (simp add: quiet_same)
qed

lemma node_op_quiet:
  assumes "node_op sha256hex parseURL urlAllowed a b" and reg: "registry_ok a"
  shows "quiet_store parseURL urlAllowed a b \<or> (\<exists>c sid h e now. b = snd (SetServiceConfigureToken c sid h e now a))"
  using assms(1)
proof cases
  case set_configure
  then show ?thesis by blast
qed (simp_all only: quiet_ops quiet_metadata quiet_reports [OF reg] quiet_register [OF reg]
    quiet_precreate simp_thms)

subsection \<open>The configure token\<close>

text \<open>The configure token a service can still be configured with, and until when.\<close>

definition armed :: "registered_service \<Rightarrow> (string \<times> time) option" where
  "armed svc =
     (if sv_ConfigureTokenHash svc = [] \<or> sv_ConfigureTokenUsedAt svc \<noteq> None then None
      else map_option (\<lambda>t. (sv_ConfigureTokenHash svc, t)) (sv_ConfigureTokenExpiresAt svc))"

lemma usable_armed:
  "configureTokenUsable sha256hex svc raw now \<longleftrightarrow> (\<exists>t. armed svc = Some (sha256hex raw, t) \<and> now < t)"
  by (auto simp: configureTokenUsable_def armed_def VerifyTokenHash_def split: option.splits)

lemma hydrate_armed [simp]: "armed (hydrateServiceEndpointState parseURL v) = armed v"
  by (simp add: hydrateServiceEndpointState_def armed_def Let_def)

lemma quiet_armed: "quiet parseURL urlAllowed u v \<Longrightarrow> armed v = Some x \<Longrightarrow> armed u = Some x"
  by (erule quiet.cases)
    (auto simp: armed_def forget_heartbeat_def rotated_service_def clearStagedNodeConfiguration_def applyServiceRuntimeReport_def
      staged_service_def activated_service_def registered_def keep_node_def beaten_def updated_service_def Let_def split: if_splits)

lemma precreated_armed: "precreated parseURL urlAllowed sid v \<Longrightarrow> armed v = None"
  by (auto simp: precreated_def PrecreateService_def armed_def registration_fields_def zero_service_def Let_def
      hydrateServiceEndpointState_def split: if_splits option.splits)

text \<open>No secret is accepted as the configure token of the service.\<close>

definition configure_refused :: "(string \<Rightarrow> string) \<Rightarrow> string \<Rightarrow> auth_store \<Rightarrow> bool" where
  "configure_refused sha256hex sid a \<longleftrightarrow>
     (\<forall>raw now. fst (ValidateServiceConfigureToken sha256hex None sid raw now a) \<noteq> Inr True)"

lemma configure_refused_iff:
  "trimSpace sid = sid \<Longrightarrow> sid \<noteq> [] \<Longrightarrow> configure_refused sha256hex sid a \<longleftrightarrow>
     (\<forall>svc raw now. mget (services a) sid = Some svc \<longrightarrow> \<not> configureTokenUsable sha256hex svc raw now)"
  by (auto simp: configure_refused_def ValidateServiceConfigureToken_def Let_def split: option.splits)

text \<open>Each use of the token spends it.\<close>

lemma configure_spends:
  "ensures (\<lambda>x b. \<exists>svc. mget (services b) (trimSpace sid) = Some svc \<and> armed svc = None)
     (ConfigureServiceNode sha256hex c sid raw now report sealer random uuid c' a)"
  "ensures (\<lambda>x b. \<exists>svc. mget (services b) (trimSpace sid) = Some svc \<and> armed svc = None)
     (StageServiceNodeConfiguration sha256hex c sid raw now sealer random uuid activation c' a)"
  "ensures (\<lambda>x b. \<exists>svc. mget (services b) sid = Some svc \<and> armed svc = None)
     (ConsumeServiceConfigureToken sha256hex c sid raw now a)"
  unfolding ConfigureServiceNode_def StageServiceNodeConfiguration_def ConsumeServiceConfigureToken_def Let_def
  by (intro ensures_rules; simp add: armed_def staged_service_def)+

text \<open>Each use needs a token that is still good.\<close>

lemma configure_needs:
  "ensures (\<lambda>x b. \<exists>svc. mget (services a) (trimSpace sid) = Some svc \<and> configureTokenUsable sha256hex svc raw now)
     (ConfigureServiceNode sha256hex c sid raw now report sealer random uuid c' a)"
  "ensures (\<lambda>x b. \<exists>svc. mget (services a) (trimSpace sid) = Some svc \<and> configureTokenUsable sha256hex svc raw now)
     (StageServiceNodeConfiguration sha256hex c sid raw now sealer random uuid activation c' a)"
  "ensures (\<lambda>x b. \<exists>svc. mget (services a) sid = Some svc \<and> configureTokenUsable sha256hex svc raw now)
     (ConsumeServiceConfigureToken sha256hex c sid raw now a)"
  unfolding ConfigureServiceNode_def StageServiceNodeConfiguration_def ConsumeServiceConfigureToken_def Let_def
  by (intro ensures_rules; blast)+

lemma node_op_refused:
  assumes op: "node_op sha256hex parseURL urlAllowed a b" and reg: "registry_ok a" and sid: "trimSpace sid = sid" "sid \<noteq> []"
    and dead: "configure_refused sha256hex sid a"
  shows "configure_refused sha256hex sid b \<or> (\<exists>c h e now. b = snd (SetServiceConfigureToken c sid h e now a))"
  using node_op_quiet [OF op reg]
proof
  assume quiet: "quiet_store parseURL urlAllowed a b"
  have "\<not> configureTokenUsable sha256hex v raw now" if v: "mget (services b) sid = Some v" for v raw now
  proof
    assume "configureTokenUsable sha256hex v raw now"
    then obtain t where t: "armed v = Some (sha256hex raw, t)" "now < t" by (auto simp: usable_armed)
    from quiet v t(1) obtain u where u: "mget (services a) sid = Some u" "armed u = Some (sha256hex raw, t)"
      unfolding quiet_store_def using quiet_armed precreated_armed by (metis option.distinct(1))
    with t(2) have "configureTokenUsable sha256hex u raw now" by (auto simp: usable_armed)
    with dead sid u(1) show False by (auto simp: configure_refused_iff)
  qed
  with sid show ?thesis by (auto simp: configure_refused_iff)
next
  assume "\<exists>c sid h e now. b = snd (SetServiceConfigureToken c sid h e now a)"
  then obtain c sid' h e now where b: "b = snd (SetServiceConfigureToken c sid' h e now a)" by blast
  show ?thesis
  proof (cases "sid' = sid")
    case False
    then have "mget (services b) sid = mget (services a) sid"
      unfolding b by (cases c) (auto simp: SetServiceConfigureToken_def Let_def split: option.split)
    with dead sid show ?thesis by (simp add: configure_refused_iff)
  qed (use b in blast)
qed

lemma panel_op_refused:
  assumes "panel_op p q" and "panel_ok p" and sid: "trimSpace sid = sid" "sid \<noteq> []"
    and dead: "configure_refused sha256hex sid (ps_auth p)"
  shows "configure_refused sha256hex sid (ps_auth q)"
proof -
  have "\<not> configureTokenUsable sha256hex v raw now" if "mget (services (ps_auth q)) sid = Some v" for v raw now
  proof -
    from that panel_op_views [OF assms(1,2)] obtain u where u: "mget (services (ps_auth p)) sid = Some u" "node_view v = node_view u"
      by (auto simp: views_kept_def)
    then have "\<not> configureTokenUsable sha256hex u raw now" using dead sid by (auto simp: configure_refused_iff)
    moreover have "armed v = armed u" using node_view_eqD(3-5) [OF u(2)] by (simp add: armed_def)
    ultimately show ?thesis by (simp add: usable_armed)
  qed
  with sid show ?thesis by (auto simp: configure_refused_iff)
qed


text \<open>An update agent with a token, created ahead of time and given a configure token.\<close>

definition agent_scopes :: "string list" where
  "agent_scopes = [''updates.claim'', ''updates.report'', ''updates.authorize'']"

definition agent_registration :: service_registration where
  "agent_registration = (sample_registration ''agent'' ''update_agent'')\<lparr>rg_TransportMode := ''pull_v2'',
     rg_ExecutionHostID := ''host1'', rg_Host := [], rg_Port := 0, rg_PublicURL := []\<rparr>"

definition agent_token :: service_token where
  "agent_token = issued_token sample_sha ''update_agent'' agent_scopes ''r1'' ''t1'' 1000"

definition agent_issued :: auth_store where
  "agent_issued = snd (CreateServiceToken sample_sha None ''update_agent'' agent_scopes (Inr ''r1'') ''t1'' 1000 NewMemoryAuthStore)"

definition agent_created :: auth_store where
  "agent_created = snd (PrecreateService (\<lambda>_. None) (\<lambda>_. True) None agent_token agent_registration 1500 agent_issued)"

definition agent_armed :: auth_store where
  "agent_armed = snd (SetServiceConfigureToken None ''agent'' (sample_sha ''cfg'') 9000 2000 agent_created)"

definition sample_sealer :: "node_token_sealer option" where
  "sample_sealer = Some (\<lambda>raw. Inr (raw, ''n''))"

definition agent_stage :: "(staged_service_node_configuration, auth_store) outcome" where
  "agent_stage = StageServiceNodeConfiguration sample_sha None ''agent'' ''cfg'' 3000 sample_sealer (Inr ''r2'') ''t2'' (Inr ''a1'') None
     agent_armed"

lemma agent_reach: "control_reach sample_sha (\<lambda>_. None) (\<lambda>_. True) (sample_control agent_armed)"
proof -
  have "node_op sample_sha (\<lambda>_. None) (\<lambda>_. True) NewMemoryAuthStore agent_issued"
    unfolding agent_issued_def by (rule node_op.create_token) code_simp
  moreover have "node_op sample_sha (\<lambda>_. None) (\<lambda>_. True) agent_issued agent_created"
    unfolding agent_created_def by (rule node_op.precreate)
  moreover have "node_op sample_sha (\<lambda>_. None) (\<lambda>_. True) agent_created agent_armed"
    unfolding agent_armed_def by (rule node_op.set_configure)
  ultimately show ?thesis by (blast intro: sample_control_reach sample_control_init)
qed

lemma agent_stage_Inr:
  "\<exists>conf. agent_stage = (Inr conf, snd agent_stage) \<and> sc_ActivationToken conf = ''ast_act_a1'' \<and>
     sc_ActivationExpiresAt conf = 9000 \<and> sv_TokenID (sc_Service conf) = ''t1'' \<and> tk_RawToken (sc_Token conf) = ''ast_svc_r2''"
proof -
  have "case fst agent_stage of Inl _ \<Rightarrow> False | Inr conf \<Rightarrow> sc_ActivationToken conf = ''ast_act_a1'' \<and>
     sc_ActivationExpiresAt conf = 9000 \<and> sv_TokenID (sc_Service conf) = ''t1'' \<and> tk_RawToken (sc_Token conf) = ''ast_svc_r2''"
    by code_simp
  then obtain conf where conf: "fst agent_stage = Inr conf" "sc_ActivationToken conf = ''ast_act_a1''"
    "sc_ActivationExpiresAt conf = 9000" "sv_TokenID (sc_Service conf) = ''t1''" "tk_RawToken (sc_Token conf) = ''ast_svc_r2''"
    by (auto split: sum.splits)
  from conf(1) have "agent_stage = (Inr conf, snd agent_stage)" by (metis prod.collapse)
  with conf show ?thesis by blast
qed


subsection \<open>Two-phase configuration of an update agent\<close>

text \<open>What staging has checked and written: \<open>u\<close> is the service, \<open>old\<close> its token, \<open>conf\<close> the answer.\<close>

definition staging ::
  "(string \<Rightarrow> string) \<Rightarrow> string \<Rightarrow> time \<Rightarrow> string result \<Rightarrow> string \<Rightarrow> auth_store \<Rightarrow> registered_service \<Rightarrow> service_token \<Rightarrow>
   staged_service_node_configuration \<Rightarrow> bool" where
  "staging sha256hex sid now random uuid a u old conf \<longleftrightarrow>
     sid \<noteq> [] \<and> mget (services a) sid = Some u \<and> sv_ServiceType u = ''update_agent'' \<and>
     mget (serviceTokens a) (sv_TokenID u) = Some old \<and> tk_ServiceType old = ''update_agent'' \<and>
     (tk_RevokedAt old \<noteq> None \<longrightarrow> isEmergencyRevokedNodeConfigurationAnchor u old) \<and>
     validateRequiredUpdateAgentScopes ''update_agent'' (tk_Scopes old) \<and>
     list_all (\<lambda>(j, v). updateAgentStageTokenReferenceAllowed j (sv_TokenID v) (sv_StagedNodePreviousTokenID v)
       (sv_StagedNodeTokenID v) sid (tk_ID old)) (services a) \<and>
     sv_ConfigureTokenExpiresAt u = Some (sc_ActivationExpiresAt conf) \<and> sc_ActivationToken conf \<noteq> [] \<and>
     (\<exists>raw. random = Inr raw \<and>
        sc_Token conf = issued_token sha256hex ''update_agent'' (ProjectedServiceTokenScopesForRotation old) raw uuid now) \<and>
     (\<exists>x y. sc_Service conf = staged_service old (sc_Token conf) x y (sha256hex (sc_ActivationToken conf)) now u)"

lemma stage_staging:
  "ensures (\<lambda>conf b. \<exists>u old. staging sha256hex (trimSpace sid) now random uuid a u old conf \<and>
      b = put_service (trimSpace sid) (sc_Service conf) a)
    (StageServiceNodeConfiguration sha256hex c sid cfg now sealer random uuid activation c' a)"
  unfolding StageServiceNodeConfiguration_def Let_def newRotatedServiceToken_def staging_def
  by (intro ensures_rules) (auto simp: usable_armed armed_def split: sum.splits if_splits)

lemma staged_anchor:
  "isEmergencyRevokedNodeConfigurationAnchor (staged_service t t' x y z now u) old = isEmergencyRevokedNodeConfigurationAnchor u old"
  by (simp add: isEmergencyRevokedNodeConfigurationAnchor_def requiresStagedNodeTokenRotation_def staged_service_def)

lemma agent_projection: "tk_ServiceType t = ''update_agent'' \<Longrightarrow> ProjectedServiceTokenScopesForRotation t = tk_Scopes t"
  by (simp add: ProjectedServiceTokenScopesForRotation_def Let_def)

lemma fresh_id_unused:
  assumes "\<not> known_id a i" and "mget (services a) sid = Some svc"
  shows "sv_TokenID svc \<noteq> i" "sv_StagedNodeTokenID svc \<noteq> i" "sv_StagedNodePreviousTokenID svc \<noteq> i"
  using assms mget_in [of "services a" sid svc] by (auto simp: known_id_def list_ex_iff)

text \<open>Staging left every reference in the state that activation asks for.\<close>

lemma activation_references:
  assumes wf: "mwf (services a)" and u: "mget (services a) sid = Some u" and new: "\<not> known_id a i" and old: "sv_TokenID u = k"
    and stage: "list_all (\<lambda>(j, v). updateAgentStageTokenReferenceAllowed j (sv_TokenID v) (sv_StagedNodePreviousTokenID v)
      (sv_StagedNodeTokenID v) sid k) (services a)"
    and v: "sv_TokenID v = k" "sv_StagedNodePreviousTokenID v = k" "sv_StagedNodeTokenID v = i"
  shows "list_all (\<lambda>(j, v). updateAgentActivationTokenReferenceAllowed j (sv_TokenID v) (sv_StagedNodePreviousTokenID v)
      (sv_StagedNodeTokenID v) sid k i) (services (put_service sid v a))"
  unfolding list_all_iff
proof
  fix e assume "e \<in> set (services (put_service sid v a))"
  moreover obtain j w where e: "e = (j, w)" by (cases e)
  ultimately have w: "mget (services (put_service sid v a)) j = Some w" using wf by (simp add: gm.entries_get)
  show "case e of (j, v) \<Rightarrow> updateAgentActivationTokenReferenceAllowed j (sv_TokenID v) (sv_StagedNodePreviousTokenID v)
      (sv_StagedNodeTokenID v) sid k i"
  proof (cases "j = sid")
    case True
    with w v show ?thesis by (simp add: e updateAgentActivationTokenReferenceAllowed_def)
  next
    case False
    with w have j: "mget (services a) j = Some w" by simp
    with stage mget_in have "updateAgentStageTokenReferenceAllowed j (sv_TokenID w) (sv_StagedNodePreviousTokenID w)
        (sv_StagedNodeTokenID w) sid k" by (fastforce simp: list_all_iff)
    with False fresh_id_unused [OF new j] show ?thesis
      by (simp add: e updateAgentStageTokenReferenceAllowed_def updateAgentActivationTokenReferenceAllowed_def)
  qed
qed

text \<open>With the references in order nothing refers to the old token after the activation.\<close>

lemma activation_retires:
  assumes wf: "mwf (services a)" and k: "k \<noteq> []"
    and stage: "list_all (\<lambda>(j, v). updateAgentStageTokenReferenceAllowed j (sv_TokenID v) (sv_StagedNodePreviousTokenID v)
      (sv_StagedNodeTokenID v) sid k) (services a)"
    and v: "sv_TokenID v \<noteq> k" "sv_StagedNodePreviousTokenID v = []" "sv_StagedNodeTokenID v = []"
  shows "\<not> list_ex (\<lambda>(_, w). sv_TokenID w = k \<or> sv_StagedNodePreviousTokenID w = k \<or> sv_StagedNodeTokenID w = k)
      (mput (services a) sid v)"
proof (clarsimp simp: list_ex_iff)
  fix j w assume "(j, w) \<in> set (mput (services a) sid v)"
    and ref: "sv_TokenID w = k \<or> sv_StagedNodePreviousTokenID w = k \<or> sv_StagedNodeTokenID w = k"
  then have w: "mget (mput (services a) sid v) j = Some w" using wf by (simp add: gm.entries_get)
  show False
  proof (cases "j = sid")
    case True
    with w v k ref show ?thesis by auto
  next
    case False
    with w have "mget (services a) j = Some w" by simp
    with stage mget_in have "updateAgentStageTokenReferenceAllowed j (sv_TokenID w) (sv_StagedNodePreviousTokenID w)
        (sv_StagedNodeTokenID w) sid k" by (fastforce simp: list_all_iff)
    with False ref show ?thesis by (auto simp: updateAgentStageTokenReferenceAllowed_def)
  qed
qed

text \<open>The activation of what was just staged, and the stores it leaves.\<close>

definition activation_outcome ::
  "string \<Rightarrow> service_runtime_report \<Rightarrow> time \<Rightarrow> service_token \<Rightarrow> registered_service \<Rightarrow> auth_store \<Rightarrow> auth_store" where
  "activation_outcome sid report now old v a =
     retire_token old now (put_service sid (activated_service report now v) (put_token (activated_token v) a))"

lemma activation_succeeds:
  assumes st: "staging sha256hex (trimSpace sid) now random uuid a u old conf" and wf: "mwf (services a)" and tok: "tokens_ok a"
    and new: "\<not> known_id a uuid" and uuid: "trimSpace uuid = uuid" "uuid \<noteq> []"
    and act: "trimSpace (sc_ActivationToken conf) = sc_ActivationToken conf" and sha: "\<And>x. sha256hex x \<noteq> []"
    and now: "now' < sc_ActivationExpiresAt conf"
  shows "\<exists>report'. ActivateServiceNodeConfiguration sha256hex None sid uuid (sc_ActivationToken conf) now' report None
      (put_service (trimSpace sid) (sc_Service conf) a) =
    (Inr (activated_token (sc_Service conf), activated_service report' now' (sc_Service conf), False),
     activation_outcome (trimSpace sid) report' now' old (sc_Service conf) (put_service (trimSpace sid) (sc_Service conf) a))"
proof -
  let ?sid = "trimSpace sid" and ?v = "sc_Service conf"
  note st' = st [unfolded staging_def]
  obtain raw x y where token: "sc_Token conf = issued_token sha256hex ''update_agent'' (ProjectedServiceTokenScopesForRotation old) raw uuid now"
    and v: "?v = staged_service old (sc_Token conf) x y (sha256hex (sc_ActivationToken conf)) now u"
    using st' by blast
  have u: "mget (services a) ?sid = Some u" and old: "mget (serviceTokens a) (sv_TokenID u) = Some old"
    and ty: "tk_ServiceType old = ''update_agent''" using st' by auto
  have id: "tk_ID old = sv_TokenID u" using tok old by (rule tokens_id)
  have fields: "sv_TokenID ?v = sv_TokenID u" "sv_StagedNodePreviousTokenID ?v = sv_TokenID u" "sv_StagedNodeTokenID ?v = uuid"
    "sv_StagedNodeTokenHash ?v \<noteq> []" "sv_StagedNodeActivationTokenHash ?v = sha256hex (sc_ActivationToken conf)"
    "sv_ServiceType ?v = ''update_agent''" "sv_StagedNodeTokenAt ?v = Some now" "sv_StagedNodeTokenScopes ?v = tk_Scopes old"
    "sv_ConfigureTokenExpiresAt ?v = Some (sc_ActivationExpiresAt conf)"
    using st' sha by (simp_all add: v staged_service_def token id agent_projection [OF ty])
  let ?a = "put_service ?sid ?v a" and ?report = "normalizeServiceRuntimeReport (report\<lparr>rr_ServiceID := ?sid\<rparr>)"
  have guards: "sv_TokenID u \<noteq> uuid" "mget (services ?a) ?sid = Some ?v" "mget (serviceTokens ?a) (sv_TokenID u) = Some old"
    using fresh_id_unused [OF new u] old by simp_all
  have refs: "list_all (\<lambda>(j, v). updateAgentActivationTokenReferenceAllowed j (sv_TokenID v) (sv_StagedNodePreviousTokenID v)
      (sv_StagedNodeTokenID v) ?sid (sv_TokenID u) uuid) (services ?a)"
    using st' by (intro activation_references [OF wf u new refl]) (simp_all add: fields id)
  have scopes: "validateServiceScopes (tk_Scopes (activated_token ?v))" "validateRequiredUpdateAgentScopes ''update_agent'' (tk_Scopes old)"
    using tokens_scopes [OF tok old] st' by (simp_all add: activated_token_def fields)
  have anchor: "tk_RevokedAt old = None \<or> isEmergencyRevokedNodeConfigurationAnchor ?v old"
    using st' by (auto simp: v staged_anchor)
  have nonempty: "?sid \<noteq> []" "sc_ActivationToken conf \<noteq> []" using st' by auto
  show ?thesis
    by (rule exI [of _ ?report], unfold ActivateServiceNodeConfiguration_def Let_def)
      (simp add: guards old fields refs scopes anchor nonempty uuid act sha now ty id VerifyTokenHash_def activation_outcome_def
        del: services_put_service)
qed

text \<open>The stores after the activation.\<close>

lemma activation_stores:
  assumes st: "staging sha256hex sid now random uuid a u old conf" and wf: "mwf (services a)" and tok: "tokens_ok a"
    and new: "\<not> known_id a uuid" and k: "sv_TokenID u \<noteq> []"
    and b_def: "b = activation_outcome sid report now' old (sc_Service conf) (put_service sid (sc_Service conf) a)"
  shows "mget (services b) sid = Some (activated_service report now' (sc_Service conf))"
    and "mget (serviceTokens b) uuid = Some (activated_token (sc_Service conf))"
    and "\<exists>t. mget (serviceTokens b) (sv_TokenID u) = Some t \<and> tk_RevokedAt t \<noteq> None \<and> tk_TokenHash t = tk_TokenHash old"
proof -
  let ?v = "sc_Service conf"
  note st' = st [unfolded staging_def]
  have u: "mget (services a) sid = Some u" and old: "mget (serviceTokens a) (sv_TokenID u) = Some old" using st' by auto
  have id: "tk_ID old = sv_TokenID u" using tok old by (rule tokens_id)
  have ne: "sv_TokenID u \<noteq> uuid" using fresh_id_unused [OF new u] by simp
  have v: "sv_StagedNodeTokenID ?v = uuid" using st' by (auto simp: staged_service_def)
  let ?w = "activated_service report now' ?v"
  have w: "sv_TokenID ?w = uuid" "sv_StagedNodePreviousTokenID ?w = []" "sv_StagedNodeTokenID ?w = []"
    by (simp_all add: activated_service_def clearStagedNodeConfiguration_def v)
  have "\<not> list_ex (\<lambda>(_, w). sv_TokenID w = sv_TokenID u \<or> sv_StagedNodePreviousTokenID w = sv_TokenID u \<or>
      sv_StagedNodeTokenID w = sv_TokenID u) (mput (services a) sid ?w)"
    using st' ne w by (intro activation_retires [OF wf k]) (simp_all add: id)
  moreover have "services (put_service sid ?w (put_token t (put_service sid ?v a))) = mput (services a) sid ?w" for t
    by (simp add: mput_def update_last)
  ultimately have b: "b = (if tk_RevokedAt old = None then put_token (old\<lparr>tk_RevokedAt := Some now'\<rparr>)
        (put_service sid ?w (put_token (activated_token ?v) (put_service sid ?v a)))
      else put_service sid ?w (put_token (activated_token ?v) (put_service sid ?v a)))"
    unfolding b_def activation_outcome_def retire_token_def id by (simp del: services_put_service)
  show "mget (services b) sid = Some ?w" by (simp add: b)
  show "mget (serviceTokens b) uuid = Some (activated_token ?v)"
    using ne by (simp add: b put_token_def activated_token_def v id)
  show "\<exists>t. mget (serviceTokens b) (sv_TokenID u) = Some t \<and> tk_RevokedAt t \<noteq> None \<and> tk_TokenHash t = tk_TokenHash old"
    using ne old by (auto simp: b put_token_def activated_token_def v id)
qed

lemma activation_replays:
  assumes st: "staging sha256hex (trimSpace sid) now random uuid a u old conf" and uuid: "trimSpace uuid = uuid" "uuid \<noteq> []"
    and act: "trimSpace (sc_ActivationToken conf) = sc_ActivationToken conf" and sha: "\<And>x. sha256hex x \<noteq> []"
    and svc: "mget (services b) (trimSpace sid) = Some (activated_service report now' (sc_Service conf))"
    and token: "mget (serviceTokens b) uuid = Some (activated_token (sc_Service conf))"
  shows "ActivateServiceNodeConfiguration sha256hex None sid uuid (sc_ActivationToken conf) later report' None b =
    (Inr (activated_token (sc_Service conf), activated_service report now' (sc_Service conf), True), b)"
proof -
  let ?w = "activated_service report now' (sc_Service conf)"
  note st' = st [unfolded staging_def]
  obtain raw x y where t: "sc_Token conf = issued_token sha256hex ''update_agent'' (ProjectedServiceTokenScopesForRotation old) raw uuid now"
    and v: "sc_Service conf = staged_service old (sc_Token conf) x y (sha256hex (sc_ActivationToken conf)) now u"
    using st' by blast
  have w: "sv_TokenID ?w = uuid" "sv_StagedNodeTokenID ?w = []" "sv_ServiceType ?w = ''update_agent''"
    "sv_ConfigureTokenUsedAt ?w = Some now" "sv_ConfigureTokenExpiresAt ?w = None"
    "sv_ConfigureTokenHash ?w = sha256hex (sc_ActivationToken conf)"
    using st' by (simp_all add: v activated_service_def clearStagedNodeConfiguration_def applyServiceRuntimeReport_def
        staged_service_def t)
  have tk: "tk_RevokedAt (activated_token (sc_Service conf)) = None" "tk_ServiceType (activated_token (sc_Service conf)) = ''update_agent''"
    "tk_Scopes (activated_token (sc_Service conf)) = tk_Scopes old"
    using st' by (simp_all add: activated_token_def v staged_service_def t agent_projection)
  have "trimSpace sid \<noteq> []" "sc_ActivationToken conf \<noteq> []" "validateRequiredUpdateAgentScopes ''update_agent'' (tk_Scopes old)"
    using st' by auto
  then show ?thesis
    unfolding ActivateServiceNodeConfiguration_def Let_def
    by (simp add: svc w uuid act sha VerifyTokenHash_def replayed_activation_def token tk)
qed

text \<open>
  C33. A staged configuration takes over in one step. After an update agent's new token is staged, every
  secret is accepted or refused exactly as before and the new one is not accepted yet. Activating with
  the activation token before it expires succeeds; from then on the new secret is accepted and the old
  one refused, and repeating the activation at any later time returns the same token and service and
  changes nothing.
\<close>

theorem staged_configuration_takes_over:
  assumes "reach control_init (control_step sha256hex parseURL urlAllowed) p"
    and fresh: "fresh_draw sha256hex (ps_auth p) random uuid" and "trimSpace uuid = uuid" and "uuid \<noteq> []"
    and stage: "StageServiceNodeConfiguration sha256hex c sid cfg now sealer random uuid activation c' (ps_auth p) = (Inr conf, a)"
    and "sv_TokenID (sc_Service conf) \<noteq> []" and "trimSpace (sc_ActivationToken conf) = sc_ActivationToken conf"
    and sha: "\<And>x. sha256hex x \<noteq> []" and "now' < sc_ActivationExpiresAt conf"
  shows "(\<forall>raw scope. fst (AuthenticateServiceToken sha256hex None raw scope a) =
        fst (AuthenticateServiceToken sha256hex None raw scope (ps_auth p))) \<and>
    fst (AuthenticateServiceToken sha256hex None (tk_RawToken (sc_Token conf)) [] a) = Inl ErrUnauthorized \<and>
    (\<exists>token service b.
      ActivateServiceNodeConfiguration sha256hex None sid uuid (sc_ActivationToken conf) now' report None a =
        (Inr (token, service, False), b) \<and>
      fst (AuthenticateServiceToken sha256hex None (tk_RawToken (sc_Token conf)) [] b) = Inr token \<and>
      (\<forall>old raw scope. mget (serviceTokens (ps_auth p)) (sv_TokenID (sc_Service conf)) = Some old \<longrightarrow>
        sha256hex raw = tk_TokenHash old \<longrightarrow>
        fst (AuthenticateServiceToken sha256hex None raw scope b) = Inl ErrUnauthorized) \<and>
      (\<forall>later. ActivateServiceNodeConfiguration sha256hex None sid uuid (sc_ActivationToken conf) later report None b =
        (Inr (token, service, True), b)))"
proof -
  let ?p = "ps_auth p" and ?sid = "trimSpace sid" and ?v = "sc_Service conf"
  have ok: "control_ok p" using assms(1) by (rule control.inv_reach)
  note tok = control_tokens [OF ok] and reg = control_registry [OF ok]
  have wf: "mwf (services ?p)" using registry_keyed [OF reg] by (rule keyed_mwf)
  obtain u old where st: "staging sha256hex ?sid now random uuid ?p u old conf" and a: "a = put_service ?sid ?v ?p"
    using ensuresD [OF stage_staging stage] by blast
  have u: "mget (services ?p) ?sid = Some u" and old: "mget (serviceTokens ?p) (sv_TokenID u) = Some old"
    and v: "sv_TokenID ?v = sv_TokenID u" using st by (auto simp: staging_def staged_service_def)
  obtain raw where raw: "random = Inr raw" "tk_RawToken (sc_Token conf) = ''ast_svc_'' @ raw"
      "sv_StagedNodeTokenHash ?v = sha256hex (''ast_svc_'' @ raw)"
    using st by (auto simp: staging_def staged_service_def)
  have new: "\<not> known_id ?p uuid" "\<not> known_hash ?p (sha256hex (''ast_svc_'' @ raw))" using fresh raw by (simp_all add: fresh_draw_def)
  obtain report' where act: "ActivateServiceNodeConfiguration sha256hex None sid uuid (sc_ActivationToken conf) now' report None a =
      (Inr (activated_token ?v, activated_service report' now' ?v, False), activation_outcome ?sid report' now' old ?v a)"
    using activation_succeeds [OF st wf tok new(1) assms(3,4,7) sha assms(9)] a by blast
  define b where "b = activation_outcome ?sid report' now' old ?v a"
  note stores = activation_stores [OF st wf tok new(1) _ b_def [unfolded a]]
  have k: "sv_TokenID u \<noteq> []" using assms(6) v by simp
  have "token_effect ?p a" using effect_stage_op [OF tok fresh] stage by (metis snd_conv)
  then have tok_a: "tokens_ok a" by (rule token_effect_ok)
  have "token_effect a b" using effect_activate [OF tok_a] act b_def by (metis snd_conv)
  then have tok_b: "tokens_ok b" by (rule token_effect_ok)
  have "fst (AuthenticateServiceToken sha256hex None r scope a) = fst (AuthenticateServiceToken sha256hex None r scope ?p)" for r scope
    by (simp add: AuthenticateServiceToken_def a split: option.split)
  moreover have "fst (AuthenticateServiceToken sha256hex None (tk_RawToken (sc_Token conf)) [] a) = Inl ErrUnauthorized"
  proof -
    have "find (\<lambda>token. tk_TokenHash token = sha256hex (''ast_svc_'' @ raw)) (map snd (serviceTokens ?p)) = None"
      using new(2) by (auto simp: find_None_iff known_hash_def list_ex_iff)
    then show ?thesis by (simp add: AuthenticateServiceToken_def a raw(2) del: append.simps)
  qed
  moreover have "fst (AuthenticateServiceToken sha256hex None (tk_RawToken (sc_Token conf)) [] b) = Inr (activated_token ?v)"
    by (subst authenticate_active [OF tok_b stores(2) [OF k]]) (simp_all add: activated_token_def raw)
  moreover have "fst (AuthenticateServiceToken sha256hex None r scope b) = Inl ErrUnauthorized"
    if found: "mget (serviceTokens ?p) (sv_TokenID ?v) = Some old'" "sha256hex r = tk_TokenHash old'" for old' r scope
  proof -
    obtain t where "mget (serviceTokens b) (sv_TokenID u) = Some t" "tk_RevokedAt t \<noteq> None" "sha256hex r = tk_TokenHash t"
      using stores(3) [OF k] found old v by auto
    then show ?thesis by (simp add: authenticate_revoked [OF tok_b] del: not_None_eq)
  qed
  moreover have "ActivateServiceNodeConfiguration sha256hex None sid uuid (sc_ActivationToken conf) later report None b =
      (Inr (activated_token ?v, activated_service report' now' ?v, True), b)" for later
    by (rule activation_replays [OF st assms(3,4,7) sha stores(1,2) [OF k]])
  ultimately show ?thesis using act b_def by blast
qed

theorem staged_configuration_takes_over_witness:
  "\<exists>conf token service b. agent_stage = (Inr conf, snd agent_stage) \<and>
     ActivateServiceNodeConfiguration sample_sha None ''agent'' ''t2'' (sc_ActivationToken conf) 4000
       \<lparr>rr_ServiceID = [], rr_Version = ''1'', rr_Commit = [], rr_BuildDate = [], rr_Hostname = [], rr_OS = [], rr_Arch = []\<rparr>
       None (snd agent_stage) = (Inr (token, service, False), b) \<and>
     fst (AuthenticateServiceToken sample_sha None ''ast_svc_r2'' [] b) = Inr token \<and>
     fst (AuthenticateServiceToken sample_sha None ''ast_svc_r1'' [] b) = Inl ErrUnauthorized"
proof -
  let ?report = "\<lparr>rr_ServiceID = [], rr_Version = ''1'', rr_Commit = [], rr_BuildDate = [], rr_Hostname = [], rr_OS = [], rr_Arch = []\<rparr>"
  obtain conf where conf: "agent_stage = (Inr conf, snd agent_stage)" "sc_ActivationToken conf = ''ast_act_a1''"
    "sc_ActivationExpiresAt conf = 9000" "sv_TokenID (sc_Service conf) = ''t1''" "tk_RawToken (sc_Token conf) = ''ast_svc_r2''"
    using agent_stage_Inr by blast
  have auth: "ps_auth (sample_control agent_armed) = agent_armed" by (simp add: sample_control_def)
  have stage: "StageServiceNodeConfiguration sample_sha None ''agent'' ''cfg'' 3000 sample_sealer (Inr ''r2'') ''t2'' (Inr ''a1'') None
      (ps_auth (sample_control agent_armed)) = (Inr conf, snd agent_stage)"
    using conf(1) by (simp add: auth agent_stage_def)
  have fresh: "fresh_draw sample_sha (ps_auth (sample_control agent_armed)) (Inr ''r2'') ''t2''" unfolding auth by code_simp
  have trim: "trimSpace ''t2'' = ''t2''" "trimSpace (sc_ActivationToken conf) = sc_ActivationToken conf"
    unfolding conf(2) by code_simp+
  have t1: "mget (serviceTokens agent_armed) ''t1'' = Some agent_token" "sample_sha ''ast_svc_r1'' = tk_TokenHash agent_token" by code_simp+
  have "sv_TokenID (sc_Service conf) \<noteq> []" "sample_sha x \<noteq> []" "(4000::time) < sc_ActivationExpiresAt conf" for x
    by (simp_all add: conf sample_sha_def)
  from staged_configuration_takes_over [OF agent_reach fresh trim(1) _ stage this(1) trim(2) this(2,3), of ?report]
  have "\<exists>token service b.
      ActivateServiceNodeConfiguration sample_sha None ''agent'' ''t2'' (sc_ActivationToken conf) 4000 ?report None (snd agent_stage) =
        (Inr (token, service, False), b) \<and>
      fst (AuthenticateServiceToken sample_sha None (tk_RawToken (sc_Token conf)) [] b) = Inr token \<and>
      (\<forall>old raw scope. mget (serviceTokens (ps_auth (sample_control agent_armed))) (sv_TokenID (sc_Service conf)) = Some old \<longrightarrow>
        sample_sha raw = tk_TokenHash old \<longrightarrow> fst (AuthenticateServiceToken sample_sha None raw scope b) = Inl ErrUnauthorized)"
    by blast
  with t1 conf(1) show ?thesis unfolding auth conf(4,5) by blast
qed

end
