(* ===== verification/Catalog_Properties.thy ===== *)
theory Catalog_Properties
  imports Node_Properties
begin

text \<open>
  What is stored of a service: identifiers and types of the allowed shape, endpoints that passed the
  outbound policy, and values that carry no secret.
\<close>

subsection \<open>Sanitized values\<close>

definition clean_key :: "string \<Rightarrow> bool" where
  "clean_key key \<longleftrightarrow> key \<noteq> [] \<and> trimSpace key = key \<and> \<not> serviceCapabilitySecretKey key"

function clean :: "(string \<Rightarrow> url option) \<Rightarrow> any \<Rightarrow> bool" where
  "clean parseURL ANil = True"
| "clean parseURL (ABool b) = True"
| "clean parseURL (AStr s) = (s = ''<redacted>'' \<or> \<not> secretLikeValue parseURL s)"
| "clean parseURL (ANum n) = True"
| "clean parseURL (AArr xs) = list_all (clean parseURL) xs"
| "clean parseURL (AObj m) = list_all (\<lambda>x. clean_key (fst x) \<and> clean parseURL (snd x)) m"
  by pat_completeness auto
termination
  by (relation "measure (\<lambda>(_, v). size v)") (auto simp del: any.size dest: size_any_entry size_any_item)

definition clean_entries :: "(string \<Rightarrow> url option) \<Rightarrow> any gomap \<Rightarrow> bool" where
  "clean_entries parseURL m \<longleftrightarrow> list_all (\<lambda>x. clean_key (fst x) \<and> clean parseURL (snd x)) m"

lemma clean_keep:
  "list_all (\<lambda>x. clean_key (fst x) \<and> clean parseURL (snd x)) out \<Longrightarrow> list_all (\<lambda>x. clean parseURL (snd x)) m \<Longrightarrow>
   list_all (\<lambda>x. clean_key (fst x) \<and> clean parseURL (snd x)) (foldl keep_entry out m)"
proof (induction m arbitrary: out)
  case (Cons e m)
  have "list_all (\<lambda>x. clean_key (fst x) \<and> clean parseURL (snd x)) (keep_entry out e)"
    using Cons.prems mput_in [of _ _ out "trimSpace (fst e)" "snd e"]
    by (fastforce simp: keep_entry_def Let_def list_all_iff clean_key_def)
  with Cons show ?case by simp
qed simp

lemma sanitize_clean: "clean parseURL (sanitizeServiceCapabilityValue parseURL v)"
proof (induction parseURL v rule: sanitizeServiceCapabilityValue.induct)
  case (6 parseURL m)
  then show ?case unfolding sanitizeServiceCapabilityValue.simps clean.simps
    by (intro clean_keep) (auto simp: list_all_iff)
qed (auto simp: list_all_iff)

lemma capabilities_clean: "clean_entries parseURL (sanitizeServiceCapabilities parseURL m)"
  unfolding clean_entries_def sanitizeServiceCapabilities_def by (rule clean_keep) (simp_all add: list_all_iff sanitize_clean)

subsection \<open>Endpoints\<close>

text \<open>Normalising a second time changes neither the port nor the URL, so what is stored is what was checked.\<close>

lemma decimal_last: "decimal n \<noteq> [] \<and> plain (last (decimal n))"
proof (cases "n < 10")
  case True
  then show ?thesis by (subst (1 2) decimal.simps) (simp add: plain_def)
next
  case False
  then show ?thesis by (subst (1 2) decimal.simps) (simp add: plain_def)
qed

lemma build_trim: "trimSpace (buildServiceURL host port ssl) = buildServiceURL host port ssl"
proof (cases "trimSpace host = [] \<or> port \<le> 0")
  case False
  with decimal_last [of "nat port"] show ?thesis
    by (intro trimSpace_ends) (auto simp: buildServiceURL_def Let_def plain_def)
qed (simp add: buildServiceURL_def)

abbreviation url_host :: "(string \<Rightarrow> url option) \<Rightarrow> string \<Rightarrow> string" where
  "url_host parseURL s \<equiv> fst (endpointFromServiceURL parseURL (trimSpace s))"

abbreviation url_port :: "(string \<Rightarrow> url option) \<Rightarrow> string \<Rightarrow> int" where
  "url_port parseURL s \<equiv> fst (snd (endpointFromServiceURL parseURL (trimSpace s)))"

lemma endpoint_idem:
  assumes p1: "p1 = (if p = 0 then url_port parseURL u else p)" and h1: "h1 = (if trimSpace h = [] then url_host parseURL u else trimSpace h)"
    and u1: "u1 = (if trimSpace u = [] then buildServiceURL h1 p1 s1 else trimSpace u)"
    and p2: "p2 = (if p1 = 0 then url_port parseURL u1 else p1)" and h2: "h2 = (if trimSpace h1 = [] then url_host parseURL u1 else trimSpace h1)"
    and u2: "u2 = (if trimSpace u1 = [] then buildServiceURL h2 p2 s2 else trimSpace u1)"
  shows "p2 = p1 \<and> u2 = u1"
proof (cases "trimSpace u = []")
  case False
  then have "u1 = trimSpace u" "trimSpace u1 \<noteq> []" using u1 by simp_all
  with p1 p2 u2 show ?thesis by simp
next
  case True
  then have u1': "u1 = buildServiceURL h1 p1 s1" using u1 by simp
  show ?thesis
  proof (cases "u1 = []")
    case False
    with u1' build_trim have "trimSpace u1 = u1" by metis
    moreover have "p1 \<noteq> 0" using False u1' by (auto simp: buildServiceURL_def Let_def)
    ultimately show ?thesis using False p2 u2 by simp
  next
    case empty: True
    with True p1 p2 have p: "p2 = p1" by auto
    have "p1 \<le> 0 \<or> trimSpace h1 = []" using empty u1' by (auto simp: buildServiceURL_def Let_def split: if_splits)
    moreover have "trimSpace h2 = []" if "trimSpace h1 = []"
      using that h1 h2 True empty by (auto split: if_splits)
    ultimately have "buildServiceURL h2 p2 s2 = []" using p by (auto simp: buildServiceURL_def Let_def)
    with empty u2 p show ?thesis by simp
  qed
qed

lemma normalize_endpoint:
  assumes "trimSpace (rg_ServiceType r) \<noteq> ''update_agent''" and n_def: "n = normalizeServiceRegistration parseURL r"
  shows "rg_Port n = (if rg_Port r = 0 then url_port parseURL (rg_PublicURL r) else rg_Port r)"
    and "rg_Host n = (if trimSpace (rg_Host r) = [] then url_host parseURL (rg_PublicURL r) else trimSpace (rg_Host r))"
    and "rg_PublicURL n = (if trimSpace (rg_PublicURL r) = [] then buildServiceURL (rg_Host n) (rg_Port n) (rg_SSLEnabled n)
      else trimSpace (rg_PublicURL r))"
  using assms(1) unfolding n_def normalizeServiceRegistration_def Let_def
  by (auto split: prod.split)

lemma normalize_agent:
  assumes "trimSpace (rg_ServiceType r) = ''update_agent''"
  shows "rg_Port (normalizeServiceRegistration parseURL r) = rg_Port r"
    and "rg_PublicURL (normalizeServiceRegistration parseURL r) = trimSpace (rg_PublicURL r)"
  using assms unfolding normalizeServiceRegistration_def Let_def by simp_all

lemma trim_agent [simp]: "trimSpace ''update_agent'' = ''update_agent''"
  by code_simp

lemma normalize_twice:
  assumes n_def: "n = normalizeServiceRegistration parseURL r"
  shows "rg_Port (normalizeServiceRegistration parseURL n) = rg_Port n \<and>
    rg_PublicURL (normalizeServiceRegistration parseURL n) = rg_PublicURL n"
proof (cases "trimSpace (rg_ServiceType r) = ''update_agent''")
  case True
  then have "trimSpace (rg_ServiceType n) = ''update_agent''" by (simp add: n_def normalize_type)
  with True show ?thesis by (simp add: normalize_agent n_def)
next
  case False
  then have "trimSpace (rg_ServiceType n) \<noteq> ''update_agent''" by (simp add: n_def normalize_type)
  from endpoint_idem [OF normalize_endpoint(1-3) [OF False n_def] normalize_endpoint(1-3) [OF this refl]] show ?thesis .
qed

lemma normalize_metadata:
  assumes n_def: "n = normalizeServiceMetadataUpdate parseURL mu"
  shows "mu_Port n = (if mu_Port mu = 0 then url_port parseURL (mu_PublicURL mu) else mu_Port mu)"
    and "mu_Host n = (if trimSpace (mu_Host mu) = [] then url_host parseURL (mu_PublicURL mu) else trimSpace (mu_Host mu))"
    and "mu_PublicURL n = (if trimSpace (mu_PublicURL mu) = [] then buildServiceURL (mu_Host n) (mu_Port n) (mu_SSLEnabled n)
      else trimSpace (mu_PublicURL mu))"
  unfolding n_def normalizeServiceMetadataUpdate_def Let_def by (auto split: prod.split)

lemma metadata_twice:
  assumes n_def: "n = normalizeServiceMetadataUpdate parseURL mu"
  shows "mu_Port (normalizeServiceMetadataUpdate parseURL n) = mu_Port n \<and>
    mu_PublicURL (normalizeServiceMetadataUpdate parseURL n) = mu_PublicURL n"
  using endpoint_idem [OF normalize_metadata(1-3) [OF n_def] normalize_metadata(1-3) [OF refl]] .

subsection \<open>Well-formed services\<close>

definition service_ok :: "(string \<Rightarrow> url option) \<Rightarrow> (string \<Rightarrow> bool) \<Rightarrow> string \<Rightarrow> registered_service \<Rightarrow> bool" where
  "service_ok parseURL urlAllowed sid svc \<longleftrightarrow>
     sv_ServiceID svc = sid \<and> serviceIDPattern sid \<and> validateServiceType (sv_ServiceType svc) \<and>
     0 \<le> sv_Port svc \<and> sv_Port svc \<le> 65535 \<and> (sv_PublicURL svc = [] \<or> urlAllowed (sv_PublicURL svc)) \<and>
     clean_entries parseURL (sv_Capabilities svc) \<and> clean_entries parseURL (sv_ReportedCapabilities svc) \<and>
     list_all (\<lambda>x. isNumber (snd x)) (sv_Metrics svc)"

abbreviation valid_endpoint :: "(string \<Rightarrow> bool) \<Rightarrow> service_registration \<Rightarrow> bool" where
  "valid_endpoint urlAllowed r \<equiv> serviceIDPattern (rg_ServiceID r) \<and> validateServiceType (rg_ServiceType r) \<and>
     0 \<le> rg_Port r \<and> rg_Port r \<le> 65535 \<and> (rg_PublicURL r = [] \<or> urlAllowed (rg_PublicURL r))"

lemma valid_normalized:
  "validateServiceRegistration parseURL urlAllowed r = None \<Longrightarrow> valid_endpoint urlAllowed (normalizeServiceRegistration parseURL r)"
  by (auto simp: validateServiceRegistration_def Let_def split: if_splits)

lemma valid_precreation:
  assumes "validateServiceRegistration parseURL urlAllowed (normalizeServiceRegistration parseURL r0) = None"
  shows "valid_endpoint urlAllowed (normalizeServiceRegistration parseURL r0)"
  using valid_normalized [OF assms] normalize_twice [OF refl, of parseURL r0] by (simp add: normalize_type)

lemma valid_registration:
  assumes r: "r = bindPrecreatedUpdateAgentRegistration (normalizeServiceRegistration parseURL r0) m h e"
    and valid: "validateServiceRegistration parseURL urlAllowed r = None"
  shows "valid_endpoint urlAllowed r"
proof (cases "rg_ServiceType r = ''update_agent''")
  case True
  then have agent: "trimSpace (rg_ServiceType r) = ''update_agent''" "trimSpace (rg_ServiceType r0) = ''update_agent''"
    by (simp_all add: r normalize_type)
  have "rg_PublicURL r = trimSpace (rg_PublicURL r0)" using agent(2)
    by (simp add: r bindPrecreatedUpdateAgentRegistration_def normalize_agent)
  moreover have "rg_ServiceID r = trimSpace (rg_ServiceID r0)" by (simp add: r normalize_type)
  ultimately show ?thesis
    using valid_normalized [OF valid] True by (simp add: normalize_agent [OF agent(1)] normalize_type)
next
  case False
  then have "r = normalizeServiceRegistration parseURL r0" by (simp add: r bindPrecreatedUpdateAgentRegistration_def split: if_splits)
  with valid valid_precreation show ?thesis by blast
qed

lemma valid_metadata:
  assumes "mu = normalizeServiceMetadataUpdate parseURL mu0" and "validateServiceMetadataUpdate parseURL urlAllowed mu"
    and "\<not> mu_Endpointless mu" and "\<not> mu_PreserveEndpoint mu"
  shows "0 \<le> mu_Port mu \<and> mu_Port mu \<le> 65535 \<and> urlAllowed (mu_PublicURL mu)"
proof -
  have flags: "mu_Endpointless (normalizeServiceMetadataUpdate parseURL x) = mu_Endpointless x"
    "mu_PreserveEndpoint (normalizeServiceMetadataUpdate parseURL x) = mu_PreserveEndpoint x" for x
    by (simp_all add: normalizeServiceMetadataUpdate_def Let_def split: prod.split)
  show ?thesis
    using assms(2-) metadata_twice [OF refl, of parseURL mu0]
    by (auto simp: validateServiceMetadataUpdate_def Let_def flags assms(1) split: if_splits)
qed

lemma service_ok_cong:
  assumes "service_ok parseURL urlAllowed sid u"
    and "sv_ServiceID v = sv_ServiceID u" "sv_ServiceType v = sv_ServiceType u" "sv_Port v = sv_Port u" "sv_PublicURL v = sv_PublicURL u"
      "sv_Capabilities v = sv_Capabilities u" "sv_ReportedCapabilities v = sv_ReportedCapabilities u \<or> sv_ReportedCapabilities v = []"
      "sv_Metrics v = sv_Metrics u"
  shows "service_ok parseURL urlAllowed sid v"
  using assms by (auto simp: service_ok_def clean_entries_def)

lemmas rewrite_defs = forget_heartbeat_def rotated_service_def clearStagedNodeConfiguration_def applyServiceRuntimeReport_def
  staged_service_def activated_service_def

lemma registered_ok:
  assumes "r = bindPrecreatedUpdateAgentRegistration (normalizeServiceRegistration parseURL r0) m h e"
    and "validateServiceRegistration parseURL urlAllowed r = None" and "rg_ServiceID r = sid" and u: "service_ok parseURL urlAllowed sid u"
  shows "service_ok parseURL urlAllowed sid (registered parseURL r u i now)"
  using valid_registration [OF assms(1,2)] u assms(3)
  by (auto simp: service_ok_def registered_def fresh_registration_def keep_endpoint_def keep_node_def registration_fields_def
      hydrateServiceEndpointState_def capabilities_clean Let_def)

lemma beaten_ok:
  assumes "service_ok parseURL urlAllowed sid u"
  shows "service_ok parseURL urlAllowed sid (beaten parseURL beat now u)"
  using assms capabilities_clean by (auto simp: service_ok_def beaten_def Let_def sanitizeServiceMetrics_def list_all_iff)

lemma updated_ok:
  assumes "mu = normalizeServiceMetadataUpdate parseURL mu0" and "validateServiceMetadataUpdate parseURL urlAllowed mu"
    and "service_ok parseURL urlAllowed sid u"
  shows "service_ok parseURL urlAllowed sid (updated_service parseURL mu now u)"
  using assms(3) valid_metadata [OF assms(1,2)] by (auto simp: service_ok_def updated_service_def Let_def)

lemma quiet_ok:
  assumes "quiet parseURL urlAllowed u v" and u: "service_ok parseURL urlAllowed sid u" and "sv_ServiceID v = sid"
  shows "service_ok parseURL urlAllowed sid v"
  using assms(1)
proof cases
  case (registered r r0 m h e i now)
  with registered_ok [OF registered(2,3) _ u] assms(3) show ?thesis by (simp add: registered_place)
next
  case (beaten beat now)
  with beaten_ok [OF u] show ?thesis by simp
next
  case (updated mu mu0 now)
  with updated_ok [OF updated(2,3) u] show ?thesis by simp
qed (use u in \<open>simp_all add: service_ok_def rewrite_defs clean_entries_def\<close>)

lemma precreated_ok:
  assumes "precreated parseURL urlAllowed sid v"
  shows "service_ok parseURL urlAllowed sid v"
proof -
  obtain token r0 now where pre: "fst (PrecreateService parseURL urlAllowed None token r0 now NewMemoryAuthStore) = Inr v"
    and sid: "sv_ServiceID v = sid" using assms unfolding precreated_def by blast
  let ?r = "normalizeServiceRegistration parseURL r0"
  have "validateServiceRegistration parseURL urlAllowed ?r = None"
    using pre by (auto simp: PrecreateService_def Let_def split: option.splits if_splits)
  with valid_precreation have "valid_endpoint urlAllowed ?r" by blast
  obtain t t' where v: "v = hydrateServiceEndpointState parseURL ((registration_fields ?r t now)
      \<lparr>sv_ReportedVersion := [], sv_Status := ''pending'', sv_Capabilities := sanitizeServiceCapabilities parseURL (rg_Capabilities ?r),
       sv_ReportedCapabilities := sanitizeServiceCapabilities parseURL (rg_Capabilities ?r), sv_Metrics := [],
       sv_NodeTokenRotatedAt := Some t'\<rparr>)"
    using pre by (auto simp: PrecreateService_def Let_def split: option.splits if_splits)
  have "sv_ServiceID v = rg_ServiceID ?r" "sv_ServiceType v = rg_ServiceType ?r" "sv_Port v = rg_Port ?r"
    "sv_PublicURL v = rg_PublicURL ?r" "sv_Capabilities v = sanitizeServiceCapabilities parseURL (rg_Capabilities ?r)"
    "sv_ReportedCapabilities v = sanitizeServiceCapabilities parseURL (rg_Capabilities ?r)" "sv_Metrics v = []"
    by (simp_all add: v hydrateServiceEndpointState_def registration_fields_def Let_def)
  with \<open>valid_endpoint urlAllowed ?r\<close> show ?thesis using sid capabilities_clean by (auto simp: service_ok_def)
qed

subsection \<open>The stored services\<close>

definition catalog_ok :: "(string \<Rightarrow> url option) \<Rightarrow> (string \<Rightarrow> bool) \<Rightarrow> panel \<Rightarrow> bool" where
  "catalog_ok parseURL urlAllowed p \<longleftrightarrow> control_ok p \<and>
     (\<forall>sid svc. mget (services (ps_auth p)) sid = Some svc \<longrightarrow> service_ok parseURL urlAllowed sid svc)"

lemma configure_ok:
  assumes "mget (services (snd (SetServiceConfigureToken c sid' h e now a))) sid = Some v"
    and "\<And>u. mget (services a) sid = Some u \<Longrightarrow> service_ok parseURL urlAllowed sid u"
  shows "service_ok parseURL urlAllowed sid v"
proof -
  have "\<exists>u. mget (services a) sid = Some u \<and> sv_ServiceID v = sv_ServiceID u \<and> sv_ServiceType v = sv_ServiceType u \<and>
      sv_Port v = sv_Port u \<and> sv_PublicURL v = sv_PublicURL u \<and> sv_Capabilities v = sv_Capabilities u \<and>
      sv_ReportedCapabilities v = sv_ReportedCapabilities u \<and> sv_Metrics v = sv_Metrics u"
    using assms(1) by (cases c) (auto simp: SetServiceConfigureToken_def Let_def clearStagedNodeConfiguration_def
        split: option.splits if_splits)
  with assms(2) service_ok_cong show ?thesis by blast
qed

lemma control_step_catalog:
  assumes ok: "catalog_ok parseURL urlAllowed p" and step: "control_step sha256hex parseURL urlAllowed p q"
  shows "catalog_ok parseURL urlAllowed q"
proof -
  have c: "control_ok p" and svc: "\<And>sid svc. mget (services (ps_auth p)) sid = Some svc \<Longrightarrow> service_ok parseURL urlAllowed sid svc"
    using ok by (auto simp: catalog_ok_def)
  have q: "control_ok q" using control_step_effect [OF step c] by simp
  have "service_ok parseURL urlAllowed sid v" if v: "mget (services (ps_auth q)) sid = Some v" for sid v
    using step
  proof cases
    case op
    with panel_op_views [OF op control_panel [OF c]] v obtain u where
      u: "mget (services (ps_auth p)) sid = Some u" "node_view v = node_view u" by (auto simp: views_kept_def)
    from service_ok_cong [OF svc [OF u(1)]] node_view_eqD [OF u(2)] show ?thesis by blast
  next
    case (node a)
    then have a: "mget (services a) sid = Some v" using v by simp
    from node_op_quiet [OF node(2) control_registry [OF c]] show ?thesis
    proof
      assume "quiet_store parseURL urlAllowed (ps_auth p) a"
      with a registry_sid [OF control_registry [OF q] v] show ?thesis
        unfolding quiet_store_def using quiet_ok precreated_ok svc by blast
    next
      assume "\<exists>c sid h e now. a = snd (SetServiceConfigureToken c sid h e now (ps_auth p))"
      with a svc configure_ok show ?thesis by blast
    qed
  qed
  with q show ?thesis by (simp add: catalog_ok_def)
qed

interpretation catalog: inductive_invariant control_init "control_step sha256hex parseURL urlAllowed" "catalog_ok parseURL urlAllowed"
proof unfold_locales
  show "catalog_ok parseURL urlAllowed p" if "control_init p" for p
    using that control.inv_init [OF that]
    by (auto simp: catalog_ok_def BindStreamAssignmentGuard_def NewPanel_def NewMemoryAuthStore_def)
qed (rule control_step_catalog)


definition sample_parse :: "string \<Rightarrow> url option" where
  "sample_parse s = (if s = ''http://h:8080'' then Some \<lparr>url_Scheme = ''http'', url_Host = ''h:8080'', url_Hostname = ''h'',
     url_Port = ''8080'', url_User = None, url_Fragment = [], url_Query = []\<rparr> else None)"

definition node_policy :: service_url_policy where
  "node_policy = \<lparr>AllowedHosts = [''h''], AllowedCIDRs = [], PublicAllowedHosts = [], RequirePublicAllowlist = True\<rparr>"

definition leaky_registration :: service_registration where
  "leaky_registration = (sample_registration ''w1'' ''worker'')
     \<lparr>rg_Capabilities := [(''Access_Token'', AStr ''abc''), ('' mode '', AArr [AStr ''fast'', AStr ''Bearer abc''])]\<rparr>"

definition leaky_created :: auth_store where
  "leaky_created = snd (PrecreateService sample_parse (\<lambda>raw. ValidateURL sample_parse (\<lambda>_. None) node_policy raw = None) None
     (sample_token ''worker'') leaky_registration 0 NewMemoryAuthStore)"


text \<open>
  The steps above take heartbeats whose stream identifier has no NUL byte. With one, the prefix test of
  \<^verbatim>\<open>isAssignedLocked\<close> accepts from a standby node an identifier that is not the stream's: the service is
  then stored with a stream that does not exist and can no longer be deleted.
\<close>

definition nul_panel :: panel where
  "nul_panel =
     (let p = snd (AssignServiceToStreamGuarded None (sample_mutation\<lparr>am_AssignmentRole := ''standby''\<rparr>) ''a1'' 6000 sample_panel2) in
      p\<lparr>ps_auth := (ps_auth p)\<lparr>serviceTokens := serviceTokens sample_issued\<rparr>\<rparr>)"

definition nul_heartbeat :: service_heartbeat where
  "nul_heartbeat = \<lparr>hb_ServiceID = ''w1'', hb_NodeID = [], hb_NodeIDSnake = [], hb_Status = ''ready'',
     hb_CurrentStreamID = ''s1'' @ [NUL] @ ''standby'', hb_Version = [], hb_Commit = [], hb_BuildDate = [], hb_Capabilities = [],
     hb_Hostname = [], hb_OS = [], hb_Arch = [], hb_API = None, hb_Metrics = []\<rparr>"

lemma nul_heartbeat_accepted:
  "case Heartbeat (\<lambda>_. None) None (sample_token ''worker'') nul_heartbeat 9000 (ps_auth nul_panel) of
     (Inl _, _) \<Rightarrow> False
   | (Inr svc, a) \<Rightarrow> sv_CurrentStreamID svc = ''s1'' @ [NUL] @ ''standby'' \<and>
       fst (DeleteService None ''w1'' 9500 (nul_panel\<lparr>ps_auth := a\<rparr>)) = Inl ErrServiceAssignmentConflict"
  by code_simp

end
