(* ===== verification/Credentials.thy ===== *)
theory Credentials
  imports Artifact_Values "HOL-Library.Signed_Division"
begin

text \<open>
  The credentials of users (\<^verbatim>\<open>src/internal/security/password.go\<close>, \<^verbatim>\<open>totp.go\<close>): the
  encoding of password hashes, the policy on passwords, time-based one-time codes and recovery
  codes. The key derivation \<^verbatim>\<open>argon2.IDKey\<close>, SHA-256, HMAC-SHA-1, base32 and the random
  source are arguments; base64 is written out, because the round trip of a password rests on it.
\<close>

subsection \<open>Base64 without padding\<close>

definition b64_alphabet :: string where
  "b64_alphabet = ''ABCDEFGHIJKLMNOPQRSTUVWXYZabcdefghijklmnopqrstuvwxyz0123456789+/''"

abbreviation b64_digit :: "nat \<Rightarrow> char" where
  "b64_digit n \<equiv> b64_alphabet ! n"

abbreviation octet :: "char \<Rightarrow> nat" where
  "octet c \<equiv> of_char c"

fun b64_encode :: "string \<Rightarrow> string" where
  "b64_encode [] = []"
| "b64_encode [a] = [b64_digit (octet a div 4), b64_digit (octet a mod 4 * 16)]"
| "b64_encode [a, b] =
     [b64_digit (octet a div 4), b64_digit (octet a mod 4 * 16 + octet b div 16), b64_digit (octet b mod 16 * 4)]"
| "b64_encode (a # b # c # s) =
     b64_digit (octet a div 4) # b64_digit (octet a mod 4 * 16 + octet b div 16) #
     b64_digit (octet b mod 16 * 4 + octet c div 64) # b64_digit (octet c mod 64) # b64_encode s"

definition b64_value :: "char \<Rightarrow> nat option" where
  "b64_value c = find (\<lambda>n. b64_digit n = c) [0..<64]"

text \<open>The decoder drops line breaks, refuses other bytes outside the alphabet and a single left-over digit.\<close>

fun b64_join :: "nat list \<Rightarrow> string option" where
  "b64_join [] = Some []"
| "b64_join [x] = None"
| "b64_join [x, y] = Some [char_of (x * 4 + y div 16)]"
| "b64_join [x, y, z] = Some [char_of (x * 4 + y div 16), char_of (y mod 16 * 16 + z div 4)]"
| "b64_join (x # y # z # w # s) =
     map_option (\<lambda>t. char_of (x * 4 + y div 16) # char_of (y mod 16 * 16 + z div 4) # char_of (z mod 4 * 64 + w) # t)
       (b64_join s)"

fun all_some :: "'a option list \<Rightarrow> 'a list option" where
  "all_some [] = Some []"
| "all_some (None # xs) = None"
| "all_some (Some x # xs) = map_option (Cons x) (all_some xs)"

definition b64_decode :: "string \<Rightarrow> string option" where
  "b64_decode s = Option.bind (all_some (map b64_value (filter (\<lambda>c. c \<noteq> CHR 0x0A \<and> c \<noteq> CHR 0x0D) s))) b64_join"

lemma octet_bound: "octet c < 256"
  using of_char_of [where 'a = nat] by (metis mod_less_divisor zero_less_numeral of_char_mod_256)

lemma b64_digit_value: "n < 64 \<Longrightarrow> b64_value (b64_digit n) = Some n"
proof -
  have "list_all (\<lambda>n. b64_value (b64_digit n) = Some n) [0..<64]" by code_simp
  then show "n < 64 \<Longrightarrow> ?thesis" by (simp add: list_all_iff)
qed

lemma b64_digit_plain: "n < 64 \<Longrightarrow> b64_digit n \<notin> {CHR 0x0A, CHR 0x0D, CHR ''$''}"
proof -
  have "list_all (\<lambda>n. b64_digit n \<notin> {CHR 0x0A, CHR 0x0D, CHR ''$''}) [0..<64]" by code_simp
  then show "n < 64 \<Longrightarrow> ?thesis" by (simp add: list_all_iff)
qed

lemma octet_parts:
  "octet c div 4 < 64" "octet c div 16 < 16" "octet c div 64 < 4"
  "octet a mod 4 * 16 + octet b div 16 < 64" "octet b mod 16 * 4 + octet c div 64 < 64" "octet c mod 64 < 64"
  "octet a mod 4 * 16 < 64" "octet a mod 16 * 4 < 64"
proof -
  show "octet c div 4 < 64" "octet c div 16 < 16" "octet c div 64 < 4"
    using octet_bound [of c] by (simp_all add: less_mult_imp_div_less)
  moreover have "octet b div 16 < 16" using octet_bound [of b] by (simp add: less_mult_imp_div_less)
  moreover have "octet a mod 4 < 4" "octet b mod 16 < 16" "octet a mod 16 < 16" by simp_all
  ultimately show "octet a mod 4 * 16 + octet b div 16 < 64" "octet b mod 16 * 4 + octet c div 64 < 64"
    "octet a mod 4 * 16 < 64" "octet a mod 16 * 4 < 64" by linarith+
qed simp

lemma b64_encode_chars: "x \<in> set (b64_encode s) \<Longrightarrow> \<exists>n < 64. x = b64_digit n"
  by (induction s rule: b64_encode.induct) (auto intro: octet_parts)

lemma b64_encode_plain: "x \<in> set (b64_encode s) \<Longrightarrow> x \<notin> {CHR 0x0A, CHR 0x0D, CHR ''$''}"
  by (metis b64_encode_chars b64_digit_plain)

lemma unpack: "y < k \<Longrightarrow> (x * k + y) div k = x" "y < k \<Longrightarrow> (x * k + y) mod k = (y::nat)"
  by simp_all

lemma b64_join_encode: "Option.bind (all_some (map b64_value (b64_encode s))) b64_join = Some s"
proof (induction s rule: b64_encode.induct)
  case (2 a)
  have "(octet a mod 4 * 16) div 16 = octet a mod 4" by simp
  then show ?case by (simp add: b64_digit_value octet_parts)
next
  case (3 a b)
  have "(octet b mod 16 * 4) div 4 = octet b mod 16" by simp
  then show ?case by (simp add: b64_digit_value octet_parts unpack)
next
  case (4 a b c s)
  then show ?case by (auto simp: b64_digit_value octet_parts unpack bind_eq_Some_conv)
qed simp

lemma b64_round_trip: "b64_decode (b64_encode s) = Some s"
proof -
  have "filter (\<lambda>c. c \<noteq> CHR 0x0A \<and> c \<noteq> CHR 0x0D) (b64_encode s) = b64_encode s"
    using b64_encode_plain [of _ s] by (auto simp: filter_id_conv)
  then show ?thesis by (simp add: b64_decode_def b64_join_encode)
qed


text \<open>The URL alphabet, \<^verbatim>\<open>base64.RawURLEncoding\<close>.\<close>

definition base64url :: "string \<Rightarrow> string" where
  "base64url s = map (\<lambda>c. if c = CHR ''+'' then CHR ''-'' else if c = CHR ''/'' then CHR ''_'' else c) (b64_encode s)"

definition base64url_decode :: "string \<Rightarrow> string option" where
  "base64url_decode s =
     (if CHR ''+'' \<in> set s \<or> CHR ''/'' \<in> set s then None
      else b64_decode (map (\<lambda>c. if c = CHR ''-'' then CHR ''+'' else if c = CHR ''_'' then CHR ''/'' else c) s))"

lemma b64_digit_url: "n < 64 \<Longrightarrow> b64_digit n \<noteq> CHR ''-'' \<and> b64_digit n \<noteq> CHR ''_'' \<and> b64_digit n \<noteq> CHR ''.''"
proof -
  have "list_all (\<lambda>n. b64_digit n \<noteq> CHR ''-'' \<and> b64_digit n \<noteq> CHR ''_'' \<and> b64_digit n \<noteq> CHR ''.'') [0..<64]" by code_simp
  then show "n < 64 \<Longrightarrow> ?thesis" by (simp add: list_all_iff)
qed

lemma base64url_round_trip: "base64url_decode (base64url s) = Some s"
proof -
  have "map (\<lambda>c. if c = CHR ''-'' then CHR ''+'' else if c = CHR ''_'' then CHR ''/'' else c) (base64url s) = b64_encode s"
    using b64_digit_url b64_encode_chars [of _ s] by (force simp: base64url_def intro!: map_idI)
  moreover have "CHR ''+'' \<notin> set (base64url s)" "CHR ''/'' \<notin> set (base64url s)" by (auto simp: base64url_def)
  ultimately show ?thesis by (simp add: base64url_decode_def b64_round_trip)
qed

lemma base64url_no_dot: "CHR ''.'' \<notin> set (base64url s)"
proof -
  have "CHR ''.'' \<notin> set (b64_encode s)" using b64_digit_url b64_encode_chars by metis
  then show ?thesis by (auto simp: base64url_def)
qed

subsection \<open>Passwords\<close>

definition hashPrefix :: string where
  "hashPrefix = ''$argon2id$v=19$m=65536,t=3,p=2$''"

definition weak_passwords :: "string list" where
  "weak_passwords = [''password'', ''password1234'', ''123456789012'', ''adminadminadmin'', ''change_me_please'']"

definition ValidatePasswordWithMinLength :: "string \<Rightarrow> int \<Rightarrow> store_error option" where
  "ValidatePasswordWithMinLength password minimum0 =
     (let minimum = (if minimum0 < 8 then 8 else minimum0) in
      if int (length password) < minimum
      then Some (ErrOther (''password must be at least '' @ decimal (nat minimum) @ '' characters''))
      else if list_ex (equalFold password) weak_passwords then Some (ErrOther ''password is too weak'')
      else None)"

definition ValidatePassword :: "string \<Rightarrow> store_error option" where
  "ValidatePassword password = ValidatePasswordWithMinLength password 8"

text \<open>\<open>argon password salt n\<close> is the derived key of \<open>n\<close> bytes; \<open>salt\<close> is the draw of the random source.\<close>

type_synonym kdf = "string \<Rightarrow> string \<Rightarrow> nat \<Rightarrow> string"

definition HashPassword :: "kdf \<Rightarrow> string result \<Rightarrow> string \<Rightarrow> string result" where
  "HashPassword argon draw password =
     (case ValidatePassword password of
        Some e \<Rightarrow> Inl e
      | None \<Rightarrow> (case draw of
          Inl e \<Rightarrow> Inl e
        | Inr salt \<Rightarrow> Inr (hashPrefix @ b64_encode salt @ ''$'' @ b64_encode (argon password salt 32))))"

definition VerifyPassword :: "kdf \<Rightarrow> string \<Rightarrow> string \<Rightarrow> bool" where
  "VerifyPassword argon password encoded =
     (let parts = splitOn (CHR ''$'') encoded in
      if length parts \<noteq> 6 \<or> parts ! 1 \<noteq> ''argon2id'' then False
      else (case b64_decode (parts ! 4) of
        None \<Rightarrow> False
      | Some salt \<Rightarrow> (case b64_decode (parts ! 5) of
          None \<Rightarrow> False
        | Some expected \<Rightarrow> argon password salt (length expected) = expected)))"

lemma hash_parts:
  "splitOn (CHR ''$'') (hashPrefix @ b64_encode salt @ ''$'' @ b64_encode key) =
     [[], ''argon2id'', ''v=19'', ''m=65536,t=3,p=2'', b64_encode salt, b64_encode key]"
proof -
  have "CHR ''$'' \<notin> set (b64_encode t)" for t using b64_encode_plain by blast
  then have "splitOn (CHR ''$'') (b64_encode salt @ CHR ''$'' # b64_encode key) = [b64_encode salt, b64_encode key]"
    by (simp add: splitOn_append_sep splitOn_no_sep)
  then show ?thesis by (simp add: hashPrefix_def)
qed

text \<open>A stored hash accepts exactly the passwords with the same derived key, its own password among them.\<close>

lemma VerifyPassword_HashPassword:
  assumes "\<And>p s n. length (argon p s n) = n" and "HashPassword argon (Inr salt) password = Inr encoded"
  shows "VerifyPassword argon candidate encoded \<longleftrightarrow> argon candidate salt 32 = argon password salt 32"
proof -
  have "encoded = hashPrefix @ b64_encode salt @ ''$'' @ b64_encode (argon password salt 32)"
    using assms(2) by (auto simp: HashPassword_def split: option.splits)
  then show ?thesis by (simp only: VerifyPassword_def hash_parts Let_def) (simp add: b64_round_trip assms(1))
qed

lemma HashPassword_valid: "HashPassword argon draw password = Inr encoded \<Longrightarrow> 8 \<le> length password"
  by (auto simp: HashPassword_def ValidatePassword_def ValidatePasswordWithMinLength_def Let_def split: option.splits if_splits)

definition HasPermission :: "string list \<Rightarrow> string \<Rightarrow> bool" where
  "HasPermission grants required = list_ex (\<lambda>grant. grant = ''*'' \<or> grant = required) grants"

subsection \<open>One-time codes\<close>

text \<open>\<^verbatim>\<open>strings.ToUpper\<close>, with the two code points outside ASCII whose image is an ASCII letter.\<close>

definition ascii_upper :: "char \<Rightarrow> char" where
  "ascii_upper c = (if 97 \<le> octet c \<and> octet c \<le> 122 then char_of (octet c - 32) else c)"

definition toUpper :: "string \<Rightarrow> string" where
  "toUpper s = map ascii_upper
     (fold_case [([CHR 0xC4, CHR 0xB1], CHR ''i''), ([CHR 0xC5, CHR 0xBF], CHR ''s'')] s)"

definition removeAll_char :: "char \<Rightarrow> string \<Rightarrow> string" where
  "removeAll_char c s = filter (\<lambda>d. d \<noteq> c) s"

definition normalizeTOTPCode :: "string \<Rightarrow> string" where
  "normalizeTOTPCode code = removeAll_char (CHR '' '') (trimSpace code)"

definition normalizeRecoveryCode :: "string \<Rightarrow> string" where
  "normalizeRecoveryCode code = removeAll_char (CHR ''-'') (removeAll_char (CHR '' '') (toUpper (trimSpace code)))"

definition HashRecoveryCode :: "(string \<Rightarrow> string) \<Rightarrow> string \<Rightarrow> string" where
  "HashRecoveryCode sha256hex code = sha256hex (normalizeRecoveryCode code)"

definition unix :: "time \<Rightarrow> int" where
  "unix t = t div second - 62135596800"

definition big_endian :: "64 word \<Rightarrow> string" where
  "big_endian w = map (\<lambda>i. char_of (unat (drop_bit (8 * i) w) mod 256)) (rev [0..<8])"

text \<open>
  The primitives: \<open>decodeBase32\<close> on unpadded input, \<open>hmac key message\<close>. A SHA-1 sum has 20 bytes,
  so the four bytes read at the offset exist.
\<close>

record totp_primitives =
  decodeBase32 :: "string \<Rightarrow> string option"
  hmac :: "string \<Rightarrow> string \<Rightarrow> string"

definition dynamic_truncation :: "string \<Rightarrow> nat" where
  "dynamic_truncation mac =
     (let offset = octet (last mac) mod 16; byte = (\<lambda>i. octet (mac ! (offset + i))) in
      byte 0 mod 128 * 2 ^ 24 + byte 1 * 2 ^ 16 + byte 2 * 2 ^ 8 + byte 3)"

definition totpCodeForCounter :: "totp_primitives \<Rightarrow> string \<Rightarrow> 64 word \<Rightarrow> string option" where
  "totpCodeForCounter prim secret counter =
     (case decodeBase32 prim (toUpper (trimSpace (removeAll_char (CHR '' '') secret))) of
        None \<Rightarrow> None
      | Some key \<Rightarrow> Some (zero_pad 6 (dynamic_truncation (hmac prim key (big_endian counter)) mod 1000000)))"

definition totp_counter :: "time \<Rightarrow> int" where
  "totp_counter now = unix now sdiv 30"

definition TOTPCode :: "totp_primitives \<Rightarrow> string \<Rightarrow> time \<Rightarrow> string option" where
  "TOTPCode prim secret now = totpCodeForCounter prim secret (word_of_int (totp_counter now))"

fun totp_window :: "totp_primitives \<Rightarrow> string \<Rightarrow> string \<Rightarrow> int \<Rightarrow> int list \<Rightarrow> bool" where
  "totp_window prim secret code counter [] = False"
| "totp_window prim secret code counter (offset # offsets) =
     (case totpCodeForCounter prim secret (word_of_int (counter + offset)) of
        None \<Rightarrow> False
      | Some expected \<Rightarrow> expected = code \<or> totp_window prim secret code counter offsets)"

definition VerifyTOTP :: "totp_primitives \<Rightarrow> string \<Rightarrow> string \<Rightarrow> time \<Rightarrow> bool" where
  "VerifyTOTP prim secret code0 now =
     (let code = normalizeTOTPCode code0 in
      if length code \<noteq> 6 then False else totp_window prim secret code (totp_counter now) [-1, 0, 1])"

definition GenerateRecoveryCodes :: "(string \<Rightarrow> string) \<Rightarrow> (nat \<Rightarrow> string result) \<Rightarrow> int \<Rightarrow> string list result" where
  "GenerateRecoveryCodes encodeBase32 draw count0 =
     (let count = nat (if count0 \<le> 0 then 10 else count0) in
      foldl (\<lambda>codes i. case codes of Inl e \<Rightarrow> Inl e | Inr cs \<Rightarrow>
        (case draw i of Inl e \<Rightarrow> Inl e
         | Inr raw \<Rightarrow> let encoded = toUpper (encodeBase32 raw) in
             Inr (cs @ [take 4 encoded @ ''-'' @ take 4 (drop 4 encoded) @ ''-'' @ take 4 (drop 8 encoded)])))
        (Inr []) [0..<count])"

text \<open>The codes are six digits, and a code is accepted one step before and one step after its own.\<close>

lemma decimal_length: "n < 10 ^ Suc k \<Longrightarrow> length (decimal n) \<le> Suc k"
proof (induction n arbitrary: k rule: decimal.induct)
  case (1 n)
  show ?case
  proof (cases "n < 10")
    case True
    then show ?thesis by (subst decimal.simps) simp
  next
    case False
    with 1(2) obtain j where k: "k = Suc j" by (cases k) auto
    with 1(2) have "n div 10 < 10 ^ Suc j" by (simp add: less_mult_imp_div_less)
    from 1(1) [OF False this] False k show ?thesis by (subst decimal.simps) simp
  qed
qed

lemma totp_code_length: "totpCodeForCounter prim secret counter = Some code \<Longrightarrow> length code = 6"
  using decimal_length [of _ 5]
  by (auto simp: totpCodeForCounter_def zero_pad_def split: option.splits)

lemma dynamic_truncation_in_range:
  "length s = 20 \<Longrightarrow> octet (last s) mod 16 + 3 < length s" "length s = 20 \<Longrightarrow> dynamic_truncation s < 2 ^ 31"
proof -
  show "length s = 20 \<Longrightarrow> octet (last s) mod 16 + 3 < length s"
    using mod_less_divisor [of 16 "octet (last s)"] by linarith
  show "dynamic_truncation s < 2 ^ 31"
  proof -
    have "a mod 128 * 2 ^ 24 + b * 2 ^ 16 + c * 2 ^ 8 + d < 2 ^ 31" if "b < 256" "c < 256" "d < 256" for a b c d :: nat
      using mod_less_divisor [of 128 a] that by simp
    then show ?thesis unfolding dynamic_truncation_def Let_def using octet_bound by blast
  qed
qed

lemma totp_accepts_neighbours:
  assumes "TOTPCode prim secret issued = Some code" and "\<bar>totp_counter now - totp_counter issued\<bar> \<le> 1"
    and "normalizeTOTPCode code = code"
  shows "VerifyTOTP prim secret code now"
proof -
  define n d where "n = totp_counter now" and "d = totp_counter issued - totp_counter now"
  have d: "d \<in> {-1, 0, 1}" using assms(2) by (auto simp: d_def)
  have hit: "totpCodeForCounter prim secret (word_of_int (n + d)) = Some code"
    using assms(1) by (simp add: TOTPCode_def n_def d_def)
  have "\<exists>c. totpCodeForCounter prim secret w = Some c" for w
    using hit by (auto simp: totpCodeForCounter_def split: option.splits)
  then obtain f where f: "\<And>w. totpCodeForCounter prim secret w = Some (f w)" by metis
  from d hit have "totp_window prim secret code n [-1, 0, 1]" by (auto simp: f)
  then show ?thesis using totp_code_length [OF hit] assms(3) by (simp add: VerifyTOTP_def n_def)
qed

end
