(* ===== verification/Audit_Log.thy ===== *)
theory Audit_Log
  imports Outbound_Policy
begin

text \<open>
  The audit log's events, filters and redaction (\<^verbatim>\<open>src/internal/store/audit_redaction.go\<close> and the
  audit part of \<^verbatim>\<open>memory_auth.go\<close>). The regular expressions that recognise secrets are written
  out over a small matcher; \<^verbatim>\<open>url.Parse\<close> and \<^verbatim>\<open>json.Marshal\<close> are arguments.
\<close>

subsection \<open>Regular expressions\<close>

text \<open>
  What the patterns use of Go's syntax: byte classes, sequences, alternatives, repetition and the
  ASCII word boundary. A position is the byte before it and the rest of the input; an expression
  yields the positions at which a match that starts here can end. A repetition makes at most one
  round per byte left, since every repeated expression consumes input.
\<close>

datatype rx = Eps | Cls "char \<Rightarrow> bool" | Cat rx rx | Alt rx rx | Star rx | Boundary

type_synonym position = "char option \<times> string"

definition word_char :: "char \<Rightarrow> bool" where
  "word_char c \<longleftrightarrow> (CHR ''a'' \<le> c \<and> c \<le> CHR ''z'') \<or> (CHR ''A'' \<le> c \<and> c \<le> CHR ''Z'') \<or>
     (CHR ''0'' \<le> c \<and> c \<le> CHR ''9'') \<or> c = CHR ''_''"

primrec iterate :: "(position \<Rightarrow> position list) \<Rightarrow> nat \<Rightarrow> position \<Rightarrow> position list" where
  "iterate f 0 x = [x]"
| "iterate f (Suc n) x = x # concat (map (iterate f n) (f x))"

primrec residuals :: "rx \<Rightarrow> position \<Rightarrow> position list" where
  "residuals Eps x = [x]"
| "residuals (Cls P) x = (case snd x of [] \<Rightarrow> [] | c # s \<Rightarrow> if P c then [(Some c, s)] else [])"
| "residuals (Cat r q) x = concat (map (residuals q) (residuals r x))"
| "residuals (Alt r q) x = residuals r x @ residuals q x"
| "residuals (Star r) x = iterate (residuals r) (length (snd x)) x"
| "residuals Boundary x =
     (if (case fst x of None \<Rightarrow> False | Some c \<Rightarrow> word_char c) \<noteq> (case snd x of [] \<Rightarrow> False | c # _ \<Rightarrow> word_char c)
      then [x] else [])"

fun positions :: "char option \<Rightarrow> string \<Rightarrow> position list" where
  "positions before [] = [(before, [])]"
| "positions before (c # s) = (before, c # s) # positions (Some c) s"

definition MatchString :: "rx \<Rightarrow> string \<Rightarrow> bool" where
  "MatchString r s = list_ex (\<lambda>x. residuals r x \<noteq> []) (positions None s)"

definition lit :: "string \<Rightarrow> rx" where
  "lit s = foldr (\<lambda>c r. Cat (Cls (\<lambda>d. d = c)) r) s Eps"

definition opt :: "rx \<Rightarrow> rx" where
  "opt r = Alt r Eps"

definition times :: "nat \<Rightarrow> rx \<Rightarrow> rx" where
  "times n r = (Cat r ^^ n) Eps"

definition at_least :: "nat \<Rightarrow> rx \<Rightarrow> rx" where
  "at_least n r = (Cat r ^^ n) (Star r)"

definition choice :: "rx list \<Rightarrow> rx" where
  "choice rs = foldr Alt (butlast rs) (last rs)"

definition sequence :: "rx list \<Rightarrow> rx" where
  "sequence rs = foldr Cat rs Eps"

text \<open>Under \<^verbatim>\<open>(?i)\<close> the letters s and k also match the long s and the Kelvin sign.\<close>

definition fold_rune :: "char \<Rightarrow> rx" where
  "fold_rune c =
     (let r = Cls (\<lambda>d. ascii_lower d = c) in
      if c = CHR ''s'' then Alt r (lit [CHR 0xC5, CHR 0xBF])
      else if c = CHR ''k'' then Alt r (lit [CHR 0xE2, CHR 0x84, CHR 0xAA]) else r)"

definition fold_lit :: "string \<Rightarrow> rx" where
  "fold_lit s = sequence (map fold_rune s)"

definition alnum :: "char \<Rightarrow> bool" where
  "alnum c \<longleftrightarrow> word_char c \<and> c \<noteq> CHR ''_''"

abbreviation alnum_or :: "string \<Rightarrow> rx" where
  "alnum_or extra \<equiv> Cls (\<lambda>c. alnum c \<or> c \<in> set extra)"

definition fold_alnum_or :: "string \<Rightarrow> rx" where
  "fold_alnum_or extra = choice [alnum_or extra, lit [CHR 0xC5, CHR 0xBF], lit [CHR 0xE2, CHR 0x84, CHR 0xAA]]"

definition space_char :: "char \<Rightarrow> bool" where
  "space_char c \<longleftrightarrow> c \<in> {CHR 0x09, CHR 0x0A, CHR 0x0C, CHR 0x0D, CHR 0x20}"

abbreviation named_secret :: "string \<Rightarrow> string \<Rightarrow> rx" where
  "named_secret a b \<equiv> sequence [fold_lit a, opt (Cls (\<lambda>c. c \<in> set ''_ -'')), fold_lit b]"

definition auditSecretValuePatterns :: "rx list" where
  "auditSecretValuePatterns =
     [sequence [fold_lit ''discord.com/api/webhooks/'', at_least 1 (fold_alnum_or ''_-''), fold_lit ''/'',
        at_least 1 (fold_alnum_or ''_-'')],
      sequence [fold_lit ''hooks.slack.com/services/'', at_least 1 (fold_alnum_or ''/_-'')],
      sequence [Boundary, lit ''xox'', Cls (\<lambda>c. c \<in> set ''baprs''), lit ''-'', at_least 20 (alnum_or ''-''), Boundary],
      sequence [Boundary, lit ''github_pat_'', at_least 20 (alnum_or ''_''), Boundary],
      sequence [Boundary, lit ''gh'', Cls (\<lambda>c. c \<in> set ''pousr''), lit ''_'', at_least 20 (alnum_or ''_''), Boundary],
      sequence [Boundary, lit ''ast_svc_'', at_least 16 (alnum_or ''_-''), Boundary],
      sequence [Boundary, lit ''ast_ingest_v1.'', at_least 1 (alnum_or ''_-''), lit ''.'', at_least 1 (alnum_or ''_-''), Boundary],
      sequence [lit ''AIza'', times 35 (alnum_or ''_-'')],
      sequence [lit ''-----BEGIN '', opt (choice [lit ''RSA '', lit ''EC '', lit ''OPENSSH '']), lit ''PRIVATE KEY-----''],
      sequence [Boundary, lit ''1//'', at_least 20 (alnum_or ''_-''), Boundary],
      sequence [Boundary, fold_lit ''raw-'', at_least 0 (fold_alnum_or ''_-''),
        choice [fold_lit ''token'', fold_lit ''secret'', fold_lit ''password'', fold_lit ''stream-key'', fold_lit ''folder-id''],
        at_least 0 (fold_alnum_or ''_-''), Boundary],
      sequence [Boundary,
        choice [named_secret ''stream'' ''key'', named_secret ''refresh'' ''token'', named_secret ''access'' ''token'',
          named_secret ''client'' ''secret'', named_secret ''smtp'' ''password'', named_secret ''folder'' ''id''],
        Star (Cls space_char), Cls (\<lambda>c. c \<in> set '':=''), Star (Cls space_char),
        at_least 1 (Cls (\<lambda>c. \<not> space_char c \<and> c \<notin> set '',;''))]]"

subsection \<open>Redaction\<close>

definition auditSecretTokens :: "string list" where
  "auditSecretTokens =
     [''password'', ''passwd'', ''token'', ''secret'', ''api_key'', ''apikey'', ''private_key'', ''credential'', ''webhook_url'',
      ''stream_key'', ''refresh_token'', ''access_token'', ''client_secret'', ''folder_id'', ''drive_folder_id'',
      ''google_drive_folder_id'', ''gdrive_folder_id'']"

definition auditSecretKey :: "string \<Rightarrow> bool" where
  "auditSecretKey key0 =
     (let key = toLower (trimSpace key0) in
      if prefix ''has_'' key \<or> suffix ''_configured'' key \<or> suffix ''_status'' key \<or> suffix ''_fingerprint'' key then False
      else if key = ''value'' \<or> key = ''raw'' \<or> key = ''authorization'' then True
      else list_ex (contains key) auditSecretTokens)"

definition auditSecretValue :: "(string \<Rightarrow> url option) \<Rightarrow> string \<Rightarrow> bool" where
  "auditSecretValue parseURL value0 =
     (let value = trimSpace value0 in
      if value = [] then False
      else if list_ex (\<lambda>pattern. MatchString pattern value) auditSecretValuePatterns then True
      else (case parseURL value of
        None \<Rightarrow> False
      | Some parsed \<Rightarrow>
        if url_Scheme parsed \<noteq> [] \<and> url_Host parsed \<noteq> [] \<and> url_User parsed \<noteq> None then True
        else url_Scheme parsed \<noteq> [] \<and> url_Host parsed \<noteq> [] \<and>
          list_ex (\<lambda>(key, values). auditSecretKey key \<and> list_ex (\<lambda>queryValue. trimSpace queryValue \<noteq> []) values)
            (url_Query parsed)))"

definition redactedAuditString :: "(string \<Rightarrow> url option) \<Rightarrow> string \<Rightarrow> string" where
  "redactedAuditString parseURL value = (if auditSecretValue parseURL value then ''<redacted>'' else value)"

text \<open>\<^verbatim>\<open>map[string]string\<close> and \<^verbatim>\<open>[]string\<close> are objects and arrays of strings.\<close>

function redactedAuditMetadata :: "(string \<Rightarrow> url option) \<Rightarrow> any \<Rightarrow> any" where
  "redactedAuditMetadata parseURL ANil = ANil"
| "redactedAuditMetadata parseURL (ABool b) = ABool b"
| "redactedAuditMetadata parseURL (AStr s) = AStr (if auditSecretValue parseURL s then ''<redacted>'' else s)"
| "redactedAuditMetadata parseURL (ANum n) = ANum n"
| "redactedAuditMetadata parseURL (AArr xs) = AArr (map (redactedAuditMetadata parseURL) xs)"
| "redactedAuditMetadata parseURL (AObj m) =
     AObj (map (\<lambda>x. if auditSecretKey (fst x) then (fst x, AStr ''<redacted>'')
       else (fst x, redactedAuditMetadata parseURL (snd x))) m)"
  by pat_completeness auto
termination
  by (relation "measure (\<lambda>(_, v). size v)") (auto simp del: any.size dest: size_any_entry size_any_item)

record audit_event =
  ae_ID :: string
  ae_Timestamp :: time
  ae_ActorUserID :: string
  ae_ActorUsername :: string
  ae_ActorIP :: string
  ae_UserAgent :: string
  ae_Action :: string
  ae_ResourceType :: string
  ae_ResourceID :: string
  ae_Result :: string
  ae_Metadata :: "any gomap"
  ae_RequestID :: string

definition redacted_entries :: "(string \<Rightarrow> url option) \<Rightarrow> any gomap \<Rightarrow> any gomap" where
  "redacted_entries parseURL m =
     (case redactedAuditMetadata parseURL (AObj m) of AObj m' \<Rightarrow> m' | _ \<Rightarrow> [])"

definition redactedAuditEvent :: "(string \<Rightarrow> url option) \<Rightarrow> audit_event \<Rightarrow> audit_event" where
  "redactedAuditEvent parseURL event =
     event\<lparr>ae_ActorUserID := redactedAuditString parseURL (ae_ActorUserID event),
       ae_ActorUsername := redactedAuditString parseURL (ae_ActorUsername event),
       ae_ActorIP := redactedAuditString parseURL (ae_ActorIP event),
       ae_UserAgent := redactedAuditString parseURL (ae_UserAgent event),
       ae_ResourceID := redactedAuditString parseURL (ae_ResourceID event),
       ae_RequestID := redactedAuditString parseURL (ae_RequestID event),
       ae_Metadata := redacted_entries parseURL (ae_Metadata event)\<rparr>"

subsection \<open>Filters\<close>

record audit_filter =
  af_Limit :: int
  af_Actions :: "string list"
  af_ExcludedActions :: "string list"
  af_Result :: string
  af_Query :: string
  af_From :: time
  af_To :: time

fun normalizeActions :: "string list \<Rightarrow> string list \<Rightarrow> string list" where
  "normalizeActions seen [] = []"
| "normalizeActions seen (action0 # actions) =
     (let action = trimSpace action0 in
      if action = [] \<or> action \<in> set seen then normalizeActions seen actions
      else action # normalizeActions (action # seen) actions)"

definition normalizeAuditFilter :: "audit_filter \<Rightarrow> audit_filter" where
  "normalizeAuditFilter f =
     f\<lparr>af_Limit := (if af_Limit f \<le> 0 \<or> af_Limit f > 500 then 100 else af_Limit f),
       af_Result := (let r = trimSpace (af_Result f) in if r \<noteq> ''success'' \<and> r \<noteq> ''failure'' then [] else r),
       af_Query := trimSpace (af_Query f),
       af_Actions := normalizeActions [] (af_Actions f),
       af_ExcludedActions := normalizeActions [] (af_ExcludedActions f)\<rparr>"

definition joinWith :: "string \<Rightarrow> string list \<Rightarrow> string" where
  "joinWith sep xs = (case xs of [] \<Rightarrow> [] | y # ys \<Rightarrow> y @ concat (map (\<lambda>z. sep @ z) ys))"

definition auditEventMatchesFilter :: "(any gomap \<Rightarrow> string) \<Rightarrow> audit_event \<Rightarrow> audit_filter \<Rightarrow> bool" where
  "auditEventMatchesFilter marshal event f =
     (if af_Actions f \<noteq> [] \<and> \<not> list_ex (\<lambda>action. ae_Action event = action) (af_Actions f) then False
      else if list_ex (\<lambda>action. ae_Action event = action) (af_ExcludedActions f) then False
      else if af_Result f \<noteq> [] \<and> ae_Result event \<noteq> af_Result f then False
      else if \<not> isZero (af_From f) \<and> ae_Timestamp event < af_From f then False
      else if \<not> isZero (af_To f) \<and> \<not> ae_Timestamp event < af_To f then False
      else if af_Query f = [] then True
      else contains (toLower (joinWith '' '' [ae_Action event, ae_ActorUsername event, ae_ResourceType event,
          ae_ResourceID event, ae_Result event, marshal (ae_Metadata event)])) (toLower (af_Query f)))"

text \<open>The loop of \<^verbatim>\<open>ListAudit\<close>: from the newest event down, until the limit is reached.\<close>

fun list_matching :: "('a \<Rightarrow> bool) \<Rightarrow> ('a \<Rightarrow> 'b) \<Rightarrow> int \<Rightarrow> 'a list \<Rightarrow> 'b list \<Rightarrow> 'b list" where
  "list_matching P f limit [] out = out"
| "list_matching P f limit (event # events) out =
     (if \<not> int (length out) < limit then out
      else list_matching P f limit events (if P event then out @ [f event] else out))"

lemma list_matching_take:
  assumes "0 \<le> limit" and "int (length out) \<le> limit"
  shows "list_matching P f limit events out = take (nat limit) (out @ map f (filter P events))"
  using assms
proof (induction events arbitrary: out)
  case (Cons e events)
  show ?case
  proof (cases "int (length out) < limit")
    case True
    then have "nat limit - length out = Suc (nat limit - Suc (length out))" by linarith
    then have "take (nat limit - length out) (f e # xs) = f e # take (nat limit - Suc (length out)) xs" for xs by simp
    then show ?thesis using Cons True by simp
  next
    case False
    then have "length out = nat limit" using Cons.prems by linarith
    then show ?thesis using False by simp
  qed
qed simp

text \<open>What redaction guarantees of a value: no string and no object entry is left that it would replace.\<close>

function audit_clean :: "(string \<Rightarrow> url option) \<Rightarrow> any \<Rightarrow> bool" where
  "audit_clean parseURL ANil = True"
| "audit_clean parseURL (ABool b) = True"
| "audit_clean parseURL (AStr s) = (s = ''<redacted>'' \<or> \<not> auditSecretValue parseURL s)"
| "audit_clean parseURL (ANum n) = True"
| "audit_clean parseURL (AArr xs) = list_all (audit_clean parseURL) xs"
| "audit_clean parseURL (AObj m) =
     list_all (\<lambda>x. if auditSecretKey (fst x) then snd x = AStr ''<redacted>'' else audit_clean parseURL (snd x)) m"
  by pat_completeness auto
termination
  by (relation "measure (\<lambda>(_, v). size v)") (auto simp del: any.size dest: size_any_entry size_any_item)

lemma redacted_clean: "audit_clean parseURL (redactedAuditMetadata parseURL v)"
  by (induction parseURL v rule: redactedAuditMetadata.induct) (auto simp: list_all_iff)

lemma redacted_entries_eq: "AObj (redacted_entries parseURL m) = redactedAuditMetadata parseURL (AObj m)"
  by (simp add: redacted_entries_def)

definition event_clean :: "(string \<Rightarrow> url option) \<Rightarrow> audit_event \<Rightarrow> bool" where
  "event_clean parseURL event \<longleftrightarrow>
     audit_clean parseURL (AArr (map AStr [ae_ActorUserID event, ae_ActorUsername event, ae_ActorIP event,
       ae_UserAgent event, ae_ResourceID event, ae_RequestID event])) \<and>
     audit_clean parseURL (AObj (ae_Metadata event))"

lemma redacted_event_clean: "event_clean parseURL (redactedAuditEvent parseURL event)"
proof -
  have "audit_clean parseURL (AObj (redacted_entries parseURL m))" for m
    unfolding redacted_entries_eq by (rule redacted_clean)
  then show ?thesis by (simp del: audit_clean.simps(6) add: event_clean_def redactedAuditEvent_def) (simp add: redactedAuditString_def)
qed

text \<open>Redacting twice is redacting once, provided the replacement text is not itself a secret.\<close>

lemma redact_clean_id:
  "audit_clean parseURL v \<Longrightarrow> \<not> auditSecretValue parseURL ''<redacted>'' \<Longrightarrow> redactedAuditMetadata parseURL v = v"
proof (induction parseURL v rule: redactedAuditMetadata.induct)
  case (6 parseURL m)
  then have "(if auditSecretKey (fst x) then (fst x, AStr ''<redacted>'') else (fst x, redactedAuditMetadata parseURL (snd x))) = x"
    if "x \<in> set m" for x using that by (cases x) (fastforce simp: list_all_iff split: if_splits)
  then show ?case by (simp add: map_idI)
next
  case (5 parseURL xs)
  then show ?case by (auto simp: list_all_iff intro!: map_idI)
qed auto

lemma redact_event_id:
  "event_clean parseURL event \<Longrightarrow> \<not> auditSecretValue parseURL ''<redacted>'' \<Longrightarrow> redactedAuditEvent parseURL event = event"
proof -
  assume e: "event_clean parseURL event" and r: "\<not> auditSecretValue parseURL ''<redacted>''"
  have "redacted_entries parseURL (ae_Metadata event) = ae_Metadata event"
    using e redact_clean_id [OF _ r, of "AObj (ae_Metadata event)"] by (simp only: redacted_entries_def event_clean_def any.case)
  moreover have "redactedAuditString parseURL s = s" if "audit_clean parseURL (AStr s)" for s
    using that r by (auto simp: redactedAuditString_def)
  ultimately show ?thesis using e by (simp del: audit_clean.simps(3,6) add: redactedAuditEvent_def event_clean_def)
qed

lemma redacted_text_plain:
  assumes "\<And>u. parseURL ''<redacted>'' = Some u \<Longrightarrow> url_Scheme u = []"
  shows "\<not> auditSecretValue parseURL ''<redacted>''"
proof -
  have "trimSpace ''<redacted>'' = ''<redacted>''" by code_simp
  moreover have "\<not> list_ex (\<lambda>pattern. MatchString pattern ''<redacted>'') auditSecretValuePatterns" by code_simp
  ultimately show ?thesis using assms by (auto simp: auditSecretValue_def split: option.splits)
qed

end
