(* ===== verification/Account_Store.thy ===== *)
theory Account_Store
  imports Credentials Audit_Log
begin

text \<open>
  The accounts of the panel on the memory store (\<^verbatim>\<open>src/internal/store/memory_auth.go\<close>,
  \<^verbatim>\<open>memory_admin.go\<close>): users and roles, sessions, failed logins, multi-factor configuration,
  one-time challenges, passkeys and the audit log. These are the fields of \<^verbatim>\<open>MemoryAuthStore\<close> that
  the operations on services do not touch, so they are a record of their own; no operation reads or
  writes both halves. Digests, the key derivation, \<^verbatim>\<open>mail.ParseAddress\<close>, random draws and
  readings of the clock are arguments; \<^verbatim>\<open>[]byte\<close> is a byte string.
\<close>

subsection \<open>Data\<close>

record user =
  us_ID :: string
  us_Username :: string
  us_Email :: string
  us_Status :: string
  us_Roles :: "string list"
  us_RoleIDs :: "string list"
  us_LastLoginAt :: "time option"
  us_LastLoginIP :: string
  us_PasswordHash :: string

definition zero_user :: user where
  "zero_user = \<lparr>us_ID = [], us_Username = [], us_Email = [], us_Status = [], us_Roles = [], us_RoleIDs = [],
     us_LastLoginAt = None, us_LastLoginIP = [], us_PasswordHash = []\<rparr>"

record user_avatar =
  av_UserID :: string
  av_ContentType :: string
  av_Data :: string
  av_Fingerprint :: string
  av_UpdatedAt :: time

record user_avatar_info =
  ai_UserID :: string
  ai_ContentType :: string
  ai_SizeBytes :: int
  ai_Fingerprint :: string
  ai_UpdatedAt :: time

record session =
  sn_Token :: string
  sn_TokenHash :: string
  sn_CSRFToken :: string
  sn_CSRFTokenHash :: string
  sn_UserID :: string
  sn_IdleExpiresAt :: time
  sn_AbsoluteExpiresAt :: time

record mfa_config =
  mc_UserID :: string
  mc_Enabled :: bool
  mc_TOTPSecret :: string
  mc_PendingTOTPSecret :: string
  mc_RecoveryCodeHashes :: "string list"
  mc_UpdatedAt :: time

definition zero_mfa :: mfa_config where
  "zero_mfa = \<lparr>mc_UserID = [], mc_Enabled = False, mc_TOTPSecret = [], mc_PendingTOTPSecret = [],
     mc_RecoveryCodeHashes = [], mc_UpdatedAt = 0\<rparr>"

record mfa_challenge =
  mh_Token :: string
  mh_TokenHash :: string
  mh_UserID :: string
  mh_ExpiresAt :: time

record email_change_challenge =
  eh_Token :: string
  eh_TokenHash :: string
  eh_UserID :: string
  eh_Email :: string
  eh_ExpiresAt :: time
  eh_CreatedAt :: time

record passkey_registration_challenge =
  pr_Token :: string
  pr_TokenHash :: string
  pr_UserID :: string
  pr_Challenge :: string
  pr_UserHandle :: string
  pr_RPID :: string
  pr_RPName :: string
  pr_UserName :: string
  pr_UserDisplayName :: string
  pr_ExpiresAt :: time
  pr_CreatedAt :: time

record passkey_ceremony_session =
  pc_Token :: string
  pc_TokenHash :: string
  pc_UserID :: string
  pc_Ceremony :: string
  pc_SessionJSON :: string
  pc_ExpiresAt :: time
  pc_CreatedAt :: time

record passkey_credential =
  pk_ID :: string
  pk_UserID :: string
  pk_Name :: string
  pk_CredentialID :: string
  pk_CredentialIDHash :: string
  pk_PublicKeyCBOR :: string
  pk_SignCount :: "32 word"
  pk_Transports :: "string list"
  pk_AAGUID :: string
  pk_BackupEligible :: bool
  pk_BackedUp :: bool
  pk_CreatedAt :: time
  pk_UpdatedAt :: time
  pk_LastUsedAt :: "time option"

record role =
  rl_ID :: string
  rl_Name :: string
  rl_Permissions :: "string list"
  rl_CreatedAt :: time

record user_patch =
  up_Username :: string
  up_Email :: "string option"
  up_RoleIDs :: "string list option"

record account_store =
  users :: "user gomap"
  byUsername :: "string gomap"
  roles :: "role gomap"
  permissions :: "string list gomap"
  sessions :: "session gomap"
  failedLogins :: "int gomap"
  avatars :: "user_avatar gomap"
  mfaConfigs :: "mfa_config gomap"
  mfaChallenges :: "mfa_challenge gomap"
  emailChanges :: "email_change_challenge gomap"
  passkeys :: "passkey_credential gomap"
  passkeyReg :: "passkey_registration_challenge gomap"
  passkeySess :: "passkey_ceremony_session gomap"
  auditEvents :: "audit_event list"

definition NewAccountStore :: account_store where
  "NewAccountStore = \<lparr>users = [], byUsername = [], roles = [], permissions = [], sessions = [], failedLogins = [],
     avatars = [], mfaConfigs = [], mfaChallenges = [], emailChanges = [], passkeys = [], passkeyReg = [],
     passkeySess = [], auditEvents = []\<rparr>"

text \<open>Reads of a map that fall back to the zero value.\<close>

definition user_or_zero :: "account_store \<Rightarrow> string \<Rightarrow> user" where
  "user_or_zero a i = (case mget (users a) i of None \<Rightarrow> zero_user | Some u \<Rightarrow> u)"

definition mfa_or_zero :: "account_store \<Rightarrow> string \<Rightarrow> mfa_config" where
  "mfa_or_zero a i = (case mget (mfaConfigs a) i of None \<Rightarrow> zero_mfa | Some c \<Rightarrow> c)"

definition failures :: "account_store \<Rightarrow> string \<Rightarrow> int" where
  "failures a name = (case mget (failedLogins a) name of None \<Rightarrow> 0 | Some n \<Rightarrow> n)"

abbreviation put_user :: "string \<Rightarrow> user \<Rightarrow> account_store \<Rightarrow> account_store" where
  "put_user i u a \<equiv> a\<lparr>users := mput (users a) i u\<rparr>"

abbreviation put_mfa :: "string \<Rightarrow> mfa_config \<Rightarrow> account_store \<Rightarrow> account_store" where
  "put_mfa i c a \<equiv> a\<lparr>mfaConfigs := mput (mfaConfigs a) i c\<rparr>"

subsection \<open>Users\<close>

definition CountUsers :: "ctx \<Rightarrow> account_store \<Rightarrow> (int, account_store) outcome" where
  "CountUsers c = with_ctx c (\<lambda>a. (Inr (int (length (users a))), a))"

definition FindUserByUsername :: "ctx \<Rightarrow> string \<Rightarrow> account_store \<Rightarrow> (user, account_store) outcome" where
  "FindUserByUsername c username = with_ctx c (\<lambda>a.
     case mget (byUsername a) username of None \<Rightarrow> (Inl ErrNotFound, a) | Some i \<Rightarrow> (Inr (user_or_zero a i), a))"

text \<open>One fresh role per role name of the user; \<open>uuid\<close> and \<open>now\<close> give the draws and readings in order.\<close>

definition add_role ::
  "string list \<Rightarrow> (nat \<Rightarrow> string) \<Rightarrow> (nat \<Rightarrow> time) \<Rightarrow> user \<times> account_store \<Rightarrow> nat \<times> string \<Rightarrow> user \<times> account_store" where
  "add_role granted uuid now x entry =
     (let (u, a) = x; (i, name) = entry;
          rl = \<lparr>rl_ID = uuid (Suc i), rl_Name = name, rl_Permissions = granted, rl_CreatedAt = now i\<rparr> in
      (u\<lparr>us_RoleIDs := us_RoleIDs u @ [rl_ID rl]\<rparr>, a\<lparr>roles := mput (roles a) (rl_ID rl) rl\<rparr>))"

definition AddUser ::
  "kdf \<Rightarrow> string result \<Rightarrow> (nat \<Rightarrow> string) \<Rightarrow> (nat \<Rightarrow> time) \<Rightarrow> user \<Rightarrow> string \<Rightarrow> string list \<Rightarrow>
   account_store \<Rightarrow> (unit, account_store) outcome" where
  "AddUser argon salt uuid now u0 password granted a =
     (case HashPassword argon salt password of
        Inl e \<Rightarrow> (Inl e, a)
      | Inr hash \<Rightarrow>
        let u1 = u0\<lparr>us_ID := (if us_ID u0 = [] then uuid 0 else us_ID u0),
              us_Status := (if us_Status u0 = [] then ''active'' else us_Status u0), us_PasswordHash := hash\<rparr>;
            (u, a1) = foldl (add_role granted uuid now) (u1, a) (enumerate 0 (us_Roles u1)) in
        (Inr (), a1\<lparr>users := mput (users a1) (us_ID u) u, byUsername := mput (byUsername a1) (us_Username u) (us_ID u),
           permissions := mput (permissions a1) (us_ID u) granted\<rparr>))"

definition CreateFirstAdmin ::
  "kdf \<Rightarrow> string result \<Rightarrow> (nat \<Rightarrow> string) \<Rightarrow> (nat \<Rightarrow> time) \<Rightarrow> ctx \<Rightarrow> ctx \<Rightarrow> string \<Rightarrow> string \<Rightarrow> string list \<Rightarrow>
   account_store \<Rightarrow> (user, account_store) outcome" where
  "CreateFirstAdmin argon salt uuid now c c' username password granted = with_ctx c (\<lambda>a.
     case AddUser argon salt uuid now
       (zero_user\<lparr>us_Username := username, us_Status := ''active'', us_Roles := [''super_admin'']\<rparr>) password granted a of
       (Inl e, a1) \<Rightarrow> (Inl e, a1)
     | (Inr _, a1) \<Rightarrow> FindUserByUsername c' username a1)"

definition GetUser :: "ctx \<Rightarrow> string \<Rightarrow> account_store \<Rightarrow> (user, account_store) outcome" where
  "GetUser c i = with_ctx c (\<lambda>a. case mget (users a) i of None \<Rightarrow> (Inl ErrNotFound, a) | Some u \<Rightarrow> (Inr u, a))"

definition userAvatarInfo :: "user_avatar \<Rightarrow> user_avatar_info" where
  "userAvatarInfo avatar = \<lparr>ai_UserID = av_UserID avatar, ai_ContentType = av_ContentType avatar,
     ai_SizeBytes = int (length (av_Data avatar)), ai_Fingerprint = av_Fingerprint avatar, ai_UpdatedAt = av_UpdatedAt avatar\<rparr>"

definition GetUserAvatar :: "ctx \<Rightarrow> string \<Rightarrow> account_store \<Rightarrow> (user_avatar, account_store) outcome" where
  "GetUserAvatar c i = with_ctx c (\<lambda>a. case mget (avatars a) i of None \<Rightarrow> (Inl ErrNotFound, a) | Some v \<Rightarrow> (Inr v, a))"

definition GetUserAvatarInfo :: "ctx \<Rightarrow> string \<Rightarrow> account_store \<Rightarrow> (user_avatar_info, account_store) outcome" where
  "GetUserAvatarInfo c i = with_ctx c (\<lambda>a.
     case mget (avatars a) i of None \<Rightarrow> (Inl ErrNotFound, a) | Some v \<Rightarrow> (Inr (userAvatarInfo v), a))"

definition UpsertUserAvatar :: "ctx \<Rightarrow> user_avatar \<Rightarrow> time \<Rightarrow> account_store \<Rightarrow> (user_avatar_info, account_store) outcome" where
  "UpsertUserAvatar c avatar0 now = with_ctx c (\<lambda>a.
     if mget (users a) (av_UserID avatar0) = None then (Inl ErrNotFound, a)
     else let avatar = (if isZero (av_UpdatedAt avatar0) then avatar0\<lparr>av_UpdatedAt := now\<rparr> else avatar0) in
       (Inr (userAvatarInfo avatar), a\<lparr>avatars := mput (avatars a) (av_UserID avatar) avatar\<rparr>))"

definition DeleteUserAvatar :: "ctx \<Rightarrow> string \<Rightarrow> account_store \<Rightarrow> (unit, account_store) outcome" where
  "DeleteUserAvatar c i = with_ctx c (\<lambda>a. (Inr (), a\<lparr>avatars := mdel (avatars a) i\<rparr>))"

definition GetUserPermissions :: "ctx \<Rightarrow> string \<Rightarrow> account_store \<Rightarrow> (string list, account_store) outcome" where
  "GetUserPermissions c i = with_ctx c (\<lambda>a. (Inr (mlist (permissions a) i), a))"

definition ChangePassword ::
  "kdf \<Rightarrow> string result \<Rightarrow> ctx \<Rightarrow> string \<Rightarrow> string \<Rightarrow> account_store \<Rightarrow> (unit, account_store) outcome" where
  "ChangePassword argon salt c i newPassword = with_ctx c (\<lambda>a.
     case HashPassword argon salt newPassword of
       Inl e \<Rightarrow> (Inl e, a)
     | Inr hash \<Rightarrow> (case mget (users a) i of
         None \<Rightarrow> (Inl ErrNotFound, a)
       | Some u \<Rightarrow> (Inr (), put_user i (u\<lparr>us_PasswordHash := hash, us_Status := ''active''\<rparr>) a)))"

subsection \<open>Sessions\<close>

definition new_session ::
  "(string \<Rightarrow> string) \<Rightarrow> string \<Rightarrow> string \<Rightarrow> string \<Rightarrow> time \<Rightarrow> time \<Rightarrow> time \<Rightarrow> session" where
  "new_session sha256hex raw csrf userID now idleTTL absoluteTTL =
     \<lparr>sn_Token = raw, sn_TokenHash = sha256hex raw, sn_CSRFToken = csrf, sn_CSRFTokenHash = sha256hex csrf, sn_UserID = userID,
      sn_IdleExpiresAt = now + idleTTL, sn_AbsoluteExpiresAt = now + absoluteTTL\<rparr>"

definition CreateSession ::
  "(string \<Rightarrow> string) \<Rightarrow> string result \<Rightarrow> string result \<Rightarrow> ctx \<Rightarrow> string \<Rightarrow> time \<Rightarrow> time \<Rightarrow> time \<Rightarrow>
   account_store \<Rightarrow> (session, account_store) outcome" where
  "CreateSession sha256hex draw1 draw2 c userID idleTTL absoluteTTL now = with_ctx c (\<lambda>a.
     case draw1 of Inl e \<Rightarrow> (Inl e, a) | Inr raw \<Rightarrow>
     (case draw2 of Inl e \<Rightarrow> (Inl e, a) | Inr csrf \<Rightarrow>
       let s = new_session sha256hex raw csrf userID now idleTTL absoluteTTL in
       (Inr s, a\<lparr>sessions := mput (sessions a) (sn_TokenHash s) s\<rparr>)))"

text \<open>The two comparisons of \<^verbatim>\<open>GetSession\<close> read the clock separately, the second only if the first passes.\<close>

definition GetSession ::
  "(string \<Rightarrow> string) \<Rightarrow> ctx \<Rightarrow> string \<Rightarrow> time \<Rightarrow> time \<Rightarrow> account_store \<Rightarrow> (session, account_store) outcome" where
  "GetSession sha256hex c rawToken now now' = with_ctx c (\<lambda>a.
     case mget (sessions a) (sha256hex rawToken) of
       None \<Rightarrow> (Inl ErrNotFound, a)
     | Some s \<Rightarrow> if now > sn_IdleExpiresAt s \<or> now' > sn_AbsoluteExpiresAt s then (Inl ErrNotFound, a) else (Inr s, a))"

definition RefreshSession ::
  "(string \<Rightarrow> string) \<Rightarrow> ctx \<Rightarrow> string \<Rightarrow> time \<Rightarrow> time \<Rightarrow> account_store \<Rightarrow> (session, account_store) outcome" where
  "RefreshSession sha256hex c rawToken idleTTL now = with_ctx c (\<lambda>a.
     let hash = sha256hex rawToken in
     (case mget (sessions a) hash of
        None \<Rightarrow> (Inl ErrNotFound, a\<lparr>sessions := mdel (sessions a) hash\<rparr>)
      | Some s \<Rightarrow>
        if \<not> now < sn_IdleExpiresAt s \<or> \<not> now < sn_AbsoluteExpiresAt s
        then (Inl ErrNotFound, a\<lparr>sessions := mdel (sessions a) hash\<rparr>)
        else let s' = s\<lparr>sn_IdleExpiresAt := (if now + idleTTL > sn_AbsoluteExpiresAt s then sn_AbsoluteExpiresAt s else now + idleTTL)\<rparr> in
          (Inr s', a\<lparr>sessions := mput (sessions a) hash s'\<rparr>)))"

definition DeleteSession :: "(string \<Rightarrow> string) \<Rightarrow> ctx \<Rightarrow> string \<Rightarrow> account_store \<Rightarrow> (unit, account_store) outcome" where
  "DeleteSession sha256hex c rawToken = with_ctx c (\<lambda>a. (Inr (), a\<lparr>sessions := mdel (sessions a) (sha256hex rawToken)\<rparr>))"

definition DeleteUserSessions :: "ctx \<Rightarrow> string \<Rightarrow> account_store \<Rightarrow> (unit, account_store) outcome" where
  "DeleteUserSessions c userID = with_ctx c (\<lambda>a.
     (Inr (), a\<lparr>sessions := mdel_where (\<lambda>_ s. sn_UserID s = userID) (sessions a)\<rparr>))"

text \<open>A login is recorded for whatever identifier is given; an unknown one gets a zero user.\<close>

definition RecordLoginSuccess :: "ctx \<Rightarrow> string \<Rightarrow> string \<Rightarrow> time \<Rightarrow> account_store \<Rightarrow> (unit, account_store) outcome" where
  "RecordLoginSuccess c userID ip now = with_ctx c (\<lambda>a.
     let u = (user_or_zero a userID)\<lparr>us_LastLoginAt := Some now, us_LastLoginIP := ip\<rparr> in
     (Inr (), (put_user userID u a)\<lparr>failedLogins := mdel (failedLogins a) (us_Username u)\<rparr>))"

definition defaultLoginLockoutThreshold :: int where
  "defaultLoginLockoutThreshold = 5"

definition RecordLoginFailure :: "ctx \<Rightarrow> string \<Rightarrow> int \<Rightarrow> account_store \<Rightarrow> (unit, account_store) outcome" where
  "RecordLoginFailure c username threshold0 = with_ctx c (\<lambda>a.
     let threshold = (if threshold0 < 1 then defaultLoginLockoutThreshold else threshold0) in
     (case mget (byUsername a) username of
        None \<Rightarrow> (Inr (), a)
      | Some i \<Rightarrow>
        let n = failures a username + 1;
            a1 = a\<lparr>failedLogins := mput (failedLogins a) username n\<rparr>;
            u = user_or_zero a1 i in
        if n \<ge> threshold \<and> us_Status u = ''active'' then (Inr (), put_user i (u\<lparr>us_Status := ''locked''\<rparr>) a1)
        else (Inr (), a1)))"

subsection \<open>Second factors\<close>

definition GetMFAConfig :: "ctx \<Rightarrow> string \<Rightarrow> account_store \<Rightarrow> (mfa_config, account_store) outcome" where
  "GetMFAConfig c userID = with_ctx c (\<lambda>a. (Inr ((mfa_or_zero a userID)\<lparr>mc_UserID := userID\<rparr>), a))"

definition StartTOTPEnrollment ::
  "ctx \<Rightarrow> string \<Rightarrow> string \<Rightarrow> string list \<Rightarrow> time \<Rightarrow> account_store \<Rightarrow> (unit, account_store) outcome" where
  "StartTOTPEnrollment c userID secret hashes now = with_ctx c (\<lambda>a.
     (Inr (), put_mfa userID ((mfa_or_zero a userID)\<lparr>mc_UserID := userID, mc_PendingTOTPSecret := secret,
        mc_RecoveryCodeHashes := hashes, mc_UpdatedAt := now\<rparr>) a))"

definition ConfirmTOTPEnrollment :: "ctx \<Rightarrow> string \<Rightarrow> time \<Rightarrow> account_store \<Rightarrow> (unit, account_store) outcome" where
  "ConfirmTOTPEnrollment c userID now = with_ctx c (\<lambda>a.
     let cfg = mfa_or_zero a userID in
     if mc_PendingTOTPSecret cfg = [] then (Inl ErrNotFound, a)
     else (Inr (), put_mfa userID (cfg\<lparr>mc_UserID := userID, mc_TOTPSecret := mc_PendingTOTPSecret cfg,
        mc_PendingTOTPSecret := [], mc_Enabled := True, mc_UpdatedAt := now\<rparr>) a))"

definition DisableMFA :: "ctx \<Rightarrow> string \<Rightarrow> account_store \<Rightarrow> (unit, account_store) outcome" where
  "DisableMFA c userID = with_ctx c (\<lambda>a. (Inr (), a\<lparr>mfaConfigs := mdel (mfaConfigs a) userID\<rparr>))"

definition RegenerateRecoveryCodes ::
  "ctx \<Rightarrow> string \<Rightarrow> string list \<Rightarrow> time \<Rightarrow> account_store \<Rightarrow> (unit, account_store) outcome" where
  "RegenerateRecoveryCodes c userID hashes now = with_ctx c (\<lambda>a.
     let cfg = mfa_or_zero a userID in
     if \<not> mc_Enabled cfg then (Inl ErrNotFound, a)
     else (Inr (), put_mfa userID (cfg\<lparr>mc_RecoveryCodeHashes := hashes, mc_UpdatedAt := now\<rparr>) a))"

definition ConsumeRecoveryCode :: "ctx \<Rightarrow> string \<Rightarrow> string \<Rightarrow> time \<Rightarrow> account_store \<Rightarrow> (unit, account_store) outcome" where
  "ConsumeRecoveryCode c userID hash now = with_ctx c (\<lambda>a.
     let cfg = mfa_or_zero a userID in
     if hash \<notin> set (mc_RecoveryCodeHashes cfg) then (Inl ErrUnauthorized, a)
     else (Inr (), put_mfa userID (cfg\<lparr>mc_RecoveryCodeHashes := filter (\<lambda>h. h \<noteq> hash) (mc_RecoveryCodeHashes cfg),
        mc_UpdatedAt := now\<rparr>) a))"

definition CreateMFAChallenge ::
  "(string \<Rightarrow> string) \<Rightarrow> string result \<Rightarrow> ctx \<Rightarrow> string \<Rightarrow> time \<Rightarrow> time \<Rightarrow> account_store \<Rightarrow> (mfa_challenge, account_store) outcome" where
  "CreateMFAChallenge sha256hex draw c userID ttl now = with_ctx c (\<lambda>a.
     case draw of Inl e \<Rightarrow> (Inl e, a) | Inr raw \<Rightarrow>
       let h = \<lparr>mh_Token = raw, mh_TokenHash = sha256hex raw, mh_UserID = userID, mh_ExpiresAt = now + ttl\<rparr> in
       (Inr h, a\<lparr>mfaChallenges := mput (mfaChallenges a) (mh_TokenHash h) h\<rparr>))"

definition GetMFAChallenge ::
  "(string \<Rightarrow> string) \<Rightarrow> ctx \<Rightarrow> string \<Rightarrow> time \<Rightarrow> account_store \<Rightarrow> (mfa_challenge, account_store) outcome" where
  "GetMFAChallenge sha256hex c rawToken now = with_ctx c (\<lambda>a.
     case mget (mfaChallenges a) (sha256hex rawToken) of
       None \<Rightarrow> (Inl ErrNotFound, a)
     | Some h \<Rightarrow> if now > mh_ExpiresAt h then (Inl ErrNotFound, a) else (Inr (h\<lparr>mh_Token := rawToken\<rparr>), a))"

definition DeleteMFAChallenge :: "(string \<Rightarrow> string) \<Rightarrow> ctx \<Rightarrow> string \<Rightarrow> account_store \<Rightarrow> (unit, account_store) outcome" where
  "DeleteMFAChallenge sha256hex c rawToken = with_ctx c (\<lambda>a.
     (Inr (), a\<lparr>mfaChallenges := mdel (mfaChallenges a) (sha256hex rawToken)\<rparr>))"

subsection \<open>Changes of the email address\<close>

text \<open>\<open>parseAddress\<close> is the address \<^verbatim>\<open>mail.ParseAddress\<close> finds, or an error.\<close>

definition normalizeUserEmail :: "(string \<Rightarrow> string option) \<Rightarrow> string \<Rightarrow> string result" where
  "normalizeUserEmail parseAddress value =
     (let email = trimSpace value in
      if email = [] then Inr []
      else if length email > 255 \<or> containsAny email [CHR 0x0D, CHR 0x0A, CHR 0x09, NUL] then Inl ErrInvalidSettings
      else (case parseAddress email of
        None \<Rightarrow> Inl ErrInvalidSettings
      | Some address \<Rightarrow> if address = [] \<or> \<not> equalFold address email then Inl ErrInvalidSettings else Inr address))"

definition newEmailChangeChallenge ::
  "(string \<Rightarrow> string) \<Rightarrow> (string \<Rightarrow> string option) \<Rightarrow> string result \<Rightarrow> string \<Rightarrow> string \<Rightarrow> time \<Rightarrow> time \<Rightarrow>
   email_change_challenge result" where
  "newEmailChangeChallenge sha256hex parseAddress draw userID0 email0 ttl now =
     (let userID = trimSpace userID0 in
      case normalizeUserEmail parseAddress email0 of
        Inl e \<Rightarrow> Inl e
      | Inr email \<Rightarrow>
        if userID = [] \<or> email = [] then Inl ErrInvalidSettings
        else (case draw of Inl e \<Rightarrow> Inl e | Inr raw \<Rightarrow>
          Inr \<lparr>eh_Token = raw, eh_TokenHash = sha256hex raw, eh_UserID = userID, eh_Email = email,
            eh_ExpiresAt = now + (if ttl \<le> 0 then 3600 * second else ttl), eh_CreatedAt = now\<rparr>))"

definition CreateEmailChangeChallenge ::
  "(string \<Rightarrow> string) \<Rightarrow> (string \<Rightarrow> string option) \<Rightarrow> string result \<Rightarrow> ctx \<Rightarrow> string \<Rightarrow> string \<Rightarrow> time \<Rightarrow> time \<Rightarrow>
   account_store \<Rightarrow> (email_change_challenge, account_store) outcome" where
  "CreateEmailChangeChallenge sha256hex parseAddress draw c userID email ttl now = with_ctx c (\<lambda>a.
     case newEmailChangeChallenge sha256hex parseAddress draw userID email ttl now of
       Inl e \<Rightarrow> (Inl e, a)
     | Inr h \<Rightarrow>
       if mget (users a) (eh_UserID h) = None then (Inl ErrNotFound, a)
       else (Inr h, a\<lparr>emailChanges :=
         mput (mdel_where (\<lambda>_ x. eh_UserID x = eh_UserID h) (emailChanges a)) (eh_TokenHash h) h\<rparr>))"

definition GetEmailChangeChallenge ::
  "(string \<Rightarrow> string) \<Rightarrow> ctx \<Rightarrow> string \<Rightarrow> time \<Rightarrow> account_store \<Rightarrow> (email_change_challenge, account_store) outcome" where
  "GetEmailChangeChallenge sha256hex c rawToken now = with_ctx c (\<lambda>a.
     let hash = sha256hex (trimSpace rawToken); gone = a\<lparr>emailChanges := mdel (emailChanges a) hash\<rparr> in
     (case mget (emailChanges a) hash of
        None \<Rightarrow> (Inl ErrNotFound, gone)
      | Some h \<Rightarrow> if now > eh_ExpiresAt h then (Inl ErrNotFound, gone) else (Inr (h\<lparr>eh_Token := rawToken\<rparr>), a)))"

definition ConsumeEmailChangeChallenge ::
  "(string \<Rightarrow> string) \<Rightarrow> ctx \<Rightarrow> string \<Rightarrow> time \<Rightarrow> account_store \<Rightarrow> (email_change_challenge, account_store) outcome" where
  "ConsumeEmailChangeChallenge sha256hex c rawToken now = with_ctx c (\<lambda>a.
     let hash = sha256hex (trimSpace rawToken); gone = a\<lparr>emailChanges := mdel (emailChanges a) hash\<rparr> in
     (case mget (emailChanges a) hash of
        None \<Rightarrow> (Inl ErrNotFound, gone)
      | Some h \<Rightarrow> if now > eh_ExpiresAt h then (Inl ErrNotFound, gone) else (Inr (h\<lparr>eh_Token := rawToken\<rparr>), gone)))"

subsection \<open>Passkeys\<close>

definition newPasskeyRegistrationChallenge ::
  "(string \<Rightarrow> string) \<Rightarrow> string result \<Rightarrow> string result \<Rightarrow> string \<Rightarrow> string \<Rightarrow> string \<Rightarrow> string \<Rightarrow> string \<Rightarrow> time \<Rightarrow> time \<Rightarrow>
   passkey_registration_challenge result" where
  "newPasskeyRegistrationChallenge sha256hex draw1 draw2 userID0 rpID0 rpName0 userName0 userDisplayName0 ttl now =
     (let userID = trimSpace userID0; rpID = trimSpace rpID0; rpName = trimSpace rpName0; userName = trimSpace userName0;
          display = trimSpace userDisplayName0 in
      if userID = [] \<or> rpID = [] \<or> rpName = [] \<or> userName = []
      then Inl (ErrOther ''passkey registration user and relying party are required'')
      else (case draw1 of Inl e \<Rightarrow> Inl e | Inr rawToken \<Rightarrow>
        (case draw2 of Inl e \<Rightarrow> Inl e | Inr rawChallenge \<Rightarrow>
          Inr \<lparr>pr_Token = rawToken, pr_TokenHash = sha256hex rawToken, pr_UserID = userID, pr_Challenge = rawChallenge,
            pr_UserHandle = base64url userID, pr_RPID = rpID, pr_RPName = rpName, pr_UserName = userName,
            pr_UserDisplayName = (if display = [] then userName else display), pr_ExpiresAt = now + ttl, pr_CreatedAt = now\<rparr>)))"

definition CreatePasskeyRegistrationChallenge ::
  "(string \<Rightarrow> string) \<Rightarrow> string result \<Rightarrow> string result \<Rightarrow> ctx \<Rightarrow> string \<Rightarrow> string \<Rightarrow> string \<Rightarrow> string \<Rightarrow> string \<Rightarrow> time \<Rightarrow> time \<Rightarrow>
   account_store \<Rightarrow> (passkey_registration_challenge, account_store) outcome" where
  "CreatePasskeyRegistrationChallenge sha256hex draw1 draw2 c userID rpID rpName userName display ttl now = with_ctx c (\<lambda>a.
     case newPasskeyRegistrationChallenge sha256hex draw1 draw2 userID rpID rpName userName display ttl now of
       Inl e \<Rightarrow> (Inl e, a)
     | Inr h \<Rightarrow> (Inr h, a\<lparr>passkeyReg := mput (passkeyReg a) (pr_TokenHash h) h\<rparr>))"

definition GetPasskeyRegistrationChallenge ::
  "(string \<Rightarrow> string) \<Rightarrow> ctx \<Rightarrow> string \<Rightarrow> time \<Rightarrow> account_store \<Rightarrow> (passkey_registration_challenge, account_store) outcome" where
  "GetPasskeyRegistrationChallenge sha256hex c rawToken now = with_ctx c (\<lambda>a.
     case mget (passkeyReg a) (sha256hex (trimSpace rawToken)) of
       None \<Rightarrow> (Inl ErrNotFound, a)
     | Some h \<Rightarrow> if now > pr_ExpiresAt h then (Inl ErrNotFound, a) else (Inr (h\<lparr>pr_Token := rawToken\<rparr>), a))"

definition DeletePasskeyRegistrationChallenge ::
  "(string \<Rightarrow> string) \<Rightarrow> ctx \<Rightarrow> string \<Rightarrow> account_store \<Rightarrow> (unit, account_store) outcome" where
  "DeletePasskeyRegistrationChallenge sha256hex c rawToken = with_ctx c (\<lambda>a.
     (Inr (), a\<lparr>passkeyReg := mdel (passkeyReg a) (sha256hex (trimSpace rawToken))\<rparr>))"

definition newPasskeyCeremonySession ::
  "(string \<Rightarrow> string) \<Rightarrow> string result \<Rightarrow> string \<Rightarrow> string \<Rightarrow> string \<Rightarrow> time \<Rightarrow> time \<Rightarrow> passkey_ceremony_session result" where
  "newPasskeyCeremonySession sha256hex draw userID0 ceremony0 sessionJSON ttl now =
     (let userID = trimSpace userID0; ceremony = trimSpace ceremony0 in
      if ceremony = [] \<or> sessionJSON = [] then Inl (ErrOther ''passkey ceremony session user, ceremony, and data are required'')
      else if ceremony \<noteq> ''registration'' \<and> ceremony \<noteq> ''login'' then Inl (ErrOther ''invalid passkey ceremony'')
      else (case draw of Inl e \<Rightarrow> Inl e | Inr raw \<Rightarrow>
        Inr \<lparr>pc_Token = raw, pc_TokenHash = sha256hex raw, pc_UserID = userID, pc_Ceremony = ceremony,
          pc_SessionJSON = sessionJSON, pc_ExpiresAt = now + ttl, pc_CreatedAt = now\<rparr>))"

definition CreatePasskeyCeremonySession ::
  "(string \<Rightarrow> string) \<Rightarrow> string result \<Rightarrow> ctx \<Rightarrow> string \<Rightarrow> string \<Rightarrow> string \<Rightarrow> time \<Rightarrow> time \<Rightarrow>
   account_store \<Rightarrow> (passkey_ceremony_session, account_store) outcome" where
  "CreatePasskeyCeremonySession sha256hex draw c userID ceremony sessionJSON ttl now = with_ctx c (\<lambda>a.
     case newPasskeyCeremonySession sha256hex draw userID ceremony sessionJSON ttl now of
       Inl e \<Rightarrow> (Inl e, a)
     | Inr s \<Rightarrow> (Inr s, a\<lparr>passkeySess := mput (passkeySess a) (pc_TokenHash s) s\<rparr>))"

definition GetPasskeyCeremonySession ::
  "(string \<Rightarrow> string) \<Rightarrow> ctx \<Rightarrow> string \<Rightarrow> string \<Rightarrow> time \<Rightarrow> account_store \<Rightarrow> (passkey_ceremony_session, account_store) outcome" where
  "GetPasskeyCeremonySession sha256hex c rawToken ceremony now = with_ctx c (\<lambda>a.
     case mget (passkeySess a) (sha256hex (trimSpace rawToken)) of
       None \<Rightarrow> (Inl ErrNotFound, a)
     | Some s \<Rightarrow>
       if now > pc_ExpiresAt s \<or> trimSpace (pc_Ceremony s) \<noteq> trimSpace ceremony then (Inl ErrNotFound, a)
       else (Inr (s\<lparr>pc_Token := rawToken\<rparr>), a))"

definition ConsumePasskeyCeremonySession ::
  "(string \<Rightarrow> string) \<Rightarrow> ctx \<Rightarrow> string \<Rightarrow> string \<Rightarrow> time \<Rightarrow> account_store \<Rightarrow> (passkey_ceremony_session, account_store) outcome" where
  "ConsumePasskeyCeremonySession sha256hex c rawToken ceremony now = with_ctx c (\<lambda>a.
     let hash = sha256hex (trimSpace rawToken) in
     (case mget (passkeySess a) hash of
        None \<Rightarrow> (Inl ErrNotFound, a)
      | Some s \<Rightarrow> let gone = a\<lparr>passkeySess := mdel (passkeySess a) hash\<rparr> in
        if now > pc_ExpiresAt s \<or> trimSpace (pc_Ceremony s) \<noteq> trimSpace ceremony then (Inl ErrNotFound, gone)
        else (Inr (s\<lparr>pc_Token := rawToken\<rparr>), gone)))"

definition DeletePasskeyCeremonySession ::
  "(string \<Rightarrow> string) \<Rightarrow> ctx \<Rightarrow> string \<Rightarrow> account_store \<Rightarrow> (unit, account_store) outcome" where
  "DeletePasskeyCeremonySession sha256hex c rawToken = with_ctx c (\<lambda>a.
     (Inr (), a\<lparr>passkeySess := mdel (passkeySess a) (sha256hex (trimSpace rawToken))\<rparr>))"

definition publicPasskeyCredential :: "passkey_credential \<Rightarrow> passkey_credential" where
  "publicPasskeyCredential credential = credential\<lparr>pk_CredentialID := [], pk_PublicKeyCBOR := []\<rparr>"

definition cleanPasskeyStringSlice :: "string list \<Rightarrow> string list" where
  "cleanPasskeyStringSlice values = normalizeActions [] values"

definition normalizePasskeyCredential ::
  "(string \<Rightarrow> string) \<Rightarrow> string \<Rightarrow> time \<Rightarrow> passkey_credential \<Rightarrow> passkey_credential result" where
  "normalizePasskeyCredential sha256hex uuid now credential0 =
     (let k = credential0\<lparr>pk_UserID := trimSpace (pk_UserID credential0), pk_Name := trimSpace (pk_Name credential0),
            pk_AAGUID := trimSpace (pk_AAGUID credential0)\<rparr> in
      if pk_UserID k = [] \<or> pk_CredentialID k = [] \<or> pk_PublicKeyCBOR k = []
      then Inl (ErrOther ''passkey credential user, credential id, and public key are required'')
      else Inr (k\<lparr>pk_ID := (if pk_ID k = [] then uuid else pk_ID k), pk_Name := (if pk_Name k = [] then ''Passkey'' else pk_Name k),
        pk_CredentialIDHash := sha256hex (pk_CredentialID k), pk_Transports := cleanPasskeyStringSlice (pk_Transports k),
        pk_CreatedAt := (if isZero (pk_CreatedAt k) then now else pk_CreatedAt k), pk_UpdatedAt := now\<rparr>))"

definition ListPasskeyCredentials :: "ctx \<Rightarrow> string \<Rightarrow> account_store \<Rightarrow> (passkey_credential list, account_store) outcome" where
  "ListPasskeyCredentials c userID = with_ctx c (\<lambda>a.
     (Inr (map publicPasskeyCredential (filter (\<lambda>k. pk_UserID k = userID) (map snd (passkeys a)))), a))"

definition ListPasskeyCredentialsForVerification ::
  "ctx \<Rightarrow> string \<Rightarrow> account_store \<Rightarrow> (passkey_credential list, account_store) outcome" where
  "ListPasskeyCredentialsForVerification c userID = with_ctx c (\<lambda>a.
     (Inr (filter (\<lambda>k. pk_UserID k = userID) (map snd (passkeys a))), a))"

definition CreatePasskeyCredential ::
  "(string \<Rightarrow> string) \<Rightarrow> string \<Rightarrow> time \<Rightarrow> ctx \<Rightarrow> passkey_credential \<Rightarrow> account_store \<Rightarrow> (passkey_credential, account_store) outcome" where
  "CreatePasskeyCredential sha256hex uuid now c credential0 = with_ctx c (\<lambda>a.
     case normalizePasskeyCredential sha256hex uuid now credential0 of
       Inl e \<Rightarrow> (Inl e, a)
     | Inr k \<Rightarrow>
       if list_ex (\<lambda>(_, existing). pk_CredentialIDHash existing = pk_CredentialIDHash k) (passkeys a)
       then (Inl (ErrOther ''passkey credential already exists''), a)
       else (Inr (publicPasskeyCredential k), a\<lparr>passkeys := mput (passkeys a) (pk_ID k) k\<rparr>))"

definition FindPasskeyCredentialByCredentialID ::
  "(string \<Rightarrow> string) \<Rightarrow> ctx \<Rightarrow> string \<Rightarrow> account_store \<Rightarrow> (passkey_credential, account_store) outcome" where
  "FindPasskeyCredentialByCredentialID sha256hex c credentialID = with_ctx c (\<lambda>a.
     case find (\<lambda>k. pk_CredentialIDHash k = sha256hex credentialID) (map snd (passkeys a)) of
       None \<Rightarrow> (Inl ErrNotFound, a) | Some k \<Rightarrow> (Inr k, a))"

definition UpdatePasskeySignCount :: "ctx \<Rightarrow> string \<Rightarrow> 32 word \<Rightarrow> time \<Rightarrow> account_store \<Rightarrow> (unit, account_store) outcome" where
  "UpdatePasskeySignCount c i signCount now = with_ctx c (\<lambda>a.
     case mget (passkeys a) i of
       None \<Rightarrow> (Inl ErrNotFound, a)
     | Some k \<Rightarrow> (Inr (), a\<lparr>passkeys := mput (passkeys a) i
         (k\<lparr>pk_SignCount := signCount, pk_LastUsedAt := Some now, pk_UpdatedAt := now\<rparr>)\<rparr>))"

definition DeletePasskeyCredential :: "ctx \<Rightarrow> string \<Rightarrow> string \<Rightarrow> account_store \<Rightarrow> (unit, account_store) outcome" where
  "DeletePasskeyCredential c userID i = with_ctx c (\<lambda>a.
     case mget (passkeys a) i of
       None \<Rightarrow> (Inl ErrNotFound, a)
     | Some k \<Rightarrow> if pk_UserID k \<noteq> userID then (Inl ErrNotFound, a) else (Inr (), a\<lparr>passkeys := mdel (passkeys a) i\<rparr>))"

subsection \<open>Administration\<close>

definition hasRole :: "user \<Rightarrow> string \<Rightarrow> bool" where
  "hasRole u name = list_ex (\<lambda>r. r = name) (us_Roles u)"

definition publicUserCopy :: "user \<Rightarrow> user" where
  "publicUserCopy u = u\<lparr>us_PasswordHash := []\<rparr>"

definition roleNamesLocked :: "account_store \<Rightarrow> string list \<Rightarrow> string list" where
  "roleNamesLocked a roleIDs = List.map_filter (\<lambda>i. map_option rl_Name (mget (roles a) i)) roleIDs"

definition countActiveSuperAdminsLocked :: "account_store \<Rightarrow> int" where
  "countActiveSuperAdminsLocked a =
     int (length (filter (\<lambda>(_, u). us_Status u = ''active'' \<and> hasRole u ''super_admin'') (users a)))"

definition ListUsers :: "ctx \<Rightarrow> account_store \<Rightarrow> (user list, account_store) outcome" where
  "ListUsers c = with_ctx c (\<lambda>a. (Inr (sort_key us_Username (map (publicUserCopy \<circ> snd) (users a))), a))"

definition insert_user :: "user \<Rightarrow> account_store \<Rightarrow> account_store" where
  "insert_user u a = a\<lparr>users := mput (users a) (us_ID u) u, byUsername := mput (byUsername a) (us_Username u) (us_ID u)\<rparr>"

definition CreateUser ::
  "kdf \<Rightarrow> string result \<Rightarrow> (string \<Rightarrow> string option) \<Rightarrow> string \<Rightarrow> ctx \<Rightarrow> string \<Rightarrow> string \<Rightarrow> string \<Rightarrow> string list \<Rightarrow>
   account_store \<Rightarrow> (user, account_store) outcome" where
  "CreateUser argon salt parseAddress uuid c username email0 password roleIDs = with_ctx c (\<lambda>a.
     case HashPassword argon salt password of Inl e \<Rightarrow> (Inl e, a) | Inr hash \<Rightarrow>
     (case normalizeUserEmail parseAddress email0 of Inl e \<Rightarrow> (Inl e, a) | Inr email \<Rightarrow>
       if mget (byUsername a) username \<noteq> None then (Inl (ErrOther ''username already exists''), a)
       else let u = zero_user\<lparr>us_ID := uuid, us_Username := username, us_Email := email, us_Status := ''pending_password_change'',
              us_PasswordHash := hash, us_RoleIDs := roleIDs, us_Roles := roleNamesLocked a roleIDs\<rparr> in
         (Inr (publicUserCopy u), insert_user u a)))"

definition CreateOAuthUser ::
  "kdf \<Rightarrow> string result \<Rightarrow> string result \<Rightarrow> (string \<Rightarrow> string option) \<Rightarrow> string \<Rightarrow> ctx \<Rightarrow> string \<Rightarrow> string \<Rightarrow> string list \<Rightarrow>
   account_store \<Rightarrow> (user, account_store) outcome" where
  "CreateOAuthUser argon draw salt parseAddress uuid c username email0 roleIDs = with_ctx c (\<lambda>a.
     case draw of Inl e \<Rightarrow> (Inl e, a) | Inr password \<Rightarrow>
     (case HashPassword argon salt password of Inl e \<Rightarrow> (Inl e, a) | Inr hash \<Rightarrow>
     (case normalizeUserEmail parseAddress email0 of Inl e \<Rightarrow> (Inl e, a) | Inr email \<Rightarrow>
       if mget (byUsername a) username \<noteq> None then (Inl (ErrOther ''username already exists''), a)
       else let u = zero_user\<lparr>us_ID := uuid, us_Username := username, us_Email := email, us_Status := ''active'',
              us_PasswordHash := hash, us_RoleIDs := roleIDs, us_Roles := roleNamesLocked a roleIDs\<rparr> in
         (Inr (publicUserCopy u), insert_user u a))))"

text \<open>The index of names is rewritten before the email address is checked, and stays rewritten if the check fails.\<close>

definition UpdateUser ::
  "(string \<Rightarrow> string option) \<Rightarrow> ctx \<Rightarrow> string \<Rightarrow> user_patch \<Rightarrow> account_store \<Rightarrow> (user, account_store) outcome" where
  "UpdateUser parseAddress c i patch = with_ctx c (\<lambda>a.
     case mget (users a) i of
       None \<Rightarrow> (Inl ErrNotFound, a)
     | Some u0 \<Rightarrow>
       let rename = up_Username patch \<noteq> [] \<and> up_Username patch \<noteq> us_Username u0;
           u1 = (if rename then u0\<lparr>us_Username := up_Username patch\<rparr> else u0);
           a1 = (if rename
             then a\<lparr>byUsername := mput (mdel (byUsername a) (us_Username u0)) (us_Username u1) (us_ID u1)\<rparr> else a) in
       (case (case up_Email patch of None \<Rightarrow> Inr (us_Email u1) | Some email \<Rightarrow> normalizeUserEmail parseAddress email) of
          Inl e \<Rightarrow> (Inl e, a1)
        | Inr email \<Rightarrow>
          let u2 = u1\<lparr>us_Email := email\<rparr>;
              u3 = (case up_RoleIDs patch of None \<Rightarrow> u2
                | Some roleIDs \<Rightarrow> u2\<lparr>us_RoleIDs := roleIDs, us_Roles := roleNamesLocked a1 roleIDs\<rparr>) in
          (Inr (publicUserCopy u3), put_user i u3 a1)))"

definition SetUserStatus :: "ctx \<Rightarrow> string \<Rightarrow> string \<Rightarrow> account_store \<Rightarrow> (user, account_store) outcome" where
  "SetUserStatus c i status = with_ctx c (\<lambda>a.
     case mget (users a) i of
       None \<Rightarrow> (Inl ErrNotFound, a)
     | Some u \<Rightarrow>
       if hasRole u ''super_admin'' \<and> (status = ''disabled'' \<or> status = ''locked'') \<and> countActiveSuperAdminsLocked a \<le> 1
       then (Inl ErrLastSuperAdmin, a)
       else let u' = u\<lparr>us_Status := status\<rparr> in (Inr (publicUserCopy u'), put_user i u' a))"

definition DeleteUser :: "ctx \<Rightarrow> string \<Rightarrow> account_store \<Rightarrow> (unit, account_store) outcome" where
  "DeleteUser c i = with_ctx c (\<lambda>a.
     case mget (users a) i of
       None \<Rightarrow> (Inl ErrNotFound, a)
     | Some u \<Rightarrow>
       if hasRole u ''super_admin'' \<and> us_Status u = ''active'' \<and> countActiveSuperAdminsLocked a \<le> 1
       then (Inl ErrLastSuperAdmin, a)
       else (Inr (), a\<lparr>users := mdel (users a) i, byUsername := mdel (byUsername a) (us_Username u),
         permissions := mdel (permissions a) i, mfaConfigs := mdel (mfaConfigs a) i,
         mfaChallenges := mdel_where (\<lambda>_ x. mh_UserID x = i) (mfaChallenges a),
         emailChanges := mdel_where (\<lambda>_ x. eh_UserID x = i) (emailChanges a),
         sessions := mdel_where (\<lambda>_ x. sn_UserID x = i) (sessions a),
         passkeys := mdel_where (\<lambda>_ x. pk_UserID x = i) (passkeys a),
         passkeyReg := mdel_where (\<lambda>_ x. pr_UserID x = i) (passkeyReg a),
         passkeySess := mdel_where (\<lambda>_ x. pc_UserID x = i) (passkeySess a)\<rparr>))"

definition ResetPassword ::
  "kdf \<Rightarrow> string result \<Rightarrow> ctx \<Rightarrow> string \<Rightarrow> string \<Rightarrow> account_store \<Rightarrow> (unit, account_store) outcome" where
  "ResetPassword argon salt c i password = with_ctx c (\<lambda>a.
     case HashPassword argon salt password of
       Inl e \<Rightarrow> (Inl e, a)
     | Inr hash \<Rightarrow> (case mget (users a) i of
         None \<Rightarrow> (Inl ErrNotFound, a)
       | Some u \<Rightarrow> (Inr (), put_user i (u\<lparr>us_PasswordHash := hash, us_Status := ''pending_password_change''\<rparr>) a)))"

definition CountActiveSuperAdmins :: "ctx \<Rightarrow> account_store \<Rightarrow> (int, account_store) outcome" where
  "CountActiveSuperAdmins c = with_ctx c (\<lambda>a. (Inr (countActiveSuperAdminsLocked a), a))"

definition UserHasRole :: "ctx \<Rightarrow> string \<Rightarrow> string \<Rightarrow> account_store \<Rightarrow> (bool, account_store) outcome" where
  "UserHasRole c userID name = with_ctx c (\<lambda>a. (Inr (hasRole (user_or_zero a userID) name), a))"

definition DefaultPermissions :: "string list" where
  "DefaultPermissions =
     [''users.read'', ''users.create'', ''users.update'', ''users.disable'', ''users.delete'', ''users.reset_password'',
      ''users.manage_mfa'', ''roles.read'', ''roles.create'', ''roles.update'', ''roles.delete'', ''roles.assign'',
      ''streams.read'', ''streams.create'', ''streams.update'', ''streams.start'', ''streams.stop'',
      ''streams.retry_upload'', ''streams.delete'', ''streams.show_cover'', ''streams.hide_cover'',
      ''encoder_profiles.read'', ''encoder_profiles.create'', ''encoder_profiles.update'', ''encoder_profiles.delete'',
      ''archive_profiles.read'', ''archive_profiles.create'', ''archive_profiles.update'', ''archive_profiles.delete'',
      ''caption_profiles.read'', ''caption_profiles.create'', ''caption_profiles.update'', ''caption_profiles.delete'',
      ''overlay_profiles.read'', ''overlay_profiles.create'', ''overlay_profiles.update'', ''overlay_profiles.delete'',
      ''discord_configs.read'', ''discord_configs.create'', ''discord_configs.update'', ''discord_configs.delete'',
      ''discord_target_presets.read'', ''discord_target_presets.create'', ''discord_target_presets.update'',
      ''discord_target_presets.delete'', ''video_cover_presets.read'', ''video_cover_presets.create'',
      ''video_cover_presets.update'', ''video_cover_presets.delete'', ''youtube_outputs.read'', ''youtube_outputs.create'',
      ''youtube_outputs.update'', ''youtube_outputs.delete'', ''services.assign'', ''services.unassign'',
      ''services.disable'', ''workers.read'', ''workers.assign'', ''workers.unassign'', ''workers.restart'',
      ''workers.disable'', ''archives.read'', ''archives.download'', ''archives.delete'', ''archives.retry_upload'',
      ''logs.read'', ''logs.export'', ''audit_logs.read'', ''audit_logs.export'', ''secrets.read_status'',
      ''secrets.create'', ''secrets.update'', ''secrets.delete'', ''api_tokens.read'', ''api_tokens.create'',
      ''api_tokens.revoke'', ''system_settings.read'', ''system_settings.update'', ''system_updates.read'',
      ''system_updates.execute'', ''incidents.read'', ''incidents.acknowledge'', ''incidents.resolve'',
      ''diagnostics.read'', ''diagnostics.run'', ''remediation.read'', ''remediation.approve'', ''remediation.execute'',
      ''notification_channels.read'', ''notification_channels.create'', ''notification_channels.update'',
      ''notification_channels.delete'', ''notification_channels.test'', ''integrations.read'', ''integrations.create'',
      ''integrations.update'', ''integrations.delete'', ''metrics.read'', ''service_health.read'']"

definition validatePermissions :: "string list \<Rightarrow> bool" where
  "validatePermissions granted = list_all (\<lambda>permission. permission \<in> set DefaultPermissions) granted"

definition ListRoles :: "ctx \<Rightarrow> account_store \<Rightarrow> (role list, account_store) outcome" where
  "ListRoles c = with_ctx c (\<lambda>a. (Inr (sort_key rl_Name (map snd (roles a))), a))"

definition CreateRole ::
  "string \<Rightarrow> time \<Rightarrow> ctx \<Rightarrow> string \<Rightarrow> string list \<Rightarrow> account_store \<Rightarrow> (role, account_store) outcome" where
  "CreateRole uuid now c name granted = with_ctx c (\<lambda>a.
     if \<not> validatePermissions granted then (Inl ErrUnknownPermission, a)
     else let rl = \<lparr>rl_ID = uuid, rl_Name = name, rl_Permissions = granted, rl_CreatedAt = now\<rparr> in
       (Inr rl, a\<lparr>roles := mput (roles a) (rl_ID rl) rl\<rparr>))"

definition GetRole :: "ctx \<Rightarrow> string \<Rightarrow> account_store \<Rightarrow> (role, account_store) outcome" where
  "GetRole c i = with_ctx c (\<lambda>a. case mget (roles a) i of None \<Rightarrow> (Inl ErrNotFound, a) | Some rl \<Rightarrow> (Inr rl, a))"

definition UpdateRole :: "ctx \<Rightarrow> string \<Rightarrow> string \<Rightarrow> string list \<Rightarrow> account_store \<Rightarrow> (role, account_store) outcome" where
  "UpdateRole c i name granted = with_ctx c (\<lambda>a.
     if \<not> validatePermissions granted then (Inl ErrUnknownPermission, a)
     else (case mget (roles a) i of
       None \<Rightarrow> (Inl ErrNotFound, a)
     | Some rl \<Rightarrow> let rl' = rl\<lparr>rl_Name := name, rl_Permissions := granted\<rparr> in (Inr rl', a\<lparr>roles := mput (roles a) i rl'\<rparr>)))"

definition DeleteRole :: "ctx \<Rightarrow> string \<Rightarrow> account_store \<Rightarrow> (unit, account_store) outcome" where
  "DeleteRole c i = with_ctx c (\<lambda>a.
     case mget (roles a) i of
       None \<Rightarrow> (Inl ErrNotFound, a)
     | Some rl \<Rightarrow>
       if rl_Name rl = ''super_admin'' then (Inl ErrLastSuperAdmin, a)
       else (Inr (), a\<lparr>roles := mdel (roles a) i,
         users := mmap_where (\<lambda>_ _. True) (\<lambda>u. u\<lparr>us_Roles := filter (\<lambda>name. name \<noteq> rl_Name rl) (us_Roles u),
           us_RoleIDs := filter (\<lambda>r. r \<noteq> i) (us_RoleIDs u)\<rparr>) (users a)\<rparr>))"

subsection \<open>The audit log\<close>

definition WriteAudit ::
  "(string \<Rightarrow> url option) \<Rightarrow> string \<Rightarrow> time \<Rightarrow> ctx \<Rightarrow> audit_event \<Rightarrow> account_store \<Rightarrow> (unit, account_store) outcome" where
  "WriteAudit parseURL uuid now c event0 = with_ctx c (\<lambda>a.
     let event = redactedAuditEvent parseURL event0;
         event' = event\<lparr>ae_ID := (if ae_ID event = [] then uuid else ae_ID event),
           ae_Timestamp := (if isZero (ae_Timestamp event) then now else ae_Timestamp event)\<rparr> in
     (Inr (), a\<lparr>auditEvents := auditEvents a @ [event']\<rparr>))"

definition AuditEvents :: "(string \<Rightarrow> url option) \<Rightarrow> account_store \<Rightarrow> audit_event list" where
  "AuditEvents parseURL a = map (redactedAuditEvent parseURL) (auditEvents a)"

definition ListAudit ::
  "(string \<Rightarrow> url option) \<Rightarrow> (any gomap \<Rightarrow> string) \<Rightarrow> ctx \<Rightarrow> audit_filter \<Rightarrow> account_store \<Rightarrow> (audit_event list, account_store) outcome" where
  "ListAudit parseURL marshal c filter0 = with_ctx c (\<lambda>a.
     let f = normalizeAuditFilter filter0 in
     (Inr (list_matching (\<lambda>event. auditEventMatchesFilter marshal event f) (redactedAuditEvent parseURL) (af_Limit f)
        (rev (auditEvents a)) []), a))"

lemmas account_defs [op_defs] =
  CountUsers_def FindUserByUsername_def GetUser_def GetUserAvatar_def GetUserAvatarInfo_def UpsertUserAvatar_def
  DeleteUserAvatar_def GetUserPermissions_def ChangePassword_def CreateSession_def GetSession_def RefreshSession_def
  DeleteSession_def DeleteUserSessions_def RecordLoginSuccess_def RecordLoginFailure_def GetMFAConfig_def
  StartTOTPEnrollment_def ConfirmTOTPEnrollment_def DisableMFA_def RegenerateRecoveryCodes_def ConsumeRecoveryCode_def
  CreateMFAChallenge_def GetMFAChallenge_def DeleteMFAChallenge_def CreateEmailChangeChallenge_def
  GetEmailChangeChallenge_def ConsumeEmailChangeChallenge_def CreatePasskeyRegistrationChallenge_def
  GetPasskeyRegistrationChallenge_def DeletePasskeyRegistrationChallenge_def CreatePasskeyCeremonySession_def
  GetPasskeyCeremonySession_def ConsumePasskeyCeremonySession_def DeletePasskeyCeremonySession_def
  ListPasskeyCredentials_def ListPasskeyCredentialsForVerification_def CreatePasskeyCredential_def
  FindPasskeyCredentialByCredentialID_def UpdatePasskeySignCount_def DeletePasskeyCredential_def ListUsers_def
  CreateUser_def CreateOAuthUser_def UpdateUser_def SetUserStatus_def DeleteUser_def ResetPassword_def
  CountActiveSuperAdmins_def UserHasRole_def ListRoles_def CreateRole_def GetRole_def UpdateRole_def DeleteRole_def
  WriteAudit_def ListAudit_def

subsection \<open>Renaming a user\<close>

text \<open>
  A rename is neither checked against the names in use nor undone when the address that comes with it
  is refused: the second user can take the first one's name and with it the entry that sign-in looks
  up, and a refused update leaves the user reachable under the new name only.
\<close>

definition two_users :: account_store where
  "two_users = NewAccountStore\<lparr>users := [(''u1'', zero_user\<lparr>us_ID := ''u1'', us_Username := ''ada''\<rparr>),
       (''u2'', zero_user\<lparr>us_ID := ''u2'', us_Username := ''bob''\<rparr>)],
     byUsername := [(''ada'', ''u1''), (''bob'', ''u2'')]\<rparr>"

lemma rename_takes_name_in_use:
  "case UpdateUser (\<lambda>_. None) None ''u2'' \<lparr>up_Username = ''ada'', up_Email = None, up_RoleIDs = None\<rparr> two_users of
     (Inl _, _) \<Rightarrow> False
   | (Inr _, a) \<Rightarrow> mget (byUsername a) ''ada'' = Some ''u2'' \<and> map_option us_Username (mget (users a) ''u1'') = Some ''ada''"
  by code_simp

lemma refused_update_moves_name:
  "case UpdateUser (\<lambda>_. None) None ''u1'' \<lparr>up_Username = ''eve'', up_Email = Some ''no address'', up_RoleIDs = None\<rparr> two_users of
     (Inr _, _) \<Rightarrow> False
   | (Inl _, a) \<Rightarrow> mget (byUsername a) ''ada'' = None \<and> mget (byUsername a) ''eve'' = Some ''u1'' \<and>
       map_option us_Username (mget (users a) ''u1'') = Some ''ada''"
  by code_simp

text \<open>A successful login of an identifier that is no user creates an entry for it, with every other field empty.\<close>

lemma login_success_creates_user:
  "mget (users (snd (RecordLoginSuccess None ''ghost'' ''10.0.0.1'' 7 two_users))) ''ghost'' =
     Some (zero_user\<lparr>us_LastLoginAt := Some 7, us_LastLoginIP := ''10.0.0.1''\<rparr>)"
  by code_simp

end
