(* ===== verification/Login_Server.thy ===== *)
theory Login_Server
  imports Account_Store
begin

text \<open>
  The handlers through which people sign in (\<^verbatim>\<open>src/internal/httpapi/server_auth_session.go\<close>,
  \<^verbatim>\<open>server_auth_mfa.go\<close>, \<^verbatim>\<open>server_request_auth.go\<close>, \<^verbatim>\<open>login_limiter.go\<close> and the policy
  functions of \<^verbatim>\<open>server_auth_oauth.go\<close>) over the memory store: password login with the limiter on
  failures, the second factor, sessions and the checks before every protected handler. A handler is a
  function from a request to the response and the new server; a request is served as a whole before
  the next one. What the outside world answers while it is served, clock readings, contexts, random
  draws, the security settings and the Turnstile verdict, comes with the request, numbered in the
  order of the calls, so a request whose context ends half-way is among the cases.
\<close>

subsection \<open>The server\<close>

record login_failure_entry =
  lf_count :: int
  lf_windowStart :: time

record server =
  sr_accounts :: account_store
  sr_failures :: "login_failure_entry gomap"

record security_settings =
  ss_PasswordMinLength :: int
  ss_PasswordHash :: string
  ss_LoginLockoutThreshold :: int
  ss_SessionIdleTimeoutMin :: int
  ss_SessionAbsoluteLifetimeH :: int
  ss_RememberMeEnabled :: bool
  ss_MFAMode :: string
  ss_MFARequiredRoles :: "string list"
  ss_MFASupportedMethods :: "string list"
  ss_PasskeyStatus :: string
  ss_UpdatedAt :: string

text \<open>The primitives the handlers rest on, and which of the optional stores are configured.\<close>

record environment =
  en_sha256hex :: "string \<Rightarrow> string"
  en_argon :: kdf
  en_totp :: totp_primitives
  en_encodeBase32 :: "string \<Rightarrow> string"
  en_parseURL :: "string \<Rightarrow> url option"
  en_auth :: bool
  en_mfa :: bool
  en_passkeys :: bool
  en_audit :: bool

record current_user =
  cu_User :: user
  cu_Session :: session
  cu_Permissions :: "string list"

definition zero_current :: current_user where
  "zero_current = \<lparr>cu_User = zero_user, cu_Session = new_session (\<lambda>_. []) [] [] [] 0 0 0, cu_Permissions = []\<rparr>"

record request =
  rq_Method :: string
  rq_Path :: string
  rq_IP :: string
  rq_UserAgent :: string
  rq_Cookie :: "string option"
  rq_CSRF :: string
  rq_Current :: current_user

record inputs =
  in_ctx :: "nat \<Rightarrow> ctx"
  in_now :: "nat \<Rightarrow> time"
  in_random :: "nat \<Rightarrow> string result"
  in_uuid :: "nat \<Rightarrow> string"
  in_settings :: "nat \<Rightarrow> security_settings result"
  in_turnstile :: "int \<times> string"

datatype body =
    Code string
  | Status string
  | MFARequired string time
  | LoggedIn string user
  | Refreshed time time
  | Enrolled string "string list"
  | RecoveryCodes "string list"

record response =
  rs_Status :: int
  rs_Cookie :: "string option"
  rs_Body :: body

abbreviation answer :: "int \<Rightarrow> body \<Rightarrow> response" where
  "answer status content \<equiv> \<lparr>rs_Status = status, rs_Cookie = None, rs_Body = content\<rparr>"

definition on_accounts :: "(account_store \<Rightarrow> ('a, account_store) outcome) \<Rightarrow> server \<Rightarrow> ('a, server) outcome" where
  "on_accounts f s = (case f (sr_accounts s) of (r, a) \<Rightarrow> (r, s\<lparr>sr_accounts := a\<rparr>))"

abbreviation ignoring :: "('a, 's) outcome \<Rightarrow> 's" where
  "ignoring out \<equiv> snd out"

subsection \<open>The limiter on failures\<close>

definition defaultLoginFailureWindow :: time where
  "defaultLoginFailureWindow = 5 * 60 * second"

definition sensitiveActionAttemptThreshold :: int where
  "sensitiveActionAttemptThreshold = 6"

definition loginFailureKey :: "string \<Rightarrow> string \<Rightarrow> string" where
  "loginFailureKey username ip = toLower (trimSpace username) @ [NUL] @ trimSpace ip"

definition failure_limit :: "int \<Rightarrow> int" where
  "failure_limit threshold = (if threshold - 1 < 1 then 1 else threshold - 1)"

definition limiter_allow :: "string \<Rightarrow> int \<Rightarrow> time \<Rightarrow> server \<Rightarrow> bool \<times> server" where
  "limiter_allow key threshold now s =
     (case mget (sr_failures s) key of
        None \<Rightarrow> (True, s)
      | Some entry \<Rightarrow>
        if now - lf_windowStart entry \<ge> defaultLoginFailureWindow then (True, s\<lparr>sr_failures := mdel (sr_failures s) key\<rparr>)
        else (lf_count entry < failure_limit threshold, s))"

definition limiter_record :: "string \<Rightarrow> time \<Rightarrow> server \<Rightarrow> server" where
  "limiter_record key now s =
     (let fresh = \<lparr>lf_count = 0, lf_windowStart = now\<rparr>;
          entry = (case mget (sr_failures s) key of
            None \<Rightarrow> fresh
          | Some entry \<Rightarrow> if now - lf_windowStart entry \<ge> defaultLoginFailureWindow then fresh else entry) in
      s\<lparr>sr_failures := mput (sr_failures s) key (entry\<lparr>lf_count := lf_count entry + 1\<rparr>)\<rparr>)"

definition limiter_clear :: "string \<Rightarrow> server \<Rightarrow> server" where
  "limiter_clear key s = s\<lparr>sr_failures := mdel (sr_failures s) key\<rparr>"

subsection \<open>Audit and policy\<close>

text \<open>
  The events of these handlers are about users, sessions and second factors, never about streams, so
  nothing is appended to a stream's log; the notification of administrators is output only.
\<close>

definition event :: "string \<Rightarrow> string \<Rightarrow> string \<Rightarrow> string \<Rightarrow> any gomap \<Rightarrow> user option \<Rightarrow> audit_event" where
  "event action resourceType resourceID outcome metadata actor =
     \<lparr>ae_ID = [], ae_Timestamp = 0, ae_ActorUserID = (case actor of None \<Rightarrow> [] | Some u \<Rightarrow> us_ID u),
      ae_ActorUsername = (case actor of None \<Rightarrow> [] | Some u \<Rightarrow> us_Username u), ae_ActorIP = [], ae_UserAgent = [],
      ae_Action = action, ae_ResourceType = resourceType, ae_ResourceID = resourceID, ae_Result = outcome,
      ae_Metadata = metadata, ae_RequestID = []\<rparr>"

definition writeAudit :: "environment \<Rightarrow> request \<Rightarrow> inputs \<Rightarrow> nat \<Rightarrow> audit_event \<Rightarrow> server \<Rightarrow> server" where
  "writeAudit en rq inp n e s =
     (if \<not> en_audit en then s
      else let e' = e\<lparr>ae_Timestamp := (if isZero (ae_Timestamp e) then in_now inp n else ae_Timestamp e),
             ae_RequestID := (if ae_RequestID e = [] then in_uuid inp n else ae_RequestID e),
             ae_ActorIP := (if ae_ActorIP e = [] then rq_IP rq else ae_ActorIP e),
             ae_UserAgent := (if ae_UserAgent e = [] then rq_UserAgent rq else ae_UserAgent e),
             ae_ActorUserID := (if ae_ActorUserID e = [] then us_ID (cu_User (rq_Current rq)) else ae_ActorUserID e),
             ae_ActorUsername := (if ae_ActorUsername e = [] then us_Username (cu_User (rq_Current rq)) else ae_ActorUsername e)\<rparr> in
        ignoring (on_accounts (WriteAudit (en_parseURL en) (in_uuid inp (Suc n)) (in_now inp (Suc n)) (in_ctx inp n) e') s))"

abbreviation reason :: "string \<Rightarrow> any gomap" where
  "reason text \<equiv> [(''reason'', AStr text)]"

definition mfaPolicyAppliesToUser :: "security_settings \<Rightarrow> user \<Rightarrow> bool" where
  "mfaPolicyAppliesToUser settings u =
     (if ss_MFAMode settings = ''disabled'' then False
      else if ss_MFARequiredRoles settings = [] then True
      else list_ex (\<lambda>r. trimSpace r \<in> set (map trimSpace (us_Roles u))) (ss_MFARequiredRoles settings))"

definition mfaRequiredForUser :: "security_settings \<Rightarrow> user \<Rightarrow> bool" where
  "mfaRequiredForUser settings u \<longleftrightarrow> ss_MFAMode settings = ''totp'' \<and> mfaPolicyAppliesToUser settings u"

definition passkeyRequiredForUser :: "security_settings \<Rightarrow> user \<Rightarrow> bool" where
  "passkeyRequiredForUser settings u \<longleftrightarrow> ss_MFAMode settings = ''passkey'' \<and> mfaPolicyAppliesToUser settings u"

definition loginMFARequirement ::
  "environment \<Rightarrow> ctx \<Rightarrow> security_settings \<Rightarrow> user \<Rightarrow> server \<Rightarrow> (mfa_config \<times> bool) result" where
  "loginMFARequirement en c settings u s =
     (if \<not> en_mfa en then Inr (zero_mfa, mfaRequiredForUser settings u)
      else (case fst (GetMFAConfig c (us_ID u) (sr_accounts s)) of
        Inl e \<Rightarrow> Inl e
      | Inr cfg \<Rightarrow> Inr (cfg, mc_Enabled cfg \<or> mfaRequiredForUser settings u)))"

definition blocked :: "user \<Rightarrow> bool" where
  "blocked u \<longleftrightarrow> us_Status u = ''disabled'' \<or> us_Status u = ''locked''"

definition rejectPasskeyRequiredLogin ::
  "environment \<Rightarrow> request \<Rightarrow> inputs \<Rightarrow> nat \<Rightarrow> user \<Rightarrow> string \<Rightarrow> any gomap \<Rightarrow> server \<Rightarrow> response \<times> server" where
  "rejectPasskeyRequiredLogin en rq inp n u action metadata s =
     (if \<not> en_passkeys en then (answer 503 (Code ''passkeys_not_configured''), s)
      else (case fst (ListPasskeyCredentialsForVerification (in_ctx inp n) (us_ID u) (sr_accounts s)) of
        Inl e \<Rightarrow> (answer 500 (Code ''passkey_state_unavailable''), s)
      | Inr credentials \<Rightarrow>
        let none = credentials = [];
            code = (if none then ''passkey_enrollment_required'' else ''passkey_required'');
            outcome = (if none then ''failure'' else ''passkey_required'');
            metadata' = (if none then mput metadata ''reason'' (AStr code) else metadata) in
        (answer 403 (Code code),
         writeAudit en rq inp (Suc n) (event action ''user'' (us_ID u) outcome metadata' (Some u)) s)))"

subsection \<open>Password login\<close>

definition completeLogin ::
  "environment \<Rightarrow> request \<Rightarrow> inputs \<Rightarrow> nat \<Rightarrow> user \<Rightarrow> security_settings \<Rightarrow> server \<Rightarrow> response \<times> server" where
  "completeLogin en rq inp n u settings s =
     (case on_accounts (CreateSession (en_sha256hex en) (in_random inp n) (in_random inp (Suc n)) (in_ctx inp n) (us_ID u)
         (ss_SessionIdleTimeoutMin settings * 60 * second) (ss_SessionAbsoluteLifetimeH settings * 3600 * second) (in_now inp n)) s of
       (Inl e, s1) \<Rightarrow> (answer 500 (Code ''create_session_failed''), s1)
     | (Inr session, s1) \<Rightarrow>
       let s2 = ignoring (on_accounts (RecordLoginSuccess (in_ctx inp (Suc n)) (us_ID u) (rq_IP rq) (in_now inp (Suc n))) s1);
           s3 = limiter_clear (loginFailureKey (us_Username u) (rq_IP rq)) s2;
           s4 = writeAudit en rq inp (n + 2) (event ''auth.login'' ''user'' (us_ID u) ''success'' [] (Some u)) s3 in
       (\<lparr>rs_Status = 200, rs_Cookie = Some (sn_Token session), rs_Body = LoggedIn (sn_CSRFToken session) (publicUserCopy u)\<rparr>, s4))"

record login_body =
  lb_Username :: string
  lb_Password :: string
  lb_TurnstileToken :: string

definition login :: "environment \<Rightarrow> request \<Rightarrow> inputs \<Rightarrow> login_body option \<Rightarrow> server \<Rightarrow> response \<times> server" where
  "login en rq inp decoded s =
     (if \<not> en_auth en then (answer 500 (Code ''auth_store_not_configured''), s)
      else (case decoded of None \<Rightarrow> (answer 400 (Code ''bad_request''), s) | Some content \<Rightarrow>
        let username = trimSpace (lb_Username content);
            refused = (\<lambda>text. event ''auth.login'' ''user'' username ''failure'' (reason text) None) in
        if snd (in_turnstile inp) \<noteq> []
        then (answer (fst (in_turnstile inp)) (Code (snd (in_turnstile inp))), writeAudit en rq inp 0 (refused (snd (in_turnstile inp))) s)
        else (case in_settings inp 0 of Inl e \<Rightarrow> (answer 500 (Code ''security_settings_unavailable''), s) | Inr settings \<Rightarrow>
          let key = loginFailureKey username (rq_IP rq);
              (allowed, s1) = limiter_allow key (ss_LoginLockoutThreshold settings) (in_now inp 2) s in
          if \<not> allowed then (answer 429 (Code ''login_rate_limited''), writeAudit en rq inp 0 (refused ''rate_limited'') s1)
          else let found = fst (FindUserByUsername (in_ctx inp 2) username (sr_accounts s1)) in
            (case (case found of Inl e \<Rightarrow> None
               | Inr u \<Rightarrow> if blocked u \<or> \<not> VerifyPassword (en_argon en) (lb_Password content) (us_PasswordHash u) then None else Some u) of
              None \<Rightarrow>
                let s2 = limiter_record key (in_now inp 3) s1;
                    s3 = ignoring (on_accounts (RecordLoginFailure (in_ctx inp 3) username (ss_LoginLockoutThreshold settings)) s2) in
                (answer 401 (Code ''invalid_credentials''), writeAudit en rq inp 0 (refused ''invalid_credentials'') s3)
            | Some u \<Rightarrow>
              if passkeyRequiredForUser settings u then rejectPasskeyRequiredLogin en rq inp 4 u ''auth.login'' [] s1
              else (case loginMFARequirement en (in_ctx inp 4) settings u s1 of
                Inl e \<Rightarrow> (answer 500 (Code ''mfa_state_unavailable''), s1)
              | Inr (cfg, mfaRequired) \<Rightarrow>
                if \<not> mfaRequired then completeLogin en rq inp 6 u settings s1
                else if \<not> en_mfa en then (answer 503 (Code ''mfa_not_configured''), s1)
                else if \<not> mc_Enabled cfg
                then (answer 403 (Code ''mfa_enrollment_required''), writeAudit en rq inp 0
                  (event ''auth.login'' ''user'' (us_ID u) ''failure'' (reason ''mfa_enrollment_required'') (Some u)) s1)
                else (case on_accounts (CreateMFAChallenge (en_sha256hex en) (in_random inp 5) (in_ctx inp 5) (us_ID u)
                    (10 * 60 * second) (in_now inp 5)) s1 of
                  (Inl e, s2) \<Rightarrow> (answer 500 (Code ''mfa_challenge_failed''), s2)
                | (Inr challenge, s2) \<Rightarrow>
                  (answer 202 (MFARequired (mh_Token challenge) (mh_ExpiresAt challenge)), writeAudit en rq inp 0
                    (event ''auth.login'' ''user'' (us_ID u) ''mfa_required'' [] (Some u)) s2)))))))"

subsection \<open>Authenticated requests\<close>

definition isUnsafeMethod :: "string \<Rightarrow> bool" where
  "isUnsafeMethod method \<longleftrightarrow> method = ''POST'' \<or> method = ''PUT'' \<or> method = ''PATCH'' \<or> method = ''DELETE''"

definition isPasswordChangeAllowedPath :: "string \<Rightarrow> bool" where
  "isPasswordChangeAllowedPath path \<longleftrightarrow> path = ''/auth/me'' \<or> path = ''/auth/change-password'' \<or> path = ''/auth/logout''"

text \<open>Authentication only reads. Its inputs are numbered from 100, apart from those of the handler behind it.\<close>

definition authenticate :: "environment \<Rightarrow> request \<Rightarrow> inputs \<Rightarrow> server \<Rightarrow> current_user option" where
  "authenticate en rq inp s =
     (if \<not> en_auth en then None
      else (case rq_Cookie rq of None \<Rightarrow> None | Some value \<Rightarrow>
        if value = [] then None
        else (case fst (GetSession (en_sha256hex en) (in_ctx inp 100) value (in_now inp 100) (in_now inp 101) (sr_accounts s)) of
          Inl e \<Rightarrow> None
        | Inr session \<Rightarrow> (case fst (GetUser (in_ctx inp 101) (sn_UserID session) (sr_accounts s)) of
            Inl e \<Rightarrow> None
          | Inr u \<Rightarrow>
            if blocked u then None
            else (case fst (GetUserPermissions (in_ctx inp 102) (us_ID u) (sr_accounts s)) of
              Inl e \<Rightarrow> None
            | Inr granted \<Rightarrow> Some \<lparr>cu_User = u, cu_Session = session, cu_Permissions = granted\<rparr>)))))"

definition tokenHashMatches :: "environment \<Rightarrow> string \<Rightarrow> string \<Rightarrow> bool" where
  "tokenHashMatches en raw hash \<longleftrightarrow> en_sha256hex en raw = hash"

type_synonym handler = "request \<Rightarrow> inputs \<Rightarrow> server \<Rightarrow> response \<times> server"

definition guarded :: "environment \<Rightarrow> (current_user \<Rightarrow> bool) \<Rightarrow> handler \<Rightarrow> handler" where
  "guarded en permitted handle rq inp s =
     (case authenticate en rq inp s of
        None \<Rightarrow> (answer 401 (Code ''unauthorized''), s)
      | Some current \<Rightarrow>
        if isUnsafeMethod (rq_Method rq) \<and> \<not> tokenHashMatches en (rq_CSRF rq) (sn_CSRFTokenHash (cu_Session current))
        then (answer 403 (Code ''csrf_failed''), s)
        else if us_Status (cu_User current) = ''pending_password_change'' \<and> \<not> isPasswordChangeAllowedPath (rq_Path rq)
        then (answer 403 (Code ''password_change_required''), s)
        else if \<not> permitted current then (answer 403 (Code ''permission_denied''), s)
        else handle (rq\<lparr>rq_Current := current\<rparr>) inp s)"

definition requirePermission :: "environment \<Rightarrow> string \<Rightarrow> handler \<Rightarrow> handler" where
  "requirePermission en permission =
     guarded en (\<lambda>current. permission = [] \<or> HasPermission (cu_Permissions current) permission)"

definition requireAnyPermission :: "environment \<Rightarrow> string list \<Rightarrow> handler \<Rightarrow> handler" where
  "requireAnyPermission en wanted =
     guarded en (\<lambda>current. wanted = [] \<or> list_ex (\<lambda>permission. permission \<noteq> [] \<and> HasPermission (cu_Permissions current) permission) wanted)"

definition logout :: "environment \<Rightarrow> handler" where
  "logout en rq inp s =
     (let current = cu_User (rq_Current rq);
          s1 = (case rq_Cookie rq of None \<Rightarrow> s
            | Some value \<Rightarrow> ignoring (on_accounts (DeleteSession (en_sha256hex en) (in_ctx inp 0) value) s));
          s2 = writeAudit en rq inp 1 (event ''auth.logout'' ''session'' [] ''success'' [] (Some current)) s1 in
      (\<lparr>rs_Status = 200, rs_Cookie = Some [], rs_Body = Status ''ok''\<rparr>, s2))"

definition refreshSession :: "environment \<Rightarrow> handler" where
  "refreshSession en rq inp s =
     (case in_settings inp 0 of Inl e \<Rightarrow> (answer 500 (Code ''security_settings_unavailable''), s) | Inr settings \<Rightarrow>
       (case on_accounts (RefreshSession (en_sha256hex en) (in_ctx inp 0) (sn_Token (cu_Session (rq_Current rq)))
           (ss_SessionIdleTimeoutMin settings * 60 * second) (in_now inp 0)) s of
         (Inl e, s1) \<Rightarrow> (answer 401 (Code ''unauthorized''), s1)
       | (Inr session, s1) \<Rightarrow> (answer 200 (Refreshed (sn_IdleExpiresAt session) (sn_AbsoluteExpiresAt session)), s1)))"

record password_body =
  pb_CurrentPassword :: string
  pb_NewPassword :: string

definition passwordMeetsConfiguredPolicy :: "security_settings result \<Rightarrow> string \<Rightarrow> response option" where
  "passwordMeetsConfiguredPolicy read password =
     (case read of Inl e \<Rightarrow> Some (answer 500 (Code ''security_settings_unavailable''))
      | Inr settings \<Rightarrow> (case ValidatePasswordWithMinLength password (ss_PasswordMinLength settings) of
          None \<Rightarrow> None | Some e \<Rightarrow> Some (answer 400 (Code ''password_policy_failed''))))"

definition changePassword :: "environment \<Rightarrow> password_body option \<Rightarrow> handler" where
  "changePassword en decoded rq inp s =
     (let current = cu_User (rq_Current rq);
          audited = (\<lambda>outcome metadata. writeAudit en rq inp 4
            (event ''auth.change_password'' ''user'' (us_ID current) outcome metadata (Some current))) in
      case decoded of None \<Rightarrow> (answer 400 (Code ''bad_request''), s) | Some content \<Rightarrow>
        if \<not> VerifyPassword (en_argon en) (pb_CurrentPassword content) (us_PasswordHash current)
        then (answer 401 (Code ''current_password_invalid''), audited ''failure'' (reason ''current_password_invalid'') s)
        else (case passwordMeetsConfiguredPolicy (in_settings inp 0) (pb_NewPassword content) of
          Some refusal \<Rightarrow> (refusal, audited ''failure'' (reason ''password_policy'') s)
        | None \<Rightarrow>
          (case on_accounts (ChangePassword (en_argon en) (in_random inp 0) (in_ctx inp 0) (us_ID current) (pb_NewPassword content)) s of
            (Inl e, s1) \<Rightarrow> (answer 400 (Code ''password_change_failed''), audited ''failure'' (reason ''password_policy'') s1)
          | (Inr _, s1) \<Rightarrow>
            let s2 = ignoring (on_accounts (DeleteUserSessions (in_ctx inp 1) (us_ID current)) s1) in
            (\<lparr>rs_Status = 200, rs_Cookie = Some [], rs_Body = Status ''password_changed''\<rparr>, audited ''success'' [] s2))))"

subsection \<open>The second factor\<close>

text \<open>Whether the code is right, whether it was a recovery code, and the server after a recovery code is used up.\<close>

definition verifyMFAConfigCode ::
  "environment \<Rightarrow> inputs \<Rightarrow> nat \<Rightarrow> string \<Rightarrow> mfa_config \<Rightarrow> string \<Rightarrow> server \<Rightarrow> (bool \<times> bool) \<times> server" where
  "verifyMFAConfigCode en inp n userID cfg code s =
     (if VerifyTOTP (en_totp en) (mc_TOTPSecret cfg) code (in_now inp n) then ((False, True), s)
      else let hash = HashRecoveryCode (en_sha256hex en) code in
        if hash \<notin> set (mc_RecoveryCodeHashes cfg) then ((False, False), s)
        else (case on_accounts (ConsumeRecoveryCode (in_ctx inp n) userID hash (in_now inp (Suc n))) s of
          (Inl e, s1) \<Rightarrow> ((False, False), s1)
        | (Inr _, s1) \<Rightarrow> ((True, True), s1)))"

text \<open>The challenge is looked up under the trimmed token and deleted under the token as it was sent.\<close>

definition mfaVerifyLoginChallenge ::
  "environment \<Rightarrow> request \<Rightarrow> inputs \<Rightarrow> string \<Rightarrow> string \<Rightarrow> server \<Rightarrow> response \<times> server" where
  "mfaVerifyLoginChallenge en rq inp challengeToken code s =
     (if \<not> en_mfa en then (answer 503 (Code ''mfa_not_configured''), s)
      else (case fst (GetMFAChallenge (en_sha256hex en) (in_ctx inp 0) (trimSpace challengeToken) (in_now inp 0) (sr_accounts s)) of
        Inl e \<Rightarrow> (answer 401 (Code ''invalid_mfa_challenge''), s)
      | Inr challenge \<Rightarrow>
        (case (case fst (GetUser (in_ctx inp 1) (mh_UserID challenge) (sr_accounts s)) of
            Inl e \<Rightarrow> None | Inr u \<Rightarrow> if blocked u then None else Some u) of
          None \<Rightarrow> (answer 401 (Code ''invalid_mfa_challenge''), s)
        | Some u \<Rightarrow>
          (case (case fst (GetMFAConfig (in_ctx inp 2) (us_ID u) (sr_accounts s)) of
              Inl e \<Rightarrow> None | Inr cfg \<Rightarrow> if mc_Enabled cfg then Some cfg else None) of
            None \<Rightarrow> (answer 401 (Code ''mfa_not_enabled''), s)
          | Some cfg \<Rightarrow>
            (case in_settings inp 0 of Inl e \<Rightarrow> (answer 500 (Code ''security_settings_unavailable''), s) | Inr settings \<Rightarrow>
              let ((usedRecovery, ok), s1) = verifyMFAConfigCode en inp 3 (us_ID u) cfg code s;
                  s2 = ignoring (on_accounts (DeleteMFAChallenge (en_sha256hex en) (in_ctx inp 5) challengeToken) s1) in
              if \<not> ok
              then (answer 401 (Code ''invalid_mfa_code''), writeAudit en rq inp 7
                (event ''mfa.verify'' ''mfa'' (us_ID u) ''failure'' (reason ''invalid_code'') (Some u))
                (ignoring (on_accounts (RecordLoginFailure (in_ctx inp 6) (us_Username u) (ss_LoginLockoutThreshold settings)) s2)))
              else completeLogin en rq inp 9 u settings (writeAudit en rq inp 7 (event ''mfa.verify'' ''mfa'' (us_ID u) ''success''
                [(''method'', AStr (if usedRecovery then ''recovery_code'' else ''totp''))] (Some u)) s2))))))"

definition mfaAvailable :: "environment \<Rightarrow> request \<Rightarrow> inputs \<Rightarrow> nat \<Rightarrow> string \<Rightarrow> server \<Rightarrow> server option" where
  "mfaAvailable en rq inp n action s =
     (if en_mfa en then None
      else let current = cu_User (rq_Current rq) in
        Some (writeAudit en rq inp n (event action ''mfa'' (us_ID current) ''failure'' (reason ''mfa_not_configured'') (Some current)) s))"

definition mfaVerifyEnrollment :: "environment \<Rightarrow> request \<Rightarrow> inputs \<Rightarrow> current_user \<Rightarrow> string \<Rightarrow> server \<Rightarrow> response \<times> server" where
  "mfaVerifyEnrollment en rq inp current code s =
     (case mfaAvailable en rq inp 0 ''mfa.verify'' s of
        Some s1 \<Rightarrow> (answer 503 (Code ''mfa_not_configured''), s1)
      | None \<Rightarrow>
        let u = cu_User current;
            audited = (\<lambda>outcome metadata. writeAudit en rq inp 4 (event ''mfa.verify'' ''mfa'' (us_ID u) outcome metadata (Some u))) in
        (case fst (GetMFAConfig (in_ctx inp 0) (us_ID u) (sr_accounts s)) of
          Inl e \<Rightarrow> (answer 500 (Code ''mfa_state_unavailable''), s)
        | Inr cfg \<Rightarrow>
          if mc_PendingTOTPSecret cfg = [] then (answer 409 (Code ''mfa_enrollment_not_pending''), s)
          else let key = loginFailureKey (''mfa:verify:'' @ us_ID u) (rq_IP rq);
                   (allowed, s1) = limiter_allow key sensitiveActionAttemptThreshold (in_now inp 0) s in
            if \<not> allowed then (answer 429 (Code ''mfa_rate_limited''), s1)
            else if \<not> VerifyTOTP (en_totp en) (mc_PendingTOTPSecret cfg) code (in_now inp 1)
            then (answer 401 (Code ''invalid_mfa_code''), audited ''failure'' (reason ''invalid_code'') (limiter_record key (in_now inp 2) s1))
            else (case on_accounts (ConfirmTOTPEnrollment (in_ctx inp 1) (us_ID u) (in_now inp 3)) s1 of
              (Inl e, s2) \<Rightarrow> (answer 500 (Code ''mfa_verify_failed''), s2)
            | (Inr _, s2) \<Rightarrow> (answer 200 (Status ''mfa_enabled''), audited ''success'' [(''method'', AStr ''totp'')] (limiter_clear key s2)))))"

record mfa_body =
  mb_ChallengeToken :: string
  mb_Code :: string

definition mfaVerify :: "environment \<Rightarrow> mfa_body option \<Rightarrow> handler" where
  "mfaVerify en decoded rq inp s =
     (case decoded of None \<Rightarrow> (answer 400 (Code ''bad_request''), s) | Some content \<Rightarrow>
       if trimSpace (mb_ChallengeToken content) \<noteq> []
       then mfaVerifyLoginChallenge en rq inp (mb_ChallengeToken content) (mb_Code content) s
       else (case authenticate en rq inp s of
         Some current \<Rightarrow>
           if isUnsafeMethod (rq_Method rq) \<and> \<not> tokenHashMatches en (rq_CSRF rq) (sn_CSRFTokenHash (cu_Session current))
           then (answer 403 (Code ''csrf_failed''), s)
           else mfaVerifyEnrollment en rq inp current (mb_Code content) s
       | None \<Rightarrow> mfaVerifyLoginChallenge en rq inp [] (mb_Code content) s))"

definition recovery_codes :: "environment \<Rightarrow> inputs \<Rightarrow> (string list \<times> string list) result" where
  "recovery_codes en inp =
     (case GenerateRecoveryCodes (en_encodeBase32 en) (\<lambda>i. in_random inp (10 + i)) 10 of
        Inl e \<Rightarrow> Inl e
      | Inr codes \<Rightarrow> Inr (codes, map (HashRecoveryCode (en_sha256hex en)) codes))"

text \<open>A code for the configured second factor, within the limit on attempts, before it may be changed.\<close>

definition confirm_factor ::
  "environment \<Rightarrow> request \<Rightarrow> inputs \<Rightarrow> string \<Rightarrow> audit_event \<Rightarrow> user \<Rightarrow> mfa_config \<Rightarrow> string \<Rightarrow> server \<Rightarrow> (response \<times> server) + server" where
  "confirm_factor en rq inp purpose denied u cfg code s =
     (let key = loginFailureKey (purpose @ us_ID u) (rq_IP rq);
          (allowed, s1) = limiter_allow key sensitiveActionAttemptThreshold (in_now inp 1) s in
      if \<not> allowed then Inl (answer 429 (Code ''mfa_rate_limited''), s1)
      else let ((_, ok), s2) = verifyMFAConfigCode en inp 2 (us_ID u) cfg code s1 in
        if \<not> ok then Inl (answer 401 (Code ''invalid_mfa_code''), writeAudit en rq inp 5 denied (limiter_record key (in_now inp 4) s2))
        else Inr s2)"

definition mfaEnroll :: "environment \<Rightarrow> string option \<Rightarrow> handler" where
  "mfaEnroll en decoded rq inp s =
     (let u = cu_User (rq_Current rq); key = loginFailureKey (''mfa:enroll:'' @ us_ID u) (rq_IP rq);
          audited = (\<lambda>outcome metadata. event ''mfa.enroll'' ''mfa'' (us_ID u) outcome metadata (Some u)) in
      case mfaAvailable en rq inp 0 ''mfa.enroll'' s of
        Some s1 \<Rightarrow> (answer 503 (Code ''mfa_not_configured''), s1)
      | None \<Rightarrow> (case decoded of None \<Rightarrow> (answer 400 (Code ''bad_request''), s) | Some code \<Rightarrow>
        (case in_settings inp 0 of Inl e \<Rightarrow> (answer 500 (Code ''security_settings_unavailable''), s) | Inr settings \<Rightarrow>
          if ss_MFAMode settings = ''passkey''
          then (answer 409 (Code ''totp_mfa_unavailable''), writeAudit en rq inp 0 (audited ''failure''
            [(''reason'', AStr ''totp_mfa_unavailable''), (''mfa_mode'', AStr (ss_MFAMode settings))]) s)
          else (case fst (GetMFAConfig (in_ctx inp 1) (us_ID u) (sr_accounts s)) of
            Inl e \<Rightarrow> (answer 500 (Code ''mfa_state_unavailable''), s)
          | Inr cfg \<Rightarrow>
            (case (if mc_Enabled cfg
                then map_sum id (limiter_clear key)
                  (confirm_factor en rq inp ''mfa:enroll:'' (audited ''failure'' (reason ''invalid_current_code'')) u cfg code s)
                else Inr s) of
              Inl refusal \<Rightarrow> refusal
            | Inr s1 \<Rightarrow>
              (case in_random inp 9 of Inl e \<Rightarrow> (answer 500 (Code ''mfa_secret_failed''), s1) | Inr raw \<Rightarrow>
                let secret = en_encodeBase32 en raw in
                (case recovery_codes en inp of Inl e \<Rightarrow> (answer 500 (Code ''recovery_codes_failed''), s1) | Inr (codes, hashes) \<Rightarrow>
                  (case on_accounts (StartTOTPEnrollment (in_ctx inp 7) (us_ID u) secret hashes (in_now inp 7)) s1 of
                    (Inl e, s2) \<Rightarrow> (answer 503 (Code ''mfa_enroll_failed''),
                      writeAudit en rq inp 8 (audited ''failure'' (reason ''mfa_enroll_failed'')) s2)
                  | (Inr _, s2) \<Rightarrow> (answer 200 (Enrolled secret codes), writeAudit en rq inp 8 (audited ''success''
                      [(''method'', AStr ''totp''), (''recovery_codes_issued'', ANum (word_of_nat (length codes)))]) s2)))))))))"

definition mfaDisable :: "environment \<Rightarrow> string option \<Rightarrow> handler" where
  "mfaDisable en decoded rq inp s =
     (let u = cu_User (rq_Current rq); key = loginFailureKey (''mfa:disable:'' @ us_ID u) (rq_IP rq);
          audited = (\<lambda>outcome metadata. event ''mfa.disable'' ''mfa'' (us_ID u) outcome metadata (Some u)) in
      case mfaAvailable en rq inp 0 ''mfa.disable'' s of
        Some s1 \<Rightarrow> (answer 503 (Code ''mfa_not_configured''), s1)
      | None \<Rightarrow> (case decoded of None \<Rightarrow> (answer 400 (Code ''bad_request''), s) | Some code \<Rightarrow>
        (case (case fst (GetMFAConfig (in_ctx inp 1) (us_ID u) (sr_accounts s)) of
            Inl e \<Rightarrow> None | Inr cfg \<Rightarrow> if mc_Enabled cfg then Some cfg else None) of
          None \<Rightarrow> (answer 409 (Code ''mfa_not_enabled''), s)
        | Some cfg \<Rightarrow>
          (case confirm_factor en rq inp ''mfa:disable:'' (audited ''failure'' (reason ''invalid_code'')) u cfg code s of
            Inl refusal \<Rightarrow> refusal
          | Inr s1 \<Rightarrow>
            (case on_accounts (DisableMFA (in_ctx inp 7) (us_ID u)) s1 of
              (Inl e, s2) \<Rightarrow> (answer 500 (Code ''mfa_disable_failed''), s2)
            | (Inr _, s2) \<Rightarrow> (answer 200 (Status ''mfa_disabled''), writeAudit en rq inp 8 (audited ''success'' []) (limiter_clear key s2)))))))"

definition mfaRegenerateRecoveryCodes :: "environment \<Rightarrow> string option \<Rightarrow> handler" where
  "mfaRegenerateRecoveryCodes en decoded rq inp s =
     (let u = cu_User (rq_Current rq); key = loginFailureKey (''mfa:recovery-regenerate:'' @ us_ID u) (rq_IP rq);
          audited = (\<lambda>outcome metadata. event ''mfa.recovery_codes.regenerate'' ''mfa'' (us_ID u) outcome metadata (Some u)) in
      case mfaAvailable en rq inp 0 ''mfa.recovery_codes.regenerate'' s of
        Some s1 \<Rightarrow> (answer 503 (Code ''mfa_not_configured''), s1)
      | None \<Rightarrow> (case decoded of None \<Rightarrow> (answer 400 (Code ''bad_request''), s) | Some code \<Rightarrow>
        (case (case fst (GetMFAConfig (in_ctx inp 1) (us_ID u) (sr_accounts s)) of
            Inl e \<Rightarrow> None | Inr cfg \<Rightarrow> if mc_Enabled cfg then Some cfg else None) of
          None \<Rightarrow> (answer 409 (Code ''mfa_not_enabled''), s)
        | Some cfg \<Rightarrow>
          (case confirm_factor en rq inp ''mfa:recovery-regenerate:'' (audited ''failure'' (reason ''invalid_code'')) u cfg code s of
            Inl refusal \<Rightarrow> refusal
          | Inr s1 \<Rightarrow>
            (case recovery_codes en inp of Inl e \<Rightarrow> (answer 500 (Code ''recovery_codes_failed''), s1) | Inr (codes, hashes) \<Rightarrow>
              (case on_accounts (RegenerateRecoveryCodes (in_ctx inp 7) (us_ID u) hashes (in_now inp 7)) s1 of
                (Inl e, s2) \<Rightarrow> (answer 500 (Code ''recovery_codes_failed''), s2)
              | (Inr _, s2) \<Rightarrow> (answer 200 (RecoveryCodes codes), writeAudit en rq inp 8 (audited ''success''
                  [(''recovery_codes_issued'', ANum (word_of_nat (length codes)))]) (limiter_clear key s2))))))))"

end
