(* ===== verification/Login_Steps.thy ===== *)
theory Login_Steps
  imports Login_Server
begin

text \<open>
  The login server as a labelled step system: the handlers people reach without administration, each
  with its request and inputs, and the operations other handlers perform on the account store. A
  history is the list of the calls served so far, each with the server it found. The effect lemmas say
  what a call can do to sessions and to pending challenges.
\<close>

subsection \<open>Calls\<close>

datatype call =
    Login request inputs "login_body option"
  | MFAVerify request inputs "mfa_body option"
  | Logout request inputs
  | Refresh request inputs
  | PasswordChange request inputs "password_body option"
  | Enroll request inputs "string option"
  | Disable request inputs "string option"
  | Regenerate request inputs "string option"
  | Administration

fun serve :: "environment \<Rightarrow> call \<Rightarrow> server \<Rightarrow> response \<times> server" where
  "serve en (Login rq inp content) s = login en rq inp content s"
| "serve en (MFAVerify rq inp content) s = mfaVerify en content rq inp s"
| "serve en (Logout rq inp) s = requirePermission en [] (logout en) rq inp s"
| "serve en (Refresh rq inp) s = requirePermission en [] (refreshSession en) rq inp s"
| "serve en (PasswordChange rq inp content) s = requirePermission en [] (changePassword en content) rq inp s"
| "serve en (Enroll rq inp content) s = requirePermission en [] (mfaEnroll en content) rq inp s"
| "serve en (Disable rq inp content) s = requirePermission en [] (mfaDisable en content) rq inp s"
| "serve en (Regenerate rq inp content) s = requirePermission en [] (mfaRegenerateRecoveryCodes en content) rq inp s"
| "serve en Administration s = (answer 200 (Status []), s)"

text \<open>
  The operations that the administration and account handlers perform on the account store. Sign-in
  through an external provider and by passkey, which opens a session too, is not among the calls.
\<close>

inductive admin_op :: "environment \<Rightarrow> account_store \<Rightarrow> account_store \<Rightarrow> bool" for en where
  add_user: "admin_op en a (snd (AddUser argon salt uuid now u password granted a))"
| create_user: "admin_op en a (snd (CreateUser argon salt parseAddress uuid' c name email password roleIDs a))"
| create_oauth_user: "admin_op en a (snd (CreateOAuthUser argon draw salt parseAddress uuid' c name email roleIDs a))"
| update_user: "admin_op en a (snd (UpdateUser parseAddress c i patch a))"
| set_status: "admin_op en a (snd (SetUserStatus c i status a))"
| delete_user: "admin_op en a (snd (DeleteUser c i a))"
| reset_password: "admin_op en a (snd (ResetPassword argon salt c i password a))"
| delete_user_sessions: "admin_op en a (snd (DeleteUserSessions c i a))"
| delete_session: "admin_op en a (snd (DeleteSession sha c raw a))"
| record_failure: "admin_op en a (snd (RecordLoginFailure c name threshold a))"
| disable_mfa: "admin_op en a (snd (DisableMFA c i a))"
| upsert_avatar: "admin_op en a (snd (UpsertUserAvatar c avatar t a))"
| delete_avatar: "admin_op en a (snd (DeleteUserAvatar c i a))"
| create_email_change: "admin_op en a (snd (CreateEmailChangeChallenge sha parseAddress draw c i email ttl t a))"
| get_email_change: "admin_op en a (snd (GetEmailChangeChallenge sha c raw t a))"
| consume_email_change: "admin_op en a (snd (ConsumeEmailChangeChallenge sha c raw t a))"
| create_passkey_registration:
    "admin_op en a (snd (CreatePasskeyRegistrationChallenge sha draw draw' c i rpID rpName name display ttl t a))"
| delete_passkey_registration: "admin_op en a (snd (DeletePasskeyRegistrationChallenge sha c raw a))"
| create_ceremony: "admin_op en a (snd (CreatePasskeyCeremonySession sha draw c i ceremony json ttl t a))"
| consume_ceremony: "admin_op en a (snd (ConsumePasskeyCeremonySession sha c raw ceremony t a))"
| delete_ceremony: "admin_op en a (snd (DeletePasskeyCeremonySession sha c raw a))"
| create_passkey: "admin_op en a (snd (CreatePasskeyCredential sha uuid' t c credential a))"
| update_sign_count: "admin_op en a (snd (UpdatePasskeySignCount c i count t a))"
| delete_passkey: "admin_op en a (snd (DeletePasskeyCredential c i j a))"
| create_role: "admin_op en a (snd (CreateRole uuid' t c name granted a))"
| update_role: "admin_op en a (snd (UpdateRole c i name granted a))"
| delete_role: "admin_op en a (snd (DeleteRole c i a))"
| write_audit: "admin_op en a (snd (WriteAudit (en_parseURL en) uuid' t c audit a))"

inductive served :: "environment \<Rightarrow> call \<Rightarrow> server \<Rightarrow> server \<Rightarrow> bool" for en where
  handled: "served en call s (snd (serve en call s))"
| administered: "admin_op en (sr_accounts s) a \<Longrightarrow> served en Administration s (s\<lparr>sr_accounts := a\<rparr>)"

definition NewServer :: server where
  "NewServer = \<lparr>sr_accounts = NewAccountStore, sr_failures = []\<rparr>"

inductive run :: "environment \<Rightarrow> (server \<times> call) list \<Rightarrow> server \<Rightarrow> server \<Rightarrow> bool" for en where
  idle: "run en [] s s"
| serving: "run en h s t \<Longrightarrow> served en call t t' \<Longrightarrow> run en (h @ [(t, call)]) s t'"

abbreviation history :: "environment \<Rightarrow> (server \<times> call) list \<Rightarrow> server \<Rightarrow> bool" where
  "history en h s \<equiv> run en h NewServer s"

inductive_cases served_cases: "served en call s t"

subsection \<open>Effects\<close>

definition accounts_wf :: "account_store \<Rightarrow> bool" where
  "accounts_wf a \<longleftrightarrow> mwf (sessions a) \<and> mwf (mfaChallenges a) \<and> (\<forall>k u. mget (users a) k = Some u \<longrightarrow> us_ID u = k)"

definition same_grant :: "session \<Rightarrow> session \<Rightarrow> bool" where
  "same_grant x y \<longleftrightarrow> y\<lparr>sn_IdleExpiresAt := 0\<rparr> = x\<lparr>sn_IdleExpiresAt := 0\<rparr>"

definition grants :: "(string \<Rightarrow> session \<Rightarrow> bool) \<Rightarrow> (mfa_challenge \<Rightarrow> bool) \<Rightarrow> account_store \<Rightarrow> account_store \<Rightarrow> bool" where
  "grants N C a b \<longleftrightarrow> (accounts_wf a \<longrightarrow> accounts_wf b \<and>
     (\<forall>k x. mget (sessions b) k = Some x \<longrightarrow> N k x \<or> (\<exists>y. mget (sessions a) k = Some y \<and> same_grant y x)) \<and>
     (\<forall>k c. mget (mfaChallenges b) k = Some c \<longrightarrow> C c \<or> mget (mfaChallenges a) k = Some c))"

abbreviation quiet :: "account_store \<Rightarrow> account_store \<Rightarrow> bool" where
  "quiet \<equiv> grants (\<lambda>_ _. False) (\<lambda>_. False)"

lemma same_grant_refl [simp]: "same_grant x x"
  by (simp add: same_grant_def)

lemma same_grant_trans: "same_grant x y \<Longrightarrow> same_grant y z \<Longrightarrow> same_grant x z"
  by (simp add: same_grant_def)

lemma same_grantD:
  "same_grant x y \<Longrightarrow> sn_UserID y = sn_UserID x" "same_grant x y \<Longrightarrow> sn_AbsoluteExpiresAt y = sn_AbsoluteExpiresAt x"
  "same_grant x y \<Longrightarrow> sn_CSRFTokenHash y = sn_CSRFTokenHash x" "same_grant x y \<Longrightarrow> sn_TokenHash y = sn_TokenHash x"
  by (simp_all add: same_grant_def)
    (metis session.select_convs session.surjective session.update_convs)+

lemma grants_refl [simp]: "grants N C a a"
  by (auto simp: grants_def)

lemma grants_quiet: "quiet a b \<Longrightarrow> grants N C a b"
  unfolding grants_def by blast

lemma grants_mono: "grants N C a b \<Longrightarrow> (\<And>k x. N k x \<Longrightarrow> N' k x) \<Longrightarrow> (\<And>c. C c \<Longrightarrow> C' c) \<Longrightarrow> grants N' C' a b"
  unfolding grants_def by blast

lemma grants_trans:
  "grants N C a b \<Longrightarrow> grants N C b c \<Longrightarrow> (\<And>k x y. N k x \<Longrightarrow> same_grant x y \<Longrightarrow> N k y) \<Longrightarrow> grants N C a c"
  unfolding grants_def by (meson same_grant_trans)

lemmas quiet_trans = grants_trans [where N = "\<lambda>_ _. False" and C = "\<lambda>_. False", simplified]

text \<open>An operation that leaves sessions and challenges alone and writes users only under their identifier.\<close>

lemma quietI:
  assumes "sessions b = sessions a" and "mfaChallenges b = mfaChallenges a"
    and "accounts_wf a \<Longrightarrow> \<forall>k u. mget (users b) k = Some u \<longrightarrow> us_ID u = k"
  shows "quiet a b"
proof -
  have "accounts_wf b" if "accounts_wf a" using that assms(3) [OF that] by (simp add: accounts_wf_def assms(1,2))
  then show ?thesis by (simp add: grants_def assms(1,2))
qed

lemma quiet_deletion:
  assumes "accounts_wf a \<Longrightarrow> mwf (sessions b) \<and> mwf (mfaChallenges b) \<and> (\<forall>k u. mget (users b) k = Some u \<longrightarrow> us_ID u = k)"
    and "\<And>k x. accounts_wf a \<Longrightarrow> mget (sessions b) k = Some x \<Longrightarrow> mget (sessions a) k = Some x"
    and "\<And>k c. accounts_wf a \<Longrightarrow> mget (mfaChallenges b) k = Some c \<Longrightarrow> mget (mfaChallenges a) k = Some c"
  shows "quiet a b"
proof -
  have "accounts_wf b" if "accounts_wf a" using assms(1) [OF that] by (simp add: accounts_wf_def)
  then show ?thesis unfolding grants_def using assms(2,3) same_grant_refl by blast
qed

lemma wf_users: "accounts_wf a \<Longrightarrow> mget (users a) k = Some u \<Longrightarrow> us_ID u = k"
  by (simp add: accounts_wf_def)

lemma add_roles_frame:
  "foldl (add_role granted uuid now) (u, a) xs = (u', a') \<Longrightarrow>
   us_ID u' = us_ID u \<and> users a' = users a \<and> sessions a' = sessions a \<and> mfaChallenges a' = mfaChallenges a"
proof (induction xs arbitrary: u a)
  case (Cons x xs)
  obtain v b where step: "add_role granted uuid now (u, a) x = (v, b)" by fastforce
  then have "us_ID v = us_ID u \<and> users b = users a \<and> sessions b = sessions a \<and> mfaChallenges b = mfaChallenges a"
    by (auto simp: add_role_def Let_def split: prod.splits)
  with Cons.IH [of v b] Cons.prems step show ?case by simp
qed simp

lemma user_or_zero_status: "us_Status (user_or_zero a i) \<noteq> [] \<Longrightarrow> mget (users a) i = Some (user_or_zero a i)"
  by (auto simp: user_or_zero_def zero_user_def split: option.splits)

lemma record_failure_quiet: "quiet a (snd (RecordLoginFailure c name threshold a))"
proof -
  have "us_ID (user_or_zero a i) = i" if "us_Status (user_or_zero a i) = ''active''" "accounts_wf a" for i
    using that user_or_zero_status [of a i] by (simp add: wf_users)
  moreover have "user_or_zero (a\<lparr>failedLogins := f\<rparr>) i = user_or_zero a i" for f i by (simp add: user_or_zero_def)
  ultimately show ?thesis
    by (intro quietI) (auto simp: RecordLoginFailure_def snd_with_ctx Let_def wf_users split: option.splits if_splits)
qed

lemma admin_op_quiet: "admin_op en a b \<Longrightarrow> quiet a b"
proof (induction rule: admin_op.induct)
  case (add_user a argon salt uuid now u password granted)
  show ?case
    by (rule quietI) (auto simp: AddUser_def Let_def wf_users split: sum.splits prod.splits if_splits dest!: add_roles_frame)
next
  case (create_user a argon salt parseAddress uuid' c name email password roleIDs)
  show ?case by (rule quietI) (auto simp: CreateUser_def snd_with_ctx insert_user_def Let_def wf_users split: sum.splits if_splits)
next
  case (create_oauth_user a argon draw salt parseAddress uuid' c name email roleIDs)
  show ?case by (rule quietI) (auto simp: CreateOAuthUser_def snd_with_ctx insert_user_def Let_def wf_users split: sum.splits if_splits)
next
  case (update_user a parseAddress c i patch)
  show ?case by (rule quietI) (auto simp: UpdateUser_def snd_with_ctx Let_def wf_users split: sum.splits option.splits if_splits)
next
  case (set_status a c i status)
  show ?case by (rule quietI) (auto simp: SetUserStatus_def snd_with_ctx Let_def wf_users split: option.splits if_splits)
next
  case (delete_user a c i)
  show ?case
    by (rule quiet_deletion) (auto simp: DeleteUser_def snd_with_ctx accounts_wf_def split: option.splits if_splits)
next
  case (reset_password a argon salt c i password)
  show ?case by (rule quietI) (auto simp: ResetPassword_def snd_with_ctx wf_users split: sum.splits option.splits if_splits)
next
  case (delete_user_sessions a c i)
  show ?case by (rule quiet_deletion) (auto simp: DeleteUserSessions_def snd_with_ctx accounts_wf_def split: option.splits if_splits)
next
  case (delete_session a sha c raw)
  show ?case by (rule quiet_deletion) (auto simp: DeleteSession_def snd_with_ctx accounts_wf_def split: if_splits)
next
  case (record_failure a c name threshold)
  show ?case by (rule record_failure_quiet)
qed (rule quietI; auto simp: op_defs snd_with_ctx Let_def wf_users split: sum.splits option.splits if_splits)+

subsection \<open>The handlers' effects\<close>

text \<open>The same relation on servers; the limiter does not matter for it.\<close>

abbreviation sgrants :: "(string \<Rightarrow> session \<Rightarrow> bool) \<Rightarrow> (mfa_challenge \<Rightarrow> bool) \<Rightarrow> server \<Rightarrow> server \<Rightarrow> bool" where
  "sgrants N C s t \<equiv> grants N C (sr_accounts s) (sr_accounts t)"

abbreviation squiet :: "server \<Rightarrow> server \<Rightarrow> bool" where
  "squiet s t \<equiv> quiet (sr_accounts s) (sr_accounts t)"

lemma on_accounts_snd: "sr_accounts (snd (on_accounts f s)) = snd (f (sr_accounts s))"
  by (simp add: on_accounts_def split: prod.splits)

lemma on_accounts_eq: "on_accounts f s = (r, t) \<longleftrightarrow> f (sr_accounts s) = (r, sr_accounts t) \<and> t = s\<lparr>sr_accounts := sr_accounts t\<rparr>"
  by (auto simp: on_accounts_def split: prod.splits)

lemma on_accounts_failures [simp]: "sr_failures (snd (on_accounts f s)) = sr_failures s"
  by (simp add: on_accounts_def split: prod.splits)

lemma writeAudit_frame [simp]:
  "sessions (sr_accounts (writeAudit en rq inp n e s)) = sessions (sr_accounts s)"
  "mfaChallenges (sr_accounts (writeAudit en rq inp n e s)) = mfaChallenges (sr_accounts s)"
  "users (sr_accounts (writeAudit en rq inp n e s)) = users (sr_accounts s)"
  "byUsername (sr_accounts (writeAudit en rq inp n e s)) = byUsername (sr_accounts s)"
  "failedLogins (sr_accounts (writeAudit en rq inp n e s)) = failedLogins (sr_accounts s)"
  "mfaConfigs (sr_accounts (writeAudit en rq inp n e s)) = mfaConfigs (sr_accounts s)"
  by (simp_all add: writeAudit_def Let_def on_accounts_snd WriteAudit_def snd_with_ctx)

lemma writeAudit_failures [simp]: "sr_failures (writeAudit en rq inp n e s) = sr_failures s"
  by (simp add: writeAudit_def Let_def)

lemma limiter_frame [simp]:
  "sr_accounts (snd (limiter_allow key threshold now s)) = sr_accounts s"
  "sr_accounts (limiter_record key now s) = sr_accounts s"
  "sr_accounts (limiter_clear key s) = sr_accounts s"
  by (simp_all add: limiter_allow_def limiter_record_def limiter_clear_def Let_def split: option.splits)

lemma limiter_allow_accounts: "limiter_allow key threshold now s = (b, t) \<Longrightarrow> sr_accounts t = sr_accounts s"
  using limiter_frame(1) [of key threshold now s] by simp

lemma accounts_wf_frame:
  "sessions b = sessions a \<Longrightarrow> mfaChallenges b = mfaChallenges a \<Longrightarrow> users b = users a \<Longrightarrow> accounts_wf b = accounts_wf a"
  by (simp add: accounts_wf_def)

lemma writeAudit_grants [simp]: "grants N C a (sr_accounts (writeAudit en rq inp n e s)) = grants N C a (sr_accounts s)"
  by (simp add: grants_def accounts_wf_frame [of "sr_accounts (writeAudit en rq inp n e s)" "sr_accounts s"])

lemma writeAudit_grants_from [simp]: "grants N C (sr_accounts (writeAudit en rq inp n e s)) b = grants N C (sr_accounts s) b"
  by (simp add: grants_def accounts_wf_frame [of "sr_accounts (writeAudit en rq inp n e s)" "sr_accounts s"])

text \<open>A session that \<^const>\<open>completeLogin\<close> opens for a user, and a challenge for one.\<close>

definition opened :: "environment \<Rightarrow> string result \<Rightarrow> string \<Rightarrow> string \<Rightarrow> session \<Rightarrow> bool" where
  "opened en draw userID k x \<longleftrightarrow> (\<exists>raw. draw = Inr raw \<and> k = en_sha256hex en raw) \<and> sn_UserID x = userID"

lemma opened_same: "opened en draw userID k x \<Longrightarrow> same_grant x y \<Longrightarrow> opened en draw userID k y"
  by (simp add: opened_def same_grantD(1))

lemma create_session_grants:
  "grants (opened en draw userID) C a (snd (CreateSession (en_sha256hex en) draw draw' c userID idle absolute now a))"
  by (auto simp: CreateSession_def snd_with_ctx grants_def accounts_wf_def opened_def new_session_def Let_def
      split: sum.splits intro: same_grant_refl)

lemma login_success_quiet:
  "mget (users a) i = Some u \<Longrightarrow> us_ID u = i \<Longrightarrow> quiet a (snd (RecordLoginSuccess c i ip now a))"
  by (rule quietI) (auto simp: RecordLoginSuccess_def snd_with_ctx user_or_zero_def Let_def wf_users split: if_splits)

lemma create_challenge_grants:
  "grants N (\<lambda>h. mh_UserID h = userID) a (snd (CreateMFAChallenge sha draw c userID ttl now a))"
  by (auto simp: CreateMFAChallenge_def snd_with_ctx grants_def accounts_wf_def Let_def split: sum.splits if_splits
      intro: same_grant_refl)

lemma completeLogin_grants:
  assumes "mget (users (sr_accounts s)) (us_ID u) = Some v" and "us_ID v = us_ID u"
  shows "sgrants (opened en (in_random inp n) (us_ID u)) C s (snd (completeLogin en rq inp n u settings s))"
proof -
  let ?N = "opened en (in_random inp n) (us_ID u)"
  let ?f = "CreateSession (en_sha256hex en) (in_random inp n) (in_random inp (Suc n)) (in_ctx inp n) (us_ID u)
         (ss_SessionIdleTimeoutMin settings * 60 * second) (ss_SessionAbsoluteLifetimeH settings * 3600 * second) (in_now inp n)"
  obtain r s1 where step: "on_accounts ?f s = (r, s1)" by fastforce
  then have s1: "sr_accounts s1 = snd (?f (sr_accounts s))" using on_accounts_snd [of ?f s] by simp
  then have first: "sgrants ?N C s s1" using create_session_grants by simp
  have users: "users (sr_accounts s1) = users (sr_accounts s)"
    by (simp add: s1 CreateSession_def snd_with_ctx Let_def split: sum.splits)
  show ?thesis
  proof (cases r)
    case (Inl e)
    then show ?thesis using step first by (simp add: completeLogin_def)
  next
    case (Inr x)
    have "quiet (sr_accounts s1) (snd (RecordLoginSuccess (in_ctx inp (Suc n)) (us_ID u) (rq_IP rq) (in_now inp (Suc n)) (sr_accounts s1)))"
      by (rule login_success_quiet [where u = v]) (simp_all add: users assms)
    then have "sgrants ?N C s1 (ignoring (on_accounts (RecordLoginSuccess (in_ctx inp (Suc n)) (us_ID u) (rq_IP rq) (in_now inp (Suc n))) s1))"
      unfolding on_accounts_snd by (rule grants_quiet)
    from grants_trans [OF first this opened_same] Inr step show ?thesis by (simp add: completeLogin_def Let_def)
  qed
qed

text \<open>The walk down the guards of a handler, with one goal per state it can answer from.\<close>

definition leads :: "(response \<times> server \<Rightarrow> bool) \<Rightarrow> response \<times> server \<Rightarrow> bool" where
  "leads Q out \<longleftrightarrow> Q out"

named_theorems handler_rules \<open>decomposition of a handler along its guards\<close>

lemma leads_answer [handler_rules]: "Q (r, s) \<Longrightarrow> leads Q (r, s)"
  by (simp add: leads_def)

lemma leads_if [handler_rules]: "(b \<Longrightarrow> leads Q x) \<Longrightarrow> (\<not> b \<Longrightarrow> leads Q y) \<Longrightarrow> leads Q (if b then x else y)"
  by simp

lemma leads_option [handler_rules]:
  "(v = None \<Longrightarrow> leads Q x) \<Longrightarrow> (\<And>w. v = Some w \<Longrightarrow> leads Q (f w)) \<Longrightarrow> leads Q (case v of None \<Rightarrow> x | Some w \<Rightarrow> f w)"
  by (cases v) simp_all

lemma leads_sum [handler_rules]:
  "(\<And>w. v = Inl w \<Longrightarrow> leads Q (f w)) \<Longrightarrow> (\<And>w. v = Inr w \<Longrightarrow> leads Q (g w)) \<Longrightarrow>
   leads Q (case v of Inl w \<Rightarrow> f w | Inr w \<Rightarrow> g w)"
  by (cases v) simp_all

lemma leads_prod [handler_rules]: "(\<And>w u. v = (w, u) \<Longrightarrow> leads Q (f w u)) \<Longrightarrow> leads Q (case v of (w, u) \<Rightarrow> f w u)"
  by (cases v) simp

lemma leads_prod_fun [handler_rules]:
  "(\<And>w u. v = (w, u) \<Longrightarrow> leads Q (f w u x)) \<Longrightarrow> leads Q ((case v of (w, u) \<Rightarrow> f w u) x)"
  by (cases v) simp

lemma leadsD: "leads (\<lambda>x. Q (snd x)) out \<Longrightarrow> Q (snd out)"
  by (simp add: leads_def)

subsection \<open>Password login\<close>

text \<open>The password of a user that exists and is not blocked, and that this user needs no second factor.\<close>

definition password_shown :: "environment \<Rightarrow> server \<Rightarrow> login_body \<Rightarrow> string \<Rightarrow> bool" where
  "password_shown en s content userID \<longleftrightarrow>
     (\<exists>i u. mget (byUsername (sr_accounts s)) (trimSpace (lb_Username content)) = Some i \<and>
        mget (users (sr_accounts s)) i = Some u \<and> us_ID u = userID \<and> \<not> blocked u \<and>
        VerifyPassword (en_argon en) (lb_Password content) (us_PasswordHash u))"

definition no_factor_needed :: "environment \<Rightarrow> server \<Rightarrow> inputs \<Rightarrow> string \<Rightarrow> bool" where
  "no_factor_needed en s inp userID \<longleftrightarrow>
     (\<exists>settings u. in_settings inp 0 = Inr settings \<and> mget (users (sr_accounts s)) userID = Some u \<and>
        \<not> passkeyRequiredForUser settings u \<and> \<not> mfaRequiredForUser settings u \<and>
        (en_mfa en \<longrightarrow> \<not> mc_Enabled (mfa_or_zero (sr_accounts s) userID)))"

lemma VerifyPassword_Nil [simp]: "\<not> VerifyPassword argon password []"
  by (simp add: VerifyPassword_def)

lemma found_user:
  assumes "fst (FindUserByUsername c name a) = Inr u" and "VerifyPassword argon password (us_PasswordHash u)"
  shows "\<exists>i. mget (byUsername a) name = Some i \<and> mget (users a) i = Some u"
  using assms
  by (cases c) (auto simp: FindUserByUsername_def user_or_zero_def zero_user_def split: option.splits)

lemma requirement_met:
  "loginMFARequirement en c settings u s = Inr (cfg, False) \<Longrightarrow>
   \<not> mfaRequiredForUser settings u \<and> (en_mfa en \<longrightarrow> \<not> mc_Enabled (mfa_or_zero (sr_accounts s) (us_ID u)))"
  by (cases c) (auto simp: loginMFARequirement_def GetMFAConfig_def split: if_splits)

lemma failure_recorded_quiet:
  "squiet s (ignoring (on_accounts (RecordLoginFailure c name threshold) s))"
  unfolding on_accounts_snd by (rule record_failure_quiet)

definition signed_in :: "environment \<Rightarrow> server \<Rightarrow> inputs \<Rightarrow> login_body \<Rightarrow> string \<Rightarrow> session \<Rightarrow> bool" where
  "signed_in en s inp content k x \<longleftrightarrow> opened en (in_random inp 6) (sn_UserID x) k x \<and>
     password_shown en s content (sn_UserID x) \<and> no_factor_needed en s inp (sn_UserID x)"

lemma accepted_user:
  assumes "(case fst (FindUserByUsername c (trimSpace (lb_Username content)) (sr_accounts s)) of Inl e \<Rightarrow> None
     | Inr u \<Rightarrow> if blocked u \<or> \<not> VerifyPassword (en_argon en) (lb_Password content) (us_PasswordHash u) then None else Some u) = Some u"
    and "accounts_wf (sr_accounts s)"
  shows "password_shown en s content (us_ID u)" and "mget (users (sr_accounts s)) (us_ID u) = Some u"
proof -
  have found: "fst (FindUserByUsername c (trimSpace (lb_Username content)) (sr_accounts s)) = Inr u"
    and ok: "\<not> blocked u" "VerifyPassword (en_argon en) (lb_Password content) (us_PasswordHash u)"
    using assms(1) by (auto split: sum.splits if_splits)
  then obtain i where i: "mget (byUsername (sr_accounts s)) (trimSpace (lb_Username content)) = Some i"
    "mget (users (sr_accounts s)) i = Some u" using found_user by blast
  then show "mget (users (sr_accounts s)) (us_ID u) = Some u" using assms(2) by (simp add: wf_users)
  show "password_shown en s content (us_ID u)" using i ok by (auto simp: password_shown_def)
qed

lemma login_completes:
  assumes "sr_accounts s1 = sr_accounts s" and "password_shown en s content (us_ID u)" and "mget (users (sr_accounts s)) (us_ID u) = Some u"
    and "in_settings inp 0 = Inr settings" and "\<not> passkeyRequiredForUser settings u"
    and "loginMFARequirement en c settings u s1 = Inr (cfg, False)"
  shows "sgrants (signed_in en s inp content) C s (snd (completeLogin en rq inp 6 u settings s1))"
proof -
  have "signed_in en s inp content k x" if "opened en (in_random inp 6) (us_ID u) k x" for k x
    using that requirement_met [OF assms(6)] assms(1-5) by (auto simp: opened_def signed_in_def no_factor_needed_def)
  moreover have "sgrants (opened en (in_random inp 6) (us_ID u)) C s1 (snd (completeLogin en rq inp 6 u settings s1))"
    by (rule completeLogin_grants [where v = u]) (simp_all add: assms(1,3))
  ultimately show ?thesis by (metis (no_types, lifting) grants_mono assms(1))
qed

lemma login_challenges:
  assumes "sr_accounts s1 = sr_accounts s" and "password_shown en s content (us_ID u)"
    and "on_accounts (CreateMFAChallenge sha draw c (us_ID u) ttl now) s1 = (r, s2)"
  shows "sgrants N (\<lambda>h. password_shown en s content (mh_UserID h)) s s2"
proof -
  have "sr_accounts s2 = snd (CreateMFAChallenge sha draw c (us_ID u) ttl now (sr_accounts s))"
    using on_accounts_snd [of "CreateMFAChallenge sha draw c (us_ID u) ttl now" s1] assms(1,3) by simp
  then have "sgrants N (\<lambda>h. mh_UserID h = us_ID u) s s2" using create_challenge_grants by simp
  then show ?thesis by (rule grants_mono) (simp_all add: assms(2))
qed

lemma failure_recorded_grants:
  "grants N C a (sr_accounts (ignoring (on_accounts (RecordLoginFailure c name threshold) s)))" if "sr_accounts s = a"
  using grants_quiet [OF failure_recorded_quiet] that by blast

lemma login_grants:
  "sgrants (signed_in en s inp content) (\<lambda>h. password_shown en s content (mh_UserID h)) s (snd (login en rq inp (Some content) s))"
  (is "grants ?N ?C _ _")
proof (cases "accounts_wf (sr_accounts s)")
  case wf: True
  let ?Q = "\<lambda>out. sgrants ?N ?C s (snd out)"
  have accepted: "password_shown en s content (us_ID u) \<and> mget (users (sr_accounts s)) (us_ID u) = Some u"
    if "sr_accounts s1 = sr_accounts s" and "(case fst (FindUserByUsername c (trimSpace (lb_Username content)) (sr_accounts s1)) of Inl e \<Rightarrow> None
     | Inr u \<Rightarrow> if blocked u \<or> \<not> VerifyPassword (en_argon en) (lb_Password content) (us_PasswordHash u) then None else Some u) = Some u"
    for c u s1
    using accepted_user [OF that(2) [unfolded that(1)] wf] by blast
  have "leads ?Q (login en rq inp (Some content) s)"
    unfolding login_def rejectPasskeyRequiredLogin_def Let_def option.case
    apply (intro handler_rules; (frule limiter_allow_accounts)?; (simp add: failure_recorded_grants; fail)?)
      apply (unfold leads_def)
      apply (frule (1) accepted)
      apply (rule login_completes; simp)
     apply (frule (1) accepted, simp only: snd_conv, rule login_challenges, assumption, erule conjunct1, assumption)
    apply (frule (1) accepted, simp only: writeAudit_grants snd_conv, rule login_challenges, assumption, erule conjunct1, assumption)
    done
  then show ?thesis by (rule leadsD)
qed (simp add: grants_def)

subsection \<open>The second factor\<close>

text \<open>A code that the second factor of a user accepts, and the challenge it answers.\<close>

definition code_shown :: "environment \<Rightarrow> server \<Rightarrow> inputs \<Rightarrow> mfa_body \<Rightarrow> string \<Rightarrow> bool" where
  "code_shown en s inp content userID \<longleftrightarrow>
     (\<exists>h u. mget (mfaChallenges (sr_accounts s)) (en_sha256hex en (trimSpace (mb_ChallengeToken content))) = Some h \<and>
        in_now inp 0 \<le> mh_ExpiresAt h \<and> mh_UserID h = userID \<and>
        mget (users (sr_accounts s)) userID = Some u \<and> \<not> blocked u \<and>
        (let cfg = mfa_or_zero (sr_accounts s) userID in mc_Enabled cfg \<and>
          (VerifyTOTP (en_totp en) (mc_TOTPSecret cfg) (mb_Code content) (in_now inp 3) \<or>
           HashRecoveryCode (en_sha256hex en) (mb_Code content) \<in> set (mc_RecoveryCodeHashes cfg))))"

definition verified :: "environment \<Rightarrow> server \<Rightarrow> inputs \<Rightarrow> mfa_body \<Rightarrow> string \<Rightarrow> session \<Rightarrow> bool" where
  "verified en s inp content k x \<longleftrightarrow>
     opened en (in_random inp 9) (sn_UserID x) k x \<and> code_shown en s inp content (sn_UserID x)"

lemma consume_code_quiet: "quiet a (snd (ConsumeRecoveryCode c i hash now a))"
  by (rule quietI) (auto simp: ConsumeRecoveryCode_def snd_with_ctx Let_def wf_users)

lemma delete_challenge_quiet: "quiet a (snd (DeleteMFAChallenge sha c raw a))"
  by (rule quiet_deletion) (auto simp: DeleteMFAChallenge_def snd_with_ctx accounts_wf_def split: if_splits)

lemma verify_code:
  assumes "verifyMFAConfigCode en inp n userID cfg code s = ((used, ok), t)"
  shows "squiet s t" and "users (sr_accounts t) = users (sr_accounts s)"
    and "ok \<Longrightarrow> VerifyTOTP (en_totp en) (mc_TOTPSecret cfg) code (in_now inp n) \<or>
      HashRecoveryCode (en_sha256hex en) code \<in> set (mc_RecoveryCodeHashes cfg)"
proof -
  let ?f = "ConsumeRecoveryCode (in_ctx inp n) userID (HashRecoveryCode (en_sha256hex en) code) (in_now inp (Suc n))"
  have "t = s \<or> t = snd (on_accounts ?f s)"
    using assms by (auto simp: verifyMFAConfigCode_def Let_def split: if_splits sum.splits prod.splits)
  moreover have "squiet s (snd (on_accounts ?f s))" unfolding on_accounts_snd by (rule consume_code_quiet)
  moreover have "users (sr_accounts (snd (on_accounts ?f s))) = users (sr_accounts s)"
    by (simp add: on_accounts_snd ConsumeRecoveryCode_def snd_with_ctx Let_def)
  ultimately show "squiet s t" and "users (sr_accounts t) = users (sr_accounts s)" by auto
  show "ok \<Longrightarrow> VerifyTOTP (en_totp en) (mc_TOTPSecret cfg) code (in_now inp n) \<or>
      HashRecoveryCode (en_sha256hex en) code \<in> set (mc_RecoveryCodeHashes cfg)"
    using assms by (auto simp: verifyMFAConfigCode_def Let_def split: if_splits)
qed

lemma challenge_found:
  "fst (GetMFAChallenge sha c raw now a) = Inr h \<Longrightarrow>
   \<exists>h'. mget (mfaChallenges a) (sha raw) = Some h' \<and> now \<le> mh_ExpiresAt h' \<and> mh_UserID h' = mh_UserID h"
  by (cases c) (auto simp: GetMFAChallenge_def split: option.splits if_splits)

lemma get_user_found: "fst (GetUser c i a) = Inr u \<Longrightarrow> mget (users a) i = Some u"
  by (cases c) (auto simp: GetUser_def split: option.splits)

lemma get_config: "fst (GetMFAConfig c i a) = Inr cfg \<Longrightarrow> cfg = (mfa_or_zero a i)\<lparr>mc_UserID := i\<rparr>"
  by (cases c) (auto simp: GetMFAConfig_def)

lemma deleted_challenge_quiet: "squiet s (ignoring (on_accounts (DeleteMFAChallenge sha c raw) s))"
  unfolding on_accounts_snd by (rule delete_challenge_quiet)

lemma deleted_challenge_users [simp]:
  "users (sr_accounts (ignoring (on_accounts (DeleteMFAChallenge sha c raw) s))) = users (sr_accounts s)"
  by (simp add: on_accounts_snd DeleteMFAChallenge_def snd_with_ctx)

lemma challenge_refused:
  assumes "verifyMFAConfigCode en inp n userID cfg code s = ((used, ok), s1)"
  shows "sgrants N C s (writeAudit en rq inp m e (ignoring (on_accounts (RecordLoginFailure c name threshold)
    (ignoring (on_accounts (DeleteMFAChallenge sha c' token) s1)))))"
  using quiet_trans [OF quiet_trans [OF verify_code(1) [OF assms] deleted_challenge_quiet] failure_recorded_quiet]
  by (simp add: grants_quiet)

lemma verified_same: "verified en s inp content k x \<Longrightarrow> same_grant x y \<Longrightarrow> verified en s inp content k y"
  using opened_same [of en "in_random inp 9" "sn_UserID x" k x y] by (simp add: verified_def same_grantD(1))

lemma challenge_passed:
  assumes code: "verifyMFAConfigCode en inp 3 (us_ID u) cfg code s = ((used, ok), s1)" and "ok"
    and found: "fst (GetMFAChallenge (en_sha256hex en) c1 (trimSpace token) (in_now inp 0) (sr_accounts s)) = Inr h"
    and u: "mget (users (sr_accounts s)) (mh_UserID h) = Some u" "us_ID u = mh_UserID h" "\<not> blocked u"
    and cfg: "cfg = (mfa_or_zero (sr_accounts s) (us_ID u))\<lparr>mc_UserID := us_ID u\<rparr>" "mc_Enabled cfg"
  shows "sgrants (verified en s inp \<lparr>mb_ChallengeToken = token, mb_Code = code\<rparr>) (\<lambda>_. False) s
    (snd (completeLogin en rq inp 9 u settings (writeAudit en rq inp m e
      (ignoring (on_accounts (DeleteMFAChallenge sha c' token) s1)))))" (is "grants ?N ?C _ (sr_accounts (snd (completeLogin _ _ _ _ _ _ ?s2)))")
proof -
  have "code_shown en s inp \<lparr>mb_ChallengeToken = token, mb_Code = code\<rparr> (us_ID u)"
    using challenge_found [OF found] u cfg verify_code(3) [OF code \<open>ok\<close>] by (auto simp: code_shown_def Let_def)
  then have new: "?N k x" if "opened en (in_random inp 9) (us_ID u) k x" for k x
    using that by (auto simp: verified_def opened_def)
  have "sgrants (opened en (in_random inp 9) (us_ID u)) ?C ?s2 (snd (completeLogin en rq inp 9 u settings ?s2))"
    by (rule completeLogin_grants [where v = u]) (simp_all add: verify_code(2) [OF code] u)
  then have "sgrants ?N ?C ?s2 (snd (completeLogin en rq inp 9 u settings ?s2))" by (rule grants_mono) (rule new)
  moreover have "squiet s ?s2" using quiet_trans [OF verify_code(1) [OF code] deleted_challenge_quiet] by simp
  ultimately show ?thesis using grants_trans [OF grants_quiet] verified_same by blast
qed

lemma mfa_challenge_grants:
  "sgrants (verified en s inp \<lparr>mb_ChallengeToken = token, mb_Code = code\<rparr>) (\<lambda>_. False) s
     (snd (mfaVerifyLoginChallenge en rq inp token code s))"
  (is "grants ?N ?C _ _")
proof (cases "accounts_wf (sr_accounts s)")
  case wf: True
  let ?Q = "\<lambda>out. sgrants ?N ?C s (snd out)"
  have user: "mget (users (sr_accounts s)) (mh_UserID h) = Some u \<and> us_ID u = mh_UserID h \<and> \<not> blocked u"
    if "(case fst (GetUser c (mh_UserID h) (sr_accounts s)) of Inl e \<Rightarrow> None | Inr u \<Rightarrow> if blocked u then None else Some u) = Some u" for c h u
    using that wf by (auto split: sum.splits if_splits dest!: get_user_found simp: wf_users)
  have config: "cfg = (mfa_or_zero (sr_accounts s) i)\<lparr>mc_UserID := i\<rparr> \<and> mc_Enabled cfg"
    if "(case fst (GetMFAConfig c i (sr_accounts s)) of Inl e \<Rightarrow> None | Inr cfg \<Rightarrow> if mc_Enabled cfg then Some cfg else None) = Some cfg" for c i cfg
    using that by (auto split: sum.splits if_splits dest!: get_config)
  have "leads ?Q (mfaVerifyLoginChallenge en rq inp token code s)"
    unfolding mfaVerifyLoginChallenge_def Let_def
    apply (intro handler_rules; (simp add: challenge_refused; fail)?)
     apply (hypsubst, simp only: snd_conv, rule challenge_refused, assumption)
    apply (hypsubst, frule user, frule config, unfold leads_def, (erule conjE)+)
    apply (rule challenge_passed, assumption, erule notnotD, assumption+)
    done
  then show ?thesis by (rule leadsD)
qed (simp add: grants_def)

subsection \<open>Every call\<close>

lemma refresh_quiet: "quiet a (snd (RefreshSession sha c raw idle now a))"
proof -
  let ?b = "snd (RefreshSession sha c raw idle now a)"
  have wf: "accounts_wf ?b" if "accounts_wf a"
    using that by (auto simp: RefreshSession_def snd_with_ctx accounts_wf_def Let_def split: option.splits)
  have "\<exists>y. mget (sessions a) k = Some y \<and> same_grant y x" if "mget (sessions ?b) k = Some x" for k x
    using that by (auto simp: RefreshSession_def snd_with_ctx Let_def same_grant_def split: option.splits if_splits)
  moreover have "mfaChallenges ?b = mfaChallenges a"
    by (simp add: RefreshSession_def snd_with_ctx Let_def split: option.splits)
  ultimately show ?thesis using wf by (simp add: grants_def)
qed

lemma change_password_quiet: "quiet a (snd (ChangePassword argon salt c i password a))"
  by (rule quietI) (auto simp: ChangePassword_def snd_with_ctx wf_users split: sum.splits option.splits if_splits)

lemma store_quiet:
  "quiet a (snd (DeleteSession sha c raw a))" "quiet a (snd (DeleteUserSessions c i a))" "quiet a (snd (DisableMFA c i a))"
  by (rule admin_op_quiet, rule admin_op.intros)+

lemma mfa_quiet:
  "quiet a (snd (ConfirmTOTPEnrollment c i now a))" "quiet a (snd (StartTOTPEnrollment c i secret hashes now a))"
  "quiet a (snd (RegenerateRecoveryCodes c i hashes now a))"
  by (rule quietI; auto simp: ConfirmTOTPEnrollment_def StartTOTPEnrollment_def RegenerateRecoveryCodes_def snd_with_ctx Let_def wf_users)+

lemma on_accounts_quiet:
  assumes "on_accounts f s = (r, t)" and "\<And>a. quiet a (snd (f a))"
  shows "squiet s t"
  using assms on_accounts_snd [of f s] by (metis snd_conv)

lemma squiet_on_accounts: "(\<And>a. quiet a (snd (f a))) \<Longrightarrow> squiet s (ignoring (on_accounts f s))"
  by (simp add: on_accounts_snd)

lemma logout_quiet: "squiet s (snd (logout en rq inp s))"
  by (simp add: logout_def Let_def squiet_on_accounts store_quiet split: option.split)

lemma refreshSession_quiet: "squiet s (snd (refreshSession en rq inp s))"
  unfolding refreshSession_def
  by (rule leadsD, intro handler_rules) (auto intro: on_accounts_quiet refresh_quiet)

lemma changePassword_quiet: "squiet s (snd (changePassword en content rq inp s))"
  unfolding changePassword_def Let_def
  by (rule leadsD, intro handler_rules)
    (auto intro: on_accounts_quiet change_password_quiet quiet_trans [OF on_accounts_quiet squiet_on_accounts] store_quiet)

lemma mfaAvailable_quiet: "mfaAvailable en rq inp n action s = Some t \<Longrightarrow> squiet s t"
  by (auto simp: mfaAvailable_def Let_def split: if_splits)

lemma mfaVerifyEnrollment_quiet: "squiet s (snd (mfaVerifyEnrollment en rq inp current code s))"
  unfolding mfaVerifyEnrollment_def Let_def
  by (rule leadsD, intro handler_rules; (frule limiter_allow_accounts)?;
      auto dest!: on_accounts_quiet mfaAvailable_quiet intro: mfa_quiet)

lemma confirm_factor_quiet:
  "confirm_factor en rq inp purpose denied u cfg code s = Inl (r, t) \<Longrightarrow> squiet s t"
  "confirm_factor en rq inp purpose denied u cfg code s = Inr t \<Longrightarrow> squiet s t"
  by (auto simp: confirm_factor_def Let_def split: prod.splits if_splits dest!: limiter_allow_accounts verify_code(1))

lemma confirmed_then:
  assumes "confirm_factor en rq inp purpose denied u cfg code s = Inr s1" and "on_accounts f s1 = (r, t)" and "\<And>a. quiet a (snd (f a))"
  shows "squiet s t"
  by (rule quiet_trans, rule confirm_factor_quiet(2) [OF assms(1)], rule on_accounts_quiet [OF assms(2,3)])

lemma mfaDisable_quiet: "squiet s (snd (mfaDisable en content rq inp s))"
  unfolding mfaDisable_def Let_def
  by (rule leadsD, intro handler_rules)
    (auto simp: leads_def dest: confirm_factor_quiet mfaAvailable_quiet dest!: confirmed_then intro: store_quiet)

lemma mfaRegenerate_quiet: "squiet s (snd (mfaRegenerateRecoveryCodes en content rq inp s))"
  unfolding mfaRegenerateRecoveryCodes_def Let_def
  by (rule leadsD, intro handler_rules)
    (auto simp: leads_def dest: confirm_factor_quiet mfaAvailable_quiet intro: confirmed_then [OF _ _ mfa_quiet(3)])

lemma mfaEnroll_quiet: "squiet s (snd (mfaEnroll en content rq inp s))"
proof -
  have enabled: "squiet s t"
    if "(if mc_Enabled cfg then map_sum id (limiter_clear key) (confirm_factor en rq inp purpose denied u cfg code s) else Inr s) = Inr t"
    for cfg key purpose denied u code t
    using that confirm_factor_quiet(2) by (cases "confirm_factor en rq inp purpose denied u cfg code s") (auto split: if_splits)
  have refused: "squiet s (snd t)"
    if "(if mc_Enabled cfg then map_sum id (limiter_clear key) (confirm_factor en rq inp purpose denied u cfg code s) else Inr s) = Inl t"
    for cfg key purpose denied u code t
    using that confirm_factor_quiet(1) [of en rq inp purpose denied u cfg code s "fst t" "snd t"]
    by (cases "confirm_factor en rq inp purpose denied u cfg code s") (auto split: if_splits)
  have enrolled: "squiet s t" if "squiet s s1" and "on_accounts (StartTOTPEnrollment c i secret hashes now) s1 = (r, t)"
    for c i secret hashes now s1 r t
    using quiet_trans [OF that(1) on_accounts_quiet [OF that(2) mfa_quiet(2)]] .
  show ?thesis
    unfolding mfaEnroll_def Let_def
    by (rule leadsD, intro handler_rules) (auto simp: leads_def dest: mfaAvailable_quiet enabled refused intro: enrolled)
qed

lemma guarded_quiet: "(\<And>rq'. squiet s (snd (handle rq' inp s))) \<Longrightarrow> squiet s (snd (guarded en permitted handle rq inp s))"
  unfolding guarded_def by (rule leadsD, intro handler_rules) (simp_all add: leads_def)

lemma mfaVerify_grants: "sgrants (verified en s inp content) (\<lambda>_. False) s (snd (mfaVerify en (Some content) rq inp s))"
proof -
  have "verified en s inp \<lparr>mb_ChallengeToken = [], mb_Code = mb_Code content\<rparr> k x \<Longrightarrow> verified en s inp content k x"
    if "trimSpace (mb_ChallengeToken content) = []" for k x
    using that by (simp add: verified_def code_shown_def)
  then have empty: "sgrants (verified en s inp content) (\<lambda>_. False) s (snd (mfaVerifyLoginChallenge en rq inp [] (mb_Code content) s))"
    if "trimSpace (mb_ChallengeToken content) = []"
    using that by (intro grants_mono [OF mfa_challenge_grants]) auto
  have given: "sgrants (verified en s inp content) (\<lambda>_. False) s
      (snd (mfaVerifyLoginChallenge en rq inp (mb_ChallengeToken content) (mb_Code content) s))"
    by (cases content) (simp add: mfa_challenge_grants)
  show ?thesis
    unfolding mfaVerify_def option.case
    by (rule leadsD, intro handler_rules)
      (auto simp: leads_def given empty intro: grants_quiet mfaVerifyEnrollment_quiet)
qed

text \<open>The hash under which a call would file a session, and the session and challenges it may leave.\<close>

fun drawn :: "environment \<Rightarrow> call \<Rightarrow> string option" where
  "drawn en (Login rq inp content) = (case in_random inp 6 of Inl e \<Rightarrow> None | Inr raw \<Rightarrow> Some (en_sha256hex en raw))"
| "drawn en (MFAVerify rq inp content) = (case in_random inp 9 of Inl e \<Rightarrow> None | Inr raw \<Rightarrow> Some (en_sha256hex en raw))"
| "drawn en call = None"

fun earned :: "environment \<Rightarrow> server \<Rightarrow> call \<Rightarrow> string \<Rightarrow> session \<Rightarrow> bool" where
  "earned en s (Login rq inp (Some content)) k x = signed_in en s inp content k x"
| "earned en s (MFAVerify rq inp (Some content)) k x = verified en s inp content k x"
| "earned en s call k x = False"

fun challenged :: "environment \<Rightarrow> server \<Rightarrow> call \<Rightarrow> mfa_challenge \<Rightarrow> bool" where
  "challenged en s (Login rq inp (Some content)) h = password_shown en s content (mh_UserID h)"
| "challenged en s call h = False"

lemma earned_drawn: "earned en s call k x \<Longrightarrow> drawn en call = Some k"
  by (cases "(en, s, call, k, x)" rule: earned.cases) (auto simp: signed_in_def verified_def opened_def)

lemma served_grants: "served en call s t \<Longrightarrow> sgrants (earned en s call) (challenged en s call) s t"
proof (induction rule: served.induct)
  case (handled call s)
  show ?case
  proof (cases call)
    case (Login rq inp content)
    moreover have "snd (login en rq inp None s) = s" by (simp add: login_def)
    ultimately show ?thesis by (cases content) (simp_all add: login_grants)
  next
    case (MFAVerify rq inp content)
    moreover have "snd (mfaVerify en None rq inp s) = s" by (simp add: mfaVerify_def)
    ultimately show ?thesis by (cases content) (simp_all add: mfaVerify_grants)
  qed (simp_all add: requirePermission_def grants_quiet [OF guarded_quiet] logout_quiet refreshSession_quiet changePassword_quiet
      mfaEnroll_quiet mfaDisable_quiet mfaRegenerate_quiet)
next
  case (administered s a)
  then show ?case using grants_quiet [OF admin_op_quiet] by simp
qed

end
