(* ===== verification/Audit_Trail.thy ===== *)
theory Audit_Trail
  imports Login_Steps
begin

text \<open>
  The audit log over the handlers that people sign in through: it only grows, every entry has been
  redacted before it is stored, and a listing gives the newest matching entries as they were stored.
\<close>

subsection \<open>What the operations do to the log\<close>

abbreviation trail :: "server \<Rightarrow> audit_event list" where
  "trail s \<equiv> auditEvents (sr_accounts s)"

definition logs :: "environment \<Rightarrow> audit_event list \<Rightarrow> audit_event list \<Rightarrow> bool" where
  "logs en xs ys \<longleftrightarrow> (\<exists>es. ys = xs @ es \<and> list_all (event_clean (en_parseURL en)) es)"

lemma logs_refl [simp]: "logs en xs xs"
  by (simp add: logs_def)

lemma logs_trans: "logs en xs ys \<Longrightarrow> logs en ys zs \<Longrightarrow> logs en xs zs"
  by (auto simp: logs_def)

lemma WriteAudit_logs: "logs en xs (auditEvents a) \<Longrightarrow> logs en xs (auditEvents (snd (WriteAudit (en_parseURL en) uuid now c e a)))"
proof (rule logs_trans)
  have "event_clean (en_parseURL en) (redactedAuditEvent (en_parseURL en) e\<lparr>ae_ID := i, ae_Timestamp := t\<rparr>)" for i t
    using redacted_event_clean [of "en_parseURL en" e] by (simp add: event_clean_def)
  then show "logs en (auditEvents a) (auditEvents (snd (WriteAudit (en_parseURL en) uuid now c e a)))"
    by (auto simp: logs_def WriteAudit_def snd_with_ctx Let_def)
qed

lemma writeAudit_logs: "logs en xs (trail s) \<Longrightarrow> logs en xs (trail (writeAudit en rq inp n e s))"
  by (simp add: writeAudit_def Let_def on_accounts_snd WriteAudit_logs)

lemma add_roles_log: "foldl (add_role granted uuid now) (u, a) xs = (u', a') \<Longrightarrow> auditEvents a' = auditEvents a"
proof (induction xs arbitrary: u a)
  case (Cons x xs)
  obtain v b where step: "add_role granted uuid now (u, a) x = (v, b)" by fastforce
  then have "auditEvents b = auditEvents a" by (auto simp: add_role_def Let_def split: prod.splits)
  with Cons.IH [of v b] Cons.prems step show ?case by simp
qed simp

lemma admin_op_logs: "admin_op en a b \<Longrightarrow> logs en (auditEvents a) (auditEvents b)"
proof (induction rule: admin_op.induct)
  case (add_user a argon salt uuid now u password granted)
  have "auditEvents (snd (AddUser argon salt uuid now u password granted a)) = auditEvents a"
    by (auto simp: AddUser_def Let_def split: sum.splits prod.splits if_splits dest!: add_roles_log)
  then show ?case by simp
next
  case (write_audit a uuid' t c audit)
  show ?case by (simp add: WriteAudit_logs)
qed (auto simp: op_defs insert_user_def snd_with_ctx Let_def split: sum.splits option.splits if_splits)

text \<open>The store operations behind the handlers leave the log alone.\<close>

lemma store_log [simp]:
  "auditEvents (snd (CreateSession sha draw draw' c i idle absolute now a)) = auditEvents a"
  "auditEvents (snd (RecordLoginSuccess c i ip now a)) = auditEvents a"
  "auditEvents (snd (RecordLoginFailure c name threshold a)) = auditEvents a"
  "auditEvents (snd (CreateMFAChallenge sha draw c i ttl now a)) = auditEvents a"
  "auditEvents (snd (DeleteMFAChallenge sha c raw a)) = auditEvents a"
  "auditEvents (snd (DeleteSession sha c raw a)) = auditEvents a"
  "auditEvents (snd (DeleteUserSessions c i a)) = auditEvents a"
  "auditEvents (snd (RefreshSession sha c raw idle now a)) = auditEvents a"
  "auditEvents (snd (ChangePassword argon salt c i password a)) = auditEvents a"
  "auditEvents (snd (ConsumeRecoveryCode c i hash now a)) = auditEvents a"
  "auditEvents (snd (ConfirmTOTPEnrollment c i now a)) = auditEvents a"
  "auditEvents (snd (StartTOTPEnrollment c i secret hashes now a)) = auditEvents a"
  "auditEvents (snd (RegenerateRecoveryCodes c i hashes now a)) = auditEvents a"
  "auditEvents (snd (DisableMFA c i a)) = auditEvents a"
  by (auto simp: op_defs snd_with_ctx Let_def split: sum.splits option.splits if_splits)

lemma on_accounts_trail:
  assumes "on_accounts f s = (r, t)" and "\<And>a. auditEvents (snd (f a)) = auditEvents a"
  shows "trail t = trail s"
  using assms on_accounts_snd [of f s] by (metis snd_conv)

lemma completeLogin_logs: "logs en xs (trail s) \<Longrightarrow> logs en xs (trail (snd (completeLogin en rq inp n u settings s)))"
  unfolding completeLogin_def Let_def
  by (rule leadsD, intro handler_rules; drule on_accounts_trail; simp add: writeAudit_logs on_accounts_snd)

lemma verifyMFAConfigCode_trail:
  "verifyMFAConfigCode en inp n userID cfg code s = ((used, ok), t) \<Longrightarrow> trail t = trail s"
  by (auto simp: verifyMFAConfigCode_def Let_def split: if_splits sum.splits prod.splits dest!: on_accounts_trail)

lemma confirm_factor_logs:
  "confirm_factor en rq inp purpose denied u cfg code s = Inl (r, t) \<Longrightarrow> logs en (trail s) (trail t)"
  "confirm_factor en rq inp purpose denied u cfg code s = Inr t \<Longrightarrow> trail t = trail s"
  by (auto simp: confirm_factor_def Let_def writeAudit_logs split: prod.splits if_splits
      dest!: limiter_allow_accounts verifyMFAConfigCode_trail)

lemma mfaAvailable_logs: "mfaAvailable en rq inp n action s = Some t \<Longrightarrow> logs en (trail s) (trail t)"
  by (auto simp: mfaAvailable_def Let_def writeAudit_logs split: if_splits)

subsection \<open>The handlers\<close>

named_theorems trail_dests \<open>what a step of a handler did to the log\<close>

lemmas [trail_dests] = limiter_allow_accounts verifyMFAConfigCode_trail mfaAvailable_logs
lemmas [trail_dests] = on_accounts_trail [OF _ store_log(1)] on_accounts_trail [OF _ store_log(4)] on_accounts_trail [OF _ store_log(8)]
  on_accounts_trail [OF _ store_log(9)] on_accounts_trail [OF _ store_log(11)] on_accounts_trail [OF _ store_log(12)]
  on_accounts_trail [OF _ store_log(13)] on_accounts_trail [OF _ store_log(14)]

lemma login_logs: "logs en (trail s) (trail (snd (login en rq inp content s)))"
  unfolding login_def rejectPasskeyRequiredLogin_def Let_def
  by (rule leadsD, intro handler_rules;
      (auto simp: leads_def on_accounts_snd intro!: writeAudit_logs completeLogin_logs dest!: trail_dests))

lemma mfa_challenge_logs: "logs en (trail s) (trail (snd (mfaVerifyLoginChallenge en rq inp token code s)))"
  unfolding mfaVerifyLoginChallenge_def Let_def
  by (rule leadsD, intro handler_rules;
      (auto simp: leads_def on_accounts_snd intro!: writeAudit_logs completeLogin_logs dest!: trail_dests))

lemma mfaVerifyEnrollment_logs: "logs en (trail s) (trail (snd (mfaVerifyEnrollment en rq inp current code s)))"
  unfolding mfaVerifyEnrollment_def Let_def
  by (rule leadsD, intro handler_rules; (auto simp: on_accounts_snd intro!: writeAudit_logs dest!: trail_dests))

lemma mfaVerify_logs: "logs en (trail s) (trail (snd (mfaVerify en content rq inp s)))"
  unfolding mfaVerify_def
  by (rule leadsD, intro handler_rules) (auto simp: leads_def mfa_challenge_logs mfaVerifyEnrollment_logs)

lemma session_handlers_log:
  "logs en (trail s) (trail (snd (logout en rq inp s)))"
  "logs en (trail s) (trail (snd (refreshSession en rq inp s)))"
  "logs en (trail s) (trail (snd (changePassword en content rq inp s)))"
  unfolding logout_def refreshSession_def changePassword_def Let_def
  by (rule leadsD, intro handler_rules; (auto simp: on_accounts_snd intro!: writeAudit_logs dest!: trail_dests split: option.splits))+

lemma mfaDisable_logs: "logs en (trail s) (trail (snd (mfaDisable en content rq inp s)))"
  unfolding mfaDisable_def Let_def
  by (rule leadsD, intro handler_rules; (auto simp: leads_def intro!: writeAudit_logs dest!: confirm_factor_logs trail_dests))

lemma mfaRegenerate_logs: "logs en (trail s) (trail (snd (mfaRegenerateRecoveryCodes en content rq inp s)))"
  unfolding mfaRegenerateRecoveryCodes_def Let_def
  by (rule leadsD, intro handler_rules; (auto simp: leads_def intro!: writeAudit_logs dest!: confirm_factor_logs trail_dests))

lemma mfaEnroll_logs: "logs en (trail s) (trail (snd (mfaEnroll en content rq inp s)))"
proof -
  have enabled: "trail t = trail s"
    if "(if mc_Enabled cfg then map_sum id (limiter_clear key) (confirm_factor en rq inp purpose denied u cfg code s) else Inr s) = Inr t"
    for cfg key purpose denied u code t
    using that confirm_factor_logs(2) by (cases "confirm_factor en rq inp purpose denied u cfg code s") (auto split: if_splits)
  have refused: "logs en (trail s) (trail (snd t))"
    if "(if mc_Enabled cfg then map_sum id (limiter_clear key) (confirm_factor en rq inp purpose denied u cfg code s) else Inr s) = Inl t"
    for cfg key purpose denied u code t
    using that confirm_factor_logs(1) [of en rq inp purpose denied u cfg code s "fst t" "snd t"]
    by (cases "confirm_factor en rq inp purpose denied u cfg code s") (auto split: if_splits)
  show ?thesis
    unfolding mfaEnroll_def Let_def
    by (rule leadsD, intro handler_rules; (auto simp: leads_def intro!: writeAudit_logs dest!: enabled refused trail_dests))
qed

lemma guarded_logs: "(\<And>rq'. logs en xs (trail (snd (handle rq' inp s)))) \<Longrightarrow> logs en xs (trail s) \<Longrightarrow>
    logs en xs (trail (snd (guarded en permitted handle rq inp s)))"
  unfolding guarded_def by (rule leadsD, intro handler_rules) (simp_all add: leads_def)

lemma served_logs: "served en call s t \<Longrightarrow> logs en (trail s) (trail t)"
proof (induction rule: served.induct)
  case (handled call s)
  show ?case
    by (cases call) (simp_all add: login_logs mfaVerify_logs requirePermission_def guarded_logs session_handlers_log
        mfaEnroll_logs mfaDisable_logs mfaRegenerate_logs)
next
  case (administered s a)
  then show ?case using admin_op_logs by simp
qed

lemma run_logs: "run en h s t \<Longrightarrow> logs en (trail s) (trail t)"
  by (induction rule: run.induct) (auto intro: logs_trans served_logs)

subsection \<open>The log\<close>


subsection \<open>A sample\<close>

definition sample_env :: environment where
  "sample_env = \<lparr>en_sha256hex = Cons (CHR ''#''), en_argon = (\<lambda>password salt n. take n password),
     en_totp = \<lparr>decodeBase32 = Some, hmac = (\<lambda>key message. replicate 20 (CHR ''a''))\<rparr>, en_encodeBase32 = id,
     en_parseURL = (\<lambda>_. None), en_auth = True, en_mfa = True, en_passkeys = False, en_audit = False\<rparr>"

definition sample_event :: audit_event where
  "sample_event = event ''auth.login'' ''user'' [] ''failure'' [(''password'', AStr ''hunter2''), (''attempt'', ANum 2)] None"

definition sample_logged :: server where
  "sample_logged = NewServer\<lparr>sr_accounts := snd (WriteAudit (\<lambda>_. None) ''e1'' 7 None sample_event NewAccountStore)\<rparr>"

lemma sample_logged_run: "run sample_env [(NewServer, Administration)] NewServer sample_logged"
proof -
  have "sample_logged = NewServer\<lparr>sr_accounts :=
      snd (WriteAudit (en_parseURL sample_env) ''e1'' 7 None sample_event (sr_accounts NewServer))\<rparr>"
    by (simp add: sample_logged_def sample_env_def NewServer_def)
  then have "served sample_env Administration NewServer sample_logged"
    using served.administered [OF admin_op.write_audit] by metis
  then show ?thesis using run.serving [OF run.idle] by fastforce
qed


end
