(* ===== verification/Login_Properties.thy ===== *)
theory Login_Properties
  imports Audit_Trail
begin

text \<open>
  What signing in guarantees: sessions are earned by credentials, ended sessions stay dead, guessing is
  bounded.
\<close>

subsection \<open>Sessions are earned\<close>

definition signed_on :: "environment \<Rightarrow> (server \<times> call) list \<Rightarrow> string \<Rightarrow> string \<Rightarrow> bool" where
  "signed_on en h k userID \<longleftrightarrow>
     (\<exists>h1 s0 call h2. h = h1 @ (s0, call) # h2 \<and> drawn en call = Some k \<and>
       ((\<exists>rq inp content. call = Login rq inp (Some content) \<and> password_shown en s0 content userID \<and>
           no_factor_needed en s0 inp userID) \<or>
        (\<exists>rq inp content. call = MFAVerify rq inp (Some content) \<and> code_shown en s0 inp content userID \<and>
           (\<exists>s1 rq' inp' content'. (s1, Login rq' inp' (Some content')) \<in> set h1 \<and> password_shown en s1 content' userID))))"

definition login_ok :: "environment \<Rightarrow> (server \<times> call) list \<Rightarrow> server \<Rightarrow> bool" where
  "login_ok en h s \<longleftrightarrow> accounts_wf (sr_accounts s) \<and>
     (\<forall>k c. mget (mfaChallenges (sr_accounts s)) k = Some c \<longrightarrow> (\<exists>(s0, call) \<in> set h. challenged en s0 call c)) \<and>
     (\<forall>k x. mget (sessions (sr_accounts s)) k = Some x \<longrightarrow> signed_on en h k (sn_UserID x))"

lemma challengedE:
  assumes "challenged en s call c"
  obtains rq inp content where "call = Login rq inp (Some content)" "password_shown en s content (mh_UserID c)"
  using assms by (cases "(en, s, call, c)" rule: challenged.cases) auto

lemma login_okD:
  "login_ok en h s \<Longrightarrow> mget (mfaChallenges (sr_accounts s)) k = Some c \<Longrightarrow> \<exists>s0 call. (s0, call) \<in> set h \<and> challenged en s0 call c"
  unfolding login_ok_def by blast

lemma earned_signed_on:
  assumes "login_ok en h s" and "earned en s call k x"
  shows "signed_on en (h @ [(s, call)]) k (sn_UserID x)"
  using assms(2)
proof (cases "(en, s, call, k, x)" rule: earned.cases)
  case (1 en' s' rq inp content k' x')
  then have "call = Login rq inp (Some content)" and "password_shown en s content (sn_UserID x)"
    and "no_factor_needed en s inp (sn_UserID x)" using assms(2) by (simp_all add: signed_in_def)
  then show ?thesis unfolding signed_on_def using earned_drawn [OF assms(2)] by blast
next
  case (2 en' s' rq inp content k' x')
  then have code: "code_shown en s inp content (sn_UserID x)" using assms(2) by (simp add: verified_def)
  then obtain key c where "mget (mfaChallenges (sr_accounts s)) key = Some c" and c: "mh_UserID c = sn_UserID x"
    by (auto simp: code_shown_def)
  then obtain s1 call1 where mem: "(s1, call1) \<in> set h" and "challenged en s1 call1 c"
    using login_okD [OF assms(1)] by blast
  then obtain rq' inp' content' where call1: "call1 = Login rq' inp' (Some content')" "password_shown en s1 content' (sn_UserID x)"
    using c by (metis challengedE)
  have call: "call = MFAVerify rq inp (Some content)" using 2 by simp
  show ?thesis unfolding signed_on_def
  proof (rule exI [where x = h], rule exI [where x = s], rule exI [where x = call], rule exI [where x = "[]"], intro conjI disjI2)
    show "\<exists>rq inp content. call = MFAVerify rq inp (Some content) \<and> code_shown en s inp content (sn_UserID x) \<and>
      (\<exists>s1 rq' inp' content'. (s1, Login rq' inp' (Some content')) \<in> set h \<and> password_shown en s1 content' (sn_UserID x))"
      using code mem call call1 by blast
  qed (simp_all add: earned_drawn [OF assms(2)])
qed simp_all

lemma signed_on_mono: "signed_on en h k userID \<Longrightarrow> signed_on en (h @ h') k userID"
  unfolding signed_on_def by (metis append.assoc append_Cons)

lemma served_login_ok:
  assumes "login_ok en h s" and "served en call s t"
  shows "login_ok en (h @ [(s, call)]) t"
proof -
  have wf: "accounts_wf (sr_accounts s)" using assms(1) by (simp add: login_ok_def)
  then have grants: "accounts_wf (sr_accounts t)"
    "\<And>k x. mget (sessions (sr_accounts t)) k = Some x \<Longrightarrow>
       earned en s call k x \<or> (\<exists>y. mget (sessions (sr_accounts s)) k = Some y \<and> same_grant y x)"
    "\<And>k c. mget (mfaChallenges (sr_accounts t)) k = Some c \<Longrightarrow>
       challenged en s call c \<or> mget (mfaChallenges (sr_accounts s)) k = Some c"
    using served_grants [OF assms(2)] by (auto simp: grants_def)
  have "signed_on en (h @ [(s, call)]) k (sn_UserID x)" if "mget (sessions (sr_accounts t)) k = Some x" for k x
    using grants(2) [OF that] earned_signed_on [OF assms(1)] assms(1) signed_on_mono same_grantD(1)
    by (metis login_ok_def)
  moreover have "\<exists>(s0, call') \<in> set (h @ [(s, call)]). challenged en s0 call' c"
    if "mget (mfaChallenges (sr_accounts t)) k = Some c" for k c
    using grants(3) [OF that] assms(1) by (auto simp: login_ok_def)
  ultimately show ?thesis using grants(1) by (simp add: login_ok_def)
qed

lemma accounts_wf_new [simp]: "accounts_wf (sr_accounts NewServer)"
  by (simp add: accounts_wf_def NewServer_def NewAccountStore_def)

lemma history_login_ok: "run en h s0 s \<Longrightarrow> s0 = NewServer \<Longrightarrow> login_ok en h s"
proof (induction rule: run.induct)
  case (idle s)
  then show ?case by (simp add: login_ok_def) (simp add: NewServer_def NewAccountStore_def)
next
  case (serving h s t call t')
  then show ?case using served_login_ok by blast
qed

text \<open>
  C36. Sessions are earned. Whatever of the modelled requests were served, in whatever order and however
  each was cut short (sign-in through an external provider and by passkey is not modelled), every session in the store was opened by a login in which the password of that user, who was
  neither disabled nor locked, was given and no second factor was configured or required for the user;
  or by an answer to an unexpired challenge with a code the user's second factor accepts, after an
  earlier login in which the password was given.
\<close>

theorem sessions_are_earned:
  assumes "history en h s" and "mget (sessions (sr_accounts s)) k = Some x"
  shows "\<exists>h1 s0 call h2. h = h1 @ (s0, call) # h2 \<and> drawn en call = Some k \<and>
    ((\<exists>rq inp content. call = Login rq inp (Some content) \<and> password_shown en s0 content (sn_UserID x) \<and>
        no_factor_needed en s0 inp (sn_UserID x)) \<or>
     (\<exists>rq inp content. call = MFAVerify rq inp (Some content) \<and> code_shown en s0 inp content (sn_UserID x) \<and>
        (\<exists>s1 rq' inp' content'. (s1, Login rq' inp' (Some content')) \<in> set h1 \<and> password_shown en s1 content' (sn_UserID x))))"
  using history_login_ok [OF assms(1) refl] assms(2) by (simp add: login_ok_def signed_on_def)

subsection \<open>Ended sessions stay dead\<close>

lemma run_sessions:
  assumes "run en h s t" and "accounts_wf (sr_accounts s)" and "\<forall>(s0, call) \<in> set h. drawn en call \<noteq> Some k"
  shows "accounts_wf (sr_accounts t) \<and>
    (\<forall>x. mget (sessions (sr_accounts t)) k = Some x \<longrightarrow> (\<exists>y. mget (sessions (sr_accounts s)) k = Some y \<and> same_grant y x))"
  using assms
proof (induction rule: run.induct)
  case (idle s)
  then show ?case using same_grant_refl by blast
next
  case (serving h s t call t')
  then have ih: "accounts_wf (sr_accounts t)"
    "\<And>x. mget (sessions (sr_accounts t)) k = Some x \<Longrightarrow> \<exists>y. mget (sessions (sr_accounts s)) k = Some y \<and> same_grant y x"
    by auto
  have "\<not> earned en t call k x" for x using earned_drawn serving.prems(2) by fastforce
  with served_grants [OF serving.hyps(2)] ih(1) have "accounts_wf (sr_accounts t')"
    "\<And>x. mget (sessions (sr_accounts t')) k = Some x \<Longrightarrow> \<exists>y. mget (sessions (sr_accounts t)) k = Some y \<and> same_grant y x"
    unfolding grants_def by blast+
  with ih(2) show ?case by (meson same_grant_trans)
qed

lemma authenticated:
  assumes "authenticate en rq inp s = Some cu" and "rq_Cookie rq = Some raw"
  shows "\<exists>u. mget (sessions (sr_accounts s)) (en_sha256hex en raw) = Some (cu_Session cu) \<and>
    in_now inp 100 \<le> sn_IdleExpiresAt (cu_Session cu) \<and> in_now inp 101 \<le> sn_AbsoluteExpiresAt (cu_Session cu) \<and>
    mget (users (sr_accounts s)) (sn_UserID (cu_Session cu)) = Some u \<and> cu_User cu = u \<and> \<not> blocked u"
  using assms
  by (cases "in_ctx inp 100"; cases "in_ctx inp 101"; cases "in_ctx inp 102")
    (auto simp: authenticate_def GetSession_def GetUser_def GetUserPermissions_def split: if_splits option.splits)

lemma logout_ends:
  assumes "rs_Status (fst (serve en (Logout rq inp) s)) = 200" and "rq_Cookie rq = Some raw" and "in_ctx inp 0 = None"
  shows "mget (sessions (sr_accounts (snd (serve en (Logout rq inp) s)))) (en_sha256hex en raw) = None"
  using assms
  by (auto simp: requirePermission_def guarded_def logout_def Let_def on_accounts_snd DeleteSession_def split: option.splits if_splits)

lemma password_change_ends:
  assumes "rs_Body (fst (serve en (PasswordChange rq inp content) s)) = Status ''password_changed''" and "in_ctx inp 1 = None"
    and "accounts_wf (sr_accounts s)" and "authenticate en rq inp s = Some cu"
  shows "mget (sessions (sr_accounts (snd (serve en (PasswordChange rq inp content) s)))) k = Some x \<Longrightarrow>
    sn_UserID x \<noteq> us_ID (cu_User cu)"
proof -
  have gone: "sn_UserID y \<noteq> i" if "squiet s s1" and "mget (sessions (snd (DeleteUserSessions None i (sr_accounts s1)))) k = Some y" for s1 i k y
  proof -
    have "accounts_wf (sr_accounts s1)" using that(1) assms(3) unfolding grants_def by blast
    then show ?thesis using that(2) by (auto simp: DeleteUserSessions_def accounts_wf_def split: option.splits if_splits)
  qed
  have "leads (\<lambda>out. rs_Body (fst out) = Status ''password_changed'' \<longrightarrow>
      (\<forall>k x. mget (sessions (sr_accounts (snd out))) k = Some x \<longrightarrow> sn_UserID x \<noteq> us_ID (cu_User (rq_Current rq'))))
    (changePassword en content rq' inp s)" for rq'
    unfolding changePassword_def Let_def
    by (intro handler_rules)
      (auto simp: passwordMeetsConfiguredPolicy_def on_accounts_snd assms(2) [unfolded One_nat_def]
        split: sum.splits option.splits dest: on_accounts_quiet [OF _ change_password_quiet] gone)
  from this [of "rq\<lparr>rq_Current := cu\<rparr>"] show "mget (sessions (sr_accounts (snd (serve en (PasswordChange rq inp content) s)))) k = Some x \<Longrightarrow>
    sn_UserID x \<noteq> us_ID (cu_User cu)"
    using assms(1,4) by (auto simp: requirePermission_def guarded_def leads_def split: if_splits)
qed

lemma deletion_ends:
  "accounts_wf a \<Longrightarrow> DeleteUser c i a = (Inr (), b) \<Longrightarrow> mget (sessions b) k = Some x \<Longrightarrow> sn_UserID x \<noteq> i"
  by (cases c) (auto simp: DeleteUser_def accounts_wf_def split: option.splits if_splits)

text \<open>
  C37. Ended sessions stay dead. As long as no later login happens to draw the same token again, a token
  is only accepted while the session it stood for at the start of the run is still there: for the same
  user, with the same anti-forgery token, and never after that session's absolute expiry, however often
  it is refreshed. So once a session is gone, every request with its token is refused; and signing out,
  changing the password and deleting the user do remove the session, all sessions of the user, and all
  sessions of the deleted user.
\<close>

theorem ended_session_is_dead:
  assumes "history en h0 s" and "run en h s t" and "\<forall>(s0, call) \<in> set h. drawn en call \<noteq> Some (en_sha256hex en raw)"
  shows "(\<forall>rq inp cu. rq_Cookie rq = Some raw \<longrightarrow> authenticate en rq inp t = Some cu \<longrightarrow>
       (\<exists>y. mget (sessions (sr_accounts s)) (en_sha256hex en raw) = Some y \<and> us_ID (cu_User cu) = sn_UserID y \<and>
         sn_CSRFTokenHash (cu_Session cu) = sn_CSRFTokenHash y \<and> in_now inp 101 \<le> sn_AbsoluteExpiresAt y)) \<and>
    (\<forall>rq inp. rq_Cookie rq = Some raw \<longrightarrow> in_ctx inp 0 = None \<longrightarrow> rs_Status (fst (serve en (Logout rq inp) s)) = 200 \<longrightarrow>
       mget (sessions (sr_accounts (snd (serve en (Logout rq inp) s)))) (en_sha256hex en raw) = None) \<and>
    (\<forall>rq inp content cu k x. authenticate en rq inp s = Some cu \<longrightarrow> in_ctx inp 1 = None \<longrightarrow>
       rs_Body (fst (serve en (PasswordChange rq inp content) s)) = Status ''password_changed'' \<longrightarrow>
       mget (sessions (sr_accounts (snd (serve en (PasswordChange rq inp content) s)))) k = Some x \<longrightarrow>
       sn_UserID x \<noteq> us_ID (cu_User cu)) \<and>
    (\<forall>c i b k x. DeleteUser c i (sr_accounts s) = (Inr (), b) \<longrightarrow> mget (sessions b) k = Some x \<longrightarrow> sn_UserID x \<noteq> i)"
proof -
  have wf: "accounts_wf (sr_accounts s)" using history_login_ok [OF assms(1) refl] by (simp add: login_ok_def)
  then have t: "accounts_wf (sr_accounts t)"
    "\<And>x. mget (sessions (sr_accounts t)) (en_sha256hex en raw) = Some x \<Longrightarrow>
       \<exists>y. mget (sessions (sr_accounts s)) (en_sha256hex en raw) = Some y \<and> same_grant y x"
    using run_sessions [OF assms(2) _ assms(3)] by blast+
  have "\<exists>y. mget (sessions (sr_accounts s)) (en_sha256hex en raw) = Some y \<and> us_ID (cu_User cu) = sn_UserID y \<and>
         sn_CSRFTokenHash (cu_Session cu) = sn_CSRFTokenHash y \<and> in_now inp 101 \<le> sn_AbsoluteExpiresAt y"
    if cookie: "rq_Cookie rq = Some raw" and auth: "authenticate en rq inp t = Some cu" for rq inp cu
  proof -
    obtain u where u: "mget (sessions (sr_accounts t)) (en_sha256hex en raw) = Some (cu_Session cu)"
      "in_now inp 101 \<le> sn_AbsoluteExpiresAt (cu_Session cu)" "mget (users (sr_accounts t)) (sn_UserID (cu_Session cu)) = Some u"
      "cu_User cu = u" using authenticated [OF auth cookie] by blast
    obtain y where "mget (sessions (sr_accounts s)) (en_sha256hex en raw) = Some y" "same_grant y (cu_Session cu)"
      using t(2) [OF u(1)] by blast
    then show ?thesis using u wf_users [OF t(1) u(3)] by (auto simp: same_grantD)
  qed
  then show ?thesis using logout_ends password_change_ends [OF _ _ wf] deletion_ends [OF wf] by blast
qed

subsection \<open>Guessing is bounded\<close>

definition failure_count :: "string \<Rightarrow> server \<Rightarrow> int" where
  "failure_count key s = (case mget (sr_failures s) key of None \<Rightarrow> 0 | Some e \<Rightarrow> lf_count e)"

definition within_window :: "time \<Rightarrow> string \<Rightarrow> server \<Rightarrow> bool" where
  "within_window start key s \<longleftrightarrow> (\<forall>e. mget (sr_failures s) key = Some e \<longrightarrow> start \<le> lf_windowStart e)"

definition account_status :: "string \<Rightarrow> server \<Rightarrow> string option" where
  "account_status name s =
     Option.bind (mget (byUsername (sr_accounts s)) name) (\<lambda>i. map_option us_Status (mget (users (sr_accounts s)) i))"

lemma limiter_allow_fresh:
  assumes "within_window start key s" and "now < start + defaultLoginFailureWindow"
  shows "limiter_allow key n now s = (failure_count key s < failure_limit n, s)"
proof (cases "mget (sr_failures s) key")
  case None
  then show ?thesis by (simp add: limiter_allow_def failure_count_def failure_limit_def)
next
  case (Some e)
  with assms have "\<not> now - lf_windowStart e \<ge> defaultLoginFailureWindow" by (auto simp: within_window_def)
  with Some show ?thesis by (simp add: limiter_allow_def failure_count_def)
qed

lemma limiter_record_fresh:
  assumes "within_window start key s" and "start \<le> now" and "now < start + defaultLoginFailureWindow"
  shows "failure_count key (limiter_record key now s) = failure_count key s + 1" and "within_window start key (limiter_record key now s)"
proof -
  have "\<not> now - lf_windowStart e \<ge> defaultLoginFailureWindow" if "mget (sr_failures s) key = Some e" for e
    using assms that by (auto simp: within_window_def)
  then show "failure_count key (limiter_record key now s) = failure_count key s + 1" and "within_window start key (limiter_record key now s)"
    using assms by (auto simp: limiter_record_def failure_count_def within_window_def Let_def split: option.splits)
qed

lemma failure_recorded:
  assumes "account_status name s \<in> {Some ''active'', Some ''locked''}" and "1 \<le> n"
  shows "account_status name (ignoring (on_accounts (RecordLoginFailure None name n) s)) \<in> {Some ''active'', Some ''locked''} \<and>
    failures (sr_accounts (ignoring (on_accounts (RecordLoginFailure None name n) s))) name = failures (sr_accounts s) name + 1 \<and>
    (n \<le> failures (sr_accounts s) name + 1 \<longrightarrow>
      account_status name (ignoring (on_accounts (RecordLoginFailure None name n) s)) = Some ''locked'') \<and>
    (account_status name s = Some ''locked'' \<longrightarrow>
      account_status name (ignoring (on_accounts (RecordLoginFailure None name n) s)) = Some ''locked'')"
proof -
  obtain i u where u: "mget (byUsername (sr_accounts s)) name = Some i" "mget (users (sr_accounts s)) i = Some u"
    "us_Status u = ''active'' \<or> us_Status u = ''locked''"
    using assms(1) by (auto simp: account_status_def bind_eq_Some_conv)
  then show ?thesis using assms(2)
    by (auto simp: on_accounts_def account_status_def RecordLoginFailure_def Let_def user_or_zero_def failures_def)
qed

text \<open>One attempt: what a refusal and what any other answer but a success leave behind.\<close>

definition attempt_effect :: "int \<Rightarrow> string \<Rightarrow> time \<Rightarrow> time \<Rightarrow> string \<Rightarrow> server \<Rightarrow> response \<times> server \<Rightarrow> bool" where
  "attempt_effect n key now now' name s out \<longleftrightarrow> rs_Status (fst out) = 200 \<or>
     (let s1 = snd (limiter_allow key n now s); t = snd out in
      if rs_Status (fst out) = 401
      then fst (limiter_allow key n now s) \<and> sr_failures t = sr_failures (limiter_record key now' s1) \<and>
        users (sr_accounts t) = users (sr_accounts (ignoring (on_accounts (RecordLoginFailure None name n) s))) \<and>
        byUsername (sr_accounts t) = byUsername (sr_accounts (ignoring (on_accounts (RecordLoginFailure None name n) s))) \<and>
        failedLogins (sr_accounts t) = failedLogins (sr_accounts (ignoring (on_accounts (RecordLoginFailure None name n) s)))
      else (sr_failures t = sr_failures s1 \<or> sr_failures t = sr_failures s) \<and> users (sr_accounts t) = users (sr_accounts s) \<and>
        byUsername (sr_accounts t) = byUsername (sr_accounts s) \<and> failedLogins (sr_accounts t) = failedLogins (sr_accounts s))"

lemma completeLogin_attempt:
  assumes "sr_failures s1 = sr_failures (snd (limiter_allow key n now s))" and "sr_accounts s1 = sr_accounts s"
  shows "attempt_effect n key now now' name s (completeLogin en rq inp m u settings s1)"
  using assms
  by (auto simp: attempt_effect_def completeLogin_def Let_def on_accounts_def CreateSession_def with_ctx_def split: sum.splits prod.splits option.splits)

lemma challenge_created:
  "on_accounts (CreateMFAChallenge sha draw c userID ttl now) s = (r, t) \<Longrightarrow>
   sr_failures t = sr_failures s \<and> users (sr_accounts t) = users (sr_accounts s) \<and>
   byUsername (sr_accounts t) = byUsername (sr_accounts s) \<and> failedLogins (sr_accounts t) = failedLogins (sr_accounts s)"
  by (auto simp: on_accounts_def CreateMFAChallenge_def with_ctx_def Let_def split: sum.splits option.splits prod.splits if_splits)

lemma login_attempt:
  assumes "snd (in_turnstile inp) = []" and "in_settings inp 0 = Inr settings" and "ss_LoginLockoutThreshold settings = n"
    and "trimSpace (lb_Username content) = name" and "in_ctx inp 3 = None"
  shows "attempt_effect n (loginFailureKey name (rq_IP rq)) (in_now inp 2) (in_now inp 3) name s (login en rq inp (Some content) s)"
proof -
  have "leads (attempt_effect n (loginFailureKey name (rq_IP rq)) (in_now inp 2) (in_now inp 3) name s)
      (login en rq inp (Some content) s)"
    unfolding login_def rejectPasskeyRequiredLogin_def Let_def option.case assms sum.case
    apply (intro handler_rules; (frule limiter_allow_accounts)?; (simp add: attempt_effect_def on_accounts_snd ; fail)?)
    apply (hypsubst, simp add: leads_def completeLogin_attempt; fail)
    apply (hypsubst, drule challenge_created, simp add: attempt_effect_def; fail)+
    done
  then show ?thesis by (simp add: leads_def)
qed

text \<open>Attempts one after another, with their answers.\<close>

type_synonym attempt = "request \<times> inputs \<times> login_body"

fun try_logins :: "environment \<Rightarrow> attempt list \<Rightarrow> server \<Rightarrow> int list \<times> server" where
  "try_logins en [] s = ([], s)"
| "try_logins en ((rq, inp, content) # rest) s =
     (case login en rq inp (Some content) s of (r, t) \<Rightarrow> map_prod (Cons (rs_Status r)) id (try_logins en rest t))"

abbreviation refusals :: "int list \<Rightarrow> int" where
  "refusals answers \<equiv> int (count_list answers 401)"

definition attempt_on :: "int \<Rightarrow> string \<Rightarrow> attempt \<Rightarrow> bool" where
  "attempt_on n name = (\<lambda>(rq, inp, content). snd (in_turnstile inp) = [] \<and> map_sum id ss_LoginLockoutThreshold (in_settings inp 0) = Inr n \<and>
     trimSpace (lb_Username content) = name \<and> in_ctx inp 3 = None)"

definition attempt_within :: "string \<Rightarrow> time \<Rightarrow> attempt \<Rightarrow> bool" where
  "attempt_within ip start = (\<lambda>(rq, inp, content). rq_IP rq = ip \<and> start \<le> in_now inp 2 \<and> start \<le> in_now inp 3 \<and>
     in_now inp 2 < start + defaultLoginFailureWindow \<and> in_now inp 3 < start + defaultLoginFailureWindow)"

lemma attempt_effects:
  assumes "attempt_on n name (rq, inp, content)"
  shows "attempt_effect n (loginFailureKey name (rq_IP rq)) (in_now inp 2) (in_now inp 3) name s (login en rq inp (Some content) s)"
proof -
  obtain settings where "in_settings inp 0 = Inr settings" "ss_LoginLockoutThreshold settings = n"
    using assms by (cases "in_settings inp 0") (auto simp: attempt_on_def)
  then show ?thesis using assms by (intro login_attempt) (auto simp: attempt_on_def)
qed

lemma try_logins_Cons:
  assumes "try_logins en ((rq, inp, content) # rest) s = (answers, u)"
  obtains r t more where "login en rq inp (Some content) s = (r, t)" "try_logins en rest t = (more, u)" "answers = rs_Status r # more"
  using assms by (cases "try_logins en rest (snd (login en rq inp (Some content) s))") (auto split: prod.splits)

lemma refusals_within_window:
  assumes "try_logins en attempts s = (answers, t)" and "200 \<notin> set answers"
    and "\<forall>a \<in> set attempts. attempt_on n name a \<and> attempt_within ip start a" and "within_window start (loginFailureKey name ip) s"
  shows "refusals answers \<le> max 0 (failure_limit n - failure_count (loginFailureKey name ip) s)"
  using assms
proof (induction attempts arbitrary: s answers)
  case (Cons a attempts)
  obtain rq inp content where a: "a = (rq, inp, content)" by (cases a)
  let ?key = "loginFailureKey name ip"
  obtain r s' more where step: "login en rq inp (Some content) s = (r, s')" "try_logins en attempts s' = (more, t)" "answers = rs_Status r # more"
    using Cons.prems(1) a try_logins_Cons by blast
  have on: "attempt_on n name (rq, inp, content)" "attempt_within ip start (rq, inp, content)" using Cons.prems(3) a by auto
  then have times: "rq_IP rq = ip" "start \<le> in_now inp 3" "in_now inp 2 < start + defaultLoginFailureWindow" "in_now inp 3 < start + defaultLoginFailureWindow"
    by (auto simp: attempt_within_def)
  have effect: "attempt_effect n ?key (in_now inp 2) (in_now inp 3) name s (r, s')"
    using attempt_effects [OF on(1), of s en] by (simp add: step(1) times(1))
  have allow: "limiter_allow ?key n (in_now inp 2) s = (failure_count ?key s < failure_limit n, s)"
    by (rule limiter_allow_fresh [OF Cons.prems(4) times(3)])
  have not200: "rs_Status r \<noteq> 200" "200 \<notin> set more" using Cons.prems(2) step(3) by auto
  have rest: "refusals more \<le> max 0 (failure_limit n - failure_count ?key s')" if "within_window start ?key s'"
    using Cons.IH [OF step(2) not200(2) _ that] Cons.prems(3) by simp
  show ?case
  proof (cases "rs_Status r = 401")
    case True
    then have new: "failure_count ?key s < failure_limit n" "sr_failures s' = sr_failures (limiter_record ?key (in_now inp 3) s)"
      using effect not200 by (simp_all add: attempt_effect_def allow)
    have "failure_count ?key s' = failure_count ?key s + 1" "within_window start ?key s'"
      using limiter_record_fresh [OF Cons.prems(4) times(2,4)] new(2) by (simp_all add: failure_count_def within_window_def)
    then show ?thesis using rest new(1) True by (simp add: step(3))
  next
    case False
    then have "sr_failures s' = sr_failures s" using effect not200 by (auto simp: attempt_effect_def allow)
    then show ?thesis using rest Cons.prems(4) False by (simp add: step(3) failure_count_def within_window_def)
  qed
qed simp

lemma refusals_lock:
  assumes "try_logins en attempts s = (answers, t)" and "200 \<notin> set answers" and "1 \<le> n"
    and "\<forall>a \<in> set attempts. attempt_on n name a" and "account_status name s \<in> {Some ''active'', Some ''locked''}"
  shows "(account_status name s = Some ''locked'' \<longrightarrow> account_status name t = Some ''locked'') \<and>
    (0 < refusals answers \<longrightarrow> n \<le> failures (sr_accounts s) name + refusals answers \<longrightarrow> account_status name t = Some ''locked'')"
  using assms(1,2,4,5)
proof (induction attempts arbitrary: s answers)
  case (Cons a attempts)
  obtain rq inp content where a: "a = (rq, inp, content)" by (cases a)
  obtain r s' more where step: "login en rq inp (Some content) s = (r, s')" "try_logins en attempts s' = (more, t)" "answers = rs_Status r # more"
    using Cons.prems(1) a try_logins_Cons by blast
  have effect: "attempt_effect n (loginFailureKey name (rq_IP rq)) (in_now inp 2) (in_now inp 3) name s (r, s')"
    using attempt_effects [of n name rq inp content s en] Cons.prems(3) a by (simp add: step(1))
  have not200: "rs_Status r \<noteq> 200" "200 \<notin> set more" using Cons.prems(2) step(3) by auto
  note rest = Cons.IH [OF step(2) not200(2)]
  let ?f = "ignoring (on_accounts (RecordLoginFailure None name n) s)"
  show ?case
  proof (cases "rs_Status r = 401")
    case True
    then have same: "account_status name s' = account_status name ?f" "failures (sr_accounts s') name = failures (sr_accounts ?f) name"
      using effect not200 by (simp_all add: attempt_effect_def account_status_def failures_def Let_def)
    show ?thesis using rest Cons.prems(3) failure_recorded [OF Cons.prems(4) assms(3)] same step(3) True by fastforce
  next
    case False
    then have same: "account_status name s' = account_status name s" "failures (sr_accounts s') name = failures (sr_accounts s) name"
      using effect not200 by (simp_all add: attempt_effect_def account_status_def failures_def Let_def)
    then show ?thesis using rest Cons.prems(3,4) step(3) False by simp
  qed
qed simp

lemma locked_refused:
  assumes "account_status name s = Some ''locked''" and "attempt_on n name (rq, inp, content)"
  shows "rs_Status (fst (login en rq inp (Some content) s)) \<notin> {200, 202}"
proof -
  have none: "(case fst (FindUserByUsername c name a) of Inl e \<Rightarrow> None
      | Inr u \<Rightarrow> if blocked u \<or> wrong u then None else Some u) = None" if "a = sr_accounts s" for c a wrong
    using assms(1) that by (cases c) (auto simp: account_status_def FindUserByUsername_def user_or_zero_def blocked_def bind_eq_Some_conv split: sum.splits option.splits)
  have "leads (\<lambda>out. rs_Status (fst out) \<notin> {200, 202}) (login en rq inp (Some content) s)"
    unfolding login_def Let_def option.case
    apply (intro handler_rules; (frule limiter_allow_accounts)?)
    using assms(2) by (auto simp: attempt_on_def none)
  then show ?thesis by (simp add: leads_def)
qed


subsection \<open>Samples\<close>

definition sample_settings :: security_settings where
  "sample_settings = \<lparr>ss_PasswordMinLength = 12, ss_PasswordHash = ''argon2id'', ss_LoginLockoutThreshold = 3,
     ss_SessionIdleTimeoutMin = 30, ss_SessionAbsoluteLifetimeH = 12, ss_RememberMeEnabled = False, ss_MFAMode = ''disabled'',
     ss_MFARequiredRoles = [], ss_MFASupportedMethods = [], ss_PasskeyStatus = [], ss_UpdatedAt = []\<rparr>"

definition sample_inputs :: "time \<Rightarrow> string \<Rightarrow> inputs" where
  "sample_inputs now raw = \<lparr>in_ctx = (\<lambda>_. None), in_now = (\<lambda>_. now), in_random = (\<lambda>_. Inr raw), in_uuid = (\<lambda>_. ''id''),
     in_settings = (\<lambda>_. Inr sample_settings), in_turnstile = (200, [])\<rparr>"

definition sample_request :: "string \<Rightarrow> string option \<Rightarrow> request" where
  "sample_request ip cookie = \<lparr>rq_Method = ''POST'', rq_Path = ''/auth/logout'', rq_IP = ip, rq_UserAgent = [], rq_Cookie = cookie,
     rq_CSRF = ''raw'', rq_Current = zero_current\<rparr>"

definition sample_password :: string where
  "sample_password = ''correct horse battery staple''"

definition sample_content :: "string \<Rightarrow> login_body" where
  "sample_content password = \<lparr>lb_Username = '' ada '', lb_Password = password, lb_TurnstileToken = []\<rparr>"

definition sample_user :: server where
  "sample_user = NewServer\<lparr>sr_accounts := snd (AddUser (\<lambda>password salt n. take n password) (Inr ''salt'') (\<lambda>_. ''u1'') (\<lambda>_. 0)
     (zero_user\<lparr>us_Username := ''ada''\<rparr>) sample_password [] (sr_accounts NewServer))\<rparr>"

definition sample_login :: call where
  "sample_login = Login (sample_request ''10.0.0.1'' None) (sample_inputs 1000 ''raw'') (Some (sample_content sample_password))"

definition sample_logout :: call where
  "sample_logout = Logout (sample_request ''10.0.0.1'' (Some ''raw'')) (sample_inputs 2000 ''raw'')"

definition sample_signed_in :: server where
  "sample_signed_in = snd (serve sample_env sample_login sample_user)"

definition sample_signed_out :: server where
  "sample_signed_out = snd (serve sample_env sample_logout sample_signed_in)"

lemma sample_history: "history sample_env [(NewServer, Administration), (sample_user, sample_login)] sample_signed_in"
proof -
  have "served sample_env Administration NewServer sample_user"
    unfolding sample_user_def by (rule served.administered, rule admin_op.add_user)
  then have "run sample_env ([] @ [(NewServer, Administration)]) NewServer sample_user" by (rule run.serving [OF run.idle])
  then have "run sample_env (([] @ [(NewServer, Administration)]) @ [(sample_user, sample_login)]) NewServer sample_signed_in"
    unfolding sample_signed_in_def by (rule run.serving) (rule served.handled)
  then show ?thesis by simp
qed

lemma sample_session:
  "map_option sn_UserID (mget (sessions (sr_accounts sample_signed_in)) ''#raw'') = Some ''u1''"
  by code_simp

theorem sessions_are_earned_witness:
  "\<exists>h1 s0 call h2. [(NewServer, Administration), (sample_user, sample_login)] = h1 @ (s0, call) # h2 \<and> drawn sample_env call = Some ''#raw''"
proof -
  obtain x where "mget (sessions (sr_accounts sample_signed_in)) ''#raw'' = Some x" using sample_session by auto
  from sessions_are_earned [OF sample_history this] show ?thesis by blast
qed

lemma sample_logout_answer:
  "rs_Status (fst (serve sample_env sample_logout sample_signed_in)) = 200"
  by code_simp

theorem ended_session_is_dead_witness:
  "mget (sessions (sr_accounts sample_signed_out)) ''#raw'' = None"
  using ended_session_is_dead [OF sample_history run.idle, of "''raw''"] sample_logout_answer
  unfolding sample_signed_out_def sample_logout_def
  by (simp add: sample_env_def sample_request_def sample_inputs_def)

definition sample_attempt :: "string \<Rightarrow> time \<Rightarrow> attempt" where
  "sample_attempt ip now = (sample_request ip None, sample_inputs now ''raw'', sample_content ''wrong'')"

definition sample_near :: "attempt list" where
  "sample_near = map (\<lambda>i. sample_attempt ''10.0.0.1'' (1000 + i)) [0, 1, 2, 3]"

definition sample_far :: "attempt list" where
  "sample_far = map (\<lambda>i. sample_attempt (''10.0.0.'' @ [i]) 1000) [CHR ''1'', CHR ''2'', CHR ''3'']"

lemma sample_attempts_on: "list_all (attempt_on 3 ''ada'') (sample_near @ sample_far)" "list_all (attempt_within ''10.0.0.1'' 1000) sample_near"
  by code_simp+

lemma sample_answers:
  "fst (try_logins sample_env sample_near sample_user) = [401, 401, 429, 429]"
  "fst (try_logins sample_env sample_far sample_user) = [401, 401, 401]"
  by code_simp+

lemma sample_start:
  "account_status ''ada'' sample_user = Some ''active''" "failures (sr_accounts sample_user) ''ada'' = 0"
  "mget (sr_failures sample_user) (loginFailureKey ''ada'' ''10.0.0.1'') = None"
  by code_simp+


text \<open>
  A challenge is meant to serve for one answer. Sent with a blank in front, the token finds the
  challenge, because the lookup trims it, but does not delete it, because the deletion does not: the
  same challenge can be answered again after a wrong code.
\<close>

definition sample_challenged :: server where
  "sample_challenged = sample_user\<lparr>sr_accounts := (sr_accounts sample_user)\<lparr>
     mfaConfigs := [(''u1'', zero_mfa\<lparr>mc_UserID := ''u1'', mc_Enabled := True, mc_TOTPSecret := ''secret''\<rparr>)],
     mfaChallenges := [(''#tok'', \<lparr>mh_Token = [], mh_TokenHash = ''#tok'', mh_UserID = ''u1'', mh_ExpiresAt = 5000\<rparr>)]\<rparr>\<rparr>"

definition sample_answer :: "string \<Rightarrow> response \<times> server" where
  "sample_answer token = mfaVerify sample_env (Some \<lparr>mb_ChallengeToken = token, mb_Code = ''x''\<rparr>)
     (sample_request ''10.0.0.1'' None) (sample_inputs 1000 ''raw'') sample_challenged"

lemma padded_challenge_survives:
  "rs_Body (fst (sample_answer '' tok'')) = Code ''invalid_mfa_code'' \<and>
   mget (mfaChallenges (sr_accounts (snd (sample_answer '' tok'')))) ''#tok'' \<noteq> None"
  "rs_Body (fst (sample_answer ''tok'')) = Code ''invalid_mfa_code'' \<and>
   mget (mfaChallenges (sr_accounts (snd (sample_answer ''tok'')))) ''#tok'' = None"
  by code_simp+

end
