(* ===== verification/Archive_Properties.thy ===== *)
theory Archive_Properties
  imports Guard_Invariant "HOL-Library.Multiset"
begin

text \<open>
  What the archive side of the stream store guarantees: the loop that loads the log history ends with
  the whole history, and the catalogue only ever names files inside the archive tree.
\<close>

subsection \<open>Loading the history page by page\<close>

lemma not_skipped: "before \<noteq> 0 \<Longrightarrow> (\<not> skipped before beforeID l) = (log_key l < (before, beforeID))"
  by (auto simp: skipped_def log_key_def less_prod_def not_le)

lemma filter_newest_first: "filter P (newest_first ls) = newest_first (filter P ls)"
  by (simp add: newest_first_def filter_sort flip: rev_filter)

lemma newest_first_mset [simp]: "mset (newest_first ls) = mset ls"
  by (simp add: newest_first_def)

lemma newest_first_length [simp]: "length (newest_first ls) = length ls"
  by (simp add: newest_first_def)

lemma newest_first_set [simp]: "set (newest_first ls) = set ls"
  by (simp add: newest_first_def)

lemma newest_first_Nil [simp]: "newest_first ls = [] \<longleftrightarrow> ls = []"
  using newest_first_length [of ls] by (metis length_0_conv)

lemma newest_first_strict:
  assumes "distinct (map log_key ls)"
  shows "sorted_wrt (\<lambda>a b. log_key b < log_key a) (newest_first ls)"
proof -
  have "mset (map log_key (sort_key log_key (rev ls))) = mset (map log_key ls)" by simp
  then have "distinct (map log_key (sort_key log_key (rev ls)))" using assms mset_eq_imp_distinct_iff by blast
  then have "sorted_wrt (<) (map log_key (sort_key log_key (rev ls)))" by (simp add: strict_sorted_iff)
  then show ?thesis by (simp add: newest_first_def sorted_wrt_rev sorted_wrt_map)
qed

lemma narrowed: "(\<And>x. P x \<Longrightarrow> Q x) \<Longrightarrow> filter P xs = filter P (filter Q xs)"
  by (induction xs) auto

text \<open>Below the last row of a full page lies exactly the rest.\<close>

lemma below_last:
  assumes "sorted_wrt (\<lambda>a b. log_key b < log_key a) ls" and "0 < k" and "k \<le> length ls"
  shows "filter (\<lambda>l. log_key l < log_key (last (take k ls))) ls = drop k ls"
proof -
  have last: "last (take k ls) \<in> set (take k ls)" using assms(2,3) by (intro last_in_set) auto
  have "sorted_wrt (\<lambda>a b. log_key b < log_key a) (take k ls @ drop k ls)" using assms(1) by simp
  then have apart: "\<forall>x \<in> set (take k ls). \<forall>y \<in> set (drop k ls). log_key y < log_key x" unfolding sorted_wrt_append by blast
  obtain front where front: "take k ls = front @ [last (take k ls)]"
    using assms(2,3) append_butlast_last_id [of "take k ls"] by (metis less_numeral_extra(3) list.size(3) take_eq_Nil le_zero_eq)
  have "\<not> log_key l < log_key (last (take k ls))" if "l \<in> set (take k ls)" for l
  proof -
    have "sorted_wrt (\<lambda>a b. log_key b < log_key a) (front @ [last (take k ls)])"
      using sorted_wrt_take [OF assms(1), of k] front by simp
    moreover have "l \<in> set front \<or> l = last (take k ls)" using that front by (metis Un_iff empty_iff insert_iff list.set set_append)
    ultimately show ?thesis by (auto simp: sorted_wrt_append)
  qed
  then have "filter (\<lambda>l. log_key l < log_key (last (take k ls))) (take k ls) = []" by (simp add: filter_empty_conv)
  moreover have "filter (\<lambda>l. log_key l < log_key (last (take k ls))) (drop k ls) = drop k ls"
    using apart last by (simp add: filter_id_conv)
  ultimately show ?thesis by (metis append_Nil append_take_drop_id filter_append)
qed

lemma limit_bounds: "1 \<le> boundedStreamLogLimit limit" "boundedStreamLogLimit limit \<le> 1000"
  by (auto simp: boundedStreamLogLimit_def)

text \<open>Rows appended while the history is read are newer than every row of the first request's store.\<close>

definition only_newer :: "stream_store \<Rightarrow> stream_store \<Rightarrow> bool" where
  "only_newer s t \<longleftrightarrow>
     (\<forall>l \<in> set (history_rows s). filter (\<lambda>x. log_key x \<le> log_key l) (history_rows t) = filter (\<lambda>x. log_key x \<le> log_key l) (history_rows s))"

lemma load_from:
  assumes "distinct (map log_key (history_rows (at 0)))" and "\<forall>l \<in> set (history_rows (at 0)). sl_CreatedAt l \<noteq> 0"
    and "\<forall>n. only_newer (at 0) (at n)" and "l \<in> set (history_rows (at 0))"
  shows "load_history at limit n (sl_CreatedAt l) (sl_ID l) =
    Some (newest_first (filter (\<lambda>x. log_key x < log_key l) (history_rows (at 0))))"
  using assms(4)
proof (induction "length (filter (\<lambda>x. log_key x < log_key l) (history_rows (at 0)))" arbitrary: n l rule: less_induct)
  case less
  let ?rows = "history_rows (at 0)" and ?k = "nat (boundedStreamLogLimit (limit n))"
  let ?below = "\<lambda>l. newest_first (filter (\<lambda>x. log_key x < log_key l) ?rows)"
  have same: "filter (\<lambda>x. log_key x \<le> log_key l) (history_rows (at n)) = filter (\<lambda>x. log_key x \<le> log_key l) ?rows"
    using assms(3) less.prems unfolding only_newer_def by blast
  have "filter (\<lambda>x. log_key x < log_key l) (history_rows (at n)) = filter (\<lambda>x. log_key x < log_key l) (filter (\<lambda>x. log_key x \<le> log_key l) (history_rows (at n)))"
    by (rule narrowed) simp
  also have "\<dots> = filter (\<lambda>x. log_key x < log_key l) (filter (\<lambda>x. log_key x \<le> log_key l) ?rows)"
    by (simp only: same)
  also have "\<dots> = filter (\<lambda>x. log_key x < log_key l) ?rows" by (rule narrowed [symmetric]) simp
  finally have page: "fst (ListStreamLogHistory None (limit n) (sl_CreatedAt l) (sl_ID l) (at n)) = Inr (take ?k (?below l))"
    using assms(2) less.prems by (simp add: ListStreamLogHistory_def not_skipped log_key_def [of l, symmetric])
  have k: "\<And>m. int m < boundedStreamLogLimit (limit n) \<longleftrightarrow> m < ?k" "0 < ?k" using limit_bounds(1) [of "limit n"] by auto
  show ?case
  proof (cases "length (?below l) < ?k")
    case True
    then show ?thesis by (subst load_history.simps) (simp add: page k(1))
  next
    case False
    let ?x = "last (take ?k (?below l))"
    have "?x \<in> set (take ?k (?below l))" using False k(2) by (intro last_in_set) auto
    then have "?x \<in> set (?below l)" by (rule in_set_takeD)
    then have x: "?x \<in> set ?rows" "log_key ?x < log_key l" by simp_all
    have strict: "sorted_wrt (\<lambda>a b. log_key b < log_key a) (?below l)"
      using assms(1) by (intro newest_first_strict) (simp add: distinct_map_filter)
    have "filter (\<lambda>y. log_key y < log_key ?x) ?rows = filter (\<lambda>y. log_key y < log_key ?x) (filter (\<lambda>y. log_key y < log_key l) ?rows)"
      using x(2) by (intro narrowed) simp
    then have "?below ?x = drop ?k (?below l)"
      using below_last [OF strict k(2)] False by (simp add: filter_newest_first)
    moreover from this have "length (filter (\<lambda>y. log_key y < log_key ?x) ?rows) < length (filter (\<lambda>y. log_key y < log_key l) ?rows)"
      using False k(2) newest_first_length [of "filter (\<lambda>y. log_key y < log_key ?x) ?rows"] by simp
    ultimately have "load_history at limit (Suc n) (sl_CreatedAt ?x) (sl_ID ?x) = Some (drop ?k (?below l))"
      using less.hyps [of ?x "Suc n"] x(1) by simp
    then show ?thesis using False by (subst load_history.simps) (simp add: page k(1))
  qed
qed


subsection \<open>The catalogue stays inside the archive tree\<close>

definition in_tree :: "string \<Rightarrow> stream_artifact \<Rightarrow> bool" where
  "in_tree k a \<longleftrightarrow> sa_StreamID a = k \<and> sa_RelativePath a = streamArtifactRelativePath k (sa_ArchiveRunID a) (sa_Name a) \<and>
     list_all plain_element (splitOn (CHR ''/'') (sa_RelativePath a)) \<and> suffix (sa_Name a) (sa_RelativePath a) \<and>
     isSafeRelativePath (sa_RelativePath a) \<and> validArchiveRunID (sa_ArchiveRunID a) \<and> 0 \<le> sa_SizeBytes a"

definition tree_ok :: "stream_store \<Rightarrow> bool" where
  "tree_ok s \<longleftrightarrow> (\<forall>k. list_all (in_tree k) (mlist (artifacts s) k))"

lemma in_treeI:
  assumes "sa_StreamID a = k" and path: "sa_RelativePath a = streamArtifactRelativePath k (sa_ArchiveRunID a) (sa_Name a)"
    and "plain_element (sa_Name a)" and safe: "isSafeRelativePath (sa_RelativePath a)"
    and "validArchiveRunID (sa_ArchiveRunID a)" and "0 \<le> sa_SizeBytes a"
  shows "in_tree k a"
proof -
  have suffix: "suffix (sa_Name a) (sa_RelativePath a)" unfolding path by (rule streamArtifactRelativePath_suffix [OF assms(3)])
  with assms(3) have "sa_RelativePath a \<noteq> ''..''" by (auto simp: suffix_Cons plain_element_def)
  with safe_path_elements [OF safe] suffix assms show ?thesis by (simp add: in_tree_def)
qed

lemma in_tree_safe: "in_tree k a \<Longrightarrow> isSafeRelativePath (sa_RelativePath a)"
  unfolding in_tree_def by blast

lemma in_tree_source [simp]: "in_tree k (a\<lparr>sa_SourceServiceID := source\<rparr>) = in_tree k a"
  by (simp add: in_tree_def)

lemma reported_in_tree:
  assumes "ValidateStreamArtifactReport i arts = Inr u" and "a \<in> set (NormalizeStreamArtifacts i arts)"
  shows "in_tree i a"
proof -
  have "validateArtifactLoop i [] None (NormalizeStreamArtifacts i arts) = Inr u"
    using assms(1) by (auto simp: ValidateStreamArtifactReport_def split: if_splits)
  from validateArtifactLoop_all [OF this assms(2)] have "isSafeRelativePath (sa_RelativePath a)" "validArchiveRunID (sa_ArchiveRunID a)"
    "0 \<le> sa_SizeBytes a" "plain_element (sa_Name a)" "sa_RelativePath a = streamArtifactRelativePath i (sa_ArchiveRunID a) (sa_Name a)"
    by (auto simp: artifactAllowedName_plain)
  moreover have "sa_StreamID a = i" using assms(2) by (auto simp: NormalizeStreamArtifacts_def)
  ultimately show ?thesis by (intro in_treeI)
qed

lemma refreshed_in_tree: "in_tree i a \<Longrightarrow> in_tree i e \<Longrightarrow> same_artifact a e \<Longrightarrow> in_tree i (refreshed_artifact a e)"
  by (auto simp: in_tree_def same_artifact_def refreshed_artifact_def Let_def)

lemma update_first_all:
  "update_first P f xs = Some ys \<Longrightarrow> list_all Q xs \<Longrightarrow> (\<And>x. P x \<Longrightarrow> Q x \<Longrightarrow> Q (f x)) \<Longrightarrow> list_all Q ys"
  by (induction xs arbitrary: ys) (auto split: if_splits)

lemma upsert_in_tree:
  assumes "list_all (in_tree i) current" and "in_tree i (snd entry)"
  shows "list_all (in_tree i) (upsert_artifact uuid now current entry)"
proof (cases "update_first (same_artifact (snd entry)) (refreshed_artifact (snd entry)) current")
  case None
  then show ?thesis using assms by (auto simp: upsert_artifact_def in_tree_def split: prod.splits)
next
  case (Some updated)
  then have "list_all (in_tree i) updated" using assms by (auto intro: update_first_all refreshed_in_tree)
  then show ?thesis using Some by (auto simp: upsert_artifact_def split: prod.splits)
qed

lemma upserts_in_tree:
  "list_all (in_tree i) current \<Longrightarrow> list_all (in_tree i \<circ> snd) entries \<Longrightarrow>
   list_all (in_tree i) (foldl (upsert_artifact uuid now) current entries)"
  by (induction entries arbitrary: current) (auto intro: upsert_in_tree)

lemma strip_keeps: "x \<in> set s \<Longrightarrow> x \<notin> \<Union> (set ` set runes) \<Longrightarrow> x \<in> set (strip runes s)"
proof (induction runes s rule: strip.induct)
  case (1 runes s)
  show ?case
  proof (cases "find (\<lambda>p. p \<noteq> [] \<and> prefix p s) runes")
    case None
    then show ?thesis using "1.prems" by (simp add: strip.simps)
  next
    case (Some p)
    then have p: "p \<in> set runes" "prefix p s" by (auto simp: find_Some_iff)
    then have "x \<in> set (drop (length p) s)" using "1.prems" by (auto simp: prefix_def)
    then have "x \<in> set (strip runes (drop (length p) s))" using "1.IH" [OF Some] "1.prems"(2) by blast
    then show ?thesis using Some by (subst strip.simps) simp
  qed
qed

lemma plain_file_name:
  assumes "ValidStreamArtifactFileName name"
  shows "plain_element name"
proof -
  have "CHR ''/'' \<notin> \<Union> (set ` set space_runes)" "CHR ''/'' \<notin> \<Union> (set ` set (map rev space_runes))" by code_simp+
  then have "CHR ''/'' \<in> set (trimSpace name)" if "CHR ''/'' \<in> set name"
    using that by (simp add: trimSpace_def strip_keeps del: set_map)
  then have "CHR ''/'' \<notin> set name"
    using assms by (auto simp: ValidStreamArtifactFileName_def containsAny_def Let_def list_ex_iff)
  moreover have "name \<noteq> []" "name \<noteq> ''.''" "name \<noteq> ''..''"
    using assms by (auto simp: ValidStreamArtifactFileName_def) (code_simp)+
  ultimately show ?thesis by (simp add: plain_element_def)
qed

lemma tree_okD: "tree_ok s \<Longrightarrow> list_all (in_tree k) (mlist (artifacts s) k)"
  by (simp add: tree_ok_def)

lemma tree_ok_put: "tree_ok s \<Longrightarrow> list_all (in_tree i) xs \<Longrightarrow> artifacts t = mput (artifacts s) i xs \<Longrightarrow> tree_ok t"
  by (simp add: tree_ok_def)

lemma tree_ok_same: "tree_ok s \<Longrightarrow> artifacts t = artifacts s \<Longrightarrow> tree_ok t"
  by (simp add: tree_ok_def)

lemma upsert_tree: 
  assumes "tree_ok s" 
  shows "tree_ok (snd (UpsertStreamArtifacts c i arts uuids nows s))"
proof -
  have "list_all (in_tree i \<circ> snd) (enumerate 0 (NormalizeStreamArtifacts i arts))" if "ValidateStreamArtifactReport i arts = Inr u" for u
    using reported_in_tree [OF that] by (auto simp: list_all_iff dest!: in_set_enumerate_eq [THEN iffD1])
  from upserts_in_tree [OF tree_okD [OF assms] this] show ?thesis
    using assms by (auto simp: UpsertStreamArtifacts_def put_stream_def snd_with_ctx tree_ok_def Let_def split: option.splits sum.splits)
qed

lemma rename_tree:
  assumes "tree_ok s" 
  shows "tree_ok (snd (RenameStreamArtifact c i j name s))"
proof -
  have renamed: "in_tree i (target\<lparr>sa_Name := name, sa_RelativePath := streamArtifactRelativePath i (sa_ArchiveRunID target) name\<rparr>)"
    if "ValidStreamArtifactFileName name" "find (\<lambda>a. sa_ID a = j) (mlist (artifacts s) i) = Some target"
      "isSafeRelativePath (streamArtifactRelativePath i (sa_ArchiveRunID target) name)" for target
  proof -
    have "in_tree i target" using tree_okD [OF assms, of i] that(2) by (auto simp: list_all_iff find_Some_iff)
    then show ?thesis using plain_file_name [OF that(1)] that(3) by (intro in_treeI) (auto simp: in_tree_def)
  qed
  have "unless_kept s (\<lambda>out. tree_ok (snd out)) (RenameStreamArtifact c i j name s)"
    unfolding RenameStreamArtifact_def Let_def
    by (intro outcome_rules unless_keptI, unfold snd_conv, rule tree_ok_put [OF assms], erule update_first_all)
      (auto simp: tree_okD [OF assms] renamed)
  then show ?thesis using assms by (auto simp: unless_kept_def)
qed

lemma stop_step_tree: "stop_step s t \<Longrightarrow> tree_ok s \<Longrightarrow> tree_ok t"
proof (induction rule: stop_step.induct)
  case (upsert_artifacts s c i arts uuids nows)
  then show ?case by (rule upsert_tree)
next
  case (rename_artifact s c i j name)
  then show ?case by (rule rename_tree)
next
  case (delete_artifact s c i j)
  then show ?case
    by (auto simp: DeleteStreamArtifact_def snd_with_ctx tree_ok_def Let_def list_all_iff)
qed (erule tree_ok_same; auto simp: step_defs put_stream_def split: option.splits sum.splits if_splits)+

lemma tree_outcome:
  "tree_ok (ps_streams p) \<Longrightarrow> unless_kept p (\<lambda>out. artifacts (ps_streams (snd out)) = artifacts (ps_streams p)) out \<Longrightarrow>
   tree_ok (ps_streams (snd out))"
  by (auto simp: unless_kept_def tree_ok_def)

lemma assigned_tree: "unless_kept p (\<lambda>out. artifacts (ps_streams (snd out)) = artifacts (ps_streams p)) (AssignServiceToStreamGuarded c m uuid now p)"
  unfolding AssignServiceToStreamGuarded_def Let_def by (intro outcome_rules unless_keptI) simp_all

lemma delete_stream_tree:
  assumes "tree_ok (ps_streams p)"
  shows "tree_ok (ps_streams (snd (DeleteStream c i now p)))"
proof -
  have "tree_ok (attributeArtifacts j enc s)" if "tree_ok s" for j enc s
    using that by (auto simp: attributeArtifacts_def tree_ok_def list_all_iff)
  then have "unless_kept p (\<lambda>out. tree_ok (ps_streams (snd out))) (DeleteStream c i now p)"
    unfolding DeleteStream_def Let_def using assms
    by (intro outcome_rules unless_keptI) (auto simp: dropStreamRuntime_def put_stream_def Let_def tree_ok_def)
  then show ?thesis using assms by (auto simp: unless_kept_def)
qed

lemma panel_op_tree: "panel_op p q \<Longrightarrow> tree_ok (ps_streams p) \<Longrightarrow> tree_ok (ps_streams q)"
proof (induction rule: panel_op.induct)
  case (assign p c m uuid now)
  then show ?case by (rule tree_outcome) (rule assigned_tree)
next
  case (assign_role p c sid st actor role uuid nows)
  then show ?case
    by (rule tree_outcome, unfold AssignServiceToStreamWithRole_def Let_def)
      (intro outcome_rules assigned_tree; (rule unless_keptI, simp)?)
next
  case (unassign p c um now)
  then show ?case by (rule tree_outcome, unfold UnassignServiceFromStreamGuarded_def Let_def) (intro outcome_rules unless_keptI; simp)
next
  case (unassign_plain p c sid actor now)
  then show ?case 
    by (rule tree_outcome, unfold UnassignServiceFromStream_def UnassignServiceFromStreamGuarded_def Let_def) (intro outcome_rules unless_keptI; simp)
next
  case (retry p c sid st now)
  then show ?case by (rule tree_outcome, unfold BeginStreamArchiveRetryGuarded_def Let_def) (intro outcome_rules unless_keptI; simp add: put_stream_def)
next
  case (delete_service p c sid now)
  then show ?case by (rule tree_outcome, unfold DeleteService_def Let_def) (intro outcome_rules unless_keptI; simp)
next
  case (delete_stream p c i now)
  then show ?case by (rule delete_stream_tree)
next
  case (create st p c name actor settings x uuids now now')
  then show ?case
    by - (rule tree_outcome, assumption, unfold CreateAssignedStream_def Let_def, intro outcome_rules unless_keptI; simp add: put_stream_def)
next
  case (settings p c c' i settings now)
  then show ?case by (rule tree_outcome, unfold UpdateStreamSettings_def Let_def) (intro outcome_rules unless_keptI; simp add: put_stream_def)
next
  case (claim_start uuid p marshal sha256hex c request now)
  then show ?case by - (rule tree_outcome, assumption, unfold ClaimStreamStart_def Let_def, intro outcome_rules unless_keptI; simp add: put_stream_def)
next
  case (transition_start p marshal sha256hex c claim status now)
  then show ?case by (rule tree_outcome, unfold TransitionClaimedStreamStart_def Let_def) (intro outcome_rules unless_keptI; simp add: put_stream_def)
next
  case (stream_op p s)
  then show ?case using stop_step_tree by simp
qed simp

lemma panel_step_tree: "panel_step p q \<Longrightarrow> tree_ok (ps_streams p) \<Longrightarrow> tree_ok (ps_streams q)"
  by (induction rule: panel_step.induct) (simp_all add: panel_op_tree)

text \<open>
  C28. The catalogue of artifacts stays inside the archive tree. In every reachable state of the panel,
  each artifact stored for a stream belongs to that stream and has the path of its stream, run and
  name: a relative path of plain elements (none empty, dot or parent) that ends in the name; its run
  identifier is valid and its size is not negative. So the listing of a stream's artifacts, which leaves
  out unsafe paths, leaves out nothing.
\<close>

theorem stored_artifacts_confined:
  assumes "panel_reach p"
  shows "(\<forall>k. \<forall>a \<in> set (mlist (artifacts (ps_streams p)) k). sa_StreamID a = k \<and>
      sa_RelativePath a = streamArtifactRelativePath k (sa_ArchiveRunID a) (sa_Name a) \<and>
      list_all plain_element (splitOn (CHR ''/'') (sa_RelativePath a)) \<and> suffix (sa_Name a) (sa_RelativePath a) \<and>
      validArchiveRunID (sa_ArchiveRunID a) \<and> 0 \<le> sa_SizeBytes a) \<and>
    (\<forall>k. mget (streams (ps_streams p)) k \<noteq> None \<longrightarrow>
      ListStreamArtifacts None k (ps_streams p) = (Inr (mlist (artifacts (ps_streams p)) k), ps_streams p))"
proof -
  have "tree_ok (ps_streams p)"
    using assms
  proof (induction rule: reach.induct)
    case (reach_init p)
    then show ?case by (simp add: BindStreamAssignmentGuard_def NewPanel_def NewMemoryStreamStore_def tree_ok_def mlist_def)
  next
    case (reach_step p q)
    then show ?case using panel_step_tree by blast
  qed
  then have ok: "in_tree k a" if "a \<in> set (mlist (artifacts (ps_streams p)) k)" for k a
    using that by (simp add: tree_ok_def list_all_iff)
  then have "filter (\<lambda>a. isSafeRelativePath (sa_RelativePath a)) (mlist (artifacts (ps_streams p)) k) = mlist (artifacts (ps_streams p)) k" for k
    using in_tree_safe by (auto simp: filter_id_conv)
  then have "\<forall>k. mget (streams (ps_streams p)) k \<noteq> None \<longrightarrow>
      ListStreamArtifacts None k (ps_streams p) = (Inr (mlist (artifacts (ps_streams p)) k), ps_streams p)"
    by (simp add: ListStreamArtifacts_def)
  then show ?thesis using ok unfolding in_tree_def by blast
qed

subsection \<open>Samples\<close>

definition sample_reported :: panel where
  "sample_reported = sample_panel4\<lparr>ps_streams := snd (UpsertStreamArtifacts None ''s1'' [sample_artifact] (\<lambda>_. ''a1'') (\<lambda>_. 9000)
     (ps_streams sample_panel4))\<rparr>"

lemma sample_reported_reach: "panel_reach sample_reported"
proof (rule reach.reach_step [OF sample_reach(4)])
  show "panel_step sample_panel4 sample_reported"
    unfolding sample_reported_def
    by (rule panel_step.op, rule panel_op.stream_op, rule stop_step.upsert_artifacts)
      (auto simp: UpsertStreamArtifacts_def put_stream_def Let_def split: option.splits sum.splits if_splits)
qed

theorem stored_artifacts_confined_witness:
  "map sa_ID (mlist (artifacts (ps_streams sample_reported)) ''s1'') = [''a1''] \<and>
   fst (ListStreamArtifacts None ''s1'' (ps_streams sample_reported)) = Inr (mlist (artifacts (ps_streams sample_reported)) ''s1'')"
proof
  show "map sa_ID (mlist (artifacts (ps_streams sample_reported)) ''s1'') = [''a1'']" by code_simp
  have "mget (streams (ps_streams sample_reported)) ''s1'' \<noteq> None" by code_simp
  then show "fst (ListStreamArtifacts None ''s1'' (ps_streams sample_reported)) = Inr (mlist (artifacts (ps_streams sample_reported)) ''s1'')"
    using stored_artifacts_confined [OF sample_reported_reach] by simp
qed

definition sample_log :: "string \<Rightarrow> stream_log" where
  "sample_log i = \<lparr>sl_ID = i, sl_StreamID = ''s1'', sl_StreamName = [], sl_StreamDeletedAt = None, sl_Level = ''info'',
     sl_Message = ''m'', sl_Fields = None, sl_CreatedAt = 0\<rparr>"

definition sample_logs :: "nat \<Rightarrow> stream_store" where
  "sample_logs n = (let
       s0 = put_stream ''s1'' (new_stream ''s1'' ''demo'' 5) NewMemoryStreamStore;
       s3 = foldl (\<lambda>s (i, t). snd (AppendStreamLog None (sample_log i) [] t s)) s0 [(''a'', 7), (''b'', 7), (''c'', 6)] in
     if n = 0 then s3 else snd (AppendStreamLog None (sample_log ''d'') [] 8 s3))"

lemma sample_logs_grow: "only_newer (sample_logs 0) (sample_logs n)"
proof (cases "n = 0")
  case False
  then have "sample_logs n = sample_logs 1" by (simp add: sample_logs_def)
  moreover have "only_newer (sample_logs 0) (sample_logs 1)" by code_simp
  ultimately show ?thesis by simp
qed (simp add: only_newer_def)


text \<open>
  A file that is renamed to the name another kind of artifact has in its run keeps that name when the
  other artifact is reported later: two entries of the catalogue then stand for one file.
\<close>

definition sample_metadata :: stream_artifact where
  "sample_metadata = sample_artifact\<lparr>sa_Kind := ''metadata'', sa_Name := ''metadata.json'', sa_RelativePath := ''final/s1/run-1/metadata.json''\<rparr>"

definition sample_renamed :: stream_store where
  "sample_renamed = (let
       s1 = snd (UpsertStreamArtifacts None ''s1'' [sample_metadata] (\<lambda>_. ''m1'') (\<lambda>_. 9000) (sample_logs 0));
       s2 = snd (RenameStreamArtifact None ''s1'' ''m1'' ''final.mp4'' s1) in
     snd (UpsertStreamArtifacts None ''s1'' [sample_artifact] (\<lambda>_. ''a1'') (\<lambda>_. 9500) s2))"

lemma renamed_artifact_shares_path:
  "map (\<lambda>a. (sa_ID a, sa_RelativePath a)) (mlist (artifacts sample_renamed) ''s1'') =
     [(''m1'', ''final/s1/run-1/final.mp4''), (''a1'', ''final/s1/run-1/final.mp4'')]"
  by code_simp

end
