(* ===== verification/Video_Cover.thy ===== *)
theory Video_Cover
  imports Artifact_Values
begin

text \<open>
  The video covers of \<^verbatim>\<open>src/internal/videocover\<close>: presets under optimistic revisions, and the cover
  of a running stream as a desired and an applied state. Showing or hiding it is an action with an
  idempotency key: it is prepared, which moves the desired revision, sent to the encoder once, and
  resolved as applied, failed or unknown. Revisions and generations are 64-bit words. The repository
  is \<^verbatim>\<open>memory.go\<close>; the request rules are those of \<^verbatim>\<open>types.go\<close>.
\<close>

subsection \<open>Runes\<close>

text \<open>
  UTF-8 as Go decodes it: the rune at the head of a string, the number of bytes it takes, and whether
  they are a valid encoding. An invalid byte counts as one rune.
\<close>

abbreviation byte :: "char \<Rightarrow> int" where
  "byte c \<equiv> of_char c"

definition continuation :: "int \<Rightarrow> int \<Rightarrow> string \<Rightarrow> nat \<Rightarrow> bool" where
  "continuation lo hi s i \<longleftrightarrow> i < length s \<and> lo \<le> byte (s ! i) \<and> byte (s ! i) \<le> hi"

definition DecodeRune :: "string \<Rightarrow> int \<times> nat \<times> bool" where
  "DecodeRune s =
     (let a = byte (hd s); tail = continuation 128 191 s; bits = (\<lambda>i. byte (s ! i) mod 64) in
      if s = [] then (65533, 1, False)
      else if a < 128 then (a, 1, True)
      else if 194 \<le> a \<and> a \<le> 223 \<and> tail 1 then (a mod 32 * 64 + bits 1, 2, True)
      else if 224 \<le> a \<and> a \<le> 239 \<and>
        continuation (if a = 224 then 160 else 128) (if a = 237 then 159 else 191) s 1 \<and> tail 2
      then (a mod 16 * 4096 + bits 1 * 64 + bits 2, 3, True)
      else if 240 \<le> a \<and> a \<le> 244 \<and>
        continuation (if a = 240 then 144 else 128) (if a = 244 then 143 else 191) s 1 \<and> tail 2 \<and> tail 3
      then (a mod 8 * 262144 + bits 1 * 4096 + bits 2 * 64 + bits 3, 4, True)
      else (65533, 1, False))"

lemma DecodeRune_width: "fst (snd (DecodeRune s)) \<noteq> 0"
  by (simp add: DecodeRune_def Let_def)

function runes :: "string \<Rightarrow> (int \<times> bool) list" where
  "runes s = (if s = [] then [] else case DecodeRune s of (r, width, ok) \<Rightarrow> (r, ok) # runes (drop width s))"
  by pat_completeness auto
termination
proof (relation "measure length")
  show "(drop width s, s) \<in> measure length" if "s \<noteq> []" "(r, p) = DecodeRune s" "(width, ok) = p" for s r p width ok
    using that DecodeRune_width [of s] by (cases s) (auto simp: prod_eq_iff)
qed simp

declare runes.simps [simp del]

definition ValidString :: "string \<Rightarrow> bool" where
  "ValidString s \<longleftrightarrow> list_all snd (runes s)"

definition IsSpace :: "int \<Rightarrow> bool" where
  "IsSpace r \<longleftrightarrow> r \<in> {9, 10, 11, 12, 13, 32, 133, 160, 5760, 8232, 8233, 8239, 8287, 12288} \<or> 8192 \<le> r \<and> r \<le> 8202"

subsection \<open>Data\<close>

datatype cover_error = CoverNotFound | StaleGeneration | RevisionConflict | IdempotencyConflict | InvalidRequest

type_synonym revision = "64 word"

record preset =
  ps_ID :: string
  ps_Name :: string
  ps_AssetID :: string
  ps_AssetVariantID :: string
  ps_Enabled :: bool
  ps_SystemPreset :: bool
  ps_ReleaseKey :: string
  ps_Revision :: revision
  ps_CreatedByUserID :: string
  ps_UpdatedByUserID :: string
  ps_DeletedAt :: "time option"
  ps_CreatedAt :: time
  ps_UpdatedAt :: time
  ps_LowResolutionWarning :: bool

text \<open>The outcome of an action as it is handed back with a state; a stored state has none.\<close>

record recorded_action =
  ra_RequestedAssetVariantID :: string
  ra_RequestedRevision :: revision
  ra_Outcome :: string
  ra_SafeErrorCode :: string

record cover_state =
  cs_RecordedAction :: "recorded_action option"
  cs_StreamID :: string
  cs_JobGeneration :: revision
  cs_DesiredActive :: bool
  cs_DesiredRevision :: revision
  cs_AppliedActive :: "bool option"
  cs_AppliedRevision :: "revision option"
  cs_AssetVariantID :: string
  cs_AppliedAssetVariantID :: string
  cs_LastErrorCode :: string
  cs_Status :: string
  cs_LastIdempotencyKey :: string
  cs_CreatedAt :: time
  cs_UpdatedAt :: time
  cs_PipelineOrder :: "string list"
  cs_CoverWatermarkIndependent :: bool

record action_request =
  ar_CandidateVariantID :: string
  ar_ExpectedVisualRevision :: revision
  ar_Active :: bool
  ar_ExpectedJobGeneration :: revision
  ar_ExpectedRevision :: revision
  ar_IdempotencyKey :: string
  ar_HideConfirmed :: bool

record prepared_action =
  pa_RequestedAssetVariantID :: string
  pa_State :: cover_state
  pa_Replay :: bool
  pa_Dispatch :: bool
  pa_RequestedRevision :: revision
  pa_Outcome :: string
  pa_SafeErrorCode :: string

record memory_action =
  ma_RequestedAssetVariantID :: string
  ma_Fingerprint :: string
  ma_RequestedRevision :: revision
  ma_Status :: string
  ma_SafeErrorCode :: string

record cover_repository =
  presets :: "preset gomap"
  states :: "(revision \<times> cover_state) list gomap"
  actions :: "memory_action gomap"
  nextID :: revision

type_synonym 'a covered = "(cover_error + 'a) \<times> cover_repository"

definition NewMemoryRepository :: cover_repository where
  "NewMemoryRepository = \<lparr>presets = [], states = [], actions = [], nextID = 0\<rparr>"

definition fmtUint :: "revision \<Rightarrow> string" where
  "fmtUint value = zero_pad 12 (unat value)"

definition fmtID :: "revision \<Rightarrow> string" where
  "fmtID i = ''00000000-0000-4000-8000-'' @ fmtUint i"

subsection \<open>Requests\<close>

definition actionIdempotencyEdgeSpace :: "int \<Rightarrow> bool" where
  "actionIdempotencyEdgeSpace r \<longleftrightarrow> IsSpace r \<or> r = 65279"

definition validActionIdempotencyKey :: "string \<Rightarrow> bool" where
  "validActionIdempotencyKey value =
     (let rs = map fst (runes value) in
      if \<not> ValidString value then False
      else if length rs < 1 \<or> length rs > 128 then False
      else if actionIdempotencyEdgeSpace (hd rs) \<or> actionIdempotencyEdgeSpace (last rs) then False
      else list_all (\<lambda>r. \<not> (r < 32 \<or> r = 127)) rs)"

definition ValidateRequest :: "action_request \<Rightarrow> cover_error option" where
  "ValidateRequest request =
     (if ar_ExpectedJobGeneration request < 1 \<or> ar_ExpectedRevision request < 1 \<or> \<not> validActionIdempotencyKey (ar_IdempotencyKey request)
      then Some InvalidRequest
      else if ar_Active request \<and> ar_HideConfirmed request \<or> \<not> ar_Active request \<and> \<not> ar_HideConfirmed request then Some InvalidRequest
      else if ar_CandidateVariantID request \<noteq> [] \<and>
          (\<not> ar_Active request \<or> ar_ExpectedVisualRevision request = 0 \<or> \<not> validActionIdempotencyKey (ar_CandidateVariantID request)) \<or>
        ar_CandidateVariantID request = [] \<and> ar_ExpectedVisualRevision request \<noteq> 0
      then Some InvalidRequest
      else None)"

definition fingerprint_text :: "action_request \<Rightarrow> string" where
  "fingerprint_text request =
     ''active='' @ (if ar_Active request then ''true'' else ''false'') @ [CHR 0x0A] @
     ''generation='' @ decimal (unat (ar_ExpectedJobGeneration request)) @ [CHR 0x0A] @
     ''revision='' @ decimal (unat (ar_ExpectedRevision request)) @ [CHR 0x0A] @ ''idempotency='' @ ar_IdempotencyKey request @
     (if ar_CandidateVariantID request \<noteq> []
      then [CHR 0x0A] @ ''candidate='' @ ar_CandidateVariantID request @ [CHR 0x0A] @
        ''visual='' @ decimal (unat (ar_ExpectedVisualRevision request))
      else [])"

definition RequestFingerprint :: "(string \<Rightarrow> string) \<Rightarrow> action_request \<Rightarrow> string" where
  "RequestFingerprint sha256hex request = sha256hex (fingerprint_text request)"

definition NormalizeState :: "cover_state \<Rightarrow> cover_state" where
  "NormalizeState state =
     state\<lparr>cs_PipelineOrder := [''base_or_worker_scene'', ''video_cover'', ''watermark'', ''video_encode'', ''tee_live_archive_preview''],
       cs_CoverWatermarkIndependent := True\<rparr>"

subsection \<open>Presets\<close>

definition ListPresets :: "cover_repository \<Rightarrow> preset list covered" where
  "ListPresets m = (Inr (sort_key (toLower \<circ> ps_Name) (filter (\<lambda>p. ps_DeletedAt p = None) (map snd (presets m)))), m)"

definition GetPreset :: "string \<Rightarrow> bool \<Rightarrow> cover_repository \<Rightarrow> preset covered" where
  "GetPreset i includeDeleted m =
     (case mget (presets m) i of
        None \<Rightarrow> (Inl CoverNotFound, m)
      | Some p \<Rightarrow> if \<not> includeDeleted \<and> ps_DeletedAt p \<noteq> None then (Inl CoverNotFound, m) else (Inr p, m))"

definition validatePreset :: "preset \<Rightarrow> cover_error option" where
  "validatePreset p =
     (let name = trimSpace (ps_Name p) in
      if name = [] \<or> length (runes name) > 128 \<or> trimSpace (ps_AssetID p) = [] \<or> trimSpace (ps_AssetVariantID p) = []
      then Some InvalidRequest else None)"

definition CreatePreset :: "time \<Rightarrow> preset \<Rightarrow> cover_repository \<Rightarrow> preset covered" where
  "CreatePreset now p m =
     (case validatePreset p of Some e \<Rightarrow> (Inl e, m) | None \<Rightarrow>
       if list_ex (\<lambda>x. ps_DeletedAt x = None \<and> equalFold (ps_Name x) (ps_Name p)) (map snd (presets m)) then (Inl IdempotencyConflict, m)
       else let n = nextID m + 1;
                created = p\<lparr>ps_ID := fmtID n, ps_Revision := 1, ps_UpdatedByUserID := ps_CreatedByUserID p,
                  ps_CreatedAt := now, ps_UpdatedAt := now\<rparr> in
         (Inr created, m\<lparr>nextID := n, presets := mput (presets m) (ps_ID created) created\<rparr>))"

definition UpdatePreset :: "time \<Rightarrow> string \<Rightarrow> preset \<Rightarrow> revision \<Rightarrow> cover_repository \<Rightarrow> preset covered" where
  "UpdatePreset now i p expected m =
     (case validatePreset p of Some e \<Rightarrow> (Inl e, m) | None \<Rightarrow>
       (case mget (presets m) i of None \<Rightarrow> (Inl CoverNotFound, m) | Some current \<Rightarrow>
         if ps_DeletedAt current \<noteq> None then (Inl CoverNotFound, m)
         else if ps_Revision current \<noteq> expected then (Inl RevisionConflict, m)
         else if list_ex (\<lambda>(j, x). j \<noteq> i \<and> ps_DeletedAt x = None \<and> equalFold (ps_Name x) (ps_Name p)) (presets m)
         then (Inl IdempotencyConflict, m)
         else let updated = current\<lparr>ps_Name := trimSpace (ps_Name p), ps_AssetID := ps_AssetID p, ps_AssetVariantID := ps_AssetVariantID p,
                ps_Enabled := ps_Enabled p, ps_UpdatedByUserID := ps_UpdatedByUserID p, ps_Revision := ps_Revision current + 1,
                ps_UpdatedAt := now\<rparr> in
           (Inr updated, m\<lparr>presets := mput (presets m) i updated\<rparr>)))"

definition DeletePreset :: "time \<Rightarrow> string \<Rightarrow> string \<Rightarrow> revision \<Rightarrow> cover_repository \<Rightarrow> preset covered" where
  "DeletePreset now i actor expected m =
     (case mget (presets m) i of None \<Rightarrow> (Inl CoverNotFound, m) | Some p \<Rightarrow>
       if ps_DeletedAt p \<noteq> None then (Inl CoverNotFound, m)
       else if ps_Revision p \<noteq> expected then (Inl RevisionConflict, m)
       else let deleted = p\<lparr>ps_DeletedAt := Some now, ps_Revision := ps_Revision p + 1, ps_UpdatedAt := now, ps_UpdatedByUserID := actor\<rparr> in
         (Inr deleted, m\<lparr>presets := mput (presets m) i deleted\<rparr>))"

subsection \<open>The cover of a stream\<close>

definition generations :: "string \<Rightarrow> cover_repository \<Rightarrow> (revision \<times> cover_state) list" where
  "generations streamID m = mlist (states m) streamID"

definition state_of :: "string \<Rightarrow> revision \<Rightarrow> cover_repository \<Rightarrow> cover_state option" where
  "state_of streamID generation m = map_of (generations streamID m) generation"

definition put_state :: "string \<Rightarrow> revision \<Rightarrow> cover_state \<Rightarrow> cover_repository \<Rightarrow> cover_repository" where
  "put_state streamID generation state m =
     m\<lparr>states := mput (states m) streamID (AList.update generation state (generations streamID m))\<rparr>"

definition EnsureGeneration :: "time \<Rightarrow> string \<Rightarrow> revision \<Rightarrow> string \<Rightarrow> bool \<Rightarrow> cover_repository \<Rightarrow> cover_state covered" where
  "EnsureGeneration now streamID generation variantID desired m =
     (if generation < 1 then (Inl InvalidRequest, m)
      else (case state_of streamID generation m of
        Some state \<Rightarrow> (Inr (NormalizeState state), m)
      | None \<Rightarrow>
        let state = \<lparr>cs_RecordedAction = None, cs_StreamID = streamID, cs_JobGeneration = generation, cs_DesiredActive = desired,
              cs_DesiredRevision = 1, cs_AppliedActive = None, cs_AppliedRevision = None, cs_AssetVariantID = variantID,
              cs_AppliedAssetVariantID = [], cs_LastErrorCode = [], cs_Status = ''idle'', cs_LastIdempotencyKey = [],
              cs_CreatedAt = now, cs_UpdatedAt = now, cs_PipelineOrder = [], cs_CoverWatermarkIndependent = False\<rparr> in
        (Inr (NormalizeState state), put_state streamID generation state m)))"

definition applied_state :: "time \<Rightarrow> bool \<Rightarrow> revision \<Rightarrow> cover_state \<Rightarrow> cover_state" where
  "applied_state now active revn state =
     state\<lparr>cs_AppliedAssetVariantID := (if active then cs_AssetVariantID state else []), cs_AppliedActive := Some active,
       cs_AppliedRevision := Some revn, cs_Status := ''applied'', cs_LastErrorCode := [], cs_UpdatedAt := now\<rparr>"

definition RecordStartApplied :: "time \<Rightarrow> string \<Rightarrow> revision \<Rightarrow> bool \<Rightarrow> revision \<Rightarrow> cover_repository \<Rightarrow> cover_state covered" where
  "RecordStartApplied now streamID generation active revn m =
     (case state_of streamID generation m of None \<Rightarrow> (Inl CoverNotFound, m) | Some state \<Rightarrow>
       if revn = 0 \<or> cs_DesiredRevision state \<noteq> revn \<or> cs_DesiredActive state \<noteq> active then (Inl RevisionConflict, m)
       else let state' = applied_state now active revn state in (Inr (NormalizeState state'), put_state streamID generation state' m))"

definition latest :: "string \<Rightarrow> cover_repository \<Rightarrow> revision" where
  "latest streamID m = foldl (\<lambda>best (generation, _). if generation > best then generation else best) 0 (generations streamID m)"

definition GetCurrentState :: "string \<Rightarrow> cover_repository \<Rightarrow> cover_state covered" where
  "GetCurrentState streamID m =
     (case foldl (\<lambda>found (generation, state). case found of None \<Rightarrow> Some state
          | Some selected \<Rightarrow> if generation > cs_JobGeneration selected then Some state else found) None (generations streamID m) of
        None \<Rightarrow> (Inl CoverNotFound, m)
      | Some selected \<Rightarrow> (Inr (NormalizeState selected), m))"

definition actionKey :: "string \<Rightarrow> revision \<Rightarrow> string \<Rightarrow> string" where
  "actionKey streamID generation key = streamID @ ''/'' @ fmtUint generation @ ''/'' @ key"

text \<open>The answer that repeats a known action, and the one for a state alone.\<close>

definition replayed :: "cover_state \<Rightarrow> memory_action \<Rightarrow> prepared_action" where
  "replayed state prior =
     \<lparr>pa_RequestedAssetVariantID = ma_RequestedAssetVariantID prior, pa_State = NormalizeState state, pa_Replay = True, pa_Dispatch = False,
      pa_RequestedRevision = ma_RequestedRevision prior, pa_Outcome = ma_Status prior, pa_SafeErrorCode = ma_SafeErrorCode prior\<rparr>"

definition unprepared :: "cover_state \<Rightarrow> prepared_action" where
  "unprepared state =
     \<lparr>pa_RequestedAssetVariantID = [], pa_State = NormalizeState state, pa_Replay = False, pa_Dispatch = False,
      pa_RequestedRevision = 0, pa_Outcome = [], pa_SafeErrorCode = []\<rparr>"

definition LookupActionReplay ::
  "(string \<Rightarrow> string) \<Rightarrow> string \<Rightarrow> action_request \<Rightarrow> cover_repository \<Rightarrow> (prepared_action \<times> bool) covered" where
  "LookupActionReplay sha256hex streamID request m =
     (case ValidateRequest request of Some e \<Rightarrow> (Inl e, m) | None \<Rightarrow>
       if latest streamID m = 0 then (Inl CoverNotFound, m)
       else (case state_of streamID (latest streamID m) m of None \<Rightarrow> (Inl CoverNotFound, m) | Some state \<Rightarrow>
         if latest streamID m \<noteq> ar_ExpectedJobGeneration request then (Inr (unprepared state, False), m)
         else (case mget (actions m) (actionKey streamID (latest streamID m) (ar_IdempotencyKey request)) of
           None \<Rightarrow> (Inr (unprepared state, False), m)
         | Some prior \<Rightarrow>
           if ma_Fingerprint prior \<noteq> RequestFingerprint sha256hex request then (Inl IdempotencyConflict, m)
           else (Inr (replayed state prior, True), m))))"

definition LookupActionOutcome ::
  "(string \<Rightarrow> string) \<Rightarrow> string \<Rightarrow> action_request \<Rightarrow> cover_repository \<Rightarrow> (prepared_action \<times> bool) covered" where
  "LookupActionOutcome sha256hex streamID request m =
     (case ValidateRequest request of Some e \<Rightarrow> (Inl e, m) | None \<Rightarrow>
       (case state_of streamID (ar_ExpectedJobGeneration request) m of None \<Rightarrow> (Inl CoverNotFound, m) | Some state \<Rightarrow>
         (case mget (actions m) (actionKey streamID (ar_ExpectedJobGeneration request) (ar_IdempotencyKey request)) of
           None \<Rightarrow> (Inr (unprepared state, False), m)
         | Some prior \<Rightarrow>
           if ma_Fingerprint prior \<noteq> RequestFingerprint sha256hex request then (Inl IdempotencyConflict, m)
           else (Inr (replayed state prior, True), m))))"

definition revision_taken :: "string \<Rightarrow> revision \<Rightarrow> revision \<Rightarrow> cover_repository \<Rightarrow> bool" where
  "revision_taken streamID generation revn m =
     list_ex (\<lambda>(key, a). prefix (streamID @ ''/'' @ fmtUint generation @ ''/'') key \<and> ma_RequestedRevision a = revn) (actions m)"

definition PrepareAction ::
  "(string \<Rightarrow> string) \<Rightarrow> time \<Rightarrow> string \<Rightarrow> action_request \<Rightarrow> cover_repository \<Rightarrow> prepared_action covered" where
  "PrepareAction sha256hex now streamID request m =
     (case ValidateRequest request of Some e \<Rightarrow> (Inl e, m) | None \<Rightarrow>
       let generation = latest streamID m in
       if generation \<noteq> ar_ExpectedJobGeneration request then (Inl StaleGeneration, m)
       else (case state_of streamID generation m of None \<Rightarrow> (Inl StaleGeneration, m) | Some state \<Rightarrow>
         let key = actionKey streamID generation (ar_IdempotencyKey request); print = RequestFingerprint sha256hex request in
         (case mget (actions m) key of
           Some prior \<Rightarrow>
             if ma_Fingerprint prior \<noteq> print then (Inl IdempotencyConflict, m) else (Inr (replayed state prior), m)
         | None \<Rightarrow>
           if cs_DesiredRevision state \<noteq> ar_ExpectedRevision request then (Inl RevisionConflict, m)
           else if cs_Status state = ''confirming'' \<or> cs_Status state = ''idle'' \<and> cs_LastIdempotencyKey state \<noteq> [] then (Inl RevisionConflict, m)
           else let revn = cs_DesiredRevision state + 1 in
             if revision_taken streamID generation revn m then (Inl RevisionConflict, m)
             else let variant = (if ar_CandidateVariantID request \<noteq> [] then ar_CandidateVariantID request else cs_AssetVariantID state);
                      state' = state\<lparr>cs_AssetVariantID := variant, cs_DesiredActive := ar_Active request, cs_DesiredRevision := revn,
                        cs_LastIdempotencyKey := ar_IdempotencyKey request, cs_Status := ''idle'', cs_LastErrorCode := [], cs_UpdatedAt := now\<rparr>;
                      action = \<lparr>ma_RequestedAssetVariantID = variant, ma_Fingerprint = print, ma_RequestedRevision = revn,
                        ma_Status = ''pending'', ma_SafeErrorCode = []\<rparr>;
                      m1 = put_state streamID generation state' m in
               (Inr \<lparr>pa_RequestedAssetVariantID = variant, pa_State = NormalizeState state', pa_Replay = False, pa_Dispatch = True,
                  pa_RequestedRevision = revn, pa_Outcome = [], pa_SafeErrorCode = []\<rparr>,
                m1\<lparr>actions := mput (actions m1) key action\<rparr>))))"

subsection \<open>Outcomes\<close>

definition actionMayResolve :: "string \<Rightarrow> bool" where
  "actionMayResolve status \<longleftrightarrow> status = ''pending'' \<or> status = ''confirming''"

definition currentActionMayResolve :: "cover_state \<Rightarrow> string \<Rightarrow> memory_action \<Rightarrow> bool" where
  "currentActionMayResolve state key action =
     (if cs_LastIdempotencyKey state \<noteq> key \<or> cs_DesiredRevision state \<noteq> ma_RequestedRevision action then False
      else cs_Status state = ''idle'' \<and> ma_Status action = ''pending'' \<or> cs_Status state = ''confirming'' \<and> ma_Status action = ''confirming'')"

definition recordedMemoryAction :: "memory_action \<Rightarrow> recorded_action" where
  "recordedMemoryAction action =
     \<lparr>ra_RequestedAssetVariantID = ma_RequestedAssetVariantID action, ra_RequestedRevision = ma_RequestedRevision action,
      ra_Outcome = ma_Status action, ra_SafeErrorCode = ma_SafeErrorCode action\<rparr>"

definition safeCode :: "string \<Rightarrow> string" where
  "safeCode code0 =
     (let code = trimSpace code0 in
      if code = [] \<or> length code > 80 then ''video_cover_action_failed''
      else if list_all (\<lambda>c. c = CHR ''_'' \<or> c = CHR ''-'' \<or> CHR ''a'' \<le> c \<and> c \<le> CHR ''z'' \<or> CHR ''0'' \<le> c \<and> c \<le> CHR ''9'') code
      then code else ''video_cover_action_failed'')"

text \<open>The end the three operations share: the action is stored, and the state too if the action is still the current one.\<close>

definition record_outcome ::
  "string \<Rightarrow> revision \<Rightarrow> string \<Rightarrow> cover_state \<Rightarrow> memory_action \<Rightarrow> memory_action \<Rightarrow> cover_state \<Rightarrow> cover_repository \<Rightarrow> cover_state covered" where
  "record_outcome streamID generation key state action action' state' m =
     (let m1 = m\<lparr>actions := mput (actions m) (actionKey streamID generation key) action'\<rparr>;
          recorded = Some (recordedMemoryAction action') in
      if \<not> currentActionMayResolve state key action then (Inr (NormalizeState (state\<lparr>cs_RecordedAction := recorded\<rparr>)), m1)
      else (Inr (NormalizeState (state'\<lparr>cs_RecordedAction := recorded\<rparr>)), put_state streamID generation state' m1))"

definition RecordApplied ::
  "time \<Rightarrow> string \<Rightarrow> revision \<Rightarrow> string \<Rightarrow> bool \<Rightarrow> revision \<Rightarrow> cover_repository \<Rightarrow> cover_state covered" where
  "RecordApplied now streamID generation key active revn m =
     (case state_of streamID generation m of None \<Rightarrow> (Inl CoverNotFound, m) | Some state \<Rightarrow>
       (case mget (actions m) (actionKey streamID generation key) of None \<Rightarrow> (Inl RevisionConflict, m) | Some action \<Rightarrow>
         if ma_RequestedRevision action \<noteq> revn then (Inl RevisionConflict, m)
         else if \<not> actionMayResolve (ma_Status action) then (Inr (NormalizeState state), m)
         else record_outcome streamID generation key state action (action\<lparr>ma_Status := ''applied'', ma_SafeErrorCode := []\<rparr>)
           (applied_state now active revn state) m))"

definition RecordAmbiguous :: "time \<Rightarrow> string \<Rightarrow> revision \<Rightarrow> string \<Rightarrow> cover_repository \<Rightarrow> cover_state covered" where
  "RecordAmbiguous now streamID generation key m =
     (case state_of streamID generation m of None \<Rightarrow> (Inl CoverNotFound, m) | Some state \<Rightarrow>
       (case mget (actions m) (actionKey streamID generation key) of None \<Rightarrow> (Inl CoverNotFound, m) | Some action \<Rightarrow>
         if \<not> actionMayResolve (ma_Status action) \<or> ma_Status action = ''confirming'' then (Inr (NormalizeState state), m)
         else record_outcome streamID generation key state action
           (action\<lparr>ma_Status := ''confirming'', ma_SafeErrorCode := ''transport_outcome_unknown''\<rparr>)
           (state\<lparr>cs_Status := ''confirming'', cs_LastErrorCode := ''transport_outcome_unknown'', cs_UpdatedAt := now\<rparr>) m))"

definition RecordFailed :: "time \<Rightarrow> string \<Rightarrow> revision \<Rightarrow> string \<Rightarrow> string \<Rightarrow> cover_repository \<Rightarrow> cover_state covered" where
  "RecordFailed now streamID generation key code m =
     (case state_of streamID generation m of None \<Rightarrow> (Inl CoverNotFound, m) | Some state \<Rightarrow>
       (case mget (actions m) (actionKey streamID generation key) of None \<Rightarrow> (Inl CoverNotFound, m) | Some action \<Rightarrow>
         if \<not> actionMayResolve (ma_Status action) then (Inr (NormalizeState state), m)
         else let action' = action\<lparr>ma_Status := ''failed'', ma_SafeErrorCode := safeCode code\<rparr> in
           record_outcome streamID generation key state action action'
             (state\<lparr>cs_Status := ''failed'', cs_LastErrorCode := ma_SafeErrorCode action', cs_UpdatedAt := now\<rparr>) m))"

end
