(* ===== verification/Ingest_Tokens.thy ===== *)
theory Ingest_Tokens
  imports Credentials
begin

text \<open>
  The signed tokens of \<^verbatim>\<open>src/internal/ingesttoken/token.go\<close>: ingest tokens, which the panel hands to
  the services of a stream, and preview tokens for the public player. HMAC-SHA-256 and the JSON codec of
  the claims are arguments.
\<close>

subsection \<open>Tokens\<close>

record claims =
  cl_StreamID :: string
  cl_ServiceID :: string
  cl_ServiceType :: string
  cl_Purpose :: string
  cl_Audience :: string
  cl_ExpiresAt :: int

record expected =
  ex_StreamID :: string
  ex_ServiceID :: string
  ex_ServiceType :: string
  ex_Purpose :: string
  ex_Audience :: string
  ex_Now :: time

type_synonym mac = "string \<Rightarrow> string \<Rightarrow> string"

definition Prefix :: string where
  "Prefix = ''ast_ingest_v1''"

definition PreviewPrefix :: string where
  "PreviewPrefix = ''ast_preview_v1''"

definition signWithPrefix :: "mac \<Rightarrow> string \<Rightarrow> string \<Rightarrow> string \<Rightarrow> string" where
  "signWithPrefix mac secret prefix0 payload = base64url (mac secret (prefix0 @ ''.'' @ payload))"

definition sign :: "mac \<Rightarrow> string \<Rightarrow> string \<Rightarrow> string" where
  "sign mac secret payload = signWithPrefix mac secret Prefix payload"

definition Issue :: "mac \<Rightarrow> (claims \<Rightarrow> string) \<Rightarrow> string \<Rightarrow> claims \<Rightarrow> string result" where
  "Issue mac marshal secret0 c =
     (let secret = trimSpace secret0 in
      if secret = [] then Inl (ErrOther ''ingest token signing key is required'')
      else if trimSpace (cl_StreamID c) = [] \<or> trimSpace (cl_ServiceID c) = [] \<or> trimSpace (cl_ServiceType c) = [] \<or>
        trimSpace (cl_Purpose c) = [] \<or> trimSpace (cl_Audience c) = [] \<or> cl_ExpiresAt c \<le> 0
      then Inl (ErrOther ''ingest token claims are incomplete'')
      else let encodedPayload = base64url (marshal c) in
        Inr (Prefix @ ''.'' @ encodedPayload @ ''.'' @ sign mac secret encodedPayload))"

text \<open>\<^verbatim>\<open>strconv.FormatInt\<close> and \<^verbatim>\<open>strconv.ParseInt\<close> in base 10 and 64 bits.\<close>

definition formatInt :: "int \<Rightarrow> string" where
  "formatInt n = (if n < 0 then ''-'' @ decimal (nat (- n)) else decimal (nat n))"

definition digit_char :: "char \<Rightarrow> bool" where
  "digit_char c \<longleftrightarrow> 48 \<le> octet c \<and> octet c \<le> 57"

definition digits_value :: "string \<Rightarrow> nat" where
  "digits_value s = foldl (\<lambda>n c. 10 * n + (octet c - 48)) 0 s"

definition parseInt :: "string \<Rightarrow> int option" where
  "parseInt s =
     (let negative = prefix ''-'' s; ds = (if negative \<or> prefix ''+'' s then tl s else s) in
      if ds = [] \<or> \<not> list_all digit_char ds then None
      else let n = int (digits_value ds) in
        if negative then (if n \<le> 2 ^ 63 then Some (- n) else None) else (if n < 2 ^ 63 then Some n else None))"

definition IssuePreview :: "mac \<Rightarrow> string \<Rightarrow> string \<Rightarrow> int \<Rightarrow> string result" where
  "IssuePreview mac secret0 streamID0 expiresAt =
     (let secret = trimSpace secret0; streamID = trimSpace streamID0 in
      if secret = [] then Inl (ErrOther ''ingest token signing key is required'')
      else if streamID = [] \<or> expiresAt \<le> 0 then Inl (ErrOther ''preview token claims are incomplete'')
      else let encodedPayload = base64url (formatInt expiresAt @ ''.'' @ streamID) in
        Inr (PreviewPrefix @ ''.'' @ encodedPayload @ ''.'' @ signWithPrefix mac secret PreviewPrefix encodedPayload))"

definition Expiry :: "time \<Rightarrow> time \<Rightarrow> int" where
  "Expiry now ttl = unix (now + (if ttl \<le> 0 then 12 * 3600 * second else ttl))"

abbreviation mismatch :: "string \<Rightarrow> string \<Rightarrow> bool" where
  "mismatch wanted given \<equiv> wanted \<noteq> [] \<and> given \<noteq> wanted"

text \<open>The argument \<open>clock\<close> is the reading used when the caller gives no time.\<close>

definition Verify :: "mac \<Rightarrow> (string \<Rightarrow> claims option) \<Rightarrow> time \<Rightarrow> string \<Rightarrow> string \<Rightarrow> expected \<Rightarrow> claims result" where
  "Verify mac unmarshal clock secret0 token x =
     (let secret = trimSpace secret0; parts = splitOn (CHR ''.'') token in
      if secret = [] then Inl (ErrOther ''ingest token signing key is required'')
      else if length parts \<noteq> 3 \<or> parts ! 0 \<noteq> Prefix then Inl (ErrOther ''invalid ingest token format'')
      else if parts ! 2 \<noteq> sign mac secret (parts ! 1) then Inl (ErrOther ''invalid ingest token signature'')
      else (case base64url_decode (parts ! 1) of None \<Rightarrow> Inl (ErrOther ''invalid ingest token payload'') | Some payload \<Rightarrow>
        (case unmarshal payload of None \<Rightarrow> Inl (ErrOther ''invalid ingest token claims'') | Some c \<Rightarrow>
          let now = (if isZero (ex_Now x) then clock else ex_Now x) in
          if cl_ExpiresAt c \<le> 0 \<or> unix now > cl_ExpiresAt c then Inl (ErrOther ''ingest token expired'')
          else if mismatch (ex_StreamID x) (cl_StreamID c) then Inl (ErrOther ''ingest token stream mismatch'')
          else if mismatch (ex_ServiceID x) (cl_ServiceID c) then Inl (ErrOther ''ingest token service id mismatch'')
          else if mismatch (ex_ServiceType x) (cl_ServiceType c) then Inl (ErrOther ''ingest token service type mismatch'')
          else if mismatch (ex_Purpose x) (cl_Purpose c) then Inl (ErrOther ''ingest token purpose mismatch'')
          else if mismatch (ex_Audience x) (cl_Audience c) then Inl (ErrOther ''ingest token audience mismatch'')
          else Inr c)))"

text \<open>\<^verbatim>\<open>strings.Cut\<close> at the first dot.\<close>

definition cut :: "char \<Rightarrow> string \<Rightarrow> (string \<times> string) option" where
  "cut c s = (if c \<in> set s then Some (takeWhile (\<lambda>x. x \<noteq> c) s, tl (dropWhile (\<lambda>x. x \<noteq> c) s)) else None)"

definition VerifyPreview :: "mac \<Rightarrow> time \<Rightarrow> string \<Rightarrow> string \<Rightarrow> time \<Rightarrow> (string \<times> int) result" where
  "VerifyPreview mac clock secret0 token now0 =
     (let secret = trimSpace secret0; parts = splitOn (CHR ''.'') (trimSpace token) in
      if secret = [] then Inl (ErrOther ''ingest token signing key is required'')
      else if length parts \<noteq> 3 \<or> parts ! 0 \<noteq> PreviewPrefix then Inl (ErrOther ''invalid preview token format'')
      else if parts ! 2 \<noteq> signWithPrefix mac secret PreviewPrefix (parts ! 1) then Inl (ErrOther ''invalid preview token signature'')
      else (case base64url_decode (parts ! 1) of None \<Rightarrow> Inl (ErrOther ''invalid preview token payload'') | Some payload \<Rightarrow>
        (case cut (CHR ''.'') payload of None \<Rightarrow> Inl (ErrOther ''invalid preview token claims'') | Some (expiresText, streamID) \<Rightarrow>
          if trimSpace streamID = [] then Inl (ErrOther ''invalid preview token claims'')
          else (case parseInt expiresText of None \<Rightarrow> Inl (ErrOther ''invalid preview token expiry'') | Some expiresAt \<Rightarrow>
            if expiresAt \<le> 0 then Inl (ErrOther ''invalid preview token expiry'')
            else let now = (if isZero now0 then clock else now0) in
              if unix now > expiresAt then Inl (ErrOther ''preview token expired'') else Inr (streamID, expiresAt)))))"

definition IsSigned :: "string \<Rightarrow> bool" where
  "IsSigned token \<longleftrightarrow> prefix (Prefix @ ''.'') token"

subsection \<open>Round trips and authenticity\<close>

lemma digit_char_of: "m < 10 \<Longrightarrow> digit_char (char_of (48 + m))" for m :: nat
  by (simp add: digit_char_def)

lemma decimal_digits: "list_all digit_char (decimal n) \<and> decimal n \<noteq> []"
proof (induction n rule: decimal.induct)
  case (1 n)
  then show ?case using digit_char_of [of n] digit_char_of [of "n mod 10"] by (subst (1 2) decimal.simps) auto
qed

lemma digits_value_snoc [simp]: "digits_value (s @ [c]) = 10 * digits_value s + (octet c - 48)"
  by (simp add: digits_value_def)

lemma digits_value_decimal: "digits_value (decimal n) = n"
proof (induction n rule: decimal.induct)
  case (1 n)
  have "octet (char_of (48 + m :: nat)) - 48 = m" if "m < 10" for m :: nat using that by simp
  then show ?case using 1 by (subst decimal.simps) (auto simp: digits_value_def [of "[_]"])
qed

lemma parse_format:
  assumes "0 < n" and "n < 2 ^ 63"
  shows "parseInt (formatInt n) = Some n"
proof -
  have "\<not> digit_char (CHR ''-'')" "\<not> digit_char (CHR ''+'')" by code_simp+
  then have "\<not> prefix ''-'' (decimal (nat n))" "\<not> prefix ''+'' (decimal (nat n))"
    using decimal_digits [of "nat n"] by (auto simp: prefix_def)
  then show ?thesis using assms decimal_digits [of "nat n"] by (simp add: parseInt_def formatInt_def digits_value_decimal)
qed

lemma token_parts:
  assumes "CHR ''.'' \<notin> set p"
  shows "splitOn (CHR ''.'') (p @ ''.'' @ base64url x @ ''.'' @ base64url y) = [p, base64url x, base64url y]"
  using assms base64url_no_dot [of x] base64url_no_dot [of y] by (simp add: splitOn_append_sep splitOn_no_sep)

lemma prefixes: "CHR ''.'' \<notin> set Prefix" "CHR ''.'' \<notin> set PreviewPrefix" "PreviewPrefix \<noteq> Prefix"
  by code_simp+

lemma cut_first: "c \<notin> set x \<Longrightarrow> cut c (x @ c # y) = Some (x, y)"
  by (simp add: cut_def takeWhile_append dropWhile_append)

lemma splitOn_join: "splitOn c s = p # ps \<Longrightarrow> s = p @ concat (map (Cons c) ps)"
proof (induction s arbitrary: p ps)
  case (Cons a s)
  obtain q qs where s: "splitOn c s = q # qs" by (cases "splitOn c s") auto
  show ?case
  proof (cases "a = c")
    case True
    then have "p = []" "ps = q # qs" using Cons.prems s by auto
    then show ?thesis using Cons.IH [OF s] True by (metis append_Nil append_Cons concat.simps(2) list.map(2))
  next
    case False
    then have "p = a # q" "ps = qs" using Cons.prems s by auto
    then show ?thesis using Cons.IH [OF s] by (metis append_Cons)
  qed
qed simp

lemma base64url_last: "plain (last (CHR ''.'' # base64url s))"
proof -
  have "list_all (\<lambda>n. plain (b64_digit n)) [0..<64]" "plain (CHR ''-'')" "plain (CHR ''_'')" "plain (CHR ''.'')" by code_simp+
  then have "plain x" if "x \<in> set (base64url s)" for x
    using that b64_encode_chars [of _ s] by (fastforce simp: base64url_def list_all_iff)
  then show ?thesis using \<open>plain (CHR ''.'')\<close> by simp
qed

lemma signed_trim:
  "trimSpace (PreviewPrefix @ ''.'' @ p @ ''.'' @ base64url y) = PreviewPrefix @ ''.'' @ p @ ''.'' @ base64url y"
  "trimSpace (Prefix @ ''.'' @ p @ ''.'' @ base64url y) = Prefix @ ''.'' @ p @ ''.'' @ base64url y"
proof -
  have "plain (CHR ''a'')" by code_simp
  then show "trimSpace (PreviewPrefix @ ''.'' @ p @ ''.'' @ base64url y) = PreviewPrefix @ ''.'' @ p @ ''.'' @ base64url y"
    "trimSpace (Prefix @ ''.'' @ p @ ''.'' @ base64url y) = Prefix @ ''.'' @ p @ ''.'' @ base64url y"
    using base64url_last [of y] by (auto intro!: trimSpace_ends simp: PreviewPrefix_def Prefix_def)
qed

text \<open>What a verifier asks of the claims it accepts, and the time it goes by.\<close>

definition current :: "time \<Rightarrow> time \<Rightarrow> time" where
  "current clock now = (if isZero now then clock else now)"

definition agrees :: "expected \<Rightarrow> claims \<Rightarrow> bool" where
  "agrees x c \<longleftrightarrow> \<not> mismatch (ex_StreamID x) (cl_StreamID c) \<and> \<not> mismatch (ex_ServiceID x) (cl_ServiceID c) \<and>
     \<not> mismatch (ex_ServiceType x) (cl_ServiceType c) \<and> \<not> mismatch (ex_Purpose x) (cl_Purpose c) \<and> \<not> mismatch (ex_Audience x) (cl_Audience c)"

lemma issued_accepted:
  assumes "Issue mac marshal secret c = Inr token" and "unmarshal (marshal c) = Some c"
    and "agrees x c" and "unix (current clock (ex_Now x)) \<le> cl_ExpiresAt c"
  shows "Verify mac unmarshal clock secret token x = Inr c"
proof -
  let ?p = "base64url (marshal c)"
  have token: "token = Prefix @ ''.'' @ ?p @ ''.'' @ sign mac (trimSpace secret) ?p" "trimSpace secret \<noteq> []" "0 < cl_ExpiresAt c"
    using assms(1) by (auto simp: Issue_def Let_def split: if_splits)
  have "splitOn (CHR ''.'') token = [Prefix, ?p, sign mac (trimSpace secret) ?p]"
    unfolding token(1) sign_def signWithPrefix_def by (rule token_parts [OF prefixes(1)])
  then show ?thesis using token(2,3) assms(2-4)
    by (auto simp: Verify_def Let_def base64url_round_trip agrees_def current_def)
qed

lemma accepted_signed:
  assumes "Verify mac unmarshal clock secret token x = Inr c"
  shows "\<exists>p. token = Prefix @ ''.'' @ p @ ''.'' @ sign mac (trimSpace secret) p \<and> Option.bind (base64url_decode p) unmarshal = Some c \<and>
    agrees x c \<and> unix (current clock (ex_Now x)) \<le> cl_ExpiresAt c"
proof -
  let ?parts = "splitOn (CHR ''.'') token"
  have parts: "length ?parts = 3" "?parts ! 0 = Prefix" "?parts ! 2 = sign mac (trimSpace secret) (?parts ! 1)"
    "Option.bind (base64url_decode (?parts ! 1)) unmarshal = Some c" "agrees x c" "unix (current clock (ex_Now x)) \<le> cl_ExpiresAt c"
    using assms by (auto simp: Verify_def Let_def agrees_def current_def split: if_splits option.splits)
  then obtain p sig where eq: "?parts = [Prefix, p, sig]" by (auto simp: numeral_3_eq_3 length_Suc_conv)
  with splitOn_join [OF eq] parts show ?thesis by (intro exI [of _ p]) simp
qed

lemma preview_accepted:
  assumes "IssuePreview mac secret streamID expiresAt = Inr token" and "expiresAt < 2 ^ 63" and "unix (current clock now) \<le> expiresAt"
  shows "VerifyPreview mac clock secret token now = Inr (trimSpace streamID, expiresAt)"
proof -
  let ?p = "base64url (formatInt expiresAt @ ''.'' @ trimSpace streamID)"
  have token: "token = PreviewPrefix @ ''.'' @ ?p @ ''.'' @ signWithPrefix mac (trimSpace secret) PreviewPrefix ?p"
    "trimSpace secret \<noteq> []" "0 < expiresAt" "trimSpace streamID \<noteq> []"
    using assms(1) by (auto simp: IssuePreview_def Let_def split: if_splits)
  have parts: "splitOn (CHR ''.'') (trimSpace token) = [PreviewPrefix, ?p, signWithPrefix mac (trimSpace secret) PreviewPrefix ?p]"
    unfolding token(1) signWithPrefix_def signed_trim(1) by (rule token_parts [OF prefixes(2)])
  have "\<not> digit_char (CHR ''.'')" by code_simp
  then have "CHR ''.'' \<notin> set (formatInt expiresAt)" using decimal_digits [of "nat expiresAt"] token(3) by (auto simp: formatInt_def list_all_iff)
  then have "cut (CHR ''.'') (formatInt expiresAt @ ''.'' @ trimSpace streamID) = Some (formatInt expiresAt, trimSpace streamID)"
    by (simp add: cut_first)
  then show ?thesis using parts token(2-) assms(2,3)
    by (simp add: VerifyPreview_def Let_def base64url_round_trip parse_format current_def)
qed

lemma accepted_no_preview:
  assumes "Verify mac unmarshal clock secret token x = Inr c"
  shows "VerifyPreview mac clock' secret' token now \<noteq> Inr r"
proof -
  obtain p where "token = Prefix @ ''.'' @ p @ ''.'' @ sign mac (trimSpace secret) p" using accepted_signed [OF assms] by blast
  then have "splitOn (CHR ''.'') (trimSpace token) = Prefix # splitOn (CHR ''.'') (p @ ''.'' @ sign mac (trimSpace secret) p)"
    using signed_trim(2) [of p] splitOn_append_sep [OF prefixes(1)] by (simp add: sign_def signWithPrefix_def)
  then show ?thesis using prefixes(3) by (auto simp: VerifyPreview_def Let_def)
qed


definition sample_claims :: claims where
  "sample_claims = \<lparr>cl_StreamID = ''s1'', cl_ServiceID = ''enc1'', cl_ServiceType = ''encoder_recorder'', cl_Purpose = ''ingest'',
     cl_Audience = ''worker'', cl_ExpiresAt = 900\<rparr>"

definition sample_mac :: mac where
  "sample_mac key message = key @ ''|'' @ message"

definition sample_expected :: "time \<Rightarrow> expected" where
  "sample_expected now = \<lparr>ex_StreamID = ''s1'', ex_ServiceID = [], ex_ServiceType = [], ex_Purpose = ''ingest'', ex_Audience = [], ex_Now = now\<rparr>"

definition sample_codec :: "string \<Rightarrow> claims option" where
  "sample_codec s = (if s = ''{}'' then Some sample_claims else None)"


end
