(* ===== verification/Cover_Properties.thy ===== *)
theory Cover_Properties
  imports Video_Cover Ingest_Tokens
begin

text \<open>
  What the cover repository guarantees over every sequence of its operations: an idempotency key and
  a revision reach the encoder at most once, only the identical request is answered as its repetition,
  and an outcome that was recorded as applied or failed stays.
\<close>

subsection \<open>Steps of the repository\<close>

inductive cover_step :: "(string \<Rightarrow> string) \<Rightarrow> cover_repository \<Rightarrow> cover_repository \<Rightarrow> bool" for sha where
  create_preset: "cover_step sha m (snd (CreatePreset now p m))"
| update_preset: "cover_step sha m (snd (UpdatePreset now i p expected m))"
| delete_preset: "cover_step sha m (snd (DeletePreset now i actor expected m))"
| ensure_generation: "cover_step sha m (snd (EnsureGeneration now streamID generation variantID desired m))"
| record_start: "cover_step sha m (snd (RecordStartApplied now streamID generation active revn m))"
| prepare: "cover_step sha m (snd (PrepareAction sha now streamID request m))"
| applied: "cover_step sha m (snd (RecordApplied now streamID generation key active revn m))"
| ambiguous: "cover_step sha m (snd (RecordAmbiguous now streamID generation key m))"
| failed: "cover_step sha m (snd (RecordFailed now streamID generation key failure m))"

text \<open>An action keeps what it asked for, and changes nothing any more once it is resolved.\<close>

definition continues :: "memory_action \<Rightarrow> memory_action \<Rightarrow> bool" where
  "continues a a' \<longleftrightarrow>
     ma_Fingerprint a' = ma_Fingerprint a \<and> ma_RequestedRevision a' = ma_RequestedRevision a \<and>
     ma_RequestedAssetVariantID a' = ma_RequestedAssetVariantID a \<and> (actionMayResolve (ma_Status a) \<or> a' = a)"

lemma continues_refl [simp]: "continues a a"
  by (simp add: continues_def)

lemma continues_trans: "continues a b \<Longrightarrow> continues b c \<Longrightarrow> continues a c"
  by (auto simp: continues_def)

lemma put_state_actions [simp]: "actions (put_state streamID generation state m) = actions m"
  by (simp add: put_state_def)

lemma record_outcome_actions [simp]:
  "actions (snd (record_outcome streamID generation key state action action' state' m)) =
     mput (actions m) (actionKey streamID generation key) action'"
  by (simp add: record_outcome_def Let_def)

lemma step_continues:
  assumes "cover_step sha m m'" and "mget (actions m) k = Some a"
  shows "\<exists>a'. mget (actions m') k = Some a' \<and> continues a a'"
  using assms
  by (induction rule: cover_step.induct)
    (auto simp: CreatePreset_def UpdatePreset_def DeletePreset_def EnsureGeneration_def RecordStartApplied_def PrepareAction_def
      RecordApplied_def RecordAmbiguous_def RecordFailed_def Let_def continues_def split: option.splits)

lemma steps_continue:
  assumes "(cover_step sha)\<^sup>*\<^sup>* m m'" and "mget (actions m) k = Some a"
  shows "\<exists>a'. mget (actions m') k = Some a' \<and> continues a a'"
  using assms(1)
proof (induction rule: rtranclp_induct)
  case base
  show ?case using assms(2) by auto
next
  case (step m' m'')
  then show ?case by (meson step_continues continues_trans)
qed

lemma prepared_is_stored:
  assumes "PrepareAction sha now streamID request m = (Inr p, m')"
  shows "\<exists>a. mget (actions m') (actionKey streamID (ar_ExpectedJobGeneration request) (ar_IdempotencyKey request)) = Some a \<and>
    ma_Fingerprint a = RequestFingerprint sha request \<and> ma_RequestedRevision a = pa_RequestedRevision p \<and>
    ma_RequestedAssetVariantID a = pa_RequestedAssetVariantID p"
  using assms by (auto simp: PrepareAction_def Let_def replayed_def split: option.splits if_splits)

lemma dispatched_is_new:
  assumes "PrepareAction sha now streamID request m = (Inr p, m')" and "pa_Dispatch p"
  shows "mget (actions m) (actionKey streamID (ar_ExpectedJobGeneration request) (ar_IdempotencyKey request)) = None"
    and "\<not> revision_taken streamID (ar_ExpectedJobGeneration request) (pa_RequestedRevision p) m"
  using assms by (auto simp: PrepareAction_def Let_def replayed_def split: option.splits if_splits)

lemma known_is_repeated:
  assumes "PrepareAction sha now streamID request m = (Inr p, m')"
    and "mget (actions m) (actionKey streamID (ar_ExpectedJobGeneration request) (ar_IdempotencyKey request)) = Some a"
  shows "pa_Replay p \<and> \<not> pa_Dispatch p \<and> pa_RequestedRevision p = ma_RequestedRevision a \<and>
    pa_RequestedAssetVariantID p = ma_RequestedAssetVariantID a \<and> pa_Outcome p = ma_Status a \<and>
    RequestFingerprint sha request = ma_Fingerprint a \<and> m' = m"
  using assms by (auto simp: PrepareAction_def Let_def replayed_def split: option.splits if_splits)

lemma stored_revision_taken:
  assumes "mget (actions m) (actionKey streamID generation key) = Some a"
  shows "revision_taken streamID generation (ma_RequestedRevision a) m"
  using mget_in [OF assms] by (force simp: revision_taken_def list_ex_iff actionKey_def prefix_def)

lemma prepared_is_valid:
  "PrepareAction sha now streamID request m = (Inr p, m') \<Longrightarrow> ValidateRequest request = None"
  by (auto simp: PrepareAction_def split: option.splits)

text \<open>An outcome that is no longer open is answered the same way for ever.\<close>

lemma resolved_outcome_is_final:
  assumes "LookupActionOutcome sha streamID request m = (Inr (p, True), m)" and "\<not> actionMayResolve (pa_Outcome p)"
    and "(cover_step sha)\<^sup>*\<^sup>* m m'" and "LookupActionOutcome sha streamID request m' = (Inr (p', found), m')"
  shows "found \<and> pa_Outcome p' = pa_Outcome p \<and> pa_SafeErrorCode p' = pa_SafeErrorCode p \<and>
    pa_RequestedRevision p' = pa_RequestedRevision p"
proof -
  from assms(1) obtain a where
    a: "mget (actions m) (actionKey streamID (ar_ExpectedJobGeneration request) (ar_IdempotencyKey request)) = Some a"
      "pa_Outcome p = ma_Status a" "pa_SafeErrorCode p = ma_SafeErrorCode a" "pa_RequestedRevision p = ma_RequestedRevision a"
    by (auto simp: LookupActionOutcome_def replayed_def split: option.splits if_splits)
  with steps_continue [OF assms(3) a(1)] assms(2)
  have "mget (actions m') (actionKey streamID (ar_ExpectedJobGeneration request) (ar_IdempotencyKey request)) = Some a"
    by (auto simp: continues_def)
  with assms(4) a show ?thesis by (auto simp: LookupActionOutcome_def replayed_def split: option.splits if_splits)
qed

subsection \<open>Fingerprints\<close>

lemma rune_bytes:
  assumes "s \<noteq> []" and "DecodeRune s = (r, w, True)" and "c \<in> set (take w s)"
  shows "(r, c) = (byte c, hd s) \<or> 128 \<le> byte c"
proof -
  from assms(3) obtain i where i: "i < w" "i < length s" "c = s ! i" by (auto simp: in_set_conv_nth)
  have "w \<le> 4" using assms(2) by (simp add: DecodeRune_def Let_def split: if_splits)
  with i have "i = 0 \<or> i = 1 \<or> i = 2 \<or> i = 3" by auto
  then show ?thesis using assms(1,2) i
    by (elim disjE) (auto simp: DecodeRune_def Let_def continuation_def hd_conv_nth split: if_splits)
qed

lemma valid_newline:
  assumes "ValidString s" and "CHR 0x0A \<in> set s"
  shows "(10, True) \<in> set (runes s)"
  using assms
proof (induction s rule: runes.induct)
  case (1 s)
  obtain r w ok where decoded: "DecodeRune s = (r, w, ok)" by (metis prod_cases3)
  have s: "s \<noteq> []" using 1(3) by auto
  then have runes: "runes s = (r, ok) # runes (drop w s)" by (subst runes.simps) (simp add: decoded)
  then have valid: "ok" "ValidString (drop w s)" using 1(2) by (simp_all add: ValidString_def)
  from 1(3) have "CHR 0x0A \<in> set (take w s) \<or> CHR 0x0A \<in> set (drop w s)" by (metis append_take_drop_id Un_iff set_append)
  then show ?case
  proof
    assume "CHR 0x0A \<in> set (take w s)"
    with rune_bytes [OF s, of r w "CHR 0x0A"] decoded valid(1) have "r = 10" by simp
    then show ?thesis using runes valid(1) by simp
  next
    assume "CHR 0x0A \<in> set (drop w s)"
    then show ?thesis using 1(1) [OF s decoded [symmetric] refl valid(2)] runes by simp
  qed
qed

lemma valid_key_one_line: "validActionIdempotencyKey key \<Longrightarrow> CHR 0x0A \<notin> set key"
  using valid_newline [of key] by (force simp: validActionIdempotencyKey_def Let_def list_all_iff split: if_splits)

lemma decimal_one_line: "CHR 0x0A \<notin> set (decimal n)"
  using decimal_digits [of n] by (auto simp: list_all_iff digit_char_def)

lemma decimal_eq [simp]: "decimal m = decimal n \<longleftrightarrow> m = n"
  by (metis digits_value_decimal)

lemma fingerprint_lines:
  assumes "ValidateRequest request = None"
  shows "splitOn (CHR 0x0A) (fingerprint_text request) =
    [''active='' @ (if ar_Active request then ''true'' else ''false''), ''generation='' @ decimal (unat (ar_ExpectedJobGeneration request)),
     ''revision='' @ decimal (unat (ar_ExpectedRevision request)), ''idempotency='' @ ar_IdempotencyKey request] @
    (if ar_CandidateVariantID request = [] then []
     else [''candidate='' @ ar_CandidateVariantID request, ''visual='' @ decimal (unat (ar_ExpectedVisualRevision request))])"
proof -
  have "CHR 0x0A \<notin> set (ar_IdempotencyKey request)" and "ar_CandidateVariantID request \<noteq> [] \<Longrightarrow> CHR 0x0A \<notin> set (ar_CandidateVariantID request)"
    using assms valid_key_one_line by (auto simp: ValidateRequest_def split: if_splits)
  then show ?thesis
    by (simp add: fingerprint_text_def splitOn_append_sep splitOn_no_sep decimal_one_line)
qed

lemma fingerprint_inj:
  assumes "ValidateRequest request = None" and "ValidateRequest request' = None"
    and "fingerprint_text request = fingerprint_text request'"
  shows "request = request'"
proof -
  note lines = fingerprint_lines [OF assms(1)] fingerprint_lines [OF assms(2)]
  have same: "ar_Active request = ar_Active request'" "ar_ExpectedJobGeneration request = ar_ExpectedJobGeneration request'"
    "ar_ExpectedRevision request = ar_ExpectedRevision request'" "ar_IdempotencyKey request = ar_IdempotencyKey request'"
    "ar_CandidateVariantID request = ar_CandidateVariantID request'"
    "ar_CandidateVariantID request \<noteq> [] \<Longrightarrow> ar_ExpectedVisualRevision request = ar_ExpectedVisualRevision request'"
    using lines unfolding assms(3) by (auto simp: word_unat_eq_iff split: if_splits)
  moreover have "ar_HideConfirmed request = ar_HideConfirmed request'" "ar_CandidateVariantID request = [] \<Longrightarrow> ar_ExpectedVisualRevision request = ar_ExpectedVisualRevision request'"
    using assms(1,2) same by (auto simp: ValidateRequest_def split: if_splits)
  ultimately show ?thesis by (cases "ar_CandidateVariantID request = []") (auto intro: action_request.equality)
qed

text \<open>
  C22. An accepted action is sent to the encoder at most once. After a request was prepared for sending, and whatever
  operations follow, a later request for the same generation of the stream that is accepted under the same
  idempotency key is the same request, is not sent, and is answered with the same revision and variant;
  and one accepted under another key never gets the same revision, even after the 64-bit counter has
  wrapped around. (The hash does not collide on the two requests.)
\<close>

theorem cover_action_dispatched_once:
  assumes sent: "PrepareAction sha now streamID request m = (Inr p, m1)" "pa_Dispatch p"
    and steps: "(cover_step sha)\<^sup>*\<^sup>* m1 m2"
    and later: "PrepareAction sha now' streamID request' m2 = (Inr p', m3)"
    and same: "ar_ExpectedJobGeneration request' = ar_ExpectedJobGeneration request"
    and hash: "sha (fingerprint_text request') = sha (fingerprint_text request) \<Longrightarrow> fingerprint_text request' = fingerprint_text request"
  shows "if ar_IdempotencyKey request' = ar_IdempotencyKey request
    then request' = request \<and> pa_Replay p' \<and> \<not> pa_Dispatch p' \<and> m3 = m2 \<and>
      pa_RequestedRevision p' = pa_RequestedRevision p \<and> pa_RequestedAssetVariantID p' = pa_RequestedAssetVariantID p
    else pa_Dispatch p' \<longrightarrow> pa_RequestedRevision p' \<noteq> pa_RequestedRevision p"
proof -
  from prepared_is_stored [OF sent(1)] obtain b where
    b: "mget (actions m1) (actionKey streamID (ar_ExpectedJobGeneration request) (ar_IdempotencyKey request)) = Some b"
      "ma_Fingerprint b = RequestFingerprint sha request" "ma_RequestedRevision b = pa_RequestedRevision p"
      "ma_RequestedAssetVariantID b = pa_RequestedAssetVariantID p" by blast
  with steps_continue [OF steps b(1)] obtain a where
    a: "mget (actions m2) (actionKey streamID (ar_ExpectedJobGeneration request) (ar_IdempotencyKey request)) = Some a"
      "ma_Fingerprint a = RequestFingerprint sha request" "ma_RequestedRevision a = pa_RequestedRevision p"
      "ma_RequestedAssetVariantID a = pa_RequestedAssetVariantID p"
    by (auto simp: continues_def)
  show ?thesis
  proof (cases "ar_IdempotencyKey request' = ar_IdempotencyKey request")
    case True
    with a(1) same have "mget (actions m2) (actionKey streamID (ar_ExpectedJobGeneration request') (ar_IdempotencyKey request')) = Some a" by simp
    note repeated = known_is_repeated [OF later this]
    then have "fingerprint_text request' = fingerprint_text request" using a(2) hash by (simp add: RequestFingerprint_def)
    then have "request' = request" using fingerprint_inj prepared_is_valid [OF later] prepared_is_valid [OF sent(1)] by blast
    with repeated a True show ?thesis by simp
  next
    case False
    have "revision_taken streamID (ar_ExpectedJobGeneration request') (pa_RequestedRevision p) m2"
      using stored_revision_taken [OF a(1)] a(3) same by simp
    with dispatched_is_new(2) [OF later] False show ?thesis by auto
  qed
qed

subsection \<open>Preset names\<close>

text \<open>
  A rename compares the name as it was sent but stores it trimmed, so that a padded name passes beside the
  preset that already has it. (The SQL repository trims first.)
\<close>

definition named_preset :: "string \<Rightarrow> preset" where
  "named_preset name = \<lparr>ps_ID = [], ps_Name = name, ps_AssetID = ''a'', ps_AssetVariantID = ''v'', ps_Enabled = True, ps_SystemPreset = False,
     ps_ReleaseKey = [], ps_Revision = 0, ps_CreatedByUserID = ''u'', ps_UpdatedByUserID = [], ps_DeletedAt = None, ps_CreatedAt = 0,
     ps_UpdatedAt = 0, ps_LowResolutionWarning = False\<rparr>"

lemma padded_rename_duplicates_preset:
  "let m1 = snd (CreatePreset 1 (named_preset ''A'') NewMemoryRepository); m2 = snd (CreatePreset 2 (named_preset ''B'') m1) in
   fst (CreatePreset 3 (named_preset ''A'') m2) = Inl IdempotencyConflict \<and>
   map ps_Name (case fst (ListPresets (snd (UpdatePreset 3 (fmtID 2) (named_preset '' A '') 1 m2))) of Inr ps \<Rightarrow> ps | Inl _ \<Rightarrow> []) = [''A'', ''A'']"
  by code_simp

subsection \<open>An example\<close>

definition cover_request :: action_request where
  "cover_request = \<lparr>ar_CandidateVariantID = [], ar_ExpectedVisualRevision = 0, ar_Active = True, ar_ExpectedJobGeneration = 1,
     ar_ExpectedRevision = 1, ar_IdempotencyKey = ''k1'', ar_HideConfirmed = False\<rparr>"

definition covered_stream :: cover_repository where
  "covered_stream = snd (EnsureGeneration 5 ''s1'' 1 ''v1'' False NewMemoryRepository)"

definition sent_action :: "prepared_action covered" where
  "sent_action = PrepareAction (\<lambda>s. s) 6 ''s1'' cover_request covered_stream"

definition applied_action :: cover_repository where
  "applied_action = snd (RecordApplied 7 ''s1'' 1 ''k1'' True 2 (snd sent_action))"

definition repeated_action :: "prepared_action covered" where
  "repeated_action = PrepareAction (\<lambda>s. s) 8 ''s1'' cover_request applied_action"

lemma sample_action:
  "case fst sent_action of Inr p \<Rightarrow> pa_Dispatch p | Inl _ \<Rightarrow> False"
  "case repeated_action of (Inr p, m) \<Rightarrow> True | _ \<Rightarrow> False"
  by code_simp+

theorem cover_action_dispatched_once_witness:
  "\<exists>p p'. fst sent_action = Inr p \<and> fst repeated_action = Inr p' \<and> pa_Dispatch p \<and> pa_Replay p' \<and> \<not> pa_Dispatch p' \<and>
     pa_RequestedRevision p' = pa_RequestedRevision p"
proof -
  obtain p p' m where p: "sent_action = (Inr p, snd sent_action)" "pa_Dispatch p" and p': "repeated_action = (Inr p', m)"
    using sample_action by (auto split: sum.splits simp: prod_eq_iff)
  have "(cover_step (\<lambda>s. s))\<^sup>*\<^sup>* (snd sent_action) applied_action" unfolding applied_action_def by (intro r_into_rtranclp applied)
  from cover_action_dispatched_once [OF p(1) [unfolded sent_action_def] p(2) this [unfolded sent_action_def] p' [unfolded repeated_action_def] refl]
  show ?thesis using p p' by (metis fst_conv)
qed

end
