(* ===== verification/Self_Update.thy ===== *)
theory Self_Update
  imports Service_Catalog
begin

text \<open>
  The self-updates of the agents on the update hosts, \<^verbatim>\<open>system_update_host_self_update*.go\<close> and the
  ownership of a host, \<^verbatim>\<open>system_update_execution_hosts.go\<close>, on the memory store. An administrator creates
  a self-update; the agent asks for a grant, a one-time token that the host's root process consumes
  before it stages the release; the heartbeats of the agent move the update to its end. The operations
  read the service registry and the updater policies, which are arguments.

  The package \<^verbatim>\<open>golang.org/x/mod/semver\<close>, JSON encoding and SHA-256 are parameters; identifiers and random
  tokens are arguments. Times are instants; where the code asks whether a time it was given is in UTC and has not
  converted it before, the answer is a field of the record.
\<close>

subsection \<open>Data\<close>

datatype update_error =
    UpdateContext
  | UpdateNotFound
  | UpdateAlreadyExists
  | UpdateRandom
  | UpdateMarshal
  | InvalidSystemUpdateHostSelfUpdate
  | HostSelfUpdateBusy
  | HostSelfUpdateStale
  | HostSelfUpdateState
  | HostSelfUpdateCancel
  | HostSelfUpdateGrantInvalid
  | HostSelfUpdateExpired
  | HostSelfUpdateConsumed
  | UpdateOwnershipConflict
  | ExecutionHostBusy
  | ExecutionHostStale
  | InvalidExecutionHost
  | RuntimeTokenRotationBusy
  | AgentInactive
  | AgentNotReady

record execution_host =
  eh_ExecutionHostID :: string
  eh_TransportMode :: string
  eh_AgentServiceID :: string
  eh_OwnershipEpoch :: int
  eh_PolicyRevision :: int
  eh_CreatedAt :: time
  eh_UpdatedAt :: time

text \<open>
  Of the jobs, the token rotations and the updater policies, which other parts of the store manage, the
  fields that decide here: a job of the second port protocol that needs recovery still holds its host.
\<close>

record update_job =
  uj_ExecutionHostID :: string
  uj_Operation :: string
  uj_PortContractVersion :: "int option"
  uj_RecoveryRequired :: bool
  uj_Status :: string

record token_rotation =
  tr_ExecutionHostID :: string
  tr_Status :: string

record updater_policy =
  up_UpdaterID :: string
  up_Revision :: int
  up_ProjectionRevision :: int
  up_LocalExecutorPolicyRevision :: int
  up_TransportMode :: string
  up_ExecutionHostID :: string
  up_LocalExecutorPolicySHA256 :: string

record release_binding =
  rl_Tag :: string
  rl_Commit :: string
  rl_PublishedAt :: time
  rl_ManifestAssetID :: int
  rl_ManifestAssetName :: string
  rl_ManifestSHA256 :: string
  rl_ManifestChecksumAssetID :: int
  rl_ManifestChecksumSHA256 :: string
  rl_ArchiveAssetID :: int
  rl_ArchiveAssetName :: string
  rl_ArchiveSize :: int
  rl_ArchiveSHA256 :: string
  rl_ArchiveChecksumAssetID :: int
  rl_ArchiveChecksumSHA256 :: string
  rl_Arch :: string
  rl_AgentProtocolVersion :: int
  rl_ExecutorProtocolVersion :: int
  rl_MutationProtocolVersion :: int
  rl_RecoveryProtocolVersion :: int
  rl_MinimumPanelVersion :: string

text \<open>The metadata of a release are its binding and the time its attestation was verified.\<close>

record release_metadata = release_binding +
  rl_AttestationVerifiedAt :: time
  rl_PublishedInUTC :: bool
  rl_AttestationInUTC :: bool

record self_update =
  su_ID :: string
  su_ExecutionHostID :: string
  su_AgentServiceID :: string
  su_TargetVersion :: string
  su_Status :: string
  su_Revision :: int
  su_IdempotencyKey :: string
  su_RequestedByUsername :: string
  su_RetryOfID :: string
  su_AttemptGeneration :: string
  su_ExpectedOwnershipEpoch :: int
  su_ExpectedSourcePolicyRevision :: int
  su_ExpectedProjectionRevision :: int
  su_ExpectedLocalExecutorPolicyRevision :: int
  su_ExpectedLocalExecutorPolicySHA256 :: string
  su_PreviousAgentVersion :: string
  su_PreviousExecutorVersion :: string
  su_PreviousAgentProtocolVersion :: int
  su_PreviousExecutorProtocolVersion :: int
  su_PreviousMutationProtocolVersion :: int
  su_PreviousRecoveryProtocolVersion :: int
  su_Release :: release_metadata
  su_IssuedAt :: time
  su_ObservationState :: string
  su_ReportedPhase :: string
  su_LastHeartbeatAt :: "time option"
  su_StalledSince :: "time option"
  su_CancelRequestedAt :: "time option"
  su_StartedAt :: "time option"
  su_CompletedAt :: "time option"
  su_Code :: string
  su_Message :: string
  su_CreatedAt :: time
  su_UpdatedAt :: time
  su_requestedByUserID :: string
  su_intentSHA256 :: string

record create_params =
  cp_ExecutionHostID :: string
  cp_TargetVersion :: string
  cp_IdempotencyKey :: string
  cp_RequestedByUserID :: string
  cp_RequestedByUsername :: string
  cp_RetryOfID :: string
  cp_Release :: release_metadata
  cp_Now :: time

record retry_params =
  rp_ID :: string
  rp_IdempotencyKey :: string
  rp_RequestedByUserID :: string
  rp_RequestedByUsername :: string
  rp_Now :: time

record observation =
  ob_ExecutionHostID :: string
  ob_AgentServiceID :: string
  ob_ExpectedRevision :: int
  ob_Now :: time
  ob_HeartbeatAt :: time
  ob_AgentVersion :: string
  ob_AgentProtocolVersion :: int
  ob_ExecutorVersion :: string
  ob_ExecutorProtocolVersion :: int
  ob_MutationProtocolVersion :: int
  ob_RecoveryProtocolVersion :: int
  ob_Phase :: string
  ob_PendingGeneration :: string
  ob_FailedGeneration :: string
  ob_HeartbeatGeneration :: string
  ob_ActiveAgentVersion :: string
  ob_ActiveExecutorVersion :: string
  ob_RecoveryPending :: bool

record update_grant =
  gr_ID :: string
  gr_SelfUpdateID :: string
  gr_AttemptGeneration :: string
  gr_Operation :: string
  gr_ExecutionHostID :: string
  gr_AgentServiceID :: string
  gr_ExpectedSelfUpdateRevision :: int
  gr_ExpectedOwnershipEpoch :: int
  gr_ExpectedSourcePolicyRevision :: int
  gr_ExpectedProjectionRevision :: int
  gr_ExpectedLocalExecutorPolicyRevision :: int
  gr_ExpectedLocalExecutorPolicySHA256 :: string
  gr_AgentVersion :: string
  gr_ExecutorVersion :: string
  gr_ReleaseCommit :: string
  gr_ArtifactSHA256 :: string
  gr_AgentProtocolVersion :: int
  gr_ExecutorProtocolVersion :: int
  gr_MutationProtocolVersion :: int
  gr_RecoveryProtocolVersion :: int
  gr_Release :: release_binding
  gr_DirectiveIssuedAt :: time
  gr_PlanSHA256 :: string
  gr_SessionID :: string
  gr_Revision :: int
  gr_IssuedAt :: time
  gr_ExpiresAt :: time
  gr_ConsumedAt :: "time option"
  gr_StageClaimRevision :: int
  gr_StageClaimedAt :: "time option"
  gr_CreatedAt :: time
  gr_UpdatedAt :: time
  gr_tokenHash :: string

record issue_params =
  ip_SelfUpdateID :: string
  ip_ExecutionHostID :: string
  ip_AgentServiceID :: string
  ip_ExpectedRevision :: int
  ip_Operation :: string
  ip_PlanSHA256 :: string
  ip_SessionID :: string
  ip_Now :: time
  ip_TTL :: time

record issue_result =
  is_Grant :: update_grant
  is_RawToken :: string
  is_Issued :: bool

record consume_params =
  co_RawToken :: string
  co_Binding :: update_grant
  co_Now :: time

record consume_result =
  cr_Grant :: update_grant
  cr_Consumed :: bool

text \<open>The maps of \<^verbatim>\<open>MemorySystemUpdateStore\<close> that the operations read or write.\<close>

record update_store =
  updateJobs :: "update_job gomap"
  executionHosts :: "execution_host gomap"
  runtimeTokenRotations :: "token_rotation gomap"
  hostSelfUpdates :: "self_update gomap"
  hostSelfUpdateGrants :: "update_grant gomap"

definition NewMemorySystemUpdateStore :: update_store where
  "NewMemorySystemUpdateStore =
     \<lparr>updateJobs = [], executionHosts = [], runtimeTokenRotations = [], hostSelfUpdates = [], hostSelfUpdateGrants = []\<rparr>"

type_synonym 'a updated = "(update_error + 'a) \<times> update_store"


subsection \<open>Values\<close>

definition control_char :: "char \<Rightarrow> bool" where
  "control_char c \<longleftrightarrow> c < CHR 0x20 \<or> c = CHR 0x7F"

text \<open>A byte below 128 is a rune of its own, also where the encoding is broken.\<close>

definition containsControl :: "string \<Rightarrow> bool" where
  "containsControl value = list_ex control_char value"

definition lower_hex_digits :: "nat \<Rightarrow> string \<Rightarrow> bool" where
  "lower_hex_digits n s \<longleftrightarrow>
     length s = n \<and> list_all (\<lambda>c. CHR ''0'' \<le> c \<and> c \<le> CHR ''9'' \<or> CHR ''a'' \<le> c \<and> c \<le> CHR ''f'') s"

text \<open>The pattern of versions: three numbers, and a suffix of alphanumeric parts between dots and dashes.\<close>

definition systemUpdateJobVersionPattern :: "string \<Rightarrow> bool" where
  "systemUpdateJobVersionPattern s =
     (case s of [] \<Rightarrow> False
      | v # rest \<Rightarrow>
        let core = takeWhile (\<lambda>c. c \<noteq> CHR ''-'') rest; suffix = drop (length core) rest; numbers = splitOn (CHR ''.'') core;
            parts = concat (map (splitOn (CHR ''-'')) (splitOn (CHR ''.'') (tl suffix))) in
        v = CHR ''v'' \<and> length numbers = 3 \<and> list_all (\<lambda>n. n \<noteq> [] \<and> list_all digit n) numbers \<and>
        (suffix = [] \<or> list_all (\<lambda>part. part \<noteq> [] \<and> list_all id_head part) parts))"

definition systemUpdateHostSelfUpdateCommitPattern :: "string \<Rightarrow> bool" where
  "systemUpdateHostSelfUpdateCommitPattern = lower_hex_digits 40"

definition systemUpdateHostSelfUpdateDigestPattern :: "string \<Rightarrow> bool" where
  "systemUpdateHostSelfUpdateDigestPattern = lower_hex_digits 64"

definition systemUpdateHostSelfUpdatePolicyDigestPattern :: "string \<Rightarrow> bool" where
  "systemUpdateHostSelfUpdatePolicyDigestPattern s \<longleftrightarrow> prefix ''sha256:'' s \<and> lower_hex_digits 64 (drop 7 s)"

definition systemUpdateHostReleaseBinding :: "release_metadata \<Rightarrow> release_binding" where
  "systemUpdateHostReleaseBinding release = release_binding.truncate release"

text \<open>\<^verbatim>\<open>sameSystemUpdateHostReleaseBinding\<close> compares every field of the struct.\<close>

definition sameSystemUpdateHostReleaseBinding :: "release_binding \<Rightarrow> release_binding \<Rightarrow> bool" where
  "sameSystemUpdateHostReleaseBinding l r \<longleftrightarrow> l = r"

definition isTerminalSystemUpdateHostSelfUpdateStatus :: "string \<Rightarrow> bool" where
  "isTerminalSystemUpdateHostSelfUpdateStatus status \<longleftrightarrow>
     status = ''succeeded'' \<or> status = ''rolled_back'' \<or> status = ''failed'' \<or> status = ''canceled''"

definition publicSystemUpdateHostSelfUpdate :: "self_update \<Rightarrow> self_update" where
  "publicSystemUpdateHostSelfUpdate update = update\<lparr>su_requestedByUserID := [], su_intentSHA256 := []\<rparr>"

definition publicSystemUpdateHostSelfUpdateGrant :: "update_grant \<Rightarrow> update_grant" where
  "publicSystemUpdateHostSelfUpdateGrant grant = grant\<lparr>gr_tokenHash := []\<rparr>"

subsection \<open>Who holds a host\<close>

definition isTerminalSystemUpdateStatus :: "string \<Rightarrow> bool" where
  "isTerminalSystemUpdateStatus status \<longleftrightarrow>
     status = ''succeeded'' \<or> status = ''rolled_back'' \<or> status = ''failed'' \<or> status = ''canceled''"

definition isSystemUpdatePortV2 :: "update_job \<Rightarrow> bool" where
  "isSystemUpdatePortV2 job \<longleftrightarrow> uj_Operation job = ''port_reconfigure'' \<and> uj_PortContractVersion job = Some 2"

definition systemUpdateJobHoldsHost :: "update_job \<Rightarrow> bool" where
  "systemUpdateJobHoldsHost job \<longleftrightarrow>
     \<not> isTerminalSystemUpdateStatus (uj_Status job) \<or> isSystemUpdatePortV2 job \<and> uj_RecoveryRequired job"

definition job_on_host :: "string \<Rightarrow> update_store \<Rightarrow> bool" where
  "job_on_host executionHostID s =
     list_ex (\<lambda>job. uj_ExecutionHostID job = executionHostID \<and> systemUpdateJobHoldsHost job) (map snd (updateJobs s))"

definition isActiveSystemUpdateRuntimeTokenRotation :: "token_rotation \<Rightarrow> bool" where
  "isActiveSystemUpdateRuntimeTokenRotation rotation \<longleftrightarrow>
     tr_Status rotation \<in> {''staged'', ''local_staged'', ''heartbeat_proved'', ''cancel_requested''}"

definition activeMemorySystemUpdateRuntimeTokenRotationForHostLocked :: "update_store \<Rightarrow> string \<Rightarrow> token_rotation option" where
  "activeMemorySystemUpdateRuntimeTokenRotationForHostLocked s executionHostID =
     find (\<lambda>r. tr_ExecutionHostID r = executionHostID \<and> isActiveSystemUpdateRuntimeTokenRotation r) (map snd (runtimeTokenRotations s))"

definition activeMemorySystemUpdateHostSelfUpdateForHostLocked :: "update_store \<Rightarrow> string \<Rightarrow> self_update option" where
  "activeMemorySystemUpdateHostSelfUpdateForHostLocked s executionHostID =
     find (\<lambda>u. su_ExecutionHostID u = executionHostID \<and> \<not> isTerminalSystemUpdateHostSelfUpdateStatus (su_Status u))
       (map snd (hostSelfUpdates s))"

definition syntheticSystemUpdateExecutionHost :: "string \<Rightarrow> execution_host" where
  "syntheticSystemUpdateExecutionHost executionHostID =
     \<lparr>eh_ExecutionHostID = executionHostID, eh_TransportMode = SystemUpdateTransportPullV2, eh_AgentServiceID = [],
      eh_OwnershipEpoch = 0, eh_PolicyRevision = 0, eh_CreatedAt = 0, eh_UpdatedAt = 0\<rparr>"

definition host_or_synthetic :: "update_store \<Rightarrow> string \<Rightarrow> execution_host" where
  "host_or_synthetic s i = (case mget (executionHosts s) i of None \<Rightarrow> syntheticSystemUpdateExecutionHost i | Some host \<Rightarrow> host)"

definition GetSystemUpdateExecutionHost :: "bool \<Rightarrow> string \<Rightarrow> update_store \<Rightarrow> execution_host updated" where
  "GetSystemUpdateExecutionHost canceled executionHostID0 s =
     (let i = trimSpace executionHostID0 in
      if canceled then (Inl UpdateContext, s)
      else if \<not> executionHostIDPattern i then (Inl InvalidExecutionHost, s)
      else (Inr (host_or_synthetic s i), s))"

definition validateSystemUpdateExecutionHostSwitch :: "string \<Rightarrow> int \<Rightarrow> string \<Rightarrow> string \<Rightarrow> int \<Rightarrow> bool" where
  "validateSystemUpdateExecutionHostSwitch executionHostID expectedEpoch transportMode agentServiceID policyRevision \<longleftrightarrow>
     executionHostIDPattern executionHostID \<and> expectedEpoch \<ge> 0 \<and> transportMode = SystemUpdateTransportPullV2 \<and>
     serviceIDPattern agentServiceID \<and> policyRevision \<ge> 0"

definition SwitchSystemUpdateExecutionHost ::
  "bool \<Rightarrow> time \<Rightarrow> string \<Rightarrow> int \<Rightarrow> string \<Rightarrow> string \<Rightarrow> int \<Rightarrow> update_store \<Rightarrow> execution_host updated" where
  "SwitchSystemUpdateExecutionHost canceled now executionHostID0 expectedEpoch transportMode0 agentServiceID0 policyRevision s =
     (let i = trimSpace executionHostID0; transportMode = toLower (trimSpace transportMode0); agentServiceID = trimSpace agentServiceID0;
          current = host_or_synthetic s i in
      if canceled then (Inl UpdateContext, s)
      else if \<not> validateSystemUpdateExecutionHostSwitch i expectedEpoch transportMode agentServiceID policyRevision
      then (Inl InvalidExecutionHost, s)
      else if eh_OwnershipEpoch current \<noteq> expectedEpoch then (Inl ExecutionHostStale, s)
      else if job_on_host i s then (Inl ExecutionHostBusy, s)
      else if activeMemorySystemUpdateRuntimeTokenRotationForHostLocked s i \<noteq> None then (Inl RuntimeTokenRotationBusy, s)
      else let host = \<lparr>eh_ExecutionHostID = i, eh_TransportMode = transportMode, eh_AgentServiceID = agentServiceID,
             eh_OwnershipEpoch = eh_OwnershipEpoch current + 1, eh_PolicyRevision = policyRevision,
             eh_CreatedAt = (if isZero (eh_CreatedAt current) then now else eh_CreatedAt current), eh_UpdatedAt = now\<rparr> in
        (Inr host, s\<lparr>executionHosts := mput (executionHosts s) i host\<rparr>))"

subsection \<open>Readiness of an agent\<close>

record previous_runtime =
  pr_agentVersion :: string
  pr_executorVersion :: string
  pr_agentProtocol :: int
  pr_executorProtocol :: int
  pr_mutationProtocol :: int
  pr_recoveryProtocol :: int

definition updaterPolicyCapabilityBool :: "any option \<Rightarrow> bool" where
  "updaterPolicyCapabilityBool value = (case value of Some (ABool b) \<Rightarrow> b | _ \<Rightarrow> False)"

definition updaterPolicyCapabilityString :: "any option \<Rightarrow> string" where
  "updaterPolicyCapabilityString value = trimSpace (case value of Some (AStr text) \<Rightarrow> text | _ \<Rightarrow> [])"

text \<open>
  The integer that a double is, if it is one below \<open>2\<^sup>6\<^sup>3\<close> and not negative: sign, exponent and
  fraction of its bit pattern. Numbers in capabilities come from JSON and are doubles.
\<close>

definition float_int :: "float64 \<Rightarrow> int option" where
  "float_int w =
     (let bits = uint w; negative = bits div 2 ^ 63 = 1; e = bits div 2 ^ 52 mod 2 ^ 11; fraction = bits mod 2 ^ 52; m = 2 ^ 52 + fraction in
      if e = 0 \<and> fraction = 0 then Some 0
      else if negative then None
      else if 1075 \<le> e \<and> e \<le> 1085 then Some (m * 2 ^ nat (e - 1075))
      else if 1023 \<le> e \<and> e < 1075 \<and> m mod 2 ^ nat (1075 - e) = 0 then Some (m div 2 ^ nat (1075 - e))
      else None)"

definition updaterPolicyCapabilityInt64 :: "any option \<Rightarrow> int option" where
  "updaterPolicyCapabilityInt64 value = (case value of Some (ANum w) \<Rightarrow> float_int w | _ \<Rightarrow> None)"

text \<open>\<^verbatim>\<open>strconv.Atoi\<close> also takes a sign; a negative number is no protocol.\<close>

definition protocol_text :: "string \<Rightarrow> int option" where
  "protocol_text text = (case text of [] \<Rightarrow> None | c # cs \<Rightarrow> atoi (if c = CHR ''+'' then cs else text))"

definition hostSelfUpdateCapabilityProtocol :: "any option \<Rightarrow> int option" where
  "hostSelfUpdateCapabilityProtocol value =
     (case updaterPolicyCapabilityInt64 value of
        Some parsed \<Rightarrow> if parsed \<ge> 1 then Some parsed else None
      | None \<Rightarrow>
        (case value of
           Some (AStr text) \<Rightarrow>
             (case protocol_text (trimSpace text) of Some parsed \<Rightarrow> if parsed \<ge> 1 then Some parsed else None | None \<Rightarrow> None)
         | _ \<Rightarrow> None))"

definition systemUpdateHostSelfUpdateTargetIsStrictlyNewer ::
  "(string \<Rightarrow> bool) \<Rightarrow> (string \<Rightarrow> string \<Rightarrow> int) \<Rightarrow> string \<Rightarrow> string \<Rightarrow> string \<Rightarrow> bool" where
  "systemUpdateHostSelfUpdateTargetIsStrictlyNewer semverValid semverCompare target agent executor \<longleftrightarrow>
     semverValid target \<and> semverValid agent \<and> semverValid executor \<and> semverCompare target agent > 0 \<and> semverCompare target executor > 0"

definition systemUpdateHostSelfUpdateCurrentProtocolsAreCompatible :: "previous_runtime \<Rightarrow> bool" where
  "systemUpdateHostSelfUpdateCurrentProtocolsAreCompatible current \<longleftrightarrow>
     pr_agentProtocol current \<ge> 2 \<and> pr_executorProtocol current \<ge> 2 \<and> pr_mutationProtocol current \<ge> 2 \<and> pr_recoveryProtocol current \<ge> 2"

definition validateSystemUpdateHostSelfUpdateReady ::
  "(string \<Rightarrow> bool) \<Rightarrow> (string \<Rightarrow> string \<Rightarrow> int) \<Rightarrow> execution_host \<Rightarrow> updater_policy \<Rightarrow> registered_service \<Rightarrow> release_metadata \<Rightarrow>
   update_error + previous_runtime" where
  "validateSystemUpdateHostSelfUpdateReady semverValid semverCompare ownership policy agent release =
     (let caps = mget (sv_ReportedCapabilities agent);
          agentVersion = trimSpace (sv_ReportedVersion agent);
          executorVersion = updaterPolicyCapabilityString (caps ''executor_version'');
          protocol = (\<lambda>name. hostSelfUpdateCapabilityProtocol (caps name)) in
      if eh_TransportMode ownership \<noteq> SystemUpdateTransportPullV2 \<or> eh_OwnershipEpoch ownership < 1 \<or> eh_AgentServiceID ownership = [] \<or>
        up_UpdaterID policy \<noteq> eh_AgentServiceID ownership \<or> up_TransportMode policy \<noteq> SystemUpdateTransportPullV2 \<or>
        up_ExecutionHostID policy \<noteq> eh_ExecutionHostID ownership \<or> up_ProjectionRevision policy \<noteq> eh_PolicyRevision ownership \<or>
        up_Revision policy < 1 \<or> up_ProjectionRevision policy < 1 \<or> up_LocalExecutorPolicyRevision policy < 1 \<or>
        \<not> systemUpdateHostSelfUpdatePolicyDigestPattern (up_LocalExecutorPolicySHA256 policy) \<or>
        sv_ServiceID agent \<noteq> eh_AgentServiceID ownership \<or> sv_ServiceType agent \<noteq> ''update_agent'' \<or>
        sv_TransportMode agent \<noteq> SystemUpdateTransportPullV2 \<or> sv_ExecutionHostID agent \<noteq> eh_ExecutionHostID ownership \<or>
        sv_OwnershipEpoch agent \<noteq> eh_OwnershipEpoch ownership
      then Inl UpdateOwnershipConflict
      else if \<not> updaterPolicyCapabilityBool (caps ''self_update_ready'') \<or> \<not> updaterPolicyCapabilityBool (caps ''mutation_enabled'') \<or>
        updaterPolicyCapabilityBool (caps ''recovery_pending'') \<or>
        toLower (updaterPolicyCapabilityString (caps ''self_update_phase'')) \<noteq> ''stable'' \<or>
        toLower (trimSpace (sv_ReportedOS agent)) \<noteq> ''linux'' \<or> toLower (trimSpace (sv_ReportedArch agent)) \<noteq> rl_Arch release
      then Inl ExecutionHostBusy
      else if updaterPolicyCapabilityString (caps ''self_update_active_agent_version'') \<noteq> agentVersion \<or>
        updaterPolicyCapabilityString (caps ''self_update_active_executor_version'') \<noteq> executorVersion
      then Inl AgentNotReady
      else (case (protocol ''agent_protocol_version'', protocol ''executor_protocol_version'',
                  protocol ''mutation_protocol_version'', protocol ''recovery_protocol_version'') of
        (Some a, Some e, Some mu, Some r) \<Rightarrow>
          let previous = \<lparr>pr_agentVersion = agentVersion, pr_executorVersion = executorVersion, pr_agentProtocol = a,
                pr_executorProtocol = e, pr_mutationProtocol = mu, pr_recoveryProtocol = r\<rparr> in
          if \<not> systemUpdateHostSelfUpdateCurrentProtocolsAreCompatible previous \<or> \<not> systemUpdateJobVersionPattern agentVersion \<or>
            \<not> systemUpdateJobVersionPattern executorVersion \<or>
            \<not> systemUpdateHostSelfUpdateTargetIsStrictlyNewer semverValid semverCompare (rl_Tag release) agentVersion executorVersion
          then Inl AgentNotReady else Inr previous
      | _ \<Rightarrow> Inl AgentNotReady))"

definition validateMemorySystemUpdateHostSelfUpdateReady ::
  "(string \<Rightarrow> bool) \<Rightarrow> (string \<Rightarrow> string \<Rightarrow> int) \<Rightarrow> auth_store \<Rightarrow> execution_host \<Rightarrow> updater_policy \<Rightarrow> registered_service \<Rightarrow>
   release_metadata \<Rightarrow> update_error + previous_runtime" where
  "validateMemorySystemUpdateHostSelfUpdateReady semverValid semverCompare registry ownership policy agent release =
     (case validateSystemUpdateHostSelfUpdateReady semverValid semverCompare ownership policy agent release of
        Inl e \<Rightarrow> Inl e
      | Inr previous \<Rightarrow>
        (case mget (serviceTokens registry) (sv_TokenID agent) of
           None \<Rightarrow> Inl AgentInactive
         | Some token \<Rightarrow>
           if tk_RevokedAt token \<noteq> None \<or> tk_ServiceType token \<noteq> ''update_agent'' then Inl AgentInactive else Inr previous))"


subsection \<open>Creation\<close>

definition ListSystemUpdateHostSelfUpdates :: "bool \<Rightarrow> int \<Rightarrow> update_store \<Rightarrow> self_update list updated" where
  "ListSystemUpdateHostSelfUpdates canceled limit0 s =
     (let limit = (if limit0 \<le> 0 \<or> limit0 > 500 then 100 else limit0);
          result = rev (sort_key (\<lambda>u. (su_CreatedAt u, su_ID u)) (map (publicSystemUpdateHostSelfUpdate \<circ> snd) (hostSelfUpdates s))) in
      if canceled then (Inl UpdateContext, s) else (Inr (take (nat limit) result), s))"

definition GetSystemUpdateHostSelfUpdate :: "bool \<Rightarrow> string \<Rightarrow> update_store \<Rightarrow> self_update updated" where
  "GetSystemUpdateHostSelfUpdate canceled id0 s =
     (let i = trimSpace id0 in
      if canceled then (Inl UpdateContext, s)
      else if \<not> serviceIDPattern i then (Inl InvalidSystemUpdateHostSelfUpdate, s)
      else (case mget (hostSelfUpdates s) i of
        None \<Rightarrow> (Inl UpdateNotFound, s)
      | Some update \<Rightarrow> (Inr (publicSystemUpdateHostSelfUpdate update), s)))"

definition GetActiveSystemUpdateHostSelfUpdateByExecutionHost :: "bool \<Rightarrow> string \<Rightarrow> update_store \<Rightarrow> self_update updated" where
  "GetActiveSystemUpdateHostSelfUpdateByExecutionHost canceled executionHostID0 s =
     (let i = trimSpace executionHostID0 in
      if canceled then (Inl UpdateContext, s)
      else if \<not> executionHostIDPattern i then (Inl InvalidSystemUpdateHostSelfUpdate, s)
      else (case activeMemorySystemUpdateHostSelfUpdateForHostLocked s i of
        None \<Rightarrow> (Inl UpdateNotFound, s)
      | Some update \<Rightarrow> (Inr (publicSystemUpdateHostSelfUpdate update), s)))"

definition trimmed_release :: "release_metadata \<Rightarrow> release_metadata" where
  "trimmed_release r =
     r\<lparr>rl_Tag := trimSpace (rl_Tag r), rl_Commit := trimSpace (rl_Commit r), rl_ManifestAssetName := trimSpace (rl_ManifestAssetName r),
       rl_ManifestSHA256 := trimSpace (rl_ManifestSHA256 r), rl_ManifestChecksumSHA256 := trimSpace (rl_ManifestChecksumSHA256 r),
       rl_ArchiveAssetName := trimSpace (rl_ArchiveAssetName r), rl_ArchiveSHA256 := trimSpace (rl_ArchiveSHA256 r),
       rl_ArchiveChecksumSHA256 := trimSpace (rl_ArchiveChecksumSHA256 r), rl_Arch := toLower (trimSpace (rl_Arch r)),
       rl_MinimumPanelVersion := trimSpace (rl_MinimumPanelVersion r)\<rparr>"

definition normalizeCreateSystemUpdateHostSelfUpdateParams :: "create_params \<Rightarrow> create_params" where
  "normalizeCreateSystemUpdateHostSelfUpdateParams p =
     p\<lparr>cp_ExecutionHostID := trimSpace (cp_ExecutionHostID p), cp_TargetVersion := trimSpace (cp_TargetVersion p),
       cp_IdempotencyKey := trimSpace (cp_IdempotencyKey p), cp_RequestedByUserID := trimSpace (cp_RequestedByUserID p),
       cp_RequestedByUsername := trimSpace (cp_RequestedByUsername p), cp_RetryOfID := trimSpace (cp_RetryOfID p),
       cp_Release := trimmed_release (cp_Release p)\<rparr>"

definition valid_release :: "time \<Rightarrow> release_metadata \<Rightarrow> bool" where
  "valid_release now r \<longleftrightarrow>
     \<not> (isZero (rl_PublishedAt r) \<or> \<not> rl_PublishedInUTC r \<or> isZero (rl_AttestationVerifiedAt r) \<or> \<not> rl_AttestationInUTC r \<or>
        rl_AttestationVerifiedAt r > now \<or> rl_ManifestAssetID r \<le> 0 \<or> rl_ManifestChecksumAssetID r \<le> 0 \<or> rl_ArchiveAssetID r \<le> 0 \<or>
        rl_ArchiveChecksumAssetID r \<le> 0 \<or>
        \<not> distinct [rl_ManifestAssetID r, rl_ManifestChecksumAssetID r, rl_ArchiveAssetID r, rl_ArchiveChecksumAssetID r] \<or>
        rl_ManifestAssetName r \<noteq> ''host-agent-manifest.json'' \<or>
        rl_ArchiveAssetName r \<noteq> ''autostream-host-agent_'' @ rl_Tag r @ ''_linux_'' @ rl_Arch r @ ''.tar.gz'' \<or>
        \<not> systemUpdateHostSelfUpdateDigestPattern (rl_ManifestSHA256 r) \<or> \<not> systemUpdateHostSelfUpdateDigestPattern (rl_ManifestChecksumSHA256 r) \<or>
        \<not> systemUpdateHostSelfUpdateDigestPattern (rl_ArchiveSHA256 r) \<or> \<not> systemUpdateHostSelfUpdateDigestPattern (rl_ArchiveChecksumSHA256 r) \<or>
        rl_ArchiveSize r \<le> 0 \<or> rl_Arch r \<noteq> ''amd64'' \<and> rl_Arch r \<noteq> ''arm64'' \<or>
        rl_AgentProtocolVersion r < 1 \<or> rl_ExecutorProtocolVersion r < 1 \<or> rl_MutationProtocolVersion r < 1 \<or>
        rl_RecoveryProtocolVersion r < 1 \<or> \<not> systemUpdateJobVersionPattern (rl_MinimumPanelVersion r))"

definition validateCreateSystemUpdateHostSelfUpdateParams :: "(string \<Rightarrow> bool) \<Rightarrow> create_params \<Rightarrow> bool" where
  "validateCreateSystemUpdateHostSelfUpdateParams semverValid p \<longleftrightarrow>
     \<not> (\<not> executionHostIDPattern (cp_ExecutionHostID p) \<or> \<not> systemUpdateJobVersionPattern (cp_TargetVersion p) \<or>
        \<not> semverValid (cp_TargetVersion p) \<or> rl_Tag (cp_Release p) \<noteq> cp_TargetVersion p \<or>
        \<not> systemUpdateJobVersionPattern (rl_Tag (cp_Release p)) \<or> \<not> systemUpdateHostSelfUpdateCommitPattern (rl_Commit (cp_Release p)) \<or>
        cp_IdempotencyKey p = [] \<or> length (cp_IdempotencyKey p) > 128 \<or> containsControl (cp_IdempotencyKey p) \<or>
        \<not> serviceIDPattern (cp_RequestedByUserID p) \<or> cp_RequestedByUsername p = [] \<or> length (cp_RequestedByUsername p) > 255 \<or>
        containsControl (cp_RequestedByUsername p) \<or> cp_RetryOfID p \<noteq> [] \<and> \<not> serviceIDPattern (cp_RetryOfID p) \<or> isZero (cp_Now p)) \<and>
     valid_release (cp_Now p) (cp_Release p)"

text \<open>The hash of the JSON encoding of host, version, retried update and release, if they can be encoded.\<close>

definition systemUpdateHostSelfUpdateIntentSHA256 ::
  "(string \<Rightarrow> string \<Rightarrow> string \<Rightarrow> release_binding \<Rightarrow> string option) \<Rightarrow> (string \<Rightarrow> string) \<Rightarrow> create_params \<Rightarrow> string option" where
  "systemUpdateHostSelfUpdateIntentSHA256 marshal sha256hex p =
     map_option sha256hex
       (marshal (cp_ExecutionHostID p) (cp_TargetVersion p) (cp_RetryOfID p) (systemUpdateHostReleaseBinding (cp_Release p)))"

definition new_self_update ::
  "string \<Rightarrow> string \<Rightarrow> create_params \<Rightarrow> string \<Rightarrow> execution_host \<Rightarrow> updater_policy \<Rightarrow> registered_service \<Rightarrow> previous_runtime \<Rightarrow> self_update" where
  "new_self_update uuid generation p intent ownership policy agent previous =
     \<lparr>su_ID = uuid, su_ExecutionHostID = cp_ExecutionHostID p, su_AgentServiceID = sv_ServiceID agent, su_TargetVersion = cp_TargetVersion p,
      su_Status = ''queued'', su_Revision = 1, su_IdempotencyKey = cp_IdempotencyKey p, su_RequestedByUsername = cp_RequestedByUsername p,
      su_RetryOfID = cp_RetryOfID p, su_AttemptGeneration = generation, su_ExpectedOwnershipEpoch = eh_OwnershipEpoch ownership,
      su_ExpectedSourcePolicyRevision = up_Revision policy, su_ExpectedProjectionRevision = up_ProjectionRevision policy,
      su_ExpectedLocalExecutorPolicyRevision = up_LocalExecutorPolicyRevision policy,
      su_ExpectedLocalExecutorPolicySHA256 = up_LocalExecutorPolicySHA256 policy, su_PreviousAgentVersion = pr_agentVersion previous,
      su_PreviousExecutorVersion = pr_executorVersion previous, su_PreviousAgentProtocolVersion = pr_agentProtocol previous,
      su_PreviousExecutorProtocolVersion = pr_executorProtocol previous, su_PreviousMutationProtocolVersion = pr_mutationProtocol previous,
      su_PreviousRecoveryProtocolVersion = pr_recoveryProtocol previous, su_Release = cp_Release p, su_IssuedAt = cp_Now p,
      su_ObservationState = ''unknown'', su_ReportedPhase = [], su_LastHeartbeatAt = None, su_StalledSince = None,
      su_CancelRequestedAt = None, su_StartedAt = None, su_CompletedAt = None, su_Code = [], su_Message = [],
      su_CreatedAt = cp_Now p, su_UpdatedAt = cp_Now p, su_requestedByUserID = cp_RequestedByUserID p, su_intentSHA256 = intent\<rparr>"

text \<open>The packages the operations call, and the two stores they only read.\<close>

record update_env =
  ue_semverValid :: "string \<Rightarrow> bool"
  ue_semverCompare :: "string \<Rightarrow> string \<Rightarrow> int"
  ue_marshal :: "string \<Rightarrow> string \<Rightarrow> string \<Rightarrow> release_binding \<Rightarrow> string option"
  ue_sha256hex :: "string \<Rightarrow> string"
  ue_registry :: auth_store
  ue_policies :: "updater_policy gomap"

definition createMemorySystemUpdateHostSelfUpdateLocked ::
  "update_env \<Rightarrow> string \<Rightarrow> string \<Rightarrow> create_params \<Rightarrow> string \<Rightarrow> update_store \<Rightarrow> (self_update \<times> bool) updated" where
  "createMemorySystemUpdateHostSelfUpdateLocked en uuid generation p intent s =
     (case find (\<lambda>u. su_requestedByUserID u = cp_RequestedByUserID p \<and> su_IdempotencyKey u = cp_IdempotencyKey p) (map snd (hostSelfUpdates s)) of
        Some existing \<Rightarrow>
          if su_intentSHA256 existing \<noteq> intent then (Inl UpdateAlreadyExists, s)
          else (Inr (publicSystemUpdateHostSelfUpdate existing, False), s)
      | None \<Rightarrow>
        if activeMemorySystemUpdateHostSelfUpdateForHostLocked s (cp_ExecutionHostID p) \<noteq> None then (Inl HostSelfUpdateBusy, s)
        else if activeMemorySystemUpdateRuntimeTokenRotationForHostLocked s (cp_ExecutionHostID p) \<noteq> None then (Inl RuntimeTokenRotationBusy, s)
        else if job_on_host (cp_ExecutionHostID p) s then (Inl ExecutionHostBusy, s)
        else (case mget (executionHosts s) (cp_ExecutionHostID p) of None \<Rightarrow> (Inl UpdateOwnershipConflict, s) | Some ownership \<Rightarrow>
          (case mget (ue_policies en) (eh_AgentServiceID ownership) of None \<Rightarrow> (Inl UpdateNotFound, s) | Some policy \<Rightarrow>
            (case mget (services (ue_registry en)) (eh_AgentServiceID ownership) of None \<Rightarrow> (Inl UpdateNotFound, s) | Some agent \<Rightarrow>
              (case validateMemorySystemUpdateHostSelfUpdateReady (ue_semverValid en) (ue_semverCompare en) (ue_registry en)
                  ownership policy agent (cp_Release p) of
                Inl e \<Rightarrow> (Inl e, s)
              | Inr previous \<Rightarrow>
                if hasStagedServiceNodeConfiguration agent then (Inl ExecutionHostBusy, s)
                else let update = new_self_update uuid generation p intent ownership policy agent previous in
                  (Inr (publicSystemUpdateHostSelfUpdate update, True),
                   s\<lparr>hostSelfUpdates := mput (hostSelfUpdates s) (su_ID update) update\<rparr>))))))"

definition CreateSystemUpdateHostSelfUpdate ::
  "update_env \<Rightarrow> bool \<Rightarrow> string \<Rightarrow> string \<Rightarrow> create_params \<Rightarrow> update_store \<Rightarrow> (self_update \<times> bool) updated" where
  "CreateSystemUpdateHostSelfUpdate en canceled uuid generation p0 s =
     (let p = normalizeCreateSystemUpdateHostSelfUpdateParams p0 in
      if \<not> validateCreateSystemUpdateHostSelfUpdateParams (ue_semverValid en) p then (Inl InvalidSystemUpdateHostSelfUpdate, s)
      else (case systemUpdateHostSelfUpdateIntentSHA256 (ue_marshal en) (ue_sha256hex en) p of
        None \<Rightarrow> (Inl UpdateMarshal, s)
      | Some intent \<Rightarrow>
        if canceled then (Inl UpdateContext, s)
        else createMemorySystemUpdateHostSelfUpdateLocked en uuid generation p intent s))"

definition RetrySystemUpdateHostSelfUpdate ::
  "update_env \<Rightarrow> bool \<Rightarrow> string \<Rightarrow> string \<Rightarrow> retry_params \<Rightarrow> update_store \<Rightarrow> (self_update \<times> bool) updated" where
  "RetrySystemUpdateHostSelfUpdate en canceled uuid generation p0 s =
     (let i = trimSpace (rp_ID p0); key = trimSpace (rp_IdempotencyKey p0); userID = trimSpace (rp_RequestedByUserID p0);
          username = trimSpace (rp_RequestedByUsername p0) in
      if \<not> serviceIDPattern i \<or> key = [] \<or> length key > 128 \<or> containsControl key \<or> \<not> serviceIDPattern userID \<or> username = [] \<or>
        isZero (rp_Now p0)
      then (Inl InvalidSystemUpdateHostSelfUpdate, s)
      else if canceled then (Inl UpdateContext, s)
      else (case mget (hostSelfUpdates s) i of None \<Rightarrow> (Inl UpdateNotFound, s) | Some previous \<Rightarrow>
        if \<not> isTerminalSystemUpdateHostSelfUpdateStatus (su_Status previous) then (Inl HostSelfUpdateState, s)
        else let create = normalizeCreateSystemUpdateHostSelfUpdateParams
               \<lparr>cp_ExecutionHostID = su_ExecutionHostID previous, cp_TargetVersion = su_TargetVersion previous, cp_IdempotencyKey = key,
                cp_RequestedByUserID = userID, cp_RequestedByUsername = username, cp_RetryOfID = su_ID previous,
                cp_Release = su_Release previous, cp_Now = rp_Now p0\<rparr> in
          if \<not> validateCreateSystemUpdateHostSelfUpdateParams (ue_semverValid en) create then (Inl InvalidSystemUpdateHostSelfUpdate, s)
          else (case systemUpdateHostSelfUpdateIntentSHA256 (ue_marshal en) (ue_sha256hex en) create of
            None \<Rightarrow> (Inl UpdateMarshal, s)
          | Some intent \<Rightarrow> createMemorySystemUpdateHostSelfUpdateLocked en uuid generation create intent s)))"

subsection \<open>Cancellation and observation\<close>

text \<open>The actor is only checked for its shape.\<close>

definition CancelSystemUpdateHostSelfUpdate ::
  "bool \<Rightarrow> string \<Rightarrow> string \<Rightarrow> int \<Rightarrow> time \<Rightarrow> update_store \<Rightarrow> self_update updated" where
  "CancelSystemUpdateHostSelfUpdate canceled id0 actorUserID0 expectedRevision now s =
     (let i = trimSpace id0; actorUserID = trimSpace actorUserID0 in
      if \<not> serviceIDPattern i \<or> \<not> serviceIDPattern actorUserID \<or> expectedRevision < 1 \<or> isZero now
      then (Inl InvalidSystemUpdateHostSelfUpdate, s)
      else if canceled then (Inl UpdateContext, s)
      else (case mget (hostSelfUpdates s) i of None \<Rightarrow> (Inl UpdateNotFound, s) | Some update \<Rightarrow>
        if su_Revision update \<noteq> expectedRevision then (Inl HostSelfUpdateStale, s)
        else if su_Status update \<noteq> ''queued'' then (Inl HostSelfUpdateCancel, s)
        else let update' = update\<lparr>su_Status := ''canceled'', su_Code := ''canceled_by_admin'', su_CompletedAt := cloneTimePtr (Some now),
               su_Revision := su_Revision update + 1, su_UpdatedAt := now\<rparr> in
          (Inr (publicSystemUpdateHostSelfUpdate update'), s\<lparr>hostSelfUpdates := mput (hostSelfUpdates s) i update'\<rparr>)))"

text \<open>The ranks of the statuses; a status that is not in the map has rank 0.\<close>

definition status_rank :: "string \<Rightarrow> int" where
  "status_rank status =
     (if status = ''staging'' then 1 else if status = ''activating'' then 2 else if status = ''verifying'' then 3
      else if status = ''rolling_back'' then 4 else if status = ''cancel_requested'' then 5 else 0)"

definition setSystemUpdateHostSelfUpdateStatus :: "string \<Rightarrow> time \<Rightarrow> self_update \<Rightarrow> self_update" where
  "setSystemUpdateHostSelfUpdateStatus status now update =
     (if isTerminalSystemUpdateHostSelfUpdateStatus (su_Status update) \<or> status_rank status < status_rank (su_Status update) then update
      else let update' = update\<lparr>su_Status := status\<rparr> in
        if su_StartedAt update' = None \<and> status \<noteq> ''queued'' then update'\<lparr>su_StartedAt := cloneTimePtr (Some now)\<rparr> else update')"

definition setSystemUpdateHostSelfUpdateTerminal :: "string \<Rightarrow> string \<Rightarrow> time \<Rightarrow> self_update \<Rightarrow> self_update" where
  "setSystemUpdateHostSelfUpdateTerminal status code now update =
     (if isTerminalSystemUpdateHostSelfUpdateStatus (su_Status update) then update
      else update\<lparr>su_Status := status, su_Code := code, su_CompletedAt := cloneTimePtr (Some now)\<rparr>)"

definition strictSystemUpdateHostSelfUpdateSuccess :: "self_update \<Rightarrow> observation \<Rightarrow> bool" where
  "strictSystemUpdateHostSelfUpdateSuccess update ob \<longleftrightarrow>
     su_Status update \<noteq> ''queued'' \<and> ob_HeartbeatGeneration ob = su_AttemptGeneration update \<and>
     ob_AgentVersion ob = su_TargetVersion update \<and> ob_ActiveAgentVersion ob = su_TargetVersion update \<and>
     ob_ExecutorVersion ob = su_TargetVersion update \<and> ob_ActiveExecutorVersion ob = su_TargetVersion update \<and>
     ob_AgentProtocolVersion ob = rl_AgentProtocolVersion (su_Release update) \<and>
     ob_ExecutorProtocolVersion ob = rl_ExecutorProtocolVersion (su_Release update) \<and>
     ob_MutationProtocolVersion ob = rl_MutationProtocolVersion (su_Release update) \<and>
     ob_RecoveryProtocolVersion ob = rl_RecoveryProtocolVersion (su_Release update)"

definition strictSystemUpdateHostSelfUpdateRollback :: "self_update \<Rightarrow> observation \<Rightarrow> bool" where
  "strictSystemUpdateHostSelfUpdateRollback update ob \<longleftrightarrow>
     ob_FailedGeneration ob = su_AttemptGeneration update \<and> ob_AgentVersion ob = su_PreviousAgentVersion update \<and>
     ob_ActiveAgentVersion ob = su_PreviousAgentVersion update \<and> ob_ExecutorVersion ob = su_PreviousExecutorVersion update \<and>
     ob_ActiveExecutorVersion ob = su_PreviousExecutorVersion update \<and>
     ob_AgentProtocolVersion ob = su_PreviousAgentProtocolVersion update \<and>
     ob_ExecutorProtocolVersion ob = su_PreviousExecutorProtocolVersion update \<and>
     ob_MutationProtocolVersion ob = su_PreviousMutationProtocolVersion update \<and>
     ob_RecoveryProtocolVersion ob = su_PreviousRecoveryProtocolVersion update"

definition advanceSystemUpdateHostSelfUpdateFromObservation :: "observation \<Rightarrow> self_update \<Rightarrow> self_update" where
  "advanceSystemUpdateHostSelfUpdateFromObservation ob update =
     (let phase = toLower (trimSpace (ob_Phase ob)); move = (\<lambda>status. setSystemUpdateHostSelfUpdateStatus status (ob_Now ob) update) in
      if phase \<noteq> ''stable'' \<and> ob_PendingGeneration ob \<noteq> su_AttemptGeneration update then update
      else if phase = ''staged'' then move ''staging''
      else if phase = ''activating'' then move ''activating''
      else if phase = ''verifying'' then move ''verifying''
      else if phase = ''rolling_back'' then move ''rolling_back''
      else if phase = ''stable'' then
        (if strictSystemUpdateHostSelfUpdateSuccess update ob
         then setSystemUpdateHostSelfUpdateTerminal ''succeeded'' ''succeeded'' (ob_Now ob) update
         else if strictSystemUpdateHostSelfUpdateRollback update ob
         then setSystemUpdateHostSelfUpdateTerminal ''rolled_back'' ''rolled_back'' (ob_Now ob) update
         else update)
      else update)"

definition heartbeat_stall_after :: time where
  "heartbeat_stall_after = 2 * 60 * second"

definition noted_change :: "time \<Rightarrow> self_update \<Rightarrow> self_update \<Rightarrow> self_update \<times> bool" where
  "noted_change now before update =
     (let changed = su_Status update \<noteq> su_Status before \<or> su_ObservationState update \<noteq> su_ObservationState before \<or>
            su_ReportedPhase update \<noteq> su_ReportedPhase before in
      (if changed then update\<lparr>su_Revision := su_Revision update + 1, su_UpdatedAt := now\<rparr> else update, changed))"

definition reconcileSystemUpdateHostSelfUpdateObservation :: "self_update \<Rightarrow> observation \<Rightarrow> update_error + self_update \<times> bool" where
  "reconcileSystemUpdateHostSelfUpdateObservation update ob =
     (let phase = toLower (trimSpace (ob_Phase ob)); beat = cloneTimePtr (Some (ob_HeartbeatAt ob));
          finish = (\<lambda>update'. Inr (noted_change (ob_Now ob) update update')) in
      if isZero (ob_HeartbeatAt ob)
      then finish (update\<lparr>su_ObservationState := ''unknown'', su_ReportedPhase := [], su_StalledSince := None\<rparr>)
      else if ob_Now ob - ob_HeartbeatAt ob > heartbeat_stall_after
      then finish (update\<lparr>su_ObservationState := ''stalled'',
        su_StalledSince := (if su_StalledSince update = None then cloneTimePtr (Some (ob_HeartbeatAt ob + heartbeat_stall_after)) else su_StalledSince update),
        su_LastHeartbeatAt := beat\<rparr>)
      else if ob_RecoveryPending ob
      then finish (update\<lparr>su_ObservationState := ''unknown'', su_ReportedPhase := [], su_LastHeartbeatAt := beat, su_StalledSince := None\<rparr>)
      else if phase \<noteq> [] \<and> phase \<noteq> ''stable'' \<and> ob_PendingGeneration ob \<noteq> su_AttemptGeneration update then Inl HostSelfUpdateStale
      else if phase = ''stable'' \<and> ob_HeartbeatGeneration ob \<noteq> [] \<and> ob_HeartbeatGeneration ob \<noteq> su_AttemptGeneration update \<and>
        ob_FailedGeneration ob \<noteq> su_AttemptGeneration update
      then Inl HostSelfUpdateStale
      else finish (advanceSystemUpdateHostSelfUpdateFromObservation ob
        (update\<lparr>su_ObservationState := ''known'', su_ReportedPhase := phase, su_LastHeartbeatAt := beat, su_StalledSince := None\<rparr>)))"

definition ObserveSystemUpdateHostSelfUpdate :: "bool \<Rightarrow> observation \<Rightarrow> update_store \<Rightarrow> (self_update \<times> bool) updated" where
  "ObserveSystemUpdateHostSelfUpdate canceled ob0 s =
     (let ob = ob0\<lparr>ob_ExecutionHostID := trimSpace (ob_ExecutionHostID ob0), ob_AgentServiceID := trimSpace (ob_AgentServiceID ob0)\<rparr> in
      if \<not> executionHostIDPattern (ob_ExecutionHostID ob) \<or> \<not> serviceIDPattern (ob_AgentServiceID ob) \<or> ob_ExpectedRevision ob < 1 \<or>
        isZero (ob_Now ob)
      then (Inl InvalidSystemUpdateHostSelfUpdate, s)
      else if canceled then (Inl UpdateContext, s)
      else (case activeMemorySystemUpdateHostSelfUpdateForHostLocked s (ob_ExecutionHostID ob) of None \<Rightarrow> (Inl UpdateNotFound, s) | Some update \<Rightarrow>
        if su_AgentServiceID update \<noteq> ob_AgentServiceID ob then (Inl UpdateOwnershipConflict, s)
        else if su_Revision update \<noteq> ob_ExpectedRevision ob then (Inl HostSelfUpdateStale, s)
        else (case reconcileSystemUpdateHostSelfUpdateObservation update ob of
          Inl e \<Rightarrow> (Inl e, s)
        | Inr (update', changed) \<Rightarrow>
          (Inr (publicSystemUpdateHostSelfUpdate update', changed), s\<lparr>hostSelfUpdates := mput (hostSelfUpdates s) (su_ID update') update'\<rparr>))))"


subsection \<open>Grants\<close>

definition sameSystemUpdateHostSelfUpdateGrantBinding :: "update_grant \<Rightarrow> update_grant \<Rightarrow> bool" where
  "sameSystemUpdateHostSelfUpdateGrantBinding l r \<longleftrightarrow>
     gr_ID l = gr_ID r \<and> gr_SelfUpdateID l = gr_SelfUpdateID r \<and> gr_AttemptGeneration l = gr_AttemptGeneration r \<and>
     gr_Operation l = gr_Operation r \<and> gr_ExecutionHostID l = gr_ExecutionHostID r \<and> gr_AgentServiceID l = gr_AgentServiceID r \<and>
     gr_ExpectedSelfUpdateRevision l = gr_ExpectedSelfUpdateRevision r \<and> gr_ExpectedOwnershipEpoch l = gr_ExpectedOwnershipEpoch r \<and>
     gr_ExpectedSourcePolicyRevision l = gr_ExpectedSourcePolicyRevision r \<and>
     gr_ExpectedProjectionRevision l = gr_ExpectedProjectionRevision r \<and>
     gr_ExpectedLocalExecutorPolicyRevision l = gr_ExpectedLocalExecutorPolicyRevision r \<and>
     gr_ExpectedLocalExecutorPolicySHA256 l = gr_ExpectedLocalExecutorPolicySHA256 r \<and> gr_AgentVersion l = gr_AgentVersion r \<and>
     gr_ExecutorVersion l = gr_ExecutorVersion r \<and> gr_ReleaseCommit l = gr_ReleaseCommit r \<and>
     gr_ArtifactSHA256 l = gr_ArtifactSHA256 r \<and> gr_AgentProtocolVersion l = gr_AgentProtocolVersion r \<and>
     gr_ExecutorProtocolVersion l = gr_ExecutorProtocolVersion r \<and> gr_MutationProtocolVersion l = gr_MutationProtocolVersion r \<and>
     gr_RecoveryProtocolVersion l = gr_RecoveryProtocolVersion r \<and> sameSystemUpdateHostReleaseBinding (gr_Release l) (gr_Release r) \<and>
     gr_DirectiveIssuedAt l = gr_DirectiveIssuedAt r \<and> gr_PlanSHA256 l = gr_PlanSHA256 r \<and> gr_SessionID l = gr_SessionID r \<and>
     gr_Revision l = gr_Revision r \<and> gr_IssuedAt l = gr_IssuedAt r \<and> gr_ExpiresAt l = gr_ExpiresAt r"

definition sameSystemUpdateHostSelfUpdateGrantIssueIntent :: "update_grant \<Rightarrow> update_grant \<Rightarrow> bool" where
  "sameSystemUpdateHostSelfUpdateGrantIssueIntent l r \<longleftrightarrow>
     gr_SelfUpdateID l = gr_SelfUpdateID r \<and> gr_AttemptGeneration l = gr_AttemptGeneration r \<and> gr_Operation l = gr_Operation r \<and>
     gr_ExecutionHostID l = gr_ExecutionHostID r \<and> gr_AgentServiceID l = gr_AgentServiceID r \<and>
     gr_ExpectedSelfUpdateRevision l = gr_ExpectedSelfUpdateRevision r \<and> gr_ExpectedOwnershipEpoch l = gr_ExpectedOwnershipEpoch r \<and>
     gr_ExpectedSourcePolicyRevision l = gr_ExpectedSourcePolicyRevision r \<and>
     gr_ExpectedProjectionRevision l = gr_ExpectedProjectionRevision r \<and>
     gr_ExpectedLocalExecutorPolicyRevision l = gr_ExpectedLocalExecutorPolicyRevision r \<and>
     gr_ExpectedLocalExecutorPolicySHA256 l = gr_ExpectedLocalExecutorPolicySHA256 r \<and> gr_AgentVersion l = gr_AgentVersion r \<and>
     gr_ExecutorVersion l = gr_ExecutorVersion r \<and> gr_ReleaseCommit l = gr_ReleaseCommit r \<and>
     gr_ArtifactSHA256 l = gr_ArtifactSHA256 r \<and> gr_AgentProtocolVersion l = gr_AgentProtocolVersion r \<and>
     gr_ExecutorProtocolVersion l = gr_ExecutorProtocolVersion r \<and> gr_MutationProtocolVersion l = gr_MutationProtocolVersion r \<and>
     gr_RecoveryProtocolVersion l = gr_RecoveryProtocolVersion r \<and> sameSystemUpdateHostReleaseBinding (gr_Release l) (gr_Release r) \<and>
     gr_DirectiveIssuedAt l = gr_DirectiveIssuedAt r \<and> gr_PlanSHA256 l = gr_PlanSHA256 r \<and> gr_SessionID l = gr_SessionID r"

definition reserveSystemUpdateHostSelfUpdateStage :: "self_update \<Rightarrow> time \<Rightarrow> update_error + self_update" where
  "reserveSystemUpdateHostSelfUpdateStage update now =
     (if su_Status update \<noteq> ''queued'' \<or> isZero now then Inl HostSelfUpdateState
      else Inr (update\<lparr>su_Status := ''staging'', su_Revision := su_Revision update + 1, su_StartedAt := cloneTimePtr (Some now),
        su_UpdatedAt := now\<rparr>))"

definition systemUpdateHostSelfUpdateAllowsConsumedGrantReplay :: "string \<Rightarrow> bool" where
  "systemUpdateHostSelfUpdateAllowsConsumedGrantReplay status \<longleftrightarrow>
     status = ''staging'' \<or> status = ''activating'' \<or> status = ''verifying'' \<or> status = ''rolling_back''"

definition validateConsumedSystemUpdateHostSelfUpdateGrant :: "update_grant \<Rightarrow> self_update \<Rightarrow> update_error option" where
  "validateConsumedSystemUpdateHostSelfUpdateGrant grant update =
     (case gr_ConsumedAt grant of None \<Rightarrow> Some HostSelfUpdateGrantInvalid | Some consumedAt \<Rightarrow>
       if su_ID update \<noteq> gr_SelfUpdateID grant \<or> su_AttemptGeneration update \<noteq> gr_AttemptGeneration grant \<or>
         \<not> systemUpdateHostSelfUpdateAllowsConsumedGrantReplay (su_Status update)
       then Some HostSelfUpdateStale
       else if gr_Operation grant \<noteq> ''stage'' then
         (if gr_StageClaimRevision grant \<noteq> 0 \<or> gr_StageClaimedAt grant \<noteq> None then Some HostSelfUpdateGrantInvalid else None)
       else if gr_StageClaimRevision grant \<noteq> gr_ExpectedSelfUpdateRevision grant + 1 \<or> gr_StageClaimedAt grant \<noteq> Some consumedAt \<or>
         su_Revision update < gr_StageClaimRevision grant
       then Some HostSelfUpdateStale
       else None)"

definition normalizeIssueSystemUpdateHostSelfUpdateGrantParams :: "issue_params \<Rightarrow> issue_params" where
  "normalizeIssueSystemUpdateHostSelfUpdateGrantParams p =
     p\<lparr>ip_SelfUpdateID := trimSpace (ip_SelfUpdateID p), ip_ExecutionHostID := trimSpace (ip_ExecutionHostID p),
       ip_AgentServiceID := trimSpace (ip_AgentServiceID p), ip_Operation := toLower (trimSpace (ip_Operation p)),
       ip_PlanSHA256 := trimSpace (ip_PlanSHA256 p), ip_SessionID := trimSpace (ip_SessionID p)\<rparr>"

definition validateIssueSystemUpdateHostSelfUpdateGrantParams :: "issue_params \<Rightarrow> bool" where
  "validateIssueSystemUpdateHostSelfUpdateGrantParams p \<longleftrightarrow>
     \<not> (\<not> serviceIDPattern (ip_SelfUpdateID p) \<or> \<not> executionHostIDPattern (ip_ExecutionHostID p) \<or> \<not> serviceIDPattern (ip_AgentServiceID p) \<or>
        ip_ExpectedRevision p < 1 \<or> ip_Operation p \<noteq> ''stage'' \<and> ip_Operation p \<noteq> ''reconcile'' \<or>
        \<not> systemUpdateHostSelfUpdateDigestPattern (ip_PlanSHA256 p) \<or> \<not> serviceIDPattern (ip_SessionID p) \<or> isZero (ip_Now p) \<or>
        ip_TTL p < 15 * second \<or> ip_TTL p > 5 * 60 * second)"

definition systemUpdateHostSelfUpdateGrantFromUpdate :: "string \<Rightarrow> self_update \<Rightarrow> issue_params \<Rightarrow> time \<Rightarrow> update_grant" where
  "systemUpdateHostSelfUpdateGrantFromUpdate uuid update p now =
     \<lparr>gr_ID = uuid, gr_SelfUpdateID = su_ID update, gr_AttemptGeneration = su_AttemptGeneration update, gr_Operation = ip_Operation p,
      gr_ExecutionHostID = su_ExecutionHostID update, gr_AgentServiceID = su_AgentServiceID update,
      gr_ExpectedSelfUpdateRevision = su_Revision update, gr_ExpectedOwnershipEpoch = su_ExpectedOwnershipEpoch update,
      gr_ExpectedSourcePolicyRevision = su_ExpectedSourcePolicyRevision update,
      gr_ExpectedProjectionRevision = su_ExpectedProjectionRevision update,
      gr_ExpectedLocalExecutorPolicyRevision = su_ExpectedLocalExecutorPolicyRevision update,
      gr_ExpectedLocalExecutorPolicySHA256 = su_ExpectedLocalExecutorPolicySHA256 update, gr_AgentVersion = su_TargetVersion update,
      gr_ExecutorVersion = su_TargetVersion update, gr_ReleaseCommit = rl_Commit (su_Release update),
      gr_ArtifactSHA256 = ''sha256:'' @ rl_ArchiveSHA256 (su_Release update),
      gr_AgentProtocolVersion = rl_AgentProtocolVersion (su_Release update),
      gr_ExecutorProtocolVersion = rl_ExecutorProtocolVersion (su_Release update),
      gr_MutationProtocolVersion = rl_MutationProtocolVersion (su_Release update),
      gr_RecoveryProtocolVersion = rl_RecoveryProtocolVersion (su_Release update),
      gr_Release = systemUpdateHostReleaseBinding (su_Release update), gr_DirectiveIssuedAt = su_IssuedAt update,
      gr_PlanSHA256 = ip_PlanSHA256 p, gr_SessionID = ip_SessionID p, gr_Revision = 1, gr_IssuedAt = now, gr_ExpiresAt = now + ip_TTL p,
      gr_ConsumedAt = None, gr_StageClaimRevision = 0, gr_StageClaimedAt = None, gr_CreatedAt = now, gr_UpdatedAt = now, gr_tokenHash = []\<rparr>"

definition validateMemorySystemUpdateHostSelfUpdateGrantStateLocked ::
  "update_env \<Rightarrow> update_store \<Rightarrow> self_update \<Rightarrow> string \<Rightarrow> string \<Rightarrow> int \<Rightarrow> update_error option" where
  "validateMemorySystemUpdateHostSelfUpdateGrantStateLocked en s update hostID agentID expectedRevision =
     (if su_ExecutionHostID update \<noteq> hostID \<or> su_AgentServiceID update \<noteq> agentID then Some UpdateOwnershipConflict
      else if su_Revision update \<noteq> expectedRevision \<or> isTerminalSystemUpdateHostSelfUpdateStatus (su_Status update) then Some HostSelfUpdateStale
      else (case mget (executionHosts s) hostID of None \<Rightarrow> Some UpdateOwnershipConflict | Some ownership \<Rightarrow>
        if eh_AgentServiceID ownership \<noteq> agentID \<or> eh_TransportMode ownership \<noteq> SystemUpdateTransportPullV2 \<or>
          eh_OwnershipEpoch ownership \<noteq> su_ExpectedOwnershipEpoch update \<or> eh_PolicyRevision ownership \<noteq> su_ExpectedProjectionRevision update
        then Some UpdateOwnershipConflict
        else (case mget (ue_policies en) agentID of None \<Rightarrow> Some HostSelfUpdateStale | Some policy \<Rightarrow>
          if up_ExecutionHostID policy \<noteq> hostID \<or> up_Revision policy \<noteq> su_ExpectedSourcePolicyRevision update \<or>
            up_ProjectionRevision policy \<noteq> su_ExpectedProjectionRevision update \<or>
            up_LocalExecutorPolicyRevision policy \<noteq> su_ExpectedLocalExecutorPolicyRevision update \<or>
            up_LocalExecutorPolicySHA256 policy \<noteq> su_ExpectedLocalExecutorPolicySHA256 update
          then Some HostSelfUpdateStale
          else (case mget (services (ue_registry en)) agentID of None \<Rightarrow> Some UpdateOwnershipConflict | Some agent \<Rightarrow>
            if sv_ExecutionHostID agent \<noteq> hostID \<or> sv_OwnershipEpoch agent \<noteq> su_ExpectedOwnershipEpoch update \<or>
              hasStagedServiceNodeConfiguration agent
            then Some UpdateOwnershipConflict
            else if activeMemorySystemUpdateRuntimeTokenRotationForHostLocked s hostID \<noteq> None then Some RuntimeTokenRotationBusy
            else if job_on_host hostID s then Some ExecutionHostBusy
            else None))))"

text \<open>A grant of the same update, operation and session: it is issued again under its identifier.\<close>

definition same_session :: "string \<Rightarrow> issue_params \<Rightarrow> update_grant \<Rightarrow> bool" where
  "same_session updateID p grant \<longleftrightarrow>
     gr_SelfUpdateID grant = updateID \<and> gr_Operation grant = ip_Operation p \<and> gr_SessionID grant = ip_SessionID p"

definition IssueSystemUpdateHostSelfUpdateGrant ::
  "update_env \<Rightarrow> bool \<Rightarrow> string \<Rightarrow> string option \<Rightarrow> issue_params \<Rightarrow> update_store \<Rightarrow> issue_result updated" where
  "IssueSystemUpdateHostSelfUpdateGrant en canceled uuid draw p0 s =
     (let p = normalizeIssueSystemUpdateHostSelfUpdateGrantParams p0 in
      if \<not> validateIssueSystemUpdateHostSelfUpdateGrantParams p then (Inl HostSelfUpdateGrantInvalid, s)
      else if canceled then (Inl UpdateContext, s)
      else (case mget (hostSelfUpdates s) (ip_SelfUpdateID p) of None \<Rightarrow> (Inl UpdateNotFound, s) | Some update \<Rightarrow>
        (case validateMemorySystemUpdateHostSelfUpdateGrantStateLocked en s update (ip_ExecutionHostID p) (ip_AgentServiceID p) (ip_ExpectedRevision p) of
          Some e \<Rightarrow> (Inl e, s)
        | None \<Rightarrow>
          if ip_Operation p = ''stage'' \<and> su_Status update \<noteq> ''queued'' then (Inl HostSelfUpdateState, s)
          else if ip_Operation p = ''reconcile'' \<and>
            (su_Status update = ''queued'' \<or> isTerminalSystemUpdateHostSelfUpdateStatus (su_Status update))
          then (Inl HostSelfUpdateState, s)
          else let existing = find (\<lambda>entry. same_session (su_ID update) p (snd entry)) (hostSelfUpdateGrants s);
                   fresh = systemUpdateHostSelfUpdateGrantFromUpdate uuid update p (ip_Now p) in
            if (case existing of None \<Rightarrow> False | Some entry \<Rightarrow> gr_ConsumedAt (snd entry) \<noteq> None) then (Inl HostSelfUpdateConsumed, s)
            else (case draw of None \<Rightarrow> (Inl UpdateRandom, s) | Some random \<Rightarrow>
              if (case existing of None \<Rightarrow> False | Some entry \<Rightarrow> \<not> sameSystemUpdateHostSelfUpdateGrantIssueIntent (snd entry) fresh)
              then (Inl HostSelfUpdateGrantInvalid, s)
              else let raw = ''ast_hsug_'' @ random; hashed = fresh\<lparr>gr_tokenHash := ue_sha256hex en raw\<rparr>;
                       grant = (case existing of None \<Rightarrow> hashed
                         | Some entry \<Rightarrow> hashed\<lparr>gr_ID := fst entry, gr_Revision := gr_Revision (snd entry) + 1,
                             gr_CreatedAt := gr_CreatedAt (snd entry)\<rparr>) in
                (Inr \<lparr>is_Grant = publicSystemUpdateHostSelfUpdateGrant grant, is_RawToken = raw, is_Issued = True\<rparr>,
                 s\<lparr>hostSelfUpdateGrants := mput (hostSelfUpdateGrants s) (gr_ID grant) grant\<rparr>)))))"

definition consume_answer :: "update_grant \<Rightarrow> bool \<Rightarrow> consume_result" where
  "consume_answer grant consumed = \<lparr>cr_Grant = publicSystemUpdateHostSelfUpdateGrant grant, cr_Consumed = consumed\<rparr>"

definition store_used :: "time \<Rightarrow> update_grant \<Rightarrow> update_store \<Rightarrow> consume_result updated" where
  "store_used now grant s =
     (let used = grant\<lparr>gr_ConsumedAt := cloneTimePtr (Some now), gr_UpdatedAt := now\<rparr> in
      (Inr (consume_answer used True), s\<lparr>hostSelfUpdateGrants := mput (hostSelfUpdateGrants s) (gr_ID used) used\<rparr>))"

text \<open>The end of the operation, once grant and update have passed every check.\<close>

definition use_grant :: "time \<Rightarrow> update_grant \<Rightarrow> self_update \<Rightarrow> update_store \<Rightarrow> consume_result updated" where
  "use_grant now grant update s =
     (if gr_Operation grant = ''stage'' then
        (case reserveSystemUpdateHostSelfUpdateStage update now of
          Inl e \<Rightarrow> (Inl e, s)
        | Inr staged \<Rightarrow>
          store_used now (grant\<lparr>gr_StageClaimRevision := su_Revision staged, gr_StageClaimedAt := cloneTimePtr (Some now)\<rparr>)
            (s\<lparr>hostSelfUpdates := mput (hostSelfUpdates s) (su_ID staged) staged\<rparr>))
      else store_used now grant s)"

definition ConsumeSystemUpdateHostSelfUpdateGrant ::
  "update_env \<Rightarrow> bool \<Rightarrow> consume_params \<Rightarrow> update_store \<Rightarrow> consume_result updated" where
  "ConsumeSystemUpdateHostSelfUpdateGrant en canceled p s =
     (let raw = trimSpace (co_RawToken p); now = co_Now p in
      if \<not> prefix ''ast_hsug_'' raw \<or> length raw > 256 \<or> isZero now then (Inl HostSelfUpdateGrantInvalid, s)
      else if canceled then (Inl UpdateContext, s)
      else (case find (\<lambda>candidate. gr_tokenHash candidate = ue_sha256hex en raw) (map snd (hostSelfUpdateGrants s)) of
        None \<Rightarrow> (Inl HostSelfUpdateGrantInvalid, s)
      | Some grant \<Rightarrow>
        if \<not> sameSystemUpdateHostSelfUpdateGrantBinding grant (co_Binding p) then (Inl HostSelfUpdateGrantInvalid, s)
        else if gr_ConsumedAt grant \<noteq> None then
          (case mget (hostSelfUpdates s) (gr_SelfUpdateID grant) of None \<Rightarrow> (Inl UpdateNotFound, s) | Some update \<Rightarrow>
            (case validateConsumedSystemUpdateHostSelfUpdateGrant grant update of
              Some e \<Rightarrow> (Inl e, s)
            | None \<Rightarrow> (Inr (consume_answer grant False), s)))
        else if now > gr_ExpiresAt grant then (Inl HostSelfUpdateExpired, s)
        else (case mget (hostSelfUpdates s) (gr_SelfUpdateID grant) of None \<Rightarrow> (Inl UpdateNotFound, s) | Some update \<Rightarrow>
          (case validateMemorySystemUpdateHostSelfUpdateGrantStateLocked en s update (gr_ExecutionHostID grant) (gr_AgentServiceID grant)
              (gr_ExpectedSelfUpdateRevision grant) of
            Some e \<Rightarrow> (Inl e, s)
          | None \<Rightarrow> use_grant now grant update s))))"

end
