(* ===== verification/Self_Update_Properties.thy ===== *)
theory Self_Update_Properties
  imports Self_Update
begin

text \<open>
  What the self-updates guarantee, whatever the rest of the update store, the registry and the policies do
  meanwhile: a host has one update at a time, an update only moves forward, and the root process of the
  host is let through to stage a release once.
\<close>

subsection \<open>Steps\<close>

text \<open>
  One step is one call with any arguments. Identifiers and random tokens that are drawn are not in use.
  The last rule is everything else that happens to the store: no other code writes the two maps.
\<close>

inductive update_step :: "(string \<Rightarrow> string) \<Rightarrow> update_store \<Rightarrow> update_store \<Rightarrow> bool" for sha where
  create: "mget (hostSelfUpdates s) uuid = None \<Longrightarrow>
    update_step sha s (snd (CreateSystemUpdateHostSelfUpdate en canceled uuid generation p s))"
| retry: "mget (hostSelfUpdates s) uuid = None \<Longrightarrow>
    update_step sha s (snd (RetrySystemUpdateHostSelfUpdate en canceled uuid generation rp s))"
| cancel: "update_step sha s (snd (CancelSystemUpdateHostSelfUpdate canceled i actor expectedRevision now s))"
| observe: "update_step sha s (snd (ObserveSystemUpdateHostSelfUpdate canceled ob s))"
| issue: "mget (hostSelfUpdateGrants s) uuid = None \<Longrightarrow>
    (\<And>random i g. draw = Some random \<Longrightarrow> mget (hostSelfUpdateGrants s) i = Some g \<Longrightarrow> gr_tokenHash g \<noteq> sha (''ast_hsug_'' @ random)) \<Longrightarrow>
    ue_sha256hex en = sha \<Longrightarrow> update_step sha s (snd (IssueSystemUpdateHostSelfUpdateGrant en canceled uuid draw ip s))"
| consume: "ue_sha256hex en = sha \<Longrightarrow> update_step sha s (snd (ConsumeSystemUpdateHostSelfUpdateGrant en canceled cp s))"
| elsewhere: "hostSelfUpdates t = hostSelfUpdates s \<Longrightarrow> hostSelfUpdateGrants t = hostSelfUpdateGrants s \<Longrightarrow> update_step sha s t"

lemma switch_is_elsewhere: "update_step sha s (snd (SwitchSystemUpdateExecutionHost canceled now i epoch mode agent policyRevision s))"
  by (rule elsewhere) (simp_all add: SwitchSystemUpdateExecutionHost_def Let_def)

subsection \<open>How an update moves\<close>

abbreviation over :: "self_update \<Rightarrow> bool" where
  "over u \<equiv> isTerminalSystemUpdateHostSelfUpdateStatus (su_Status u)"

definition known_status :: "self_update \<Rightarrow> bool" where
  "known_status u \<longleftrightarrow> su_Status u \<in> {''queued'', ''staging'', ''activating'', ''verifying'', ''rolling_back'',
     ''succeeded'', ''rolled_back'', ''failed'', ''canceled''}"

definition same_attempt :: "self_update \<Rightarrow> self_update \<Rightarrow> bool" where
  "same_attempt u v \<longleftrightarrow>
     su_ID v = su_ID u \<and> su_ExecutionHostID v = su_ExecutionHostID u \<and> su_AgentServiceID v = su_AgentServiceID u \<and>
     su_AttemptGeneration v = su_AttemptGeneration u \<and> su_TargetVersion v = su_TargetVersion u \<and> su_Release v = su_Release u \<and>
     su_ExpectedOwnershipEpoch v = su_ExpectedOwnershipEpoch u"

definition forward :: "self_update \<Rightarrow> self_update \<Rightarrow> bool" where
  "forward u v \<longleftrightarrow>
     same_attempt u v \<and> su_Revision u \<le> su_Revision v \<and> (over u \<longrightarrow> v = u) \<and>
     (su_Status v = su_Status u \<or>
      su_Revision u < su_Revision v \<and> (over v \<or> status_rank (su_Status u) < status_rank (su_Status v))) \<and>
     (su_Status v = ''queued'' \<or> su_Status v = ''canceled'' \<longrightarrow> su_Status u = ''queued'' \<or> su_Status u = ''canceled'')"

lemma forward_refl [simp]: "forward u u"
  by (simp add: forward_def same_attempt_def)

lemma same_attempt_refl [simp]: "same_attempt u u"
  by (simp add: same_attempt_def)

text \<open>A status as a later status of an update that is not over.\<close>

definition later_status :: "self_update \<Rightarrow> self_update \<Rightarrow> bool" where
  "later_status u v \<longleftrightarrow> known_status v \<and>
     (su_Status v = su_Status u \<or> su_Status v \<noteq> ''queued'' \<and> su_Status v \<noteq> ''canceled'' \<and>
      (over v \<or> status_rank (su_Status u) < status_rank (su_Status v)))"

lemma set_status:
  "same_attempt u (setSystemUpdateHostSelfUpdateStatus status now u)"
  "su_Revision (setSystemUpdateHostSelfUpdateStatus status now u) = su_Revision u"
  "su_Status (setSystemUpdateHostSelfUpdateStatus status now u) =
     (if over u \<or> status_rank status < status_rank (su_Status u) then su_Status u else status)"
  by (simp_all add: setSystemUpdateHostSelfUpdateStatus_def same_attempt_def Let_def)

lemma set_terminal:
  "same_attempt u (setSystemUpdateHostSelfUpdateTerminal status code now u)"
  "su_Revision (setSystemUpdateHostSelfUpdateTerminal status code now u) = su_Revision u"
  "su_Status (setSystemUpdateHostSelfUpdateTerminal status code now u) = (if over u then su_Status u else status)"
  by (simp_all add: setSystemUpdateHostSelfUpdateTerminal_def same_attempt_def)

lemma later_statuses:
  assumes "known_status u" and "\<not> over u"
  shows "later_status u u"
    and "later_status u (setSystemUpdateHostSelfUpdateStatus ''staging'' now u)"
    and "later_status u (setSystemUpdateHostSelfUpdateStatus ''activating'' now u)"
    and "later_status u (setSystemUpdateHostSelfUpdateStatus ''verifying'' now u)"
    and "later_status u (setSystemUpdateHostSelfUpdateStatus ''rolling_back'' now u)"
    and "later_status u (setSystemUpdateHostSelfUpdateTerminal ''succeeded'' code now u)"
    and "later_status u (setSystemUpdateHostSelfUpdateTerminal ''rolled_back'' code now u)"
  using assms by (auto simp: later_status_def set_status set_terminal known_status_def status_rank_def isTerminalSystemUpdateHostSelfUpdateStatus_def)

lemma advance_frame:
  "same_attempt u (advanceSystemUpdateHostSelfUpdateFromObservation ob u)"
  "su_Revision (advanceSystemUpdateHostSelfUpdateFromObservation ob u) = su_Revision u"
  "known_status u \<Longrightarrow> \<not> over u \<Longrightarrow> later_status u (advanceSystemUpdateHostSelfUpdateFromObservation ob u)"
  by (simp_all add: advanceSystemUpdateHostSelfUpdateFromObservation_def Let_def set_status set_terminal later_statuses)

lemma forwardI:
  assumes "same_attempt u v" and "\<not> over u" and "later_status u v" and "su_Revision u \<le> su_Revision v"
    and "su_Status v \<noteq> su_Status u \<Longrightarrow> su_Revision u < su_Revision v"
  shows "forward u v \<and> known_status v"
  using assms by (auto simp: forward_def later_status_def)

text \<open>Fields that decide nothing about the course of an update.\<close>

lemma unobserved:
  "same_attempt u (v\<lparr>su_ObservationState := a, su_ReportedPhase := b, su_LastHeartbeatAt := c, su_StalledSince := d\<rparr>) = same_attempt u v"
  "later_status u (v\<lparr>su_ObservationState := a, su_ReportedPhase := b, su_LastHeartbeatAt := c, su_StalledSince := d\<rparr>) = later_status u v"
  "same_attempt (u\<lparr>su_ObservationState := a, su_ReportedPhase := b, su_LastHeartbeatAt := c, su_StalledSince := d\<rparr>) v = same_attempt u v"
  "later_status (u\<lparr>su_ObservationState := a, su_ReportedPhase := b, su_LastHeartbeatAt := c, su_StalledSince := d\<rparr>) v = later_status u v"
  by (simp_all add: same_attempt_def later_status_def known_status_def)

lemma noted:
  "same_attempt u (v\<lparr>su_Revision := r, su_UpdatedAt := t\<rparr>) = same_attempt u v"
  "later_status u (v\<lparr>su_Revision := r, su_UpdatedAt := t\<rparr>) = later_status u v"
  by (simp_all add: same_attempt_def later_status_def known_status_def)

lemma noted_forward:
  "noted_change now u w = (v, changed) \<Longrightarrow> same_attempt u w \<Longrightarrow> later_status u w \<Longrightarrow> su_Revision w = su_Revision u \<Longrightarrow> \<not> over u \<Longrightarrow>
   forward u v \<and> known_status v"
  by (rule forwardI) (auto simp: noted_change_def Let_def noted split: if_splits)

lemma reconcile_forward:
  assumes "reconcileSystemUpdateHostSelfUpdateObservation u ob = Inr (v, changed)" and "known_status u" and "\<not> over u"
  shows "forward u v \<and> known_status v"
proof -
  let ?seen = "\<lambda>a b c d. u\<lparr>su_ObservationState := a, su_ReportedPhase := b, su_LastHeartbeatAt := c, su_StalledSince := d\<rparr>"
  have kept: "\<And>a b d. same_attempt u (u\<lparr>su_ObservationState := a, su_ReportedPhase := b, su_StalledSince := d\<rparr>)"
    "\<And>a b d. later_status u (u\<lparr>su_ObservationState := a, su_ReportedPhase := b, su_StalledSince := d\<rparr>)"
    "\<And>a c d. same_attempt u (u\<lparr>su_ObservationState := a, su_StalledSince := d, su_LastHeartbeatAt := c\<rparr>)"
    "\<And>a c d. later_status u (u\<lparr>su_ObservationState := a, su_StalledSince := d, su_LastHeartbeatAt := c\<rparr>)"
    "\<And>a b c d. same_attempt u (?seen a b c d)" "\<And>a b c d. later_status u (?seen a b c d)"
    "\<And>a c. same_attempt u (u\<lparr>su_ObservationState := a, su_LastHeartbeatAt := c\<rparr>)"
    "\<And>a c. later_status u (u\<lparr>su_ObservationState := a, su_LastHeartbeatAt := c\<rparr>)"
    using assms(2) by (simp_all add: same_attempt_def later_status_def known_status_def)
  have seen: "known_status (?seen a b c d)" "\<not> over (?seen a b c d)" for a b c d
    using assms(2,3) by (simp_all add: known_status_def)
  have heard: "same_attempt u (advanceSystemUpdateHostSelfUpdateFromObservation ob (?seen a b c d))"
    "later_status u (advanceSystemUpdateHostSelfUpdateFromObservation ob (?seen a b c d))" for a b c d
    using advance_frame [where u = "?seen a b c d" and ob = ob] seen by (simp_all add: unobserved)
  have noted: "noted_change now u w = (v, changed) \<Longrightarrow> forward u v \<and> known_status v"
    if "same_attempt u w" "later_status u w" "su_Revision w = su_Revision u" for now w v changed
    using that assms(3) by (intro noted_forward)
  have "reconcileSystemUpdateHostSelfUpdateObservation u ob = Inr (v, changed) \<Longrightarrow> forward u v \<and> known_status v"
    unfolding reconcileSystemUpdateHostSelfUpdateObservation_def Let_def
    by (simp only: split: if_split_asm) (simp_all add: noted [OF kept(1,2)] noted [OF kept(3,4)] noted [OF kept(5,6)] noted [OF kept(7,8)]
      noted [OF heard] advance_frame(2))
  with assms(1) show ?thesis by blast
qed

subsection \<open>The invariant\<close>

definition one_per_host :: "update_store \<Rightarrow> bool" where
  "one_per_host s \<longleftrightarrow>
     (\<forall>i u j v. mget (hostSelfUpdates s) i = Some u \<longrightarrow> mget (hostSelfUpdates s) j = Some v \<longrightarrow>
        su_ExecutionHostID u = su_ExecutionHostID v \<longrightarrow> over u \<or> over v \<or> i = j)"

abbreviation staging_used :: "update_grant \<Rightarrow> bool" where
  "staging_used g \<equiv> gr_Operation g = ''stage'' \<and> gr_ConsumedAt g \<noteq> None"

definition grants_ok :: "update_store \<Rightarrow> bool" where
  "grants_ok s \<longleftrightarrow>
     (\<forall>i g. mget (hostSelfUpdateGrants s) i = Some g \<longrightarrow> staging_used g \<longrightarrow>
        (\<exists>u. mget (hostSelfUpdates s) (gr_SelfUpdateID g) = Some u \<and> su_Status u \<noteq> ''queued'' \<and> su_Status u \<noteq> ''canceled'')) \<and>
     (\<forall>i g j h. mget (hostSelfUpdateGrants s) i = Some g \<longrightarrow> mget (hostSelfUpdateGrants s) j = Some h \<longrightarrow>
        staging_used g \<longrightarrow> staging_used h \<longrightarrow> gr_SelfUpdateID g = gr_SelfUpdateID h \<longrightarrow> i = j)"

definition update_ok :: "update_store \<Rightarrow> bool" where
  "update_ok s \<longleftrightarrow> keyed su_ID (hostSelfUpdates s) \<and> keyed gr_ID (hostSelfUpdateGrants s) \<and>
     (\<forall>i u. mget (hostSelfUpdates s) i = Some u \<longrightarrow> known_status u) \<and> one_per_host s \<and> grants_ok s"

text \<open>The three ways in which a call changes the updates.\<close>

definition update_effect :: "update_store \<Rightarrow> update_store \<Rightarrow> bool" where
  "update_effect s t \<longleftrightarrow>
     hostSelfUpdates t = hostSelfUpdates s \<or>
     (\<exists>i u v. mget (hostSelfUpdates s) i = Some u \<and> hostSelfUpdates t = mput (hostSelfUpdates s) i v \<and>
        forward u v \<and> known_status v) \<or>
     (\<exists>i v. mget (hostSelfUpdates s) i = None \<and> hostSelfUpdates t = mput (hostSelfUpdates s) i v \<and> su_ID v = i \<and> su_Status v = ''queued'' \<and>
        activeMemorySystemUpdateHostSelfUpdateForHostLocked s (su_ExecutionHostID v) = None)"

lemma effect_same: "hostSelfUpdates t = hostSelfUpdates s \<Longrightarrow> update_effect s t"
  by (simp add: update_effect_def)

lemma effect_moved:
  "mget (hostSelfUpdates s) i = Some u \<Longrightarrow> hostSelfUpdates t = mput (hostSelfUpdates s) i v \<Longrightarrow>
   forward u v \<and> known_status v \<Longrightarrow> update_effect s t"
  unfolding update_effect_def by blast

lemma new_self_update_fields [simp]:
  "su_ID (new_self_update uuid generation p intent ownership policy agent previous) = uuid"
  "su_Status (new_self_update uuid generation p intent ownership policy agent previous) = ''queued''"
  "su_ExecutionHostID (new_self_update uuid generation p intent ownership policy agent previous) = cp_ExecutionHostID p"
  by (simp_all add: new_self_update_def)

lemma effect_created:
  "mget (hostSelfUpdates s) uuid = None \<Longrightarrow> activeMemorySystemUpdateHostSelfUpdateForHostLocked s (cp_ExecutionHostID p) = None \<Longrightarrow>
   update_effect s (s\<lparr>hostSelfUpdates := mput (hostSelfUpdates s) uuid (new_self_update uuid generation p intent ownership policy agent previous)\<rparr>)"
  unfolding update_effect_def
  by (rule disjI2, rule disjI2, rule exI [of _ uuid], rule exI [of _ "new_self_update uuid generation p intent ownership policy agent previous"]) simp

lemma active_none:
  assumes "activeMemorySystemUpdateHostSelfUpdateForHostLocked s host = None" and "mget (hostSelfUpdates s) i = Some u"
    and "su_ExecutionHostID u = host"
  shows "over u"
  using assms(1,3) mget_in [OF assms(2)] by (force simp: activeMemorySystemUpdateHostSelfUpdateForHostLocked_def find_None_iff)

lemma keyed_find:
  assumes "find P (map snd m) = Some v" and "keyed key m"
  shows "mget m (key v) = Some v \<and> P v"
proof -
  from assms(1) have "P v" "v \<in> snd ` set m" by (auto simp: find_Some_iff in_set_conv_nth image_iff) (metis nth_mem)
  then obtain i where "P v" "(i, v) \<in> set m" by auto
  with assms(2) show ?thesis by (auto simp: keyed_def mget_iff)
qed

lemma active_some:
  assumes "activeMemorySystemUpdateHostSelfUpdateForHostLocked s host = Some u" and "keyed su_ID (hostSelfUpdates s)"
  shows "mget (hostSelfUpdates s) (su_ID u) = Some u \<and> \<not> over u \<and> su_ExecutionHostID u = host"
  using keyed_find [OF assms [unfolded activeMemorySystemUpdateHostSelfUpdateForHostLocked_def]] by simp

lemma create_locked_effect:
  assumes "mget (hostSelfUpdates s) uuid = None"
  shows "update_effect s (snd (createMemorySystemUpdateHostSelfUpdateLocked en uuid generation p intent s))"
  using assms
  by (simp add: createMemorySystemUpdateHostSelfUpdateLocked_def Let_def effect_same effect_created split: option.splits sum.splits)

lemma self_create_effect:
  "mget (hostSelfUpdates s) uuid = None \<Longrightarrow> update_effect s (snd (CreateSystemUpdateHostSelfUpdate en canceled uuid generation p s))"
  by (simp add: CreateSystemUpdateHostSelfUpdate_def Let_def effect_same create_locked_effect split: option.splits)

lemma self_retry_effect:
  "mget (hostSelfUpdates s) uuid = None \<Longrightarrow> update_effect s (snd (RetrySystemUpdateHostSelfUpdate en canceled uuid generation rp s))"
  by (simp add: RetrySystemUpdateHostSelfUpdate_def Let_def effect_same create_locked_effect split: option.splits)

lemma canceled_forward:
  "su_Status u = ''queued'' \<Longrightarrow> su_Revision u < r \<Longrightarrow>
   forward u (u\<lparr>su_Status := ''canceled'', su_Code := code, su_CompletedAt := t, su_Revision := r, su_UpdatedAt := now\<rparr>)"
  by (simp add: forward_def same_attempt_def isTerminalSystemUpdateHostSelfUpdateStatus_def)

lemma cancel_effect:
  "update_effect s (snd (CancelSystemUpdateHostSelfUpdate canceled i actor expectedRevision now s))"
proof -
  have "update_effect s (s\<lparr>hostSelfUpdates := mput (hostSelfUpdates s) (trimSpace i) (u\<lparr>su_Status := ''canceled'', su_Code := code,
      su_CompletedAt := t, su_Revision := r, su_UpdatedAt := now\<rparr>)\<rparr>)"
    if "mget (hostSelfUpdates s) (trimSpace i) = Some u" "su_Status u = ''queued''" "su_Revision u < r" for u code t r
    using that(1) by (rule effect_moved) (simp, simp add: canceled_forward that(2,3) known_status_def)
  then show ?thesis by (simp add: CancelSystemUpdateHostSelfUpdate_def Let_def effect_same split: option.splits)
qed

lemma observe_effect:
  assumes "keyed su_ID (hostSelfUpdates s)" and "\<And>i u. mget (hostSelfUpdates s) i = Some u \<Longrightarrow> known_status u"
  shows "update_effect s (snd (ObserveSystemUpdateHostSelfUpdate canceled ob s))"
proof -
  have "update_effect s (s\<lparr>hostSelfUpdates := mput (hostSelfUpdates s) (su_ID v) v\<rparr>)"
    if "activeMemorySystemUpdateHostSelfUpdateForHostLocked s host = Some u" "reconcileSystemUpdateHostSelfUpdateObservation u ob' = Inr (v, changed)"
    for u v changed host ob'
  proof -
    from active_some [OF that(1) assms(1)] have u: "mget (hostSelfUpdates s) (su_ID u) = Some u" "\<not> over u" by simp_all
    from reconcile_forward [OF that(2) assms(2) [OF u(1)] u(2)] have v: "forward u v \<and> known_status v" .
    then have "su_ID v = su_ID u" by (simp add: forward_def same_attempt_def)
    with u(1) v show ?thesis by (auto intro: effect_moved)
  qed
  then show ?thesis
    by (simp add: ObserveSystemUpdateHostSelfUpdate_def Let_def effect_same split: option.splits sum.splits prod.splits)
qed

lemma issue_effect:
  "hostSelfUpdates (snd (IssueSystemUpdateHostSelfUpdateGrant en canceled uuid draw ip s)) = hostSelfUpdates s"
  by (simp add: IssueSystemUpdateHostSelfUpdateGrant_def Let_def split: option.splits)

lemma reserve_forward:
  assumes "reserveSystemUpdateHostSelfUpdateStage u now = Inr v"
  shows "su_Status u = ''queued''" "su_Status v = ''staging''" "forward u v \<and> known_status v" "su_ID v = su_ID u"
  using assms by (auto simp: reserveSystemUpdateHostSelfUpdateStage_def forward_def same_attempt_def known_status_def status_rank_def
    isTerminalSystemUpdateHostSelfUpdateStatus_def split: if_splits)

lemma consume_effect:
  assumes "keyed su_ID (hostSelfUpdates s)"
  shows "update_effect s (snd (ConsumeSystemUpdateHostSelfUpdateGrant en canceled cp s))"
proof -
  have "update_effect s (snd (use_grant now g u s))" if "mget (hostSelfUpdates s) i = Some u" for i g u now
  proof (cases "reserveSystemUpdateHostSelfUpdateStage u now")
    case (Inr v)
    from keyed_mget [OF assms that] reserve_forward(4) [OF Inr] have "su_ID v = i" by simp
    with Inr show ?thesis
      using effect_moved [OF that _ reserve_forward(3) [OF Inr]] by (simp add: use_grant_def store_used_def Let_def effect_same)
  qed (simp add: use_grant_def store_used_def Let_def effect_same)
  then show ?thesis
    by (simp add: ConsumeSystemUpdateHostSelfUpdateGrant_def Let_def effect_same split: option.splits)
qed

lemma step_effect:
  assumes "update_step sha s t" and "update_ok s"
  shows "update_effect s t"
proof -
  from assms(2) have wf: "keyed su_ID (hostSelfUpdates s)" "\<And>i u. mget (hostSelfUpdates s) i = Some u \<Longrightarrow> known_status u"
    by (simp_all add: update_ok_def)
  from assms(1) wf show ?thesis
    by (induction rule: update_step.induct)
      (simp_all add: self_create_effect self_retry_effect cancel_effect observe_effect consume_effect effect_same issue_effect)
qed

lemma effect_forward:
  assumes "update_effect s t" and "mget (hostSelfUpdates s) i = Some u"
  shows "\<exists>v. mget (hostSelfUpdates t) i = Some v \<and> forward u v"
  using assms by (auto simp: update_effect_def)

lemma effect_keeps_updates:
  assumes "update_effect s t" and "update_ok s"
  shows "keyed su_ID (hostSelfUpdates t)" and "mget (hostSelfUpdates t) i = Some u \<Longrightarrow> known_status u" and "one_per_host t"
proof -
  have ok: "keyed su_ID (hostSelfUpdates s)" "\<And>i u. mget (hostSelfUpdates s) i = Some u \<Longrightarrow> known_status u" "one_per_host s"
    using assms(2) by (simp_all add: update_ok_def)
  have "keyed su_ID (hostSelfUpdates t) \<and> (\<forall>i u. mget (hostSelfUpdates t) i = Some u \<longrightarrow> known_status u) \<and> one_per_host t"
    using assms(1) unfolding update_effect_def
  proof (elim disjE exE conjE)
    assume "hostSelfUpdates t = hostSelfUpdates s"
    with ok show ?thesis by (simp add: one_per_host_def)
  next
    fix i u v
    assume v: "mget (hostSelfUpdates s) i = Some u" "hostSelfUpdates t = mput (hostSelfUpdates s) i v" "forward u v" "known_status v"
    then have "su_ID v = i" "su_ExecutionHostID v = su_ExecutionHostID u" "over u \<Longrightarrow> over v"
      using keyed_mget [OF ok(1) v(1)] by (auto simp: forward_def same_attempt_def)
    then show ?thesis using ok v(1,2,4) by (auto simp: keyed_mput one_per_host_def) (metis+)
  next
    fix i v
    assume v: "mget (hostSelfUpdates s) i = None" "hostSelfUpdates t = mput (hostSelfUpdates s) i v" "su_ID v = i" "su_Status v = ''queued''"
      "activeMemorySystemUpdateHostSelfUpdateForHostLocked s (su_ExecutionHostID v) = None"
    then show ?thesis using ok active_none [OF v(5)]
      by (auto simp: keyed_mput one_per_host_def known_status_def)
  qed
  then show "keyed su_ID (hostSelfUpdates t)" and "mget (hostSelfUpdates t) i = Some u \<Longrightarrow> known_status u" and "one_per_host t" by auto
qed

subsection \<open>Grants\<close>

text \<open>Steps that consume no grant: a grant that is written is unconsumed and replaces an unconsumed one.\<close>

definition grants_effect :: "update_store \<Rightarrow> update_store \<Rightarrow> bool" where
  "grants_effect s t \<longleftrightarrow>
     keyed gr_ID (hostSelfUpdateGrants t) \<and>
     (\<forall>i g. mget (hostSelfUpdateGrants t) i = Some g \<longrightarrow> gr_ConsumedAt g \<noteq> None \<longrightarrow> mget (hostSelfUpdateGrants s) i = Some g)"

lemma grants_same: "keyed gr_ID (hostSelfUpdateGrants s) \<Longrightarrow> hostSelfUpdateGrants t = hostSelfUpdateGrants s \<Longrightarrow> grants_effect s t"
  by (simp add: grants_effect_def)

lemma grants_kept:
  assumes "update_effect s t" and "grants_effect s t" and "grants_ok s"
  shows "grants_ok t"
proof -
  have used: "mget (hostSelfUpdateGrants s) i = Some g" if "mget (hostSelfUpdateGrants t) i = Some g" "staging_used g" for i g
    using assms(2) that by (simp add: grants_effect_def)
  have "\<exists>v. mget (hostSelfUpdates t) (gr_SelfUpdateID g) = Some v \<and> su_Status v \<noteq> ''queued'' \<and> su_Status v \<noteq> ''canceled''"
    if "mget (hostSelfUpdateGrants t) i = Some g" "staging_used g" for i g
  proof -
    from used [OF that] assms(3) that(2) obtain u where u: "mget (hostSelfUpdates s) (gr_SelfUpdateID g) = Some u"
      "su_Status u \<noteq> ''queued''" "su_Status u \<noteq> ''canceled''"
      unfolding grants_ok_def by blast
    from effect_forward [OF assms(1) u(1)] u(2,3) show ?thesis by (auto simp: forward_def)
  qed
  then show ?thesis using assms(3) used unfolding grants_ok_def by (metis (no_types, lifting))
qed

lemma grant_from_update [simp]:
  "gr_ID (systemUpdateHostSelfUpdateGrantFromUpdate uuid update p now) = uuid"
  "gr_ConsumedAt (systemUpdateHostSelfUpdateGrantFromUpdate uuid update p now) = None"
  by (simp_all add: systemUpdateHostSelfUpdateGrantFromUpdate_def)

lemma issue_grants:
  assumes "keyed gr_ID (hostSelfUpdateGrants s)"
  shows "grants_effect s (snd (IssueSystemUpdateHostSelfUpdateGrant en canceled uuid draw ip s))"
proof -
  have put: "grants_effect s (s\<lparr>hostSelfUpdateGrants := mput (hostSelfUpdateGrants s) i g\<rparr>)" if "gr_ID g = i" "gr_ConsumedAt g = None" for i g
    using assms that by (auto simp: grants_effect_def keyed_mput)
  show ?thesis
    by (simp add: IssueSystemUpdateHostSelfUpdateGrant_def Let_def put grants_same [OF assms] split: option.splits)
qed

lemma quiet_grants:
  "hostSelfUpdateGrants (snd (CreateSystemUpdateHostSelfUpdate en canceled uuid generation p s)) = hostSelfUpdateGrants s"
  "hostSelfUpdateGrants (snd (RetrySystemUpdateHostSelfUpdate en canceled uuid generation rp s)) = hostSelfUpdateGrants s"
  "hostSelfUpdateGrants (snd (CancelSystemUpdateHostSelfUpdate canceled i actor expectedRevision now s)) = hostSelfUpdateGrants s"
  "hostSelfUpdateGrants (snd (ObserveSystemUpdateHostSelfUpdate canceled ob s)) = hostSelfUpdateGrants s"
  by (simp_all add: CreateSystemUpdateHostSelfUpdate_def RetrySystemUpdateHostSelfUpdate_def createMemorySystemUpdateHostSelfUpdateLocked_def
    CancelSystemUpdateHostSelfUpdate_def ObserveSystemUpdateHostSelfUpdate_def Let_def split: option.splits sum.splits prod.splits)

text \<open>What a consumption does: it changes nothing, or it uses up a grant that was not used, and a staging grant moves its update.\<close>

definition used_up :: "update_grant \<Rightarrow> update_grant \<Rightarrow> bool" where
  "used_up g h \<longleftrightarrow> gr_ConsumedAt g = None \<and> gr_ConsumedAt h \<noteq> None \<and> gr_ID h = gr_ID g \<and> gr_Operation h = gr_Operation g \<and>
     gr_SelfUpdateID h = gr_SelfUpdateID g"

lemma used_outcome:
  assumes "use_grant now g u s = (res, t)" and "gr_ConsumedAt g = None" and "now \<noteq> 0"
  shows "(\<exists>e. res = Inl e) \<and> t = s \<or>
    (\<exists>h. res = Inr (consume_answer h True) \<and> used_up g h \<and> hostSelfUpdateGrants t = mput (hostSelfUpdateGrants s) (gr_ID h) h \<and>
      (gr_Operation g = ''stage'' \<longrightarrow> su_Status u = ''queued'' \<and>
        (\<exists>v. su_Status v = ''staging'' \<and> hostSelfUpdates t = mput (hostSelfUpdates s) (su_ID u) v)))"
proof (cases "gr_Operation g = ''stage''")
  case True
  show ?thesis
  proof (cases "reserveSystemUpdateHostSelfUpdateStage u now")
    case (Inr v)
    note v = reserve_forward [OF Inr]
    define h where "h = g\<lparr>gr_StageClaimRevision := su_Revision v, gr_StageClaimedAt := cloneTimePtr (Some now), gr_ConsumedAt := cloneTimePtr (Some now), gr_UpdatedAt := now\<rparr>"
    have "used_up g h" using assms(2,3) by (simp add: h_def used_up_def cloneTimePtr_def)
    moreover from assms(1) True Inr v(4) have "res = Inr (consume_answer h True)"
      "t = s\<lparr>hostSelfUpdates := mput (hostSelfUpdates s) (su_ID u) v, hostSelfUpdateGrants := mput (hostSelfUpdateGrants s) (gr_ID h) h\<rparr>"
      by (simp_all add: use_grant_def store_used_def Let_def h_def prod_eq_iff)
    ultimately show ?thesis using v(1,2) by (intro disjI2 exI [of _ h]) (simp, blast)
  qed (use assms(1) True in \<open>auto simp: use_grant_def\<close>)
next
  case False
  define h where "h = g\<lparr>gr_ConsumedAt := cloneTimePtr (Some now), gr_UpdatedAt := now\<rparr>"
  have "used_up g h" using assms(2,3) by (simp add: h_def used_up_def cloneTimePtr_def)
  moreover from assms(1) False have "res = Inr (consume_answer h True)" "t = s\<lparr>hostSelfUpdateGrants := mput (hostSelfUpdateGrants s) (gr_ID h) h\<rparr>"
    by (simp_all add: use_grant_def store_used_def Let_def h_def prod_eq_iff)
  ultimately show ?thesis using False by (intro disjI2 exI [of _ h]) simp
qed

lemma consume_outcome:
  assumes "ConsumeSystemUpdateHostSelfUpdateGrant en canceled p s = (res, t)" and "keyed gr_ID (hostSelfUpdateGrants s)"
  obtains (refused) e where "res = Inl e" "t = s"
  | (repeated) g where "res = Inr (consume_answer g False)" "t = s" "mget (hostSelfUpdateGrants s) (gr_ID g) = Some g" "gr_ConsumedAt g \<noteq> None"
  | (used) g h u where "res = Inr (consume_answer h True)" "used_up g h" "mget (hostSelfUpdateGrants s) (gr_ID g) = Some g"
      "mget (hostSelfUpdates s) (gr_SelfUpdateID g) = Some u" "hostSelfUpdateGrants t = mput (hostSelfUpdateGrants s) (gr_ID h) h"
      "gr_Operation g = ''stage'' \<longrightarrow> su_Status u = ''queued'' \<and>
        (\<exists>v. su_Status v = ''staging'' \<and> hostSelfUpdates t = mput (hostSelfUpdates s) (su_ID u) v)"
proof -
  let ?hit = "find (\<lambda>candidate. gr_tokenHash candidate = ue_sha256hex en (trimSpace (co_RawToken p))) (map snd (hostSelfUpdateGrants s))"
  show thesis
  proof (cases ?hit)
    case None
    with assms(1) show thesis by (auto simp: ConsumeSystemUpdateHostSelfUpdateGrant_def Let_def split: if_splits intro: refused)
  next
    case (Some g)
    note g = keyed_find [OF Some assms(2), THEN conjunct1]
    consider "(\<exists>e. res = Inl e) \<and> t = s" | "res = Inr (consume_answer g False)" "t = s" "gr_ConsumedAt g \<noteq> None"
      | u where "mget (hostSelfUpdates s) (gr_SelfUpdateID g) = Some u" "gr_ConsumedAt g = None" "co_Now p \<noteq> 0" "use_grant (co_Now p) g u s = (res, t)"
      using assms(1) unfolding ConsumeSystemUpdateHostSelfUpdateGrant_def Let_def Some
      by (simp split: if_split_asm option.split_asm; blast)
    then show thesis
    proof cases
      case 3
      from used_outcome [OF 3(4) 3(2) 3(3)] show thesis
      proof (elim disjE exE conjE)
        fix h
        assume "res = Inr (consume_answer h True)" "used_up g h" "hostSelfUpdateGrants t = mput (hostSelfUpdateGrants s) (gr_ID h) h"
          "gr_Operation g = ''stage'' \<longrightarrow> su_Status u = ''queued'' \<and>
            (\<exists>v. su_Status v = ''staging'' \<and> hostSelfUpdates t = mput (hostSelfUpdates s) (su_ID u) v)"
        then show thesis using g 3(1) by (intro used)
      qed (rule refused)
    qed (use g in \<open>auto intro: refused repeated\<close>)
  qed
qed

lemma staging_used_status:
  assumes "grants_ok s" and "mget (hostSelfUpdateGrants s) i = Some g" and "staging_used g"
  obtains u where "mget (hostSelfUpdates s) (gr_SelfUpdateID g) = Some u" "su_Status u \<noteq> ''queued''" "su_Status u \<noteq> ''canceled''"
  using assms unfolding grants_ok_def by blast

lemma consume_grants:
  assumes ok: "update_ok s" and "ConsumeSystemUpdateHostSelfUpdateGrant en canceled p s = (res, t)"
  shows "keyed gr_ID (hostSelfUpdateGrants t) \<and> grants_ok t"
proof -
  have wf: "keyed su_ID (hostSelfUpdates s)" "keyed gr_ID (hostSelfUpdateGrants s)" "grants_ok s" using ok by (simp_all add: update_ok_def)
  have effect: "update_effect s t" using consume_effect [OF wf(1), of en canceled p] assms(2) by simp
  from assms(2) wf(2) show ?thesis
  proof (cases rule: consume_outcome)
    case (used g h u)
    have h: "gr_ID h = gr_ID g" "gr_Operation h = gr_Operation g" "gr_SelfUpdateID h = gr_SelfUpdateID g" using used(2) by (simp_all add: used_up_def)
    have u: "su_ID u = gr_SelfUpdateID g" using keyed_mget [OF wf(1) used(4)] .
    have grants: "mget (hostSelfUpdateGrants t) i = (if i = gr_ID g then Some h else mget (hostSelfUpdateGrants s) i)" for i
      using used(5) h(1) by simp
    have "\<exists>v. mget (hostSelfUpdates t) (gr_SelfUpdateID g') = Some v \<and> su_Status v \<noteq> ''queued'' \<and> su_Status v \<noteq> ''canceled''"
      if "mget (hostSelfUpdateGrants t) i = Some g'" "staging_used g'" for i g'
    proof (cases "i = gr_ID g")
      case True
      with that grants h have "g' = h" "gr_Operation g = ''stage''" by simp_all
      with used(6) u h(3) show ?thesis by auto
    next
      case False
      with that(1) grants have g': "mget (hostSelfUpdateGrants s) i = Some g'" by simp
      from staging_used_status [OF wf(3) g' that(2)] obtain w where
        w: "mget (hostSelfUpdates s) (gr_SelfUpdateID g') = Some w" "su_Status w \<noteq> ''queued''" "su_Status w \<noteq> ''canceled''" .
      from effect_forward [OF effect w(1)] w(2,3) show ?thesis by (auto simp: forward_def)
    qed
    moreover have alone: "\<not> (staging_used g' \<and> gr_SelfUpdateID g' = gr_SelfUpdateID h)"
      if "mget (hostSelfUpdateGrants s) i = Some g'" "gr_Operation h = ''stage''" for i g'
      using staging_used_status [OF wf(3) that(1)] used(4,6) h that(2) by (metis option.inject)
    have "i = j" if "mget (hostSelfUpdateGrants t) i = Some a" "mget (hostSelfUpdateGrants t) j = Some b" "staging_used a" "staging_used b"
      "gr_SelfUpdateID a = gr_SelfUpdateID b" for i j a b
    proof (cases "i = gr_ID g"; cases "j = gr_ID g")
      assume "i \<noteq> gr_ID g" "j \<noteq> gr_ID g"
      with that grants wf(3) show "i = j" unfolding grants_ok_def by (metis (no_types, lifting))
    qed (use that grants alone [of i a] alone [of j b] in simp_all)
    moreover have "keyed gr_ID (hostSelfUpdateGrants t)" using used(5) wf(2) by (simp add: keyed_mput)
    ultimately show ?thesis unfolding grants_ok_def by (intro conjI allI impI) simp_all
  qed (use wf in simp_all)
qed

text \<open>A grant that was consumed is never written again.\<close>

lemma issue_keeps_used:
  assumes "mget (hostSelfUpdateGrants s) uuid = None" and "mget (hostSelfUpdateGrants s) i = Some g" and "gr_ConsumedAt g \<noteq> None"
    and "keyed gr_ID (hostSelfUpdateGrants s)"
  shows "mget (hostSelfUpdateGrants (snd (IssueSystemUpdateHostSelfUpdateGrant en canceled uuid draw ip s))) i = Some g"
proof -
  have fresh: "i \<noteq> uuid" using assms(1,2) by auto
  have other: "gr_ConsumedAt b \<noteq> None" if "find P (hostSelfUpdateGrants s) = Some (i, b)" for P b
  proof -
    from that have "(i, b) \<in> set (hostSelfUpdateGrants s)" by (auto simp: find_Some_iff in_set_conv_nth)
    then have "mget (hostSelfUpdateGrants s) i = Some b" using keyed_mwf [OF assms(4)] by (simp add: mget_iff)
    with assms(2,3) show ?thesis by simp
  qed
  from fresh assms(2) show ?thesis
    by (simp add: IssueSystemUpdateHostSelfUpdateGrant_def Let_def split: option.splits) (blast dest: other)
qed

lemma used_grant_kept:
  assumes "update_step sha s t" and "update_ok s" and "mget (hostSelfUpdateGrants s) i = Some g" and "gr_ConsumedAt g \<noteq> None"
  shows "mget (hostSelfUpdateGrants t) i = Some g"
proof -
  have keyed: "keyed gr_ID (hostSelfUpdateGrants s)" using assms(2) by (simp add: update_ok_def)
  have consumed: "mget (hostSelfUpdateGrants t') i = Some g" if "ConsumeSystemUpdateHostSelfUpdateGrant en canceled p s = (res, t')" for en canceled p res t'
    using that keyed
  proof (cases rule: consume_outcome)
    case (used g' h u)
    then have "gr_ID h \<noteq> i" using assms(3,4) by (auto simp: used_up_def)
    with used(5) assms(3) show ?thesis by simp
  qed (use assms(3) in simp_all)
  from assms(1) show ?thesis
  proof cases
    case (consume en canceled p)
    then show ?thesis using consumed [of en canceled p] by (metis prod.collapse)
  qed (use assms(3,4) keyed in \<open>simp_all add: quiet_grants issue_keeps_used\<close>)
qed

lemma update_ok_init: "update_ok NewMemorySystemUpdateStore"
  by (simp add: update_ok_def NewMemorySystemUpdateStore_def one_per_host_def grants_ok_def)

lemma update_ok_step:
  assumes "update_step sha s t" and ok: "update_ok s"
  shows "update_ok t"
proof -
  have effect: "update_effect s t" by (rule step_effect [OF assms])
  have wf: "keyed gr_ID (hostSelfUpdateGrants s)" "grants_ok s" using ok by (simp_all add: update_ok_def)
  have "keyed gr_ID (hostSelfUpdateGrants t) \<and> grants_ok t"
  proof (cases "grants_effect s t")
    case True
    then show ?thesis using grants_kept [OF effect True wf(2)] by (simp add: grants_effect_def)
  next
    case False
    with assms(1) wf obtain en canceled p where "t = snd (ConsumeSystemUpdateHostSelfUpdateGrant en canceled p s)"
      by (cases rule: update_step.cases) (simp_all add: grants_same quiet_grants issue_grants)
    with consume_grants [OF ok, of en canceled p] show ?thesis by (metis prod.collapse)
  qed
  then show ?thesis using effect_keeps_updates [OF effect ok] by (simp add: update_ok_def)
qed

lemma used_grant_stays:
  assumes "(update_step sha)\<^sup>*\<^sup>* s t" and "update_ok s" and "mget (hostSelfUpdateGrants s) i = Some g" and "gr_ConsumedAt g \<noteq> None"
  shows "update_ok t \<and> mget (hostSelfUpdateGrants t) i = Some g"
  using assms(1)
proof (induction rule: rtranclp_induct)
  case base
  show ?case using assms(2,3) by simp
next
  case (step t t')
  then show ?case using update_ok_step used_grant_kept assms(4) by blast
qed

interpretation self_update: inductive_invariant "\<lambda>s. s = NewMemorySystemUpdateStore" "update_step sha" update_ok
  by unfold_locales (simp_all add: update_ok_init update_ok_step)

abbreviation update_reach :: "(string \<Rightarrow> string) \<Rightarrow> update_store \<Rightarrow> bool" where
  "update_reach sha \<equiv> reach (\<lambda>s. s = NewMemorySystemUpdateStore) (update_step sha)"

subsection \<open>An example\<close>

definition example_agent :: registered_service where
  "example_agent = zero_service\<lparr>sv_ServiceID := ''agent1'', sv_ServiceType := ''update_agent'', sv_TransportMode := ''pull_v2'',
     sv_ExecutionHostID := ''host1'', sv_OwnershipEpoch := 1, sv_ReportedVersion := ''v1.0.0'', sv_TokenID := ''t1'', sv_ReportedOS := ''linux'',
     sv_ReportedArch := ''amd64'', sv_ReportedCapabilities :=
       [(''self_update_ready'', ABool True), (''mutation_enabled'', ABool True), (''self_update_phase'', AStr ''stable''),
        (''executor_version'', AStr ''v1.0.0''), (''self_update_active_agent_version'', AStr ''v1.0.0''),
        (''self_update_active_executor_version'', AStr ''v1.0.0''), (''agent_protocol_version'', AStr ''2''),
        (''executor_protocol_version'', AStr ''2''), (''mutation_protocol_version'', AStr ''2''), (''recovery_protocol_version'', AStr ''2'')]\<rparr>"

definition example_env :: update_env where
  "example_env = \<lparr>ue_semverValid = \<lambda>_. True, ue_semverCompare = \<lambda>_ _. 1, ue_marshal = \<lambda>_ _ _ _. Some ''{}'', ue_sha256hex = \<lambda>x. x,
     ue_registry = NewMemoryAuthStore\<lparr>services := [(''agent1'', example_agent)],
       serviceTokens := [(''t1'', \<lparr>tk_ID = ''t1'', tk_ServiceType = ''update_agent'', tk_Scopes = [], tk_RevokedAt = None, tk_CreatedAt = 1,
         tk_RawToken = [], tk_TokenHash = ''h''\<rparr>)]\<rparr>,
     ue_policies = [(''agent1'', \<lparr>up_UpdaterID = ''agent1'', up_Revision = 1, up_ProjectionRevision = 1, up_LocalExecutorPolicyRevision = 1,
       up_TransportMode = ''pull_v2'', up_ExecutionHostID = ''host1'', up_LocalExecutorPolicySHA256 = ''sha256:'' @ replicate 64 (CHR ''a'')\<rparr>)]\<rparr>"

definition example_release :: release_metadata where
  "example_release = \<lparr>rl_Tag = ''v1.1.0'', rl_Commit = replicate 40 (CHR ''c''), rl_PublishedAt = 5, rl_ManifestAssetID = 1,
     rl_ManifestAssetName = ''host-agent-manifest.json'', rl_ManifestSHA256 = replicate 64 (CHR ''a''), rl_ManifestChecksumAssetID = 2,
     rl_ManifestChecksumSHA256 = replicate 64 (CHR ''b''), rl_ArchiveAssetID = 3,
     rl_ArchiveAssetName = ''autostream-host-agent_v1.1.0_linux_amd64.tar.gz'', rl_ArchiveSize = 9, rl_ArchiveSHA256 = replicate 64 (CHR ''c''),
     rl_ArchiveChecksumAssetID = 4, rl_ArchiveChecksumSHA256 = replicate 64 (CHR ''d''), rl_Arch = ''amd64'', rl_AgentProtocolVersion = 2,
     rl_ExecutorProtocolVersion = 2, rl_MutationProtocolVersion = 2, rl_RecoveryProtocolVersion = 2, rl_MinimumPanelVersion = ''v1.0.0'',
     rl_AttestationVerifiedAt = 6, rl_PublishedInUTC = True, rl_AttestationInUTC = True\<rparr>"

definition example_params :: create_params where
  "example_params = \<lparr>cp_ExecutionHostID = ''host1'', cp_TargetVersion = ''v1.1.0'', cp_IdempotencyKey = ''k1'', cp_RequestedByUserID = ''admin'',
     cp_RequestedByUsername = ''Admin'', cp_RetryOfID = [], cp_Release = example_release, cp_Now = 10\<rparr>"

definition example_owned :: update_store where
  "example_owned = snd (SwitchSystemUpdateExecutionHost False 4 ''host1'' 0 ''pull_v2'' ''agent1'' 1 NewMemorySystemUpdateStore)"

definition example_created :: update_store where
  "example_created = snd (CreateSystemUpdateHostSelfUpdate example_env False ''u1'' ''gen1'' example_params example_owned)"

definition example_issue :: issue_params where
  "example_issue = \<lparr>ip_SelfUpdateID = ''u1'', ip_ExecutionHostID = ''host1'', ip_AgentServiceID = ''agent1'', ip_ExpectedRevision = 1,
     ip_Operation = ''stage'', ip_PlanSHA256 = replicate 64 (CHR ''e''), ip_SessionID = ''s1'', ip_Now = 20, ip_TTL = 60 * second\<rparr>"

definition example_granted :: update_store where
  "example_granted = snd (IssueSystemUpdateHostSelfUpdateGrant example_env False ''g1'' (Some ''x'') example_issue example_created)"

definition example_consume :: consume_params where
  "example_consume = \<lparr>co_RawToken = ''ast_hsug_x'', co_Binding = snd (hd (hostSelfUpdateGrants example_granted)), co_Now = 30\<rparr>"

definition example_consumed :: "consume_result updated" where
  "example_consumed = ConsumeSystemUpdateHostSelfUpdateGrant example_env False example_consume example_granted"

lemma example_created_ok: "map (su_Status \<circ> snd) (hostSelfUpdates example_created) = [''queued'']"
  by code_simp

lemma example_consumed_ok:
  "case fst example_consumed of Inl _ \<Rightarrow> False
   | Inr r \<Rightarrow> cr_Consumed r \<and> gr_Operation (cr_Grant r) = ''stage'' \<and> gr_SelfUpdateID (cr_Grant r) = ''u1''"
  by code_simp

lemma example_reach: "update_reach (\<lambda>x. x) example_created" "update_reach (\<lambda>x. x) example_granted"
proof -
  have "update_reach (\<lambda>x. x) NewMemorySystemUpdateStore" by (rule reach_init) simp
  then have "update_reach (\<lambda>x. x) example_owned" unfolding example_owned_def by (rule reach_step) (rule switch_is_elsewhere)
  then show created: "update_reach (\<lambda>x. x) example_created"
    unfolding example_created_def by (rule reach_step) (intro update_step.create, code_simp)
  have "hostSelfUpdateGrants example_created = []" by code_simp
  then show "update_reach (\<lambda>x. x) example_granted"
    using created unfolding example_granted_def by (intro reach_step [OF created] update_step.issue) (simp_all add: example_env_def)
qed

subsection \<open>Properties\<close>

text \<open>
  C24. A host has one self-update at a time, and an update only moves forward. In every reachable state two
  updates of the same host that are both unfinished are the same one. Whatever happens next, to an update
  and around it, it stays, with its host, agent, version, release and attempt; a finished update does not change
  any more; and a change of status raises the revision and leads to a later phase or to an end.
\<close>

theorem host_updates_move_forward:
  assumes "update_reach sha s"
  shows "(\<forall>i u j v. mget (hostSelfUpdates s) i = Some u \<and> mget (hostSelfUpdates s) j = Some v \<and> su_ExecutionHostID u = su_ExecutionHostID v \<and>
      \<not> over u \<and> \<not> over v \<longrightarrow> i = j) \<and>
    (\<forall>t i u. update_step sha s t \<and> mget (hostSelfUpdates s) i = Some u \<longrightarrow>
      (\<exists>v. mget (hostSelfUpdates t) i = Some v \<and> same_attempt u v \<and> su_Revision u \<le> su_Revision v \<and> (over u \<longrightarrow> v = u) \<and>
        (su_Status v \<noteq> su_Status u \<longrightarrow>
           su_Revision u < su_Revision v \<and> (over v \<or> status_rank (su_Status u) < status_rank (su_Status v)))))"
proof -
  have ok: "update_ok s" using self_update.inv_reach [OF assms] .
  have "\<exists>v. mget (hostSelfUpdates t) i = Some v \<and> forward u v" if "update_step sha s t" "mget (hostSelfUpdates s) i = Some u" for t i u
    using effect_forward [OF step_effect [OF that(1) ok] that(2)] .
  moreover have "one_per_host s" using ok by (simp add: update_ok_def)
  ultimately show ?thesis unfolding one_per_host_def forward_def by (intro conjI allI impI) blast+
qed

theorem host_updates_move_forward_witness:
  "\<exists>u v. mget (hostSelfUpdates example_created) ''u1'' = Some u \<and> su_Status u = ''queued'' \<and>
     mget (hostSelfUpdates (snd (CancelSystemUpdateHostSelfUpdate False ''u1'' ''admin'' 1 40 example_created))) ''u1'' = Some v \<and>
     su_Revision u < su_Revision v \<and> same_attempt u v \<and> su_Status v = ''canceled''"
proof -
  let ?t = "snd (CancelSystemUpdateHostSelfUpdate False ''u1'' ''admin'' 1 40 example_created)"
  have u: "map_option su_Status (mget (hostSelfUpdates example_created) ''u1'') = Some ''queued''"
    "map_option su_Status (mget (hostSelfUpdates ?t) ''u1'') = Some ''canceled''" by code_simp+
  then obtain u v0 where u0: "mget (hostSelfUpdates example_created) ''u1'' = Some u" "su_Status u = ''queued''"
    and v0: "mget (hostSelfUpdates ?t) ''u1'' = Some v0" "su_Status v0 = ''canceled''"
    unfolding map_option_eq_Some by blast
  have "update_step (\<lambda>x. x) example_created ?t" by (rule update_step.cancel)
  with host_updates_move_forward [OF example_reach(1), THEN conjunct2] u0(1) obtain v where
    v: "mget (hostSelfUpdates ?t) ''u1'' = Some v" "same_attempt u v" "su_Status v \<noteq> su_Status u \<longrightarrow> su_Revision u < su_Revision v" by blast
  from v(1) v0 have "su_Status v = ''canceled''" by simp
  with v u0 show ?thesis by (intro exI [of _ u] exI [of _ v] conjI) simp_all
qed

text \<open>
  C23. The root process of a host is let through to stage a release once. After a staging grant was consumed,
  and whatever happens afterwards, every accepted answer about a staging grant of that update repeats the
  one that was consumed, marked as used before, and changes nothing; and the update can no longer be cancelled.
\<close>

theorem host_update_staged_once:
  assumes reach: "update_reach sha s"
    and first: "ConsumeSystemUpdateHostSelfUpdateGrant en canceled p s = (Inr r, t)" "cr_Consumed r" "gr_Operation (cr_Grant r) = ''stage''"
    and env: "ue_sha256hex en = sha" and later: "(update_step sha)\<^sup>*\<^sup>* t t'"
  shows "(\<forall>en' canceled' p' r' t''. ConsumeSystemUpdateHostSelfUpdateGrant en' canceled' p' t' = (Inr r', t'') \<and>
        gr_SelfUpdateID (cr_Grant r') = gr_SelfUpdateID (cr_Grant r) \<and> gr_Operation (cr_Grant r') = ''stage'' \<longrightarrow>
        \<not> cr_Consumed r' \<and> gr_ID (cr_Grant r') = gr_ID (cr_Grant r) \<and> t'' = t') \<and>
      (\<forall>canceled' i actor expected now. trimSpace i = gr_SelfUpdateID (cr_Grant r) \<longrightarrow>
        (\<exists>e. CancelSystemUpdateHostSelfUpdate canceled' i actor expected now t' = (Inl e, t')))"
proof -
  have ok: "update_ok s" by (rule self_update.inv_reach [OF reach])
  then have keyed: "keyed gr_ID (hostSelfUpdateGrants s)" by (simp add: update_ok_def)
  obtain h where h: "r = consume_answer h True" "mget (hostSelfUpdateGrants t) (gr_ID h) = Some h" "gr_ConsumedAt h \<noteq> None"
    using first(1) keyed
  proof (cases rule: consume_outcome)
    case (used g h u)
    then show thesis using that [of h] by (simp add: used_up_def)
  qed (use first(2) in \<open>simp_all add: consume_answer_def\<close>)
  then have stage: "gr_Operation h = ''stage''" "gr_SelfUpdateID (cr_Grant r) = gr_SelfUpdateID h" "gr_ID (cr_Grant r) = gr_ID h"
    using first(3) by (simp_all add: consume_answer_def publicSystemUpdateHostSelfUpdateGrant_def)
  have "update_step sha s t" using update_step.consume [OF env, of s canceled p] first(1) by simp
  then have "update_ok t" using ok by (rule update_ok_step)
  from used_grant_stays [OF later this h(2,3)] have ok': "update_ok t'" and here: "mget (hostSelfUpdateGrants t') (gr_ID h) = Some h" by simp_all
  then have wf: "keyed gr_ID (hostSelfUpdateGrants t')" "grants_ok t'" by (simp_all add: update_ok_def)
  obtain w where w: "mget (hostSelfUpdates t') (gr_SelfUpdateID h) = Some w" "su_Status w \<noteq> ''queued''"
    using staging_used_status [OF wf(2) here] stage(1) h(3) by blast
  have "\<not> cr_Consumed r' \<and> gr_ID (cr_Grant r') = gr_ID (cr_Grant r) \<and> t'' = t'"
    if again: "ConsumeSystemUpdateHostSelfUpdateGrant en' canceled' p' t' = (Inr r', t'')"
      and about: "gr_SelfUpdateID (cr_Grant r') = gr_SelfUpdateID (cr_Grant r)" "gr_Operation (cr_Grant r') = ''stage''"
    for en' canceled' p' r' t''
    using again wf(1)
  proof (cases rule: consume_outcome)
    case (repeated g)
    then have g: "staging_used g" "gr_SelfUpdateID g = gr_SelfUpdateID h"
      using about stage by (simp_all add: consume_answer_def publicSystemUpdateHostSelfUpdateGrant_def)
    then have "gr_ID g = gr_ID h" using wf(2) repeated(3) here stage(1) h(3) unfolding grants_ok_def by blast
    then show ?thesis using repeated stage(3) by (simp add: consume_answer_def publicSystemUpdateHostSelfUpdateGrant_def)
  next
    case (used g h' u)
    then have "gr_Operation g = ''stage''" "gr_SelfUpdateID g = gr_SelfUpdateID h"
      using about stage(2) by (simp_all add: consume_answer_def publicSystemUpdateHostSelfUpdateGrant_def used_up_def)
    with used(4,6) w show ?thesis by simp
  qed simp
  moreover have "\<exists>e. CancelSystemUpdateHostSelfUpdate canceled' i actor expected now t' = (Inl e, t')"
    if "trimSpace i = gr_SelfUpdateID (cr_Grant r)" for canceled' i actor expected now
    using w that stage(2) by (simp add: CancelSystemUpdateHostSelfUpdate_def Let_def)
  ultimately show ?thesis by blast
qed

theorem host_update_staged_once_witness:
  "\<exists>r t e. example_consumed = (Inr r, t) \<and> cr_Consumed r \<and>
     CancelSystemUpdateHostSelfUpdate False ''u1'' ''admin'' 2 40 t = (Inl e, t)"
proof -
  obtain r t where r: "example_consumed = (Inr r, t)" "cr_Consumed r" "gr_Operation (cr_Grant r) = ''stage''" "gr_SelfUpdateID (cr_Grant r) = ''u1''"
  proof (cases "fst example_consumed")
    case (Inr r)
    then have "example_consumed = (Inr r, snd example_consumed)" by (metis prod.collapse)
    then show thesis using that example_consumed_ok Inr by simp
  qed (use example_consumed_ok in simp)
  have id: "trimSpace ''u1'' = gr_SelfUpdateID (cr_Grant r)" unfolding r(4) by code_simp
  have "ue_sha256hex example_env = (\<lambda>x. x)" by (simp add: example_env_def)
  from host_update_staged_once [OF example_reach(2) r(1) [unfolded example_consumed_def] r(2,3) this rtranclp.rtrancl_refl, THEN conjunct2] id
  obtain e where "CancelSystemUpdateHostSelfUpdate False ''u1'' ''admin'' 2 40 t = (Inl e, t)" by blast
  with r(1,2) show ?thesis by blast
qed

end
