(* ===== verification/Spec2Isabelle.thy ===== *)
theory Spec2Isabelle
  imports Start_Properties Outbox_Properties Relay_Properties Catalog_Properties Login_Properties
    Archive_Properties Cover_Properties Self_Update_Properties
begin

text \<open>
  \<^bold>\<open>The control panel.\<close> The program is the central control plane of a streaming system. Streams are created,
  given services (an encoder, a worker, a Discord bot), started, announced, stopped and archived;
  services register, prove themselves by tokens, report their health and are configured; people sign in,
  administer users and watch an audit log. Its state lives in stores. Each store has a memory
  implementation and one over MariaDB behind the same Go interface. The development models the memory
  implementations under \<^verbatim>\<open>src/internal/store\<close> and \<^verbatim>\<open>src/internal/videocover\<close>, the value checks both
  implementations share, the security primitives of \<^verbatim>\<open>src/internal/security\<close>, \<^verbatim>\<open>netpolicy\<close> and
  \<^verbatim>\<open>ingesttoken\<close>, and the handlers of \<^verbatim>\<open>src/internal/httpapi\<close> for signing in.

  \<^bold>\<open>Conventions.\<close> A Go struct is a record whose fields carry a prefix of the type (\<open>st_Status\<close> is
  \<^verbatim>\<open>Stream.Status\<close>), a Go map is an association list without duplicate keys (\<open>gomap\<close>), a string is the list
  of its bytes, \<^verbatim>\<open>time.Time\<close> is an integer in nanoseconds with 0 the zero time, and revisions that may wrap
  are 64-bit words. A method on a store is a function from its arguments and the store to a result
  (\<open>Inl\<close> the error, \<open>Inr\<close> the value) and the store afterwards. The context is the first argument \<open>c\<close>: an
  error it already holds when the method looks at it. What a method reads from outside is an argument:
  the clock (\<open>now\<close>), drawn identifiers and tokens, the hash, the MAC, the password function, JSON, URL and
  address parsing, the resolver. A mutex makes each method one atomic step, so concurrent use is a sequence
  of steps in any order; an operation that holds two stores at once is one step on both. Where Go ranges over
  a map in random order, the model takes the order of the list, which the theorems leave arbitrary; for the
  consistency check of assignments the result is shown not to depend on it.

  \<^bold>\<open>Theories.\<close>

  \<^item> \<open>Prelude\<close>: strings, times, errors, Go maps (locale \<open>go_map\<close>), reachability and the locale
    \<open>inductive_invariant\<close>, which every state machine below instantiates; the \<open>outcome\<close> rules by which the
    proofs walk through a method's branches.
  \<^item> \<open>Stream_Types\<close>, \<open>Artifact_Values\<close>, \<open>Stream_Store\<close>, \<open>Stream_Archive\<close>, \<open>Stop_Receipts\<close>,
    \<open>Archive_Properties\<close>: \<^verbatim>\<open>streams.go\<close>, \<^verbatim>\<open>stream_artifact_values.go\<close>, \<^verbatim>\<open>memory.go\<close>, the
    \<^verbatim>\<open>memory_stream_*\<close> files and \<^verbatim>\<open>stream_stop_receipts.go\<close>. A stop is a compare-and-swap (locales
    \<open>stream_cas\<close>, \<open>fenced_transition\<close>): of two racing callers one wins, a claimed stop can be completed, and
    nothing but its completion resolves it. Artifacts stay inside the archive tree. The history loop of the
    web panel is a partial function shown to return with the whole history.
  \<^item> \<open>Service_Registry\<close>, \<open>Panel\<close>, \<open>Registry_Invariant\<close>, \<open>Assignment_Guard\<close>, \<open>Guard_Effects\<close>, \<open>Guard_Invariant\<close>,
    \<open>Guard_Contract\<close>: services and their assignment to streams (\<^verbatim>\<open>services.go\<close>,
    \<^verbatim>\<open>memory_service_assignments_events.go\<close>, \<^verbatim>\<open>service_assignment_guard.go\<close>,
    \<^verbatim>\<open>stream_create_assignments.go\<close>, \<^verbatim>\<open>memory_stream_settings.go\<close>) over the joined stores. The registry stays
    consistent, the services of a protected stream are frozen, assignment and deletion do what they promise.
  \<^item> \<open>Start_Claim\<close>, \<open>Start_Effects\<close>, \<open>Start_Properties\<close>: the atomic start of a stream
    (\<^verbatim>\<open>memory_stream_start_claim.go\<close>, \<^verbatim>\<open>stream_start_claim_clock.go\<close>): a start has one owner, whose
    fence dies when the start is superseded, and who can always finish it.
  \<^item> \<open>Notification_Outbox\<close>, \<open>Outbox_Invariant\<close>, \<open>Outbox_Properties\<close>: the Discord announcement outbox, shown to
    refine the automaton of a single delivery (\<open>delivery_step\<close>), with leases, fences and one-time recovery.
  \<^item> \<open>Relay_Claims\<close>, \<open>Relay_Invariant\<close>, \<open>Relay_Properties\<close>: the claims on YouTube relay bindings
    (\<^verbatim>\<open>youtube_relay_claim_*\<close>): exclusive, released only when no encoder can be running behind them, and
    repeatable after a lost answer.
  \<^item> \<open>Outbound_Policy\<close>, \<open>Node_Tokens\<close>, \<open>Service_Catalog\<close>, \<open>Node_Steps\<close>, \<open>Node_Invariant\<close>,
    \<open>Node_Properties\<close>, \<open>Catalog_Properties\<close>: which addresses the panel dials, the tokens of services and the
    configuration of nodes (\<^verbatim>\<open>memory_services.go\<close>, \<^verbatim>\<open>memory_service_node_configuration.go\<close>), registration and
    reports (\<^verbatim>\<open>memory_service_registration.go\<close>, \<^verbatim>\<open>memory_service_reports.go\<close>,
    \<^verbatim>\<open>memory_service_catalog.go\<close>). Revoked tokens are dead, configuration tokens work once, what is stored is
    well formed and free of secrets.
  \<^item> \<open>Credentials\<close>, \<open>Audit_Log\<close>, \<open>Account_Store\<close>, \<open>Login_Server\<close>, \<open>Login_Steps\<close>, \<open>Audit_Trail\<close>,
    \<open>Login_Properties\<close>: passwords and one-time codes, audit redaction, accounts and sessions
    (\<^verbatim>\<open>memory_auth.go\<close>, \<^verbatim>\<open>memory_admin.go\<close>) and the sign-in handlers. Sessions are earned, ended sessions stay
    dead, guessing is bounded, the audit log keeps no secret.
  \<^item> \<open>Ingest_Tokens\<close>: signed tokens and their round trip (\<^verbatim>\<open>ingesttoken/token.go\<close>).
  \<^item> \<open>Video_Cover\<close>, \<open>Cover_Properties\<close>: cover presets and cover actions (\<^verbatim>\<open>videocover/memory.go\<close>,
    \<^verbatim>\<open>types.go\<close>): an action is sent once.
  \<^item> \<open>Self_Update\<close>, \<open>Self_Update_Properties\<close>: the self-updates of the agents on the update hosts and their one-time
    grants (\<^verbatim>\<open>system_update_host_self_update*.go\<close>, and the ownership of a host in
    \<^verbatim>\<open>system_update_execution_hosts.go\<close>): one update per host, moving forward, staged once, whatever the rest of the
    update store, the registry and the policies do meanwhile.

  \<^bold>\<open>Premises.\<close> Theorems over all runs quantify over every argument of every step: clocks need not be
  monotone, contexts may be cancelled, callers may repeat or forge anything. What they do assume is named in
  their statements or in the step relation: identifiers and tokens drawn at random are not in use yet, the
  hash does not collide on the values compared, JSON decoding inverts encoding on the values issued. No
  definition uses fuel except the matcher of \<open>Audit_Log\<close>, whose repetitions are bounded by the bytes left
  (every repeated expression consumes one); every other recursion is structural or has a termination proof,
  and the one loop that depends on the answers of a server, \<open>load_history\<close>, is shown to return.

  \<^bold>\<open>Not modelled.\<close> The MariaDB halves of the stores and the migrations (their behaviour is SQL's); the update
  jobs, port changes, token rotations and updater policies, of which the self-updates read only the fields
  that decide whether a host is free; profiles, integrations and settings beyond what
  the modelled components read; media assets and visual settings; the remaining handlers, which decode a
  request, call the stores and clients and write the answer, among them sign-in by external provider and by
  passkey; the HTTP clients of other services; process start and the web panel except its history loop.
  Floating-point values are copied and never computed with. Effects outside the stores (the encoder, the bot,
  YouTube, Discord) appear only as the calls that record what they answered.
\<close>

end
